(* ===== verification/Evidence_Prelude.thy ===== *)
theory Evidence_Prelude
  imports Main "HOL-Library.Word" "HOL-Library.List_Lexorder" "HOL-Library.Char_ord"
    "HOL-Library.Product_Lexorder" "HOL-Library.Option_ord"
begin

text \<open>
  Shared vocabulary of the development: the machine types of the Rust sources, results with
  early return, loops that stop at the first error, and the pieces of the Rust string library
  the corpus code uses. A Rust \<^verbatim>\<open>String\<close> is its UTF-8 byte sequence, one HOL \<open>char\<close> per
  byte, so \<open>length\<close> is \<^verbatim>\<open>str::len\<close> and the list order is the byte order of \<^verbatim>\<open>Ord for str\<close>.
\<close>

named_theorems loop_simps \<open>what a loop that stops at the first error returns\<close>
named_theorems frame_inj \<open>prefix-freeness of the canonical byte encoders\<close>

type_synonym u32 = "32 word"
type_synonym u64 = "64 word"
type_synonym uid = string
type_synonym bytes = string

section \<open>Results and the question-mark operator\<close>

abbreviation Ok :: "'a \<Rightarrow> 'e + 'a" where "Ok \<equiv> Inr"
abbreviation Err :: "'e \<Rightarrow> 'e + 'a" where "Err \<equiv> Inl"

definition rbind :: "'e + 'a \<Rightarrow> ('a \<Rightarrow> 'e + 'b) \<Rightarrow> 'e + 'b" where
  "rbind r f = (case r of Inl e \<Rightarrow> Inl e | Inr x \<Rightarrow> f x)"

definition map_err :: "('e \<Rightarrow> 'f) \<Rightarrow> 'e + 'a \<Rightarrow> 'f + 'a" where
  "map_err h r = (case r of Inl e \<Rightarrow> Inl (h e) | Inr x \<Rightarrow> Inr x)"

lemma rbind_simps [simp]: "rbind (Inl e) f = Inl e" "rbind (Inr x) f = f x"
  by (simp_all add: rbind_def)

lemma map_err_simps [simp]: "map_err h (Inl e) = Inl (h e)" "map_err h (Inr x) = Inr x"
  by (simp_all add: map_err_def)

lemma rbind_Ok_iff [loop_simps]: "rbind r f = Inr y \<longleftrightarrow> (\<exists>x. r = Inr x \<and> f x = Inr y)"
  by (cases r) auto

lemma rbind_Err_iff [loop_simps]:
  "rbind r f = Inl e \<longleftrightarrow> r = Inl e \<or> (\<exists>x. r = Inr x \<and> f x = Inl e)"
  by (cases r) auto

lemma map_err_Ok_iff [loop_simps]: "map_err h r = Inr x \<longleftrightarrow> r = Inr x"
  by (cases r) auto

lemma map_err_Err_iff [loop_simps]: "map_err h r = Inl d \<longleftrightarrow> (\<exists>e. r = Inl e \<and> d = h e)"
  by (cases r) auto

text \<open>A guard: return the error when the condition holds, else go on.\<close>

definition fail_if :: "bool \<Rightarrow> 'e \<Rightarrow> 'e + unit" where
  "fail_if b e = (if b then Inl e else Inr ())"

lemma fail_if_Ok_iff [loop_simps]: "fail_if b e = Inr u \<longleftrightarrow> \<not> b"
  by (simp add: fail_if_def)

lemma fail_if_Err_iff [loop_simps]: "fail_if b e = Inl d \<longleftrightarrow> b \<and> d = e"
  by (auto simp: fail_if_def)

lemma fail_if_simps [simp]: "fail_if True e = Inl e" "fail_if False e = Inr ()"
  by (simp_all add: fail_if_def)

section \<open>Loops that stop at the first error\<close>

fun for_each :: "('a \<Rightarrow> 'e + unit) \<Rightarrow> 'a list \<Rightarrow> 'e + unit" where
  "for_each f [] = Inr ()"
| "for_each f (x # xs) = (case f x of Inl e \<Rightarrow> Inl e | Inr _ \<Rightarrow> for_each f xs)"

fun fold_res :: "('s \<Rightarrow> 'a \<Rightarrow> 'e + 's) \<Rightarrow> 's \<Rightarrow> 'a list \<Rightarrow> 'e + 's" where
  "fold_res f s [] = Inr s"
| "fold_res f s (x # xs) = (case f s x of Inl e \<Rightarrow> Inl e | Inr s' \<Rightarrow> fold_res f s' xs)"

lemma for_each_Ok_iff [loop_simps]:
  "for_each f xs = Inr u \<longleftrightarrow> (\<forall>x \<in> set xs. f x = Inr ())"
  by (induction xs) (auto split: sum.splits)

lemma for_each_ErrE:
  assumes "for_each f xs = Inl e"
  obtains ys x zs where "xs = ys @ x # zs" "\<forall>y \<in> set ys. f y = Inr ()" "f x = Inl e"
  using assms
proof (induction xs arbitrary: thesis)
  case Nil
  then show ?case by simp
next
  case (Cons a xs)
  show ?case
  proof (cases "f a")
    case (Inl d)
    with Cons.prems show ?thesis by (intro Cons.prems(1) [of "[]"]) auto
  next
    case (Inr u)
    with Cons.prems(2) have "for_each f xs = Inl e" by simp
    then obtain ys x zs where "xs = ys @ x # zs" "\<forall>y \<in> set ys. f y = Inr ()" "f x = Inl e"
      by (rule Cons.IH [rotated])
    with Inr show ?thesis by (intro Cons.prems(1) [of "a # ys"]) auto
  qed
qed

lemma for_each_append:
  "for_each f (xs @ ys) = (case for_each f xs of Inl e \<Rightarrow> Inl e | Inr _ \<Rightarrow> for_each f ys)"
  by (induction xs) (auto split: sum.splits)

lemma for_each_cong [fundef_cong]:
  "xs = ys \<Longrightarrow> (\<And>x. x \<in> set ys \<Longrightarrow> f x = g x) \<Longrightarrow> for_each f xs = for_each g ys"
  by (induction xs arbitrary: ys) (auto split: sum.splits)

text \<open>The invariant rule for a loop that threads a state.\<close>

lemma fold_res_invariant:
  assumes "fold_res f s xs = Inr t" and "P s"
    and "\<And>s x s'. x \<in> set xs \<Longrightarrow> P s \<Longrightarrow> f s x = Inr s' \<Longrightarrow> P s'"
  shows "P t"
  using assms
proof (induction xs arbitrary: s)
  case Nil
  then show ?case by simp
next
  case (Cons x xs)
  from Cons.prems(1) obtain s' where s': "f s x = Inr s'" "fold_res f s' xs = Inr t"
    by (auto split: sum.splits)
  have "P s'" using Cons.prems(3) [of x s s'] Cons.prems(2) s'(1) by simp
  show ?case
  proof (rule Cons.IH [OF s'(2) \<open>P s'\<close>])
    fix u y u'
    assume "y \<in> set xs" "P u" "f u y = Inr u'"
    then show "P u'" using Cons.prems(3) [of y u u'] by simp
  qed
qed

lemma fold_res_append:
  "fold_res f s (xs @ ys) = (case fold_res f s xs of Inl e \<Rightarrow> Inl e | Inr t \<Rightarrow> fold_res f t ys)"
  by (induction xs arbitrary: s) (auto split: sum.splits)

section \<open>Bytes and strings\<close>

definition byte :: "char \<Rightarrow> nat" where
  "byte c = of_char c"

definition is_ascii_digit :: "char \<Rightarrow> bool" where
  "is_ascii_digit c \<longleftrightarrow> 48 \<le> byte c \<and> byte c \<le> 57"

definition is_ascii_upper :: "char \<Rightarrow> bool" where
  "is_ascii_upper c \<longleftrightarrow> 65 \<le> byte c \<and> byte c \<le> 90"

definition is_ascii_lower :: "char \<Rightarrow> bool" where
  "is_ascii_lower c \<longleftrightarrow> 97 \<le> byte c \<and> byte c \<le> 122"

definition is_ascii_alphabetic :: "char \<Rightarrow> bool" where
  "is_ascii_alphabetic c \<longleftrightarrow> is_ascii_upper c \<or> is_ascii_lower c"

definition is_ascii_alphanumeric :: "char \<Rightarrow> bool" where
  "is_ascii_alphanumeric c \<longleftrightarrow> is_ascii_alphabetic c \<or> is_ascii_digit c"

definition to_ascii_lower :: "char \<Rightarrow> char" where
  "to_ascii_lower c = (if is_ascii_upper c then char_of (byte c + 32) else c)"

definition eq_ignore_ascii_case :: "string \<Rightarrow> string \<Rightarrow> bool" where
  "eq_ignore_ascii_case a b \<longleftrightarrow> map to_ascii_lower a = map to_ascii_lower b"

text \<open>
  \<^verbatim>\<open>char::is_whitespace\<close> on UTF-8: the length in bytes of the Unicode White_Space scalar a
  byte sequence starts with, 0 when it starts with none. On valid UTF-8 the lead bytes tested
  occur only at scalar boundaries, so scanning byte by byte finds exactly the white space.
\<close>

fun ws_len :: "string \<Rightarrow> nat" where
  "ws_len [] = 0"
| "ws_len (a # rest) =
    (if (9 \<le> byte a \<and> byte a \<le> 13) \<or> byte a = 32 then 1
     else (case rest of
       [] \<Rightarrow> 0
     | b # rest' \<Rightarrow>
        if byte a = 194 \<and> (byte b = 133 \<or> byte b = 160) then 2
        else (case rest' of
          [] \<Rightarrow> 0
        | c # _ \<Rightarrow>
           if (byte a = 225 \<and> byte b = 154 \<and> byte c = 128)
             \<or> (byte a = 226 \<and> byte b = 128 \<and> ((128 \<le> byte c \<and> byte c \<le> 138)
                   \<or> byte c = 168 \<or> byte c = 169 \<or> byte c = 175))
             \<or> (byte a = 226 \<and> byte b = 129 \<and> byte c = 159)
             \<or> (byte a = 227 \<and> byte b = 128 \<and> byte c = 128)
           then 3 else 0)))"

lemma ws_len_le: "ws_len s \<le> length s"
  by (cases s rule: ws_len.cases) (auto split: list.splits)

function skip_ws :: "string \<Rightarrow> string" where
  "skip_ws s = (if ws_len s = 0 then s else skip_ws (drop (ws_len s) s))"
  by pat_completeness auto
termination
proof (relation "measure length")
  fix s assume "ws_len s \<noteq> 0"
  then show "(drop (ws_len s) s, s) \<in> measure length"
    using ws_len_le [of s] by (simp add: diff_less)
qed simp

declare skip_ws.simps [simp del]

text \<open>\<^verbatim>\<open>value.trim().is_empty()\<close>: nothing but white space.\<close>

definition is_blank :: "string \<Rightarrow> bool" where
  "is_blank s \<longleftrightarrow> skip_ws s = []"

lemma is_blank_Nil [simp]: "is_blank []"
  by (simp add: is_blank_def skip_ws.simps)

text \<open>The bytes up to the first white space: with \<open>skip_ws\<close>, the first token of
  \<^verbatim>\<open>split_whitespace\<close>.\<close>

fun take_token :: "string \<Rightarrow> string" where
  "take_token [] = []"
| "take_token (c # cs) = (if ws_len (c # cs) = 0 then c # take_token cs else [])"

definition strip_prefix :: "string \<Rightarrow> string \<Rightarrow> string option" where
  "strip_prefix p s = (if take (length p) s = p then Some (drop (length p) s) else None)"

lemma strip_prefix_Some_iff: "strip_prefix p s = Some t \<longleftrightarrow> s = p @ t"
  by (auto simp: strip_prefix_def append_eq_conv_conj)
     (metis append_take_drop_id)

text \<open>\<^verbatim>\<open>[String]::join\<close>.\<close>

fun join_with :: "string \<Rightarrow> string list \<Rightarrow> string" where
  "join_with sep [] = []"
| "join_with sep [p] = p"
| "join_with sep (p # q # ps) = p @ sep @ join_with sep (q # ps)"

text \<open>\<^verbatim>\<open>str::split_once\<close> for a non-empty pattern: the first occurrence decides.\<close>

fun split_once :: "string \<Rightarrow> string \<Rightarrow> (string \<times> string) option" where
  "split_once pat [] = (if pat = [] then Some ([], []) else None)"
| "split_once pat (c # cs) =
    (case strip_prefix pat (c # cs) of
       Some rest \<Rightarrow> Some ([], rest)
     | None \<Rightarrow> map_option (\<lambda>(a, b). (c # a, b)) (split_once pat cs))"

lemma split_once_Some: "split_once pat s = Some (a, b) \<Longrightarrow> s = a @ pat @ b"
  by (induction pat s arbitrary: a b rule: split_once.induct)
     (auto simp: strip_prefix_Some_iff split: if_splits option.splits)

text \<open>\<^verbatim>\<open>str::split\<close> on one byte: always at least one component.\<close>

fun split_on :: "char \<Rightarrow> string \<Rightarrow> string list" where
  "split_on d [] = [[]]"
| "split_on d (c # cs) =
    (if c = d then [] # split_on d cs
     else (case split_on d cs of [] \<Rightarrow> [[c]] | p # ps \<Rightarrow> (c # p) # ps))"

lemma split_on_nonempty [simp]: "split_on d s \<noteq> []"
  by (cases s) (auto split: list.splits)

lemma split_on_no_sep: "p \<in> set (split_on d s) \<Longrightarrow> d \<notin> set p"
  by (induction s arbitrary: p) (auto split: if_splits list.splits)

section \<open>Decimal formatting of unsigned integers\<close>

fun show_nat :: "nat \<Rightarrow> string" where
  "show_nat n = (if n < 10 then [char_of (48 + n)]
                 else show_nat (n div 10) @ [char_of (48 + n mod 10)])"

declare show_nat.simps [simp del]

section \<open>Sorting and removing adjacent duplicates\<close>

fun dedup :: "'a list \<Rightarrow> 'a list" where
  "dedup [] = []"
| "dedup [x] = [x]"
| "dedup (x # y # zs) = (if x = y then dedup (x # zs) else x # dedup (y # zs))"

lemma set_dedup [simp]: "set (dedup xs) = set xs"
  by (induction xs rule: dedup.induct) auto

lemma dedup_sorted_strict: "sorted xs \<Longrightarrow> sorted_wrt (<) (dedup (xs :: 'a::linorder list))"
proof (induction xs rule: dedup.induct)
  case (3 x y zs)
  then show ?case
    by (auto simp: order.order_iff_strict)
qed auto

lemma strict_sorted_set_unique:
  assumes "sorted_wrt (<) xs" "sorted_wrt (<) (ys :: 'a::linorder list)" "set xs = set ys"
  shows "xs = ys"
  using assms by (simp add: strict_sorted_equal)

lemma dedup_strict_id: "sorted_wrt (<) xs \<Longrightarrow> dedup (xs :: 'a::linorder list) = xs"
  by (intro strict_sorted_set_unique dedup_sorted_strict) (auto simp: strict_sorted_iff)

section \<open>The measure of a walk\<close>

text \<open>Visiting one more element leaves fewer unvisited ones.\<close>

lemma unvisited_shrinks:
  assumes "p \<in> set ns" "f p \<notin> set visited"
  shows "length (filter (\<lambda>n. f n \<noteq> f p \<and> f n \<notin> set visited) ns)
    < length (filter (\<lambda>n. f n \<notin> set visited) ns)"
proof -
  have "p \<in> set (filter (\<lambda>n. f n \<notin> set visited) ns)" using assms by simp
  then have "length (filter (\<lambda>n. f n \<noteq> f p) (filter (\<lambda>n. f n \<notin> set visited) ns))
      < length (filter (\<lambda>n. f n \<notin> set visited) ns)"
    by (intro length_filter_less) auto
  then show ?thesis by (simp add: conj_commute)
qed

section \<open>Enumerating a sorted list\<close>

lemma sorted_distinct_adj:
  "sorted xs \<Longrightarrow> distinct_adj xs \<Longrightarrow> sorted_wrt (<) (xs :: 'a::linorder list)"
proof (induction xs rule: induct_list012)
  case (3 x y zs)
  then have "sorted_wrt (<) (y # zs)" "x < y" by auto
  then show ?case by auto
qed simp_all

lemma strict_nat_ge_index:
  "sorted_wrt (<) (xs :: nat list) \<Longrightarrow> i < length xs \<Longrightarrow> i \<le> xs ! i"
proof (induction i)
  case (Suc i)
  then have "xs ! i < xs ! Suc i" using sorted_wrt_nth_less [of "(<)" xs i "Suc i"] by simp
  with Suc show ?case by simp
qed simp

lemma strict_nat_upt:
  assumes "sorted_wrt (<) (xs :: nat list)" "set xs = {..<length xs}"
  shows "xs = [0..<length xs]"
proof (rule strict_sorted_set_unique)
  show "set xs = set [0..<length xs]" unfolding assms(2) by (simp add: atLeast0LessThan)
qed (use assms(1) in \<open>simp_all\<close>)

lemma distinct_adj_strict: "sorted_wrt (<) (xs :: 'a::linorder list) \<Longrightarrow> distinct_adj xs"
  by (induction xs rule: induct_list012) auto

end
