(* ===== verification/Canonical_Bytes.thy ===== *)
theory Canonical_Bytes
  imports Evidence_Prelude
begin

text \<open>
  The canonical byte framing that every digest of the corpus hashes (the private
  \<^verbatim>\<open>push_count\<close>, \<^verbatim>\<open>push_str\<close>, \<^verbatim>\<open>push_opt\<close> of \<^verbatim>\<open>source_graph/normalization.rs\<close>,
  \<^verbatim>\<open>source_patch/digest.rs\<close> and \<^verbatim>\<open>review_content.rs\<close>, which are the same three functions):
  a big-endian 64-bit length before each string, and the all-ones length for an absent option.
  Each encoder is a function to the bytes it appends. The locale \<open>prefix_free\<close> is what a
  digest's injectivity rests on; the interpretations at the end show it of each encoder, for
  strings of the lengths a Rust allocation can have.
\<close>

section \<open>The interface of a canonical encoder\<close>

locale prefix_free =
  fixes enc :: "'a \<Rightarrow> bytes" and ok :: "'a \<Rightarrow> bool"
  assumes split: "ok a \<Longrightarrow> ok b \<Longrightarrow> enc a @ x = enc b @ y \<Longrightarrow> a = b \<and> x = y"
begin

lemma split_iff: "ok a \<Longrightarrow> ok b \<Longrightarrow> enc a @ x = enc b @ y \<longleftrightarrow> a = b \<and> x = y"
  using split by blast

lemma injective: "ok a \<Longrightarrow> ok b \<Longrightarrow> enc a = enc b \<longleftrightarrow> a = b"
  using split [of a b "[]" "[]"] by auto

lemma concat_split:
  "length as = length bs \<Longrightarrow> \<forall>a \<in> set as. ok a \<Longrightarrow> \<forall>b \<in> set bs. ok b \<Longrightarrow>
    concat (map enc as) @ x = concat (map enc bs) @ y \<Longrightarrow> as = bs \<and> x = y"
proof (induction as bs arbitrary: x y rule: list_induct2)
  case Nil
  then show ?case by simp
next
  case (Cons a as b bs)
  from Cons.prems have "a = b \<and> concat (map enc as) @ x = concat (map enc bs) @ y"
    by (intro split) simp_all
  moreover from this Cons.prems have "as = bs \<and> x = y" by (intro Cons.IH) simp_all
  ultimately show ?case by simp
qed

text \<open>When no encoding is empty, a concatenation also determines how many elements it has.\<close>

lemma concat_inj:
  assumes "\<And>a. enc a \<noteq> []"
  shows "\<forall>a \<in> set as. ok a \<Longrightarrow> \<forall>b \<in> set bs. ok b \<Longrightarrow>
    concat (map enc as) = concat (map enc bs) \<Longrightarrow> as = bs"
proof (induction as arbitrary: bs)
  case Nil
  then show ?case using assms by (cases bs) auto
next
  case (Cons a as)
  show ?case
  proof (cases bs)
    case Nil
    with Cons.prems(3) assms [of a] show ?thesis by simp
  next
    case bs: (Cons b bs')
    with Cons.prems have "a = b \<and> concat (map enc as) = concat (map enc bs')"
      by (intro split) simp_all
    moreover from this bs Cons.prems have "as = bs'" by (intro Cons.IH) simp_all
    ultimately show ?thesis by (simp add: bs)
  qed
qed

end

section \<open>The encoders\<close>

fun be_bytes :: "nat \<Rightarrow> nat \<Rightarrow> bytes" where
  "be_bytes 0 n = []"
| "be_bytes (Suc k) n = be_bytes k (n div 256) @ [char_of (n mod 256)]"

text \<open>\<^verbatim>\<open>(count as u64).to_be_bytes()\<close>: eight bytes, most significant first.\<close>

definition push_count :: "nat \<Rightarrow> bytes" where
  "push_count n = be_bytes 8 n"

definition push_str :: "string \<Rightarrow> bytes" where
  "push_str v = push_count (length v) @ v"

definition none_sentinel :: nat where
  "none_sentinel = 2 ^ 64 - 1"

definition push_opt :: "string option \<Rightarrow> bytes" where
  "push_opt v = (case v of Some s \<Rightarrow> push_str s | None \<Rightarrow> be_bytes 8 none_sentinel)"

text \<open>A counted sequence: the count, then each element.\<close>

definition push_seq :: "('a \<Rightarrow> bytes) \<Rightarrow> 'a list \<Rightarrow> bytes" where
  "push_seq enc xs = push_count (length xs) @ concat (map enc xs)"

text \<open>
  A Rust allocation holds at most \<^verbatim>\<open>isize::MAX\<close> bytes, so no string and no vector is longer;
  in particular no length equals the sentinel of an absent option.
\<close>

definition fits :: "string \<Rightarrow> bool" where
  "fits s \<longleftrightarrow> length s < 2 ^ 63"

definition fits_opt :: "string option \<Rightarrow> bool" where
  "fits_opt v \<longleftrightarrow> (case v of None \<Rightarrow> True | Some s \<Rightarrow> fits s)"

section \<open>Prefix-freeness\<close>

lemma length_be_bytes [simp]: "length (be_bytes k n) = k"
  by (induction k arbitrary: n) auto

lemma be_bytes_inj: "m < 256 ^ k \<Longrightarrow> n < 256 ^ k \<Longrightarrow> be_bytes k m = be_bytes k n \<Longrightarrow> m = n"
proof (induction k arbitrary: m n)
  case 0
  then show ?case by simp
next
  case (Suc k)
  from Suc.prems(3) have "be_bytes k (m div 256) = be_bytes k (n div 256)"
    and c: "(char_of (m mod 256) :: char) = char_of (n mod 256)" by simp_all
  moreover have "m div 256 < 256 ^ k" "n div 256 < 256 ^ k"
    using Suc.prems(1,2) by (auto intro: less_mult_imp_div_less simp: mult.commute)
  ultimately have "m div 256 = n div 256" by (intro Suc.IH)
  moreover have "m mod 256 = n mod 256"
    using c by (simp add: char_of_eq_iff of_char_of take_bit_eq_mod)
  ultimately show ?case by (metis div_mult_mod_eq)
qed

lemma be_bytes_split:
  "m < 256 ^ k \<Longrightarrow> n < 256 ^ k \<Longrightarrow> be_bytes k m @ x = be_bytes k n @ y \<Longrightarrow> m = n \<and> x = y"
  using be_bytes_inj [of m k n] by simp

interpretation count: prefix_free push_count "\<lambda>n. n < 2 ^ 64"
proof unfold_locales
  fix m n :: nat and x y
  assume "m < 2 ^ 64" "n < 2 ^ 64" "push_count m @ x = push_count n @ y"
  then show "m = n \<and> x = y" by (intro be_bytes_split [of m 8]) (simp_all add: push_count_def)
qed

lemma push_str_split:
  assumes "fits a" "fits b" "push_str a @ x = push_str b @ y"
  shows "a = b \<and> x = y"
proof -
  have "length a < 2 ^ 64" "length b < 2 ^ 64" using assms(1,2) by (simp_all add: fits_def)
  then have "length a = length b \<and> a @ x = b @ y"
    using assms(3) by (intro count.split) (simp_all add: push_str_def)
  then show ?thesis using append_eq_append_conv [of a b x y] by blast
qed

interpretation str: prefix_free push_str fits
  by unfold_locales (rule push_str_split)

lemma sentinel_not_str:
  assumes "fits s" shows "be_bytes 8 none_sentinel @ v \<noteq> push_str s @ w"
proof
  assume "be_bytes 8 none_sentinel @ v = push_str s @ w"
  then have "none_sentinel = length s \<and> v = s @ w"
    using assms by (intro count.split) (simp_all add: push_str_def push_count_def fits_def none_sentinel_def)
  with assms show False by (simp add: fits_def none_sentinel_def)
qed

lemma push_opt_split:
  assumes "fits_opt a" "fits_opt b" "push_opt a @ x = push_opt b @ y"
  shows "a = b \<and> x = y"
proof (cases a)
  case None
  then show ?thesis
    using assms sentinel_not_str by (cases b) (auto simp: push_opt_def fits_opt_def)
next
  case (Some s)
  then show ?thesis
    using assms sentinel_not_str [of s y x]
    by (cases b) (auto simp: push_opt_def fits_opt_def dest: push_str_split)
qed

interpretation opt: prefix_free push_opt fits_opt
  by unfold_locales (rule push_opt_split)

context prefix_free begin

lemma push_seq_split:
  assumes "length as < 2 ^ 64" "length bs < 2 ^ 64" "\<forall>a \<in> set as. ok a" "\<forall>b \<in> set bs. ok b"
    and "push_seq enc as @ x = push_seq enc bs @ y"
  shows "as = bs \<and> x = y"
proof -
  have "length as = length bs \<and> concat (map enc as) @ x = concat (map enc bs) @ y"
    using assms(1,2,5) by (intro count.split) (simp_all add: push_seq_def)
  with assms(3,4) show ?thesis by (intro concat_split) simp_all
qed

end

end
