(* ===== verification/Ordered_Map.thy ===== *)
theory Ordered_Map
  imports Evidence_Prelude
begin

text \<open>
  Rust's \<^verbatim>\<open>BTreeMap\<close>: a finite map whose iteration order is the key order. The model is the
  association list in that order, so the derived equality of two maps is the equality of the
  lists and every iteration of the sources (\<^verbatim>\<open>values()\<close>, \<^verbatim>\<open>keys()\<close>, \<^verbatim>\<open>for (k, v) in &map\<close>) is
  a list traversal. The interface the clients rely on is the locale \<open>ordered_map\<close>; the
  interpretation \<open>bm\<close> discharges its laws for the list representation.
\<close>

section \<open>The interface\<close>

locale ordered_map =
  fixes get :: "'m \<Rightarrow> 'k::linorder \<Rightarrow> 'v option"
    and ins :: "'k \<Rightarrow> 'v \<Rightarrow> 'm \<Rightarrow> 'm"
    and del :: "'k \<Rightarrow> 'm \<Rightarrow> 'm"
    and entries :: "'m \<Rightarrow> ('k \<times> 'v) list"
    and inv :: "'m \<Rightarrow> bool"
    and new :: "'m"
  assumes inv_new: "inv new" and entries_new: "entries new = []"
    and inv_ins: "inv m \<Longrightarrow> inv (ins k v m)"
    and inv_del: "inv m \<Longrightarrow> inv (del k m)"
    and get_ins: "get (ins k v m) j = (if j = k then Some v else get m j)"
    and get_del: "get (del k m) j = (if j = k then None else get m j)"
    and entries_get: "inv m \<Longrightarrow> (j, v) \<in> set (entries m) \<longleftrightarrow> get m j = Some v"
    and entries_sorted: "inv m \<Longrightarrow> sorted_wrt (<) (map fst (entries m))"
begin

lemma get_new: "get new k = None"
  using entries_get [OF inv_new, of k] by (cases "get new k") (auto simp: entries_new)

lemma entries_distinct: "inv m \<Longrightarrow> distinct (map fst (entries m))"
  using entries_sorted by (simp add: strict_sorted_iff)

text \<open>Two maps that agree on every key have the same entries in the same order.\<close>

lemma entries_unique:
  assumes "inv m" "inv n" "\<And>k. get m k = get n k"
  shows "entries m = entries n"
proof -
  have s: "set (entries m) = set (entries n)"
    using assms by (auto simp: entries_get)
  have "inj_on fst (set (entries m) \<union> set (entries n))"
    using entries_distinct [OF assms(1)] s by (simp add: distinct_map)
  with s show ?thesis
    using entries_sorted [OF assms(1)] entries_sorted [OF assms(2)]
    by (intro map_sorted_distinct_set_unique [of fst]) (simp_all add: strict_sorted_iff)
qed

end

section \<open>The representation\<close>

type_synonym ('k, 'v) bmap = "('k \<times> 'v) list"

definition bwf :: "('k::linorder, 'v) bmap \<Rightarrow> bool" where
  "bwf m \<longleftrightarrow> sorted_wrt (<) (map fst m)"

definition bget :: "('k, 'v) bmap \<Rightarrow> 'k \<Rightarrow> 'v option" where
  "bget m k = map_of m k"

fun bins :: "'k::linorder \<Rightarrow> 'v \<Rightarrow> ('k, 'v) bmap \<Rightarrow> ('k, 'v) bmap" where
  "bins k v [] = [(k, v)]"
| "bins k v ((j, w) # m) =
    (if k < j then (k, v) # (j, w) # m
     else if k = j then (k, v) # m
     else (j, w) # bins k v m)"

definition bdel :: "'k \<Rightarrow> ('k, 'v) bmap \<Rightarrow> ('k, 'v) bmap" where
  "bdel k m = filter (\<lambda>e. fst e \<noteq> k) m"

definition bvals :: "('k, 'v) bmap \<Rightarrow> 'v list" where
  "bvals m = map snd m"

definition bkeys :: "('k, 'v) bmap \<Rightarrow> 'k list" where
  "bkeys m = map fst m"

text \<open>\<^verbatim>\<open>get_mut\<close> followed by a mutation of the value; an absent key changes nothing.\<close>

definition bupd :: "'k \<Rightarrow> ('v \<Rightarrow> 'v) \<Rightarrow> ('k, 'v) bmap \<Rightarrow> ('k, 'v) bmap" where
  "bupd k f m = map (\<lambda>(j, v). (j, if j = k then f v else v)) m"

text \<open>\<^verbatim>\<open>entry(k).or_default().push(v)\<close>.\<close>

definition bpush :: "'k::linorder \<Rightarrow> 'v \<Rightarrow> ('k, 'v list) bmap \<Rightarrow> ('k, 'v list) bmap" where
  "bpush k v m = bins k ((case bget m k of None \<Rightarrow> [] | Some vs \<Rightarrow> vs) @ [v]) m"

lemma bget_Nil [simp]: "bget [] k = None"
  by (simp add: bget_def)

lemma bget_Cons [simp]: "bget ((j, w) # m) k = (if k = j then Some w else bget m k)"
  by (simp add: bget_def)

lemma bget_bins [simp]: "bget (bins k v m) j = (if j = k then Some v else bget m j)"
  by (induction k v m rule: bins.induct) auto

lemma set_bins_keys [simp]: "fst ` set (bins k v m) = insert k (fst ` set m)"
  by (induction k v m rule: bins.induct) auto

lemma bwf_Nil [simp]: "bwf []"
  by (simp add: bwf_def)

lemma bwf_Cons: "bwf ((j, w) # m) \<longleftrightarrow> (\<forall>k \<in> fst ` set m. j < k) \<and> bwf m"
  by (simp add: bwf_def)

lemma bwf_bins [simp]: "bwf m \<Longrightarrow> bwf (bins k v m)"
  by (induction k v m rule: bins.induct) (auto simp: bwf_Cons)

lemma bwf_bdel [simp]: "bwf m \<Longrightarrow> bwf (bdel k m)"
  by (induction m) (auto simp: bdel_def bwf_Cons bwf_def)

lemma bget_bdel [simp]: "bget (bdel k m) j = (if j = k then None else bget m j)"
  by (induction m) (auto simp: bdel_def)

lemma bwf_distinct: "bwf m \<Longrightarrow> distinct (map fst m)"
  by (simp add: bwf_def strict_sorted_iff)

lemma bget_Some_in: "bget m k = Some v \<Longrightarrow> (k, v) \<in> set m"
  by (simp add: bget_def map_of_SomeD)

lemma bget_iff_in: "bwf m \<Longrightarrow> bget m k = Some v \<longleftrightarrow> (k, v) \<in> set m"
  by (simp add: bget_def bwf_distinct)

lemma bget_None_iff: "bget m k = None \<longleftrightarrow> k \<notin> fst ` set m"
  by (simp add: bget_def map_of_eq_None_iff)

lemma bget_in_bvals: "bget m k = Some v \<Longrightarrow> v \<in> set (bvals m)"
  by (force simp: bvals_def dest: bget_Some_in)

lemma map_fst_bupd [simp]: "map fst (bupd k f m) = map fst m"
  by (auto simp: bupd_def)

lemma bwf_bupd [simp]: "bwf (bupd k f m) = bwf m"
  by (simp add: bwf_def)

lemma bget_bupd [simp]:
  "bget (bupd k f m) j = (if j = k then map_option f (bget m j) else bget m j)"
  by (induction m) (auto simp: bupd_def)

lemma bget_bpush [simp]:
  "bget (bpush k v m) j =
    (if j = k then Some ((case bget m k of None \<Rightarrow> [] | Some vs \<Rightarrow> vs) @ [v]) else bget m j)"
  by (simp add: bpush_def)

lemma bwf_bpush [simp]: "bwf m \<Longrightarrow> bwf (bpush k v m)"
  by (simp add: bpush_def)

interpretation bm: ordered_map bget bins bdel "\<lambda>m. m" bwf "[]"
  by unfold_locales (auto simp: bget_iff_in simp flip: bwf_def)

text \<open>Grouping a list by a key with \<open>bpush\<close>: each group is the sub-list with that key.\<close>

definition group_by :: "('a \<Rightarrow> 'k::linorder) \<Rightarrow> 'a list \<Rightarrow> ('k, 'a list) bmap" where
  "group_by f xs = fold (\<lambda>x. bpush (f x) x) xs []"

lemma bget_fold_bpush:
  "bget (fold (\<lambda>x. bpush (f x) (h x)) xs m) k =
    (if \<exists>x \<in> set xs. f x = k
     then Some ((case bget m k of None \<Rightarrow> [] | Some vs \<Rightarrow> vs)
                  @ map h (filter (\<lambda>x. f x = k) xs))
     else bget m k)"
  by (induction xs arbitrary: m) (auto split: option.splits)

lemma bwf_fold_bpush: "bwf m \<Longrightarrow> bwf (fold (\<lambda>x. bpush (f x) (h x)) xs m)"
  by (induction xs arbitrary: m) simp_all

lemma bwf_group_by [simp]: "bwf (group_by f xs)"
  by (simp add: group_by_def bwf_fold_bpush [where h = "\<lambda>x. x"])

lemma group_by_entry:
  "(k, g) \<in> set (group_by f xs) \<longleftrightarrow>
    (\<exists>x \<in> set xs. f x = k) \<and> g = filter (\<lambda>x. f x = k) xs"
proof -
  have "(k, g) \<in> set (group_by f xs) \<longleftrightarrow> bget (group_by f xs) k = Some g"
    by (simp add: bget_iff_in)
  then show ?thesis
    by (auto simp: group_by_def bget_fold_bpush [where h = "\<lambda>x. x", simplified] split: if_splits)
qed

lemma ball_group_by:
  "(\<forall>e \<in> set (group_by f xs). P (snd e)) \<longleftrightarrow>
    (\<forall>x \<in> set xs. P (filter (\<lambda>y. f y = f x) xs))"
proof -
  have "(\<forall>e \<in> set (group_by f xs). P (snd e)) \<longleftrightarrow>
      (\<forall>k g. (k, g) \<in> set (group_by f xs) \<longrightarrow> P g)" by force
  then show ?thesis by (auto simp: group_by_entry)
qed

end
