(* ===== verification/Corpus_Types.thy ===== *)
theory Corpus_Types
  imports Canonical_Bytes Ordered_Map
begin

text \<open>
  The closed vocabularies of the corpus model (\<^verbatim>\<open>corpus/digest.rs\<close>, the enumerations of
  \<^verbatim>\<open>corpus/graph/nodes.rs\<close>, \<^verbatim>\<open>corpus/source_graph.rs\<close> and \<^verbatim>\<open>corpus/source_graph/locator.rs\<close>)
  and the error taxonomies of its modules, one constructor per Rust variant with the fields in
  the source's order. An error of a library (\<^verbatim>\<open>std::io\<close>, \<^verbatim>\<open>toml\<close>, \<^verbatim>\<open>walkdir\<close>) is carried as
  its message; a \<^verbatim>\<open>PathBuf\<close> is its string.
\<close>

section \<open>What the code takes from outside the repository\<close>

text \<open>
  The hasher (\<^verbatim>\<open>sha2\<close>, behind \<^verbatim>\<open>crate::hash::sha256\<close>), the shortest round-trip rendering of an
  \<^verbatim>\<open>f64\<close>, the UUID parser (\<^verbatim>\<open>uuid\<close>), the timestamp parser (\<^verbatim>\<open>chrono\<close>) and Unicode NFC
  (\<^verbatim>\<open>unicode-normalization\<close>) are parameters of every definition that uses them.
\<close>

type_synonym f64 = "64 word"

record platform =
  sha256 :: "bytes \<Rightarrow> string"
  show_f64 :: "f64 \<Rightarrow> string"
  is_uuid_v4 :: "string \<Rightarrow> bool"
  is_rfc3339 :: "string \<Rightarrow> bool"
  nfc :: "string \<Rightarrow> string"

text \<open>
  An \<^verbatim>\<open>f64\<close> is its bit pattern: sign, eleven exponent bits, fifty-two fraction bits. On
  non-NaN patterns the IEEE order is the order of the signed magnitude, with both zeros equal.
\<close>

definition f64_magnitude :: "f64 \<Rightarrow> int" where
  "f64_magnitude b = int (unat (take_bit 63 b))"

definition f64_is_finite :: "f64 \<Rightarrow> bool" where
  "f64_is_finite b \<longleftrightarrow> f64_magnitude b < 2047 * 2 ^ 52"

definition f64_is_nan :: "f64 \<Rightarrow> bool" where
  "f64_is_nan b \<longleftrightarrow> f64_magnitude b > 2047 * 2 ^ 52"

definition f64_key :: "f64 \<Rightarrow> int" where
  "f64_key b = (if bit b 63 then - f64_magnitude b else f64_magnitude b)"

definition f64_less :: "f64 \<Rightarrow> f64 \<Rightarrow> bool" where
  "f64_less a b \<longleftrightarrow> \<not> f64_is_nan a \<and> \<not> f64_is_nan b \<and> f64_key a < f64_key b"

section \<open>Digest domains\<close>

datatype review_content_digest = ReviewContentDigest (rcd_str: string)
datatype source_content_digest = SourceContentDigest (scd_str: string)
datatype structural_content_digest = StructuralContentDigest (std_str: string)

definition is_lower_hex :: "char \<Rightarrow> bool" where
  "is_lower_hex c \<longleftrightarrow> is_ascii_digit c \<or> (97 \<le> byte c \<and> byte c \<le> 102)"

definition is_valid_digest_hex :: "string \<Rightarrow> bool" where
  "is_valid_digest_hex hex \<longleftrightarrow> length hex = 64 \<and> (\<forall>c \<in> set hex. is_lower_hex c)"

section \<open>Node, edge and review vocabularies\<close>

datatype edge_kind = DerivesFrom | Verifies | Reviews | Supersedes
datatype requirement_layer = Source | Sys | Hlr | Llr | Derived
datatype node_kind = RequirementKind | TestKind | ReviewKind | SourceRevisionKind
datatype review_decision = Approve | Reject
datatype review_target_kind = TargetRequirement | TargetCuratedPatch
datatype requirement_lifecycle = Candidate | Approved | Rejected | Stale

fun layer_as_str :: "requirement_layer \<Rightarrow> string" where
  "layer_as_str Source = ''source''"
| "layer_as_str Sys = ''sys''"
| "layer_as_str Hlr = ''hlr''"
| "layer_as_str Llr = ''llr''"
| "layer_as_str Derived = ''derived''"

fun target_kind_as_str :: "review_target_kind \<Rightarrow> string" where
  "target_kind_as_str TargetRequirement = ''requirement''"
| "target_kind_as_str TargetCuratedPatch = ''curated_patch''"

text \<open>The derived \<^verbatim>\<open>Ord\<close> of \<^verbatim>\<open>EdgeKind\<close>: declaration order.\<close>

instantiation edge_kind :: linorder
begin

fun edge_rank :: "edge_kind \<Rightarrow> nat" where
  "edge_rank DerivesFrom = 0"
| "edge_rank Verifies = 1"
| "edge_rank Reviews = 2"
| "edge_rank Supersedes = 3"

definition less_eq_edge_kind :: "edge_kind \<Rightarrow> edge_kind \<Rightarrow> bool" where
  "less_eq_edge_kind a b \<longleftrightarrow> edge_rank a \<le> edge_rank b"

definition less_edge_kind :: "edge_kind \<Rightarrow> edge_kind \<Rightarrow> bool" where
  "less_edge_kind a b \<longleftrightarrow> edge_rank a < edge_rank b"

lemma edge_rank_inj: "edge_rank a = edge_rank b \<Longrightarrow> a = b"
  by (cases a; cases b) simp_all

instance
  by standard (auto simp: less_eq_edge_kind_def less_edge_kind_def intro: edge_rank_inj)

end

section \<open>Structural source nodes\<close>

datatype source_node_kind =
    Section | Paragraph | ListItem | DefinitionTerm | DefinitionBody | Table | TableRow
  | TableCell | CodeBlock | Note | FigureCaption

fun kind_as_str :: "source_node_kind \<Rightarrow> string" where
  "kind_as_str Section = ''section''"
| "kind_as_str Paragraph = ''paragraph''"
| "kind_as_str ListItem = ''list_item''"
| "kind_as_str DefinitionTerm = ''definition_term''"
| "kind_as_str DefinitionBody = ''definition_body''"
| "kind_as_str Table = ''table''"
| "kind_as_str TableRow = ''table_row''"
| "kind_as_str TableCell = ''table_cell''"
| "kind_as_str CodeBlock = ''code_block''"
| "kind_as_str Note = ''note''"
| "kind_as_str FigureCaption = ''figure_caption''"

lemma kind_as_str_inj: "kind_as_str a = kind_as_str b \<Longrightarrow> a = b"
  by (cases a; cases b) simp_all

lemma layer_as_str_inj: "layer_as_str a = layer_as_str b \<Longrightarrow> a = b"
  by (cases a; cases b) simp_all

fun may_parent :: "source_node_kind \<Rightarrow> source_node_kind \<Rightarrow> bool" where
  "may_parent Section child = True"
| "may_parent Table child = (child = TableRow)"
| "may_parent TableRow child = (child = TableCell)"
| "may_parent _ child = False"

datatype locator_rule =
    ByteRangeReversed | BboxNonFinite | BboxNegative | BboxReversed | PageZero | Blank
  | UrlScheme | GitBlobHex

datatype vendored_path_rule =
    PathEmpty | PathAbsolute | PathDrivePrefix | PathUncPrefix | PathBackslash
  | PathEmptyComponent | PathDotComponent | PathParentComponent

section \<open>Error taxonomies\<close>

text \<open>\<^verbatim>\<open>SourceGraphError\<close>.\<close>

datatype (plugins only: code) source_graph_error =
    SG_RecordRead string string
  | SG_RecordParse string string
  | SG_RecordSchemaTooNew string u32 u32
  | SG_NativeUidPrefix uid string
  | SG_NativeUidUuidV4 uid
  | SG_DuplicateUid uid uid
  | SG_DuplicateHumanId uid source_node_kind string uid uid
  | SG_NodeLabel string uid
  | SG_InvalidLocatorField string uid string string locator_rule
  | SG_DanglingParent uid uid uid
  | SG_CrossRevisionParent uid uid uid uid
  | SG_Cycle uid uid
  | SG_IllegalParentKind uid uid source_node_kind uid source_node_kind
  | SG_DuplicateOrdinal uid "uid option" u32 uid uid
  | SG_NonContiguousOrdinals uid "uid option" u32 u32 uid
  | SG_DigestMismatch uid uid string string string
  | SG_UnknownSourceRevision uid
  | SG_LocatorMediaMismatch uid uid string string

text \<open>\<^verbatim>\<open>SourcePatchError\<close>.\<close>

datatype (plugins only: code) source_patch_error =
    SP_RecordRead string string
  | SP_RecordParse string string
  | SP_RecordSchemaTooNew string u32 u32
  | SP_NativeUidPrefix uid string
  | SP_NativeUidUuidV4 uid
  | SP_DuplicateUid uid
  | SP_DuplicateHumanId string uid uid
  | SP_BlankField string uid string
  | SP_PatchTimestamp string uid string
  | SP_EmptyOperations string uid
  | SP_DuplicateOperationOrdinal string uid u32
  | SP_ConflictingOperation string uid string uid
  | SP_IncompleteReplaceContent string uid u32
  | SP_InvalidLocatorField string uid string string locator_rule
  | SP_ReviewedContentDigestMismatch string uid string string
  | SP_UnknownSourceRevision uid uid
  | SP_PrePatchGraphDigestMismatch uid string string
  | SP_CrossRevisionTarget uid uid uid
  | SP_CrossPatchTarget uid uid uid
  | SP_DanglingTarget uid uid
  | SP_StaleBinding uid string string string
  | SP_StalePrecondition uid u32 uid string string string
  | SP_InsertedIdentityCollision uid uid string uid
  | SP_PreGraphInvalid uid source_graph_error
  | SP_InvalidPostGraph uid source_graph_error

text \<open>\<^verbatim>\<open>LifecycleError\<close> and \<^verbatim>\<open>ProposalError\<close>, over the boxed \<^verbatim>\<open>CorpusError\<close>.\<close>

datatype (plugins only: code) 'c lifecycle_failure =
    LE_InvalidGraph 'c
  | LE_RequirementMissing uid
  | LE_ApprovalTargetsMissingRequirement uid uid

datatype (plugins only: code) 'c proposal_failure =
    PE_ProposalRootMissing string
  | PE_ProposalRootNotADirectory string
  | PE_ProposalRootSymlink string
  | PE_ProposalRead string string
  | PE_ProposalWrite string string
  | PE_ProposalSerialize string string
  | PE_ProposalParse string string
  | PE_ProposalSchema string u32 u32
  | PE_ProposalSubmitter string uid
  | PE_ProposalTimestamp string uid string
  | PE_ProposalTargetMissing uid
  | PE_ProposalLifecycle uid requirement_lifecycle
  | PE_ProposalLifecycleEvaluation "'c lifecycle_failure"
  | PE_ProposalDigestMismatch uid review_content_digest review_content_digest
  | PE_ProposalExists string
  | PE_NativeUidPrefix uid string
  | PE_NativeUidUuidV4 uid
  | PE_ProposalContentTitle string uid
  | PE_ProposalContentDerivesFrom string uid uid
  | PE_ProposalContentVerificationMethodsOrder string uid string string
  | PE_ProposalContentVerificationMethodsDuplicate string uid string
  | PE_InvalidFileDigest string

text \<open>
  \<^verbatim>\<open>SourceLockError\<close>, \<^verbatim>\<open>SourceError\<close>, \<^verbatim>\<open>ReviewError\<close> and \<^verbatim>\<open>CorpusError\<close>, which contain
  each other: the first three take the boxed \<^verbatim>\<open>CorpusError\<close> as a parameter that the last one
  closes.
\<close>

datatype (plugins only: code) 'c source_lock_error =
    LK_Parse string
  | LK_SchemaTooNew u32 u32
  | LK_DuplicateKey string
  | LK_NonCanonical string
  | LK_Missing string
  | LK_Extra string
  | LK_Changed string string
  | LK_InvalidGraph 'c
  | LK_Read string string

datatype (plugins only: code) 'c source_error =
    SE_RecordRead string string
  | SE_RecordParse string string
  | SE_RecordSchemaTooNew string u32 u32
  | SE_NativeUidPrefix uid string
  | SE_NativeUidUuidV4 uid
  | SE_DuplicateUid uid
  | SE_DuplicateHumanId string node_kind uid uid
  | SE_DuplicateEdge uid uid edge_kind
  | SE_SourceHumanId string uid
  | SE_SourceDocumentKey string uid string
  | SE_SourceTitle string uid string
  | SE_SourceMediaType string uid string string
  | SE_SourceCanonicalLocation string uid string
  | SE_SourceTimestamp string uid string string
  | SE_SourceReason string uid string
  | SE_SourceCaptureSystem string uid string
  | SE_SourceCaptureImmutableId string uid string
  | SE_SourceVendoredPath string uid string string vendored_path_rule
  | SE_SourceSupersessionSelf uid
  | SE_SourceSupersessionDocumentKey uid uid
  | SE_SourceDuplicateSupersedesEdge uid nat
  | SE_SourceSupersessionFork uid uid uid
  | SE_SourceSupersessionCycle uid
  | SE_SourceLineageMultipleRoots string uid uid
  | SE_SourceLineageMultipleHeads string uid uid
  | SE_SourceTransitionInvalidGraph string 'c
  | SE_SourceTransitionRemoval uid
  | SE_SourceTransitionMutation uid string
  | SE_SourceTransitionCompetingHead uid string uid
  | SE_UnexpectedInsertError 'c
  | SE_Lock "'c source_lock_error"

datatype (plugins only: code) 'c review_error =
    RE_RecordRead string string
  | RE_RecordParse string string
  | RE_RecordSchemaTooNew string u32 u32
  | RE_NativeUidPrefix uid string
  | RE_NativeUidUuidV4 uid
  | RE_DuplicateUid uid
  | RE_DuplicateHumanId string node_kind uid uid
  | RE_DuplicateEdge uid uid edge_kind
  | RE_ReviewTargetShape string uid string u32 string string
  | RE_ReviewTargetKindMismatch uid string string
  | RE_ReviewHumanId string uid
  | RE_ReviewContentSchema string uid string u32 u32
  | RE_ReviewTimestamp string uid string string
  | RE_ReviewReviewer string uid string
  | RE_ReviewRationale string uid string
  | RE_ReviewMissingReviewsEdge uid
  | RE_ReviewDuplicateReviewsEdge uid nat
  | RE_ReviewTargetEdgeMismatch uid uid uid
  | RE_ReviewSupersessionSelf uid
  | RE_ReviewSupersessionReviewer uid uid
  | RE_ReviewSupersessionTarget uid uid
  | RE_ReviewSupersessionDigest uid uid
  | RE_ReviewDuplicateSupersedesEdge uid nat
  | RE_ReviewSupersessionFork uid uid uid
  | RE_ReviewSupersessionCycle uid
  | RE_UnexpectedInsertError 'c

datatype (plugins only: code) corpus_error =
    CE_IndexRead string string
  | CE_IndexParse string string
  | CE_IndexSchemaTooNew string u32 u32
  | CE_EmptyIndexEntry string
  | CE_UnsupportedKind string
  | CE_PatternWalk string string
  | CE_RecordRead string string
  | CE_RecordParse string string
  | CE_RecordSchemaTooNew string u32 u32
  | CE_NativeUidPrefix uid string
  | CE_NativeUidUuidV4 uid
  | CE_DuplicateUid uid
  | CE_DuplicateHumanId string node_kind uid uid
  | CE_DuplicateEdge uid uid edge_kind
  | CE_DanglingEdge uid uid edge_kind
  | CE_InvalidEdgeKinds uid uid edge_kind node_kind node_kind
  | CE_Review "corpus_error review_error"
  | CE_Proposal "corpus_error proposal_failure"
  | CE_Source "corpus_error source_error"
  | CE_SourceGraph source_graph_error
  | CE_SourcePatch source_patch_error
  | CE_LegacyMissingUid string
  | CE_InvalidDigest string

type_synonym lifecycle_error = "corpus_error lifecycle_failure"
type_synonym proposal_error = "corpus_error proposal_failure"

section \<open>Digest construction and native uids\<close>

text \<open>The three \<^verbatim>\<open>from_hex\<close> constructors; a malformed digest fails closed.\<close>

definition review_digest_from_hex :: "string \<Rightarrow> corpus_error + review_content_digest" where
  "review_digest_from_hex hex =
    (if \<not> is_valid_digest_hex hex then Err (CE_InvalidDigest hex)
     else Ok (ReviewContentDigest hex))"

definition source_digest_from_hex :: "string \<Rightarrow> corpus_error + source_content_digest" where
  "source_digest_from_hex hex =
    (if \<not> is_valid_digest_hex hex then Err (CE_InvalidDigest hex)
     else Ok (SourceContentDigest hex))"

definition structural_digest_from_hex :: "string \<Rightarrow> corpus_error + structural_content_digest" where
  "structural_digest_from_hex hex =
    (if \<not> is_valid_digest_hex hex then Err (CE_InvalidDigest hex)
     else Ok (StructuralContentDigest hex))"

text \<open>\<^verbatim>\<open>validate_native_uid\<close>: the prefix, then a version-4 RFC 4122 UUID; the two error
  constructors are the caller's.\<close>

definition validate_native_uid ::
  "platform \<Rightarrow> uid \<Rightarrow> string \<Rightarrow> (uid \<Rightarrow> string \<Rightarrow> 'e) \<Rightarrow> (uid \<Rightarrow> 'e) \<Rightarrow> 'e + unit" where
  "validate_native_uid X u expected native_uid_prefix native_uid_uuid_v4 =
    (case strip_prefix expected u of
       None \<Rightarrow> Err (native_uid_prefix u expected)
     | Some suffix \<Rightarrow> if \<not> is_uuid_v4 X suffix then Err (native_uid_uuid_v4 u) else Ok ())"

lemma validate_native_uid_Ok_iff [loop_simps]:
  "validate_native_uid X u p e1 e2 = Inr v \<longleftrightarrow> (\<exists>s. u = p @ s \<and> is_uuid_v4 X s)"
  by (auto simp: validate_native_uid_def strip_prefix_Some_iff [symmetric] split: option.splits)

end
