(* ===== verification/Source_Nodes.thy ===== *)
theory Source_Nodes
  imports Corpus_Types
begin

text \<open>
  Structural source nodes, their locators and the per-revision source graph
  (\<^verbatim>\<open>corpus/source_graph.rs\<close>, \<^verbatim>\<open>corpus/source_graph/locator.rs\<close> and the path rules of
  \<^verbatim>\<open>corpus/source/records.rs\<close>): the safe relative path, the closed locator enumeration with
  its per-variant validation, the node, and the uid-keyed graph with its operations.
\<close>

section \<open>Vendored wire paths\<close>

definition validate_component :: "string \<Rightarrow> vendored_path_rule + unit" where
  "validate_component c =
    (if c = '''' then Err PathEmptyComponent
     else if c = ''.'' then Err PathDotComponent
     else if c = ''..'' then Err PathParentComponent
     else Ok ())"

definition validate_vendored_wire_path :: "string \<Rightarrow> vendored_path_rule + unit" where
  "validate_vendored_wire_path value =
    (if value = [] then Err PathEmpty
     else if hd value = CHR ''/'' then Err PathAbsolute
     else if take 2 value = [CHR 0x5C, CHR 0x5C] then Err PathUncPrefix
     else if 2 \<le> length value \<and> value ! 1 = CHR '':'' \<and> is_ascii_alphabetic (value ! 0)
       then Err PathDrivePrefix
     else if CHR 0x5C \<in> set value then Err PathBackslash
     else for_each validate_component (split_on (CHR ''/'') value))"

datatype safe_rel_path = SafeRelPath (path_str: string)

definition safe_rel_path_new :: "string \<Rightarrow> vendored_path_rule + safe_rel_path" where
  "safe_rel_path_new path =
    rbind (validate_vendored_wire_path path) (\<lambda>_. Ok (SafeRelPath path))"

text \<open>
  What a reader of an accepted path gets: it is relative, never uses a backslash or a drive
  prefix, and no component is empty or steps to the current or the parent directory, so joining
  it to a root cannot leave that root.
\<close>

definition resolve_components :: "string list \<Rightarrow> string list \<Rightarrow> string list" where
  "resolve_components root cs =
    foldl (\<lambda>acc c. if c = ''..'' then butlast acc else if c = ''.'' \<or> c = '''' then acc
                     else acc @ [c]) root cs"

lemma validate_component_Ok_iff [loop_simps]:
  "validate_component c = Inr u \<longleftrightarrow> c \<noteq> '''' \<and> c \<noteq> ''.'' \<and> c \<noteq> ''..''"
  by (simp add: validate_component_def)

lemma resolve_plain_components:
  "\<forall>c \<in> set cs. c \<noteq> '''' \<and> c \<noteq> ''.'' \<and> c \<noteq> ''..'' \<Longrightarrow> resolve_components root cs = root @ cs"
  by (induction cs arbitrary: root) (auto simp: resolve_components_def)

lemma vendored_path_components:
  "validate_vendored_wire_path p = Inr u \<Longrightarrow>
    \<forall>c \<in> set (split_on (CHR ''/'') p). c \<noteq> '''' \<and> c \<noteq> ''.'' \<and> c \<noteq> ''..''"
  by (auto simp: validate_vendored_wire_path_def for_each_Ok_iff validate_component_Ok_iff
      split: if_splits)

section \<open>Locators\<close>

datatype source_locator =
    Markdown safe_rel_path "string option" "string option" "string list" "u64 \<times> u64"
  | Html string "string option" "string option" "string list" "u32 list"
  | Pdf u32 "string option" "f64 \<times> f64 \<times> f64 \<times> f64"

record locator_field_error =
  lf_field :: string
  lf_value :: string
  lf_rule :: locator_rule

definition field_error :: "string \<Rightarrow> string \<Rightarrow> locator_rule \<Rightarrow> locator_field_error" where
  "field_error field value rule = \<lparr>lf_field = field, lf_value = value, lf_rule = rule\<rparr>"

fun format_str :: "source_locator \<Rightarrow> string" where
  "format_str (Markdown _ _ _ _ _) = ''markdown''"
| "format_str (Html _ _ _ _ _) = ''html''"
| "format_str (Pdf _ _ _) = ''pdf''"

fun expected_media_type :: "source_locator \<Rightarrow> string" where
  "expected_media_type (Markdown _ _ _ _ _) = ''text/markdown''"
| "expected_media_type (Html _ _ _ _ _) = ''text/html''"
| "expected_media_type (Pdf _ _ _) = ''application/pdf''"

fun explicit_anchor :: "source_locator \<Rightarrow> string option" where
  "explicit_anchor (Markdown _ _ anchor _ _) = anchor"
| "explicit_anchor (Html _ _ fragment _ _) = fragment"
| "explicit_anchor (Pdf _ _ _) = None"

definition is_valid_git_blob :: "string \<Rightarrow> bool" where
  "is_valid_git_blob v \<longleftrightarrow> (length v = 40 \<or> length v = 64) \<and> (\<forall>c \<in> set v. is_lower_hex c)"

definition check_non_blank :: "string \<Rightarrow> string \<Rightarrow> locator_field_error + unit" where
  "check_non_blank field v = (if is_blank v then Err (field_error field v Blank) else Ok ())"

definition check_heading_path :: "string list \<Rightarrow> locator_field_error + unit" where
  "check_heading_path hs = for_each (check_non_blank ''heading_path'') hs"

definition is_scheme_byte :: "char \<Rightarrow> bool" where
  "is_scheme_byte c \<longleftrightarrow> is_ascii_alphanumeric c \<or> c \<in> {CHR ''+'', CHR ''-'', CHR ''.''}"

text \<open>\<^verbatim>\<open>value.chars().any(char::is_whitespace)\<close>.\<close>

fun has_whitespace :: "string \<Rightarrow> bool" where
  "has_whitespace [] = False"
| "has_whitespace (c # cs) = (ws_len (c # cs) \<noteq> 0 \<or> has_whitespace cs)"

definition check_url :: "string \<Rightarrow> string \<Rightarrow> locator_field_error + unit" where
  "check_url field value =
    (let valid = (case split_once ''://'' value of
         Some (scheme, rest) \<Rightarrow>
           rest \<noteq> [] \<and> (scheme \<noteq> [] \<and> is_ascii_alphabetic (hd scheme))
             \<and> (\<forall>b \<in> set scheme. is_scheme_byte b) \<and> \<not> has_whitespace value
       | None \<Rightarrow> False)
     in if \<not> valid then Err (field_error field value UrlScheme) else Ok ())"

definition render_bbox :: "platform \<Rightarrow> f64 \<times> f64 \<times> f64 \<times> f64 \<Rightarrow> string" where
  "render_bbox X bbox = (case bbox of (a, b, c, d) \<Rightarrow>
     ''['' @ show_f64 X a @ '', '' @ show_f64 X b @ '', '' @ show_f64 X c @ '', ''
        @ show_f64 X d @ '']'')"

definition check_bbox :: "platform \<Rightarrow> f64 \<times> f64 \<times> f64 \<times> f64 \<Rightarrow> locator_field_error + unit" where
  "check_bbox X bbox = (case bbox of (a, b, c, d) \<Rightarrow>
     if \<exists>v \<in> set [a, b, c, d]. \<not> f64_is_finite v
       then Err (field_error ''bbox'' (render_bbox X bbox) BboxNonFinite)
     else if \<exists>v \<in> set [a, b, c, d]. f64_less v 0
       then Err (field_error ''bbox'' (render_bbox X bbox) BboxNegative)
     else if f64_less c a \<or> f64_less d b
       then Err (field_error ''bbox'' (render_bbox X bbox) BboxReversed)
     else Ok ())"

text \<open>\<^verbatim>\<open>if let Some(v) = opt { f(v)? }\<close>.\<close>

definition on_some :: "('a \<Rightarrow> 'e + unit) \<Rightarrow> 'a option \<Rightarrow> 'e + unit" where
  "on_some f v = (case v of None \<Rightarrow> Ok () | Some a \<Rightarrow> f a)"

lemma on_some_simps [simp]: "on_some f None = Inr ()" "on_some f (Some a) = f a"
  by (simp_all add: on_some_def)

lemma on_some_Ok_iff [loop_simps]:
  "on_some f v = Inr u \<longleftrightarrow> (\<forall>a. v = Some a \<longrightarrow> f a = Inr ())"
  by (cases v) auto

fun locator_validate :: "platform \<Rightarrow> source_locator \<Rightarrow> locator_field_error + unit" where
  "locator_validate X (Markdown path git_blob anchor heading_path byte_range) =
    rbind (on_some (\<lambda>blob. fail_if (\<not> is_valid_git_blob blob)
                      (field_error ''git_blob'' blob GitBlobHex)) git_blob) (\<lambda>_.
    rbind (on_some (check_non_blank ''anchor'') anchor) (\<lambda>_.
    rbind (check_heading_path heading_path) (\<lambda>_.
    fail_if (snd byte_range < fst byte_range)
      (field_error ''byte_range''
        (''['' @ show_nat (unat (fst byte_range)) @ '', '' @ show_nat (unat (snd byte_range)) @ '']'')
        ByteRangeReversed))))"
| "locator_validate X (Html canonical_url final_url fragment heading_path dom_path) =
    rbind (check_url ''canonical_url'' canonical_url) (\<lambda>_.
    rbind (on_some (check_url ''final_url'') final_url) (\<lambda>_.
    rbind (on_some (check_non_blank ''fragment'') fragment) (\<lambda>_.
    check_heading_path heading_path)))"
| "locator_validate X (Pdf physical_page printed_label bbox) =
    rbind (fail_if (physical_page = 0) (field_error ''physical_page'' ''0'' PageZero)) (\<lambda>_.
    rbind (on_some (check_non_blank ''printed_label'') printed_label) (\<lambda>_.
    check_bbox X bbox))"

text \<open>The numeric part of an accepted locator.\<close>

fun locator_ranges_ok :: "source_locator \<Rightarrow> bool" where
  "locator_ranges_ok (Markdown _ _ _ _ (a, b)) = (a \<le> b)"
| "locator_ranges_ok (Html _ _ _ _ _) = True"
| "locator_ranges_ok (Pdf page _ (x0, y0, x1, y1)) =
    (page \<noteq> 0 \<and> (\<forall>v \<in> {x0, y0, x1, y1}. f64_is_finite v \<and> 0 \<le> f64_key v)
      \<and> f64_key x0 \<le> f64_key x1 \<and> f64_key y0 \<le> f64_key y1)"

lemma f64_finite_not_nan: "f64_is_finite b \<Longrightarrow> \<not> f64_is_nan b"
  by (simp add: f64_is_finite_def f64_is_nan_def)

lemma f64_zero [simp]: "f64_key 0 = 0" "\<not> f64_is_nan 0"
  by (simp_all add: f64_key_def f64_magnitude_def f64_is_nan_def)

lemma check_bbox_Ok_iff:
  "check_bbox X (x0, y0, x1, y1) = Inr u \<longleftrightarrow>
    (\<forall>v \<in> {x0, y0, x1, y1}. f64_is_finite v \<and> 0 \<le> f64_key v)
      \<and> f64_key x0 \<le> f64_key x1 \<and> f64_key y0 \<le> f64_key y1"
  by (auto simp: check_bbox_def f64_less_def f64_finite_not_nan not_less)

lemma locator_validate_ranges: "locator_validate X l = Inr u \<Longrightarrow> locator_ranges_ok l"
  by (cases l) (auto simp: loop_simps check_bbox_Ok_iff not_less)

section \<open>Nodes and graphs\<close>

record source_node =
  sn_uid :: uid
  sn_source_revision_uid :: uid
  sn_parent_uid :: "uid option"
  sn_kind :: source_node_kind
  sn_ordinal :: u32
  sn_label :: "string option"
  sn_canonical_text :: string
  sn_content_sha256 :: structural_content_digest
  sn_fingerprint :: structural_content_digest
  sn_locator :: source_locator

text \<open>\<^verbatim>\<open>struct SourceGraph { nodes: BTreeMap<String, SourceNode> }\<close>.\<close>

type_synonym source_graph = "(uid, source_node) bmap"

definition sg_new :: source_graph where
  "sg_new = []"

definition sg_get :: "source_graph \<Rightarrow> uid \<Rightarrow> source_node option" where
  "sg_get g u = bget g u"

definition sg_nodes :: "source_graph \<Rightarrow> source_node list" where
  "sg_nodes g = bvals g"

definition sg_node_mut :: "source_graph \<Rightarrow> uid \<Rightarrow> (source_node \<Rightarrow> source_node) \<Rightarrow> source_graph" where
  "sg_node_mut g u f = bupd u f g"

definition sg_remove_node :: "source_graph \<Rightarrow> uid \<Rightarrow> source_graph" where
  "sg_remove_node g u = bdel u g"

definition sg_revision_uid :: "source_graph \<Rightarrow> uid option" where
  "sg_revision_uid g = map_option sn_source_revision_uid
     (case sg_nodes g of [] \<Rightarrow> None | n # _ \<Rightarrow> Some n)"

definition sg_insert :: "source_graph \<Rightarrow> source_node \<Rightarrow> source_graph_error + source_graph" where
  "sg_insert g node =
    (case sg_get g (sn_uid node) of
       Some existing \<Rightarrow>
         Err (SG_DuplicateUid (sn_source_revision_uid existing) (sn_uid node))
     | None \<Rightarrow>
        (case sn_label node of
           None \<Rightarrow> Ok (bins (sn_uid node) node g)
         | Some label \<Rightarrow>
            (case find (\<lambda>existing. sn_kind existing = sn_kind node \<and> sn_label existing = Some label)
                    (sg_nodes g) of
               Some existing \<Rightarrow>
                 Err (SG_DuplicateHumanId (sn_source_revision_uid node) (sn_kind node) label
                        (sn_uid existing) (sn_uid node))
             | None \<Rightarrow> Ok (bins (sn_uid node) node g))))"

text \<open>The representation invariant: keys sorted, each node filed under its own uid.\<close>

definition sg_inv :: "source_graph \<Rightarrow> bool" where
  "sg_inv g \<longleftrightarrow> bwf g \<and> (\<forall>(u, n) \<in> set g. sn_uid n = u)"

text \<open>Label uniqueness within a kind, the second invariant \<open>sg_insert\<close> enforces.\<close>

definition labels_unique :: "source_graph \<Rightarrow> bool" where
  "labels_unique g \<longleftrightarrow>
    (\<forall>a \<in> set (sg_nodes g). \<forall>b \<in> set (sg_nodes g).
      sn_kind a = sn_kind b \<and> sn_label a = sn_label b \<and> sn_label a \<noteq> None \<longrightarrow> sn_uid a = sn_uid b)"

lemma sg_inv_new [simp]: "sg_inv sg_new"
  by (simp add: sg_inv_def sg_new_def)

lemma sg_inv_bwf: "sg_inv g \<Longrightarrow> bwf g"
  by (simp add: sg_inv_def)

lemma sg_get_uid: "sg_inv g \<Longrightarrow> sg_get g u = Some n \<Longrightarrow> sn_uid n = u"
  by (auto simp: sg_inv_def sg_get_def dest: bget_Some_in)

lemma sg_get_in_nodes: "sg_get g u = Some n \<Longrightarrow> n \<in> set (sg_nodes g)"
  by (simp add: sg_get_def sg_nodes_def bget_in_bvals)

lemma sg_nodes_iff_get:
  "sg_inv g \<Longrightarrow> n \<in> set (sg_nodes g) \<longleftrightarrow> sg_get g (sn_uid n) = Some n"
  by (force simp: sg_inv_def sg_nodes_def sg_get_def bvals_def bget_iff_in)

lemma sg_nodes_uid_inj:
  "sg_inv g \<Longrightarrow> a \<in> set (sg_nodes g) \<Longrightarrow> b \<in> set (sg_nodes g) \<Longrightarrow> sn_uid a = sn_uid b \<Longrightarrow> a = b"
  by (simp add: sg_nodes_iff_get)

lemma map_uid_sg_nodes: "sg_inv g \<Longrightarrow> map sn_uid (sg_nodes g) = map fst g"
  by (auto simp: sg_inv_def sg_nodes_def bvals_def)

lemma sg_nodes_distinct: "sg_inv g \<Longrightarrow> distinct (map sn_uid (sg_nodes g))"
  by (simp add: map_uid_sg_nodes bwf_distinct sg_inv_bwf)

lemma sg_inv_bins: "sg_inv g \<Longrightarrow> sg_inv (bins (sn_uid n) n g)"
proof -
  assume g: "sg_inv g"
  then have w: "bwf (bins (sn_uid n) n g)" by (simp add: sg_inv_def)
  moreover have "sn_uid m = u" if "(u, m) \<in> set (bins (sn_uid n) n g)" for u m
    using that g w
    by (auto simp: bget_iff_in [symmetric] sg_inv_def dest: bget_Some_in split: if_splits)
  ultimately show ?thesis by (auto simp: sg_inv_def)
qed

lemma sg_insert_OkD:
  assumes "sg_insert g n = Inr h"
  shows "sg_get g (sn_uid n) = None" "h = bins (sn_uid n) n g"
    "\<And>l m. sn_label n = Some l \<Longrightarrow> m \<in> set (sg_nodes g) \<Longrightarrow> sn_kind m = sn_kind n
       \<Longrightarrow> sn_label m \<noteq> Some l"
  using assms by (auto simp: sg_insert_def find_None_iff split: option.splits)

lemma sg_insert_inv: "sg_inv g \<Longrightarrow> sg_insert g n = Inr h \<Longrightarrow> sg_inv h"
  by (auto dest!: sg_insert_OkD(2) intro: sg_inv_bins)

lemma sg_insert_get:
  "sg_insert g n = Inr h \<Longrightarrow> sg_get h u = (if u = sn_uid n then Some n else sg_get g u)"
  by (auto dest!: sg_insert_OkD(2) simp: sg_get_def)

lemma sg_insert_nodes:
  assumes "sg_inv g" "sg_insert g n = Inr h"
  shows "set (sg_nodes h) = insert n (set (sg_nodes g))"
proof -
  have h: "sg_inv h" using assms by (rule sg_insert_inv)
  have "m \<in> set (sg_nodes h) \<longleftrightarrow> m = n \<or> m \<in> set (sg_nodes g)" for m
    using sg_insert_OkD(1) [OF assms(2)]
    by (auto simp: sg_nodes_iff_get h assms(1) sg_insert_get [OF assms(2)])
  then show ?thesis by blast
qed

lemma sg_insert_labels_unique:
  assumes g: "sg_inv g" and u: "labels_unique g" and h: "sg_insert g n = Inr h"
  shows "labels_unique h"
  using u sg_insert_OkD(3) [OF h]
  unfolding labels_unique_def sg_insert_nodes [OF g h] by (auto; metis)

lemma sg_inv_node_mut:
  assumes "sg_inv g" "\<And>n. sn_uid (f n) = sn_uid n"
  shows "sg_inv (sg_node_mut g u f)"
  using assms by (auto simp: sg_inv_def sg_node_mut_def bupd_def [of u f g] simp del: bwf_bupd)
    (simp_all add: bupd_def [symmetric])

lemma sg_get_node_mut [simp]:
  "sg_get (sg_node_mut g u f) v = (if v = u then map_option f (sg_get g v) else sg_get g v)"
  by (simp add: sg_get_def sg_node_mut_def)

lemma sg_inv_remove [simp]: "sg_inv g \<Longrightarrow> sg_inv (sg_remove_node g u)"
  by (simp add: sg_inv_def sg_remove_node_def) (auto simp: bdel_def)

lemma sg_get_remove [simp]:
  "sg_get (sg_remove_node g u) v = (if v = u then None else sg_get g v)"
  by (simp add: sg_get_def sg_remove_node_def)

lemmas sg_simps = sg_get_node_mut sg_get_remove sg_insert_get sg_inv_remove sg_inv_node_mut

section \<open>Loading a list of nodes\<close>

definition label_keys :: "source_node list \<Rightarrow> (source_node_kind \<times> string option) list" where
  "label_keys ns = map (\<lambda>n. (sn_kind n, sn_label n)) (filter (\<lambda>n. sn_label n \<noteq> None) ns)"

lemma sg_insert_Ok_iff:
  "(\<exists>h. sg_insert g n = Inr h) \<longleftrightarrow> sg_get g (sn_uid n) = None \<and>
    (sn_label n \<noteq> None \<longrightarrow> (\<forall>m \<in> set (sg_nodes g). \<not> (sn_kind m = sn_kind n \<and> sn_label m = sn_label n)))"
  by (auto simp: sg_insert_def find_None_iff find_Some_iff split: option.splits)

text \<open>What a graph is after inserting the nodes \<open>ns\<close>.\<close>

definition holds_nodes :: "source_node list \<Rightarrow> source_graph \<Rightarrow> bool" where
  "holds_nodes ns g \<longleftrightarrow> sg_inv g \<and> labels_unique g \<and> set (sg_nodes g) = set ns
    \<and> distinct (map sn_uid ns) \<and> distinct (label_keys ns)"

lemma holds_nodes_get:
  assumes "holds_nodes ns g" shows "sg_get g u = find (\<lambda>n. sn_uid n = u) ns"
proof (cases "find (\<lambda>n. sn_uid n = u) ns")
  case None
  with assms have "\<forall>n \<in> set (sg_nodes g). sn_uid n \<noteq> u"
    by (auto simp: find_None_iff holds_nodes_def)
  with None assms show ?thesis
    by (cases "sg_get g u") (auto simp: holds_nodes_def dest: sg_get_in_nodes sg_get_uid)
next
  case (Some n)
  then have "n \<in> set ns" "sn_uid n = u" by (auto simp: find_Some_iff)
  with assms Some show ?thesis by (auto simp: holds_nodes_def sg_nodes_iff_get)
qed

lemma holds_nodes_insert:
  assumes g: "holds_nodes ns g"
  shows "(\<exists>h. sg_insert g n = Inr h) \<longleftrightarrow>
    distinct (map sn_uid (ns @ [n])) \<and> distinct (label_keys (ns @ [n]))"
proof -
  have "sg_get g (sn_uid n) = None \<longleftrightarrow> sn_uid n \<notin> sn_uid ` set ns"
    by (simp add: holds_nodes_get [OF g] find_None_iff image_iff) metis
  with g show ?thesis
    unfolding sg_insert_Ok_iff holds_nodes_def by (auto simp: label_keys_def image_iff)
      (metis option.distinct(1))
qed

lemma holds_nodes_step:
  assumes g: "holds_nodes ns g" and h: "sg_insert g n = Inr h"
  shows "holds_nodes (ns @ [n]) h"
  using g holds_nodes_insert [OF g, of n] h sg_insert_inv [of g n h]
    sg_insert_labels_unique [of g n h] sg_insert_nodes [of g n h]
  by (auto simp: holds_nodes_def)

lemma load_nodes_from:
  "holds_nodes ns g \<Longrightarrow>
    (\<forall>h. fold_res sg_insert g ms = Inr h \<longrightarrow> holds_nodes (ns @ ms) h) \<and>
    ((\<exists>h. fold_res sg_insert g ms = Inr h) \<longleftrightarrow>
      distinct (map sn_uid (ns @ ms)) \<and> distinct (label_keys (ns @ ms)))"
proof (induction ms arbitrary: ns g)
  case Nil
  then show ?case by (simp add: holds_nodes_def)
next
  case (Cons m ms)
  show ?case
  proof (cases "sg_insert g m")
    case (Inl e)
    then have "\<not> (distinct (map sn_uid (ns @ [m])) \<and> distinct (label_keys (ns @ [m])))"
      using holds_nodes_insert [OF Cons.prems, of m] by simp
    with Inl show ?thesis by (auto simp: label_keys_def split: if_splits)
  next
    case (Inr h)
    then have "holds_nodes (ns @ [m]) h" by (rule holds_nodes_step [OF Cons.prems])
    from Cons.IH [OF this] Inr show ?thesis by simp
  qed
qed

lemma holds_nodes_new: "holds_nodes [] sg_new"
  by (simp add: holds_nodes_def labels_unique_def sg_nodes_def sg_new_def bvals_def label_keys_def
      sg_inv_def)

lemma load_nodes_Ok_iff:
  "(\<exists>g. fold_res sg_insert sg_new ns = Inr g) \<longleftrightarrow>
    distinct (map sn_uid ns) \<and>
    distinct (map (\<lambda>n. (sn_kind n, sn_label n)) (filter (\<lambda>n. sn_label n \<noteq> None) ns))"
  using load_nodes_from [OF holds_nodes_new, of ns] by (simp add: label_keys_def)

lemma load_nodes_invariant:
  assumes "fold_res sg_insert sg_new ns = Inr g"
  shows "sg_inv g \<and> labels_unique g \<and> set (sg_nodes g) = set ns
    \<and> (\<forall>u. sg_get g u = find (\<lambda>n. sn_uid n = u) ns)"
proof -
  have "holds_nodes ns g" using load_nodes_from [OF holds_nodes_new, of ns] assms by simp
  then show ?thesis using holds_nodes_get by (simp add: holds_nodes_def)
qed

end
