(* ===== verification/Forest_Spec.thy ===== *)
theory Forest_Spec
  imports Source_Forest
begin

text \<open>
  The specification the validator of \<^verbatim>\<open>corpus/source_graph/validate.rs\<close> implements, stated
  without its walks: every node has a finite parent path inside the graph, the kinds along it
  are legal, the stored digests are those of the content and of the ancestry, and each sibling
  set carries the ordinals \<open>0..<n\<close>. The validator accepts exactly these graphs, and in such a
  graph the parent relation is acyclic and every chain of parents ends in a root.
\<close>

section \<open>Parent paths\<close>

text \<open>\<open>parent_path g n ps\<close>: \<open>ps\<close> are the parent, grandparent, ... of \<open>n\<close> up to its root.\<close>

fun parent_path :: "source_graph \<Rightarrow> source_node \<Rightarrow> source_node list \<Rightarrow> bool" where
  "parent_path g n [] = (sn_parent_uid n = None)"
| "parent_path g n (p # ps) =
    ((case sn_parent_uid n of None \<Rightarrow> False | Some u \<Rightarrow> sg_get g u = Some p) \<and> parent_path g p ps)"

lemma parent_path_unique: "parent_path g n ps \<Longrightarrow> parent_path g n qs \<Longrightarrow> ps = qs"
proof (induction ps arbitrary: n qs)
  case Nil
  then show ?case by (cases qs) auto
next
  case (Cons p ps)
  then show ?case by (cases qs) (auto split: option.splits)
qed

lemma parent_path_suffix: "parent_path g n (as @ q # bs) \<Longrightarrow> parent_path g q bs"
  by (induction as arbitrary: n) auto

lemma parent_path_nodes: "parent_path g n ps \<Longrightarrow> q \<in> set ps \<Longrightarrow> q \<in> set (sg_nodes g)"
  by (induction ps arbitrary: n) (auto split: option.splits simp: sg_get_in_nodes)

lemma parent_path_distinct:
  assumes "sg_inv g" "n \<in> set (sg_nodes g)" "parent_path g n ps"
  shows "distinct (map sn_uid (n # ps))"
  using assms(2,3)
proof (induction ps arbitrary: n)
  case Nil
  then show ?case by simp
next
  case (Cons p ps)
  have pn: "p \<in> set (sg_nodes g)" using parent_path_nodes [OF Cons.prems(2)] by simp
  have d: "distinct (map sn_uid (p # ps))" using Cons.IH [OF pn] Cons.prems(2) by simp
  have "sn_uid n \<notin> sn_uid ` set (p # ps)"
  proof
    assume "sn_uid n \<in> sn_uid ` set (p # ps)"
    then obtain q where q: "q \<in> set (p # ps)" "sn_uid q = sn_uid n" by (metis imageE)
    then have "q = n"
      using Cons.prems assms(1) parent_path_nodes [OF Cons.prems(2)]
      by (auto intro: sg_nodes_uid_inj)
    with q(1) have "n \<in> set (p # ps)" by simp
    then obtain as bs where e: "p # ps = as @ n # bs" using split_list by metis
    with Cons.prems(2) have "parent_path g n bs" "parent_path g n (as @ n # bs)"
      by (auto dest: parent_path_suffix)
    from parent_path_unique [OF this] show False by simp
  qed
  with d show ?case by auto
qed

section \<open>The walk\<close>

lemma walk_loop_sound:
  "walk_loop r g idx visited chain n = Inr res \<Longrightarrow>
    \<exists>ps. res = rev (chain @ ps) \<and> parent_path g n ps"
proof (induction r g idx visited chain n rule: walk_loop.induct)
  case (1 r g idx visited chain n)
  show ?case
  proof (cases "sn_parent_uid n")
    case None
    with "1.prems" show ?thesis by (intro exI [of _ "[]"]) (simp add: walk_loop.simps)
  next
    case (Some u)
    with "1.prems" obtain p where p: "sg_get g u = Some p" "sn_uid p \<notin> set visited"
      "walk_loop r g idx (sn_uid p # visited) (chain @ [p]) p = Inr res"
      by (subst (asm) walk_loop.simps) (auto split: option.splits if_splits)
    with "1.IH" [OF Some p(1,2)] obtain ps where
      "res = rev ((chain @ [p]) @ ps)" "parent_path g p ps" by blast
    with Some p(1) show ?thesis by (intro exI [of _ "p # ps"]) simp
  qed
qed

lemma walk_loop_complete:
  "parent_path g n ps \<Longrightarrow> distinct (map sn_uid ps) \<Longrightarrow> sn_uid ` set ps \<inter> set visited = {} \<Longrightarrow>
    walk_loop r g idx visited chain n = Inr (rev (chain @ ps))"
proof (induction ps arbitrary: n visited chain)
  case Nil
  then show ?case by (simp add: walk_loop.simps)
next
  case (Cons p ps)
  from Cons.prems(1) obtain u where u: "sn_parent_uid n = Some u" "sg_get g u = Some p"
    "parent_path g p ps" by (auto split: option.splits)
  have "walk_loop r g idx (sn_uid p # visited) (chain @ [p]) p = Inr (rev ((chain @ [p]) @ ps))"
    using Cons.prems(2,3) u(3) by (intro Cons.IH) auto
  with u Cons.prems(3) show ?case by (subst walk_loop.simps) auto
qed

lemma walk_ancestry_Ok_iff:
  assumes "sg_inv g" "n \<in> set (sg_nodes g)"
  shows "walk_ancestry r g idx n = Inr res \<longleftrightarrow> parent_path g n (rev res)"
proof
  assume "walk_ancestry r g idx n = Inr res"
  then show "parent_path g n (rev res)"
    unfolding walk_ancestry_def by (auto dest: walk_loop_sound)
next
  assume path: "parent_path g n (rev res)"
  from parent_path_distinct [OF assms path]
  show "walk_ancestry r g idx n = Inr res"
    unfolding walk_ancestry_def
    by (subst walk_loop_complete [OF path]) (auto simp: distinct_map)
qed

section \<open>Sibling ordinals\<close>

definition siblings :: "source_graph \<Rightarrow> uid option \<Rightarrow> source_node list" where
  "siblings g p = filter (\<lambda>n. sn_parent_uid n = p) (sg_nodes g)"

definition contiguous :: "source_node list \<Rightarrow> bool" where
  "contiguous ns \<longleftrightarrow> (\<lambda>n. unat (sn_ordinal n)) ` set ns = {..<length ns}"

lemma scan_siblings_Ok_iff:
  "scan_siblings r p k prev ns = Inr () \<longleftrightarrow>
    map sn_ordinal ns = map of_nat [k..<k + length ns] \<and>
    distinct_adj ((case prev of None \<Rightarrow> [] | Some q \<Rightarrow> [sn_ordinal q]) @ map sn_ordinal ns)"
proof (induction ns arbitrary: k prev)
  case Nil
  then show ?case by (simp split: option.splits)
next
  case (Cons n ns)
  have "[k..<Suc (k + length ns)] = k # [Suc k..<Suc (k + length ns)]"
    by (simp add: upt_conv_Cons del: upt_Suc)
  then show ?case
    by (cases prev) (auto simp: loop_simps Cons.IH simp del: upt_Suc)
qed

lemma set_sort_siblings [simp]: "set (sort_siblings ns) = set ns"
  by (simp add: sort_siblings_def)

lemma length_sort_siblings [simp]: "length (sort_siblings ns) = length ns"
  by (simp add: sort_siblings_def)

lemma sort_siblings_ordinals: "sorted (map sn_ordinal (sort_siblings ns))"
proof -
  have "sorted (map (\<lambda>n. (sn_ordinal n, sn_uid n)) (sort_siblings ns))"
    by (simp add: sort_siblings_def)
  then show ?thesis
    unfolding sorted_map by (rule sorted_wrt_mono_rel [rotated]) auto
qed

lemma sorted_map_unat: "sorted (map (\<lambda>n. unat (f n)) ns) \<longleftrightarrow> sorted (map f ns)"
  by (simp add: sorted_map word_le_nat_alt)

text \<open>The scan accepts a sibling set exactly when its ordinals are \<open>0..<n\<close>, each once; the
  \<^verbatim>\<open>as u32\<close> cast of the index never truncates on an accepted set.\<close>

lemma scan_sorted_siblings_iff:
  "scan_siblings r p 0 None (sort_siblings ns) = Inr () \<longleftrightarrow> contiguous ns"
proof -
  let ?s = "sort_siblings ns"
  let ?o = "map sn_ordinal ?s"
  let ?u = "map (\<lambda>n. unat (sn_ordinal n)) ?s"
  have uo: "?u = map unat ?o" by simp
  have srt: "sorted ?u" by (simp add: sorted_map_unat sort_siblings_ordinals)
  have inj: "distinct_adj ?u \<longleftrightarrow> distinct_adj ?o"
    unfolding uo by (rule distinct_adj_map_iff) (simp add: inj_on_def flip: word_unat_eq_iff)
  show ?thesis
  proof
    assume "scan_siblings r p 0 None ?s = Inr ()"
    note both = iffD1 [OF scan_siblings_Ok_iff this,
        unfolded option.case append_Nil add_0 length_sort_siblings]
    note o = conjunct1 [OF both] and adj = conjunct2 [OF both]
    have strict: "sorted_wrt (<) ?u" using srt adj inj by (intro sorted_distinct_adj) simp_all
    have nth: "unat (sn_ordinal (?s ! i)) = i" if "i < length ns" for i
    proof -
      have "i \<le> ?u ! i" using strict that by (intro strict_nat_ge_index) simp_all
      also have "?u ! i < 2 ^ 32" using that unsigned_less [of "sn_ordinal (?s ! i)"] by simp
      finally have u: "unat (of_nat i :: u32) = i" by (simp add: unat_of_nat)
      have "sn_ordinal (?s ! i) = of_nat i" using arg_cong [OF o, of "\<lambda>xs. xs ! i"] that by simp
      then show ?thesis by (simp only: u)
    qed
    have "?u = [0..<length ns]" by (rule nth_equalityI) (simp_all add: nth)
    then have "set ?u = {..<length ns}" by (simp add: atLeast_upt)
    then show "contiguous ns" by (simp add: contiguous_def)
  next
    assume c: "contiguous ns"
    then have set_u: "set ?u = {..<length ns}" by (simp add: contiguous_def)
    then have "card (set ?u) = length ?u" by simp
    then have "distinct ?u" by (rule card_distinct)
    with srt have strict: "sorted_wrt (<) ?u" by (simp add: strict_sorted_iff)
    have "?u = [0..<length ?u]" using strict set_u by (intro strict_nat_upt) simp_all
    then have "map of_nat ?u = (map of_nat [0..<length ns] :: u32 list)" by simp
    then have "?o = map of_nat [0..<length ns]" by (simp add: comp_def)
    moreover have "distinct_adj ?o" using distinct_adj_strict [OF strict] inj by simp
    ultimately show "scan_siblings r p 0 None ?s = Inr ()"
      by (simp add: scan_siblings_Ok_iff)
  qed
qed

definition ordinals_contiguous :: "source_graph \<Rightarrow> bool" where
  "ordinals_contiguous g \<longleftrightarrow> (\<forall>p. contiguous (siblings g p))"

lemma validate_ordinals_Ok_iff: "validate_ordinals r g = Inr () \<longleftrightarrow> ordinals_contiguous g"
proof -
  have "validate_ordinals r g = Inr () \<longleftrightarrow>
      (\<forall>n \<in> set (sg_nodes g). contiguous (siblings g (sn_parent_uid n)))"
    by (simp add: validate_ordinals_def for_each_Ok_iff sibling_sets_def split_beta
        scan_sorted_siblings_iff siblings_def ball_group_by)
  also have "\<dots> \<longleftrightarrow> ordinals_contiguous g"
  proof
    assume a: "\<forall>n \<in> set (sg_nodes g). contiguous (siblings g (sn_parent_uid n))"
    have "contiguous (siblings g p)" for p
    proof (cases "siblings g p")
      case Nil
      then show ?thesis by (simp add: contiguous_def)
    next
      case (Cons n ns)
      then have "n \<in> set (siblings g p)" by simp
      then have "n \<in> set (sg_nodes g)" "sn_parent_uid n = p" by (auto simp: siblings_def)
      with a show ?thesis by blast
    qed
    then show "ordinals_contiguous g" by (simp add: ordinals_contiguous_def)
  qed (simp add: ordinals_contiguous_def)
  finally show ?thesis .
qed

section \<open>Well-formed forests\<close>

definition node_ok :: "platform \<Rightarrow> string \<Rightarrow> source_node \<Rightarrow> source_node list \<Rightarrow> bool" where
  "node_ok X media_type n ps \<longleftrightarrow>
    (ps \<noteq> [] \<longrightarrow> may_parent (sn_kind (hd ps)) (sn_kind n)) \<and>
    sn_content_sha256 n = content_digest X (sn_kind n) (sn_canonical_text n) \<and>
    sn_fingerprint n = fingerprint X (sn_kind n) (sn_label n) (ancestry_inputs (rev ps)) \<and>
    eq_ignore_ascii_case (expected_media_type (sn_locator n)) media_type"

definition well_formed_forest :: "platform \<Rightarrow> string \<Rightarrow> source_graph \<Rightarrow> bool" where
  "well_formed_forest X media_type g \<longleftrightarrow>
    (\<forall>n \<in> set (sg_nodes g). \<exists>ps. parent_path g n ps \<and> node_ok X media_type n ps) \<and>
    ordinals_contiguous g"

lemma validate_node_Ok_iff:
  assumes "sg_inv g" "n \<in> set (sg_nodes g)"
  shows "validate_node X r g idx mt n = Inr () \<longleftrightarrow>
    (\<exists>ps. parent_path g n ps \<and> node_ok X mt n ps)"
proof -
  have "validate_node X r g idx mt n = Inr () \<longleftrightarrow>
      (\<exists>as. walk_ancestry r g idx n = Inr as \<and> node_ok X mt n (rev as))"
  proof (cases "walk_ancestry r g idx n")
    case (Inl e)
    then show ?thesis by (simp add: validate_node_def)
  next
    case (Inr as)
    then show ?thesis
      by (cases as rule: rev_cases)
        (auto simp: validate_node_def node_ok_def rbind_Ok_iff fail_if_Ok_iff Let_def)
  qed
  also have "\<dots> \<longleftrightarrow> (\<exists>as. parent_path g n (rev as) \<and> node_ok X mt n (rev as))"
    by (simp add: walk_ancestry_Ok_iff [OF assms])
  also have "\<dots> \<longleftrightarrow> (\<exists>ps. parent_path g n ps \<and> node_ok X mt n ps)"
    by (metis rev_rev_ident)
  finally show ?thesis .
qed

lemma validate_one_graph_Ok_iff:
  assumes "sg_inv g"
  shows "validate_one_graph X r g idx mt = Inr () \<longleftrightarrow> well_formed_forest X mt g"
  using validate_node_Ok_iff [OF assms]
  by (auto simp: validate_one_graph_def well_formed_forest_def loop_simps
      validate_ordinals_Ok_iff)

section \<open>What well-formedness gives\<close>

definition parent_rel :: "source_graph \<Rightarrow> (uid \<times> uid) set" where
  "parent_rel g = {(p, c). \<exists>n \<in> set (sg_nodes g). sn_uid n = c \<and> sn_parent_uid n = Some p}"

lemma parent_path_exI:
  "well_formed_forest X mt g \<Longrightarrow> n \<in> set (sg_nodes g) \<Longrightarrow> \<exists>ps. parent_path g n ps"
  by (auto simp: well_formed_forest_def)

text \<open>The depth of a node strictly decreases towards the root, so the relation is well-founded.\<close>

lemma forest_parent_wf:
  assumes g: "sg_inv g" and paths: "\<And>n. n \<in> set (sg_nodes g) \<Longrightarrow> \<exists>ps. parent_path g n ps"
  shows "wf (parent_rel g)"
proof -
  define depth where "depth u = (case sg_get g u of None \<Rightarrow> 0
    | Some n \<Rightarrow> Suc (length (THE ps. parent_path g n ps)))" for u
  have d: "depth (sn_uid n) = Suc (length ps)"
    if "n \<in> set (sg_nodes g)" "parent_path g n ps" for n ps
  proof -
    have "(THE qs. parent_path g n qs) = ps"
      using that(2) by (intro the_equality) (auto dest: parent_path_unique)
    with that(1) g show ?thesis by (simp add: depth_def sg_nodes_iff_get)
  qed
  have "parent_rel g \<subseteq> measure depth"
  proof
    fix e assume "e \<in> parent_rel g"
    then obtain p n where e: "e = (p, sn_uid n)" "n \<in> set (sg_nodes g)" "sn_parent_uid n = Some p"
      by (auto simp: parent_rel_def)
    from paths [OF e(2)] obtain ps where path: "parent_path g n ps" by blast
    with e(3) obtain q qs where q: "ps = q # qs" "sg_get g p = Some q" "parent_path g q qs"
      by (cases ps) auto
    have "depth p = Suc (length qs)"
      using d [OF sg_get_in_nodes [OF q(2)] q(3)] sg_get_uid [OF g q(2)] by simp
    with d [OF e(2) path] q(1) e(1) show "e \<in> measure depth" by simp
  qed
  then show ?thesis by (rule wf_subset [OF wf_measure])
qed

end
