(* ===== verification/Source_Render.thy ===== *)
theory Source_Render
  imports Source_Nodes
begin

text \<open>
  The canonical TOML rendering of source nodes (\<^verbatim>\<open>corpus/source_graph/render.rs\<close>) and the
  graph digest over it (\<^verbatim>\<open>source_graph_digest\<close> of \<^verbatim>\<open>corpus/source_patch/digest.rs\<close>). Each
  \<^verbatim>\<open>push_*\<close> procedure is the text it appends. The basic-string escaping is shown to be
  prefix-free, so a rendered string determines its value and where it ends.
\<close>

section \<open>Escaping\<close>

definition hex_digit :: "nat \<Rightarrow> char" where
  "hex_digit d = char_of (if d < 10 then 48 + d else 55 + d)"

text \<open>\<^verbatim>\<open>\u{:04X}\<close> for a control byte: two zero digits, then the byte's two digits.\<close>

definition escape_control :: "char \<Rightarrow> string" where
  "escape_control c =
    [CHR 0x5C, CHR ''u'', CHR ''0'', CHR ''0'', hex_digit (byte c div 16), hex_digit (byte c mod 16)]"

definition escape_char :: "char \<Rightarrow> string" where
  "escape_char c =
    (if c = CHR 0x22 then [CHR 0x5C, CHR 0x22]
     else if c = CHR 0x5C then [CHR 0x5C, CHR 0x5C]
     else if c = CHR 0x08 then [CHR 0x5C, CHR ''b'']
     else if c = CHR 0x09 then [CHR 0x5C, CHR ''t'']
     else if c = CHR 0x0A then [CHR 0x5C, CHR ''n'']
     else if c = CHR 0x0C then [CHR 0x5C, CHR ''f'']
     else if c = CHR 0x0D then [CHR 0x5C, CHR ''r'']
     else if byte c < 32 \<or> byte c = 127 then escape_control c
     else [c])"

definition push_basic_string :: "string \<Rightarrow> string" where
  "push_basic_string value = [CHR 0x22] @ concat (map escape_char value) @ [CHR 0x22]"

definition push_field :: "string \<Rightarrow> string \<Rightarrow> string" where
  "push_field key value = key @ '' = '' @ push_basic_string value @ [CHR 0x0A]"

text \<open>The elements separated by a comma and a space.\<close>

fun join_comma :: "string list \<Rightarrow> string" where
  "join_comma [] = []"
| "join_comma [x] = x"
| "join_comma (x # y # zs) = x @ '', '' @ join_comma (y # zs)"

definition push_string_array :: "string \<Rightarrow> string list \<Rightarrow> string" where
  "push_string_array key values =
    key @ '' = ['' @ join_comma (map push_basic_string values) @ '']'' @ [CHR 0x0A]"

definition push_u32_array :: "string \<Rightarrow> u32 list \<Rightarrow> string" where
  "push_u32_array key values =
    key @ '' = ['' @ join_comma (map (\<lambda>v. show_nat (unat v)) values) @ '']'' @ [CHR 0x0A]"

definition push_opt_field :: "string \<Rightarrow> string option \<Rightarrow> string" where
  "push_opt_field key value = (case value of None \<Rightarrow> [] | Some v \<Rightarrow> push_field key v)"

fun push_locator_body :: "platform \<Rightarrow> source_locator \<Rightarrow> string" where
  "push_locator_body X (Markdown path git_blob anchor heading_path byte_range) =
    push_field ''path'' (path_str path)
      @ push_opt_field ''git_blob'' git_blob
      @ push_opt_field ''anchor'' anchor
      @ push_string_array ''heading_path'' heading_path
      @ ''byte_range = ['' @ show_nat (unat (fst byte_range)) @ '', ''
        @ show_nat (unat (snd byte_range)) @ '']'' @ [CHR 0x0A]"
| "push_locator_body X (Html canonical_url final_url fragment heading_path dom_path) =
    push_field ''canonical_url'' canonical_url
      @ push_opt_field ''final_url'' final_url
      @ push_opt_field ''fragment'' fragment
      @ push_string_array ''heading_path'' heading_path
      @ push_u32_array ''dom_path'' dom_path"
| "push_locator_body X (Pdf physical_page printed_label bbox) =
    ''physical_page = '' @ show_nat (unat physical_page) @ [CHR 0x0A]
      @ push_opt_field ''printed_label'' printed_label
      @ ''bbox = '' @ render_bbox X bbox @ [CHR 0x0A]"

definition push_locator :: "platform \<Rightarrow> source_locator \<Rightarrow> string" where
  "push_locator X locator =
    push_field ''format'' (format_str locator) @ push_locator_body X locator"

definition render_locator_fields :: "platform \<Rightarrow> source_locator \<Rightarrow> string" where
  "render_locator_fields X locator = push_locator X locator"

definition render_node :: "platform \<Rightarrow> source_node \<Rightarrow> string" where
  "render_node X node =
    [CHR 0x0A] @ ''[[nodes]]'' @ [CHR 0x0A]
      @ push_field ''uid'' (sn_uid node)
      @ push_field ''source_revision_uid'' (sn_source_revision_uid node)
      @ push_opt_field ''parent_uid'' (sn_parent_uid node)
      @ push_field ''kind'' (kind_as_str (sn_kind node))
      @ ''ordinal = '' @ show_nat (unat (sn_ordinal node)) @ [CHR 0x0A]
      @ push_opt_field ''label'' (sn_label node)
      @ push_field ''canonical_text'' (sn_canonical_text node)
      @ push_field ''content_sha256'' (std_str (sn_content_sha256 node))
      @ push_field ''fingerprint'' (std_str (sn_fingerprint node))
      @ [CHR 0x0A] @ ''[nodes.locator]'' @ [CHR 0x0A]
      @ push_locator X (sn_locator node)"

definition render_sorted_nodes :: "platform \<Rightarrow> source_node list \<Rightarrow> bytes" where
  "render_sorted_nodes X nodes =
    ''schema_version = 1'' @ [CHR 0x0A] @ concat (map (render_node X) (sort_key sn_uid nodes))"

definition graph_domain_tag :: bytes where
  "graph_domain_tag = ''evidence/source-graph-digest/v1''"

definition source_graph_digest :: "platform \<Rightarrow> source_graph \<Rightarrow> structural_content_digest" where
  "source_graph_digest X g =
    StructuralContentDigest (sha256 X
      (graph_domain_tag @ [CHR 0x00] @ render_sorted_nodes X (sg_nodes g)))"

section \<open>Escaping is prefix-free\<close>

text \<open>Reading an escaped string back, one escape at a time, up to the closing quote.\<close>

lemma byte_eq_iff: "byte c = byte d \<longleftrightarrow> c = d"
  by (simp add: byte_def of_char_eq_iff)

lemma byte_char_of [simp]: "n < 256 \<Longrightarrow> byte (char_of n) = n"
  by (simp add: byte_def of_char_of take_bit_eq_mod)

lemma byte_less [simp]: "byte c < 256"
  unfolding byte_def by (cases c) (simp add: of_char_def horner_sum_simps)

lemma hex_digit_inj: "a < 16 \<Longrightarrow> b < 16 \<Longrightarrow> hex_digit a = hex_digit b \<Longrightarrow> a = b"
  by (auto simp: hex_digit_def dest!: arg_cong [of _ _ byte] split: if_splits)

lemma escape_control_inj:
  assumes "escape_control c = escape_control d" shows "c = d"
proof -
  have bound: "byte c div 16 < 16" "byte d div 16 < 16" using byte_less [of c] byte_less [of d]
    by (auto intro!: less_mult_imp_div_less simp del: byte_less)
  from assms have "byte c div 16 = byte d div 16" "byte c mod 16 = byte d mod 16"
    using bound by (auto simp: escape_control_def intro: hex_digit_inj)
  then have "byte c = byte d" by (metis div_mult_mod_eq)
  then show ?thesis by (simp add: byte_eq_iff)
qed

lemma escape_char_split:
  assumes "escape_char c @ u = escape_char d @ v" shows "c = d \<and> u = v"
proof -
  have "c = d" if "escape_control c @ u = escape_control d @ v"
    using that by (intro escape_control_inj) (simp add: escape_control_def)
  with assms show ?thesis
    by (auto simp: escape_char_def escape_control_def split: if_splits)
qed

lemma escape_char_no_quote: "escape_char c @ u \<noteq> CHR 0x22 # v"
  by (auto simp: escape_char_def escape_control_def)

lemma escaped_split:
  "concat (map escape_char a) @ CHR 0x22 # x = concat (map escape_char b) @ CHR 0x22 # y \<Longrightarrow>
    a = b \<and> x = y"
proof (induction a arbitrary: b)
  case Nil
  then show ?case using escape_char_no_quote by (cases b) (auto dest: sym)
next
  case (Cons c a)
  show ?case
  proof (cases b)
    case Nil
    with Cons.prems escape_char_no_quote show ?thesis by auto
  next
    case (Cons d b')
    with Cons.prems have "c = d \<and> concat (map escape_char a) @ CHR 0x22 # x =
        concat (map escape_char b') @ CHR 0x22 # y"
      by (intro escape_char_split) simp
    with Cons.IH [of b'] Cons show ?thesis by simp
  qed
qed

interpretation basic: prefix_free push_basic_string "\<lambda>_. True"
  by unfold_locales (auto simp: push_basic_string_def dest: escaped_split)

interpretation field: prefix_free "push_field key" "\<lambda>_. True"
  by unfold_locales (auto simp: push_field_def basic.split_iff)

section \<open>Numbers and arrays\<close>

definition is_digit :: "char \<Rightarrow> bool" where
  "is_digit c \<longleftrightarrow> 48 \<le> byte c \<and> byte c \<le> 57"

lemma show_nat_digits: "c \<in> set (show_nat n) \<Longrightarrow> is_digit c"
proof (induction n rule: show_nat.induct)
  case (1 n)
  then show ?case by (subst (asm) show_nat.simps) (auto simp: is_digit_def split: if_splits)
qed

lemma show_nat_nonempty [simp]: "show_nat n \<noteq> []" "[] \<noteq> show_nat n"
  using show_nat.simps [of n] by (auto split: if_splits)

lemma show_nat_inj: "show_nat m = show_nat n \<Longrightarrow> m = n"
proof (induction m arbitrary: n rule: show_nat.induct)
  case (1 m)
  note eq = "1.prems" [unfolded show_nat.simps [of m] show_nat.simps [of n]]
  have c: "char_of (48 + a) = (char_of (48 + b) :: char) \<Longrightarrow> a < 10 \<Longrightarrow> b < 10 \<Longrightarrow> a = b" for a b :: nat
    by (drule arg_cong [of _ _ byte]) simp
  show ?case
  proof (cases "m < 10 \<or> n < 10")
    case True
    with eq show ?thesis by (auto split: if_splits dest: c)
  next
    case False
    with eq have "show_nat (m div 10) = show_nat (n div 10)"
      and "char_of (48 + m mod 10) = (char_of (48 + n mod 10) :: char)" by simp_all
    with False "1.IH" have "m div 10 = n div 10" "m mod 10 = n mod 10" by (auto dest: c)
    then show ?thesis by (metis div_mult_mod_eq)
  qed
qed

text \<open>Two texts over an alphabet, each followed by a byte outside it.\<close>

lemma delimited_split:
  assumes "\<forall>c \<in> set a. P c" "\<forall>c \<in> set b. P c" "\<not> P s" "\<not> P t" "a @ s # x = b @ t # y"
  shows "a = b \<and> s = t \<and> x = y"
  using assms
proof (induction a arbitrary: b)
  case Nil
  then show ?case by (cases b) auto
next
  case (Cons c a)
  then show ?case by (cases b) auto
qed

lemma show_nat_split:
  assumes "show_nat m @ s # x = show_nat n @ t # y" "\<not> is_digit s" "\<not> is_digit t"
  shows "m = n \<and> s = t \<and> x = y"
  using delimited_split [of "show_nat m" is_digit "show_nat n" s t x y] assms
  by (auto dest: show_nat_digits show_nat_inj)

text \<open>
  An array element is an encoding whose end shows: it is followed by a comma or the closing
  bracket, and it cannot start with that bracket. An array of such elements is prefix-free.
\<close>

locale array_element =
  fixes enc :: "'a \<Rightarrow> string"
  assumes elem_split: "s \<in> {CHR '','', CHR '']''} \<Longrightarrow> t \<in> {CHR '','', CHR '']''} \<Longrightarrow>
      enc a @ s # x = enc b @ t # y \<Longrightarrow> a = b \<and> s = t \<and> x = y"
    and elem_start: "enc a @ z \<noteq> CHR '']'' # w"
begin

definition tail_text :: "'a list \<Rightarrow> string \<Rightarrow> string" where
  "tail_text as x = concat (map (\<lambda>a. '', '' @ enc a) as) @ CHR '']'' # x"

lemma tail_text_start: obtains s z where "s \<in> {CHR '','', CHR '']''}" "tail_text as x = s # z"
  by (cases as) (auto simp: tail_text_def)

lemma tail_split: "enc a @ tail_text as x = enc b @ tail_text bs y \<Longrightarrow>
    a = b \<and> tail_text as x = tail_text bs y"
  by (rule tail_text_start [of as x]; rule tail_text_start [of bs y])
    (auto dest!: elem_split [rotated 2])

lemma tail_inj: "tail_text as x = tail_text bs y \<Longrightarrow> as = bs \<and> x = y"
proof (induction as arbitrary: bs)
  case Nil
  then show ?case by (cases bs) (auto simp: tail_text_def)
next
  case (Cons a as)
  show ?case
  proof (cases bs)
    case Nil
    with Cons.prems show ?thesis by (simp add: tail_text_def)
  next
    case bs: (Cons b bs')
    with Cons.prems have "enc a @ tail_text as x = enc b @ tail_text bs' y"
      by (simp add: tail_text_def)
    then have "a = b" "tail_text as x = tail_text bs' y" by (auto dest: tail_split)
    with Cons.IH [of bs'] bs show ?thesis by simp
  qed
qed

lemma join_text:
  "join_comma (map enc (a # as)) @ CHR '']'' # x = enc a @ tail_text as x"
  by (induction as arbitrary: a) (simp_all add: tail_text_def)

lemma join_split:
  "join_comma (map enc as) @ CHR '']'' # x = join_comma (map enc bs) @ CHR '']'' # y \<Longrightarrow>
    as = bs \<and> x = y"
proof (cases as; cases bs)
  fix a as' b bs'
  assume e: "as = a # as'" "bs = b # bs'"
    "join_comma (map enc as) @ CHR '']'' # x = join_comma (map enc bs) @ CHR '']'' # y"
  then have "enc a @ tail_text as' x = enc b @ tail_text bs' y" by (simp only: join_text)
  then show ?thesis using e(1,2) by (blast dest: tail_split tail_inj)
next
  fix b bs'
  assume e: "as = []" "bs = b # bs'"
    "join_comma (map enc as) @ CHR '']'' # x = join_comma (map enc bs) @ CHR '']'' # y"
  then have "CHR '']'' # x = enc b @ tail_text bs' y" by (simp only: join_text) simp
  with elem_start [of b] show ?thesis by metis
next
  fix a as'
  assume e: "as = a # as'" "bs = []"
    "join_comma (map enc as) @ CHR '']'' # x = join_comma (map enc bs) @ CHR '']'' # y"
  then have "enc a @ tail_text as' x = CHR '']'' # y" by (simp only: join_text) simp
  with elem_start [of a] show ?thesis by metis
qed simp

end


interpretation string_elem: array_element push_basic_string
proof unfold_locales
  fix s t a b x y
  assume "push_basic_string a @ s # x = push_basic_string b @ t # y"
  then show "a = b \<and> s = t \<and> x = y" by (auto simp: basic.split_iff)
qed (simp add: push_basic_string_def)

lemma not_digit_delims [simp]: "\<not> is_digit (CHR '','')" "\<not> is_digit (CHR '']'')"
  "\<not> is_digit (CHR 0x0A)"
  by (simp_all add: is_digit_def byte_def)

lemma show_nat_start: "show_nat n @ z \<noteq> CHR '']'' # w"
  using show_nat_digits [of "hd (show_nat n)" n] by (cases "show_nat n") auto

interpretation u32_elem: array_element "\<lambda>v :: u32. show_nat (unat v)"
proof unfold_locales
  fix s t x y and a b :: u32
  assume "s \<in> {CHR '','', CHR '']''}" "t \<in> {CHR '','', CHR '']''}"
    "show_nat (unat a) @ s # x = show_nat (unat b) @ t # y"
  then have "unat a = unat b \<and> s = t \<and> x = y" by (intro show_nat_split) auto
  then show "a = b \<and> s = t \<and> x = y" by (simp flip: word_unat_eq_iff)
qed (rule show_nat_start)

lemma push_string_array_split:
  "push_string_array key as @ x = push_string_array key bs @ y \<longleftrightarrow> as = bs \<and> x = y"
  using string_elem.join_split [of as "CHR 0x0A # x" bs "CHR 0x0A # y"]
  by (auto simp: push_string_array_def)

lemma push_u32_array_split:
  "push_u32_array key as @ x = push_u32_array key bs @ y \<longleftrightarrow> as = bs \<and> x = y"
  using u32_elem.join_split [of as "CHR 0x0A # x" bs "CHR 0x0A # y"]
  by (auto simp: push_u32_array_def)

section \<open>Rendered locators and nodes\<close>

text \<open>An optional field is prefix-free when what follows it cannot be taken for it.\<close>

fun starts_with :: "string \<Rightarrow> string \<Rightarrow> bool" where
  "starts_with [] s = True"
| "starts_with (c # p) [] = False"
| "starts_with (c # p) (d # s) = (c = d \<and> starts_with p s)"

lemma starts_with_iff: "starts_with p s \<longleftrightarrow> (\<exists>t. s = p @ t)"
  by (induction p s rule: starts_with.induct) auto

lemma push_field_start: "push_field key v = (key @ '' = '') @ push_basic_string v @ [CHR 0x0A]"
  by (simp add: push_field_def)

lemma push_opt_field_split:
  assumes "\<not> starts_with (key @ '' = '') x" "\<not> starts_with (key @ '' = '') y"
  shows "push_opt_field key a @ x = push_opt_field key b @ y \<longleftrightarrow> a = b \<and> x = y"
proof -
  have no: "push_field key v @ t \<noteq> x" "push_field key v @ t \<noteq> y"
    "x \<noteq> push_field key v @ t" "y \<noteq> push_field key v @ t" for v t
    using assms by (auto simp: starts_with_iff push_field_start)
  show ?thesis by (cases a; cases b) (simp_all add: push_opt_field_def field.split_iff no)
qed

lemma starts_with_opt_field [simp]:
  "starts_with p (push_opt_field key v @ z) \<longleftrightarrow>
    (case v of None \<Rightarrow> starts_with p z | Some w \<Rightarrow> starts_with p (push_field key w @ z))"
  by (simp add: push_opt_field_def split: option.splits)

lemma starts_with_clash:
  "take (length q) p \<noteq> take (length p) q \<Longrightarrow> \<not> starts_with p (q @ z)"
  by (auto simp: starts_with_iff append_eq_append_conv2)

lemma starts_with_key [simp]:
  "take (length key) p \<noteq> take (length p) key \<Longrightarrow> \<not> starts_with p (push_field key w @ z)"
  "take (length key) p \<noteq> take (length p) key \<Longrightarrow> \<not> starts_with p (push_string_array key ws @ z)"
  by (simp_all add: push_field_def push_string_array_def starts_with_clash)

text \<open>
  What the rendering relies on of Rust's float formatting, on finite values: distinct values
  have distinct texts, made of digits, signs, points and exponent marks only.
\<close>

definition f64_text_ok :: "platform \<Rightarrow> bool" where
  "f64_text_ok X \<longleftrightarrow>
    (\<forall>a b. f64_is_finite a \<longrightarrow> f64_is_finite b \<longrightarrow> show_f64 X a = show_f64 X b \<longrightarrow> a = b) \<and>
    (\<forall>a. f64_is_finite a \<longrightarrow> set (show_f64 X a) \<inter> {CHR '','', CHR '']''} = {})"

lemma show_f64_split:
  assumes "f64_text_ok X" "f64_is_finite a" "f64_is_finite b" "s \<in> {CHR '','', CHR '']''}"
    and "show_f64 X a @ s # x = show_f64 X b @ s # y"
  shows "a = b \<and> x = y"
  using delimited_split [of "show_f64 X a" "\<lambda>c. c \<notin> {CHR '','', CHR '']''}" "show_f64 X b" s s x y]
    assms unfolding f64_text_ok_def by blast

fun locator_finite :: "source_locator \<Rightarrow> bool" where
  "locator_finite (Pdf _ _ (a, b, c, d)) =
    (f64_is_finite a \<and> f64_is_finite b \<and> f64_is_finite c \<and> f64_is_finite d)"
| "locator_finite _ = True"

lemma render_bbox_split:
  assumes "f64_text_ok X" "locator_finite (Pdf p l v)" "locator_finite (Pdf q m w)"
    and "render_bbox X v @ x = render_bbox X w @ y"
  shows "v = w \<and> x = y"
proof -
  obtain a b c d a' b' c' d' where v: "v = (a, b, c, d)" "w = (a', b', c', d')"
    by (metis prod.exhaust)
  have fin: "f64_is_finite a" "f64_is_finite b" "f64_is_finite c" "f64_is_finite d"
    "f64_is_finite a'" "f64_is_finite b'" "f64_is_finite c'" "f64_is_finite d'"
    using assms(2,3) v by simp_all
  note split = show_f64_split [OF assms(1)]
  from assms(4) have "a = a' \<and> CHR '' '' # show_f64 X b @ '', '' @ show_f64 X c @ '', ''
        @ show_f64 X d @ '']'' @ x = CHR '' '' # show_f64 X b' @ '', '' @ show_f64 X c' @ '', ''
        @ show_f64 X d' @ '']'' @ y"
    by (intro split [OF fin(1) fin(5), of "CHR '',''"]) (simp_all add: v render_bbox_def)
  moreover from this have "b = b' \<and> CHR '' '' # show_f64 X c @ '', '' @ show_f64 X d @ '']'' @ x
      = CHR '' '' # show_f64 X c' @ '', '' @ show_f64 X d' @ '']'' @ y"
    by (intro split [OF fin(2) fin(6), of "CHR '',''"]) simp_all
  moreover from this have "c = c' \<and> CHR '' '' # show_f64 X d @ '']'' @ x
      = CHR '' '' # show_f64 X d' @ '']'' @ y"
    by (intro split [OF fin(3) fin(7), of "CHR '',''"]) simp_all
  moreover from this have "d = d' \<and> x = y"
    by (intro split [OF fin(4) fin(8), of "CHR '']''"]) simp_all
  ultimately show ?thesis by (simp add: v)
qed

lemma locator_kind_split:
  "push_locator X a @ x = push_locator X b @ y \<Longrightarrow>
    format_str a = format_str b \<and> push_locator_body X a @ x = push_locator_body X b @ y"
  by (simp add: push_locator_def field.split_iff)

lemma show_word_split:
  fixes m n :: "'a::len word"
  assumes "s \<in> {CHR '','', CHR '']'', CHR 0x0A}"
  shows "show_nat (unat m) @ s # x = show_nat (unat n) @ s # y \<longleftrightarrow> m = n \<and> x = y"
  using show_nat_split [of "unat m" s x "unat n" s y] assms
  by (auto simp flip: word_unat_eq_iff)

lemma push_locator_split:
  assumes X: "f64_text_ok X" and fin: "locator_finite a" "locator_finite b"
    and eq: "push_locator X a @ x = push_locator X b @ y"
  shows "a = b \<and> x = y"
proof -
  from eq have kind: "format_str a = format_str b"
    and body: "push_locator_body X a @ x = push_locator_body X b @ y"
    by (auto dest: locator_kind_split)
  show ?thesis
  proof (cases a)
    case a: (Markdown p g an h r)
    with kind obtain p' g' an' h' r' where b: "b = Markdown p' g' an' h' r'" by (cases b) auto
    from body show ?thesis
      by (simp add: a b field.split_iff push_opt_field_split push_string_array_split
          show_word_split split: option.splits)
        (auto simp: prod_eq_iff safe_rel_path.expand)
  next
    case a: (Html u f fr h d)
    with kind obtain u' f' fr' h' d' where b: "b = Html u' f' fr' h' d'" by (cases b) auto
    from body show ?thesis
      by (simp add: a b field.split_iff push_opt_field_split push_string_array_split
          push_u32_array_split split: option.splits)
  next
    case a: (Pdf n l v)
    with kind obtain n' l' v' where b: "b = Pdf n' l' v'" by (cases b) auto
    from body have "n = n' \<and> l = l' \<and>
        render_bbox X v @ CHR 0x0A # x = render_bbox X v' @ CHR 0x0A # y"
      by (simp add: a b push_opt_field_split show_word_split)
    with render_bbox_split [OF X, of n l v n' l' v'] fin show ?thesis by (auto simp: a b)
  qed
qed


lemma render_node_split:
  assumes X: "f64_text_ok X" and fin: "locator_finite (sn_locator m)" "locator_finite (sn_locator n)"
    and eq: "render_node X m @ x = render_node X n @ y"
  shows "m = n \<and> x = y"
proof -
  from eq have f: "sn_uid m = sn_uid n \<and> sn_source_revision_uid m = sn_source_revision_uid n \<and>
      sn_parent_uid m = sn_parent_uid n \<and> kind_as_str (sn_kind m) = kind_as_str (sn_kind n) \<and>
      sn_ordinal m = sn_ordinal n \<and> sn_label m = sn_label n \<and>
      sn_canonical_text m = sn_canonical_text n \<and>
      std_str (sn_content_sha256 m) = std_str (sn_content_sha256 n) \<and>
      std_str (sn_fingerprint m) = std_str (sn_fingerprint n) \<and>
      push_locator X (sn_locator m) @ x = push_locator X (sn_locator n) @ y"
    by (simp add: render_node_def field.split_iff push_opt_field_split show_word_split)
  then have "sn_locator m = sn_locator n \<and> x = y"
    using push_locator_split [OF X fin] by blast
  with f show ?thesis
    by (auto simp: structural_content_digest.expand dest: kind_as_str_inj)
qed

lemma prefix_free_render_node:
  "f64_text_ok X \<Longrightarrow> prefix_free (render_node X) (\<lambda>n. locator_finite (sn_locator n))"
  by unfold_locales (rule render_node_split)

definition graph_finite :: "source_graph \<Rightarrow> bool" where
  "graph_finite g \<longleftrightarrow> (\<forall>n \<in> set (sg_nodes g). locator_finite (sn_locator n))"

lemma locator_ranges_finite: "locator_ranges_ok l \<Longrightarrow> locator_finite l"
  by (cases l rule: locator_finite.cases) auto

section \<open>What a graph digest determines\<close>

text \<open>Two different inputs with one SHA-256 output: what an injectivity claim excludes.\<close>

definition collision :: "platform \<Rightarrow> bytes \<Rightarrow> bytes \<Rightarrow> bool" where
  "collision X a b \<longleftrightarrow> a \<noteq> b \<and> sha256 X a = sha256 X b"

lemma sort_key_sg_nodes: "sg_inv g \<Longrightarrow> sort_key sn_uid (sg_nodes g) = sg_nodes g"
  by (intro sort_key_id_if_sorted)
    (simp add: map_uid_sg_nodes sg_inv_def bwf_def strict_sorted_iff)

lemma sg_nodes_inj: "sg_inv g \<Longrightarrow> sg_inv h \<Longrightarrow> sg_nodes g = sg_nodes h \<Longrightarrow> g = h"
proof -
  assume a: "sg_inv g" "sg_inv h" "sg_nodes g = sg_nodes h"
  then have "map fst g = map fst h" "map snd g = map snd h"
    by (simp_all add: map_uid_sg_nodes [symmetric] sg_nodes_def bvals_def [symmetric])
  then show "g = h" by (metis zip_map_fst_snd)
qed

lemma render_sorted_nodes_inj:
  assumes X: "f64_text_ok X" and fin: "graph_finite g" "graph_finite h"
    and g: "sg_inv g" and h: "sg_inv h"
    and eq: "render_sorted_nodes X (sg_nodes g) = render_sorted_nodes X (sg_nodes h)"
  shows "g = h"
proof -
  have ne: "render_node X n \<noteq> []" for n by (simp add: render_node_def)
  have "concat (map (render_node X) (sg_nodes g)) = concat (map (render_node X) (sg_nodes h))"
    using eq by (simp add: render_sorted_nodes_def sort_key_sg_nodes g h)
  then have "sg_nodes g = sg_nodes h"
    using fin by (intro prefix_free.concat_inj [OF prefix_free_render_node [OF X] ne])
      (simp_all add: graph_finite_def)
  with g h show ?thesis by (rule sg_nodes_inj)
qed

definition graph_digest_input :: "platform \<Rightarrow> source_graph \<Rightarrow> bytes" where
  "graph_digest_input X g = graph_domain_tag @ [CHR 0x00] @ render_sorted_nodes X (sg_nodes g)"

lemma source_graph_digest_separates:
  assumes "f64_text_ok X" "graph_finite g" "graph_finite h" "sg_inv g" "sg_inv h"
    and "source_graph_digest X g = source_graph_digest X h"
    and "\<not> collision X (graph_digest_input X g) (graph_digest_input X h)"
  shows "g = h"
  using assms by (intro render_sorted_nodes_inj)
    (auto simp: source_graph_digest_def collision_def graph_digest_input_def)

end
