(* ===== verification/Patch_Records.thy ===== *)
theory Patch_Records
  imports Forest_Spec Source_Render
begin

text \<open>
  Curated source patches (\<^verbatim>\<open>corpus/source_patch.rs\<close>, \<^verbatim>\<open>source_patch/digest.rs\<close> and the
  per-record checks of \<^verbatim>\<open>source_patch/records.rs\<close>): the closed operation enumeration, the
  canonical reviewed-content bytes with their digest, and the loader's fail-closed validation
  of one record, which also sorts the operations by ordinal. The TOML parser is outside: the
  checks start from a parsed record.
\<close>

section \<open>Operations\<close>

datatype child_disposition = ReparentChildren | RemoveSubtree

record inserted_node_spec =
  in_uid :: uid
  in_kind :: source_node_kind
  in_ordinal :: u32
  in_label :: "string option"
  in_canonical_text :: string
  in_locator :: source_locator

text \<open>\<^verbatim>\<open>PatchOperation\<close>: the fields in the source's order.\<close>

datatype patch_operation =
    ReplaceContent u32 uid structural_content_digest "string option" "string option"
  | Reclassify u32 uid source_node_kind source_node_kind
  | Reparent u32 uid "uid option" u32 "uid option" u32
  | Insert u32 "uid option" inserted_node_spec
  | Remove u32 uid structural_content_digest child_disposition

fun op_ordinal :: "patch_operation \<Rightarrow> u32" where
  "op_ordinal (ReplaceContent n _ _ _ _) = n"
| "op_ordinal (Reclassify n _ _ _) = n"
| "op_ordinal (Reparent n _ _ _ _ _) = n"
| "op_ordinal (Insert n _ _) = n"
| "op_ordinal (Remove n _ _ _) = n"

fun op_tag :: "patch_operation \<Rightarrow> string" where
  "op_tag (ReplaceContent _ _ _ _ _) = ''replace_content''"
| "op_tag (Reclassify _ _ _ _) = ''reclassify''"
| "op_tag (Reparent _ _ _ _ _ _) = ''reparent''"
| "op_tag (Insert _ _ _) = ''insert''"
| "op_tag (Remove _ _ _ _) = ''remove''"

fun conflict_identity :: "patch_operation \<Rightarrow> uid" where
  "conflict_identity (ReplaceContent _ t _ _ _) = t"
| "conflict_identity (Reclassify _ t _ _) = t"
| "conflict_identity (Reparent _ t _ _ _ _) = t"
| "conflict_identity (Insert _ _ node) = in_uid node"
| "conflict_identity (Remove _ t _ _) = t"

record source_patch_record =
  sp_uid :: uid
  sp_human_id :: string
  sp_source_revision_uid :: uid
  sp_recipe_digest :: structural_content_digest
  sp_input_digest :: structural_content_digest
  sp_pre_patch_graph_digest :: structural_content_digest
  sp_reviewed_content_digest :: structural_content_digest
  sp_author :: string
  sp_rationale :: string
  sp_created_at :: string
  sp_operations :: "patch_operation list"

section \<open>Reviewed content\<close>

definition reviewed_domain_tag :: bytes where
  "reviewed_domain_tag = ''evidence/curated-patch/v1''"

fun child_disposition_tag :: "child_disposition \<Rightarrow> string" where
  "child_disposition_tag ReparentChildren = ''reparent_children''"
| "child_disposition_tag RemoveSubtree = ''remove_subtree''"

fun push_operation_body :: "platform \<Rightarrow> patch_operation \<Rightarrow> bytes" where
  "push_operation_body X (ReplaceContent _ target expected text label) =
    push_str target @ push_str (std_str expected) @ push_opt text @ push_opt label"
| "push_operation_body X (Reclassify _ target expected_kind new_kind) =
    push_str target @ push_str (kind_as_str expected_kind) @ push_str (kind_as_str new_kind)"
| "push_operation_body X (Reparent _ target expected_parent expected_ordinal new_parent new_ordinal) =
    push_str target @ push_opt expected_parent @ push_count (unat expected_ordinal)
      @ push_opt new_parent @ push_count (unat new_ordinal)"
| "push_operation_body X (Insert _ expected_parent node) =
    push_opt expected_parent @ push_str (in_uid node) @ push_str (kind_as_str (in_kind node))
      @ push_count (unat (in_ordinal node)) @ push_opt (in_label node)
      @ push_str (in_canonical_text node) @ push_str (render_locator_fields X (in_locator node))"
| "push_operation_body X (Remove _ target expected disposition) =
    push_str target @ push_str (std_str expected) @ push_str (child_disposition_tag disposition)"

definition push_operation :: "platform \<Rightarrow> patch_operation \<Rightarrow> bytes" where
  "push_operation X oper =
    push_str (op_tag oper) @ push_count (unat (op_ordinal oper)) @ push_operation_body X oper"

definition reviewed_content_bytes :: "platform \<Rightarrow> source_patch_record \<Rightarrow> bytes" where
  "reviewed_content_bytes X r =
    reviewed_domain_tag @ [CHR 0x00]
      @ push_str (sp_source_revision_uid r)
      @ push_str (std_str (sp_recipe_digest r))
      @ push_str (std_str (sp_input_digest r))
      @ push_str (std_str (sp_pre_patch_graph_digest r))
      @ push_seq (push_operation X) (sort_key op_ordinal (sp_operations r))"

definition reviewed_content_digest ::
  "platform \<Rightarrow> source_patch_record \<Rightarrow> structural_content_digest" where
  "reviewed_content_digest X r =
    StructuralContentDigest (sha256 X (reviewed_content_bytes X r))"

section \<open>Validation of one record\<close>

definition snode_uid_prefix :: string where
  "snode_uid_prefix = ''snode_''"

definition patch_uid_prefix :: string where
  "patch_uid_prefix = ''patch_''"

definition source_uid_prefix :: string where
  "source_uid_prefix = ''src_''"

definition validate_snode_uid :: "platform \<Rightarrow> uid \<Rightarrow> source_patch_error + unit" where
  "validate_snode_uid X u =
    validate_native_uid X u snode_uid_prefix SP_NativeUidPrefix SP_NativeUidUuidV4"

definition validate_patch_uid :: "platform \<Rightarrow> uid \<Rightarrow> source_patch_error + unit" where
  "validate_patch_uid X u =
    validate_native_uid X u patch_uid_prefix SP_NativeUidPrefix SP_NativeUidUuidV4"

definition validate_optional_snode_uid ::
  "platform \<Rightarrow> uid option \<Rightarrow> source_patch_error + unit" where
  "validate_optional_snode_uid X v = on_some (validate_snode_uid X) v"

definition validate_optional_label ::
  "string \<Rightarrow> uid \<Rightarrow> string option \<Rightarrow> source_patch_error + unit" where
  "validate_optional_label path patch_uid label =
    on_some (\<lambda>l. fail_if (is_blank l) (SP_BlankField path patch_uid ''label'')) label"

fun validate_operation ::
  "platform \<Rightarrow> string \<Rightarrow> uid \<Rightarrow> patch_operation \<Rightarrow> source_patch_error + unit" where
  "validate_operation X path patch_uid (ReplaceContent ordinal target _ text label) =
    rbind (validate_snode_uid X target) (\<lambda>_.
    rbind (fail_if (text = None \<and> label = None)
            (SP_IncompleteReplaceContent path patch_uid ordinal)) (\<lambda>_.
    validate_optional_label path patch_uid label))"
| "validate_operation X path patch_uid (Reclassify _ target _ _) = validate_snode_uid X target"
| "validate_operation X path patch_uid (Reparent _ target expected_parent _ new_parent _) =
    rbind (validate_snode_uid X target) (\<lambda>_.
    rbind (validate_optional_snode_uid X expected_parent) (\<lambda>_.
    validate_optional_snode_uid X new_parent))"
| "validate_operation X path patch_uid (Insert _ expected_parent node) =
    rbind (validate_optional_snode_uid X expected_parent) (\<lambda>_.
    rbind (validate_snode_uid X (in_uid node)) (\<lambda>_.
    rbind (validate_optional_label path patch_uid (in_label node)) (\<lambda>_.
    map_err (\<lambda>err. SP_InvalidLocatorField path patch_uid (lf_field err) (lf_value err) (lf_rule err))
      (locator_validate X (in_locator node)))))"
| "validate_operation X path patch_uid (Remove _ target _ _) = validate_snode_uid X target"

text \<open>\<^verbatim>\<open>if seen.insert(key, ()).is_some() { return Err(..) }\<close> over the operations in order:
  \<open>seen\<close> is the set of keys so far.\<close>

fun claim_all :: "('a \<Rightarrow> 'k) \<Rightarrow> ('a \<Rightarrow> 'e) \<Rightarrow> 'k list \<Rightarrow> 'a list \<Rightarrow> 'e + unit" where
  "claim_all key err seen [] = Ok ()"
| "claim_all key err seen (x # xs) =
    (if key x \<in> set seen then Err (err x) else claim_all key err (key x # seen) xs)"

definition validate_operations ::
  "platform \<Rightarrow> string \<Rightarrow> source_patch_record \<Rightarrow> source_patch_error + source_patch_record" where
  "validate_operations X path r =
    rbind (fail_if (sp_operations r = []) (SP_EmptyOperations path (sp_uid r))) (\<lambda>_.
    rbind (for_each (validate_operation X path (sp_uid r)) (sp_operations r)) (\<lambda>_.
    rbind (claim_all op_ordinal (\<lambda>oper. SP_DuplicateOperationOrdinal path (sp_uid r) (op_ordinal oper))
            [] (sp_operations r)) (\<lambda>_.
    rbind (claim_all (\<lambda>oper. (op_tag oper, conflict_identity oper))
            (\<lambda>oper. SP_ConflictingOperation path (sp_uid r) (op_tag oper) (conflict_identity oper))
            [] (sp_operations r)) (\<lambda>_.
    Ok (r\<lparr>sp_operations := sort_key op_ordinal (sp_operations r)\<rparr>)))))"

definition validate_record ::
  "platform \<Rightarrow> string \<Rightarrow> source_patch_record \<Rightarrow> source_patch_error + source_patch_record" where
  "validate_record X path r =
    rbind (validate_patch_uid X (sp_uid r)) (\<lambda>_.
    rbind (for_each (\<lambda>(field, val). fail_if (is_blank val) (SP_BlankField path (sp_uid r) field))
        [(''human_id'', sp_human_id r), (''author'', sp_author r), (''rationale'', sp_rationale r)])
      (\<lambda>_.
    rbind (validate_native_uid X (sp_source_revision_uid r) source_uid_prefix
            SP_NativeUidPrefix SP_NativeUidUuidV4) (\<lambda>_.
    rbind (fail_if (\<not> is_rfc3339 X (sp_created_at r))
            (SP_PatchTimestamp path (sp_uid r) (sp_created_at r))) (\<lambda>_.
    rbind (validate_operations X path r) (\<lambda>r'.
    let recomputed = reviewed_content_digest X r' in
    rbind (fail_if (recomputed \<noteq> sp_reviewed_content_digest r')
            (SP_ReviewedContentDigestMismatch path (sp_uid r') (std_str recomputed)
              (std_str (sp_reviewed_content_digest r')))) (\<lambda>_.
    Ok r'))))))"

record source_patch_file =
  pf_schema_version :: u32
  pf_patch :: source_patch_record

definition supported_source_patch_schema :: u32 where
  "supported_source_patch_schema = 1"

text \<open>\<^verbatim>\<open>parse_source_patch\<close> after the TOML parser: \<open>parsed\<close> is its result on the raw text.\<close>

definition parse_source_patch ::
  "platform \<Rightarrow> string \<Rightarrow> string + source_patch_file \<Rightarrow> source_patch_error + source_patch_record" where
  "parse_source_patch X path parsed =
    rbind (map_err (SP_RecordParse path) parsed) (\<lambda>file.
    rbind (fail_if (supported_source_patch_schema < pf_schema_version file)
            (SP_RecordSchemaTooNew path (pf_schema_version file) supported_source_patch_schema)) (\<lambda>_.
    validate_record X path (pf_patch file)))"

section \<open>What the reviewed digest covers\<close>

lemma push_u32_split:
  fixes m n :: u32
  shows "push_count (unat m) @ x = push_count (unat n) @ y \<longleftrightarrow> m = n \<and> x = y"
proof -
  have bound: "unat (w :: u32) < 2 ^ LENGTH(32)" for w by (rule unsigned_less)
  have "unat m < 2 ^ 64" "unat n < 2 ^ 64" using bound [of m] bound [of n] by simp_all
  then show ?thesis using count.split_iff [of "unat m" "unat n" x y] by (simp flip: word_unat_eq_iff)
qed

lemma child_disposition_tag_inj: "child_disposition_tag a = child_disposition_tag b \<Longrightarrow> a = b"
  by (cases a; cases b) simp_all

lemma fits_tags [simp]: "fits (op_tag oper)" "fits (child_disposition_tag d)"
  by (cases oper; simp add: fits_def) (cases d; simp add: fits_def)

text \<open>Every string of the operation is one a Rust program can hold, and a PDF box is finite.\<close>

fun op_fits :: "platform \<Rightarrow> patch_operation \<Rightarrow> bool" where
  "op_fits X (ReplaceContent _ target expected text label) =
    (fits target \<and> fits (std_str expected) \<and> fits_opt text \<and> fits_opt label)"
| "op_fits X (Reclassify _ target _ _) = fits target"
| "op_fits X (Reparent _ target expected_parent _ new_parent _) =
    (fits target \<and> fits_opt expected_parent \<and> fits_opt new_parent)"
| "op_fits X (Insert _ expected_parent node) =
    (fits_opt expected_parent \<and> fits (in_uid node) \<and> fits_opt (in_label node)
      \<and> fits (in_canonical_text node) \<and> fits (render_locator_fields X (in_locator node))
      \<and> locator_finite (in_locator node))"
| "op_fits X (Remove _ target expected _) = (fits target \<and> fits (std_str expected))"

lemma render_locator_inj:
  "f64_text_ok X \<Longrightarrow> locator_finite a \<Longrightarrow> locator_finite b \<Longrightarrow>
    render_locator_fields X a = render_locator_fields X b \<Longrightarrow> a = b"
  using push_locator_split [of X a b "[]" "[]"] by (simp add: render_locator_fields_def)

lemmas push_splits = str.split_iff opt.split_iff push_u32_split

lemma push_operation_split:
  assumes X: "f64_text_ok X" and fit: "op_fits X a" "op_fits X b"
    and eq: "push_operation X a @ x = push_operation X b @ y"
  shows "a = b \<and> x = y"
proof -
  from eq have tag: "op_tag a = op_tag b" and ord: "op_ordinal a = op_ordinal b"
    and body: "push_operation_body X a @ x = push_operation_body X b @ y"
    by (auto simp: push_operation_def push_splits)
  show ?thesis
  proof (cases a)
    case a: (ReplaceContent n t e c l)
    with tag obtain n' t' e' c' l' where b: "b = ReplaceContent n' t' e' c' l'" by (cases b) auto
    from body ord fit show ?thesis
      by (auto simp: a b push_splits intro: structural_content_digest.expand)
  next
    case a: (Reclassify n t k k')
    with tag obtain m u j j' where b: "b = Reclassify m u j j'" by (cases b) auto
    from body ord fit show ?thesis by (auto simp: a b push_splits dest!: kind_as_str_inj)
  next
    case a: (Reparent n t p m q k)
    with tag obtain n' t' p' m' q' k' where b: "b = Reparent n' t' p' m' q' k'" by (cases b) auto
    from body ord fit show ?thesis by (simp add: a b push_splits)
  next
    case a: (Insert n p i)
    with tag obtain n' p' j where b: "b = Insert n' p' j" by (cases b) auto
    from body fit have f: "p = p' \<and> in_uid i = in_uid j \<and> in_kind i = in_kind j \<and>
        in_ordinal i = in_ordinal j \<and> in_label i = in_label j \<and>
        in_canonical_text i = in_canonical_text j \<and>
        render_locator_fields X (in_locator i) = render_locator_fields X (in_locator j) \<and> x = y"
      by (auto simp: a b push_splits dest: kind_as_str_inj)
    moreover from this fit have "in_locator i = in_locator j"
      by (intro render_locator_inj [OF X]) (simp_all add: a b)
    ultimately show ?thesis using ord by (simp add: a b)
  next
    case a: (Remove n t e d)
    with tag obtain n' t' e' d' where b: "b = Remove n' t' e' d'" by (cases b) auto
    from body ord fit show ?thesis
      by (auto simp: a b push_splits intro: structural_content_digest.expand
          dest!: child_disposition_tag_inj)
  qed
qed

lemma prefix_free_push_operation: "f64_text_ok X \<Longrightarrow> prefix_free (push_operation X) (op_fits X)"
  by unfold_locales (rule push_operation_split)

definition record_fits :: "platform \<Rightarrow> source_patch_record \<Rightarrow> bool" where
  "record_fits X r \<longleftrightarrow> fits (sp_source_revision_uid r) \<and> fits (std_str (sp_recipe_digest r))
    \<and> fits (std_str (sp_input_digest r)) \<and> fits (std_str (sp_pre_patch_graph_digest r))
    \<and> length (sp_operations r) < 2 ^ 63 \<and> (\<forall>oper \<in> set (sp_operations r). op_fits X oper)"

text \<open>What a reviewer approves: everything but the uid, the prose metadata and the order the
  operations are written in.\<close>

definition same_reviewed_content :: "source_patch_record \<Rightarrow> source_patch_record \<Rightarrow> bool" where
  "same_reviewed_content r s \<longleftrightarrow>
    sp_source_revision_uid r = sp_source_revision_uid s \<and> sp_recipe_digest r = sp_recipe_digest s
    \<and> sp_input_digest r = sp_input_digest s
    \<and> sp_pre_patch_graph_digest r = sp_pre_patch_graph_digest s
    \<and> sort_key op_ordinal (sp_operations r) = sort_key op_ordinal (sp_operations s)"

lemma reviewed_content_bytes_iff:
  assumes X: "f64_text_ok X" and r: "record_fits X r" and s: "record_fits X s"
  shows "reviewed_content_bytes X r = reviewed_content_bytes X s \<longleftrightarrow> same_reviewed_content r s"
proof
  let ?ro = "sort_key op_ordinal (sp_operations r)" and ?so = "sort_key op_ordinal (sp_operations s)"
  assume "reviewed_content_bytes X r = reviewed_content_bytes X s"
  then have f: "sp_source_revision_uid r = sp_source_revision_uid s"
      "std_str (sp_recipe_digest r) = std_str (sp_recipe_digest s)"
      "std_str (sp_input_digest r) = std_str (sp_input_digest s)"
      "std_str (sp_pre_patch_graph_digest r) = std_str (sp_pre_patch_graph_digest s)"
      and ops: "push_seq (push_operation X) ?ro @ [] = push_seq (push_operation X) ?so @ []"
    using r s by (auto simp: reviewed_content_bytes_def record_fits_def push_splits)
  have "?ro = ?so \<and> ([] :: string) = []"
    by (rule prefix_free.push_seq_split [OF prefix_free_push_operation [OF X] _ _ _ _ ops])
      (use r s in \<open>simp_all add: record_fits_def\<close>)
  with f show "same_reviewed_content r s"
    by (simp add: same_reviewed_content_def structural_content_digest.expand)
qed (simp add: same_reviewed_content_def reviewed_content_bytes_def)

section \<open>What an accepted record satisfies\<close>

lemma claim_all_Ok_iff [loop_simps]:
  "claim_all key err seen xs = Inr u \<longleftrightarrow>
    distinct (map key xs) \<and> key ` set xs \<inter> set seen = {}"
  by (induction key err seen xs rule: claim_all.induct) auto

definition operations_ok :: "platform \<Rightarrow> string \<Rightarrow> source_patch_record \<Rightarrow> bool" where
  "operations_ok X path r \<longleftrightarrow> sp_operations r \<noteq> []
    \<and> (\<forall>oper \<in> set (sp_operations r). validate_operation X path (sp_uid r) oper = Inr ())
    \<and> distinct (map op_ordinal (sp_operations r))
    \<and> distinct (map (\<lambda>oper. (op_tag oper, conflict_identity oper)) (sp_operations r))"

definition sort_operations :: "source_patch_record \<Rightarrow> source_patch_record" where
  "sort_operations r = r\<lparr>sp_operations := sort_key op_ordinal (sp_operations r)\<rparr>"

definition record_ok :: "platform \<Rightarrow> string \<Rightarrow> source_patch_record \<Rightarrow> bool" where
  "record_ok X path r \<longleftrightarrow>
    (\<exists>s. sp_uid r = patch_uid_prefix @ s \<and> is_uuid_v4 X s)
    \<and> \<not> is_blank (sp_human_id r) \<and> \<not> is_blank (sp_author r) \<and> \<not> is_blank (sp_rationale r)
    \<and> (\<exists>s. sp_source_revision_uid r = source_uid_prefix @ s \<and> is_uuid_v4 X s)
    \<and> is_rfc3339 X (sp_created_at r) \<and> operations_ok X path r
    \<and> sp_reviewed_content_digest r = reviewed_content_digest X r"

lemma reviewed_content_digest_sort [simp]:
  "reviewed_content_digest X (sort_operations r) = reviewed_content_digest X r"
  by (simp add: reviewed_content_digest_def reviewed_content_bytes_def sort_operations_def
      sort_key_id_if_sorted)

lemma validate_operations_Ok_iff:
  "validate_operations X path r = Inr r' \<longleftrightarrow> operations_ok X path r \<and> r' = sort_operations r"
  by (auto simp: validate_operations_def operations_ok_def sort_operations_def loop_simps)

lemma validate_record_Ok_iff:
  "validate_record X path r = Inr r' \<longleftrightarrow> record_ok X path r \<and> r' = sort_operations r"
  by (auto simp: validate_record_def record_ok_def validate_patch_uid_def loop_simps Let_def
      validate_operations_Ok_iff simp del: for_each.simps) (auto simp: sort_operations_def)

lemma operations_ok_sort: "operations_ok X path r \<Longrightarrow> operations_ok X path (sort_operations r)"
proof -
  have d: "distinct (map f (sort_key op_ordinal xs)) = distinct (map f xs)" for f xs
    by (simp add: distinct_map)
  assume "operations_ok X path r"
  then show ?thesis
    by (simp add: operations_ok_def sort_operations_def d)
      (metis length_0_conv length_sort)
qed

lemma sort_operations_idem [simp]: "sort_operations (sort_operations r) = sort_operations r"
  by (simp add: sort_operations_def sort_key_id_if_sorted)

lemma validate_record_idem:
  assumes "validate_record X path r = Inr r'"
  shows "validate_record X path r' = Inr r'"
proof -
  from assms have ok: "record_ok X path r" and r': "r' = sort_operations r"
    by (simp_all add: validate_record_Ok_iff)
  have "record_ok X path r'"
    using ok operations_ok_sort [of X path r] unfolding r' record_ok_def
    by simp (simp add: sort_operations_def)
  then show ?thesis by (simp add: validate_record_Ok_iff r')
qed

lemma sort_operations_strict:
  assumes "operations_ok X path r"
  shows "sorted_wrt (<) (map op_ordinal (sp_operations (sort_operations r)))"
  using operations_ok_sort [OF assms]
  by (simp add: strict_sorted_iff operations_ok_def) (simp add: sort_operations_def)

end
