(* ===== verification/Patch_Apply.thy ===== *)
theory Patch_Apply
  imports Patch_Records
begin

text \<open>
  Applying one curated patch to a parser source graph (\<^verbatim>\<open>corpus/source_patch/apply.rs\<close>):
  the bindings, the operations in order on a working copy, the recomputation of every node's
  digests and the validation of the result. The first half models the code, the second half
  shows what each graph edit does.
\<close>

section \<open>The errors the operations build\<close>

definition dangling :: "uid \<Rightarrow> uid \<Rightarrow> source_patch_error" where
  "dangling patch_uid target_uid = SP_DanglingTarget patch_uid target_uid"

definition stale :: "uid \<Rightarrow> u32 \<Rightarrow> uid \<Rightarrow> string \<Rightarrow> string \<Rightarrow> string \<Rightarrow> source_patch_error" where
  "stale patch_uid ordinal target_uid field expected actual =
    SP_StalePrecondition patch_uid ordinal target_uid field expected actual"

definition target_node ::
  "source_graph \<Rightarrow> uid \<Rightarrow> uid \<Rightarrow> source_patch_error + source_node" where
  "target_node g patch_uid target_uid =
    (case sg_get g target_uid of None \<Rightarrow> Err (dangling patch_uid target_uid) | Some n \<Rightarrow> Ok n)"

definition check_content_digest ::
  "uid \<Rightarrow> u32 \<Rightarrow> source_node \<Rightarrow> structural_content_digest \<Rightarrow> source_patch_error + unit" where
  "check_content_digest patch_uid ordinal node expected =
    fail_if (sn_content_sha256 node \<noteq> expected)
      (stale patch_uid ordinal (sn_uid node) ''content_sha256'' (std_str expected)
        (std_str (sn_content_sha256 node)))"

definition check_binding ::
  "uid \<Rightarrow> string \<Rightarrow> structural_content_digest \<Rightarrow> structural_content_digest
    \<Rightarrow> source_patch_error + unit" where
  "check_binding patch_uid field expected actual =
    fail_if (expected \<noteq> actual)
      (SP_StaleBinding patch_uid field (std_str expected) (std_str actual))"

section \<open>Graph edits\<close>

text \<open>\<^verbatim>\<open>reparent_children\<close>: the promoted children take the removed node's place between its
  earlier and later siblings, and the whole level is renumbered.\<close>

definition ordered_uids :: "(source_node \<Rightarrow> bool) \<Rightarrow> source_graph \<Rightarrow> uid list" where
  "ordered_uids P g =
    map snd (sort (map (\<lambda>n. (sn_ordinal n, sn_uid n)) (filter P (sg_nodes g))))"

fun renumber ::
  "uid list \<Rightarrow> uid option \<Rightarrow> nat \<Rightarrow> uid list \<Rightarrow> source_graph \<Rightarrow> source_graph" where
  "renumber promoted parent index [] g = g"
| "renumber promoted parent index (u # us) g =
    renumber promoted parent (Suc index) us
      (sg_node_mut g u (\<lambda>n. n\<lparr>sn_ordinal := of_nat index,
         sn_parent_uid := (if u \<in> set promoted then parent else sn_parent_uid n)\<rparr>))"

definition reparent_children :: "source_graph \<Rightarrow> uid \<Rightarrow> source_graph" where
  "reparent_children g target_uid =
    (case sg_get g target_uid of
       None \<Rightarrow> g
     | Some removed \<Rightarrow>
        let g' = sg_remove_node g target_uid;
            parent = sn_parent_uid removed;
            promoted = ordered_uids (\<lambda>n. sn_parent_uid n = Some target_uid) g';
            earlier = ordered_uids
              (\<lambda>n. sn_parent_uid n = parent \<and> sn_ordinal n < sn_ordinal removed) g';
            later = ordered_uids
              (\<lambda>n. sn_parent_uid n = parent \<and> sn_ordinal removed < sn_ordinal n) g'
        in renumber promoted parent 0 (earlier @ promoted @ later) g')"

text \<open>
  \<^verbatim>\<open>remove_subtree\<close>: \<open>pending\<close> is the stack, its top first, \<open>members\<close> the set collected so
  far. A round either drops an already collected uid or collects a new one.
\<close>

definition children_uids :: "source_graph \<Rightarrow> uid \<Rightarrow> uid list" where
  "children_uids g u = map sn_uid (filter (\<lambda>n. sn_parent_uid n = Some u) (sg_nodes g))"

function collect_members :: "source_graph \<Rightarrow> uid list \<Rightarrow> uid list \<Rightarrow> uid list" where
  "collect_members g [] members = members"
| "collect_members g (u # pending) members =
    (if u \<in> set members then collect_members g pending members
     else collect_members g (rev (children_uids g u) @ pending) (u # members))"
  by pat_completeness auto
termination
proof (relation "measures [\<lambda>(g, pending, members).
    card ((set (map sn_uid (sg_nodes g)) \<union> set pending) - set members),
    \<lambda>(g, pending, members). length pending]")
  fix g u pending and members :: "uid list"
  assume u: "u \<notin> set members"
  let ?ns = "set (map sn_uid (sg_nodes g))"
  have "(?ns \<union> set (rev (children_uids g u) @ pending)) - set (u # members)
      \<subset> (?ns \<union> set (u # pending)) - set members"
    using u by (auto simp: children_uids_def)
  then have "card ((?ns \<union> set (rev (children_uids g u) @ pending)) - set (u # members))
      < card ((?ns \<union> set (u # pending)) - set members)"
    by (intro psubset_card_mono) simp_all
  then show "((g, rev (children_uids g u) @ pending, u # members), g, u # pending, members)
      \<in> measures [\<lambda>(g, pending, members).
        card ((set (map sn_uid (sg_nodes g)) \<union> set pending) - set members),
        \<lambda>(g, pending, members). length pending]" by simp
qed (auto simp: insert_absorb insert_Diff_if)

definition remove_subtree :: "source_graph \<Rightarrow> uid \<Rightarrow> source_graph" where
  "remove_subtree g target_uid =
    fold (\<lambda>u h. sg_remove_node h u) (sort (collect_members g [target_uid] [])) g"

text \<open>\<^verbatim>\<open>ancestry_pairs\<close>, root first; a dangling or repeated uid ends the walk.\<close>

function pairs_loop :: "source_graph \<Rightarrow> uid list \<Rightarrow> ancestry \<Rightarrow> uid option \<Rightarrow> ancestry" where
  "pairs_loop g visited chain None = chain"
| "pairs_loop g visited chain (Some u) =
    (case sg_get g u of
       None \<Rightarrow> chain
     | Some parent \<Rightarrow>
        if sn_uid parent \<in> set visited then chain
        else pairs_loop g (sn_uid parent # visited) (chain @ [(sn_kind parent, sn_label parent)])
               (sn_parent_uid parent))"
  by pat_completeness auto
termination
proof (relation "measure (\<lambda>(g, visited, chain, c).
    length (filter (\<lambda>n. sn_uid n \<notin> set visited) (sg_nodes g)))")
  fix g u parent and visited :: "uid list" and chain :: ancestry
  assume "sg_get g u = Some parent" "sn_uid parent \<notin> set visited"
  then show "((g, sn_uid parent # visited, chain @ [(sn_kind parent, sn_label parent)],
      sn_parent_uid parent), g, visited, chain, Some u)
    \<in> measure (\<lambda>(g, visited, chain, c).
        length (filter (\<lambda>n. sn_uid n \<notin> set visited) (sg_nodes g)))"
    using unvisited_shrinks [of parent "sg_nodes g" sn_uid visited] by (simp add: sg_get_in_nodes)
qed simp

definition ancestry_pairs :: "source_graph \<Rightarrow> uid option \<Rightarrow> ancestry" where
  "ancestry_pairs g parent_uid = rev (pairs_loop g [] [] parent_uid)"

definition recompute_node_digests :: "platform \<Rightarrow> source_graph \<Rightarrow> source_graph" where
  "recompute_node_digests X g =
    (let updates = fold (\<lambda>node. bins (sn_uid node)
           (content_digest X (sn_kind node) (sn_canonical_text node),
            fingerprint X (sn_kind node) (sn_label node) (ancestry_pairs g (sn_parent_uid node))))
         (sg_nodes g) []
     in fold (\<lambda>(u, digests) h. sg_node_mut h u
          (\<lambda>n. n\<lparr>sn_content_sha256 := fst digests, sn_fingerprint := snd digests\<rparr>)) updates g)"

section \<open>Operations\<close>

definition inserted_node ::
  "platform \<Rightarrow> source_graph \<Rightarrow> source_patch_record \<Rightarrow> uid option \<Rightarrow> inserted_node_spec \<Rightarrow> source_node"
where
  "inserted_node X g patch expected_parent node =
    \<lparr>sn_uid = in_uid node, sn_source_revision_uid = sp_source_revision_uid patch,
     sn_parent_uid = expected_parent, sn_kind = in_kind node, sn_ordinal = in_ordinal node,
     sn_label = in_label node, sn_canonical_text = in_canonical_text node,
     sn_content_sha256 = content_digest X (in_kind node) (in_canonical_text node),
     sn_fingerprint =
       fingerprint X (in_kind node) (in_label node) (ancestry_pairs g expected_parent),
     sn_locator = in_locator node\<rparr>"

fun insert_error :: "uid \<Rightarrow> uid \<Rightarrow> source_graph_error \<Rightarrow> source_patch_error" where
  "insert_error patch_uid node_uid (SG_DuplicateUid _ u) =
    SP_InsertedIdentityCollision patch_uid u ''uid'' node_uid"
| "insert_error patch_uid node_uid (SG_DuplicateHumanId _ _ _ first_uid duplicate_uid) =
    SP_InsertedIdentityCollision patch_uid duplicate_uid ''label'' first_uid"
| "insert_error patch_uid node_uid other = SP_InvalidPostGraph patch_uid other"

definition root_or :: "uid option \<Rightarrow> string" where
  "root_or v = (case v of None \<Rightarrow> ''<root>'' | Some u \<Rightarrow> u)"

definition check_parent_exists :: "source_graph \<Rightarrow> uid \<Rightarrow> uid option \<Rightarrow> source_patch_error + unit" where
  "check_parent_exists g patch_uid parent =
    on_some (\<lambda>p. fail_if (sg_get g p = None) (dangling patch_uid p)) parent"

fun apply_operation ::
  "platform \<Rightarrow> source_patch_record \<Rightarrow> source_graph \<Rightarrow> patch_operation
    \<Rightarrow> source_patch_error + source_graph" where
  "apply_operation X patch g (ReplaceContent ordinal target expected new_text new_label) =
    rbind (target_node g (sp_uid patch) target) (\<lambda>node.
    rbind (check_content_digest (sp_uid patch) ordinal node expected) (\<lambda>_.
    Ok (sg_node_mut g target (\<lambda>n. n\<lparr>
      sn_canonical_text := (case new_text of None \<Rightarrow> sn_canonical_text n | Some t \<Rightarrow> t),
      sn_label := (case new_label of None \<Rightarrow> sn_label n | Some l \<Rightarrow> Some l)\<rparr>))))"
| "apply_operation X patch g (Reclassify ordinal target expected_kind new_kind) =
    rbind (target_node g (sp_uid patch) target) (\<lambda>node.
    rbind (fail_if (sn_kind node \<noteq> expected_kind)
      (SP_StalePrecondition (sp_uid patch) ordinal target ''kind'' (kind_as_str expected_kind)
        (kind_as_str (sn_kind node)))) (\<lambda>_.
    Ok (sg_node_mut g target (\<lambda>n. n\<lparr>sn_kind := new_kind\<rparr>))))"
| "apply_operation X patch g
     (Reparent ordinal target expected_parent expected_ordinal new_parent new_ordinal) =
    rbind (target_node g (sp_uid patch) target) (\<lambda>node.
    rbind (fail_if (sn_parent_uid node \<noteq> expected_parent)
      (stale (sp_uid patch) ordinal target ''parent_uid'' (root_or expected_parent)
        (root_or (sn_parent_uid node)))) (\<lambda>_.
    rbind (fail_if (sn_ordinal node \<noteq> expected_ordinal)
      (stale (sp_uid patch) ordinal target ''ordinal'' (show_nat (unat expected_ordinal))
        (show_nat (unat (sn_ordinal node))))) (\<lambda>_.
    rbind (check_parent_exists g (sp_uid patch) new_parent) (\<lambda>_.
    Ok (sg_node_mut g target (\<lambda>n. n\<lparr>sn_parent_uid := new_parent, sn_ordinal := new_ordinal\<rparr>))))))"
| "apply_operation X patch g (Insert ordinal expected_parent node) =
    rbind (check_parent_exists g (sp_uid patch) expected_parent) (\<lambda>_.
    map_err (insert_error (sp_uid patch) (in_uid node))
      (sg_insert g (inserted_node X g patch expected_parent node)))"
| "apply_operation X patch g (Remove ordinal target expected disposition) =
    rbind (target_node g (sp_uid patch) target) (\<lambda>node.
    rbind (check_content_digest (sp_uid patch) ordinal node expected) (\<lambda>_.
    Ok (case disposition of
          ReparentChildren \<Rightarrow> reparent_children g target
        | RemoveSubtree \<Rightarrow> remove_subtree g target)))"

section \<open>The patch\<close>

record patch_bindings =
  pb_recipe_digest :: structural_content_digest
  pb_input_digest :: structural_content_digest

record patch_application =
  pa_pre_patch_digest :: structural_content_digest
  pa_patch_digest :: structural_content_digest
  pa_post_patch_digest :: structural_content_digest
  pa_graph :: source_graph

definition apply_patch ::
  "platform \<Rightarrow> source_graph \<Rightarrow> source_patch_record \<Rightarrow> patch_bindings \<Rightarrow> string
    \<Rightarrow> source_patch_error + patch_application" where
  "apply_patch X g patch bindings media_type =
    rbind (map_err (SP_PreGraphInvalid (sp_uid patch))
      (validate_graph_standalone X (sp_source_revision_uid patch) media_type g)) (\<lambda>_.
    rbind (check_binding (sp_uid patch) ''recipe_digest'' (sp_recipe_digest patch)
      (pb_recipe_digest bindings)) (\<lambda>_.
    rbind (check_binding (sp_uid patch) ''input_digest'' (sp_input_digest patch)
      (pb_input_digest bindings)) (\<lambda>_.
    let pre_patch_digest = source_graph_digest X g in
    rbind (check_binding (sp_uid patch) ''pre_patch_graph_digest'' (sp_pre_patch_graph_digest patch)
      pre_patch_digest) (\<lambda>_.
    rbind (fold_res (apply_operation X patch) g (sp_operations patch)) (\<lambda>edited.
    let working = recompute_node_digests X edited in
    rbind (map_err (SP_InvalidPostGraph (sp_uid patch))
      (validate_graph_standalone X (sp_source_revision_uid patch) media_type working)) (\<lambda>_.
    Ok \<lparr>pa_pre_patch_digest = pre_patch_digest, pa_patch_digest = sp_reviewed_content_digest patch,
        pa_post_patch_digest = source_graph_digest X working, pa_graph = working\<rparr>))))))"

end
