(* ===== verification/Patch_Edits.thy ===== *)
theory Patch_Edits
  imports Patch_Apply
begin

text \<open>
  What the graph edits of \<^verbatim>\<open>corpus/source_patch/apply.rs\<close> do, one lookup equation per edit,
  and the invariants the whole application keeps: the representation invariant, the node frame,
  the exact reach of a subtree removal and the renumbering of a promotion.
\<close>

section \<open>Lookups after an edit\<close>

lemma sg_inv_renumber: "sg_inv g \<Longrightarrow> sg_inv (renumber promoted parent k us g)"
  by (induction promoted parent k us g rule: renumber.induct) (simp_all add: sg_inv_node_mut)

lemma sg_get_renumber:
  assumes "distinct us"
  shows "sg_get (renumber promoted parent k us g) v =
    (case find (\<lambda>(u, i). u = v) (zip us [k..<k + length us]) of
       None \<Rightarrow> sg_get g v
     | Some (u, i) \<Rightarrow> map_option (\<lambda>n. n\<lparr>sn_ordinal := of_nat i,
         sn_parent_uid := (if u \<in> set promoted then parent else sn_parent_uid n)\<rparr>) (sg_get g v))"
  using assms
proof (induction promoted parent k us g rule: renumber.induct)
  case (1 promoted parent k g)
  then show ?case by simp
next
  case (2 promoted parent k u us g)
  have upt: "[k..<k + length (u # us)] = k # [Suc k..<Suc k + length us]"
    by (simp add: upt_conv_Cons del: upt_Suc)
  have none: "find (\<lambda>(w, i). w = u) (zip us is) = None" for "is" :: "nat list"
    using "2.prems" by (auto simp: find_None_iff dest: set_zip_leftD)
  show ?case
    unfolding upt renumber.simps using 2 none
    by (cases "v = u") (auto split: option.splits simp del: upt_Suc)
qed

lemma sg_get_renumber_nth:
  assumes "distinct us" "i < length us"
  shows "sg_get (renumber promoted parent 0 us g) (us ! i) =
    map_option (\<lambda>n. n\<lparr>sn_ordinal := of_nat i,
      sn_parent_uid := (if us ! i \<in> set promoted then parent else sn_parent_uid n)\<rparr>)
      (sg_get g (us ! i))"
proof -
  have "find (\<lambda>(u, j). u = us ! i) (zip us [0..<length us]) = Some (us ! i, i)"
    using assms by (auto simp: find_Some_iff nth_eq_iff_index_eq intro!: exI [of _ i])
  then show ?thesis using sg_get_renumber [OF assms(1), of promoted parent 0 g "us ! i"] by simp
qed

lemma sg_get_renumber_other:
  assumes "distinct us" "v \<notin> set us"
  shows "sg_get (renumber promoted parent 0 us g) v = sg_get g v"
proof -
  have "find (\<lambda>(u, j). u = v) (zip us [0..<length us]) = None"
    using assms(2) by (auto simp: find_None_iff dest: set_zip_leftD)
  then show ?thesis using sg_get_renumber [OF assms(1), of promoted parent 0 g v] by simp
qed

lemma sg_inv_fold_remove: "sg_inv g \<Longrightarrow> sg_inv (fold (\<lambda>u h. sg_remove_node h u) us g)"
  by (induction us arbitrary: g) simp_all

lemma sg_get_fold_remove:
  "sg_get (fold (\<lambda>u h. sg_remove_node h u) us g) v = (if v \<in> set us then None else sg_get g v)"
  by (induction us arbitrary: g) auto

section \<open>The subtree collected for removal\<close>

lemma parent_rel_children: "(p, c) \<in> parent_rel g \<longleftrightarrow> c \<in> set (children_uids g p)"
  by (auto simp: parent_rel_def children_uids_def)

lemma collect_members_mono:
  "set members \<union> set pending \<subseteq> set (collect_members g pending members)"
  by (induction g pending members rule: collect_members.induct) auto

lemma collect_members_closed:
  "\<forall>m \<in> set members. set (children_uids g m) \<subseteq> set members \<union> set pending \<Longrightarrow>
    \<forall>m \<in> set (collect_members g pending members).
      set (children_uids g m) \<subseteq> set (collect_members g pending members)"
  by (induction g pending members rule: collect_members.induct) auto

lemma collect_members_sound:
  "set (collect_members g pending members) \<subseteq> set members \<union> (parent_rel g)\<^sup>* `` set pending"
proof (induction g pending members rule: collect_members.induct)
  case (2 g u pending members)
  have "(parent_rel g)\<^sup>* `` set (children_uids g u) \<subseteq> (parent_rel g)\<^sup>* `` {u}"
    by (auto simp: parent_rel_children [symmetric] intro: converse_rtrancl_into_rtrancl)
  then have sub: "(parent_rel g)\<^sup>* `` set (rev (children_uids g u) @ pending)
      \<subseteq> (parent_rel g)\<^sup>* `` set (u # pending)"
    by (simp add: Image_Un) blast
  have self: "u \<in> (parent_rel g)\<^sup>* `` set (u # pending)" by auto
  have weak: "(parent_rel g)\<^sup>* `` set pending \<subseteq> (parent_rel g)\<^sup>* `` set (u # pending)" by auto
  show ?case
  proof (cases "u \<in> set members")
    case True
    with "2.IH"(1) weak show ?thesis by (simp only: collect_members.simps if_True) (rule order_trans, auto)
  next
    case False
    have "set (collect_members g (u # pending) members) \<subseteq>
        set (u # members) \<union> (parent_rel g)\<^sup>* `` set (rev (children_uids g u) @ pending)"
      using "2.IH"(2) [OF False] False by (simp only: collect_members.simps if_False)
    also have "\<dots> \<subseteq> set members \<union> (parent_rel g)\<^sup>* `` set (u # pending)"
      using sub self by (simp only: list.set) blast
    finally show ?thesis .
  qed
qed simp

lemma set_collect_members:
  "set (collect_members g [u] []) = (parent_rel g)\<^sup>* `` {u}"
proof
  show "set (collect_members g [u] []) \<subseteq> (parent_rel g)\<^sup>* `` {u}"
    using collect_members_sound [of g "[u]" "[]"] by simp
  have "v \<in> set (collect_members g [u] [])" if "(u, v) \<in> (parent_rel g)\<^sup>*" for v
    using that
  proof induction
    case base
    then show ?case using collect_members_mono [of "[]" "[u]" g] by simp
  next
    case (step y z)
    then show ?case
      using collect_members_closed [of "[]" g "[u]"] by (auto simp: parent_rel_children)
  qed
  then show "(parent_rel g)\<^sup>* `` {u} \<subseteq> set (collect_members g [u] [])" by auto
qed

lemma sg_get_remove_subtree:
  "sg_get (remove_subtree g t) v = (if (t, v) \<in> (parent_rel g)\<^sup>* then None else sg_get g v)"
  by (simp add: remove_subtree_def sg_get_fold_remove set_collect_members
      del: collect_members.simps)

lemma sg_inv_remove_subtree [simp]: "sg_inv g \<Longrightarrow> sg_inv (remove_subtree g t)"
  by (simp add: remove_subtree_def sg_inv_fold_remove)

section \<open>Recomputed digests\<close>

lemma bget_fold_bins:
  "bget (fold (\<lambda>x. bins (k x) (f x)) xs m) u =
    (case find (\<lambda>x. k x = u) (rev xs) of None \<Rightarrow> bget m u | Some x \<Rightarrow> Some (f x))"
  by (induction xs rule: rev_induct) (auto split: option.splits)

lemma bwf_fold_bins: "bwf m \<Longrightarrow> bwf (fold (\<lambda>x. bins (k x) (f x)) xs m)"
  by (induction xs rule: rev_induct) auto

lemma sg_get_fold_mut:
  assumes "distinct (map fst ups)"
  shows "sg_get (fold (\<lambda>(u, a) h. sg_node_mut h u (f a)) ups g) v =
    (case map_of ups v of None \<Rightarrow> sg_get g v | Some a \<Rightarrow> map_option (f a) (sg_get g v))"
  using assms
proof (induction ups arbitrary: g)
  case (Cons up ups)
  obtain u a where up: "up = (u, a)" by (cases up)
  with Cons.prems have none: "map_of ups u = None" by (simp add: map_of_eq_None_iff)
  with Cons up show ?case by (cases "v = u") (simp_all split: option.split)
qed simp

definition with_digests :: "platform \<Rightarrow> source_graph \<Rightarrow> source_node \<Rightarrow> source_node" where
  "with_digests X g n = n\<lparr>
     sn_content_sha256 := content_digest X (sn_kind n) (sn_canonical_text n),
     sn_fingerprint :=
       fingerprint X (sn_kind n) (sn_label n) (ancestry_pairs g (sn_parent_uid n))\<rparr>"

lemma sg_get_recompute:
  assumes g: "sg_inv g"
  shows "sg_get (recompute_node_digests X g) v = map_option (with_digests X g) (sg_get g v)"
proof -
  let ?val = "\<lambda>node. (content_digest X (sn_kind node) (sn_canonical_text node),
    fingerprint X (sn_kind node) (sn_label node) (ancestry_pairs g (sn_parent_uid node)))"
  let ?ups = "fold (\<lambda>node. bins (sn_uid node) (?val node)) (sg_nodes g) []"
  have wf: "bwf ?ups" by (simp add: bwf_fold_bins)
  have up: "map_of ?ups v = map_option ?val (sg_get g v)"
  proof (cases "sg_get g v")
    case None
    then have "find (\<lambda>x. sn_uid x = v) (rev (sg_nodes g)) = None"
      using g by (auto simp: find_None_iff sg_nodes_iff_get)
    with None show ?thesis using bget_fold_bins [of sn_uid ?val "sg_nodes g" "[]" v]
      by (simp add: bget_def)
  next
    case (Some n)
    then have n: "n \<in> set (sg_nodes g)" "sn_uid n = v"
      using g by (auto simp: sg_get_in_nodes sg_get_uid)
    then obtain m where m: "find (\<lambda>x. sn_uid x = v) (rev (sg_nodes g)) = Some m"
      by (cases "find (\<lambda>x. sn_uid x = v) (rev (sg_nodes g))") (auto simp: find_None_iff)
    then have "m \<in> set (sg_nodes g)" "sn_uid m = v"
      by (auto simp: find_Some_iff) (metis nth_mem set_rev length_rev)
    then have "m = n" using n g by (simp add: sg_nodes_iff_get)
    with m Some show ?thesis using bget_fold_bins [of sn_uid ?val "sg_nodes g" "[]" v]
      by (simp add: bget_def)
  qed
  show ?thesis
    using sg_get_fold_mut [OF bwf_distinct [OF wf], of "\<lambda>a n. n\<lparr>sn_content_sha256 := fst a,
        sn_fingerprint := snd a\<rparr>" g v] up
    by (cases "sg_get g v") (simp_all add: with_digests_def recompute_node_digests_def Let_def)
qed

lemma sg_inv_fold_mut:
  assumes "\<And>a n. sn_uid (f a n) = sn_uid n"
  shows "sg_inv g \<Longrightarrow> sg_inv (fold (\<lambda>(u, a) h. sg_node_mut h u (f a)) ups g)"
  by (induction ups arbitrary: g) (auto simp: sg_inv_node_mut assms)

lemma sg_inv_recompute [simp]: "sg_inv g \<Longrightarrow> sg_inv (recompute_node_digests X g)"
  by (simp add: recompute_node_digests_def Let_def
      sg_inv_fold_mut [where f = "\<lambda>a n. n\<lparr>sn_content_sha256 := fst a, sn_fingerprint := snd a\<rparr>"])

section \<open>Promotion\<close>

lemma ordered_uids_set: "set (ordered_uids P g) = sn_uid ` {n \<in> set (sg_nodes g). P n}"
  by (auto simp: ordered_uids_def image_iff)

lemma ordered_uids_distinct:
  assumes "sg_inv g" shows "distinct (ordered_uids P g)"
proof -
  have "inj_on sn_uid (set (filter P (sg_nodes g)))"
    using assms by (auto intro!: inj_onI dest: sg_nodes_uid_inj)
  then have "distinct (map (\<lambda>n. (sn_ordinal n, sn_uid n)) (filter P (sg_nodes g)))"
    using sg_nodes_distinct [OF assms] by (auto simp: distinct_map inj_on_def)
  moreover have "inj_on snd (set (map (\<lambda>n. (sn_ordinal n, sn_uid n)) (filter P (sg_nodes g))))"
    using assms by (auto intro!: inj_onI dest: sg_nodes_uid_inj)
  ultimately show ?thesis by (simp add: ordered_uids_def distinct_map)
qed

text \<open>The uids of the promoted level, in its new order.\<close>

definition promoted_level :: "source_graph \<Rightarrow> source_node \<Rightarrow> uid list" where
  "promoted_level g removed =
    (let g' = sg_remove_node g (sn_uid removed) in
       ordered_uids (\<lambda>n. sn_parent_uid n = sn_parent_uid removed
           \<and> sn_ordinal n < sn_ordinal removed) g'
       @ ordered_uids (\<lambda>n. sn_parent_uid n = Some (sn_uid removed)) g'
       @ ordered_uids (\<lambda>n. sn_parent_uid n = sn_parent_uid removed
           \<and> sn_ordinal removed < sn_ordinal n) g')"

lemma sg_nodes_remove:
  "sg_inv g \<Longrightarrow> set (sg_nodes (sg_remove_node g u)) = {n \<in> set (sg_nodes g). sn_uid n \<noteq> u}"
  by (auto simp: sg_nodes_iff_get split: if_splits)

lemma reparent_children_eq:
  assumes "sg_inv g" "sg_get g t = Some removed"
  shows "reparent_children g t =
    renumber (ordered_uids (\<lambda>n. sn_parent_uid n = Some t) (sg_remove_node g t))
      (sn_parent_uid removed) 0 (promoted_level g removed) (sg_remove_node g t)"
  using sg_get_uid [OF assms]
  by (simp add: reparent_children_def assms(2) promoted_level_def Let_def)

lemma sg_inv_reparent_children [simp]: "sg_inv g \<Longrightarrow> sg_inv (reparent_children g t)"
  by (cases "sg_get g t") (simp_all add: reparent_children_def Let_def sg_inv_renumber)

text \<open>A node to promote over: it is not its own parent, no two siblings share an ordinal, and
  the graph is small enough for a \<^verbatim>\<open>u32\<close> index.\<close>

definition promotable :: "source_graph \<Rightarrow> uid \<Rightarrow> source_node \<Rightarrow> bool" where
  "promotable g t removed \<longleftrightarrow> sg_inv g \<and> sg_get g t = Some removed
    \<and> sn_parent_uid removed \<noteq> Some t \<and> ordinals_contiguous g \<and> length (sg_nodes g) \<le> 2 ^ 32"

lemma promotableD:
  assumes "promotable g t removed"
  shows "sg_inv g" "sg_get g t = Some removed" "sn_parent_uid removed \<noteq> Some t"
    "contiguous (siblings g p)" "length (sg_nodes g) \<le> 2 ^ 32"
    "sn_uid removed = t" "removed \<in> set (sg_nodes g)"
  using assms
  by (auto simp: promotable_def ordinals_contiguous_def sg_get_uid sg_get_in_nodes)

lemma ordinal_inj:
  assumes c: "contiguous (siblings g (sn_parent_uid n))"
    and "m \<in> set (sg_nodes g)" "n \<in> set (sg_nodes g)" "sn_parent_uid m = sn_parent_uid n"
    "sn_ordinal m = sn_ordinal n"
  shows "m = n"
proof -
  let ?s = "siblings g (sn_parent_uid n)"
  have "card ((\<lambda>n. unat (sn_ordinal n)) ` set ?s) = length ?s"
    using c by (simp add: contiguous_def)
  moreover have "card ((\<lambda>n. unat (sn_ordinal n)) ` set ?s) \<le> card (set ?s)"
    by (rule card_image_le) simp
  moreover have "card (set ?s) \<le> length ?s" by (rule card_length)
  ultimately have "card ((\<lambda>n. unat (sn_ordinal n)) ` set ?s) = card (set ?s)" by simp
  then have "inj_on (\<lambda>n. unat (sn_ordinal n)) (set ?s)" by (intro eq_card_imp_inj_on) simp_all
  with assms(2-) show ?thesis by (auto simp: siblings_def inj_on_def)
qed

lemma set_promoted_level:
  assumes P: "promotable g t removed"
  shows "set (promoted_level g removed) = sn_uid ` {n \<in> set (sg_nodes g).
     (sn_parent_uid n = sn_parent_uid removed \<or> sn_parent_uid n = Some t) \<and> sn_uid n \<noteq> t}"
proof -
  note p = promotableD [OF P]
  have "sn_ordinal n \<noteq> sn_ordinal removed"
    if "n \<in> set (sg_nodes g)" "sn_parent_uid n = sn_parent_uid removed" "sn_uid n \<noteq> t" for n
    using ordinal_inj [OF p(4) that(1) p(7) that(2)] that(3) p(6) by blast
  then show ?thesis
    by (auto simp: promoted_level_def Let_def ordered_uids_set sg_nodes_remove [OF p(1)] p(6)
        image_iff) (metis linorder_neqE)
qed

lemma distinct_promoted_level:
  assumes P: "promotable g t removed" shows "distinct (promoted_level g removed)"
proof -
  note p = promotableD [OF P]
  have "sn_uid m \<noteq> sn_uid n" if "m \<in> set (sg_nodes g)" "n \<in> set (sg_nodes g)"
    "sn_parent_uid m \<noteq> sn_parent_uid n \<or> sn_ordinal m \<noteq> sn_ordinal n" for m n
    using that p(1) sg_nodes_uid_inj by blast
  then show ?thesis
    using p(3)
    by (auto simp: promoted_level_def Let_def ordered_uids_distinct p(1) ordered_uids_set
        sg_nodes_remove [OF p(1)] p(6))
qed

text \<open>A node of the level gets its position as ordinal and the removed node's parent.\<close>

lemma promoted_index:
  assumes P: "promotable g t removed"
    and i: "i < length (promoted_level g removed)" "sn_uid n = promoted_level g removed ! i"
    and n: "n \<in> set (sg_nodes g)"
  shows "sg_get (reparent_children g t) (sn_uid n) =
       Some (n\<lparr>sn_ordinal := of_nat i, sn_parent_uid := sn_parent_uid removed\<rparr>)"
proof -
  note p = promotableD [OF P]
  let ?prom = "ordered_uids (\<lambda>n. sn_parent_uid n = Some t) (sg_remove_node g t)"
  have "sn_uid n \<in> set (promoted_level g removed)" using i by simp
  with n have nt: "sn_uid n \<noteq> t"
    and par: "sn_parent_uid n = sn_parent_uid removed \<or> sn_parent_uid n = Some t"
    using sg_nodes_uid_inj [OF p(1)] by (auto simp: set_promoted_level [OF P])
  have "sn_uid n \<in> set ?prom \<longleftrightarrow> sn_parent_uid n = Some t"
    using n nt sg_nodes_uid_inj [OF p(1)]
    by (auto simp: ordered_uids_set sg_nodes_remove [OF p(1)])
  with par have q: "(if sn_uid n \<in> set ?prom then sn_parent_uid removed else sn_parent_uid n)
      = sn_parent_uid removed" by auto
  have "sg_get (sg_remove_node g t) (sn_uid n) = Some n"
    using n nt p(1) by (simp add: sg_nodes_iff_get)
  then show ?thesis
    unfolding reparent_children_eq [OF p(1,2)]
    using sg_get_renumber_nth [OF distinct_promoted_level [OF P] i(1), of ?prom
        "sn_parent_uid removed" "sg_remove_node g t"] i(2) q by simp
qed

lemma outside_promoted_level:
  assumes P: "promotable g t removed" and v: "v \<notin> set (promoted_level g removed)"
  shows "sg_get (reparent_children g t) v = (if v = t then None else sg_get g v)"
  using promotableD(1,2) [OF P] v
  by (simp add: reparent_children_eq sg_get_renumber_other [OF distinct_promoted_level [OF P]])

lemma promoted_removed:
  assumes P: "promotable g t removed" shows "sg_get (reparent_children g t) t = None"
proof -
  have "t \<notin> set (promoted_level g removed)"
    using sg_nodes_uid_inj [OF promotableD(1) [OF P]] by (auto simp: set_promoted_level [OF P])
  then show ?thesis by (simp add: outside_promoted_level [OF P])
qed

text \<open>Each surviving node, and where it hangs afterwards.\<close>

definition after_promotion :: "uid \<Rightarrow> source_node \<Rightarrow> uid option \<Rightarrow> uid option" where
  "after_promotion t removed p = (if p = Some t then sn_parent_uid removed else p)"

lemma promoted_get:
  assumes P: "promotable g t removed" and n: "n \<in> set (sg_nodes g)" "sn_uid n \<noteq> t"
  obtains m where "sg_get (reparent_children g t) (sn_uid n) = Some m" "sn_uid m = sn_uid n"
    "sn_parent_uid m = after_promotion t removed (sn_parent_uid n)"
    "sn_uid n \<notin> set (promoted_level g removed) \<Longrightarrow> m = n"
proof (cases "sn_uid n \<in> set (promoted_level g removed)")
  case True
  then obtain i where i: "i < length (promoted_level g removed)"
    "sn_uid n = promoted_level g removed ! i" by (auto simp: in_set_conv_nth)
  have "sn_parent_uid n = sn_parent_uid removed \<or> sn_parent_uid n = Some t"
    using True n sg_nodes_uid_inj [OF promotableD(1) [OF P]]
    by (auto simp: set_promoted_level [OF P])
  with promoted_index [OF P i n(1)] True that show ?thesis
    using promotableD(3) [OF P] by (auto simp: after_promotion_def)
next
  case False
  then have "sn_parent_uid n \<noteq> Some t" using n by (auto simp: set_promoted_level [OF P])
  moreover have "sg_get g (sn_uid n) = Some n"
    using n promotableD(1) [OF P] by (simp add: sg_nodes_iff_get)
  ultimately show ?thesis
    using that [of n] outside_promoted_level [OF P False] n(2)
    by (simp add: after_promotion_def)
qed

lemma promoted_uids:
  assumes P: "promotable g t removed"
  shows "sg_get (reparent_children g t) v = None \<longleftrightarrow> v = t \<or> sg_get g v = None"
proof (cases "v = t \<or> sg_get g v = None")
  case True
  moreover have "v \<notin> set (promoted_level g removed)" if "sg_get g v = None"
    using that promotableD(1) [OF P] by (auto simp: set_promoted_level [OF P] sg_nodes_iff_get)
  ultimately show ?thesis using promoted_removed [OF P] outside_promoted_level [OF P] by auto
next
  case False
  then obtain n where n: "sg_get g v = Some n" by auto
  then have "n \<in> set (sg_nodes g)" "sn_uid n = v"
    using promotableD(1) [OF P] by (auto simp: sg_get_in_nodes sg_get_uid)
  with False promoted_get [OF P, of n] show ?thesis by (metis option.distinct(1))
qed

lemma siblings_length:
  assumes "sg_inv g" shows "length (siblings g p) = card (sn_uid ` set (siblings g p))"
proof -
  have "distinct (map sn_uid (siblings g p))"
    unfolding siblings_def by (rule distinct_map_filter [OF sg_nodes_distinct [OF assms]])
  then show ?thesis by (metis distinct_card length_map set_map)
qed

lemma promoted_node_back:
  assumes P: "promotable g t removed" and m: "m \<in> set (sg_nodes (reparent_children g t))"
  obtains n where "n \<in> set (sg_nodes g)" "sn_uid n \<noteq> t" "sn_uid n = sn_uid m"
    "sn_parent_uid m = after_promotion t removed (sn_parent_uid n)"
    "sn_uid n \<notin> set (promoted_level g removed) \<Longrightarrow> m = n"
proof -
  have h: "sg_inv (reparent_children g t)" using promotableD(1) [OF P] by simp
  with m have get: "sg_get (reparent_children g t) (sn_uid m) = Some m"
    by (simp add: sg_nodes_iff_get)
  then have "sn_uid m \<noteq> t" "sg_get g (sn_uid m) \<noteq> None"
    using promoted_uids [OF P, of "sn_uid m"] by auto
  then obtain n where n: "sg_get g (sn_uid m) = Some n" by auto
  then have n': "n \<in> set (sg_nodes g)" "sn_uid n = sn_uid m"
    using promotableD(1) [OF P] by (auto simp: sg_get_in_nodes sg_get_uid)
  with \<open>sn_uid m \<noteq> t\<close> get that show ?thesis
    using promoted_get [OF P, of n] by (metis option.inject)
qed

lemma promoted_level_siblings:
  assumes P: "promotable g t removed"
  shows "sn_uid ` set (siblings (reparent_children g t) (sn_parent_uid removed))
    = set (promoted_level g removed)"
proof -
  let ?h = "reparent_children g t"
  note p = promotableD [OF P]
  have "u \<in> sn_uid ` set (siblings ?h (sn_parent_uid removed)) \<longleftrightarrow>
      u \<in> set (promoted_level g removed)" for u
  proof
    assume "u \<in> sn_uid ` set (siblings ?h (sn_parent_uid removed))"
    then obtain m where m: "m \<in> set (sg_nodes ?h)" "sn_parent_uid m = sn_parent_uid removed"
      "u = sn_uid m" by (auto simp: siblings_def)
    from promoted_node_back [OF P m(1)] obtain n where n: "n \<in> set (sg_nodes g)" "sn_uid n \<noteq> t"
      "sn_uid n = sn_uid m" "sn_parent_uid m = after_promotion t removed (sn_parent_uid n)" by metis
    with m have "sn_parent_uid n = sn_parent_uid removed \<or> sn_parent_uid n = Some t"
      by (auto simp: after_promotion_def split: if_splits)
    with n m(3) show "u \<in> set (promoted_level g removed)"
      by (auto simp: set_promoted_level [OF P] intro!: rev_image_eqI [of n])
  next
    assume u: "u \<in> set (promoted_level g removed)"
    then obtain n where n: "n \<in> set (sg_nodes g)" "sn_uid n = u" "sn_uid n \<noteq> t"
      "sn_parent_uid n = sn_parent_uid removed \<or> sn_parent_uid n = Some t"
      by (auto simp: set_promoted_level [OF P])
    from promoted_get [OF P n(1,3)] obtain m where m: "sg_get ?h u = Some m" "sn_uid m = u"
      "sn_parent_uid m = after_promotion t removed (sn_parent_uid n)" by (metis n(2))
    then have "m \<in> set (siblings ?h (sn_parent_uid removed))"
      using n(4) by (auto simp: siblings_def sg_get_in_nodes after_promotion_def)
    with m(2) show "u \<in> sn_uid ` set (siblings ?h (sn_parent_uid removed))" by force
  qed
  then show ?thesis by blast
qed

lemma promoted_level_contiguous:
  assumes P: "promotable g t removed"
  shows "contiguous (siblings (reparent_children g t) (sn_parent_uid removed))"
proof -
  let ?h = "reparent_children g t" and ?us = "promoted_level g removed"
  let ?s = "siblings ?h (sn_parent_uid removed)"
  note p = promotableD [OF P]
  have h: "sg_inv ?h" using p(1) by simp
  have len: "length ?s = length ?us"
    by (simp add: siblings_length [OF h] promoted_level_siblings [OF P]
        distinct_card [OF distinct_promoted_level [OF P]])
  have "length ?us \<le> card (sn_uid ` set (sg_nodes g))"
    unfolding distinct_card [OF distinct_promoted_level [OF P], symmetric]
    by (intro card_mono) (auto simp: set_promoted_level [OF P])
  also have "\<dots> \<le> length (sg_nodes g)" by (metis card_length length_map set_map)
  finally have bound: "length ?us \<le> 2 ^ 32" using p(5) by simp
  have at: "\<exists>m \<in> set ?s. unat (sn_ordinal m) = i \<and> sn_uid m = ?us ! i" if i: "i < length ?us" for i
  proof -
    have "?us ! i \<in> sn_uid ` set ?s" using i by (simp add: promoted_level_siblings [OF P])
    then obtain m where m: "m \<in> set ?s" "sn_uid m = ?us ! i" by auto
    from i obtain n where n: "n \<in> set (sg_nodes g)" "sn_uid n = ?us ! i"
      using nth_mem [OF i] by (auto simp: set_promoted_level [OF P])
    have "sg_get ?h (?us ! i) = Some m" using m h by (auto simp: siblings_def sg_nodes_iff_get)
    with promoted_index [OF P i n(2,1)] n(2) have "sn_ordinal m = of_nat i" by auto
    moreover have "unat (of_nat i :: u32) = i" using i bound by (simp add: unat_of_nat)
    ultimately have "unat (sn_ordinal m) = i" by (simp only:)
    with m show ?thesis by blast
  qed
  have "(\<lambda>m. unat (sn_ordinal m)) ` set ?s = {..<length ?us}"
  proof (intro equalityI subsetI)
    fix k assume "k \<in> (\<lambda>m. unat (sn_ordinal m)) ` set ?s"
    then obtain m where m: "m \<in> set ?s" "k = unat (sn_ordinal m)" by auto
    then have "sn_uid m \<in> set ?us" by (auto simp: promoted_level_siblings [OF P, symmetric])
    then obtain i where i: "i < length ?us" "sn_uid m = ?us ! i" by (auto simp: in_set_conv_nth)
    with at [OF i(1)] obtain m' where "m' \<in> set ?s" "unat (sn_ordinal m') = i" "sn_uid m' = sn_uid m"
      by auto
    with m i h show "k \<in> {..<length ?us}"
      by (auto simp: siblings_def dest: sg_nodes_uid_inj)
  qed (use at in force)
  with len show ?thesis by (simp add: contiguous_def)
qed

lemma promoted_other_siblings:
  assumes P: "promotable g t removed" and q: "q \<noteq> sn_parent_uid removed" "q \<noteq> Some t"
  shows "contiguous (siblings (reparent_children g t) q)"
proof -
  let ?h = "reparent_children g t"
  note p = promotableD [OF P]
  have h: "sg_inv ?h" using p(1) by simp
  have stay: "sn_uid n \<noteq> t \<and> sn_uid n \<notin> set (promoted_level g removed)"
    if "n \<in> set (sg_nodes g)" "sn_parent_uid n = q" for n
    using that q p(6,7) sg_nodes_uid_inj [OF p(1)] by (auto simp: set_promoted_level [OF P])
  have "set (siblings ?h q) = set (siblings g q)"
  proof (intro equalityI subsetI)
    fix m assume "m \<in> set (siblings ?h q)"
    then have m: "m \<in> set (sg_nodes ?h)" "sn_parent_uid m = q" by (auto simp: siblings_def)
    from promoted_node_back [OF P m(1)] obtain n where n: "n \<in> set (sg_nodes g)"
      "sn_parent_uid m = after_promotion t removed (sn_parent_uid n)"
      "sn_uid n \<notin> set (promoted_level g removed) \<Longrightarrow> m = n" by metis
    with m q have "sn_parent_uid n = q" by (auto simp: after_promotion_def split: if_splits)
    with n stay show "m \<in> set (siblings g q)" by (auto simp: siblings_def)
  next
    fix n assume "n \<in> set (siblings g q)"
    then have n: "n \<in> set (sg_nodes g)" "sn_parent_uid n = q" by (auto simp: siblings_def)
    with stay promoted_get [OF P n(1)] have "sg_get ?h (sn_uid n) = Some n" by metis
    with n(2) show "n \<in> set (siblings ?h q)" by (auto simp: siblings_def sg_get_in_nodes)
  qed
  moreover from this have "length (siblings ?h q) = length (siblings g q)"
    by (simp add: siblings_length [OF h] siblings_length [OF p(1)])
  ultimately show ?thesis using p(4) [of q] by (simp add: contiguous_def)
qed

lemma promoted_ordinals_contiguous:
  assumes P: "promotable g t removed" shows "ordinals_contiguous (reparent_children g t)"
proof -
  have "contiguous (siblings (reparent_children g t) q)" for q
  proof (cases "q = sn_parent_uid removed")
    case True
    then show ?thesis by (simp add: promoted_level_contiguous [OF P])
  next
    case other: False
    show ?thesis
    proof (cases "q = Some t")
      case True
      have "sn_parent_uid m \<noteq> q" if "m \<in> set (sg_nodes (reparent_children g t))" for m
        by (rule promoted_node_back [OF P that])
          (use promotableD(3) [OF P] True in \<open>simp add: after_promotion_def\<close>)
      then have "siblings (reparent_children g t) q = []"
        by (simp add: siblings_def filter_empty_conv)
      then show ?thesis by (simp add: contiguous_def)
    qed (simp add: other promoted_other_siblings [OF P])
  qed
  then show ?thesis by (simp add: ordinals_contiguous_def)
qed

text \<open>Every node that had a parent path still has one.\<close>

lemma promoted_paths:
  assumes P: "promotable g t removed"
  shows "parent_path g n ps \<Longrightarrow> n \<in> set (sg_nodes g) \<Longrightarrow> sn_uid n \<noteq> t \<Longrightarrow>
    sg_get (reparent_children g t) (sn_uid n) = Some m \<Longrightarrow>
    \<exists>qs. parent_path (reparent_children g t) m qs"
proof (induction "length ps" arbitrary: n m ps rule: less_induct)
  case less
  note p = promotableD [OF P]
  from promoted_get [OF P less.prems(2,3)] less.prems(4)
  have par: "sn_parent_uid m = after_promotion t removed (sn_parent_uid n)"
    by (metis option.inject)
  have step: "\<exists>qs. parent_path (reparent_children g t) m qs"
    if up: "sn_parent_uid m = Some (sn_uid q)" "q \<in> set (sg_nodes g)" "sn_uid q \<noteq> t"
      "parent_path g q rs" "length rs < length ps" for q rs
  proof -
    from promoted_get [OF P up(2,3)] obtain q' where q':
      "sg_get (reparent_children g t) (sn_uid q) = Some q'" by metis
    from less.hyps [OF up(5,4,2,3) q'] obtain qs where "parent_path (reparent_children g t) q' qs"
      by blast
    with up(1) q' have "parent_path (reparent_children g t) m (q' # qs)" by simp
    then show ?thesis by blast
  qed
  show ?case
  proof (cases ps)
    case Nil
    with less.prems(1) par have "parent_path (reparent_children g t) m []"
      by (simp add: after_promotion_def)
    then show ?thesis by blast
  next
    case (Cons q rs)
    with less.prems(1) obtain u where q: "sn_parent_uid n = Some u" "sg_get g u = Some q"
      "parent_path g q rs" by (auto split: option.splits)
    then have qn: "q \<in> set (sg_nodes g)" "sn_uid q = u"
      using p(1) by (auto simp: sg_get_in_nodes sg_get_uid)
    show ?thesis
    proof (cases "u = t")
      case False
      with par q qn Cons show ?thesis by (intro step [of q rs]) (simp_all add: after_promotion_def)
    next
      case True
      with q p(2) have "q = removed" by simp
      with par q True have mp: "sn_parent_uid m = sn_parent_uid q" by (simp add: after_promotion_def)
      show ?thesis
      proof (cases rs)
        case Nil
        with q(3) mp have "parent_path (reparent_children g t) m []" by simp
        then show ?thesis by blast
      next
        case rs: (Cons r ts)
        with q(3) obtain v where r: "sn_parent_uid q = Some v" "sg_get g v = Some r"
          "parent_path g r ts" by (auto split: option.splits)
        then have "r \<in> set (sg_nodes g)" "sn_uid r = v"
          using p(1) by (auto simp: sg_get_in_nodes sg_get_uid)
        moreover have "v \<noteq> t" using r(1) p(3) \<open>q = removed\<close> by simp
        ultimately show ?thesis using mp r Cons rs by (intro step [of r ts]) simp_all
      qed
    qed
  qed
qed

end
