(* ===== verification/Patch_Spec.thy ===== *)
theory Patch_Spec
  imports Patch_Edits
begin

text \<open>
  What an accepted patch application guarantees: the exact condition under which \<open>apply_patch\<close>
  succeeds, with the digest checks of the final validation discharged by the recomputation, the
  invariants every operation keeps, and the frame of the nodes no operation names.
\<close>

section \<open>Recomputation and the validator\<close>

lemma validate_graph_standalone_Ok_iff:
  "sg_inv g \<Longrightarrow>
    validate_graph_standalone X r mt g = Inr () \<longleftrightarrow> well_formed_forest X mt g"
  by (simp add: validate_graph_standalone_def Let_def validate_one_graph_Ok_iff)

lemma pairs_loop_path:
  "parent_path g n ps \<Longrightarrow> distinct (map sn_uid ps) \<Longrightarrow> sn_uid ` set ps \<inter> set visited = {} \<Longrightarrow>
    pairs_loop g visited chain (sn_parent_uid n) = chain @ ancestry_inputs ps"
proof (induction ps arbitrary: n visited chain)
  case Nil
  then show ?case by (simp add: ancestry_inputs_def)
next
  case (Cons p ps)
  from Cons.prems(1) obtain u where u: "sn_parent_uid n = Some u" "sg_get g u = Some p"
    "parent_path g p ps" by (auto split: option.splits)
  have "pairs_loop g (sn_uid p # visited) (chain @ [(sn_kind p, sn_label p)]) (sn_parent_uid p)
      = (chain @ [(sn_kind p, sn_label p)]) @ ancestry_inputs ps"
    using Cons.prems(2,3) u(3) by (intro Cons.IH) auto
  with u Cons.prems(3) show ?case by (simp add: ancestry_inputs_def)
qed

lemma ancestry_pairs_path:
  assumes "sg_inv g" "n \<in> set (sg_nodes g)" "parent_path g n ps"
  shows "ancestry_pairs g (sn_parent_uid n) = ancestry_inputs (rev ps)"
  using parent_path_distinct [OF assms] pairs_loop_path [OF assms(3), of "[]" "[]"]
  by (simp add: ancestry_pairs_def ancestry_inputs_def rev_map)

text \<open>The parts of well-formedness that do not mention digests.\<close>

definition node_shape_ok :: "string \<Rightarrow> source_node \<Rightarrow> source_node list \<Rightarrow> bool" where
  "node_shape_ok media_type n ps \<longleftrightarrow>
    (ps \<noteq> [] \<longrightarrow> may_parent (sn_kind (hd ps)) (sn_kind n)) \<and>
    eq_ignore_ascii_case (expected_media_type (sn_locator n)) media_type"

definition shape_ok :: "string \<Rightarrow> source_graph \<Rightarrow> bool" where
  "shape_ok media_type g \<longleftrightarrow>
    (\<forall>n \<in> set (sg_nodes g). \<exists>ps. parent_path g n ps \<and> node_shape_ok media_type n ps) \<and>
    ordinals_contiguous g"

lemma with_digests_simps [simp]:
  "sn_uid (with_digests X g n) = sn_uid n" "sn_parent_uid (with_digests X g n) = sn_parent_uid n"
  "sn_kind (with_digests X g n) = sn_kind n" "sn_label (with_digests X g n) = sn_label n"
  "sn_ordinal (with_digests X g n) = sn_ordinal n"
  "sn_canonical_text (with_digests X g n) = sn_canonical_text n"
  "sn_locator (with_digests X g n) = sn_locator n"
  "sn_source_revision_uid (with_digests X g n) = sn_source_revision_uid n"
  by (simp_all add: with_digests_def)

lemma recompute_nodes:
  assumes "sg_inv g"
  shows "sg_nodes (recompute_node_digests X g) = map (with_digests X g) (sg_nodes g)"
proof -
  let ?h = "recompute_node_digests X g"
  have inv: "sg_inv ?h" using assms by simp
  let ?m = "map (\<lambda>(u, n). (u, with_digests X g n)) g"
  have m: "sg_inv ?m" using assms by (auto simp: sg_inv_def bwf_def comp_def split_beta)
  have "bget (map (\<lambda>(u, n). (u, f n)) m) u = map_option f (bget m u)"
    for u and m :: source_graph and f :: "source_node \<Rightarrow> source_node"
    by (induction m) auto
  then have "bget ?h u = bget ?m u" for u
    using sg_get_recompute [OF assms, of X u] by (simp add: sg_get_def)
  then have "?h = ?m" using inv m by (intro bm.entries_unique) (simp_all add: sg_inv_def)
  then show ?thesis by (simp add: sg_nodes_def bvals_def split_beta comp_def)
qed

lemma recompute_path_fwd:
  assumes g: "sg_inv g"
  shows "parent_path g n ps \<Longrightarrow>
    parent_path (recompute_node_digests X g) (with_digests X g n) (map (with_digests X g) ps)"
  by (induction ps arbitrary: n) (auto simp: sg_get_recompute [OF g] split: option.splits)

lemma recompute_path_back:
  assumes g: "sg_inv g"
  shows "parent_path (recompute_node_digests X g) (with_digests X g n) qs \<Longrightarrow>
    \<exists>ps. qs = map (with_digests X g) ps \<and> parent_path g n ps"
proof (induction qs arbitrary: n)
  case Nil
  then show ?case by simp
next
  case (Cons q qs)
  from Cons.prems obtain u p where p: "sn_parent_uid n = Some u" "sg_get g u = Some p"
    "q = with_digests X g p" "parent_path (recompute_node_digests X g) q qs"
    by (auto simp: sg_get_recompute [OF g] split: option.splits)
  with Cons.IH [of p] obtain ps where "qs = map (with_digests X g) ps" "parent_path g p ps" by auto
  with p show ?case by (intro exI [of _ "p # ps"]) simp
qed

lemma recompute_path:
  "sg_inv g \<Longrightarrow> parent_path (recompute_node_digests X g) (with_digests X g n) qs \<longleftrightarrow>
    (\<exists>ps. qs = map (with_digests X g) ps \<and> parent_path g n ps)"
  using recompute_path_fwd recompute_path_back by blast

lemma siblings_recompute:
  "sg_inv g \<Longrightarrow>
    siblings (recompute_node_digests X g) p = map (with_digests X g) (siblings g p)"
  by (simp add: siblings_def recompute_nodes filter_map comp_def)

lemma ordinals_recompute [simp]:
  "sg_inv g \<Longrightarrow> ordinals_contiguous (recompute_node_digests X g) \<longleftrightarrow> ordinals_contiguous g"
  by (simp add: ordinals_contiguous_def siblings_recompute contiguous_def image_image)

text \<open>After the recomputation the digest checks cannot fail: the validator decides the shape.\<close>

lemma well_formed_recompute:
  assumes g: "sg_inv g"
  shows "well_formed_forest X mt (recompute_node_digests X g) \<longleftrightarrow> shape_ok mt g"
proof -
  let ?w = "with_digests X g"
  have node: "node_ok X mt (?w n) (map ?w ps) \<longleftrightarrow> node_shape_ok mt n ps"
    if "n \<in> set (sg_nodes g)" "parent_path g n ps" for n ps
  proof -
    have "sn_fingerprint (?w n) = fingerprint X (sn_kind n) (sn_label n) (ancestry_inputs (rev ps))"
      by (simp add: with_digests_def ancestry_pairs_path [OF g that])
    moreover have "ancestry_inputs (rev (map ?w ps)) = ancestry_inputs (rev ps)"
      by (simp add: ancestry_inputs_def rev_map [symmetric])
    moreover have "sn_content_sha256 (?w n) = content_digest X (sn_kind n) (sn_canonical_text n)"
      by (simp add: with_digests_def)
    moreover have "ps \<noteq> [] \<Longrightarrow> sn_kind (hd (map ?w ps)) = sn_kind (hd ps)" by (simp add: hd_map)
    ultimately show ?thesis by (auto simp: node_ok_def node_shape_ok_def)
  qed
  have "(\<exists>qs. parent_path (recompute_node_digests X g) (?w n) qs \<and> node_ok X mt (?w n) qs) \<longleftrightarrow>
      (\<exists>ps. parent_path g n ps \<and> node_shape_ok mt n ps)" if "n \<in> set (sg_nodes g)" for n
    using node [OF that] by (auto simp: recompute_path [OF g])
  then show ?thesis by (simp add: well_formed_forest_def shape_ok_def recompute_nodes [OF g] g)
qed

lemma well_formed_shape: "well_formed_forest X mt g \<Longrightarrow> shape_ok mt g"
  by (auto simp: well_formed_forest_def shape_ok_def node_ok_def node_shape_ok_def)

text \<open>On a graph whose digests are right the recomputation changes nothing.\<close>

lemma recompute_well_formed:
  assumes g: "sg_inv g" and wf: "well_formed_forest X mt g"
  shows "recompute_node_digests X g = g"
proof -
  have same: "with_digests X g n = n" if n: "n \<in> set (sg_nodes g)" for n
  proof -
    from wf n obtain ps where ps: "parent_path g n ps" "node_ok X mt n ps"
      by (auto simp: well_formed_forest_def)
    then show ?thesis
      using ancestry_pairs_path [OF g n ps(1)] by (simp add: with_digests_def node_ok_def)
  qed
  have "sg_nodes (recompute_node_digests X g) = sg_nodes g"
    using same by (simp add: recompute_nodes [OF g] map_idI)
  with g show ?thesis by (intro sg_nodes_inj) simp_all
qed

section \<open>Invariants of the operations\<close>

definition of_revision :: "uid \<Rightarrow> source_graph \<Rightarrow> bool" where
  "of_revision r g \<longleftrightarrow> sg_inv g \<and> (\<forall>u n. sg_get g u = Some n \<longrightarrow> sn_source_revision_uid n = r)"

lemma of_revision_inv: "of_revision r g \<Longrightarrow> sg_inv g"
  by (simp add: of_revision_def)

lemma renumber_get_origin:
  "sg_get (renumber promoted parent k us g) u = Some n \<Longrightarrow>
    \<exists>m. sg_get g u = Some m \<and> sn_source_revision_uid n = sn_source_revision_uid m \<and>
      sn_kind n = sn_kind m \<and> sn_label n = sn_label m \<and>
      sn_canonical_text n = sn_canonical_text m \<and> sn_locator n = sn_locator m"
  by (induction promoted parent k us g rule: renumber.induct) (auto split: if_splits)

text \<open>Where the content of a node after one operation comes from.\<close>

definition same_content :: "source_node \<Rightarrow> source_node \<Rightarrow> bool" where
  "same_content m n \<longleftrightarrow> sn_source_revision_uid n = sn_source_revision_uid m \<and>
    sn_kind n = sn_kind m \<and> sn_label n = sn_label m \<and>
    sn_canonical_text n = sn_canonical_text m \<and> sn_locator n = sn_locator m"

fun edits_content :: "patch_operation \<Rightarrow> uid \<Rightarrow> bool" where
  "edits_content (ReplaceContent _ t _ _ _) u = (u = t)"
| "edits_content (Reclassify _ t _ _) u = (u = t)"
| "edits_content (Insert _ _ node) u = (u = in_uid node)"
| "edits_content (Reparent _ _ _ _ _ _) u = False"
| "edits_content (Remove _ _ _ _) u = False"

lemma reparent_children_origin:
  "sg_get (reparent_children g t) u = Some n \<Longrightarrow> \<exists>m. sg_get g u = Some m \<and> same_content m n"
proof (cases "sg_get g t")
  case None
  assume "sg_get (reparent_children g t) u = Some n"
  with None show ?thesis by (simp add: reparent_children_def same_content_def)
next
  case (Some removed)
  assume "sg_get (reparent_children g t) u = Some n"
  with Some obtain m where "sg_get (sg_remove_node g t) u = Some m" "same_content m n"
    unfolding same_content_def
    by (auto simp: reparent_children_def Let_def dest!: renumber_get_origin)
  then show ?thesis by (auto split: if_splits)
qed

lemma remove_subtree_origin:
  "sg_get (remove_subtree g t) u = Some n \<Longrightarrow> \<exists>m. sg_get g u = Some m \<and> same_content m n"
  by (auto simp: sg_get_remove_subtree same_content_def split: if_splits)

lemma apply_operation_origin:
  assumes "apply_operation X patch g oper = Inr h" "sg_get h u = Some n" "\<not> edits_content oper u"
  shows "\<exists>m. sg_get g u = Some m \<and> same_content m n"
  using assms
proof (cases oper)
  case (Insert k p node)
  with assms show ?thesis
    by (auto simp: loop_simps sg_insert_get inserted_node_def same_content_def)
next
  case (Remove k t e d)
  with assms show ?thesis
    by (cases d) (auto simp: loop_simps dest: reparent_children_origin remove_subtree_origin)
qed (auto simp: loop_simps same_content_def split: if_splits)

lemma apply_operation_inv:
  assumes "apply_operation X patch g oper = Inr h" "sg_inv g"
  shows "sg_inv h"
proof (cases oper)
  case (Insert k p node)
  with assms show ?thesis by (auto simp: loop_simps dest: sg_insert_inv)
next
  case (Remove k t e d)
  with assms show ?thesis by (cases d) (auto simp: loop_simps)
qed (use assms in \<open>auto simp: loop_simps sg_inv_node_mut\<close>)

lemma apply_operation_revision:
  assumes op: "apply_operation X patch g oper = Inr h"
    and g: "of_revision (sp_source_revision_uid patch) g"
  shows "of_revision (sp_source_revision_uid patch) h"
proof -
  have "sn_source_revision_uid n = sp_source_revision_uid patch" if n: "sg_get h u = Some n" for u n
  proof (cases "edits_content oper u")
    case False
    from apply_operation_origin [OF op n False] g show ?thesis
      by (auto simp: same_content_def of_revision_def)
  next
    case True
    with op n g show ?thesis
      by (cases oper) (auto simp: loop_simps of_revision_def sg_insert_get inserted_node_def
          split: if_splits)
  qed
  moreover have "sg_inv h" using apply_operation_inv [OF op of_revision_inv [OF g]] .
  ultimately show ?thesis by (simp add: of_revision_def)
qed

lemma fold_operations_inv:
  "fold_res (apply_operation X patch) g ops = Inr h \<Longrightarrow> sg_inv g \<Longrightarrow> sg_inv h"
  by (erule fold_res_invariant) (auto intro: apply_operation_inv)

lemma fold_operations_revision:
  "fold_res (apply_operation X patch) g ops = Inr h \<Longrightarrow>
    of_revision (sp_source_revision_uid patch) g \<Longrightarrow> of_revision (sp_source_revision_uid patch) h"
  by (erule fold_res_invariant) (auto intro: apply_operation_revision)

lemma same_content_trans: "same_content a b \<Longrightarrow> same_content b c \<Longrightarrow> same_content a c"
  by (simp add: same_content_def)

lemma fold_operations_origin:
  assumes "fold_res (apply_operation X patch) g ops = Inr h" "sg_get h u = Some n"
    and "\<forall>oper \<in> set ops. \<not> edits_content oper u"
  shows "\<exists>m. sg_get g u = Some m \<and> same_content m n"
  using assms
proof (induction ops arbitrary: g)
  case Nil
  then show ?case by (simp add: same_content_def)
next
  case (Cons oper ops)
  from Cons.prems(1) obtain g' where step: "apply_operation X patch g oper = Inr g'"
    "fold_res (apply_operation X patch) g' ops = Inr h" by (auto split: sum.splits)
  from Cons.IH [OF step(2) Cons.prems(2)] Cons.prems(3) obtain m where
    m: "sg_get g' u = Some m" "same_content m n" by auto
  have "\<not> edits_content oper u" using Cons.prems(3) by simp
  from apply_operation_origin [OF step(1) m(1) this] m(2) show ?case
    by (blast intro: same_content_trans)
qed

section \<open>The application\<close>

definition bindings_match ::
  "platform \<Rightarrow> source_graph \<Rightarrow> source_patch_record \<Rightarrow> patch_bindings \<Rightarrow> bool" where
  "bindings_match X g patch bindings \<longleftrightarrow> sp_recipe_digest patch = pb_recipe_digest bindings
    \<and> sp_input_digest patch = pb_input_digest bindings
    \<and> sp_pre_patch_graph_digest patch = source_graph_digest X g"

lemma apply_patch_Ok_iff:
  assumes g: "sg_inv g"
  shows "apply_patch X g patch bindings mt = Inr a \<longleftrightarrow>
    well_formed_forest X mt g \<and> bindings_match X g patch bindings \<and>
    (\<exists>edited. fold_res (apply_operation X patch) g (sp_operations patch) = Inr edited \<and>
      shape_ok mt edited \<and>
      a = \<lparr>pa_pre_patch_digest = source_graph_digest X g,
           pa_patch_digest = sp_reviewed_content_digest patch,
           pa_post_patch_digest = source_graph_digest X (recompute_node_digests X edited),
           pa_graph = recompute_node_digests X edited\<rparr>)"
proof -
  have "map_err (SP_InvalidPostGraph (sp_uid patch)) (validate_graph_standalone X
      (sp_source_revision_uid patch) mt (recompute_node_digests X edited)) = Inr () \<longleftrightarrow>
      shape_ok mt edited"
    if "fold_res (apply_operation X patch) g (sp_operations patch) = Inr edited" for edited
    using fold_operations_inv [OF that g]
    by (simp add: map_err_Ok_iff validate_graph_standalone_Ok_iff well_formed_recompute)
  then show ?thesis
    by (auto simp: apply_patch_def Let_def rbind_Ok_iff check_binding_def fail_if_Ok_iff
        bindings_match_def map_err_Ok_iff validate_graph_standalone_Ok_iff [OF g])
qed


lemma patched_graph_facts:
  assumes g: "of_revision (sp_source_revision_uid patch) g"
    and a: "apply_patch X g patch bindings mt = Inr a"
  shows "of_revision (sp_source_revision_uid patch) (pa_graph a)
    \<and> well_formed_forest X mt (pa_graph a)
    \<and> validate_graph_standalone X r mt (pa_graph a) = Inr ()
    \<and> recompute_node_digests X (pa_graph a) = pa_graph a"
proof -
  from a apply_patch_Ok_iff [OF of_revision_inv [OF g]] obtain edited where
    e: "fold_res (apply_operation X patch) g (sp_operations patch) = Inr edited"
    "shape_ok mt edited" "pa_graph a = recompute_node_digests X edited" by auto
  from fold_operations_revision [OF e(1) g]
  have rev: "of_revision (sp_source_revision_uid patch) edited" .
  then have inv: "sg_inv (pa_graph a)" by (simp add: e(3) of_revision_inv)
  have wf: "well_formed_forest X mt (pa_graph a)"
    using e(2,3) well_formed_recompute [OF of_revision_inv [OF rev]] by simp
  have "of_revision (sp_source_revision_uid patch) (pa_graph a)"
    using rev inv by (auto simp: of_revision_def e(3) sg_get_recompute)
  with wf recompute_well_formed [OF inv wf] validate_graph_standalone_Ok_iff [OF inv]
  show ?thesis by simp
qed

lemma patched_node_origin:
  assumes g: "sg_inv g" and a: "apply_patch X g patch bindings mt = Inr a"
    and n: "sg_get (pa_graph a) u = Some n"
    and not_named: "\<forall>oper \<in> set (sp_operations patch). \<not> edits_content oper u"
  shows "\<exists>m. sg_get g u = Some m \<and> same_content m n"
proof -
  from a apply_patch_Ok_iff [OF g] obtain edited where
    e: "fold_res (apply_operation X patch) g (sp_operations patch) = Inr edited"
    "pa_graph a = recompute_node_digests X edited" by auto
  from n obtain n' where n': "sg_get edited u = Some n'" "n = with_digests X edited n'"
    using sg_get_recompute [OF fold_operations_inv [OF e(1) g]] by (auto simp: e(2))
  from fold_operations_origin [OF e(1) n'(1) not_named] n'(2) show ?thesis
    by (auto simp: same_content_def)
qed

lemma stale_binding_error:
  assumes "sg_inv g" "well_formed_forest X mt g" "\<not> bindings_match X g patch bindings"
  shows "\<exists>field expected actual.
    apply_patch X g patch bindings mt = Inl (SP_StaleBinding (sp_uid patch) field expected actual)"
proof -
  have "validate_graph_standalone X (sp_source_revision_uid patch) mt g = Inr ()"
    using assms(1,2) by (simp add: validate_graph_standalone_Ok_iff)
  with assms(3) show ?thesis
    by (auto simp: apply_patch_def Let_def bindings_match_def check_binding_def fail_if_def)
qed

lemma promotion_facts:
  assumes P: "promotable g t removed" and paths: "\<forall>n \<in> set (sg_nodes g). \<exists>ps. parent_path g n ps"
  shows "sg_inv (reparent_children g t) \<and> ordinals_contiguous (reparent_children g t)
    \<and> (\<forall>v. sg_get (reparent_children g t) v = None \<longleftrightarrow> v = t \<or> sg_get g v = None)
    \<and> (\<forall>m \<in> set (sg_nodes (reparent_children g t)).
         \<exists>n. sg_get g (sn_uid m) = Some n
           \<and> sn_parent_uid m = after_promotion t removed (sn_parent_uid n)
           \<and> (\<exists>ps. parent_path (reparent_children g t) m ps))"
proof (intro conjI allI ballI)
  have g: "sg_inv g" using promotableD(1) [OF P] .
  then show "sg_inv (reparent_children g t)" by simp
  show "ordinals_contiguous (reparent_children g t)" by (rule promoted_ordinals_contiguous [OF P])
  show "sg_get (reparent_children g t) v = None \<longleftrightarrow> v = t \<or> sg_get g v = None" for v
    by (rule promoted_uids [OF P])
  fix m assume m: "m \<in> set (sg_nodes (reparent_children g t))"
  then have get: "sg_get (reparent_children g t) (sn_uid m) = Some m"
    using g by (simp add: sg_nodes_iff_get)
  obtain n where n: "n \<in> set (sg_nodes g)" "sn_uid n \<noteq> t" "sn_uid n = sn_uid m"
    "sn_parent_uid m = after_promotion t removed (sn_parent_uid n)"
    using m by (rule promoted_node_back [OF P])
  with paths obtain ps where ps: "parent_path g n ps" by blast
  have "\<exists>qs. parent_path (reparent_children g t) m qs"
    using promoted_paths [OF P ps n(1,2)] get n(3) by simp
  with n g show "\<exists>n. sg_get g (sn_uid m) = Some n
      \<and> sn_parent_uid m = after_promotion t removed (sn_parent_uid n)
      \<and> (\<exists>ps. parent_path (reparent_children g t) m ps)"
    by (metis sg_nodes_iff_get)
qed

end
