(* ===== verification/Demo_Data.thy ===== *)
theory Demo_Data
  imports Patch_Spec
begin

text \<open>
  Concrete inputs on which the properties are exercised: a platform whose hash is the identity
  (so distinct inputs never collide), a three-node Markdown graph and a patch over it.
\<close>

definition demo_platform :: platform where
  "demo_platform = \<lparr>sha256 = (\<lambda>b. b), show_f64 = (\<lambda>b. show_nat (unat b)),
     is_uuid_v4 = (\<lambda>s. s \<noteq> []), is_rfc3339 = (\<lambda>s. s \<noteq> []), nfc = (\<lambda>s. s)\<rparr>"

definition demo_locator :: "u64 \<Rightarrow> source_locator" where
  "demo_locator k = Markdown (SafeRelPath ''doc/a.md'') None None [''Intro''] (k, k + 8)"

definition demo_node ::
  "uid \<Rightarrow> uid option \<Rightarrow> source_node_kind \<Rightarrow> u32 \<Rightarrow> string \<Rightarrow> ancestry \<Rightarrow> source_node" where
  "demo_node u p k i text anc =
    \<lparr>sn_uid = u, sn_source_revision_uid = ''src_1'', sn_parent_uid = p, sn_kind = k,
     sn_ordinal = i, sn_label = None, sn_canonical_text = text,
     sn_content_sha256 = content_digest demo_platform k text,
     sn_fingerprint = fingerprint demo_platform k None anc, sn_locator = demo_locator 0\<rparr>"

definition demo_root :: source_node where
  "demo_root = demo_node ''snode_1'' None Section 0 ''Intro'' []"

definition demo_first :: source_node where
  "demo_first = demo_node ''snode_2'' (Some ''snode_1'') Paragraph 0 ''The tool shall start.''
     [(Section, None)]"

definition demo_second :: source_node where
  "demo_second = demo_node ''snode_3'' (Some ''snode_1'') Section 1 ''Detail'' [(Section, None)]"

definition demo_leaf :: source_node where
  "demo_leaf = demo_node ''snode_4'' (Some ''snode_3'') Paragraph 0 ''The tool shall stop.''
     [(Section, None), (Section, None)]"

definition demo_graph :: source_graph where
  "demo_graph = [(''snode_1'', demo_root), (''snode_2'', demo_first), (''snode_3'', demo_second),
     (''snode_4'', demo_leaf)]"

lemmas demo_nodes = demo_root_def demo_first_def demo_second_def demo_leaf_def demo_node_def

lemma demo_fields [simp]:
  "sn_uid demo_root = ''snode_1''" "sn_uid demo_first = ''snode_2''"
  "sn_uid demo_second = ''snode_3''" "sn_uid demo_leaf = ''snode_4''"
  "sn_parent_uid demo_root = None" "sn_parent_uid demo_first = Some ''snode_1''"
  "sn_parent_uid demo_second = Some ''snode_1''" "sn_parent_uid demo_leaf = Some ''snode_3''"
  "sn_ordinal demo_root = 0" "sn_ordinal demo_first = 0" "sn_ordinal demo_second = 1"
  "sn_ordinal demo_leaf = 0"
  "sn_kind demo_root = Section" "sn_kind demo_first = Paragraph" "sn_kind demo_second = Section"
  "sn_kind demo_leaf = Paragraph"
  "sn_label demo_root = None" "sn_label demo_first = None" "sn_label demo_second = None"
  "sn_label demo_leaf = None"
  by (simp_all add: demo_nodes)

lemma demo_f64_text_ok: "f64_text_ok demo_platform"
proof -
  have "set (show_nat n) \<inter> {CHR '','', CHR '']''} = {}" for n
    using show_nat_digits by fastforce
  then show ?thesis
    by (auto simp: f64_text_ok_def demo_platform_def simp flip: word_unat_eq_iff dest: show_nat_inj)
qed

lemma demo_no_collision [simp]: "\<not> collision demo_platform a b"
  by (simp add: collision_def demo_platform_def)

lemma demo_inv [simp]: "sg_inv demo_graph"
  by (simp add: sg_inv_def demo_graph_def bwf_def demo_nodes)

lemma demo_sg_nodes: "sg_nodes demo_graph = [demo_root, demo_first, demo_second, demo_leaf]"
  by (simp add: sg_nodes_def bvals_def demo_graph_def)

lemma demo_walks:
  "walk_ancestry r demo_graph idx demo_root = Inr []"
  "walk_ancestry r demo_graph idx demo_first = Inr [demo_root]"
  "walk_ancestry r demo_graph idx demo_second = Inr [demo_root]"
  "walk_ancestry r demo_graph idx demo_leaf = Inr [demo_root, demo_second]"
  by (simp_all add: walk_ancestry_def walk_loop.simps sg_get_def demo_graph_def demo_nodes)

lemma demo_nodes_valid:
  "n \<in> set (sg_nodes demo_graph) \<Longrightarrow>
    validate_node demo_platform r demo_graph idx ''text/markdown'' n = Inr ()"
  by (auto simp: demo_sg_nodes validate_node_def demo_walks)
    (simp_all add: demo_nodes ancestry_inputs_def demo_locator_def eq_ignore_ascii_case_def)

lemma demo_ordinals: "validate_ordinals r demo_graph = Inr ()"
  by (simp add: validate_ordinals_def sibling_sets_def group_by_def bpush_def demo_sg_nodes
      sort_siblings_def demo_nodes)

lemma demo_valid: "validate_graph_standalone demo_platform r ''text/markdown'' demo_graph = Inr ()"
  by (simp add: validate_graph_standalone_def Let_def validate_one_graph_def for_each_Ok_iff
      demo_nodes_valid demo_ordinals rbind_Ok_iff)

lemma demo_well_formed: "well_formed_forest demo_platform ''text/markdown'' demo_graph"
  using demo_valid validate_graph_standalone_Ok_iff [OF demo_inv] by blast


section \<open>A patch\<close>

text \<open>Replace the text of the first paragraph, insert a note after the second section, remove
  the leaf; the operations are listed out of order.\<close>

definition demo_operations :: "patch_operation list" where
  "demo_operations =
    [Remove 3 ''snode_4'' (sn_content_sha256 demo_leaf) ReparentChildren,
     ReplaceContent 1 ''snode_2'' (sn_content_sha256 demo_first) (Some ''Changed'') None,
     Insert 2 (Some ''snode_1'') \<lparr>in_uid = ''snode_5'', in_kind = Note, in_ordinal = 2,
       in_label = Some ''N1'', in_canonical_text = ''A note'', in_locator = demo_locator 9\<rparr>]"

definition demo_patch_unsigned :: source_patch_record where
  "demo_patch_unsigned = \<lparr>sp_uid = ''patch_1'', sp_human_id = ''P-1'',
     sp_source_revision_uid = ''src_1'', sp_recipe_digest = StructuralContentDigest ''r'',
     sp_input_digest = StructuralContentDigest ''i'',
     sp_pre_patch_graph_digest = source_graph_digest demo_platform demo_graph,
     sp_reviewed_content_digest = StructuralContentDigest [], sp_author = ''a'',
     sp_rationale = ''b'', sp_created_at = ''c'', sp_operations = demo_operations\<rparr>"

definition demo_patch :: source_patch_record where
  "demo_patch = demo_patch_unsigned\<lparr>sp_reviewed_content_digest :=
     reviewed_content_digest demo_platform demo_patch_unsigned\<rparr>"

definition demo_bindings :: patch_bindings where
  "demo_bindings = \<lparr>pb_recipe_digest = StructuralContentDigest ''r'',
     pb_input_digest = StructuralContentDigest ''i''\<rparr>"


lemmas demo_patch_simps = demo_patch_def demo_patch_unsigned_def demo_operations_def

lemma demo_gets:
  "sg_get demo_graph ''snode_1'' = Some demo_root" "sg_get demo_graph ''snode_2'' = Some demo_first"
  "sg_get demo_graph ''snode_3'' = Some demo_second" "sg_get demo_graph ''snode_4'' = Some demo_leaf"
  by (simp_all add: sg_get_def demo_graph_def)

text \<open>A record small enough to show that its strings fit.\<close>

definition demo_small_patch :: source_patch_record where
  "demo_small_patch = demo_patch_unsigned\<lparr>
     sp_pre_patch_graph_digest := StructuralContentDigest ''p'',
     sp_operations := [Reclassify 1 ''snode_2'' Paragraph Note]\<rparr>"

lemma demo_small_fits:
  "record_fits demo_platform demo_small_patch"
  "record_fits demo_platform (demo_small_patch\<lparr>sp_operations := []\<rparr>)"
  by (simp_all add: record_fits_def demo_small_patch_def demo_patch_unsigned_def fits_def)

lemma not_blank_letter [simp]:
  "is_ascii_alphabetic c \<Longrightarrow> \<not> is_blank (c # cs)"
proof -
  assume "is_ascii_alphabetic c"
  then have "65 \<le> byte c" "byte c \<le> 122"
    by (auto simp: is_ascii_alphabetic_def is_ascii_upper_def is_ascii_lower_def)
  then have "\<not> byte c \<le> 13" "byte c \<noteq> 32" "byte c \<noteq> 194" "byte c \<noteq> 225" "byte c \<noteq> 226"
    "byte c \<noteq> 227" by linarith+
  then have "ws_len (c # cs) = 0" by (simp split: list.split)
  then show ?thesis by (simp add: is_blank_def skip_ws.simps)
qed

lemma demo_platform_simps [simp]:
  "sha256 demo_platform b = b" "is_uuid_v4 demo_platform s \<longleftrightarrow> s \<noteq> []"
  "is_rfc3339 demo_platform s \<longleftrightarrow> s \<noteq> []"
  by (simp_all add: demo_platform_def)

lemma demo_letters [simp]: "is_ascii_alphabetic CHR ''a''" "is_ascii_alphabetic CHR ''b''"
  "is_ascii_alphabetic CHR ''P''" "is_ascii_alphabetic CHR ''N''" "is_ascii_alphabetic CHR ''I''"
  by (simp_all add: is_ascii_alphabetic_def is_ascii_upper_def is_ascii_lower_def byte_def)

lemma demo_locator_valid: "locator_validate demo_platform (demo_locator 9) = Inr ()"
  by (simp add: demo_locator_def check_heading_path_def check_non_blank_def)

lemma demo_operations_ok: "operations_ok demo_platform path demo_patch"
  by (simp add: operations_ok_def demo_patch_simps validate_snode_uid_def loop_simps
      validate_optional_label_def validate_optional_snode_uid_def demo_locator_valid
      snode_uid_prefix_def)

lemma demo_patch_accepted:
  "validate_record demo_platform path demo_patch = Inr (sort_operations demo_patch)"
  by (simp add: validate_record_Ok_iff record_ok_def demo_operations_ok)
    (simp add: demo_patch_simps patch_uid_prefix_def source_uid_prefix_def
      reviewed_content_digest_def reviewed_content_bytes_def)

lemma demo_bindings_match: "bindings_match demo_platform demo_graph demo_patch demo_bindings"
  by (simp add: bindings_match_def demo_bindings_def demo_patch_simps)

lemma demo_stale: "\<not> bindings_match demo_platform demo_graph
    (demo_patch\<lparr>sp_pre_patch_graph_digest := StructuralContentDigest ''old''\<rparr>) demo_bindings"
  by (simp add: bindings_match_def source_graph_digest_def graph_domain_tag_def)

lemma demo_of_revision: "of_revision (sp_source_revision_uid demo_patch) demo_graph"
  by (auto simp: of_revision_def demo_patch_simps)
    (auto simp: sg_get_def demo_graph_def demo_nodes split: if_splits)

definition demo_edited :: source_graph where
  "demo_edited = [(''snode_1'', demo_root),
     (''snode_2'', demo_first\<lparr>sn_canonical_text := ''Changed''\<rparr>), (''snode_3'', demo_second),
     (''snode_5'', \<lparr>sn_uid = ''snode_5'', sn_source_revision_uid = ''src_1'',
        sn_parent_uid = Some ''snode_1'', sn_kind = Note, sn_ordinal = 2, sn_label = Some ''N1'',
        sn_canonical_text = ''A note'',
        sn_content_sha256 = content_digest demo_platform Note ''A note'',
        sn_fingerprint = fingerprint demo_platform Note (Some ''N1'') [(Section, None)],
        sn_locator = demo_locator 9\<rparr>)]"


lemma demo_patch_fields:
  "sp_uid demo_patch = ''patch_1''" "sp_source_revision_uid demo_patch = ''src_1''"
  "sp_operations demo_patch = demo_operations"
  by (simp_all add: demo_patch_def demo_patch_unsigned_def)

definition demo_pruned :: source_graph where
  "demo_pruned = [(''snode_1'', demo_root), (''snode_2'', demo_first), (''snode_3'', demo_second)]"

definition demo_replaced :: source_graph where
  "demo_replaced = [(''snode_1'', demo_root),
     (''snode_2'', demo_first\<lparr>sn_canonical_text := ''Changed''\<rparr>), (''snode_3'', demo_second)]"

lemmas demo_op_simps = target_node_def check_content_digest_def check_parent_exists_def sg_get_def
  demo_patch_fields

lemma demo_step_remove:
  "apply_operation demo_platform demo_patch demo_graph
    (Remove 3 ''snode_4'' (sn_content_sha256 demo_leaf) ReparentChildren) = Inr demo_pruned"
  by (simp add: demo_op_simps demo_graph_def reparent_children_def Let_def sg_remove_node_def
      bdel_def ordered_uids_def sg_nodes_def bvals_def demo_pruned_def)

lemma demo_step_replace:
  "apply_operation demo_platform demo_patch demo_pruned
    (ReplaceContent 1 ''snode_2'' (sn_content_sha256 demo_first) (Some ''Changed'') None)
    = Inr demo_replaced"
  by (simp add: demo_op_simps demo_pruned_def demo_replaced_def sg_node_mut_def bupd_def)

lemma demo_step_insert:
  "apply_operation demo_platform demo_patch demo_replaced
    (Insert 2 (Some ''snode_1'') \<lparr>in_uid = ''snode_5'', in_kind = Note, in_ordinal = 2,
       in_label = Some ''N1'', in_canonical_text = ''A note'', in_locator = demo_locator 9\<rparr>)
    = Inr demo_edited"
  by (simp add: demo_op_simps demo_replaced_def demo_edited_def inserted_node_def ancestry_pairs_def
      sg_insert_def sg_nodes_def bvals_def)

lemma demo_edit_ok:
  "fold_res (apply_operation demo_platform demo_patch) demo_graph (sp_operations demo_patch)
    = Inr demo_edited"
  unfolding demo_patch_fields(3) demo_operations_def fold_res.simps demo_step_remove sum.case
    demo_step_replace demo_step_insert ..

definition demo_note :: source_node where
  "demo_note = \<lparr>sn_uid = ''snode_5'', sn_source_revision_uid = ''src_1'',
     sn_parent_uid = Some ''snode_1'', sn_kind = Note, sn_ordinal = 2, sn_label = Some ''N1'',
     sn_canonical_text = ''A note'', sn_content_sha256 = content_digest demo_platform Note ''A note'',
     sn_fingerprint = fingerprint demo_platform Note (Some ''N1'') [(Section, None)],
     sn_locator = demo_locator 9\<rparr>"

lemma demo_edited_nodes: "sg_nodes demo_edited =
    [demo_root, demo_first\<lparr>sn_canonical_text := ''Changed''\<rparr>, demo_second, demo_note]"
  by (simp add: sg_nodes_def bvals_def demo_edited_def demo_note_def)

lemma demo_media [simp]:
  "eq_ignore_ascii_case (expected_media_type (sn_locator demo_root)) ''text/markdown''"
  "eq_ignore_ascii_case (expected_media_type (sn_locator demo_first)) ''text/markdown''"
  "eq_ignore_ascii_case (expected_media_type (sn_locator demo_second)) ''text/markdown''"
  "eq_ignore_ascii_case (expected_media_type (sn_locator demo_note)) ''text/markdown''"
  by (simp_all add: demo_nodes demo_note_def demo_locator_def eq_ignore_ascii_case_def)

lemma demo_edited_paths:
  "parent_path demo_edited demo_root []"
  "parent_path demo_edited (demo_first\<lparr>sn_canonical_text := ''Changed''\<rparr>) [demo_root]"
  "parent_path demo_edited demo_second [demo_root]"
  "parent_path demo_edited demo_note [demo_root]"
  by (simp_all add: sg_get_def demo_edited_def demo_note_def)

lemma demo_edited_node_shapes:
  "node_shape_ok ''text/markdown'' demo_root []"
  "node_shape_ok ''text/markdown'' (demo_first\<lparr>sn_canonical_text := ''Changed''\<rparr>) [demo_root]"
  "node_shape_ok ''text/markdown'' demo_second [demo_root]"
  "node_shape_ok ''text/markdown'' demo_note [demo_root]"
  by (simp_all add: node_shape_ok_def)

lemma demo_edited_ordinals: "ordinals_contiguous demo_edited"
proof -
  have fields: "sn_ordinal demo_note = 2" "sn_parent_uid demo_note = Some ''snode_1''"
    "sn_uid demo_note = ''snode_5''" by (simp_all add: demo_note_def)
  have "validate_ordinals [] demo_edited = Inr ()"
    by (simp add: validate_ordinals_def sibling_sets_def group_by_def bpush_def demo_edited_nodes
      sort_siblings_def fields)
  then show ?thesis by (simp add: validate_ordinals_Ok_iff)
qed

lemma demo_edited_shape: "shape_ok ''text/markdown'' demo_edited"
  using demo_edited_paths demo_edited_node_shapes demo_edited_ordinals
  by (simp only: shape_ok_def demo_edited_nodes list.set ball_simps) blast

lemma demo_applies:
  "\<exists>a. apply_patch demo_platform demo_graph demo_patch demo_bindings ''text/markdown'' = Inr a
    \<and> pa_graph a = recompute_node_digests demo_platform demo_edited"
  using apply_patch_Ok_iff [OF demo_inv, of demo_platform demo_patch demo_bindings]
    demo_well_formed demo_bindings_match demo_edit_ok demo_edited_shape by fastforce

lemma demo_root_after:
  "\<exists>a n. apply_patch demo_platform demo_graph demo_patch demo_bindings ''text/markdown'' = Inr a
    \<and> sg_get (pa_graph a) ''snode_1'' = Some n \<and> sn_canonical_text n = ''Intro''"
proof -
  have "sg_inv demo_edited" using fold_operations_inv [OF demo_edit_ok demo_inv] .
  then have "sg_get (recompute_node_digests demo_platform demo_edited) ''snode_1''
      = Some (with_digests demo_platform demo_edited demo_root)"
    by (simp add: sg_get_recompute) (simp add: sg_get_def demo_edited_def)
  moreover have "sn_canonical_text demo_root = ''Intro''" by (simp add: demo_nodes)
  ultimately show ?thesis using demo_applies by fastforce
qed

lemma demo_promotable: "promotable demo_graph ''snode_3'' demo_second"
  using demo_well_formed
  by (simp add: promotable_def demo_gets well_formed_forest_def demo_sg_nodes)

end
