(* ===== verification/Source_Properties.thy ===== *)
theory Source_Properties
  imports Demo_Data
begin

text \<open>
  The properties of the source plane: committed source graphs, their canonical digests, and the
  curated patches applied to them. Each is a corollary of the component theories, followed by a
  witness on concrete data.
\<close>

section \<open>Committed source graphs\<close>

text \<open>C2: the committed-graph validator decides the forest specification. On a well-keyed graph
  it accepts exactly when every node has a finite parent path inside the graph, every parent
  kind is legal, both stored digests are the recomputed ones, every locator fits the media type
  and every sibling set carries the ordinals 0, 1, 2, ... once each.\<close>

theorem graph_validator_decides_forest:
  assumes "sg_inv g"
  shows "validate_graph_standalone X r mt g = Inr () \<longleftrightarrow> well_formed_forest X mt g"
  using assms by (rule validate_graph_standalone_Ok_iff)

theorem graph_validator_decides_forest_witness:
  "well_formed_forest demo_platform ''text/markdown'' demo_graph"
  using graph_validator_decides_forest [OF demo_inv] demo_valid by blast

text \<open>A graph the validator accepts has no cycle of parents: the parent relation is
  well-founded, every node has exactly one path to a root, and no uid repeats on it.\<close>

theorem accepted_graph_is_acyclic:
  assumes "sg_inv g" "validate_graph_standalone X r mt g = Inr ()"
  shows "wf (parent_rel g) \<and> (\<forall>n \<in> set (sg_nodes g). \<exists>!ps. parent_path g n ps)
    \<and> (\<forall>n \<in> set (sg_nodes g). \<forall>ps. parent_path g n ps \<longrightarrow> distinct (map sn_uid (n # ps)))"
proof (intro conjI ballI allI impI)
  have wf: "well_formed_forest X mt g" using assms by (simp add: validate_graph_standalone_Ok_iff)
  show "wf (parent_rel g)"
    using assms(1) parent_path_exI [OF wf] by (rule forest_parent_wf)
  show "\<exists>!ps. parent_path g n ps" if "n \<in> set (sg_nodes g)" for n
    using parent_path_exI [OF wf that] parent_path_unique by blast
  show "distinct (map sn_uid (n # ps))" if "n \<in> set (sg_nodes g)" "parent_path g n ps" for n ps
    using assms(1) that by (rule parent_path_distinct)
qed

theorem accepted_graph_is_acyclic_witness: "wf (parent_rel demo_graph)"
  using accepted_graph_is_acyclic [OF demo_inv demo_valid] by blast

text \<open>loading a list of nodes into an empty graph. The load succeeds exactly when no two
  nodes share a uid and no two labelled nodes of one kind share a label; the loaded graph then
  holds exactly those nodes, under their own uids, in uid order.\<close>

theorem loading_nodes_characterised:
  "(\<exists>g. fold_res sg_insert sg_new ns = Inr g) \<longleftrightarrow>
     distinct (map sn_uid ns) \<and>
     distinct (map (\<lambda>n. (sn_kind n, sn_label n)) (filter (\<lambda>n. sn_label n \<noteq> None) ns))"
  by (simp add: load_nodes_Ok_iff)

text \<open>what a loaded graph contains. Every node that was inserted is found under its uid and
  nothing else is; the keys are sorted and labels are unique per kind.\<close>

theorem loaded_graph_contents:
  assumes "fold_res sg_insert sg_new ns = Inr g"
  shows "sg_inv g \<and> labels_unique g \<and> set (sg_nodes g) = set ns
    \<and> (\<forall>u. sg_get g u = find (\<lambda>n. sn_uid n = u) ns)"
  using load_nodes_invariant [OF assms] by simp

theorem loaded_graph_contents_witness:
  "\<exists>g. fold_res sg_insert sg_new [demo_leaf, demo_root] = Inr g \<and>
    set (sg_nodes g) = {demo_root, demo_leaf}"
proof -
  obtain g where g: "fold_res sg_insert sg_new [demo_leaf, demo_root] = Inr g"
    using load_nodes_Ok_iff [of "[demo_leaf, demo_root]"] by (auto simp: demo_nodes)
  with loaded_graph_contents [OF g] show ?thesis by auto
qed

text \<open>an accepted locator has sound numbers: a Markdown byte range is ordered, a PDF page is
  positive, and a PDF box has finite, non-negative corners with the second not before the first.\<close>

theorem accepted_locator_is_sound:
  assumes "locator_validate X l = Inr ()"
  shows "locator_ranges_ok l \<and> locator_finite l"
  using locator_validate_ranges [OF assms] locator_ranges_finite by blast

theorem accepted_locator_is_sound_witness: "locator_ranges_ok (demo_locator 3)"
  using accepted_locator_is_sound [of demo_platform "demo_locator 3"]
  by (simp add: demo_locator_def check_heading_path_def check_non_blank_def is_blank_def
      skip_ws.simps byte_def rbind_def)

text \<open>a vendored path the validator accepts cannot leave the directory it is resolved
  against: its components append to the root, one by one.\<close>

theorem vendored_path_stays_inside:
  assumes "safe_rel_path_new p = Inr path"
  shows "resolve_components root (split_on (CHR ''/'') (path_str path))
    = root @ split_on (CHR ''/'') (path_str path)"
proof -
  from assms have "validate_vendored_wire_path (path_str path) = Inr ()"
    by (auto simp: safe_rel_path_new_def rbind_Ok_iff)
  then show ?thesis by (intro resolve_plain_components vendored_path_components)
qed

theorem vendored_path_stays_inside_witness:
  "resolve_components [''repo''] (split_on (CHR ''/'') ''doc/a'') = [''repo'', ''doc'', ''a'']"
  using vendored_path_stays_inside [of "''doc/a''" "SafeRelPath ''doc/a''" "[''repo'']"]
  by (simp add: safe_rel_path_new_def validate_vendored_wire_path_def validate_component_def
      strip_prefix_def)

section \<open>Digests\<close>

text \<open>a node digest binds what it covers. Two nodes with equal content digest and equal
  fingerprint have the same kind, text, label and ancestry, unless the hash collides on the
  canonical bytes.\<close>

theorem node_digests_bind:
  assumes "fits s" "fits t" "fits_opt a" "fits_opt b" "\<forall>x \<in> set as. fits_tier x"
    "\<forall>x \<in> set bs. fits_tier x" "length as < 2 ^ 64" "length bs < 2 ^ 64"
    and "content_digest X k s = content_digest X l t"
    and "fingerprint X k a as = fingerprint X l b bs"
  shows "(k = l \<and> s = t \<and> a = b \<and> as = bs)
    \<or> collision X (content_bytes k s) (content_bytes l t)
    \<or> collision X (fingerprint_bytes k a as) (fingerprint_bytes l b bs)"
  using assms content_bytes_inj [of s t k l] fingerprint_bytes_inj [of a b as bs k l]
  unfolding collision_def content_digest_def fingerprint_def by auto

theorem node_digests_bind_witness:
  "\<not> (content_digest demo_platform Note ''x'' = content_digest demo_platform Section ''x'' \<and>
      fingerprint demo_platform Note None [] = fingerprint demo_platform Section None [])"
  using node_digests_bind [of "''x''" "''x''" None None "[]" "[]" demo_platform Note Section]
  by (auto simp: fits_def fits_opt_def)

text \<open>A source-graph digest binds the whole graph. Two graphs with finite locators and equal
  digest are the same graph, unless the hash collides on their renderings.\<close>

theorem graph_digest_binds:
  assumes "f64_text_ok X" "graph_finite g" "graph_finite h" "sg_inv g" "sg_inv h"
    and "source_graph_digest X g = source_graph_digest X h"
  shows "g = h \<or> collision X (graph_digest_input X g) (graph_digest_input X h)"
  using source_graph_digest_separates [OF assms] by blast

theorem graph_digest_binds_witness:
  "source_graph_digest demo_platform demo_graph \<noteq> source_graph_digest demo_platform []"
proof
  assume eq: "source_graph_digest demo_platform demo_graph = source_graph_digest demo_platform []"
  have "graph_finite demo_graph"
    by (simp add: graph_finite_def demo_sg_nodes) (simp add: demo_nodes demo_locator_def)
  moreover have "graph_finite [] \<and> sg_inv []"
    by (simp add: graph_finite_def sg_nodes_def bvals_def sg_inv_def)
  ultimately have fin: "graph_finite demo_graph" "graph_finite []" "sg_inv []" by simp_all
  from graph_digest_binds [OF demo_f64_text_ok fin(1,2) demo_inv fin(3) eq] show False
    by (simp add: demo_graph_def)
qed


section \<open>Curated patches\<close>

text \<open>C4: the reviewed-content digest binds exactly what a reviewer approves. The canonical
  bytes of two records are equal just when they agree on the revision, the three bound digests
  and the operations taken in ordinal order.\<close>

theorem reviewed_content_binds:
  assumes "f64_text_ok X" "record_fits X r" "record_fits X s"
  shows "reviewed_content_bytes X r = reviewed_content_bytes X s \<longleftrightarrow> same_reviewed_content r s"
  using assms by (rule reviewed_content_bytes_iff)

theorem reviewed_content_binds_witness:
  "reviewed_content_bytes demo_platform demo_small_patch \<noteq>
    reviewed_content_bytes demo_platform (demo_small_patch\<lparr>sp_operations := []\<rparr>)"
  using reviewed_content_binds [OF demo_f64_text_ok, of demo_small_patch
      "demo_small_patch\<lparr>sp_operations := []\<rparr>"]
  by (simp add: demo_small_fits same_reviewed_content_def) (simp add: demo_small_patch_def)

text \<open>what the patch loader accepts. A record passes exactly when every per-record rule holds
  (native uids, non-blank prose, a timestamp, at least one operation, valid operations with
  distinct ordinals and distinct claims, the recomputed digest), and the result is that record
  with its operations sorted by ordinal.\<close>

theorem patch_loader_accepts:
  "validate_record X path r = Inr r' \<longleftrightarrow> record_ok X path r \<and> r' = sort_operations r"
  by (rule validate_record_Ok_iff)

text \<open>What the patch loader hands on: operations in strictly increasing ordinal order, the
  recomputed digest, the same reviewed content as the file, and a record that loads to itself.\<close>

theorem patch_loader_result:
  assumes "validate_record X path r = Inr r'"
  shows "sorted_wrt (<) (map op_ordinal (sp_operations r'))
    \<and> sp_reviewed_content_digest r' = reviewed_content_digest X r'
    \<and> same_reviewed_content r r' \<and> validate_record X path r' = Inr r'"
proof (intro conjI)
  from assms have ok: "record_ok X path r" "r' = sort_operations r"
    by (simp_all add: validate_record_Ok_iff)
  then have "operations_ok X path r" by (simp add: record_ok_def)
  then show "sorted_wrt (<) (map op_ordinal (sp_operations r'))"
    unfolding ok(2) by (rule sort_operations_strict)
  show "validate_record X path r' = Inr r'" using assms by (rule validate_record_idem)
  then show "sp_reviewed_content_digest r' = reviewed_content_digest X r'"
    by (simp add: validate_record_Ok_iff record_ok_def)
  show "same_reviewed_content r r'"
    by (simp add: ok(2) same_reviewed_content_def sort_operations_def sort_key_id_if_sorted)
qed

theorem patch_loader_result_witness:
  "validate_record demo_platform ''p.toml'' (sort_operations demo_patch)
    = Inr (sort_operations demo_patch)"
  using patch_loader_result [OF demo_patch_accepted] by blast

text \<open>C1: exactly when a patch applies. The pre-graph must be well formed, the three bindings
  must match, every operation must find its preconditions in turn, and the edited graph must
  have a legal shape; the digests of the result are then correct by construction and never the
  reason for a rejection. The reported digests are those of the two graphs.\<close>

theorem patch_application_characterised:
  assumes "sg_inv g"
  shows "apply_patch X g patch bindings mt = Inr a \<longleftrightarrow>
    well_formed_forest X mt g \<and> bindings_match X g patch bindings \<and>
    (\<exists>edited. fold_res (apply_operation X patch) g (sp_operations patch) = Inr edited \<and>
      shape_ok mt edited \<and>
      a = \<lparr>pa_pre_patch_digest = source_graph_digest X g,
           pa_patch_digest = sp_reviewed_content_digest patch,
           pa_post_patch_digest = source_graph_digest X (recompute_node_digests X edited),
           pa_graph = recompute_node_digests X edited\<rparr>)"
  using assms by (rule apply_patch_Ok_iff)

theorem patch_application_characterised_witness:
  "\<exists>a. apply_patch demo_platform demo_graph demo_patch demo_bindings ''text/markdown'' = Inr a"
  using patch_application_characterised [OF demo_inv, of demo_platform demo_patch demo_bindings]
    demo_well_formed demo_bindings_match demo_edit_ok demo_edited_shape by blast

text \<open>C3: a successful application yields a graph the validator accepts, of the same revision,
  on which recomputing the digests again changes nothing.\<close>

theorem patched_graph_is_well_formed:
  assumes "of_revision (sp_source_revision_uid patch) g"
    and "apply_patch X g patch bindings mt = Inr a"
  shows "of_revision (sp_source_revision_uid patch) (pa_graph a)
    \<and> well_formed_forest X mt (pa_graph a)
    \<and> validate_graph_standalone X r mt (pa_graph a) = Inr ()
    \<and> recompute_node_digests X (pa_graph a) = pa_graph a"
  using patched_graph_facts [OF assms] by simp

theorem patched_graph_is_well_formed_witness:
  "\<exists>a. apply_patch demo_platform demo_graph demo_patch demo_bindings ''text/markdown'' = Inr a
    \<and> well_formed_forest demo_platform ''text/markdown'' (pa_graph a)"
  using patched_graph_is_well_formed [OF demo_of_revision] demo_applies by blast

text \<open>A patch changes only what its operations name. A node of the result that no content
  edit, reclassification or insertion of the patch names was in the pre-graph under the same
  uid, with the same revision, kind, label, text and locator.\<close>

theorem patch_frame:
  assumes "sg_inv g" "apply_patch X g patch bindings mt = Inr a"
    and "sg_get (pa_graph a) u = Some n"
    and "\<forall>oper \<in> set (sp_operations patch). \<not> edits_content oper u"
  shows "\<exists>m. sg_get g u = Some m \<and> same_content m n"
  using patched_node_origin [OF assms] .

theorem patch_frame_witness:
  "\<exists>m. sg_get demo_graph ''snode_1'' = Some m \<and> sn_canonical_text m = ''Intro''"
proof -
  obtain a n where a: "apply_patch demo_platform demo_graph demo_patch demo_bindings
      ''text/markdown'' = Inr a" and n: "sg_get (pa_graph a) ''snode_1'' = Some n"
    "sn_canonical_text n = ''Intro''"
    using demo_root_after by blast
  have "\<forall>oper \<in> set (sp_operations demo_patch). \<not> edits_content oper ''snode_1''"
    by (simp add: demo_patch_fields demo_operations_def)
  from patch_frame [OF demo_inv a n(1) this] n(2) show ?thesis
    by (auto simp: same_content_def)
qed

text \<open>a stale patch changes nothing and says so. On a valid pre-graph a recipe, input or
  pre-patch graph digest that differs from the recorded one is a stale-binding error naming the
  field.\<close>

theorem stale_bindings_rejected:
  assumes "sg_inv g" "well_formed_forest X mt g" "\<not> bindings_match X g patch bindings"
  shows "\<exists>field expected actual.
    apply_patch X g patch bindings mt = Inl (SP_StaleBinding (sp_uid patch) field expected actual)"
  using stale_binding_error [OF assms] .

theorem stale_bindings_rejected_witness:
  "\<exists>field expected actual. apply_patch demo_platform demo_graph
      (demo_patch\<lparr>sp_pre_patch_graph_digest := StructuralContentDigest ''old''\<rparr>) demo_bindings
      ''text/markdown'' = Inl (SP_StaleBinding ''patch_1'' field expected actual)"
  using stale_bindings_rejected [OF demo_inv demo_well_formed, of
      "demo_patch\<lparr>sp_pre_patch_graph_digest := StructuralContentDigest ''old''\<rparr>" demo_bindings]
    demo_stale by (simp add: demo_patch_fields)

text \<open>Removing a subtree removes exactly the node and its descendants, and leaves every
  other node as it was.\<close>

theorem remove_subtree_exact:
  "sg_get (remove_subtree g t) v = (if (t, v) \<in> (parent_rel g)\<^sup>* then None else sg_get g v)"
  by (rule sg_get_remove_subtree)

text \<open>Removing a node and promoting its children. In a graph with contiguous ordinals and
  parent paths, the promotion deletes exactly that node, hangs its children under its parent,
  keeps every other parent, and leaves the ordinals of every sibling set contiguous and every
  node with a path to a root.\<close>

theorem promotion_keeps_the_forest:
  assumes "promotable g t removed" "\<forall>n \<in> set (sg_nodes g). \<exists>ps. parent_path g n ps"
  shows "sg_inv (reparent_children g t) \<and> ordinals_contiguous (reparent_children g t)
    \<and> (\<forall>v. sg_get (reparent_children g t) v = None \<longleftrightarrow> v = t \<or> sg_get g v = None)
    \<and> (\<forall>m \<in> set (sg_nodes (reparent_children g t)).
         \<exists>n. sg_get g (sn_uid m) = Some n
           \<and> sn_parent_uid m = after_promotion t removed (sn_parent_uid n)
           \<and> (\<exists>ps. parent_path (reparent_children g t) m ps))"
  using promotion_facts [OF assms] by simp

theorem promotion_keeps_the_forest_witness:
  "ordinals_contiguous (reparent_children demo_graph ''snode_3'')"
  using promotion_keeps_the_forest [OF demo_promotable] demo_well_formed
  by (auto simp: well_formed_forest_def)

text \<open>C5: a digest precondition does not see an earlier content edit of the same patch. A
  replacement leaves the stored digest of its target as it was, so a removal later in the patch
  that expects the digest of the replaced text still passes.\<close>

theorem replaced_node_still_matches_old_digest:
  assumes "apply_operation X patch g (ReplaceContent k t expected text label) = Inr h"
  shows "apply_operation X patch h (Remove k' t expected disposition) =
    Inr (case disposition of ReparentChildren \<Rightarrow> reparent_children h t
           | RemoveSubtree \<Rightarrow> remove_subtree h t)"
  using assms by (auto simp: loop_simps target_node_def check_content_digest_def
      split: option.splits)

theorem replaced_node_still_matches_old_digest_witness:
  "\<exists>h. apply_operation demo_platform demo_patch h (Remove 9 ''snode_2'' (sn_content_sha256 demo_first)
      RemoveSubtree) = Inr (remove_subtree h ''snode_2'') \<and>
    (\<exists>n. sg_get h ''snode_2'' = Some n \<and> sn_canonical_text n = ''Changed'')"
proof -
  have "\<exists>h. apply_operation demo_platform demo_patch demo_graph (ReplaceContent 1 ''snode_2''
      (sn_content_sha256 demo_first) (Some ''Changed'') None) = Inr h \<and>
    (\<exists>n. sg_get h ''snode_2'' = Some n \<and> sn_canonical_text n = ''Changed'')"
    by (auto simp: target_node_def check_content_digest_def demo_gets)
  with replaced_node_still_matches_old_digest [where k' = 9 and disposition = RemoveSubtree]
  show ?thesis by fastforce
qed

end
