(* ===== verification/Corpus_Graph.thy ===== *)
theory Corpus_Graph
  imports Patch_Spec
begin

text \<open>
  The corpus graph (\<^verbatim>\<open>corpus/graph/nodes.rs\<close>, \<^verbatim>\<open>corpus/graph.rs\<close>): the four node kinds, the
  graph with its node, metadata, source-graph and patch planes, insertion with canonical edges,
  the accessors, and the edge and review-node checks of \<^verbatim>\<open>corpus/graph/validation.rs\<close> and
  \<^verbatim>\<open>corpus/graph/review_invariants.rs\<close>.
\<close>

section \<open>Nodes\<close>

type_synonym edges = "(edge_kind \<times> uid) list"

record requirement_metadata =
  rm_namespace :: "string option"
  rm_sort_key :: "int option"
  rm_scope :: "string option"
  rm_category :: "string option"
  rm_source :: "string option"
  rm_modules :: "string list"
  rm_surfaces :: "string list"
  rm_emits :: "string list"
  rm_verification_methods :: "string list"

record test_metadata =
  tm_namespace :: "string option"
  tm_sort_key :: "int option"
  tm_category :: "string option"
  tm_source :: "string option"
  tm_primary_selector :: "string option"

datatype trace_metadata = RequirementMeta requirement_metadata | TestMeta test_metadata

record requirement_node =
  rq_uid :: uid
  rq_id :: string
  rq_title :: string
  rq_layer :: requirement_layer
  rq_edges :: edges
  rq_description :: "string option"
  rq_rationale :: "string option"
  rq_scope :: "string option"
  rq_category :: "string option"
  rq_source :: "string option"
  rq_verification_methods :: "string list"
  rq_safety_impact :: "string option"

record test_node =
  ts_uid :: uid
  ts_id :: string
  ts_title :: string
  ts_selectors :: "string list"
  ts_edges :: edges

datatype review_target = RequirementTarget uid | CuratedPatchTarget uid

fun target_uid :: "review_target \<Rightarrow> uid" where
  "target_uid (RequirementTarget u) = u"
| "target_uid (CuratedPatchTarget u) = u"

fun target_kind :: "review_target \<Rightarrow> review_target_kind" where
  "target_kind (RequirementTarget u) = TargetRequirement"
| "target_kind (CuratedPatchTarget u) = TargetCuratedPatch"

record review_node =
  rv_uid :: uid
  rv_id :: string
  rv_target :: review_target
  rv_content_schema :: u32
  rv_reviewed_content_sha256 :: review_content_digest
  rv_decision :: review_decision
  rv_reviewer :: string
  rv_reviewed_at :: string
  rv_rationale :: "string option"
  rv_edges :: edges

datatype source_capture = Vendored string | HashOnly | ExternalControlled string string

datatype source_material =
    Available string source_content_digest source_capture
  | Unavailable string

record source_revision_node =
  sr_uid :: uid
  sr_id :: string
  sr_document_key :: string
  sr_title :: string
  sr_media_type :: string
  sr_canonical_location :: string
  sr_material :: source_material
  sr_edges :: edges

datatype node =
    Requirement requirement_node
  | Test test_node
  | Review review_node
  | SourceRevision source_revision_node

fun node_uid :: "node \<Rightarrow> uid" where
  "node_uid (Requirement r) = rq_uid r"
| "node_uid (Test t) = ts_uid t"
| "node_uid (Review r) = rv_uid r"
| "node_uid (SourceRevision s) = sr_uid s"

fun kind_of_node :: "node \<Rightarrow> node_kind" where
  "kind_of_node (Requirement r) = RequirementKind"
| "kind_of_node (Test t) = TestKind"
| "kind_of_node (Review r) = ReviewKind"
| "kind_of_node (SourceRevision s) = SourceRevisionKind"

fun node_id :: "node \<Rightarrow> string" where
  "node_id (Requirement r) = rq_id r"
| "node_id (Test t) = ts_id t"
| "node_id (Review r) = rv_id r"
| "node_id (SourceRevision s) = sr_id s"

fun node_edges :: "node \<Rightarrow> edges" where
  "node_edges (Requirement r) = rq_edges r"
| "node_edges (Test t) = ts_edges t"
| "node_edges (Review r) = rv_edges r"
| "node_edges (SourceRevision s) = sr_edges s"

text \<open>\<^verbatim>\<open>edges_mut\<close> followed by a mutation of the vector.\<close>

fun map_node_edges :: "(edges \<Rightarrow> edges) \<Rightarrow> node \<Rightarrow> node" where
  "map_node_edges f (Requirement r) = Requirement (r\<lparr>rq_edges := f (rq_edges r)\<rparr>)"
| "map_node_edges f (Test t) = Test (t\<lparr>ts_edges := f (ts_edges t)\<rparr>)"
| "map_node_edges f (Review r) = Review (r\<lparr>rv_edges := f (rv_edges r)\<rparr>)"
| "map_node_edges f (SourceRevision s) = SourceRevision (s\<lparr>sr_edges := f (sr_edges s)\<rparr>)"

lemma map_node_edges_simps [simp]:
  "node_uid (map_node_edges f n) = node_uid n" "kind_of_node (map_node_edges f n) = kind_of_node n"
  "node_id (map_node_edges f n) = node_id n" "node_edges (map_node_edges f n) = f (node_edges n)"
  by (cases n; simp)+

definition canonical_strings :: "string list \<Rightarrow> string list" where
  "canonical_strings values = dedup (sort values)"

section \<open>The graph\<close>

record corpus_graph =
  cg_nodes :: "(uid, node) bmap"
  cg_trace_metadata :: "(uid, trace_metadata) bmap"
  cg_source_graphs :: "(uid, source_graph) bmap"
  cg_source_patches :: "(uid, source_patch_record) bmap"

definition cg_new :: corpus_graph where
  "cg_new = \<lparr>cg_nodes = [], cg_trace_metadata = [], cg_source_graphs = [], cg_source_patches = []\<rparr>"

definition cg_get :: "corpus_graph \<Rightarrow> uid \<Rightarrow> node option" where
  "cg_get G u = bget (cg_nodes G) u"

definition cg_node_list :: "corpus_graph \<Rightarrow> node list" where
  "cg_node_list G = bvals (cg_nodes G)"

definition cg_source_graph :: "corpus_graph \<Rightarrow> uid \<Rightarrow> source_graph option" where
  "cg_source_graph G r = bget (cg_source_graphs G) r"

definition cg_source_patch :: "corpus_graph \<Rightarrow> uid \<Rightarrow> source_patch_record option" where
  "cg_source_patch G u = bget (cg_source_patches G) u"

definition check_identity_uniqueness :: "(uid, node) bmap \<Rightarrow> node \<Rightarrow> corpus_error + unit" where
  "check_identity_uniqueness nodes node =
    (if bget nodes (node_uid node) \<noteq> None then Err (CE_DuplicateUid (node_uid node))
     else case find (\<lambda>existing. kind_of_node existing = kind_of_node node
                 \<and> node_id existing = node_id node) (bvals nodes) of
       Some existing \<Rightarrow> Err (CE_DuplicateHumanId (node_id node) (kind_of_node node)
         (node_uid existing) (node_uid node))
     | None \<Rightarrow> Ok ())"

text \<open>\<^verbatim>\<open>edges.windows(2).find(|pair| pair[0] == pair[1])\<close>.\<close>

fun adjacent_duplicate :: "'a list \<Rightarrow> 'a option" where
  "adjacent_duplicate (x # y # zs) = (if x = y then Some x else adjacent_duplicate (y # zs))"
| "adjacent_duplicate _ = None"

definition canonicalize_edges :: "node \<Rightarrow> corpus_error + node" where
  "canonicalize_edges node =
    (let sorted_node = map_node_edges sort node in
     case adjacent_duplicate (node_edges sorted_node) of
       Some (kind, to) \<Rightarrow> Err (CE_DuplicateEdge (node_uid node) to kind)
     | None \<Rightarrow> Ok sorted_node)"

definition cg_insert :: "corpus_graph \<Rightarrow> node \<Rightarrow> corpus_error + corpus_graph" where
  "cg_insert G node =
    rbind (check_identity_uniqueness (cg_nodes G) node) (\<lambda>_.
    rbind (canonicalize_edges node) (\<lambda>node'.
    Ok (G\<lparr>cg_nodes := bins (node_uid node') node' (cg_nodes G)\<rparr>)))"

definition insert_with_trace_metadata ::
  "corpus_graph \<Rightarrow> node \<Rightarrow> trace_metadata \<Rightarrow> corpus_error + corpus_graph" where
  "insert_with_trace_metadata G node metadata =
    rbind (cg_insert G node) (\<lambda>G'.
    Ok (G'\<lparr>cg_trace_metadata := bins (node_uid node) metadata (cg_trace_metadata G')\<rparr>))"

definition trace_metadata_of :: "corpus_graph \<Rightarrow> uid \<Rightarrow> trace_metadata option" where
  "trace_metadata_of G u = bget (cg_trace_metadata G) u"

text \<open>\<^verbatim>\<open>entry(revision_uid).or_default().insert(node)\<close>.\<close>

definition insert_source_node ::
  "corpus_graph \<Rightarrow> source_node \<Rightarrow> source_graph_error + corpus_graph" where
  "insert_source_node G node =
    (let r = sn_source_revision_uid node;
         g = (case bget (cg_source_graphs G) r of None \<Rightarrow> sg_new | Some g \<Rightarrow> g)
     in rbind (sg_insert g node) (\<lambda>g'.
        Ok (G\<lparr>cg_source_graphs := bins r g' (cg_source_graphs G)\<rparr>)))"

definition insert_source_patch ::
  "corpus_graph \<Rightarrow> source_patch_record \<Rightarrow> source_patch_error + corpus_graph" where
  "insert_source_patch G patch =
    (if bget (cg_source_patches G) (sp_uid patch) \<noteq> None then Err (SP_DuplicateUid (sp_uid patch))
     else case find (\<lambda>existing. sp_human_id existing = sp_human_id patch)
                 (bvals (cg_source_patches G)) of
       Some existing \<Rightarrow>
         Err (SP_DuplicateHumanId (sp_human_id patch) (sp_uid existing) (sp_uid patch))
     | None \<Rightarrow> Ok (G\<lparr>cg_source_patches := bins (sp_uid patch) patch (cg_source_patches G)\<rparr>))"

fun as_review :: "node \<Rightarrow> review_node option" where
  "as_review (Review r) = Some r"
| "as_review _ = None"

fun as_revision :: "node \<Rightarrow> source_revision_node option" where
  "as_revision (SourceRevision s) = Some s"
| "as_revision _ = None"

definition cg_reviews :: "corpus_graph \<Rightarrow> review_node list" where
  "cg_reviews G = List.map_filter as_review (cg_node_list G)"

definition cg_revisions :: "corpus_graph \<Rightarrow> source_revision_node list" where
  "cg_revisions G = List.map_filter as_revision (cg_node_list G)"

definition reviews_for_requirement :: "corpus_graph \<Rightarrow> uid \<Rightarrow> review_node list" where
  "reviews_for_requirement G u =
    filter (\<lambda>review. rv_target review = RequirementTarget u) (cg_reviews G)"

definition reviews_for_patch :: "corpus_graph \<Rightarrow> uid \<Rightarrow> review_node list" where
  "reviews_for_patch G u =
    filter (\<lambda>review. rv_target review = CuratedPatchTarget u) (cg_reviews G)"

text \<open>The targets of the \<^verbatim>\<open>Supersedes\<close> edges of an edge list, in order.\<close>

definition supersedes_targets :: "edges \<Rightarrow> uid list" where
  "supersedes_targets es = map snd (filter (\<lambda>(kind, target). kind = Supersedes) es)"

definition superseded_review_uids :: "corpus_graph \<Rightarrow> uid set" where
  "superseded_review_uids G = set (concat (map (\<lambda>r. supersedes_targets (rv_edges r)) (cg_reviews G)))"

section \<open>Edge validation\<close>

fun edge_kinds_match :: "node_kind \<Rightarrow> edge_kind \<Rightarrow> node_kind \<Rightarrow> bool" where
  "edge_kinds_match RequirementKind DerivesFrom RequirementKind = True"
| "edge_kinds_match TestKind Verifies RequirementKind = True"
| "edge_kinds_match ReviewKind Reviews RequirementKind = True"
| "edge_kinds_match ReviewKind Supersedes ReviewKind = True"
| "edge_kinds_match SourceRevisionKind Supersedes SourceRevisionKind = True"
| "edge_kinds_match _ _ _ = False"

definition validate_edge :: "corpus_graph \<Rightarrow> node \<Rightarrow> edge_kind \<times> uid \<Rightarrow> corpus_error + unit" where
  "validate_edge G node edge =
    (case edge of (kind, target) \<Rightarrow>
      case cg_get G target of
        None \<Rightarrow>
          if kind_of_node node = ReviewKind \<and> kind = Reviews \<and> cg_source_patch G target \<noteq> None
          then Ok ()
          else Err (CE_DanglingEdge (node_uid node) target kind)
      | Some found \<Rightarrow>
          fail_if (\<not> edge_kinds_match (kind_of_node node) kind (kind_of_node found))
            (CE_InvalidEdgeKinds (node_uid node) target kind (kind_of_node node)
              (kind_of_node found)))"

definition validate_edges :: "corpus_graph \<Rightarrow> corpus_error + unit" where
  "validate_edges G = for_each (\<lambda>node. for_each (validate_edge G node) (node_edges node)) (cg_node_list G)"

section \<open>Review nodes\<close>

definition supported_review_content_schema :: u32 where
  "supported_review_content_schema = 1"

definition validate_review_node :: "corpus_graph \<Rightarrow> review_node \<Rightarrow> corpus_error review_error + unit" where
  "validate_review_node G review =
    (case map snd (filter (\<lambda>(kind, target). kind = Reviews) (rv_edges review)) of
       [] \<Rightarrow> Err (RE_ReviewMissingReviewsEdge (rv_uid review))
     | [edge_target] \<Rightarrow>
        rbind (fail_if (edge_target \<noteq> target_uid (rv_target review))
          (RE_ReviewTargetEdgeMismatch (rv_uid review) (target_uid (rv_target review)) edge_target)) (\<lambda>_.
        let resolves_to_patch = cg_source_patch G edge_target \<noteq> None;
            kind_coherent = (case rv_target review of
                RequirementTarget _ \<Rightarrow> \<not> resolves_to_patch \<and>
                  (case cg_get G edge_target of Some (Requirement _) \<Rightarrow> True | _ \<Rightarrow> False)
              | CuratedPatchTarget _ \<Rightarrow> resolves_to_patch)
        in rbind (fail_if (\<not> kind_coherent)
             (RE_ReviewTargetKindMismatch (rv_uid review)
               (target_kind_as_str (target_kind (rv_target review)))
               (if resolves_to_patch then ''a curated patch'' else ''a requirement node''))) (\<lambda>_.
           fail_if (rv_content_schema review \<noteq> supported_review_content_schema)
             (RE_ReviewContentSchema ''<graph>'' (rv_uid review) (rv_id review)
               (rv_content_schema review) supported_review_content_schema)))
     | targets \<Rightarrow> Err (RE_ReviewDuplicateReviewsEdge (rv_uid review) (length targets)))"

definition validate_review_nodes :: "corpus_graph \<Rightarrow> corpus_error review_error + unit" where
  "validate_review_nodes G = for_each (validate_review_node G) (cg_reviews G)"

section \<open>Invariants\<close>

text \<open>The representation invariant: the four maps keyed by their values' own uids, edges in
  canonical order, no human id twice within a kind.\<close>

definition cg_inv :: "corpus_graph \<Rightarrow> bool" where
  "cg_inv G \<longleftrightarrow> bwf (cg_nodes G) \<and> (\<forall>(u, n) \<in> set (cg_nodes G). node_uid n = u)
    \<and> bwf (cg_source_graphs G) \<and> (\<forall>(r, g) \<in> set (cg_source_graphs G). of_revision r g)
    \<and> bwf (cg_source_patches G) \<and> (\<forall>(u, p) \<in> set (cg_source_patches G). sp_uid p = u)"

definition edges_canonical :: "corpus_graph \<Rightarrow> bool" where
  "edges_canonical G \<longleftrightarrow> (\<forall>n \<in> set (cg_node_list G). sorted_wrt (<) (node_edges n))"

definition ids_unique :: "corpus_graph \<Rightarrow> bool" where
  "ids_unique G \<longleftrightarrow> (\<forall>m \<in> set (cg_node_list G). \<forall>n \<in> set (cg_node_list G).
     kind_of_node m = kind_of_node n \<and> node_id m = node_id n \<longrightarrow> m = n)"

definition patch_ids_unique :: "corpus_graph \<Rightarrow> bool" where
  "patch_ids_unique G \<longleftrightarrow> (\<forall>p \<in> set (bvals (cg_source_patches G)).
     \<forall>q \<in> set (bvals (cg_source_patches G)). sp_human_id p = sp_human_id q \<longrightarrow> p = q)"

definition cg_ok :: "corpus_graph \<Rightarrow> bool" where
  "cg_ok G \<longleftrightarrow> cg_inv G \<and> edges_canonical G \<and> ids_unique G \<and> patch_ids_unique G"

lemma cg_new_ok: "cg_ok cg_new"
  by (simp add: cg_ok_def cg_inv_def edges_canonical_def ids_unique_def patch_ids_unique_def
      cg_new_def cg_node_list_def bvals_def)

lemma cg_get_uid: "cg_inv G \<Longrightarrow> cg_get G u = Some n \<Longrightarrow> node_uid n = u"
  by (auto simp: cg_inv_def cg_get_def dest: bget_Some_in)

lemma cg_get_in: "cg_get G u = Some n \<Longrightarrow> n \<in> set (cg_node_list G)"
  by (simp add: cg_get_def cg_node_list_def bget_in_bvals)

lemma cg_nodes_iff_get:
  assumes G: "cg_inv G"
  shows "n \<in> set (cg_node_list G) \<longleftrightarrow> cg_get G (node_uid n) = Some n"
proof
  assume "n \<in> set (cg_node_list G)"
  then obtain u where u: "(u, n) \<in> set (cg_nodes G)" by (auto simp: cg_node_list_def bvals_def)
  then have "node_uid n = u" using G by (auto simp: cg_inv_def)
  with u G show "cg_get G (node_uid n) = Some n" by (simp add: cg_inv_def cg_get_def bget_iff_in)
qed (rule cg_get_in)

lemma cg_reviews_iff: "cg_inv G \<Longrightarrow> r \<in> set (cg_reviews G) \<longleftrightarrow> cg_get G (rv_uid r) = Some (Review r)"
proof -
  assume G: "cg_inv G"
  have "r \<in> set (cg_reviews G) \<longleftrightarrow> Review r \<in> set (cg_node_list G)"
    by (auto simp: cg_reviews_def List.map_filter_def elim!: as_review.elims intro!: image_eqI)
  with cg_nodes_iff_get [OF G, of "Review r"] show ?thesis by simp
qed

lemma cg_revisions_iff:
  "cg_inv G \<Longrightarrow> r \<in> set (cg_revisions G) \<longleftrightarrow> cg_get G (sr_uid r) = Some (SourceRevision r)"
proof -
  assume G: "cg_inv G"
  have "r \<in> set (cg_revisions G) \<longleftrightarrow> SourceRevision r \<in> set (cg_node_list G)"
    by (auto simp: cg_revisions_def List.map_filter_def elim!: as_revision.elims intro!: image_eqI)
  with cg_nodes_iff_get [OF G, of "SourceRevision r"] show ?thesis by simp
qed

lemma adjacent_duplicate_None: "adjacent_duplicate xs = None \<longleftrightarrow> distinct_adj xs"
  by (induction xs rule: adjacent_duplicate.induct) auto

lemma canonicalize_edges_Ok_iff:
  "canonicalize_edges n = Inr m \<longleftrightarrow> distinct (node_edges n) \<and> m = map_node_edges sort n"
proof -
  have "distinct_adj (sort es) \<longleftrightarrow> distinct es" for es :: edges
  proof
    assume "distinct_adj (sort es)"
    then have "sorted_wrt (<) (sort es)" by (intro sorted_distinct_adj) simp_all
    then show "distinct es" by (simp add: strict_sorted_iff)
  next
    assume "distinct es"
    then show "distinct_adj (sort es)"
      by (intro distinct_adj_strict) (simp add: strict_sorted_iff)
  qed
  then have "distinct (node_edges n) \<longleftrightarrow> adjacent_duplicate (sort (node_edges n)) = None"
    by (simp add: adjacent_duplicate_None)
  then show ?thesis
    by (cases "adjacent_duplicate (sort (node_edges n))") (auto simp: canonicalize_edges_def)
qed

lemma check_identity_Ok_iff:
  "check_identity_uniqueness ns n = Inr u \<longleftrightarrow> bget ns (node_uid n) = None \<and>
    (\<forall>m \<in> set (bvals ns). \<not> (kind_of_node m = kind_of_node n \<and> node_id m = node_id n))"
  by (auto simp: check_identity_uniqueness_def find_None_iff find_Some_iff split: option.splits)

lemma cg_insert_Ok_iff:
  "cg_insert G n = Inr H \<longleftrightarrow> cg_get G (node_uid n) = None \<and> distinct (node_edges n) \<and>
    (\<forall>m \<in> set (cg_node_list G). \<not> (kind_of_node m = kind_of_node n \<and> node_id m = node_id n)) \<and>
    H = G\<lparr>cg_nodes := bins (node_uid n) (map_node_edges sort n) (cg_nodes G)\<rparr>"
  by (auto simp: cg_insert_def rbind_Ok_iff check_identity_Ok_iff canonicalize_edges_Ok_iff
      cg_get_def cg_node_list_def)

lemma bins_keyed:
  assumes "bwf m" "\<forall>(u, x) \<in> set m. P u x" "P k v"
  shows "\<forall>(u, x) \<in> set (bins k v m). P u x"
proof -
  have "bwf (bins k v m)" using assms(1) by simp
  with assms show ?thesis by (auto simp: bget_iff_in [symmetric] split: if_splits)
qed

lemma cg_insert_nodes:
  assumes "cg_inv G" "cg_insert G n = Inr H"
  shows "cg_inv H" "set (cg_node_list H) = insert (map_node_edges sort n) (set (cg_node_list G))"
proof -
  let ?m = "map_node_edges sort n"
  from assms(2) have H: "H = G\<lparr>cg_nodes := bins (node_uid n) ?m (cg_nodes G)\<rparr>"
    and none: "cg_get G (node_uid n) = None" by (simp_all add: cg_insert_Ok_iff)
  show inv: "cg_inv H"
    using assms(1) bins_keyed [of "cg_nodes G" "\<lambda>u n. node_uid n = u" "node_uid n" ?m]
    by (simp add: cg_inv_def H)
  have "x \<in> set (cg_node_list H) \<longleftrightarrow> x = ?m \<or> x \<in> set (cg_node_list G)" for x
    using none unfolding cg_nodes_iff_get [OF inv] cg_nodes_iff_get [OF assms(1)]
    by (auto simp: H cg_get_def split: if_splits)
  then show "set (cg_node_list H) = insert ?m (set (cg_node_list G))" by blast
qed

lemma cg_insert_ok:
  assumes G: "cg_ok G" and ins: "cg_insert G n = Inr H"
  shows "cg_ok H"
proof -
  note nodes = cg_insert_nodes [OF _ ins]
  have inv: "cg_inv G" using G by (simp add: cg_ok_def)
  from ins have d: "distinct (node_edges n)"
    and fresh: "\<And>m. m \<in> set (cg_node_list G) \<Longrightarrow>
        \<not> (kind_of_node m = kind_of_node n \<and> node_id m = node_id n)"
    and H: "cg_source_patches H = cg_source_patches G" by (auto simp: cg_insert_Ok_iff)
  have "sorted_wrt (<) (node_edges (map_node_edges sort n))" using d by (simp add: strict_sorted_iff)
  then have "edges_canonical H"
    using G by (auto simp: edges_canonical_def nodes(2) [OF inv] cg_ok_def)
  moreover have "ids_unique H"
    using G fresh by (auto simp: ids_unique_def nodes(2) [OF inv] cg_ok_def) metis+
  moreover have "patch_ids_unique H" using G by (simp add: patch_ids_unique_def H cg_ok_def)
  ultimately show ?thesis using nodes(1) [OF inv] by (simp add: cg_ok_def)
qed


lemma insert_source_patch_Ok_iff:
  "insert_source_patch G p = Inr H \<longleftrightarrow> cg_source_patch G (sp_uid p) = None \<and>
    (\<forall>q \<in> set (bvals (cg_source_patches G)). sp_human_id q \<noteq> sp_human_id p) \<and>
    H = G\<lparr>cg_source_patches := bins (sp_uid p) p (cg_source_patches G)\<rparr>"
  by (auto simp: insert_source_patch_def cg_source_patch_def find_None_iff find_Some_iff
      split: option.splits)

lemma bvals_bins:
  assumes "bwf m" "bget m k = None"
  shows "set (bvals (bins k v m)) = insert v (set (bvals m))"
proof -
  have "(j, x) \<in> set (bins k v m) \<longleftrightarrow> (j, x) = (k, v) \<or> (j, x) \<in> set m" for j x
    using assms bwf_bins [OF assms(1), of k v] by (auto simp: bget_iff_in [symmetric] split: if_splits)
  then have "set (bins k v m) = insert (k, v) (set m)" by auto
  then show ?thesis by (simp add: bvals_def)
qed

lemma insert_source_patch_ok:
  assumes G: "cg_ok G" and ins: "insert_source_patch G p = Inr H"
  shows "cg_ok H"
proof -
  from ins have fresh: "cg_source_patch G (sp_uid p) = None"
    "\<And>q. q \<in> set (bvals (cg_source_patches G)) \<Longrightarrow> sp_human_id q \<noteq> sp_human_id p"
    and H: "H = G\<lparr>cg_source_patches := bins (sp_uid p) p (cg_source_patches G)\<rparr>"
    by (auto simp: insert_source_patch_Ok_iff)
  have wf: "bwf (cg_source_patches G)" using G by (simp add: cg_ok_def cg_inv_def)
  have vals: "set (bvals (cg_source_patches H)) = insert p (set (bvals (cg_source_patches G)))"
    using bvals_bins [OF wf] fresh(1) by (simp add: H cg_source_patch_def)
  have "patch_ids_unique H"
    using G fresh(2) unfolding patch_ids_unique_def vals by (auto simp: cg_ok_def patch_ids_unique_def) metis
  moreover have "cg_inv H"
    using G bins_keyed [OF wf, of "\<lambda>u p. sp_uid p = u" "sp_uid p" p]
    by (simp add: H cg_ok_def cg_inv_def)
  moreover have "cg_node_list H = cg_node_list G" by (simp add: H cg_node_list_def)
  ultimately show ?thesis
    using G by (simp add: cg_ok_def edges_canonical_def ids_unique_def)
qed

lemma insert_source_node_ok:
  assumes G: "cg_ok G" and ins: "insert_source_node G n = Inr H"
  shows "cg_ok H"
proof -
  let ?r = "sn_source_revision_uid n"
  define g where "g = (case bget (cg_source_graphs G) ?r of None \<Rightarrow> sg_new | Some g \<Rightarrow> g)"
  from ins obtain g' where g': "sg_insert g n = Inr g'"
    "H = G\<lparr>cg_source_graphs := bins ?r g' (cg_source_graphs G)\<rparr>"
    by (auto simp: insert_source_node_def Let_def rbind_Ok_iff g_def)
  have inv: "cg_inv G" using G by (simp add: cg_ok_def)
  have "of_revision ?r g"
  proof (cases "bget (cg_source_graphs G) ?r")
    case None
    then show ?thesis using sg_inv_new by (simp add: g_def of_revision_def sg_get_def) (simp add: sg_new_def)
  next
    case (Some h)
    with inv show ?thesis by (auto simp: g_def cg_inv_def dest: bget_Some_in)
  qed
  then have "of_revision ?r g'"
    using sg_insert_inv [OF _ g'(1)] sg_insert_get [OF g'(1)] by (auto simp: of_revision_def)
  then have "cg_inv H"
    using inv bins_keyed [of "cg_source_graphs G" of_revision ?r g'] by (simp add: cg_inv_def g'(2))
  moreover have "cg_node_list H = cg_node_list G" by (simp add: g'(2) cg_node_list_def)
  ultimately show ?thesis
    using G by (simp add: cg_ok_def edges_canonical_def ids_unique_def patch_ids_unique_def g'(2))
qed

section \<open>What the edge and review checks establish\<close>

definition edge_resolves :: "corpus_graph \<Rightarrow> node \<Rightarrow> edge_kind \<times> uid \<Rightarrow> bool" where
  "edge_resolves G n e \<longleftrightarrow> (case cg_get G (snd e) of
       None \<Rightarrow> kind_of_node n = ReviewKind \<and> fst e = Reviews \<and> cg_source_patch G (snd e) \<noteq> None
     | Some m \<Rightarrow> edge_kinds_match (kind_of_node n) (fst e) (kind_of_node m))"

definition edges_resolve :: "corpus_graph \<Rightarrow> bool" where
  "edges_resolve G \<longleftrightarrow> (\<forall>n \<in> set (cg_node_list G). \<forall>e \<in> set (node_edges n). edge_resolves G n e)"

lemma validate_edge_Ok_iff: "validate_edge G n e = Inr () \<longleftrightarrow> edge_resolves G n e"
proof (cases "cg_get G (snd e)")
  case None
  then show ?thesis by (auto simp: validate_edge_def edge_resolves_def split_beta)
next
  case (Some m)
  then show ?thesis by (simp add: validate_edge_def edge_resolves_def split_beta fail_if_Ok_iff)
qed

lemma validate_edges_Ok_iff: "validate_edges G = Inr () \<longleftrightarrow> edges_resolve G"
  by (simp add: validate_edges_def for_each_Ok_iff validate_edge_Ok_iff edges_resolve_def)

definition review_coherent :: "corpus_graph \<Rightarrow> review_node \<Rightarrow> bool" where
  "review_coherent G r \<longleftrightarrow>
    filter (\<lambda>(kind, target). kind = Reviews) (rv_edges r) = [(Reviews, target_uid (rv_target r))]
    \<and> (case rv_target r of
         RequirementTarget u \<Rightarrow> cg_source_patch G u = None \<and> (\<exists>q. cg_get G u = Some (Requirement q))
       | CuratedPatchTarget u \<Rightarrow> cg_source_patch G u \<noteq> None)
    \<and> rv_content_schema r = supported_review_content_schema"

lemma filter_Reviews_map:
  "map snd (filter (\<lambda>(kind, target). kind = Reviews) es) = ts \<longleftrightarrow>
    filter (\<lambda>(kind, target). kind = Reviews) es = map (Pair Reviews) ts"
proof -
  have "map (Pair Reviews) (map snd (filter (\<lambda>(kind, target). kind = Reviews) es))
      = filter (\<lambda>(kind, target). kind = Reviews) es"
    by (induction es) auto
  then show ?thesis by (metis comp_apply list.map_comp map_idI snd_conv)
qed

lemma validate_review_node_Ok_iff: "validate_review_node G r = Inr () \<longleftrightarrow> review_coherent G r"
proof (cases "map snd (filter (\<lambda>(kind, target). kind = Reviews) (rv_edges r))")
  case Nil
  then show ?thesis by (simp add: validate_review_node_def review_coherent_def)
next
  case (Cons t ts)
  show ?thesis
  proof (cases ts)
    case Nil
    with Cons have one: "filter (\<lambda>(kind, target). kind = Reviews) (rv_edges r) = [(Reviews, t)]"
      by (simp add: filter_Reviews_map)
    show ?thesis
      unfolding validate_review_node_def review_coherent_def one
      by (cases "rv_target r")
        (auto simp: loop_simps Let_def split: option.splits node.splits)
  next
    case more: (Cons u us)
    with Cons show ?thesis
      by (simp add: validate_review_node_def review_coherent_def filter_Reviews_map)
  qed
qed

lemma validate_review_nodes_Ok_iff:
  "validate_review_nodes G = Inr () \<longleftrightarrow> (\<forall>r \<in> set (cg_reviews G). review_coherent G r)"
  by (simp add: validate_review_nodes_def for_each_Ok_iff validate_review_node_Ok_iff)

end
