(* ===== verification/Supersession.thy ===== *)
theory Supersession
  imports Corpus_Graph
begin

text \<open>
  The chain checks that review supersession (\<^verbatim>\<open>corpus/graph/supersession.rs\<close>) and source
  lineage (\<^verbatim>\<open>corpus/source/lineage.rs\<close>) share: \<^verbatim>\<open>reject_forks\<close> over the incoming links and
  the depth-first \<^verbatim>\<open>reject_cycles\<close> over the outgoing ones. The two Rust modules repeat the
  code with their own error constructors, which are parameters here. \<open>links\<close> is the projection
  of the node map to the \<^verbatim>\<open>Supersedes\<close> targets of the nodes of one kind. The cycle check is
  shown to decide acyclicity when no node has two outgoing links, which both validators have
  checked by then.
\<close>

section \<open>The checks\<close>

definition reject_forks ::
  "(uid \<Rightarrow> uid \<Rightarrow> uid \<Rightarrow> 'e) \<Rightarrow> (uid, uid list) bmap \<Rightarrow> 'e + unit" where
  "reject_forks fork superseded_by =
    for_each (\<lambda>(predecessor, successors).
      case successors of first # second # _ \<Rightarrow> Err (fork predecessor first second) | _ \<Rightarrow> Ok ())
      superseded_by"

definition targets_of :: "(uid, uid list) bmap \<Rightarrow> uid \<Rightarrow> uid list" where
  "targets_of links u = (case bget links u of None \<Rightarrow> [] | Some ts \<Rightarrow> ts)"

text \<open>
  The inner loop: \<open>frontier\<close> is the stack with its top first, \<open>path\<close> the uids visited in this
  walk, \<open>done\<close> those of earlier walks. It stops with the revisited uid, or with the path.
\<close>

function chain_walk ::
  "(uid, uid list) bmap \<Rightarrow> uid list \<Rightarrow> uid list \<Rightarrow> uid list \<Rightarrow> uid + uid list" where
  "chain_walk links visited path [] = Inr path"
| "chain_walk links visited path (current # frontier) =
    (if current \<in> set path then Inl current
     else if current \<in> set visited then chain_walk links visited path frontier
     else chain_walk links visited (path @ [current]) (rev (targets_of links current) @ frontier))"
  by pat_completeness auto
termination
proof (relation "measures [\<lambda>(links, visited, path, frontier).
    card ((set (concat (bvals links)) \<union> set frontier) - set path),
    \<lambda>(links, visited, path, frontier). length frontier]")
  fix links :: "(uid, uid list) bmap" and visited path frontier :: "uid list" and current
  assume new: "current \<notin> set path"
  let ?all = "set (concat (bvals links))"
  have "set (targets_of links current) \<subseteq> ?all"
    by (cases "bget links current") (auto simp: targets_of_def dest: bget_in_bvals)
  with new have "(?all \<union> set (rev (targets_of links current) @ frontier)) - set (path @ [current])
      \<subset> (?all \<union> set (current # frontier)) - set path" by auto
  then have "card ((?all \<union> set (rev (targets_of links current) @ frontier)) - set (path @ [current]))
      < card ((?all \<union> set (current # frontier)) - set path)"
    by (intro psubset_card_mono) simp_all
  then show "((links, visited, path @ [current], rev (targets_of links current) @ frontier),
      links, visited, path, current # frontier)
    \<in> measures [\<lambda>(links, visited, path, frontier).
        card ((set (concat (bvals links)) \<union> set frontier) - set path),
        \<lambda>(links, visited, path, frontier). length frontier]" by simp
next
  fix links :: "(uid, uid list) bmap" and visited path frontier :: "uid list" and current
  have "card ((set (concat (bvals links)) \<union> set frontier) - set path)
      \<le> card ((set (concat (bvals links)) \<union> set (current # frontier)) - set path)"
    by (intro card_mono) auto
  then show "((links, visited, path, frontier), links, visited, path, current # frontier)
    \<in> measures [\<lambda>(links, visited, path, frontier).
        card ((set (concat (bvals links)) \<union> set frontier) - set path),
        \<lambda>(links, visited, path, frontier). length frontier]" by auto
qed simp

fun reject_cycles ::
  "(uid \<Rightarrow> 'e) \<Rightarrow> (uid, uid list) bmap \<Rightarrow> uid list \<Rightarrow> uid list \<Rightarrow> 'e + unit" where
  "reject_cycles cyc links visited [] = Ok ()"
| "reject_cycles cyc links visited (u # us) =
    (if u \<in> set visited then reject_cycles cyc links visited us
     else case chain_walk links visited [] [u] of
       Inl v \<Rightarrow> Err (cyc v)
     | Inr path \<Rightarrow> reject_cycles cyc links (path @ visited) us)"

section \<open>What the cycle check decides\<close>

definition link_rel :: "(uid, uid list) bmap \<Rightarrow> (uid \<times> uid) set" where
  "link_rel links = {(u, v). v \<in> set (targets_of links u)}"

definition cycle_free :: "(uid \<times> uid) set \<Rightarrow> uid \<Rightarrow> bool" where
  "cycle_free r u \<longleftrightarrow> (\<forall>c. (u, c) \<in> r\<^sup>* \<longrightarrow> (c, c) \<notin> r\<^sup>+)"

lemma cycle_freeI: "(\<And>v. (u, v) \<in> r \<Longrightarrow> cycle_free r v) \<Longrightarrow> cycle_free r u"
proof -
  assume succ: "\<And>v. (u, v) \<in> r \<Longrightarrow> cycle_free r v"
  have "(c, c) \<notin> r\<^sup>+" if "(u, c) \<in> r\<^sup>*" for c
    using that
  proof (cases rule: converse_rtranclE)
    case base
    show ?thesis
    proof
      assume "(c, c) \<in> r\<^sup>+"
      then obtain v where v: "(c, v) \<in> r" "(v, c) \<in> r\<^sup>*" by (metis tranclD)
      with succ base have "cycle_free r v" by simp
      with v(2) \<open>(c, c) \<in> r\<^sup>+\<close> show False by (auto simp: cycle_free_def)
    qed
  next
    case (step v)
    with succ show ?thesis by (auto simp: cycle_free_def)
  qed
  then show ?thesis by (simp add: cycle_free_def)
qed

lemma chain_walk_cycle_free:
  "chain_walk links visited path frontier = Inr path' \<Longrightarrow>
    \<forall>d \<in> set visited. cycle_free (link_rel links) d \<Longrightarrow>
    (\<forall>f \<in> set frontier. cycle_free (link_rel links) f) \<and>
    (\<exists>ext. path' = path @ ext \<and> (\<forall>e \<in> set ext. cycle_free (link_rel links) e))"
proof (induction links visited path frontier rule: chain_walk.induct)
  case (1 links visited path)
  then show ?case by simp
next
  case (2 links visited path current frontier)
  show ?case
  proof (cases "current \<in> set path")
    case True
    with "2.prems" show ?thesis by simp
  next
    case new: False
    show ?thesis
    proof (cases "current \<in> set visited")
      case True
      with 2 new show ?thesis by simp
    next
      case False
      have "chain_walk links visited (path @ [current]) (rev (targets_of links current) @ frontier)
          = Inr path'" using "2.prems"(1) new False by simp
      from "2.IH"(2) [OF new False this "2.prems"(2)] obtain ext where IH:
        "\<forall>f \<in> set (rev (targets_of links current) @ frontier). cycle_free (link_rel links) f"
        "path' = (path @ [current]) @ ext" "\<forall>e \<in> set ext. cycle_free (link_rel links) e" by blast
      have "cycle_free (link_rel links) current"
        by (rule cycle_freeI) (use IH(1) in \<open>auto simp: link_rel_def\<close>)
      with IH show ?thesis by (intro conjI exI [of _ "current # ext"]) simp_all
    qed
  qed
qed

lemma reject_cycles_cycle_free:
  "reject_cycles cyc links visited us = Inr () \<Longrightarrow>
    \<forall>d \<in> set visited. cycle_free (link_rel links) d \<Longrightarrow>
    \<forall>u \<in> set us. cycle_free (link_rel links) u"
proof (induction cyc links visited us rule: reject_cycles.induct)
  case (1 cyc links visited)
  then show ?case by simp
next
  case (2 cyc links visited u us)
  show ?case
  proof (cases "u \<in> set visited")
    case True
    with 2 show ?thesis by simp
  next
    case False
    with "2.prems"(1) obtain path where p: "chain_walk links visited [] [u] = Inr path"
      "reject_cycles cyc links (path @ visited) us = Inr ()" by (auto split: sum.splits)
    from chain_walk_cycle_free [OF p(1) "2.prems"(2)]
    have good: "cycle_free (link_rel links) u" "\<forall>e \<in> set path. cycle_free (link_rel links) e" by auto
    with "2.IH"(2) [OF False p] "2.prems"(2) show ?thesis by auto
  qed
qed

text \<open>With at most one outgoing link per node, a walk that stops has found a cycle: the path is
  one chain, and its last link leads to the revisited uid.\<close>

definition single_links :: "(uid, uid list) bmap \<Rightarrow> bool" where
  "single_links links \<longleftrightarrow> (\<forall>u. length (targets_of links u) \<le> 1)"

fun is_chain :: "(uid \<times> uid) set \<Rightarrow> uid list \<Rightarrow> bool" where
  "is_chain r (u # v # vs) = ((u, v) \<in> r \<and> is_chain r (v # vs))"
| "is_chain r _ = True"

lemma is_chain_append: "is_chain r (us @ [v]) \<Longrightarrow> (v, w) \<in> r \<Longrightarrow> is_chain r (us @ [v, w])"
  by (induction us rule: induct_list012) auto

lemma is_chain_reaches: "is_chain r (u # us @ [w]) \<Longrightarrow> (u, w) \<in> r\<^sup>+"
  by (induction us arbitrary: u) (auto intro: trancl_into_trancl2)

lemma is_chain_suffix: "is_chain r (us @ vs) \<Longrightarrow> is_chain r vs"
  by (induction us rule: induct_list012) (auto, cases vs, auto)

lemma chain_walk_finds_cycle:
  "chain_walk links visited path frontier = Inl c \<Longrightarrow> single_links links \<Longrightarrow>
    length frontier \<le> 1 \<Longrightarrow> is_chain (link_rel links) (path @ frontier) \<Longrightarrow>
    (c, c) \<in> (link_rel links)\<^sup>+"
proof (induction links visited path frontier rule: chain_walk.induct)
  case (1 links visited path)
  then show ?case by simp
next
  case (2 links visited path current frontier)
  then have f: "frontier = []" by (cases frontier) auto
  show ?case
  proof (cases "current \<in> set path")
    case True
    then obtain us vs where p: "path = us @ current # vs" by (meson split_list)
    with "2.prems" True f have c: "c = current" "is_chain (link_rel links) (us @ current # vs @ [current])"
      by simp_all
    from is_chain_reaches [OF is_chain_suffix [OF c(2)]] show ?thesis by (simp add: c(1))
  next
    case new: False
    have not_visited: "current \<notin> set visited" using "2.prems"(1) new f by auto
    have one: "length (targets_of links current) \<le> 1"
      using "2.prems"(2) by (simp add: single_links_def)
    show ?thesis
    proof (rule "2.IH"(2) [OF new not_visited])
      show "chain_walk links visited (path @ [current]) (rev (targets_of links current) @ frontier)
          = Inl c" using "2.prems"(1) new not_visited by simp
      show "is_chain (link_rel links)
          ((path @ [current]) @ rev (targets_of links current) @ frontier)"
        using "2.prems"(4) one f is_chain_append [of "link_rel links" path current]
        by (cases "targets_of links current") (auto simp: link_rel_def)
    qed (use one f "2.prems"(2) in simp_all)
  qed
qed

lemma reject_cycles_acyclic:
  "single_links links \<Longrightarrow> acyclic (link_rel links) \<Longrightarrow> reject_cycles cyc links visited us = Inr ()"
proof (induction us arbitrary: visited)
  case Nil
  then show ?case by simp
next
  case (Cons u us)
  have "chain_walk links visited [] [u] \<noteq> Inl c" for c
    using chain_walk_finds_cycle [of links visited "[]" "[u]" c] Cons.prems
    by (auto simp: acyclic_def simp del: chain_walk.simps)
  then obtain path where "chain_walk links visited [] [u] = Inr path"
    by (cases "chain_walk links visited [] [u]") auto
  with Cons show ?case by (simp del: chain_walk.simps)
qed

lemma reject_cycles_iff:
  assumes "single_links links" "\<And>u. targets_of links u \<noteq> [] \<Longrightarrow> u \<in> set us"
  shows "reject_cycles cyc links [] us = Inr () \<longleftrightarrow> acyclic (link_rel links)"
proof
  assume "reject_cycles cyc links [] us = Inr ()"
  then have good: "\<forall>u \<in> set us. cycle_free (link_rel links) u"
    by (rule reject_cycles_cycle_free) simp
  have "(c, c) \<notin> (link_rel links)\<^sup>+" for c
  proof
    assume c: "(c, c) \<in> (link_rel links)\<^sup>+"
    then obtain v where "(c, v) \<in> link_rel links" by (metis tranclD)
    then have "targets_of links c \<noteq> []" by (auto simp: link_rel_def)
    with assms(2) good c show False by (auto simp: cycle_free_def)
  qed
  then show "acyclic (link_rel links)" by (simp add: acyclic_def)
qed (use assms in \<open>auto intro: reject_cycles_acyclic\<close>)

lemma reject_forks_Ok_iff:
  "reject_forks fork m = Inr () \<longleftrightarrow> (\<forall>(p, ss) \<in> set m. length ss \<le> 1)"
  by (auto simp: reject_forks_def for_each_Ok_iff split: list.splits)
    (auto simp: neq_Nil_conv length_Suc_conv dest!: le_Suc_eq [THEN iffD1])

section \<open>Chains\<close>

text \<open>A finite link relation with at most one link out of and into each node and no cycle: the
  nodes fall into disjoint chains, and from each node one follows the incoming links to exactly
  one head.\<close>

definition chain_rel :: "(uid \<times> uid) set \<Rightarrow> bool" where
  "chain_rel r \<longleftrightarrow> finite r \<and> acyclic r \<and> single_valued r \<and> single_valued (r\<inverse>)"

definition heads_of :: "(uid \<times> uid) set \<Rightarrow> uid \<Rightarrow> uid set" where
  "heads_of r u = {h. (h, u) \<in> r\<^sup>* \<and> h \<notin> Range r}"

lemma chain_rel_head_exists:
  assumes "chain_rel r" shows "\<exists>h. h \<in> heads_of r u"
proof -
  have "wf r" using assms by (simp add: chain_rel_def finite_acyclic_wf)
  then show ?thesis
  proof (induction u rule: wf_induct_rule)
    case (less u)
    show ?case
    proof (cases "u \<in> Range r")
      case False
      then show ?thesis by (auto simp: heads_of_def)
    next
      case True
      then obtain v where "(v, u) \<in> r" by auto
      with less.IH obtain h where "h \<in> heads_of r v" by blast
      with \<open>(v, u) \<in> r\<close> show ?thesis by (auto simp: heads_of_def intro: rtrancl_into_rtrancl)
    qed
  qed
qed

lemma chain_rel_head_unique:
  assumes r: "chain_rel r" and "h \<in> heads_of r u" "k \<in> heads_of r u"
  shows "h = k"
proof -
  have inv: "(u, h) \<in> (r\<inverse>)\<^sup>*" "(u, k) \<in> (r\<inverse>)\<^sup>*"
    using assms(2,3) by (auto simp: heads_of_def rtrancl_converse)
  have "(h, k) \<in> (r\<inverse>)\<^sup>* \<or> (k, h) \<in> (r\<inverse>)\<^sup>*"
    using r inv by (intro single_valued_confluent) (auto simp: chain_rel_def)
  then show ?thesis
  proof
    assume "(h, k) \<in> (r\<inverse>)\<^sup>*"
    then show ?thesis
      using assms(2) by (cases rule: converse_rtranclE) (auto simp: heads_of_def)
  next
    assume "(k, h) \<in> (r\<inverse>)\<^sup>*"
    then show ?thesis
      using assms(3) by (cases rule: converse_rtranclE) (auto simp: heads_of_def)
  qed
qed

lemma chain_rel_head: "chain_rel r \<Longrightarrow> \<exists>!h. h \<in> heads_of r u"
  using chain_rel_head_exists chain_rel_head_unique by blast

section \<open>One validator for both planes\<close>

text \<open>
  The common part of \<^verbatim>\<open>validate_review_supersession\<close> and \<^verbatim>\<open>validate_source_lineage\<close>: per node at
  most one \<^verbatim>\<open>Supersedes\<close> edge, per edge the self check and the plane's own agreement check
  against the resolved predecessor (an unresolved one is skipped), collecting
  \<^verbatim>\<open>superseded_by\<close>, then the fork and the cycle check.
\<close>

record ('n, 'e) plane =
  pl_uid :: "'n \<Rightarrow> uid"
  pl_edges :: "'n \<Rightarrow> edges"
  pl_agree :: "'n \<Rightarrow> 'n \<Rightarrow> 'e + unit"
  pl_duplicate :: "uid \<Rightarrow> nat \<Rightarrow> 'e"
  pl_self :: "uid \<Rightarrow> 'e"
  pl_fork :: "uid \<Rightarrow> uid \<Rightarrow> uid \<Rightarrow> 'e"
  pl_cycle :: "uid \<Rightarrow> 'e"

definition link_step ::
  "('n, 'e) plane \<Rightarrow> (uid \<Rightarrow> 'n option) \<Rightarrow> 'n \<Rightarrow> (uid, uid list) bmap \<Rightarrow> edge_kind \<times> uid
    \<Rightarrow> 'e + (uid, uid list) bmap" where
  "link_step L lookup n superseded_by edge =
    (case edge of (kind, target) \<Rightarrow>
      if kind \<noteq> Supersedes then Ok superseded_by
      else if target = pl_uid L n then Err (pl_self L (pl_uid L n))
      else case lookup target of
        None \<Rightarrow> Ok superseded_by
      | Some predecessor \<Rightarrow>
          rbind (pl_agree L n predecessor) (\<lambda>_.
          Ok (bpush (pl_uid L predecessor) (pl_uid L n) superseded_by)))"

definition node_step ::
  "('n, 'e) plane \<Rightarrow> (uid \<Rightarrow> 'n option) \<Rightarrow> (uid, uid list) bmap \<Rightarrow> 'n \<Rightarrow> 'e + (uid, uid list) bmap" where
  "node_step L lookup superseded_by n =
    (let count = length (supersedes_targets (pl_edges L n)) in
     rbind (fail_if (1 < count) (pl_duplicate L (pl_uid L n) count)) (\<lambda>_.
     fold_res (link_step L lookup n) superseded_by (pl_edges L n)))"

definition plane_links :: "('n, 'e) plane \<Rightarrow> 'n list \<Rightarrow> (uid, uid list) bmap" where
  "plane_links L nodes = map (\<lambda>n. (pl_uid L n, supersedes_targets (pl_edges L n))) nodes"

definition validate_chains ::
  "('n, 'e) plane \<Rightarrow> (uid \<Rightarrow> 'n option) \<Rightarrow> 'n list \<Rightarrow> 'e + unit" where
  "validate_chains L lookup nodes =
    rbind (fold_res (node_step L lookup) [] nodes) (\<lambda>superseded_by.
    rbind (reject_forks (pl_fork L) superseded_by) (\<lambda>_.
    reject_cycles (pl_cycle L) (plane_links L nodes) [] (map (pl_uid L) nodes)))"

text \<open>What one node must satisfy, and the links it contributes.\<close>

definition node_links_ok :: "('n, 'e) plane \<Rightarrow> (uid \<Rightarrow> 'n option) \<Rightarrow> 'n \<Rightarrow> bool" where
  "node_links_ok L lookup n \<longleftrightarrow> length (supersedes_targets (pl_edges L n)) \<le> 1 \<and>
    (\<forall>t \<in> set (supersedes_targets (pl_edges L n)). t \<noteq> pl_uid L n \<and>
      (\<forall>p. lookup t = Some p \<longrightarrow> pl_agree L n p = Inr ()))"

definition resolved_links :: "('n, 'e) plane \<Rightarrow> (uid \<Rightarrow> 'n option) \<Rightarrow> 'n \<Rightarrow> (uid \<times> uid) list" where
  "resolved_links L lookup n = concat (map (\<lambda>t. case lookup t of None \<Rightarrow> []
     | Some p \<Rightarrow> [(pl_uid L p, pl_uid L n)]) (supersedes_targets (pl_edges L n)))"

definition push_links :: "(uid \<times> uid) list \<Rightarrow> (uid, uid list) bmap \<Rightarrow> (uid, uid list) bmap" where
  "push_links ps m = fold (\<lambda>e. bpush (fst e) (snd e)) ps m"

lemma push_links_append: "push_links (ps @ qs) m = push_links qs (push_links ps m)"
  by (simp add: push_links_def)

lemma supersedes_targets_Cons:
  "supersedes_targets ((k, t) # es) =
    (if k = Supersedes then t # supersedes_targets es else supersedes_targets es)"
  by (simp add: supersedes_targets_def)

lemma link_step_pair:
  "link_step L lookup n acc (k, t) =
    (if k \<noteq> Supersedes then Ok acc
     else if t = pl_uid L n then Err (pl_self L (pl_uid L n))
     else case lookup t of None \<Rightarrow> Ok acc
       | Some p \<Rightarrow> rbind (pl_agree L n p) (\<lambda>_. Ok (push_links [(pl_uid L p, pl_uid L n)] acc)))"
  by (cases "lookup t") (simp_all add: link_step_def push_links_def)

lemma fold_link_step:
  "fold_res (link_step L lookup n) acc es = Inr acc' \<longleftrightarrow>
    (\<forall>t \<in> set (supersedes_targets es). t \<noteq> pl_uid L n \<and>
      (\<forall>p. lookup t = Some p \<longrightarrow> pl_agree L n p = Inr ())) \<and>
    acc' = push_links (concat (map (\<lambda>t. case lookup t of None \<Rightarrow> []
      | Some p \<Rightarrow> [(pl_uid L p, pl_uid L n)]) (supersedes_targets es))) acc"
proof (induction es arbitrary: acc)
  case Nil
  then show ?case by (auto simp: supersedes_targets_def push_links_def)
next
  case (Cons e es)
  obtain k t where e: "e = (k, t)" by (cases e)
  show ?case
  proof (cases "k = Supersedes")
    case False
    then show ?thesis
      by (simp only: e fold_res.simps link_step_pair supersedes_targets_Cons if_False if_True
          not_False_eq_True sum.case Cons.IH)
  next
    case k: True
    have T: "supersedes_targets (e # es) = t # supersedes_targets es"
      by (simp add: e supersedes_targets_Cons k)
    show ?thesis
    proof (cases "t = pl_uid L n")
      case True
      then show ?thesis unfolding T by (simp add: e link_step_pair k)
    next
      case t: False
      show ?thesis
      proof (cases "lookup t")
        case None
        then have "link_step L lookup n acc e = Inr acc" by (simp add: e link_step_pair k t)
        then show ?thesis unfolding T by (simp add: Cons.IH None t)
      next
        case (Some p)
        show ?thesis
        proof (cases "pl_agree L n p")
          case (Inl err)
          then have "link_step L lookup n acc e = Inl err"
            by (simp add: e link_step_pair k t Some)
          then show ?thesis unfolding T by (simp add: Some t Inl)
        next
          case (Inr u)
          then have "link_step L lookup n acc e = Inr (push_links [(pl_uid L p, pl_uid L n)] acc)"
            by (simp add: e link_step_pair k t Some)
          then show ?thesis unfolding T
            by (simp add: Cons.IH Some t Inr push_links_append [symmetric])
        qed
      qed
    qed
  qed
qed

lemma fold_node_step:
  "fold_res (node_step L lookup) acc ns = Inr acc' \<longleftrightarrow>
    (\<forall>n \<in> set ns. node_links_ok L lookup n) \<and>
    acc' = push_links (concat (map (resolved_links L lookup) ns)) acc"
proof (induction ns arbitrary: acc)
  case Nil
  then show ?case by (auto simp: push_links_def)
next
  case (Cons n ns)
  have step: "node_step L lookup acc n = Inr s \<longleftrightarrow> node_links_ok L lookup n \<and>
      s = push_links (resolved_links L lookup n) acc" for s
    by (auto simp: node_step_def Let_def rbind_Ok_iff fail_if_Ok_iff fold_link_step
        node_links_ok_def resolved_links_def)
  show ?case
  proof (cases "node_step L lookup acc n")
    case (Inl e)
    then have "\<not> node_links_ok L lookup n" using step by fastforce
    with Inl show ?thesis by simp
  next
    case (Inr s)
    then have s: "node_links_ok L lookup n" "s = push_links (resolved_links L lookup n) acc"
      using step by blast+
    from Inr have "fold_res (node_step L lookup) acc (n # ns) = Inr acc' \<longleftrightarrow>
        fold_res (node_step L lookup) s ns = Inr acc'" by simp
    then show ?thesis unfolding Cons.IH by (simp add: s push_links_append)
  qed
qed

lemma push_links_forks:
  "reject_forks fork (push_links ps []) = Inr () \<longleftrightarrow>
    (\<forall>p. length (filter (\<lambda>e. fst e = p) ps) \<le> 1)"
proof -
  have wf: "bwf (push_links ps [])" by (simp add: push_links_def bwf_fold_bpush)
  have get: "bget (push_links ps []) p = (if \<exists>e \<in> set ps. fst e = p
      then Some (map snd (filter (\<lambda>e. fst e = p) ps)) else None)" for p
    by (simp add: push_links_def bget_fold_bpush)
  have "(\<forall>(p, ss) \<in> set (push_links ps []). length ss \<le> 1) \<longleftrightarrow>
      (\<forall>p ss. bget (push_links ps []) p = Some ss \<longrightarrow> length ss \<le> 1)"
    by (auto simp: bget_iff_in [OF wf])
  also have "\<dots> \<longleftrightarrow> (\<forall>p. length (filter (\<lambda>e. fst e = p) ps) \<le> 1)"
  proof -
    have "(\<forall>ss. bget (push_links ps []) p = Some ss \<longrightarrow> length ss \<le> 1) \<longleftrightarrow>
        length (filter (\<lambda>e. fst e = p) ps) \<le> 1" for p
    proof (cases "\<exists>e \<in> set ps. fst e = p")
      case True
      then show ?thesis by (simp add: get)
    next
      case False
      then have "filter (\<lambda>e. fst e = p) ps = []" by (auto simp: filter_empty_conv)
      with False show ?thesis by (simp add: get)
    qed
    then show ?thesis by blast
  qed
  finally show ?thesis by (simp add: reject_forks_Ok_iff)
qed

section \<open>The links of a plane\<close>

definition plane_rel :: "('n, 'e) plane \<Rightarrow> 'n list \<Rightarrow> (uid \<times> uid) set" where
  "plane_rel L nodes = link_rel (plane_links L nodes)"

text \<open>Every target is a node of the plane: what edge validation has established before.\<close>

definition links_resolved :: "('n, 'e) plane \<Rightarrow> (uid \<Rightarrow> 'n option) \<Rightarrow> 'n list \<Rightarrow> bool" where
  "links_resolved L lookup nodes \<longleftrightarrow>
    (\<forall>n \<in> set nodes. \<forall>t \<in> set (supersedes_targets (pl_edges L n)). lookup t \<noteq> None)"

section \<open>The contract of a plane\<close>

text \<open>What a plane's node list and lookup promise each other on a graph satisfying the
  invariant: the lookup finds exactly the listed nodes, under their own uids.\<close>

locale chain_plane =
  fixes L :: "('n, 'e) plane"
    and nodes :: "corpus_graph \<Rightarrow> 'n list"
    and lookup :: "corpus_graph \<Rightarrow> uid \<Rightarrow> 'n option"
  assumes lookup_iff: "cg_inv G \<Longrightarrow> lookup G u = Some n \<longleftrightarrow> n \<in> set (nodes G) \<and> pl_uid L n = u"
    and nodes_distinct: "cg_inv G \<Longrightarrow> distinct (map (pl_uid L) (nodes G))"
begin

lemma targets_of_links:
  assumes "cg_inv G"
  shows "targets_of (plane_links L (nodes G)) u =
    (case lookup G u of None \<Rightarrow> [] | Some n \<Rightarrow> supersedes_targets (pl_edges L n))"
proof -
  have "bget (plane_links L ns) u = map_option (\<lambda>n. supersedes_targets (pl_edges L n))
      (find (\<lambda>n. pl_uid L n = u) ns)" for ns
    by (induction ns) (auto simp: plane_links_def)
  moreover have "find (\<lambda>n. pl_uid L n = u) (nodes G) = lookup G u"
  proof (cases "lookup G u")
    case None
    then have "\<forall>n \<in> set (nodes G). pl_uid L n \<noteq> u" using lookup_iff [OF assms, of u] by auto
    with None show ?thesis by (simp add: find_None_iff)
  next
    case (Some n)
    then have n: "n \<in> set (nodes G)" "pl_uid L n = u" using lookup_iff [OF assms] by simp_all
    then obtain m where m: "find (\<lambda>n. pl_uid L n = u) (nodes G) = Some m"
      by (cases "find (\<lambda>n. pl_uid L n = u) (nodes G)") (auto simp: find_None_iff)
    then have "m \<in> set (nodes G)" "pl_uid L m = u" by (auto simp: find_Some_iff)
    then have "lookup G u = Some m" by (simp add: lookup_iff [OF assms])
    with m show ?thesis by simp
  qed
  ultimately show ?thesis by (cases "lookup G u") (simp_all add: targets_of_def)
qed

lemma links_iff:
  assumes "cg_inv G"
  shows "(u, v) \<in> plane_rel L (nodes G) \<longleftrightarrow>
    (\<exists>n \<in> set (nodes G). pl_uid L n = u \<and> v \<in> set (supersedes_targets (pl_edges L n)))"
proof (cases "lookup G u")
  case None
  then have "\<forall>n \<in> set (nodes G). pl_uid L n \<noteq> u" using lookup_iff [OF assms, of u] by auto
  with None show ?thesis by (auto simp: plane_rel_def link_rel_def targets_of_links [OF assms])
next
  case (Some m)
  then have eq: "n \<in> set (nodes G) \<and> pl_uid L n = u \<longleftrightarrow> n = m" for n
    unfolding lookup_iff [OF assms, of u n, symmetric] by auto
  have "(\<exists>n \<in> set (nodes G). pl_uid L n = u \<and> v \<in> set (supersedes_targets (pl_edges L n)))
      \<longleftrightarrow> v \<in> set (supersedes_targets (pl_edges L m))" using eq by (metis (no_types))
  with Some show ?thesis by (simp add: plane_rel_def link_rel_def targets_of_links [OF assms])
qed

lemma links_finite: "cg_inv G \<Longrightarrow> finite (plane_rel L (nodes G))"
proof -
  assume G: "cg_inv G"
  have "plane_rel L (nodes G) \<subseteq> (\<Union>n \<in> set (nodes G). {pl_uid L n} \<times> set (supersedes_targets (pl_edges L n)))"
    by (auto simp: links_iff [OF G])
  then show ?thesis by (rule finite_subset) simp
qed

lemma forks_iff:
  assumes G: "cg_inv G" and res: "links_resolved L (lookup G) (nodes G)"
    and one: "\<forall>n \<in> set (nodes G). length (supersedes_targets (pl_edges L n)) \<le> 1"
  shows "(\<forall>p. length (filter (\<lambda>e. fst e = p) (concat (map (resolved_links L (lookup G)) (nodes G)))) \<le> 1)
    \<longleftrightarrow> single_valued ((plane_rel L (nodes G))\<inverse>)"
proof -
  have rl: "resolved_links L (lookup G) n = map (\<lambda>t. (t, pl_uid L n)) (supersedes_targets (pl_edges L n))"
    if "n \<in> set (nodes G)" for n
  proof -
    have "(case lookup G t of None \<Rightarrow> [] | Some p \<Rightarrow> [(pl_uid L p, pl_uid L n)]) = [(t, pl_uid L n)]"
      if "t \<in> set (supersedes_targets (pl_edges L n))" for t
      using res that \<open>n \<in> _\<close> lookup_iff [OF G] by (auto simp: links_resolved_def split: option.splits)
    then show ?thesis by (simp add: resolved_links_def concat_map_singleton cong: map_cong)
  qed
  let ?ps = "concat (map (resolved_links L (lookup G)) (nodes G))"
  have set: "(p, u) \<in> set ?ps \<longleftrightarrow> (u, p) \<in> plane_rel L (nodes G)" for p u
    by (auto simp: links_iff [OF G] rl)
  have "distinct (map snd ?ps)"
  proof -
    have "distinct (map snd (concat (map (resolved_links L (lookup G)) ns)))"
      if "set ns \<subseteq> set (nodes G)" "distinct (map (pl_uid L) ns)" for ns
      using that
    proof (induction ns)
      case (Cons n ns)
      have sub: "set (map snd (resolved_links L (lookup G) m)) \<subseteq> {pl_uid L m}"
        if "m \<in> set (nodes G)" for m
        by (auto simp: rl [OF that])
      have "n \<in> set (nodes G)" using Cons.prems by simp
      then have "length (resolved_links L (lookup G) n) \<le> 1" using one by (simp add: rl)
      then have "distinct (map snd (resolved_links L (lookup G) n))"
        by (cases "resolved_links L (lookup G) n") auto
      moreover have "set (map snd (concat (map (resolved_links L (lookup G)) ns))) \<subseteq> pl_uid L ` set ns"
      proof -
        have "set (map snd (resolved_links L (lookup G) m)) \<subseteq> pl_uid L ` set ns" if "m \<in> set ns" for m
          using sub [of m] that Cons.prems(1) by auto
        then show ?thesis by (simp add: image_UN) blast
      qed
      moreover have "pl_uid L n \<notin> pl_uid L ` set ns" using Cons.prems(2) by simp
      ultimately have "set (map snd (resolved_links L (lookup G) n)) \<inter>
          set (map snd (concat (map (resolved_links L (lookup G)) ns))) = {}"
        and d: "distinct (map snd (resolved_links L (lookup G) n))"
        using sub [OF \<open>n \<in> set (nodes G)\<close>] by blast+
      moreover have "distinct (map snd (concat (map (resolved_links L (lookup G)) ns)))"
        using Cons by simp
      ultimately show ?case
        by (simp only: list.map concat.simps map_append distinct_append simp_thms)
    qed simp
    with nodes_distinct [OF G] show ?thesis by blast
  qed
  then have d: "distinct ?ps" by (simp only: distinct_map)
  have "length (filter (\<lambda>e. fst e = p) ?ps) \<le> 1 \<longleftrightarrow>
      (\<forall>u v. (p, u) \<in> set ?ps \<longrightarrow> (p, v) \<in> set ?ps \<longrightarrow> u = v)" for p
  proof -
    have "length (filter (\<lambda>e. fst e = p) ?ps) = card {e \<in> set ?ps. fst e = p}"
      using d by (simp flip: distinct_card)
    also have "\<dots> \<le> 1 \<longleftrightarrow> (\<forall>e \<in> {e \<in> set ?ps. fst e = p}. \<forall>f \<in> {e \<in> set ?ps. fst e = p}. e = f)"
      by (intro card_le_Suc0_iff_eq [simplified One_nat_def [symmetric]]) simp
    also have "\<dots> \<longleftrightarrow> (\<forall>u v. (p, u) \<in> set ?ps \<longrightarrow> (p, v) \<in> set ?ps \<longrightarrow> u = v)" by force
    finally show ?thesis .
  qed
  then have "length (filter (\<lambda>e. fst e = p) ?ps) \<le> 1 \<longleftrightarrow>
      (\<forall>u v. (u, p) \<in> plane_rel L (nodes G) \<longrightarrow> (v, p) \<in> plane_rel L (nodes G) \<longrightarrow> u = v)" for p
    unfolding set .
  then show ?thesis unfolding single_valued_def converse_iff by blast
qed

theorem validate_chains_iff:
  assumes G: "cg_inv G" and res: "links_resolved L (lookup G) (nodes G)"
  shows "validate_chains L (lookup G) (nodes G) = Inr () \<longleftrightarrow>
    (\<forall>n \<in> set (nodes G). node_links_ok L (lookup G) n) \<and> chain_rel (plane_rel L (nodes G))"
proof (cases "\<forall>n \<in> set (nodes G). node_links_ok L (lookup G) n")
  case False
  then show ?thesis by (auto simp: validate_chains_def rbind_Ok_iff fold_node_step)
next
  case True
  then have one: "\<forall>n \<in> set (nodes G). length (supersedes_targets (pl_edges L n)) \<le> 1"
    by (simp add: node_links_ok_def)
  then have single: "single_links (plane_links L (nodes G))"
    using lookup_iff [OF G] by (auto simp: single_links_def targets_of_links [OF G] split: option.split)
  have cyc: "reject_cycles (pl_cycle L) (plane_links L (nodes G)) [] (map (pl_uid L) (nodes G)) = Inr ()
      \<longleftrightarrow> acyclic (plane_rel L (nodes G))"
    unfolding plane_rel_def using lookup_iff [OF G]
    by (intro reject_cycles_iff [OF single]) (auto simp: targets_of_links [OF G] split: option.splits)
  have sv: "single_valued (plane_rel L (nodes G))"
  proof (rule single_valuedI)
    fix u v w assume "(u, v) \<in> plane_rel L (nodes G)" "(u, w) \<in> plane_rel L (nodes G)"
    then have "v \<in> set (targets_of (plane_links L (nodes G)) u)"
      "w \<in> set (targets_of (plane_links L (nodes G)) u)" by (simp_all add: plane_rel_def link_rel_def)
    moreover have "length (targets_of (plane_links L (nodes G)) u) \<le> 1"
      using single by (simp add: single_links_def)
    ultimately show "v = w" by (cases "targets_of (plane_links L (nodes G)) u") auto
  qed
  have "validate_chains L (lookup G) (nodes G) = Inr () \<longleftrightarrow>
      single_valued ((plane_rel L (nodes G))\<inverse>) \<and> acyclic (plane_rel L (nodes G))"
    using True forks_iff [OF G res one]
    by (auto simp: validate_chains_def rbind_Ok_iff fold_node_step push_links_forks cyc)
  with True sv links_finite [OF G] show ?thesis by (auto simp: chain_rel_def)
qed

end

end
