(* ===== verification/Corpus_Validation.thy ===== *)
theory Corpus_Validation
  imports Supersession
begin

text \<open>
  The validators of a whole corpus graph: review supersession
  (\<^verbatim>\<open>corpus/graph/supersession.rs\<close>), source lineage (\<^verbatim>\<open>corpus/source/lineage.rs\<close>), the
  committed source graphs (\<^verbatim>\<open>corpus/source_graph/validate.rs\<close>), the patch plane
  (\<^verbatim>\<open>corpus/source_patch/validate.rs\<close>), and \<^verbatim>\<open>CorpusGraph::validate\<close>, which runs them in order.
\<close>

section \<open>Review supersession\<close>

definition review_agrees :: "review_node \<Rightarrow> review_node \<Rightarrow> corpus_error review_error + unit" where
  "review_agrees review predecessor =
    rbind (fail_if (rv_reviewer review \<noteq> rv_reviewer predecessor)
      (RE_ReviewSupersessionReviewer (rv_uid review) (rv_uid predecessor))) (\<lambda>_.
    rbind (fail_if (rv_target review \<noteq> rv_target predecessor)
      (RE_ReviewSupersessionTarget (rv_uid review) (rv_uid predecessor))) (\<lambda>_.
    fail_if (rv_reviewed_content_sha256 review \<noteq> rv_reviewed_content_sha256 predecessor)
      (RE_ReviewSupersessionDigest (rv_uid review) (rv_uid predecessor))))"

definition review_plane :: "(review_node, corpus_error review_error) plane" where
  "review_plane = \<lparr>pl_uid = rv_uid, pl_edges = rv_edges, pl_agree = review_agrees,
     pl_duplicate = RE_ReviewDuplicateSupersedesEdge, pl_self = RE_ReviewSupersessionSelf,
     pl_fork = RE_ReviewSupersessionFork, pl_cycle = RE_ReviewSupersessionCycle\<rparr>"

definition review_lookup :: "corpus_graph \<Rightarrow> uid \<Rightarrow> review_node option" where
  "review_lookup G u = Option.bind (cg_get G u) as_review"

definition validate_review_supersession :: "corpus_graph \<Rightarrow> corpus_error review_error + unit" where
  "validate_review_supersession G = validate_chains review_plane (review_lookup G) (cg_reviews G)"

section \<open>Source lineage\<close>

definition revision_agrees ::
  "source_revision_node \<Rightarrow> source_revision_node \<Rightarrow> corpus_error source_error + unit" where
  "revision_agrees revision predecessor =
    fail_if (sr_document_key revision \<noteq> sr_document_key predecessor)
      (SE_SourceSupersessionDocumentKey (sr_uid revision) (sr_uid predecessor))"

definition revision_plane :: "(source_revision_node, corpus_error source_error) plane" where
  "revision_plane = \<lparr>pl_uid = sr_uid, pl_edges = sr_edges, pl_agree = revision_agrees,
     pl_duplicate = SE_SourceDuplicateSupersedesEdge, pl_self = SE_SourceSupersessionSelf,
     pl_fork = SE_SourceSupersessionFork, pl_cycle = SE_SourceSupersessionCycle\<rparr>"

definition revision_lookup :: "corpus_graph \<Rightarrow> uid \<Rightarrow> source_revision_node option" where
  "revision_lookup G u = Option.bind (cg_get G u) as_revision"

definition supersedes_target :: "source_revision_node \<Rightarrow> uid option" where
  "supersedes_target revision =
    map_option snd (find (\<lambda>(kind, target). kind = Supersedes) (sr_edges revision))"

definition revisions_by_document :: "corpus_graph \<Rightarrow> (string, source_revision_node list) bmap" where
  "revisions_by_document G = group_by sr_document_key (cg_revisions G)"

text \<open>Every target of a \<^verbatim>\<open>Supersedes\<close> edge of any node.\<close>

definition all_superseded :: "corpus_graph \<Rightarrow> uid set" where
  "all_superseded G = set (concat (map (\<lambda>n. supersedes_targets (node_edges n)) (cg_node_list G)))"

definition reject_several ::
  "(string \<Rightarrow> uid \<Rightarrow> uid \<Rightarrow> 'e) \<Rightarrow> (source_revision_node \<Rightarrow> bool)
    \<Rightarrow> (string, source_revision_node list) bmap \<Rightarrow> 'e + unit" where
  "reject_several err P by_document =
    for_each (\<lambda>(document_key, revisions).
      case map sr_uid (filter P revisions) of
        first # second # _ \<Rightarrow> Err (err document_key first second)
      | _ \<Rightarrow> Ok ()) by_document"

definition reject_multiple_roots :: "corpus_graph \<Rightarrow> corpus_error source_error + unit" where
  "reject_multiple_roots G = reject_several SE_SourceLineageMultipleRoots
     (\<lambda>revision. supersedes_target revision = None) (revisions_by_document G)"

definition reject_multiple_heads :: "corpus_graph \<Rightarrow> corpus_error source_error + unit" where
  "reject_multiple_heads G = reject_several SE_SourceLineageMultipleHeads
     (\<lambda>revision. sr_uid revision \<notin> all_superseded G) (revisions_by_document G)"

definition validate_source_lineage :: "corpus_graph \<Rightarrow> corpus_error source_error + unit" where
  "validate_source_lineage G =
    rbind (validate_chains revision_plane (revision_lookup G) (cg_revisions G)) (\<lambda>_.
    rbind (reject_multiple_roots G) (\<lambda>_.
    reject_multiple_heads G))"

definition effective_source_heads :: "corpus_graph \<Rightarrow> (string, uid) bmap" where
  "effective_source_heads G =
    fold (\<lambda>revision heads.
      if sr_uid revision \<notin> all_superseded G
      then bins (sr_document_key revision) (sr_uid revision) heads else heads) (cg_revisions G) []"

section \<open>Committed source graphs\<close>

definition revision_media_map :: "corpus_graph \<Rightarrow> (uid, string) bmap" where
  "revision_media_map G =
    fold (\<lambda>revision. bins (sr_uid revision) (sr_media_type revision)) (cg_revisions G) []"

text \<open>\<^verbatim>\<open>index.entry(uid).or_insert(revision_uid)\<close>: the first revision owning a uid wins.\<close>

definition global_uid_index :: "corpus_graph \<Rightarrow> (uid, uid) bmap" where
  "global_uid_index G =
    fold (\<lambda>(revision_uid, g) index.
      fold (\<lambda>node index. if bget index (sn_uid node) \<noteq> None then index
                          else bins (sn_uid node) revision_uid index) (sg_nodes g) index)
      (cg_source_graphs G) []"

definition validate_source_graphs :: "platform \<Rightarrow> corpus_graph \<Rightarrow> source_graph_error + unit" where
  "validate_source_graphs X G =
    (let media_map = revision_media_map G; uid_index = global_uid_index G in
     for_each (\<lambda>(revision_uid, g).
       case bget media_map revision_uid of
         None \<Rightarrow> Err (SG_UnknownSourceRevision revision_uid)
       | Some media_type \<Rightarrow> validate_one_graph X revision_uid g uid_index media_type)
       (cg_source_graphs G))"

section \<open>The patch plane\<close>

definition validate_binding :: "platform \<Rightarrow> corpus_graph \<Rightarrow> source_patch_record \<Rightarrow> source_patch_error + unit" where
  "validate_binding X G patch =
    rbind (fail_if (\<not> (\<exists>r \<in> set (cg_revisions G). sr_uid r = sp_source_revision_uid patch))
      (SP_UnknownSourceRevision (sp_uid patch) (sp_source_revision_uid patch))) (\<lambda>_.
    let parser_graph = (case cg_source_graph G (sp_source_revision_uid patch) of
          Some committed \<Rightarrow> committed | None \<Rightarrow> sg_new);
        recomputed = source_graph_digest X parser_graph
    in fail_if (recomputed \<noteq> sp_pre_patch_graph_digest patch)
         (SP_PrePatchGraphDigestMismatch (sp_uid patch) (std_str recomputed)
           (std_str (sp_pre_patch_graph_digest patch))))"

definition inserted_uids :: "source_patch_record \<Rightarrow> uid list" where
  "inserted_uids patch = List.map_filter
     (\<lambda>oper. case oper of Insert _ _ node \<Rightarrow> Some (in_uid node) | _ \<Rightarrow> None) (sp_operations patch)"

definition other_inserted :: "corpus_graph \<Rightarrow> source_patch_record \<Rightarrow> (uid, uid) bmap" where
  "other_inserted G patch =
    fold (\<lambda>other index. fold (\<lambda>u. bins u (sp_uid other)) (inserted_uids other) index)
      (filter (\<lambda>other. sp_uid other \<noteq> sp_uid patch) (bvals (cg_source_patches G))) []"

fun operation_targets :: "patch_operation \<Rightarrow> uid list" where
  "operation_targets (ReplaceContent _ t _ _ _) = [t]"
| "operation_targets (Reclassify _ t _ _) = [t]"
| "operation_targets (Remove _ t _ _) = [t]"
| "operation_targets (Reparent _ t expected_parent _ new_parent _) =
    t # (case expected_parent of None \<Rightarrow> [] | Some p \<Rightarrow> [p])
      @ (case new_parent of None \<Rightarrow> [] | Some p \<Rightarrow> [p])"
| "operation_targets (Insert _ expected_parent _) =
    (case expected_parent of None \<Rightarrow> [] | Some p \<Rightarrow> [p])"

definition locate :: "corpus_graph \<Rightarrow> uid \<Rightarrow> uid option" where
  "locate G u = map_option fst (find (\<lambda>(r, g). sg_get g u \<noteq> None) (cg_source_graphs G))"

definition validate_target ::
  "corpus_graph \<Rightarrow> source_patch_record \<Rightarrow> uid \<Rightarrow> source_patch_error + unit" where
  "validate_target G patch target =
    (if target \<in> set (inserted_uids patch) then Ok ()
     else case locate G target of
       Some revision \<Rightarrow>
         if revision = sp_source_revision_uid patch then Ok ()
         else Err (SP_CrossRevisionTarget (sp_uid patch) target revision)
     | None \<Rightarrow>
         (case bget (other_inserted G patch) target of
            Some other_patch \<Rightarrow> Err (SP_CrossPatchTarget (sp_uid patch) target other_patch)
          | None \<Rightarrow> Err (SP_DanglingTarget (sp_uid patch) target)))"

definition validate_targets :: "corpus_graph \<Rightarrow> source_patch_record \<Rightarrow> source_patch_error + unit" where
  "validate_targets G patch =
    for_each (\<lambda>oper. for_each (validate_target G patch) (operation_targets oper)) (sp_operations patch)"

definition validate_source_patches :: "platform \<Rightarrow> corpus_graph \<Rightarrow> source_patch_error + unit" where
  "validate_source_patches X G =
    for_each (\<lambda>patch. rbind (validate_binding X G patch) (\<lambda>_. validate_targets G patch))
      (bvals (cg_source_patches G))"

section \<open>The whole graph\<close>

definition cg_validate :: "platform \<Rightarrow> corpus_graph \<Rightarrow> corpus_error + unit" where
  "cg_validate X G =
    rbind (validate_edges G) (\<lambda>_.
    rbind (map_err CE_Review (validate_review_nodes G)) (\<lambda>_.
    rbind (map_err CE_Review (validate_review_supersession G)) (\<lambda>_.
    rbind (map_err CE_Source (validate_source_lineage G)) (\<lambda>_.
    rbind (map_err CE_SourceGraph (validate_source_graphs X G)) (\<lambda>_.
    map_err CE_SourcePatch (validate_source_patches X G))))))"

section \<open>The two planes satisfy the contract\<close>

lemma cg_node_uids_distinct: "cg_inv G \<Longrightarrow> distinct (map node_uid (cg_node_list G))"
proof -
  assume G: "cg_inv G"
  then have "map node_uid (cg_node_list G) = map fst (cg_nodes G)"
    by (auto simp: cg_inv_def cg_node_list_def bvals_def)
  with G show ?thesis by (simp add: cg_inv_def bwf_distinct)
qed

lemma distinct_map_filter_by:
  "(\<And>n x. sel n = Some x \<Longrightarrow> f x = node_uid n) \<Longrightarrow> distinct (map node_uid ns) \<Longrightarrow>
    distinct (map f (List.map_filter sel ns))"
proof (induction ns)
  case (Cons n ns)
  have "f ` set (List.map_filter sel ns) \<subseteq> node_uid ` set ns"
    using Cons.prems(1) by (auto simp: List.map_filter_def)
  with Cons show ?case by (auto simp: List.map_filter_simps split: option.split)
qed (simp add: List.map_filter_simps)

lemma as_review_Some [simp]: "as_review n = Some r \<longleftrightarrow> n = Review r"
  by (cases n) auto

lemma as_revision_Some [simp]: "as_revision n = Some r \<longleftrightarrow> n = SourceRevision r"
  by (cases n) auto

lemma review_lookup_iff:
  "cg_inv G \<Longrightarrow> review_lookup G u = Some r \<longleftrightarrow> r \<in> set (cg_reviews G) \<and> rv_uid r = u"
  by (auto simp: review_lookup_def cg_reviews_iff bind_eq_Some_conv dest: cg_get_uid)

lemma revision_lookup_iff:
  "cg_inv G \<Longrightarrow> revision_lookup G u = Some r \<longleftrightarrow> r \<in> set (cg_revisions G) \<and> sr_uid r = u"
  by (auto simp: revision_lookup_def cg_revisions_iff bind_eq_Some_conv dest: cg_get_uid)

interpretation reviews: chain_plane review_plane cg_reviews review_lookup
proof unfold_locales
  fix G :: corpus_graph and u r
  assume G: "cg_inv G"
  then show "review_lookup G u = Some r \<longleftrightarrow> r \<in> set (cg_reviews G) \<and> pl_uid review_plane r = u"
    by (simp add: review_lookup_iff review_plane_def)
  from G show "distinct (map (pl_uid review_plane) (cg_reviews G))"
    by (auto simp: review_plane_def cg_reviews_def
        intro!: distinct_map_filter_by cg_node_uids_distinct)
qed

interpretation revisions: chain_plane revision_plane cg_revisions revision_lookup
proof unfold_locales
  fix G :: corpus_graph and u r
  assume G: "cg_inv G"
  then show "revision_lookup G u = Some r \<longleftrightarrow> r \<in> set (cg_revisions G) \<and> pl_uid revision_plane r = u"
    by (simp add: revision_lookup_iff revision_plane_def)
  from G show "distinct (map (pl_uid revision_plane) (cg_revisions G))"
    by (auto simp: revision_plane_def cg_revisions_def
        intro!: distinct_map_filter_by cg_node_uids_distinct)
qed

text \<open>Once the edges resolve, a \<^verbatim>\<open>Supersedes\<close> edge stays within its plane.\<close>

lemma supersedes_edge_kinds:
  assumes "edges_resolve G" "n \<in> set (cg_node_list G)" "t \<in> set (supersedes_targets (node_edges n))"
  obtains m where "cg_get G t = Some m" "kind_of_node m = kind_of_node n"
    "kind_of_node n \<in> {ReviewKind, SourceRevisionKind}"
proof -
  from assms(3) have "(Supersedes, t) \<in> set (node_edges n)" by (auto simp: supersedes_targets_def)
  with assms(1,2) have "edge_resolves G n (Supersedes, t)" by (auto simp: edges_resolve_def)
  then obtain m where m: "cg_get G t = Some m"
    "edge_kinds_match (kind_of_node n) Supersedes (kind_of_node m)"
    by (auto simp: edge_resolves_def split: option.splits)
  then show ?thesis
    by (intro that [OF m(1)]) (cases "kind_of_node n"; cases "kind_of_node m"; simp)+
qed

lemma review_links_resolved:
  assumes G: "cg_inv G" and e: "edges_resolve G"
  shows "links_resolved review_plane (review_lookup G) (cg_reviews G)"
proof -
  have "review_lookup G t \<noteq> None" if r: "r \<in> set (cg_reviews G)"
    and t: "t \<in> set (supersedes_targets (rv_edges r))" for r t
  proof -
    have n: "Review r \<in> set (cg_node_list G)" using r G by (simp add: cg_reviews_iff cg_nodes_iff_get)
    obtain m where "cg_get G t = Some m" "kind_of_node m = ReviewKind"
      using supersedes_edge_kinds [OF e n] t by (metis kind_of_node.simps(3) node_edges.simps(3))
    then show ?thesis by (cases m) (auto simp: review_lookup_def)
  qed
  then show ?thesis by (auto simp: links_resolved_def review_plane_def)
qed

lemma revision_links_resolved:
  assumes G: "cg_inv G" and e: "edges_resolve G"
  shows "links_resolved revision_plane (revision_lookup G) (cg_revisions G)"
proof -
  have "revision_lookup G t \<noteq> None" if r: "r \<in> set (cg_revisions G)"
    and t: "t \<in> set (supersedes_targets (sr_edges r))" for r t
  proof -
    have n: "SourceRevision r \<in> set (cg_node_list G)"
      using r G by (simp add: cg_revisions_iff cg_nodes_iff_get)
    obtain m where "cg_get G t = Some m" "kind_of_node m = SourceRevisionKind"
      using supersedes_edge_kinds [OF e n] t by (metis kind_of_node.simps(4) node_edges.simps(4))
    then show ?thesis by (cases m) (auto simp: revision_lookup_def)
  qed
  then show ?thesis by (auto simp: links_resolved_def revision_plane_def)
qed

section \<open>What an accepted review plane is\<close>

text \<open>The supersession relations, read off the edges of the nodes.\<close>

definition review_rel :: "corpus_graph \<Rightarrow> (uid \<times> uid) set" where
  "review_rel G = {(u, v). \<exists>r \<in> set (cg_reviews G). rv_uid r = u \<and> (Supersedes, v) \<in> set (rv_edges r)}"

definition revision_rel :: "corpus_graph \<Rightarrow> (uid \<times> uid) set" where
  "revision_rel G = {(u, v). \<exists>r \<in> set (cg_revisions G). sr_uid r = u \<and> (Supersedes, v) \<in> set (sr_edges r)}"

lemma supersedes_targets_iff: "v \<in> set (supersedes_targets es) \<longleftrightarrow> (Supersedes, v) \<in> set es"
  by (force simp: supersedes_targets_def)

text \<open>One correction: same reviewer, same target, same reviewed digest.\<close>

definition same_judgement :: "review_node \<Rightarrow> review_node \<Rightarrow> bool" where
  "same_judgement r p \<longleftrightarrow> rv_reviewer r = rv_reviewer p \<and> rv_target r = rv_target p
    \<and> rv_reviewed_content_sha256 r = rv_reviewed_content_sha256 p"

lemma review_agrees_Ok_iff: "review_agrees r p = Inr () \<longleftrightarrow> same_judgement r p"
  by (auto simp: review_agrees_def loop_simps same_judgement_def)

lemma review_rel_iff:
  assumes "cg_inv G"
  shows "(u, v) \<in> review_rel G \<longleftrightarrow>
    (\<exists>r \<in> set (cg_reviews G). rv_uid r = u \<and> v \<in> set (supersedes_targets (rv_edges r)))"
  by (simp add: review_rel_def supersedes_targets_iff)

lemma revision_rel_iff:
  assumes "cg_inv G"
  shows "(u, v) \<in> revision_rel G \<longleftrightarrow>
    (\<exists>r \<in> set (cg_revisions G). sr_uid r = u \<and> v \<in> set (supersedes_targets (sr_edges r)))"
  by (simp add: revision_rel_def supersedes_targets_iff)

lemma plane_rel_review: "cg_inv G \<Longrightarrow> plane_rel review_plane (cg_reviews G) = review_rel G"
  by (auto simp: review_rel_iff reviews.links_iff) (auto simp: review_plane_def)

lemma plane_rel_revision: "cg_inv G \<Longrightarrow> plane_rel revision_plane (cg_revisions G) = revision_rel G"
  by (auto simp: revision_rel_iff revisions.links_iff) (auto simp: revision_plane_def)

lemma acyclic_no_self: "acyclic r \<Longrightarrow> (u, u) \<notin> r"
  by (auto simp: acyclic_def)

text \<open>
  The declarative contract of the correction plane: the supersession links form chains, every
  review corrects at most one review, and a correction keeps the reviewer, the target and the
  reviewed digest of the review it corrects.
\<close>

definition corrections_ok :: "corpus_graph \<Rightarrow> bool" where
  "corrections_ok G \<longleftrightarrow> chain_rel (review_rel G)
    \<and> (\<forall>r \<in> set (cg_reviews G). length (supersedes_targets (rv_edges r)) \<le> 1)
    \<and> (\<forall>r \<in> set (cg_reviews G). \<forall>p \<in> set (cg_reviews G).
         (rv_uid r, rv_uid p) \<in> review_rel G \<longrightarrow> same_judgement r p)"

lemma review_rel_of:
  assumes G: "cg_inv G" and r: "r \<in> set (cg_reviews G)"
  shows "(rv_uid r, t) \<in> review_rel G \<longleftrightarrow> t \<in> set (supersedes_targets (rv_edges r))"
proof -
  have "q = r" if "q \<in> set (cg_reviews G)" "rv_uid q = rv_uid r" for q
    using that r G by (simp add: cg_reviews_iff)
  with r show ?thesis unfolding review_rel_iff [OF G] by blast
qed

lemma review_supersession_Ok_iff:
  assumes G: "cg_inv G" and e: "edges_resolve G"
  shows "validate_review_supersession G = Inr () \<longleftrightarrow> corrections_ok G"
proof -
  let ?rs = "cg_reviews G"
  have links: "node_links_ok review_plane (review_lookup G) r \<longleftrightarrow>
      length (supersedes_targets (rv_edges r)) \<le> 1 \<and>
      (\<forall>p \<in> set ?rs. (rv_uid r, rv_uid p) \<in> review_rel G \<longrightarrow> same_judgement r p)"
    if r: "r \<in> set ?rs" and acyc: "chain_rel (review_rel G)" for r
  proof -
    note targets = review_rel_of [OF G r]
    have "(rv_uid r, rv_uid r) \<notin> review_rel G"
      using acyc by (intro acyclic_no_self) (simp add: chain_rel_def)
    then have "rv_uid r \<notin> set (supersedes_targets (rv_edges r))" by (simp add: targets)
    moreover have "node_links_ok review_plane (review_lookup G) r \<longleftrightarrow>
        length (supersedes_targets (rv_edges r)) \<le> 1 \<and>
        (\<forall>t \<in> set (supersedes_targets (rv_edges r)). t \<noteq> rv_uid r \<and>
          (\<forall>p. p \<in> set ?rs \<and> rv_uid p = t \<longrightarrow> same_judgement r p))"
      by (simp add: node_links_ok_def review_plane_def review_agrees_Ok_iff review_lookup_iff [OF G])
    ultimately show ?thesis unfolding targets by blast
  qed
  show ?thesis
    unfolding validate_review_supersession_def corrections_ok_def
      reviews.validate_chains_iff [OF G review_links_resolved [OF G e]] plane_rel_review [OF G]
    using links by blast
qed

section \<open>What an accepted lineage is\<close>

lemma reject_several_Ok_iff:
  "reject_several err P (group_by sr_document_key rs) = Inr () \<longleftrightarrow>
    (\<forall>r \<in> set rs. length (filter P (filter (\<lambda>q. sr_document_key q = sr_document_key r) rs)) \<le> 1)"
proof -
  have one: "(case map sr_uid xs of first # second # _ \<Rightarrow> Err (err k first second) | _ \<Rightarrow> Ok ())
      = Inr () \<longleftrightarrow> length xs \<le> 1" for xs k
    by (cases xs; cases "tl xs") auto
  have "reject_several err P (group_by sr_document_key rs) = Inr () \<longleftrightarrow>
      (\<forall>e \<in> set (group_by sr_document_key rs). length (filter P (snd e)) \<le> 1)"
    by (simp add: reject_several_def for_each_Ok_iff split_beta one)
  then show ?thesis unfolding ball_group_by [of sr_document_key rs "\<lambda>g. length (filter P g) \<le> 1"] .
qed

lemma length_filter_le_1:
  "distinct xs \<Longrightarrow> length (filter P xs) \<le> 1 \<longleftrightarrow>
    (\<forall>x \<in> set xs. \<forall>y \<in> set xs. P x \<longrightarrow> P y \<longrightarrow> x = y)"
proof -
  assume d: "distinct xs"
  then have "length (filter P xs) = card (set (filter P xs))"
    using distinct_card [OF distinct_filter, of xs P] by simp
  also have "\<dots> \<le> 1 \<longleftrightarrow> (\<forall>x \<in> set (filter P xs). \<forall>y \<in> set (filter P xs). x = y)"
    by (intro card_le_Suc0_iff_eq [simplified One_nat_def [symmetric]]) simp
  finally show ?thesis by auto
qed

definition lineage_ok :: "corpus_graph \<Rightarrow> bool" where
  "lineage_ok G \<longleftrightarrow> chain_rel (revision_rel G)
    \<and> (\<forall>r \<in> set (cg_revisions G). length (supersedes_targets (sr_edges r)) \<le> 1)
    \<and> (\<forall>r \<in> set (cg_revisions G). \<forall>p \<in> set (cg_revisions G).
         (sr_uid r, sr_uid p) \<in> revision_rel G \<longrightarrow> sr_document_key r = sr_document_key p)
    \<and> (\<forall>r \<in> set (cg_revisions G). \<forall>p \<in> set (cg_revisions G).
         sr_document_key r = sr_document_key p \<longrightarrow>
         (sr_uid r \<notin> Range (revision_rel G) \<and> sr_uid p \<notin> Range (revision_rel G) \<longrightarrow> r = p) \<and>
         (sr_uid r \<notin> Domain (revision_rel G) \<and> sr_uid p \<notin> Domain (revision_rel G) \<longrightarrow> r = p))"

lemma superseded_revisions:
  assumes G: "cg_inv G" and e: "edges_resolve G" and r: "r \<in> set (cg_revisions G)"
  shows "sr_uid r \<in> all_superseded G \<longleftrightarrow> sr_uid r \<in> Range (revision_rel G)"
proof
  assume "sr_uid r \<in> all_superseded G"
  then obtain n where n: "n \<in> set (cg_node_list G)" "sr_uid r \<in> set (supersedes_targets (node_edges n))"
    by (auto simp: all_superseded_def)
  obtain m where "cg_get G (sr_uid r) = Some m" "kind_of_node m = kind_of_node n"
    using supersedes_edge_kinds [OF e n] by metis
  with r G obtain q where q: "n = SourceRevision q" by (cases n) (auto simp: cg_revisions_iff)
  with n G have "q \<in> set (cg_revisions G)" by (simp add: cg_nodes_iff_get cg_revisions_iff)
  with n q have "(sr_uid q, sr_uid r) \<in> revision_rel G" by (auto simp: revision_rel_iff [OF G])
  then show "sr_uid r \<in> Range (revision_rel G)" by blast
next
  assume "sr_uid r \<in> Range (revision_rel G)"
  then obtain q where "q \<in> set (cg_revisions G)" "sr_uid r \<in> set (supersedes_targets (sr_edges q))"
    by (auto simp: revision_rel_iff [OF G])
  then have "SourceRevision q \<in> set (cg_node_list G)"
    "sr_uid r \<in> set (supersedes_targets (node_edges (SourceRevision q)))"
    using G by (simp_all add: cg_revisions_iff cg_nodes_iff_get)
  then show "sr_uid r \<in> all_superseded G" unfolding all_superseded_def by (auto simp del: node_edges.simps)
qed

lemma revision_rel_of:
  assumes G: "cg_inv G" and r: "r \<in> set (cg_revisions G)"
  shows "(sr_uid r, t) \<in> revision_rel G \<longleftrightarrow> t \<in> set (supersedes_targets (sr_edges r))"
proof -
  have "q = r" if "q \<in> set (cg_revisions G)" "sr_uid q = sr_uid r" for q
    using that r G by (simp add: cg_revisions_iff)
  with r show ?thesis unfolding revision_rel_iff [OF G] by blast
qed

lemma supersedes_target_None:
  assumes "cg_inv G" "r \<in> set (cg_revisions G)"
  shows "supersedes_target r = None \<longleftrightarrow> sr_uid r \<notin> Domain (revision_rel G)"
proof -
  have "supersedes_target r = None \<longleftrightarrow> supersedes_targets (sr_edges r) = []"
    by (auto simp: supersedes_target_def supersedes_targets_def find_None_iff filter_empty_conv)
  moreover have "(sr_uid r, t) \<in> revision_rel G \<longleftrightarrow> t \<in> set (supersedes_targets (sr_edges r))" for t
    using assms by (rule revision_rel_of)
  then have "sr_uid r \<in> Domain (revision_rel G) \<longleftrightarrow> supersedes_targets (sr_edges r) \<noteq> []"
    by (cases "supersedes_targets (sr_edges r)") (auto simp: Domain_iff)
  ultimately show ?thesis by simp
qed

lemma cg_revisions_distinct: "cg_inv G \<Longrightarrow> distinct (cg_revisions G)"
  using revisions.nodes_distinct [of G] by (simp add: distinct_map)

lemma validate_source_lineage_Ok_iff:
  assumes G: "cg_inv G" and e: "edges_resolve G"
  shows "validate_source_lineage G = Inr () \<longleftrightarrow> lineage_ok G"
proof -
  let ?rs = "cg_revisions G"
  have several: "reject_several err P (revisions_by_document G) = Inr () \<longleftrightarrow>
      (\<forall>r \<in> set ?rs. \<forall>p \<in> set ?rs. sr_document_key r = sr_document_key p \<longrightarrow> P r \<longrightarrow> P p \<longrightarrow> r = p)"
    for err :: "string \<Rightarrow> uid \<Rightarrow> uid \<Rightarrow> corpus_error source_error" and P
  proof -
    have "length (filter P (filter (\<lambda>q. sr_document_key q = k) ?rs)) \<le> 1 \<longleftrightarrow>
        (\<forall>r \<in> set ?rs. \<forall>p \<in> set ?rs. sr_document_key r = k \<longrightarrow> sr_document_key p = k \<longrightarrow>
          P r \<longrightarrow> P p \<longrightarrow> r = p)" for k
      using length_filter_le_1 [OF distinct_filter [OF cg_revisions_distinct [OF G]]] by auto
    then show ?thesis unfolding revisions_by_document_def reject_several_Ok_iff by auto
  qed
  have links: "node_links_ok revision_plane (revision_lookup G) r \<longleftrightarrow>
      length (supersedes_targets (sr_edges r)) \<le> 1 \<and>
      (\<forall>p \<in> set ?rs. (sr_uid r, sr_uid p) \<in> revision_rel G \<longrightarrow>
        sr_document_key r = sr_document_key p)"
    if r: "r \<in> set ?rs" and acyc: "chain_rel (revision_rel G)" for r
  proof -
    note targets = revision_rel_of [OF G r]
    have "(sr_uid r, sr_uid r) \<notin> revision_rel G"
      using acyc by (intro acyclic_no_self) (simp add: chain_rel_def)
    then have "sr_uid r \<notin> set (supersedes_targets (sr_edges r))" by (simp add: targets)
    moreover have "node_links_ok revision_plane (revision_lookup G) r \<longleftrightarrow>
        length (supersedes_targets (sr_edges r)) \<le> 1 \<and>
        (\<forall>t \<in> set (supersedes_targets (sr_edges r)). t \<noteq> sr_uid r \<and>
          (\<forall>p. p \<in> set ?rs \<and> sr_uid p = t \<longrightarrow> sr_document_key r = sr_document_key p))"
      by (simp add: node_links_ok_def revision_plane_def revision_agrees_def fail_if_Ok_iff
          revision_lookup_iff [OF G])
    ultimately show ?thesis unfolding targets by blast
  qed
  have chains: "validate_chains revision_plane (revision_lookup G) ?rs = Inr () \<longleftrightarrow>
      chain_rel (revision_rel G) \<and>
      (\<forall>r \<in> set ?rs. length (supersedes_targets (sr_edges r)) \<le> 1) \<and>
      (\<forall>r \<in> set ?rs. \<forall>p \<in> set ?rs. (sr_uid r, sr_uid p) \<in> revision_rel G \<longrightarrow>
        sr_document_key r = sr_document_key p)"
    unfolding revisions.validate_chains_iff [OF G revision_links_resolved [OF G e]]
      plane_rel_revision [OF G]
    using links by blast
  have roots: "reject_multiple_roots G = Inr () \<longleftrightarrow>
      (\<forall>r \<in> set ?rs. \<forall>p \<in> set ?rs. sr_document_key r = sr_document_key p \<longrightarrow>
        sr_uid r \<notin> Domain (revision_rel G) \<and> sr_uid p \<notin> Domain (revision_rel G) \<longrightarrow> r = p)"
    by (simp add: reject_multiple_roots_def several supersedes_target_None [OF G] imp_conjL)
  have heads: "reject_multiple_heads G = Inr () \<longleftrightarrow>
      (\<forall>r \<in> set ?rs. \<forall>p \<in> set ?rs. sr_document_key r = sr_document_key p \<longrightarrow>
        sr_uid r \<notin> Range (revision_rel G) \<and> sr_uid p \<notin> Range (revision_rel G) \<longrightarrow> r = p)"
    by (simp add: reject_multiple_heads_def several superseded_revisions [OF G e] imp_conjL)
  have "validate_source_lineage G = Inr () \<longleftrightarrow>
      validate_chains revision_plane (revision_lookup G) ?rs = Inr () \<and>
      reject_multiple_roots G = Inr () \<and> reject_multiple_heads G = Inr ()"
    by (simp add: validate_source_lineage_def rbind_Ok_iff)
  then show ?thesis unfolding chains roots heads lineage_ok_def by blast
qed

text \<open>The head of a document reaches every revision of it.\<close>

lemma chain_stays_in_document:
  assumes ok: "lineage_ok G" and G: "cg_inv G" and e: "edges_resolve G"
    and r: "r \<in> set (cg_revisions G)" and path: "(h, sr_uid r) \<in> (revision_rel G)\<^sup>*"
  shows "\<exists>q \<in> set (cg_revisions G). sr_uid q = h \<and> sr_document_key q = sr_document_key r"
  using path
proof (induction rule: converse_rtrancl_induct)
  case base
  with r show ?case by blast
next
  case (step u v)
  then obtain q where q: "q \<in> set (cg_revisions G)" "sr_uid q = v"
    "sr_document_key q = sr_document_key r" by blast
  from step(1) obtain p where p: "p \<in> set (cg_revisions G)" "sr_uid p = u"
    by (auto simp: revision_rel_iff [OF G])
  with q step(1) ok have "sr_document_key p = sr_document_key q" unfolding lineage_ok_def by blast
  with p q show ?case by metis
qed

lemma bget_fold_heads:
  "bget (fold (\<lambda>r heads. if P r then bins (k r) (f r) heads else heads) rs m) key =
    (case find (\<lambda>r. P r \<and> k r = key) (rev rs) of None \<Rightarrow> bget m key | Some r \<Rightarrow> Some (f r))"
  by (induction rs rule: rev_induct) (auto split: option.splits)

lemma effective_head_of_document:
  assumes ok: "lineage_ok G" and G: "cg_inv G" and e: "edges_resolve G"
    and r: "r \<in> set (cg_revisions G)"
  shows "\<exists>h \<in> set (cg_revisions G). sr_document_key h = sr_document_key r \<and>
    bget (effective_source_heads G) (sr_document_key r) = Some (sr_uid h) \<and>
    (sr_uid h, sr_uid r) \<in> (revision_rel G)\<^sup>* \<and> sr_uid h \<notin> Range (revision_rel G)"
proof -
  let ?P = "\<lambda>q. sr_uid q \<notin> all_superseded G"
  have chain: "chain_rel (revision_rel G)" using ok by (simp add: lineage_ok_def)
  from chain_rel_head_exists [OF chain, of "sr_uid r"] obtain hu where
    hu: "(hu, sr_uid r) \<in> (revision_rel G)\<^sup>*" "hu \<notin> Range (revision_rel G)"
    by (auto simp: heads_of_def)
  from chain_stays_in_document [OF ok G e r hu(1)] obtain h where
    h: "h \<in> set (cg_revisions G)" "sr_uid h = hu" "sr_document_key h = sr_document_key r" by blast
  have live: "?P h" using superseded_revisions [OF G e h(1)] hu(2) h(2) by simp
  have only: "q = h" if "q \<in> set (cg_revisions G)" "?P q" "sr_document_key q = sr_document_key r" for q
    using that h hu(2) superseded_revisions [OF G e that(1)] ok unfolding lineage_ok_def by metis
  have "find (\<lambda>q. ?P q \<and> sr_document_key q = sr_document_key r) (rev (cg_revisions G)) = Some h"
  proof (cases "find (\<lambda>q. ?P q \<and> sr_document_key q = sr_document_key r) (rev (cg_revisions G))")
    case None
    with h live show ?thesis by (auto simp: find_None_iff)
  next
    case (Some q)
    then have "q \<in> set (rev (cg_revisions G))" "?P q" "sr_document_key q = sr_document_key r"
      by (auto simp: find_Some_iff simp del: set_rev)
    with only Some show ?thesis by simp
  qed
  then have "bget (effective_source_heads G) (sr_document_key r) = Some (sr_uid h)"
    by (simp add: effective_source_heads_def bget_fold_heads)
  with h hu show ?thesis by metis
qed

section \<open>What an accepted corpus is\<close>

definition source_graphs_ok :: "platform \<Rightarrow> corpus_graph \<Rightarrow> bool" where
  "source_graphs_ok X G \<longleftrightarrow> (\<forall>(r, g) \<in> set (cg_source_graphs G).
     \<exists>rev \<in> set (cg_revisions G). sr_uid rev = r \<and> well_formed_forest X (sr_media_type rev) g)"

lemma bget_fold_revisions:
  assumes G: "cg_inv G"
  shows "bget (fold (\<lambda>r. bins (sr_uid r) (f r)) (cg_revisions G) []) u =
    map_option f (revision_lookup G u)"
proof -
  have "bget (fold (\<lambda>r. bins (sr_uid r) (f r)) (cg_revisions G) []) u =
      map_option f (find (\<lambda>r. sr_uid r = u) (rev (cg_revisions G)))"
    by (simp add: bget_fold_bins split: option.split)
  also have "find (\<lambda>r. sr_uid r = u) (rev (cg_revisions G)) = revision_lookup G u"
  proof (cases "find (\<lambda>r. sr_uid r = u) (rev (cg_revisions G))")
    case None
    then have "\<forall>r \<in> set (cg_revisions G). sr_uid r \<noteq> u" by (auto simp: find_None_iff)
    with None show ?thesis
      by (cases "revision_lookup G u") (auto simp: revision_lookup_iff [OF G])
  next
    case (Some r)
    then have "r \<in> set (rev (cg_revisions G))" "sr_uid r = u"
      by (auto simp: find_Some_iff simp del: set_rev)
    with Some show ?thesis using revision_lookup_iff [OF G, of u r] by simp
  qed
  finally show ?thesis .
qed

lemma validate_source_graphs_Ok_iff:
  assumes G: "cg_inv G"
  shows "validate_source_graphs X G = Inr () \<longleftrightarrow> source_graphs_ok X G"
proof -
  have one: "(case bget (revision_media_map G) r of None \<Rightarrow> Err (SG_UnknownSourceRevision r)
      | Some mt \<Rightarrow> validate_one_graph X r g (global_uid_index G) mt) = Inr () \<longleftrightarrow>
      (\<exists>rev \<in> set (cg_revisions G). sr_uid rev = r \<and> well_formed_forest X (sr_media_type rev) g)"
    if "(r, g) \<in> set (cg_source_graphs G)" for r g
  proof -
    have "sg_inv g" using that G by (auto simp: cg_inv_def of_revision_def)
    show ?thesis
    proof (cases "revision_lookup G r")
      case None
      then have "\<forall>rev \<in> set (cg_revisions G). sr_uid rev \<noteq> r"
        using revision_lookup_iff [OF G, of r] by auto
      with None show ?thesis by (simp add: revision_media_map_def bget_fold_revisions [OF G])
    next
      case (Some rev)
      have eq: "q \<in> set (cg_revisions G) \<and> sr_uid q = r \<longleftrightarrow> q = rev" for q
        unfolding revision_lookup_iff [OF G, of r q, symmetric] using Some by auto
      have "(\<exists>q \<in> set (cg_revisions G). sr_uid q = r \<and> well_formed_forest X (sr_media_type q) g)
          \<longleftrightarrow> well_formed_forest X (sr_media_type rev) g" using eq by (metis (no_types))
      with Some \<open>sg_inv g\<close> show ?thesis
        by (simp add: revision_media_map_def bget_fold_revisions [OF G] validate_one_graph_Ok_iff)
    qed
  qed
  have "validate_source_graphs X G = Inr () \<longleftrightarrow> (\<forall>e \<in> set (cg_source_graphs G).
      (case bget (revision_media_map G) (fst e) of None \<Rightarrow> Err (SG_UnknownSourceRevision (fst e))
       | Some mt \<Rightarrow> validate_one_graph X (fst e) (snd e) (global_uid_index G) mt) = Inr ())"
    by (simp add: validate_source_graphs_def Let_def for_each_Ok_iff split_beta)
  also have "\<dots> \<longleftrightarrow> source_graphs_ok X G"
    unfolding source_graphs_ok_def using one by (auto simp: split_beta)
  finally show ?thesis .
qed

definition patch_bound :: "platform \<Rightarrow> corpus_graph \<Rightarrow> source_patch_record \<Rightarrow> bool" where
  "patch_bound X G p \<longleftrightarrow> (\<exists>r \<in> set (cg_revisions G). sr_uid r = sp_source_revision_uid p)
    \<and> sp_pre_patch_graph_digest p = source_graph_digest X
        (case cg_source_graph G (sp_source_revision_uid p) of Some g \<Rightarrow> g | None \<Rightarrow> sg_new)
    \<and> (\<forall>oper \<in> set (sp_operations p). \<forall>t \<in> set (operation_targets oper).
         t \<in> set (inserted_uids p) \<or> locate G t = Some (sp_source_revision_uid p))"

lemma validate_source_patches_Ok_iff:
  "validate_source_patches X G = Inr () \<longleftrightarrow> (\<forall>p \<in> set (bvals (cg_source_patches G)). patch_bound X G p)"
proof -
  have "validate_target G p t = Inr () \<longleftrightarrow>
      t \<in> set (inserted_uids p) \<or> locate G t = Some (sp_source_revision_uid p)" for p t
    by (auto simp: validate_target_def split: option.splits)
  moreover have "validate_binding X G p = Inr () \<longleftrightarrow>
      (\<exists>r \<in> set (cg_revisions G). sr_uid r = sp_source_revision_uid p)
      \<and> sp_pre_patch_graph_digest p = source_graph_digest X
        (case cg_source_graph G (sp_source_revision_uid p) of Some g \<Rightarrow> g | None \<Rightarrow> sg_new)" for p
    by (auto simp: validate_binding_def Let_def rbind_Ok_iff fail_if_Ok_iff)
  ultimately show ?thesis
    by (simp add: validate_source_patches_def for_each_Ok_iff rbind_Ok_iff validate_targets_def
        patch_bound_def conj_assoc)
qed

definition corpus_ok :: "platform \<Rightarrow> corpus_graph \<Rightarrow> bool" where
  "corpus_ok X G \<longleftrightarrow> edges_resolve G \<and> (\<forall>r \<in> set (cg_reviews G). review_coherent G r)
    \<and> corrections_ok G \<and> lineage_ok G \<and> source_graphs_ok X G
    \<and> (\<forall>p \<in> set (bvals (cg_source_patches G)). patch_bound X G p)"

lemma cg_validate_Ok_iff:
  assumes "cg_inv G"
  shows "cg_validate X G = Inr () \<longleftrightarrow> corpus_ok X G"
  using validate_source_lineage_Ok_iff [OF assms] review_supersession_Ok_iff [OF assms]
  by (auto simp: cg_validate_def corpus_ok_def rbind_Ok_iff map_err_Ok_iff validate_edges_Ok_iff
      validate_review_nodes_Ok_iff validate_source_graphs_Ok_iff [OF assms]
      validate_source_patches_Ok_iff)

end
