(* ===== verification/Lifecycle.thy ===== *)
theory Lifecycle
  imports Corpus_Validation
begin

text \<open>
  What a review approves and what follows from it: the canonical requirement content
  (\<^verbatim>\<open>corpus/review_content.rs\<close>), the derived lifecycle of requirements
  (\<^verbatim>\<open>corpus/lifecycle.rs\<close>) and of curated patches (\<^verbatim>\<open>corpus/patch_lifecycle.rs\<close>).
\<close>

section \<open>Review content\<close>

record requirement_review_content_v1 =
  rc_title :: string
  rc_layer :: requirement_layer
  rc_description :: "string option"
  rc_rationale :: "string option"
  rc_scope :: "string option"
  rc_category :: "string option"
  rc_source :: "string option"
  rc_verification_methods :: "string list"
  rc_derives_from :: "string list"
  rc_safety_impact :: "string option"

definition canonicalize :: "requirement_review_content_v1 \<Rightarrow> requirement_review_content_v1" where
  "canonicalize c = c\<lparr>rc_verification_methods := canonical_strings (rc_verification_methods c),
     rc_derives_from := canonical_strings (rc_derives_from c)\<rparr>"

definition from_node :: "requirement_node \<Rightarrow> requirement_review_content_v1" where
  "from_node node = canonicalize
    \<lparr>rc_title = rq_title node, rc_layer = rq_layer node, rc_description = rq_description node,
     rc_rationale = rq_rationale node, rc_scope = rq_scope node, rc_category = rq_category node,
     rc_source = rq_source node, rc_verification_methods = rq_verification_methods node,
     rc_derives_from = map snd (filter (\<lambda>(kind, target). kind = DerivesFrom) (rq_edges node)),
     rc_safety_impact = rq_safety_impact node\<rparr>"

definition review_content :: "corpus_graph \<Rightarrow> uid \<Rightarrow> requirement_review_content_v1 option" where
  "review_content G u = (case cg_get G u of Some (Requirement node) \<Rightarrow> Some (from_node node) | _ \<Rightarrow> None)"

definition domain_tag_v1 :: bytes where
  "domain_tag_v1 = ''evidence/requirement-review-content/v1''"

definition canonical_bytes_v1 :: "requirement_review_content_v1 \<Rightarrow> bytes" where
  "canonical_bytes_v1 c =
    domain_tag_v1 @ [CHR 0x00]
      @ push_str (rc_title c)
      @ push_str (layer_as_str (rc_layer c))
      @ push_opt (rc_description c)
      @ push_opt (rc_rationale c)
      @ push_opt (rc_scope c)
      @ push_opt (rc_category c)
      @ push_opt (rc_source c)
      @ push_seq push_str (canonical_strings (rc_verification_methods c))
      @ push_seq push_str (canonical_strings (rc_derives_from c))
      @ push_opt (rc_safety_impact c)"

definition review_content_digest_v1 ::
  "platform \<Rightarrow> requirement_review_content_v1 \<Rightarrow> review_content_digest" where
  "review_content_digest_v1 X c = ReviewContentDigest (sha256 X (canonical_bytes_v1 c))"

section \<open>Requirement lifecycle\<close>

text \<open>\<^verbatim>\<open>derive_state\<close>: the three flags of the loop, then the decision.\<close>

record head_flags =
  hf_current_rejection :: bool
  hf_current_approval :: bool
  hf_older_approval :: bool

definition flag_head :: "string \<Rightarrow> review_node \<Rightarrow> head_flags \<Rightarrow> head_flags" where
  "flag_head current_digest head f =
    (let binds_current = rcd_str (rv_reviewed_content_sha256 head) = current_digest in
     case rv_decision head of
       Reject \<Rightarrow> if binds_current then f\<lparr>hf_current_rejection := True\<rparr> else f
     | Approve \<Rightarrow> if binds_current then f\<lparr>hf_current_approval := True\<rparr>
                  else f\<lparr>hf_older_approval := True\<rparr>)"

definition derive_state :: "review_node list \<Rightarrow> string \<Rightarrow> requirement_lifecycle" where
  "derive_state heads current_digest =
    (let f = fold (flag_head current_digest) heads
       \<lparr>hf_current_rejection = False, hf_current_approval = False, hf_older_approval = False\<rparr>
     in if hf_current_rejection f then Rejected
        else if hf_current_approval f then Approved
        else if hf_older_approval f then Stale
        else Candidate)"

record lifecycle_evaluation =
  le_requirement_uid :: uid
  le_state :: requirement_lifecycle
  le_current_digest :: review_content_digest
  le_effective_review_uids :: "uid list"

definition missing_requirement_error :: "corpus_graph \<Rightarrow> uid \<Rightarrow> lifecycle_error" where
  "missing_requirement_error G requirement_uid =
    (case reviews_for_requirement G requirement_uid of
       review # _ \<Rightarrow> LE_ApprovalTargetsMissingRequirement requirement_uid (rv_uid review)
     | [] \<Rightarrow> LE_RequirementMissing requirement_uid)"

definition requirement_heads :: "corpus_graph \<Rightarrow> uid \<Rightarrow> review_node list" where
  "requirement_heads G requirement_uid =
    filter (\<lambda>review. rv_uid review \<notin> superseded_review_uids G)
      (reviews_for_requirement G requirement_uid)"

definition evaluate_lifecycle_validated ::
  "platform \<Rightarrow> corpus_graph \<Rightarrow> uid \<Rightarrow> lifecycle_error + lifecycle_evaluation" where
  "evaluate_lifecycle_validated X G requirement_uid =
    (case review_content G requirement_uid of
       None \<Rightarrow> Err (missing_requirement_error G requirement_uid)
     | Some content \<Rightarrow>
        let current_digest = review_content_digest_v1 X content;
            heads = requirement_heads G requirement_uid
        in Ok \<lparr>le_requirement_uid = requirement_uid,
               le_state = derive_state heads (rcd_str current_digest),
               le_current_digest = current_digest,
               le_effective_review_uids = map rv_uid heads\<rparr>)"

definition evaluate_lifecycle ::
  "platform \<Rightarrow> corpus_graph \<Rightarrow> uid \<Rightarrow> lifecycle_error + lifecycle_evaluation" where
  "evaluate_lifecycle X G requirement_uid =
    rbind (map_err LE_InvalidGraph (cg_validate X G)) (\<lambda>_.
    evaluate_lifecycle_validated X G requirement_uid)"

text \<open>\<^verbatim>\<open>matches!(graph.get(uid), Some(Node::Requirement(_)))\<close>.\<close>

definition is_requirement :: "corpus_graph \<Rightarrow> uid \<Rightarrow> bool" where
  "is_requirement G u = (case cg_get G u of Some (Requirement _) \<Rightarrow> True | _ \<Rightarrow> False)"

definition check_review_target :: "corpus_graph \<Rightarrow> review_node \<Rightarrow> lifecycle_error + unit" where
  "check_review_target G review =
    (case rv_target review of
       RequirementTarget u \<Rightarrow> fail_if (\<not> is_requirement G u)
         (LE_ApprovalTargetsMissingRequirement u (rv_uid review))
     | CuratedPatchTarget _ \<Rightarrow> Ok ())"

fun as_requirement :: "node \<Rightarrow> requirement_node option" where
  "as_requirement (Requirement r) = Some r"
| "as_requirement _ = None"

definition cg_requirements :: "corpus_graph \<Rightarrow> requirement_node list" where
  "cg_requirements G = List.map_filter as_requirement (cg_node_list G)"

definition evaluate_all_lifecycles ::
  "platform \<Rightarrow> corpus_graph \<Rightarrow> lifecycle_error + (uid, lifecycle_evaluation) bmap" where
  "evaluate_all_lifecycles X G =
    rbind (map_err LE_InvalidGraph (cg_validate X G)) (\<lambda>_.
    rbind (for_each (check_review_target G) (cg_reviews G)) (\<lambda>_.
    fold_res (\<lambda>evaluations requirement.
      rbind (evaluate_lifecycle_validated X G (rq_uid requirement)) (\<lambda>evaluation.
      Ok (bins (rq_uid requirement) evaluation evaluations))) [] (cg_requirements G)))"

section \<open>Patch lifecycle\<close>

record patch_lifecycle_evaluation =
  pe_patch_uid :: uid
  pe_state :: requirement_lifecycle
  pe_current_digest :: structural_content_digest
  pe_effective_review_uids :: "uid list"

datatype patch_lifecycle_error =
    PLE_InvalidGraph corpus_error
  | PLE_PatchMissing uid
  | PLE_ReviewTargetsMissingPatch uid uid

definition missing_patch_error :: "corpus_graph \<Rightarrow> uid \<Rightarrow> patch_lifecycle_error" where
  "missing_patch_error G patch_uid =
    (case reviews_for_patch G patch_uid of
       review # _ \<Rightarrow> PLE_ReviewTargetsMissingPatch patch_uid (rv_uid review)
     | [] \<Rightarrow> PLE_PatchMissing patch_uid)"

definition patch_heads :: "corpus_graph \<Rightarrow> uid \<Rightarrow> review_node list" where
  "patch_heads G patch_uid =
    filter (\<lambda>review. rv_uid review \<notin> superseded_review_uids G) (reviews_for_patch G patch_uid)"

definition evaluate_patch_lifecycle_validated ::
  "corpus_graph \<Rightarrow> uid \<Rightarrow> patch_lifecycle_error + patch_lifecycle_evaluation" where
  "evaluate_patch_lifecycle_validated G patch_uid =
    (case cg_source_patch G patch_uid of
       None \<Rightarrow> Err (missing_patch_error G patch_uid)
     | Some patch \<Rightarrow>
        let current_digest = sp_reviewed_content_digest patch;
            heads = patch_heads G patch_uid
        in Ok \<lparr>pe_patch_uid = patch_uid,
               pe_state = derive_state heads (std_str current_digest),
               pe_current_digest = current_digest,
               pe_effective_review_uids = map rv_uid heads\<rparr>)"

definition evaluate_patch_lifecycle ::
  "platform \<Rightarrow> corpus_graph \<Rightarrow> uid \<Rightarrow> patch_lifecycle_error + patch_lifecycle_evaluation" where
  "evaluate_patch_lifecycle X G patch_uid =
    rbind (map_err PLE_InvalidGraph (cg_validate X G)) (\<lambda>_.
    evaluate_patch_lifecycle_validated G patch_uid)"

definition check_patch_target :: "corpus_graph \<Rightarrow> review_node \<Rightarrow> patch_lifecycle_error + unit" where
  "check_patch_target G review =
    (case rv_target review of
       CuratedPatchTarget u \<Rightarrow> fail_if (cg_source_patch G u = None)
         (PLE_ReviewTargetsMissingPatch u (rv_uid review))
     | RequirementTarget _ \<Rightarrow> Ok ())"

definition evaluate_all_patch_lifecycles ::
  "platform \<Rightarrow> corpus_graph \<Rightarrow> patch_lifecycle_error + (uid, patch_lifecycle_evaluation) bmap" where
  "evaluate_all_patch_lifecycles X G =
    rbind (map_err PLE_InvalidGraph (cg_validate X G)) (\<lambda>_.
    rbind (for_each (check_patch_target G) (cg_reviews G)) (\<lambda>_.
    fold_res (\<lambda>evaluations patch_uid.
      rbind (evaluate_patch_lifecycle_validated G patch_uid) (\<lambda>evaluation.
      Ok (bins patch_uid evaluation evaluations))) [] (bkeys (cg_source_patches G))))"

section \<open>What the canonical content binds\<close>

definition content_fits :: "requirement_review_content_v1 \<Rightarrow> bool" where
  "content_fits c \<longleftrightarrow> fits (rc_title c) \<and> fits_opt (rc_description c) \<and> fits_opt (rc_rationale c)
    \<and> fits_opt (rc_scope c) \<and> fits_opt (rc_category c) \<and> fits_opt (rc_source c)
    \<and> fits_opt (rc_safety_impact c)
    \<and> length (canonical_strings (rc_verification_methods c)) < 2 ^ 63
    \<and> length (canonical_strings (rc_derives_from c)) < 2 ^ 63
    \<and> (\<forall>s \<in> set (rc_verification_methods c) \<union> set (rc_derives_from c). fits s)"

lemma set_canonical_strings [simp]: "set (canonical_strings xs) = set xs"
  by (simp add: canonical_strings_def)

lemma canonical_strings_strict: "sorted_wrt (<) (canonical_strings xs)"
  by (simp add: canonical_strings_def dedup_sorted_strict)

lemma canonical_strings_eq_iff: "canonical_strings xs = canonical_strings ys \<longleftrightarrow> set xs = set ys"
  using strict_sorted_set_unique [OF canonical_strings_strict canonical_strings_strict, of xs ys]
  by (auto dest: arg_cong [of _ _ set])

lemma canonical_strings_idem [simp]: "canonical_strings (canonical_strings xs) = canonical_strings xs"
  by (simp add: canonical_strings_eq_iff)

lemma fits_layer [simp]: "fits (layer_as_str l)"
  by (cases l) (simp_all add: fits_def)

lemma canonical_bytes_canonicalize [simp]: "canonical_bytes_v1 (canonicalize c) = canonical_bytes_v1 c"
  by (simp add: canonical_bytes_v1_def canonicalize_def)

lemma canonical_bytes_inj:
  assumes c: "content_fits c" and d: "content_fits d"
  shows "canonical_bytes_v1 c = canonical_bytes_v1 d \<longleftrightarrow> canonicalize c = canonicalize d"
proof
  assume "canonical_bytes_v1 c = canonical_bytes_v1 d"
  then have f: "rc_title c = rc_title d" "layer_as_str (rc_layer c) = layer_as_str (rc_layer d)"
      "rc_description c = rc_description d" "rc_rationale c = rc_rationale d"
      "rc_scope c = rc_scope d" "rc_category c = rc_category d" "rc_source c = rc_source d"
    and rest: "push_seq push_str (canonical_strings (rc_verification_methods c))
        @ push_seq push_str (canonical_strings (rc_derives_from c)) @ push_opt (rc_safety_impact c)
      = push_seq push_str (canonical_strings (rc_verification_methods d))
        @ push_seq push_str (canonical_strings (rc_derives_from d)) @ push_opt (rc_safety_impact d)"
    using c d by (auto simp: canonical_bytes_v1_def content_fits_def str.split_iff opt.split_iff)
  have m: "canonical_strings (rc_verification_methods c) = canonical_strings (rc_verification_methods d) \<and>
      push_seq push_str (canonical_strings (rc_derives_from c)) @ push_opt (rc_safety_impact c)
      = push_seq push_str (canonical_strings (rc_derives_from d)) @ push_opt (rc_safety_impact d)"
    by (rule str.push_seq_split [OF _ _ _ _ rest]) (use c d in \<open>auto simp: content_fits_def\<close>)
  have t: "canonical_strings (rc_derives_from c) = canonical_strings (rc_derives_from d) \<and>
      push_opt (rc_safety_impact c) = push_opt (rc_safety_impact d)"
    by (rule str.push_seq_split [OF _ _ _ _ conjunct2 [OF m]])
      (use c d in \<open>auto simp: content_fits_def\<close>)
  then have "rc_safety_impact c = rc_safety_impact d"
    using c d by (auto simp: content_fits_def opt.injective)
  with f m t show "canonicalize c = canonicalize d"
    by (simp add: canonicalize_def layer_as_str_inj)
next
  assume "canonicalize c = canonicalize d"
  then show "canonical_bytes_v1 c = canonical_bytes_v1 d"
    by (metis canonical_bytes_canonicalize)
qed

section \<open>What the derived state is\<close>

lemma fold_flag_head:
  "fold (flag_head d) heads f =
    \<lparr>hf_current_rejection = (hf_current_rejection f \<or>
       (\<exists>h \<in> set heads. rv_decision h = Reject \<and> rcd_str (rv_reviewed_content_sha256 h) = d)),
     hf_current_approval = (hf_current_approval f \<or>
       (\<exists>h \<in> set heads. rv_decision h = Approve \<and> rcd_str (rv_reviewed_content_sha256 h) = d)),
     hf_older_approval = (hf_older_approval f \<or>
       (\<exists>h \<in> set heads. rv_decision h = Approve \<and> rcd_str (rv_reviewed_content_sha256 h) \<noteq> d))\<rparr>"
  by (induction heads arbitrary: f)
    (auto simp: flag_head_def Let_def split: review_decision.splits)

text \<open>The state as a specification over the set of heads, without a loop.\<close>

definition decided :: "review_node set \<Rightarrow> review_decision \<Rightarrow> string \<Rightarrow> bool" where
  "decided heads decision d \<longleftrightarrow>
    (\<exists>h \<in> heads. rv_decision h = decision \<and> rcd_str (rv_reviewed_content_sha256 h) = d)"

definition lifecycle_spec :: "review_node set \<Rightarrow> string \<Rightarrow> requirement_lifecycle" where
  "lifecycle_spec heads d =
    (if decided heads Reject d then Rejected
     else if decided heads Approve d then Approved
     else if \<exists>h \<in> heads. rv_decision h = Approve then Stale
     else Candidate)"

lemma derive_state_spec: "derive_state heads d = lifecycle_spec (set heads) d"
  by (auto simp: derive_state_def Let_def fold_flag_head lifecycle_spec_def decided_def)

end
