(* ===== verification/Approval.thy ===== *)
theory Approval
  imports Lifecycle
begin

text \<open>
  The two consumers of the lifecycles: the effective graph of a source revision
  (\<^verbatim>\<open>corpus/effective_graph.rs\<close>) and the approval boundary
  (\<^verbatim>\<open>corpus/approval_boundary.rs\<close>).
\<close>

section \<open>The effective graph\<close>

record effective_graph =
  eg_source_revision_uid :: uid
  eg_graph :: source_graph
  eg_applied_patch_uids :: "uid list"

datatype effective_graph_error =
    EG_Lifecycle patch_lifecycle_error
  | EG_UnknownSourceRevision uid
  | EG_ApprovedPatchApplication uid source_patch_error

text \<open>The committed graph of a revision, the empty graph when none was loaded.\<close>

definition parser_graph :: "corpus_graph \<Rightarrow> uid \<Rightarrow> source_graph" where
  "parser_graph G r = (case cg_source_graph G r of Some g \<Rightarrow> g | None \<Rightarrow> sg_new)"

definition patch_approved :: "(uid, patch_lifecycle_evaluation) bmap \<Rightarrow> uid \<Rightarrow> bool" where
  "patch_approved evaluations u =
    (case bget evaluations u of Some evaluation \<Rightarrow> pe_state evaluation = Approved | None \<Rightarrow> False)"

text \<open>One turn of the loop over the patches; the state is the working graph with the uids
  applied so far.\<close>

definition effective_step ::
  "platform \<Rightarrow> (uid, patch_lifecycle_evaluation) bmap \<Rightarrow> uid \<Rightarrow> patch_bindings \<Rightarrow> string
    \<Rightarrow> source_graph \<times> uid list \<Rightarrow> source_patch_record
    \<Rightarrow> effective_graph_error + source_graph \<times> uid list" where
  "effective_step X evaluations source_revision_uid bindings media_type st patch =
    (case st of (working, applied) \<Rightarrow>
      if sp_source_revision_uid patch \<noteq> source_revision_uid then Ok (working, applied)
      else if \<not> patch_approved evaluations (sp_uid patch) then Ok (working, applied)
      else rbind (map_err (EG_ApprovedPatchApplication (sp_uid patch))
             (apply_patch X working patch bindings media_type)) (\<lambda>application.
           Ok (pa_graph application, applied @ [sp_uid patch])))"

definition effective_source_graph ::
  "platform \<Rightarrow> corpus_graph \<Rightarrow> uid \<Rightarrow> patch_bindings \<Rightarrow> string
    \<Rightarrow> effective_graph_error + effective_graph" where
  "effective_source_graph X G source_revision_uid bindings media_type =
    rbind (map_err EG_Lifecycle (evaluate_all_patch_lifecycles X G)) (\<lambda>evaluations.
    rbind (fail_if (\<not> (\<exists>r \<in> set (cg_revisions G). sr_uid r = source_revision_uid))
      (EG_UnknownSourceRevision source_revision_uid)) (\<lambda>_.
    rbind (fold_res (effective_step X evaluations source_revision_uid bindings media_type)
      (parser_graph G source_revision_uid, []) (bvals (cg_source_patches G))) (\<lambda>(working, applied).
    Ok \<lparr>eg_source_revision_uid = source_revision_uid, eg_graph = working,
        eg_applied_patch_uids = applied\<rparr>)))"

section \<open>The approval boundary\<close>

datatype referring_artifact =
    VerifyingTest uid string
  | ImplementationModules "string list"
  | EmittedDiagnostics "string list"

text \<open>The derived order: the constructor, then its fields.\<close>

fun referring_key :: "referring_artifact \<Rightarrow> nat \<times> string list" where
  "referring_key (VerifyingTest u i) = (0, [u, i])"
| "referring_key (ImplementationModules ms) = (1, ms)"
| "referring_key (EmittedDiagnostics cs) = (2, cs)"

lemma referring_key_inj: "referring_key a = referring_key b \<longleftrightarrow> a = b"
  by (cases a; cases b) auto

instantiation referring_artifact :: linorder
begin

definition less_eq_referring_artifact :: "referring_artifact \<Rightarrow> referring_artifact \<Rightarrow> bool" where
  "less_eq_referring_artifact a b \<longleftrightarrow> referring_key a \<le> referring_key b"

definition less_referring_artifact :: "referring_artifact \<Rightarrow> referring_artifact \<Rightarrow> bool" where
  "less_referring_artifact a b \<longleftrightarrow> referring_key a < referring_key b"

instance
proof
  fix a b c :: referring_artifact
  show "a < b \<longleftrightarrow> a \<le> b \<and> \<not> b \<le> a"
    by (auto simp: less_eq_referring_artifact_def less_referring_artifact_def)
  show "a \<le> a" by (simp add: less_eq_referring_artifact_def)
  show "a \<le> b \<Longrightarrow> b \<le> c \<Longrightarrow> a \<le> c"
    unfolding less_eq_referring_artifact_def by (rule order_trans)
  show "a \<le> b \<Longrightarrow> b \<le> a \<Longrightarrow> a = b"
    unfolding less_eq_referring_artifact_def using referring_key_inj by (metis order_antisym)
  show "a \<le> b \<or> b \<le> a"
    unfolding less_eq_referring_artifact_def by (rule linear)
qed

end

record approval_boundary_violation =
  av_requirement_uid :: uid
  av_requirement_id :: string
  av_state :: requirement_lifecycle
  av_referring :: referring_artifact

fun lifecycle_as_str :: "requirement_lifecycle \<Rightarrow> string" where
  "lifecycle_as_str Candidate = ''candidate''"
| "lifecycle_as_str Approved = ''approved''"
| "lifecycle_as_str Rejected = ''rejected''"
| "lifecycle_as_str Stale = ''stale''"

definition violation_text :: "approval_boundary_violation \<Rightarrow> string" where
  "violation_text v =
    ''requirement '' @ av_requirement_uid v @ '' ('' @ av_requirement_id v @ '') is ''
      @ lifecycle_as_str (av_state v)
      @ (case av_referring v of
           VerifyingTest u i \<Rightarrow> ''; claimed by verifying test '' @ u @ '' ('' @ i @ '')''
         | ImplementationModules ms \<Rightarrow> ''; claims implementation modules '' @ join_with '', '' ms
         | EmittedDiagnostics cs \<Rightarrow> ''; claims emitted diagnostic codes '' @ join_with '', '' cs)"

definition render_violations :: "approval_boundary_violation list \<Rightarrow> string" where
  "render_violations violations = join_with [CHR 0x0A] (map violation_text violations)"

datatype approval_boundary_error =
    AB_Violations "approval_boundary_violation list"
  | AB_Lifecycle lifecycle_error
  | AB_InvariantMissingEvaluation uid
  | AB_PatchLifecycle patch_lifecycle_error
  | AB_EffectiveCuratedContent uid source_patch_error
  | AB_InvariantMissingPatchEvaluation uid

datatype lifecycle_enforcement = Required

definition scan_edge ::
  "corpus_graph \<Rightarrow> (uid, lifecycle_evaluation) bmap \<Rightarrow> test_node
    \<Rightarrow> approval_boundary_violation list \<Rightarrow> edge_kind \<times> uid
    \<Rightarrow> approval_boundary_error + approval_boundary_violation list" where
  "scan_edge G evaluations test violations edge =
    (case edge of (kind, target) \<Rightarrow>
      if kind \<noteq> Verifies then Ok violations
      else case (cg_get G target, bget evaluations target) of
        (Some found, Some evaluation) \<Rightarrow>
          if le_state evaluation = Approved then Ok violations
          else Ok (violations @ [\<lparr>av_requirement_uid = target, av_requirement_id = node_id found,
                 av_state = le_state evaluation, av_referring = VerifyingTest (ts_uid test) (ts_id test)\<rparr>])
      | _ \<Rightarrow> Err (AB_Lifecycle (LE_RequirementMissing target)))"

definition metadata_violations ::
  "requirement_node \<Rightarrow> requirement_lifecycle \<Rightarrow> requirement_metadata
    \<Rightarrow> approval_boundary_violation list" where
  "metadata_violations requirement state metadata =
    (if rm_modules metadata = [] then [] else
       [\<lparr>av_requirement_uid = rq_uid requirement, av_requirement_id = rq_id requirement,
         av_state = state, av_referring = ImplementationModules (rm_modules metadata)\<rparr>])
    @ (if rm_emits metadata = [] then [] else
       [\<lparr>av_requirement_uid = rq_uid requirement, av_requirement_id = rq_id requirement,
         av_state = state, av_referring = EmittedDiagnostics (rm_emits metadata)\<rparr>])"

fun scan_node ::
  "corpus_graph \<Rightarrow> (uid, lifecycle_evaluation) bmap \<Rightarrow> approval_boundary_violation list \<Rightarrow> node
    \<Rightarrow> approval_boundary_error + approval_boundary_violation list" where
  "scan_node G evaluations violations (Test test) =
    fold_res (scan_edge G evaluations test) violations (ts_edges test)"
| "scan_node G evaluations violations (Requirement requirement) =
    (case bget evaluations (rq_uid requirement) of
       None \<Rightarrow> Err (AB_InvariantMissingEvaluation (rq_uid requirement))
     | Some evaluation \<Rightarrow>
        if le_state evaluation = Approved then Ok violations
        else case trace_metadata_of G (rq_uid requirement) of
            Some (RequirementMeta metadata) \<Rightarrow>
              Ok (violations @ metadata_violations requirement (le_state evaluation) metadata)
          | _ \<Rightarrow> Ok violations)"
| "scan_node G evaluations violations (Review review) = Ok violations"
| "scan_node G evaluations violations (SourceRevision revision) = Ok violations"

definition check_approved_patch ::
  "platform \<Rightarrow> corpus_graph \<Rightarrow> (uid, patch_lifecycle_evaluation) bmap \<Rightarrow> source_patch_record
    \<Rightarrow> approval_boundary_error + unit" where
  "check_approved_patch X G patch_evaluations patch =
    (case bget patch_evaluations (sp_uid patch) of
       None \<Rightarrow> Err (AB_InvariantMissingPatchEvaluation (sp_uid patch))
     | Some evaluation \<Rightarrow>
        if pe_state evaluation \<noteq> Approved then Ok ()
        else case cg_get G (sp_source_revision_uid patch) of
            Some (SourceRevision revision) \<Rightarrow>
              rbind (map_err (AB_EffectiveCuratedContent (sp_uid patch))
                (apply_patch X (parser_graph G (sp_source_revision_uid patch)) patch
                  \<lparr>pb_recipe_digest = sp_recipe_digest patch, pb_input_digest = sp_input_digest patch\<rparr>
                  (sr_media_type revision))) (\<lambda>_. Ok ())
          | _ \<Rightarrow> Err (AB_InvariantMissingPatchEvaluation (sp_uid patch)))"

definition validate_effective_curated_content ::
  "platform \<Rightarrow> corpus_graph \<Rightarrow> approval_boundary_error + unit" where
  "validate_effective_curated_content X G =
    rbind (map_err AB_PatchLifecycle (evaluate_all_patch_lifecycles X G)) (\<lambda>patch_evaluations.
    for_each (check_approved_patch X G patch_evaluations) (bvals (cg_source_patches G)))"

definition validate_required :: "platform \<Rightarrow> corpus_graph \<Rightarrow> approval_boundary_error + unit" where
  "validate_required X G =
    rbind (map_err AB_Lifecycle (evaluate_all_lifecycles X G)) (\<lambda>evaluations.
    rbind (fold_res (scan_node G evaluations) [] (cg_node_list G)) (\<lambda>violations.
    let sorted_violations = sort_key (\<lambda>v. (av_requirement_uid v, av_referring v)) violations in
    rbind (fail_if (sorted_violations \<noteq> []) (AB_Violations sorted_violations)) (\<lambda>_.
    validate_effective_curated_content X G)))"

fun validate_approval_boundary ::
  "platform \<Rightarrow> corpus_graph \<Rightarrow> lifecycle_enforcement \<Rightarrow> approval_boundary_error + unit" where
  "validate_approval_boundary X G Required = validate_required X G"

end
