(* ===== verification/Lifecycle_Spec.thy ===== *)
theory Lifecycle_Spec
  imports Approval
begin

text \<open>
  What the lifecycle evaluators return on an accepted corpus, and what the approval boundary and
  the effective graph make of it.
\<close>

section \<open>Loops that fill a map\<close>

lemma fold_res_map_Ok:
  assumes "\<And>x. x \<in> set xs \<Longrightarrow> g x = Inr (h x)"
  shows "fold_res (\<lambda>m x. rbind (g x) (\<lambda>y. Inr (bins (k x) y m))) m xs
    = Inr (fold (\<lambda>x. bins (k x) (h x)) xs m)"
  using assms by (induction xs arbitrary: m) (simp_all add: rbind_def)

lemma bget_fold_bins_distinct:
  assumes "distinct (map k xs)" "x \<in> set xs"
  shows "bget (fold (\<lambda>x. bins (k x) (h x)) xs []) (k x) = Some (h x)"
proof -
  have "find (\<lambda>y. k y = k x) (rev xs) = Some x"
  proof (cases "find (\<lambda>y. k y = k x) (rev xs)")
    case None
    with assms(2) show ?thesis by (auto simp: find_None_iff)
  next
    case (Some y)
    then have y: "y \<in> set (rev xs)" "k y = k x"
      by (auto simp: find_Some_iff simp del: set_rev)
    with assms have "y = x" by (auto simp: distinct_map dest: inj_onD)
    with Some show ?thesis by simp
  qed
  then show ?thesis by (simp add: bget_fold_bins)
qed

lemma bwf_fold_evaluations [simp]: "bwf m \<Longrightarrow> bwf (fold (\<lambda>x. bins (k x) (h x)) xs m)"
  by (induction xs arbitrary: m) simp_all

section \<open>Requirement lifecycles\<close>

text \<open>The live reviews of a requirement: the heads of the supersession chains over it.\<close>

definition live_reviews :: "corpus_graph \<Rightarrow> review_target \<Rightarrow> review_node set" where
  "live_reviews G target = {r \<in> set (cg_reviews G).
     rv_target r = target \<and> rv_uid r \<notin> Range (review_rel G)}"

definition requirement_state :: "platform \<Rightarrow> corpus_graph \<Rightarrow> requirement_node \<Rightarrow> requirement_lifecycle" where
  "requirement_state X G q = lifecycle_spec (live_reviews G (RequirementTarget (rq_uid q)))
     (rcd_str (review_content_digest_v1 X (from_node q)))"

definition patch_state :: "corpus_graph \<Rightarrow> source_patch_record \<Rightarrow> requirement_lifecycle" where
  "patch_state G p = lifecycle_spec (live_reviews G (CuratedPatchTarget (sp_uid p)))
     (std_str (sp_reviewed_content_digest p))"

lemma superseded_Range:
  "cg_inv G \<Longrightarrow> v \<in> superseded_review_uids G \<longleftrightarrow> v \<in> Range (review_rel G)"
  by (simp add: superseded_review_uids_def Range_iff review_rel_iff) blast

lemma set_requirement_heads:
  "cg_inv G \<Longrightarrow> set (requirement_heads G u) = live_reviews G (RequirementTarget u)"
  by (auto simp: requirement_heads_def reviews_for_requirement_def live_reviews_def superseded_Range)

lemma set_patch_heads: "cg_inv G \<Longrightarrow> set (patch_heads G u) = live_reviews G (CuratedPatchTarget u)"
  by (auto simp: patch_heads_def reviews_for_patch_def live_reviews_def superseded_Range)

lemma as_requirement_Some [simp]: "as_requirement n = Some r \<longleftrightarrow> n = Requirement r"
  by (cases n) auto

lemma cg_requirements_iff:
  "cg_inv G \<Longrightarrow> r \<in> set (cg_requirements G) \<longleftrightarrow> cg_get G (rq_uid r) = Some (Requirement r)"
proof -
  assume G: "cg_inv G"
  have "r \<in> set (cg_requirements G) \<longleftrightarrow> Requirement r \<in> set (cg_node_list G)"
    by (auto simp: cg_requirements_def List.map_filter_def elim!: as_requirement.elims intro!: image_eqI)
  with cg_nodes_iff_get [OF G, of "Requirement r"] show ?thesis by simp
qed

definition requirement_evaluation ::
  "platform \<Rightarrow> corpus_graph \<Rightarrow> requirement_node \<Rightarrow> lifecycle_evaluation" where
  "requirement_evaluation X G q = \<lparr>le_requirement_uid = rq_uid q,
     le_state = requirement_state X G q,
     le_current_digest = review_content_digest_v1 X (from_node q),
     le_effective_review_uids = map rv_uid (requirement_heads G (rq_uid q))\<rparr>"

lemma evaluate_requirement:
  "cg_inv G \<Longrightarrow> cg_get G (rq_uid q) = Some (Requirement q) \<Longrightarrow>
    evaluate_lifecycle_validated X G (rq_uid q) = Inr (requirement_evaluation X G q)"
  by (simp add: evaluate_lifecycle_validated_def review_content_def requirement_evaluation_def
      Let_def derive_state_spec set_requirement_heads requirement_state_def)

lemma review_targets_present:
  assumes "corpus_ok X G"
  shows "for_each (check_review_target G) (cg_reviews G) = Inr ()"
    "for_each (check_patch_target G) (cg_reviews G) = Inr ()"
proof -
  have "check_review_target G r = Inr () \<and> check_patch_target G r = Inr ()"
    if "r \<in> set (cg_reviews G)" for r
  proof -
    have "review_coherent G r" using assms that by (simp add: corpus_ok_def)
    then show ?thesis
      by (cases "rv_target r")
        (auto simp: review_coherent_def check_review_target_def check_patch_target_def is_requirement_def)
  qed
  then show "for_each (check_review_target G) (cg_reviews G) = Inr ()"
    "for_each (check_patch_target G) (cg_reviews G) = Inr ()"
    by (simp_all add: for_each_Ok_iff del: for_each.simps)
qed

lemma evaluate_all_on_accepted:
  assumes G: "cg_inv G" and ok: "cg_validate X G = Inr ()"
  shows "\<exists>evs. evaluate_all_lifecycles X G = Inr evs \<and> bwf evs \<and>
    (\<forall>u. bget evs u = (case cg_get G u of
        Some (Requirement q) \<Rightarrow> Some (requirement_evaluation X G q) | _ \<Rightarrow> None))"
proof -
  let ?evs = "fold (\<lambda>q. bins (rq_uid q) (requirement_evaluation X G q)) (cg_requirements G) []"
  have "evaluate_lifecycle_validated X G (rq_uid q) = Inr (requirement_evaluation X G q)"
    if "q \<in> set (cg_requirements G)" for q
    using that by (intro evaluate_requirement [OF G]) (simp add: cg_requirements_iff [OF G])
  then have run: "evaluate_all_lifecycles X G = Inr ?evs"
    using ok review_targets_present(1) [of X G] cg_validate_Ok_iff [OF G, of X]
    by (simp add: evaluate_all_lifecycles_def rbind_def fold_res_map_Ok [unfolded rbind_def])
  have dist: "distinct (map rq_uid (cg_requirements G))"
    unfolding cg_requirements_def
    by (rule distinct_map_filter_by) (auto intro: cg_node_uids_distinct [OF G])
  have get: "bget ?evs u = (case cg_get G u of
        Some (Requirement q) \<Rightarrow> Some (requirement_evaluation X G q) | _ \<Rightarrow> None)" for u
  proof (cases "\<exists>q. cg_get G u = Some (Requirement q)")
    case True
    then obtain q where q: "cg_get G u = Some (Requirement q)" by blast
    then have uid: "rq_uid q = u" using cg_get_uid [OF G] by fastforce
    with q have "q \<in> set (cg_requirements G)" by (simp add: cg_requirements_iff [OF G])
    from bget_fold_bins_distinct [OF dist this] show ?thesis using q uid by simp
  next
    case False
    then have "\<forall>q \<in> set (cg_requirements G). rq_uid q \<noteq> u"
      by (auto simp: cg_requirements_iff [OF G])
    then have "find (\<lambda>q. rq_uid q = u) (rev (cg_requirements G)) = None"
      by (simp add: find_None_iff)
    then have "bget ?evs u = None" by (simp add: bget_fold_bins)
    with False show ?thesis by (auto split: option.splits node.splits)
  qed
  show ?thesis using run get by (intro exI [of _ ?evs]) simp
qed

section \<open>Patch lifecycles\<close>

definition patch_evaluation :: "corpus_graph \<Rightarrow> source_patch_record \<Rightarrow> patch_lifecycle_evaluation" where
  "patch_evaluation G p = \<lparr>pe_patch_uid = sp_uid p, pe_state = patch_state G p,
     pe_current_digest = sp_reviewed_content_digest p,
     pe_effective_review_uids = map rv_uid (patch_heads G (sp_uid p))\<rparr>"

lemma cg_source_patch_uid: "cg_inv G \<Longrightarrow> cg_source_patch G u = Some p \<Longrightarrow> sp_uid p = u"
  by (auto simp: cg_inv_def cg_source_patch_def dest: bget_Some_in)

lemma cg_patches_iff:
  assumes G: "cg_inv G"
  shows "p \<in> set (bvals (cg_source_patches G)) \<longleftrightarrow> cg_source_patch G (sp_uid p) = Some p"
proof
  assume "p \<in> set (bvals (cg_source_patches G))"
  then obtain u where u: "(u, p) \<in> set (cg_source_patches G)" by (auto simp: bvals_def)
  then have "sp_uid p = u" using G by (auto simp: cg_inv_def)
  with u G show "cg_source_patch G (sp_uid p) = Some p"
    by (simp add: cg_inv_def cg_source_patch_def bget_iff_in)
qed (simp add: cg_source_patch_def bget_in_bvals)

lemma evaluate_patches_on_accepted:
  assumes G: "cg_inv G" and ok: "cg_validate X G = Inr ()"
  shows "\<exists>evs. evaluate_all_patch_lifecycles X G = Inr evs \<and> bwf evs \<and>
    (\<forall>u. bget evs u = map_option (patch_evaluation G) (cg_source_patch G u))"
proof -
  let ?ev = "\<lambda>u. patch_evaluation G (the (cg_source_patch G u))"
  let ?us = "bkeys (cg_source_patches G)"
  let ?evs = "fold (\<lambda>u. bins u (?ev u)) ?us []"
  have present: "\<exists>p. cg_source_patch G u = Some p" if "u \<in> set ?us" for u
    using that by (cases "cg_source_patch G u") (auto simp: cg_source_patch_def bget_None_iff bkeys_def)
  have "evaluate_patch_lifecycle_validated G u = Inr (?ev u)" if "u \<in> set ?us" for u
    using present [OF that] cg_source_patch_uid [OF G]
    by (auto simp: evaluate_patch_lifecycle_validated_def patch_evaluation_def Let_def
        derive_state_spec set_patch_heads [OF G] patch_state_def)
  then have run: "evaluate_all_patch_lifecycles X G = Inr ?evs"
    using ok review_targets_present(2) [of X G] cg_validate_Ok_iff [OF G, of X]
    by (simp add: evaluate_all_patch_lifecycles_def rbind_def fold_res_map_Ok [unfolded rbind_def])
  have dist: "distinct (map (\<lambda>u. u) ?us)"
    using G by (simp add: cg_inv_def bkeys_def bwf_distinct)
  have get: "bget ?evs u = map_option (patch_evaluation G) (cg_source_patch G u)" for u
  proof (cases "u \<in> set ?us")
    case True
    from bget_fold_bins_distinct [OF dist this, of ?ev] present [OF True] show ?thesis by auto
  next
    case False
    then have "cg_source_patch G u = None"
      by (simp add: cg_source_patch_def bget_None_iff bkeys_def)
    moreover have "find (\<lambda>v. v = u) (rev ?us) = None" using False by (auto simp: find_None_iff)
    ultimately show ?thesis by (simp add: bget_fold_bins)
  qed
  show ?thesis using run get by (intro exI [of _ ?evs]) simp
qed

section \<open>The approval boundary\<close>

text \<open>The claims the boundary gates: the requirements a test verifies, and the requirements whose
  metadata name modules or emitted codes.\<close>

definition gated :: "corpus_graph \<Rightarrow> requirement_node \<Rightarrow> bool" where
  "gated G q \<longleftrightarrow>
    (\<exists>t. Test t \<in> set (cg_node_list G) \<and> (Verifies, rq_uid q) \<in> set (ts_edges t)) \<or>
    (\<exists>m. trace_metadata_of G (rq_uid q) = Some (RequirementMeta m) \<and>
       (rm_modules m \<noteq> [] \<or> rm_emits m \<noteq> []))"

text \<open>What one node contributes to the violations.\<close>

definition edge_violations ::
  "corpus_graph \<Rightarrow> (uid, lifecycle_evaluation) bmap \<Rightarrow> test_node \<Rightarrow> edge_kind \<times> uid
    \<Rightarrow> approval_boundary_violation list" where
  "edge_violations G evs t e =
    (if fst e \<noteq> Verifies \<or> le_state (the (bget evs (snd e))) = Approved then []
     else [\<lparr>av_requirement_uid = snd e, av_requirement_id = node_id (the (cg_get G (snd e))),
            av_state = le_state (the (bget evs (snd e))),
            av_referring = VerifyingTest (ts_uid t) (ts_id t)\<rparr>])"

fun node_violations ::
  "corpus_graph \<Rightarrow> (uid, lifecycle_evaluation) bmap \<Rightarrow> node \<Rightarrow> approval_boundary_violation list" where
  "node_violations G evs (Test t) = concat (map (edge_violations G evs t) (ts_edges t))"
| "node_violations G evs (Requirement q) =
    (if le_state (the (bget evs (rq_uid q))) = Approved then []
     else case trace_metadata_of G (rq_uid q) of
         Some (RequirementMeta m) \<Rightarrow> metadata_violations q (le_state (the (bget evs (rq_uid q)))) m
       | _ \<Rightarrow> [])"
| "node_violations G evs _ = []"

lemma fold_res_collects:
  assumes "\<And>acc x. x \<in> set xs \<Longrightarrow> f acc x = Inr (acc @ h x)"
  shows "fold_res f acc xs = Inr (acc @ concat (map h xs))"
  using assms by (induction xs arbitrary: acc) simp_all

definition covers_requirements :: "corpus_graph \<Rightarrow> (uid, lifecycle_evaluation) bmap \<Rightarrow> bool" where
  "covers_requirements G evs \<longleftrightarrow>
    (\<forall>u q. cg_get G u = Some (Requirement q) \<longrightarrow> bget evs u \<noteq> None)"

lemma verifies_target:
  assumes "edges_resolve G" "Test t \<in> set (cg_node_list G)" "(Verifies, u) \<in> set (ts_edges t)"
  shows "\<exists>q. cg_get G u = Some (Requirement q)"
proof -
  have "edge_resolves G (Test t) (Verifies, u)"
    using assms unfolding edges_resolve_def by (metis node_edges.simps(2))
  then show ?thesis
    by (auto simp: edge_resolves_def split: option.splits)
      (metis edge_kinds_match.simps kind_of_node.elims)
qed

lemma scan_node_collects:
  assumes e: "edges_resolve G" and c: "covers_requirements G evs" and n: "n \<in> set (cg_node_list G)"
    and G: "cg_inv G"
  shows "scan_node G evs acc n = Inr (acc @ node_violations G evs n)"
proof (cases n)
  case (Test t)
  have "scan_edge G evs t acc e = Inr (acc @ edge_violations G evs t e)"
    if "e \<in> set (ts_edges t)" for acc e
  proof (cases "fst e = Verifies")
    case True
    with that n Test verifies_target [OF e, of t "snd e"] obtain q where
      q: "cg_get G (snd e) = Some (Requirement q)" by (metis prod.collapse)
    with c obtain ev where "bget evs (snd e) = Some ev" by (auto simp: covers_requirements_def)
    with q True show ?thesis by (simp add: scan_edge_def edge_violations_def split_beta)
  next
    case False
    then show ?thesis by (simp add: scan_edge_def edge_violations_def split_beta)
  qed
  then show ?thesis by (simp add: Test fold_res_collects)
next
  case (Requirement q)
  with n G have "cg_get G (rq_uid q) = Some (Requirement q)" by (simp add: cg_nodes_iff_get)
  with c obtain ev where "bget evs (rq_uid q) = Some ev" by (auto simp: covers_requirements_def)
  then show ?thesis
    by (auto simp: Requirement split: option.splits trace_metadata.splits)
qed simp_all

lemma edge_violations_Nil: "edge_violations G evs t e = [] \<longleftrightarrow>
    (fst e = Verifies \<longrightarrow> le_state (the (bget evs (snd e))) = Approved)"
  by (simp add: edge_violations_def)

lemma node_violations_empty:
  assumes G: "cg_inv G" and e: "edges_resolve G"
    and evs: "\<And>u. bget evs u = (case cg_get G u of
        Some (Requirement q) \<Rightarrow> Some (requirement_evaluation X G q) | _ \<Rightarrow> None)"
  shows "(\<forall>n \<in> set (cg_node_list G). node_violations G evs n = []) \<longleftrightarrow>
    (\<forall>q \<in> set (cg_requirements G). gated G q \<longrightarrow> requirement_state X G q = Approved)"
proof -
  have ev: "the (bget evs (rq_uid q)) = requirement_evaluation X G q"
    if "cg_get G (rq_uid q) = Some (Requirement q)" for q using that by (simp add: evs)
  have test: "node_violations G evs (Test t) = [] \<longleftrightarrow>
      (\<forall>q. cg_get G (rq_uid q) = Some (Requirement q) \<and> (Verifies, rq_uid q) \<in> set (ts_edges t)
        \<longrightarrow> requirement_state X G q = Approved)" if t: "Test t \<in> set (cg_node_list G)" for t
  proof -
    have "node_violations G evs (Test t) = [] \<longleftrightarrow>
        (\<forall>u. (Verifies, u) \<in> set (ts_edges t) \<longrightarrow> le_state (the (bget evs u)) = Approved)"
      by (simp add: edge_violations_Nil concat_eq_Nil_conv) (metis (mono_tags) prod.collapse snd_conv fst_conv)
    also have "\<dots> \<longleftrightarrow> (\<forall>q. cg_get G (rq_uid q) = Some (Requirement q)
        \<and> (Verifies, rq_uid q) \<in> set (ts_edges t) \<longrightarrow> requirement_state X G q = Approved)"
    proof (intro iffI allI impI; (elim conjE)?)
      fix u assume all: "\<forall>q. cg_get G (rq_uid q) = Some (Requirement q) \<and>
          (Verifies, rq_uid q) \<in> set (ts_edges t) \<longrightarrow> requirement_state X G q = Approved"
        and u: "(Verifies, u) \<in> set (ts_edges t)"
      from verifies_target [OF e t u] obtain q where q: "cg_get G u = Some (Requirement q)" by blast
      then have "rq_uid q = u" using cg_get_uid [OF G] by fastforce
      with all q u ev [of q] show "le_state (the (bget evs u)) = Approved"
        by (auto simp: requirement_evaluation_def)
    next
      fix q assume "\<forall>u. (Verifies, u) \<in> set (ts_edges t) \<longrightarrow> le_state (the (bget evs u)) = Approved"
        "cg_get G (rq_uid q) = Some (Requirement q)" "(Verifies, rq_uid q) \<in> set (ts_edges t)"
      then show "requirement_state X G q = Approved"
        using ev [of q] by (auto simp: requirement_evaluation_def)
    qed
    finally show ?thesis .
  qed
  have req: "node_violations G evs (Requirement q) = [] \<longleftrightarrow>
      requirement_state X G q = Approved \<or> \<not> (\<exists>m. trace_metadata_of G (rq_uid q) = Some (RequirementMeta m)
        \<and> (rm_modules m \<noteq> [] \<or> rm_emits m \<noteq> []))"
    if "cg_get G (rq_uid q) = Some (Requirement q)" for q
    by (auto simp: ev [OF that] requirement_evaluation_def metadata_violations_def
        split: option.splits trace_metadata.splits)
  have split: "(\<forall>n \<in> set (cg_node_list G). node_violations G evs n = []) \<longleftrightarrow>
      (\<forall>t. Test t \<in> set (cg_node_list G) \<longrightarrow> node_violations G evs (Test t) = []) \<and>
      (\<forall>q. Requirement q \<in> set (cg_node_list G) \<longrightarrow> node_violations G evs (Requirement q) = [])"
  proof (intro iffI ballI; (elim conjE)?)
    fix n assume "\<forall>t. Test t \<in> set (cg_node_list G) \<longrightarrow> node_violations G evs (Test t) = []"
      "\<forall>q. Requirement q \<in> set (cg_node_list G) \<longrightarrow> node_violations G evs (Requirement q) = []"
      "n \<in> set (cg_node_list G)"
    then show "node_violations G evs n = []" by (cases n) simp_all
  qed blast
  have mem: "Requirement q \<in> set (cg_node_list G) \<longleftrightarrow> cg_get G (rq_uid q) = Some (Requirement q)" for q
    using cg_nodes_iff_get [OF G, of "Requirement q"] by simp
  have "(\<forall>n \<in> set (cg_node_list G). node_violations G evs n = []) \<longleftrightarrow>
      (\<forall>t. Test t \<in> set (cg_node_list G) \<longrightarrow> (\<forall>q. cg_get G (rq_uid q) = Some (Requirement q) \<and>
        (Verifies, rq_uid q) \<in> set (ts_edges t) \<longrightarrow> requirement_state X G q = Approved)) \<and>
      (\<forall>q. cg_get G (rq_uid q) = Some (Requirement q) \<longrightarrow> requirement_state X G q = Approved \<or>
        \<not> (\<exists>m. trace_metadata_of G (rq_uid q) = Some (RequirementMeta m)
          \<and> (rm_modules m \<noteq> [] \<or> rm_emits m \<noteq> [])))"
    unfolding split mem by (simp only: test req cong: imp_cong)
  also have "\<dots> \<longleftrightarrow> (\<forall>q. cg_get G (rq_uid q) = Some (Requirement q) \<longrightarrow> gated G q \<longrightarrow>
      requirement_state X G q = Approved)"
    unfolding gated_def by blast
  finally show ?thesis by (simp add: Ball_def cg_requirements_iff [OF G])
qed

definition own_bindings :: "source_patch_record \<Rightarrow> patch_bindings" where
  "own_bindings p = \<lparr>pb_recipe_digest = sp_recipe_digest p, pb_input_digest = sp_input_digest p\<rparr>"

definition producible :: "platform \<Rightarrow> corpus_graph \<Rightarrow> source_patch_record \<Rightarrow> bool" where
  "producible X G p \<longleftrightarrow> (\<exists>r a. r \<in> set (cg_revisions G) \<and> sr_uid r = sp_source_revision_uid p \<and>
     apply_patch X (parser_graph G (sp_source_revision_uid p)) p (own_bindings p) (sr_media_type r) = Inr a)"

lemma effective_content_Ok_iff:
  assumes G: "cg_inv G" and ok: "cg_validate X G = Inr ()"
  shows "validate_effective_curated_content X G = Inr () \<longleftrightarrow>
    (\<forall>p \<in> set (bvals (cg_source_patches G)). patch_state G p = Approved \<longrightarrow> producible X G p)"
proof -
  from evaluate_patches_on_accepted [OF G ok] obtain evs where
    evs: "evaluate_all_patch_lifecycles X G = Inr evs"
    "\<And>u. bget evs u = map_option (patch_evaluation G) (cg_source_patch G u)" by blast
  have "check_approved_patch X G evs p = Inr () \<longleftrightarrow> (patch_state G p = Approved \<longrightarrow> producible X G p)"
    if p: "p \<in> set (bvals (cg_source_patches G))" for p
  proof -
    have ev: "bget evs (sp_uid p) = Some (patch_evaluation G p)"
      using p by (simp add: evs(2) cg_patches_iff [OF G])
    have "corpus_ok X G" using ok by (simp add: cg_validate_Ok_iff [OF G])
    with p obtain r where r: "r \<in> set (cg_revisions G)" "sr_uid r = sp_source_revision_uid p"
      by (auto simp: corpus_ok_def patch_bound_def)
    then have get: "cg_get G (sp_source_revision_uid p) = Some (SourceRevision r)"
      by (metis cg_revisions_iff [OF G])
    then have "q \<in> set (cg_revisions G) \<and> sr_uid q = sp_source_revision_uid p \<longleftrightarrow> q = r" for q
      using r by (metis cg_revisions_iff [OF G] node.inject(4) option.inject)
    then have "producible X G p \<longleftrightarrow> (\<exists>a. apply_patch X (parser_graph G (sp_source_revision_uid p)) p
        (own_bindings p) (sr_media_type r) = Inr a)" unfolding producible_def by metis
    then show ?thesis
      by (cases "apply_patch X (parser_graph G (sp_source_revision_uid p)) p (own_bindings p)
          (sr_media_type r)")
        (auto simp: check_approved_patch_def ev patch_evaluation_def get own_bindings_def)
  qed
  then show ?thesis
    by (simp add: validate_effective_curated_content_def evs(1) for_each_Ok_iff)
qed

lemma approval_boundary_Ok_iff:
  assumes G: "cg_inv G"
  shows "validate_approval_boundary X G Required = Inr () \<longleftrightarrow> corpus_ok X G \<and>
    (\<forall>q \<in> set (cg_requirements G). gated G q \<longrightarrow> requirement_state X G q = Approved) \<and>
    (\<forall>p \<in> set (bvals (cg_source_patches G)). patch_state G p = Approved \<longrightarrow> producible X G p)"
proof (cases "cg_validate X G")
  case (Inl err)
  then have "\<not> corpus_ok X G" using cg_validate_Ok_iff [OF G, of X] by simp
  with Inl show ?thesis by (simp add: validate_required_def evaluate_all_lifecycles_def)
next
  case (Inr u)
  then have ok: "cg_validate X G = Inr ()" by simp
  then have acc: "corpus_ok X G" by (simp add: cg_validate_Ok_iff [OF G])
  then have e: "edges_resolve G" by (simp add: corpus_ok_def)
  from evaluate_all_on_accepted [OF G ok] obtain evs where
    evs: "evaluate_all_lifecycles X G = Inr evs"
    "\<And>u. bget evs u = (case cg_get G u of
        Some (Requirement q) \<Rightarrow> Some (requirement_evaluation X G q) | _ \<Rightarrow> None)" by blast
  have cov: "covers_requirements G evs" by (simp add: covers_requirements_def evs(2))
  let ?V = "concat (map (node_violations G evs) (cg_node_list G))"
  have "fold_res (scan_node G evs) [] (cg_node_list G) = Inr ([] @ ?V)"
    using scan_node_collects [OF e cov _ G] by (intro fold_res_collects)
  then have "validate_required X G = Inr () \<longleftrightarrow>
      ?V = [] \<and> validate_effective_curated_content X G = Inr ()"
    by (simp add: validate_required_def evs(1) Let_def rbind_Ok_iff fail_if_Ok_iff
        del: concat_eq_Nil_conv) (metis length_0_conv length_sort)
  then show ?thesis
    using node_violations_empty [OF G e evs(2)] effective_content_Ok_iff [OF G ok] acc by auto
qed

section \<open>Correction chains\<close>

lemma accepted_links:
  assumes G: "cg_inv G" and ok: "corpus_ok X G"
  shows "chain_rel (review_rel G)"
    and "\<And>q r. q \<in> set (cg_reviews G) \<Longrightarrow> r \<in> set (cg_reviews G) \<Longrightarrow>
      (rv_uid q, rv_uid r) \<in> review_rel G \<Longrightarrow> same_judgement q r"
  using ok by (simp_all add: corpus_ok_def corrections_ok_def)

lemma same_judgement_trans: "same_judgement q r \<Longrightarrow> same_judgement r s \<Longrightarrow> same_judgement q s"
  by (simp add: same_judgement_def)

lemma chain_same_judgement:
  assumes G: "cg_inv G" and ok: "corpus_ok X G" and r: "r \<in> set (cg_reviews G)"
    and path: "(h, rv_uid r) \<in> (review_rel G)\<^sup>*"
  shows "\<exists>q \<in> set (cg_reviews G). rv_uid q = h \<and> same_judgement q r"
  using path
proof (induction rule: converse_rtrancl_induct)
  case base
  with r show ?case by (auto simp: same_judgement_def)
next
  case (step u v)
  then obtain q where q: "q \<in> set (cg_reviews G)" "rv_uid q = v" "same_judgement q r" by blast
  from step(1) obtain p where p: "p \<in> set (cg_reviews G)" "rv_uid p = u"
    unfolding review_rel_iff [OF G] by blast
  with q step(1) accepted_links(2) [OF G ok] have "same_judgement p q" by blast
  with q(3) p show ?case using same_judgement_trans by blast
qed

lemma live_head_of_review:
  assumes G: "cg_inv G" and ok: "corpus_ok X G" and r: "r \<in> set (cg_reviews G)"
  shows "\<exists>h \<in> set (cg_reviews G). heads_of (review_rel G) (rv_uid r) = {rv_uid h} \<and>
    same_judgement h r \<and> h \<in> live_reviews G (rv_target r)"
proof -
  from chain_rel_head [OF accepted_links(1) [OF G ok], of "rv_uid r"] obtain u where
    u: "u \<in> heads_of (review_rel G) (rv_uid r)"
    "\<And>v. v \<in> heads_of (review_rel G) (rv_uid r) \<Longrightarrow> v = u" by blast
  then have path: "(u, rv_uid r) \<in> (review_rel G)\<^sup>*" "u \<notin> Range (review_rel G)"
    using u(1) unfolding heads_of_def by blast+
  from chain_same_judgement [OF G ok r path(1)] obtain h where
    h: "h \<in> set (cg_reviews G)" "rv_uid h = u" "same_judgement h r" by blast
  with path(2) have "h \<in> live_reviews G (rv_target r)"
    by (simp add: live_reviews_def same_judgement_def)
  moreover have "heads_of (review_rel G) (rv_uid r) = {rv_uid h}" using u h(2) by blast
  ultimately show ?thesis using h by blast
qed

section \<open>Evaluations\<close>

lemma evaluate_lifecycle_iff:
  assumes G: "cg_inv G"
  shows "evaluate_lifecycle X G u = Inr e \<longleftrightarrow> corpus_ok X G \<and>
    (\<exists>q. cg_get G u = Some (Requirement q) \<and> e = requirement_evaluation X G q)"
proof -
  have "evaluate_lifecycle_validated X G u = Inr e \<longleftrightarrow>
      (\<exists>q. cg_get G u = Some (Requirement q) \<and> e = requirement_evaluation X G q)"
  proof (cases "\<exists>q. cg_get G u = Some (Requirement q)")
    case True
    then obtain q where q: "cg_get G u = Some (Requirement q)" by blast
    then have "rq_uid q = u" using cg_get_uid [OF G] by fastforce
    with q evaluate_requirement [OF G, of q X] show ?thesis by auto
  next
    case False
    then have "review_content G u = None"
      by (auto simp: review_content_def split: option.splits node.splits)
    with False show ?thesis by (auto simp: evaluate_lifecycle_validated_def)
  qed
  then show ?thesis
    by (auto simp: evaluate_lifecycle_def rbind_Ok_iff map_err_Ok_iff cg_validate_Ok_iff [OF G])
qed

text \<open>An approval is bound to the content it was given for.\<close>

lemma from_node_canonical [simp]: "canonicalize (from_node q) = from_node q"
  by (simp add: from_node_def canonicalize_def)

lemma changed_content_stale:
  assumes live: "live_reviews H (RequirementTarget (rq_uid q')) \<noteq> {}"
    and bound: "\<And>r. r \<in> live_reviews H (RequirementTarget (rq_uid q')) \<Longrightarrow>
        rv_reviewed_content_sha256 r = review_content_digest_v1 X (from_node q) \<and>
        rv_decision r = Approve"
    and fits: "content_fits (from_node q)" "content_fits (from_node q')"
    and changed: "from_node q' \<noteq> from_node q"
    and no_collision: "\<not> collision X (canonical_bytes_v1 (from_node q)) (canonical_bytes_v1 (from_node q'))"
  shows "requirement_state X H q' = Stale"
proof -
  have "canonical_bytes_v1 (from_node q) \<noteq> canonical_bytes_v1 (from_node q')"
    using canonical_bytes_inj [OF fits] changed by simp
  with no_collision have diff: "rcd_str (review_content_digest_v1 X (from_node q))
      \<noteq> rcd_str (review_content_digest_v1 X (from_node q'))"
    by (simp add: collision_def review_content_digest_v1_def)
  let ?L = "live_reviews H (RequirementTarget (rq_uid q'))"
  have "\<not> decided ?L dec (rcd_str (review_content_digest_v1 X (from_node q')))" for dec
    unfolding decided_def using bound diff by metis
  moreover have "\<exists>r \<in> ?L. rv_decision r = Approve" using live bound by blast
  ultimately show ?thesis by (simp add: requirement_state_def lifecycle_spec_def)
qed

end
