(* ===== verification/Effective_Spec.thy ===== *)
theory Effective_Spec
  imports Lifecycle_Spec
begin

text \<open>
  What the effective graph of a revision is: the committed graph with the approved patches of the
  revision applied in uid order, and why at most one of them can change it.
\<close>

definition approved_patches :: "corpus_graph \<Rightarrow> uid \<Rightarrow> source_patch_record list" where
  "approved_patches G r = filter (\<lambda>p. sp_source_revision_uid p = r \<and> patch_state G p = Approved)
     (bvals (cg_source_patches G))"

text \<open>Applying patches one after another.\<close>

fun apply_chain ::
  "platform \<Rightarrow> patch_bindings \<Rightarrow> string \<Rightarrow> source_graph \<Rightarrow> source_patch_record list
    \<Rightarrow> source_graph option" where
  "apply_chain X b mt g [] = Some g"
| "apply_chain X b mt g (p # ps) =
    (case apply_patch X g p b mt of Inl e \<Rightarrow> None | Inr a \<Rightarrow> apply_chain X b mt (pa_graph a) ps)"

lemma effective_steps:
  assumes "\<And>p. p \<in> set ps \<Longrightarrow> patch_approved evs (sp_uid p) = (patch_state G p = Approved)"
  shows "fold_res (effective_step X evs r b mt) (g, us) ps = Inr (h, vs) \<longleftrightarrow>
    apply_chain X b mt g (filter (\<lambda>p. sp_source_revision_uid p = r \<and> patch_state G p = Approved) ps)
      = Some h \<and>
    vs = us @ map sp_uid (filter (\<lambda>p. sp_source_revision_uid p = r \<and> patch_state G p = Approved) ps)"
  using assms
proof (induction ps arbitrary: g us)
  case (Cons p ps)
  then show ?case
    by (cases "sp_source_revision_uid p = r \<and> patch_state G p = Approved")
      (auto simp: effective_step_def rbind_def map_err_def split: sum.split)
qed auto

lemma effective_graph_Ok_iff:
  assumes G: "cg_inv G"
  shows "effective_source_graph X G r b mt = Inr e \<longleftrightarrow>
    corpus_ok X G \<and> (\<exists>rev \<in> set (cg_revisions G). sr_uid rev = r) \<and>
    apply_chain X b mt (parser_graph G r) (approved_patches G r) = Some (eg_graph e) \<and>
    eg_applied_patch_uids e = map sp_uid (approved_patches G r) \<and> eg_source_revision_uid e = r"
proof (cases "cg_validate X G")
  case (Inl err)
  then have "\<not> corpus_ok X G" using cg_validate_Ok_iff [OF G, of X] by simp
  with Inl show ?thesis by (simp add: effective_source_graph_def evaluate_all_patch_lifecycles_def)
next
  case (Inr u)
  then have ok: "cg_validate X G = Inr ()" by simp
  then have acc: "corpus_ok X G" by (simp add: cg_validate_Ok_iff [OF G])
  from evaluate_patches_on_accepted [OF G ok] obtain evs where
    evs: "evaluate_all_patch_lifecycles X G = Inr evs"
    "\<And>u. bget evs u = map_option (patch_evaluation G) (cg_source_patch G u)" by blast
  have app: "patch_approved evs (sp_uid p) = (patch_state G p = Approved)"
    if "p \<in> set (bvals (cg_source_patches G))" for p
    using that by (simp add: patch_approved_def evs(2) cg_patches_iff [OF G] patch_evaluation_def)
  have "effective_source_graph X G r b mt = Inr e \<longleftrightarrow>
      (\<exists>rev \<in> set (cg_revisions G). sr_uid rev = r) \<and>
      (\<exists>h vs. fold_res (effective_step X evs r b mt) (parser_graph G r, [])
         (bvals (cg_source_patches G)) = Inr (h, vs) \<and>
       e = \<lparr>eg_source_revision_uid = r, eg_graph = h, eg_applied_patch_uids = vs\<rparr>)"
    by (auto simp: effective_source_graph_def evs(1) rbind_Ok_iff fail_if_Ok_iff)
  moreover have "fold_res (effective_step X evs r b mt) (parser_graph G r, [])
      (bvals (cg_source_patches G)) = Inr (h, vs) \<longleftrightarrow>
      apply_chain X b mt (parser_graph G r) (approved_patches G r) = Some h \<and>
      vs = map sp_uid (approved_patches G r)" for h vs
    unfolding approved_patches_def by (simp add: effective_steps [OF app])
  ultimately show ?thesis using acc by (cases e) auto
qed

section \<open>The result\<close>

lemma parser_graph_of_revision: "cg_inv G \<Longrightarrow> of_revision r (parser_graph G r)"
proof (cases "cg_source_graph G r")
  case None
  then show ?thesis using sg_inv_new
    by (simp add: parser_graph_def of_revision_def sg_get_def) (simp add: sg_new_def)
next
  case (Some g)
  assume "cg_inv G"
  with Some show ?thesis
    by (auto simp: parser_graph_def cg_source_graph_def cg_inv_def dest: bget_Some_in)
qed

lemma apply_chain_well_formed:
  assumes "apply_chain X b mt g ps = Some h" "\<forall>p \<in> set ps. sp_source_revision_uid p = r"
    "of_revision r g"
  shows "of_revision r h \<and> (ps \<noteq> [] \<longrightarrow> well_formed_forest X mt h)"
  using assms
proof (induction ps arbitrary: g)
  case (Cons p ps)
  from Cons.prems(1) obtain a where a: "apply_patch X g p b mt = Inr a"
    "apply_chain X b mt (pa_graph a) ps = Some h" by (auto split: sum.splits)
  have g: "of_revision (sp_source_revision_uid p) g" using Cons.prems by simp
  have inv: "of_revision r (pa_graph a)" and wf: "well_formed_forest X mt (pa_graph a)"
    using patched_graph_facts [OF g a(1)] Cons.prems(2) by auto
  from Cons.IH [OF a(2)] Cons.prems(2) inv wf a(2) show ?case by (cases ps) auto
qed simp

text \<open>Every approved patch of an accepted corpus is bound to the committed graph. When a second
  one applies, the first has left the digest of the graph as it was.\<close>

lemma apply_chain_bound:
  assumes "apply_chain X b mt g ps = Some h" "of_revision r g"
    "\<forall>p \<in> set ps. sp_source_revision_uid p = r \<and> sp_pre_patch_graph_digest p = d"
    "ps = qs @ q # q' # rest"
  shows "\<exists>w a. apply_patch X w q b mt = Inr a \<and> source_graph_digest X w = d \<and>
    source_graph_digest X (pa_graph a) = d \<and> of_revision r w"
  using assms
proof (induction qs arbitrary: g ps)
  case Nil
  then obtain a a' where a: "apply_patch X g q b mt = Inr a"
    and a': "apply_patch X (pa_graph a) q' b mt = Inr a'" by (auto split: sum.splits)
  have rev: "of_revision (sp_source_revision_uid q) g" using Nil.prems by auto
  have inv: "sg_inv g" "sg_inv (pa_graph a)"
    using patched_graph_facts [OF rev a] rev of_revision_inv by blast+
  from a a' have "sp_pre_patch_graph_digest q = source_graph_digest X g"
    "sp_pre_patch_graph_digest q' = source_graph_digest X (pa_graph a)"
    by (auto simp: apply_patch_Ok_iff [OF inv(1)] apply_patch_Ok_iff [OF inv(2)] bindings_match_def)
  with Nil.prems a show ?case by (intro exI [of _ g] exI [of _ a]) auto
next
  case (Cons p qs)
  then obtain a where a: "apply_patch X g p b mt = Inr a"
    "apply_chain X b mt (pa_graph a) (qs @ q # q' # rest) = Some h" by (auto split: sum.splits)
  have rev: "of_revision (sp_source_revision_uid p) g" using Cons.prems by auto
  have "of_revision r (pa_graph a)" using patched_graph_facts [OF rev a(1)] Cons.prems by auto
  from Cons.IH [OF a(2) this _ refl] Cons.prems show ?case by auto
qed

end
