(* ===== verification/Demo_Corpus.thy ===== *)
theory Demo_Corpus
  imports Effective_Spec Demo_Data
begin

text \<open>
  A small accepted corpus: a requirement approved by a review that corrects an earlier one, a
  test that verifies it, a second requirement whose content moved after its approval, two revisions of one document, the committed graph of the newer one and
  an approved patch over it, and a revision of another document that has no committed graph and
  two approved patches, each of which inserts a root.
\<close>

definition demo_req :: requirement_node where
  "demo_req = \<lparr>rq_uid = ''req_1'', rq_id = ''R-1'', rq_title = ''Start'', rq_layer = Hlr,
     rq_edges = [], rq_description = Some ''The tool shall start.'', rq_rationale = None,
     rq_scope = None, rq_category = None, rq_source = None, rq_verification_methods = [''test''],
     rq_safety_impact = None\<rparr>"

definition demo_moved :: requirement_node where
  "demo_moved = demo_req\<lparr>rq_uid := ''req_2'', rq_id := ''R-2''\<rparr>"

definition demo_moved_old :: requirement_node where
  "demo_moved_old = demo_moved\<lparr>rq_description := None\<rparr>"

definition demo_req_digest :: review_content_digest where
  "demo_req_digest = review_content_digest_v1 demo_platform (from_node demo_req)"

definition demo_review ::
  "uid \<Rightarrow> review_target \<Rightarrow> review_content_digest \<Rightarrow> edges \<Rightarrow> review_node" where
  "demo_review u t d es = \<lparr>rv_uid = u, rv_id = u, rv_target = t, rv_content_schema = 1,
     rv_reviewed_content_sha256 = d, rv_decision = Approve, rv_reviewer = ''r'',
     rv_reviewed_at = ''t'', rv_rationale = None, rv_edges = es\<rparr>"

definition demo_review_1 :: review_node where
  "demo_review_1 = (demo_review ''rev_1'' (RequirementTarget ''req_1'') demo_req_digest
     [(Reviews, ''req_1'')])\<lparr>rv_decision := Reject\<rparr>"

definition demo_review_2 :: review_node where
  "demo_review_2 = demo_review ''rev_2'' (RequirementTarget ''req_1'') demo_req_digest
     [(Reviews, ''req_1''), (Supersedes, ''rev_1'')]"

definition demo_review_3 :: review_node where
  "demo_review_3 = demo_review ''rev_3'' (CuratedPatchTarget ''patch_1'')
     (ReviewContentDigest (std_str (sp_reviewed_content_digest demo_patch))) [(Reviews, ''patch_1'')]"

definition demo_review_6 :: review_node where
  "demo_review_6 = demo_review ''rev_6'' (RequirementTarget ''req_2'')
     (review_content_digest_v1 demo_platform (from_node demo_moved_old)) [(Reviews, ''req_2'')]"

definition demo_insert :: "uid \<Rightarrow> uid \<Rightarrow> source_patch_record" where
  "demo_insert u n = \<lparr>sp_uid = u, sp_human_id = u, sp_source_revision_uid = ''src_2'',
     sp_recipe_digest = StructuralContentDigest ''r'', sp_input_digest = StructuralContentDigest ''i'',
     sp_pre_patch_graph_digest = source_graph_digest demo_platform sg_new,
     sp_reviewed_content_digest = StructuralContentDigest ''c'', sp_author = ''a'',
     sp_rationale = ''b'', sp_created_at = ''c'',
     sp_operations = [Insert 1 None \<lparr>in_uid = n, in_kind = Section, in_ordinal = 0, in_label = None,
       in_canonical_text = ''Root'', in_locator = demo_locator 0\<rparr>]\<rparr>"

definition demo_insert_review :: "uid \<Rightarrow> uid \<Rightarrow> review_node" where
  "demo_insert_review u p = demo_review u (CuratedPatchTarget p) (ReviewContentDigest ''c'')
     [(Reviews, p)]"

definition demo_revision :: "uid \<Rightarrow> string \<Rightarrow> edges \<Rightarrow> source_revision_node" where
  "demo_revision u doc es = \<lparr>sr_uid = u, sr_id = u, sr_document_key = doc, sr_title = ''Guide'',
     sr_media_type = ''text/markdown'', sr_canonical_location = ''https://example.org/guide'',
     sr_material = Unavailable ''n'', sr_edges = es\<rparr>"

definition demo_test :: test_node where
  "demo_test = \<lparr>ts_uid = ''test_1'', ts_id = ''T-1'', ts_title = ''Starts'',
     ts_selectors = [''start''], ts_edges = [(Verifies, ''req_1'')]\<rparr>"

definition demo_metadata :: requirement_metadata where
  "demo_metadata = \<lparr>rm_namespace = None, rm_sort_key = None, rm_scope = None, rm_category = None,
     rm_source = None, rm_modules = [''start''], rm_surfaces = [], rm_emits = [],
     rm_verification_methods = []\<rparr>"

definition demo_corpus :: corpus_graph where
  "demo_corpus = \<lparr>cg_nodes = [(''req_1'', Requirement demo_req),
       (''req_2'', Requirement demo_moved), (''rev_1'', Review demo_review_1),
       (''rev_2'', Review demo_review_2), (''rev_3'', Review demo_review_3),
       (''rev_4'', Review (demo_insert_review ''rev_4'' ''patch_2'')),
       (''rev_5'', Review (demo_insert_review ''rev_5'' ''patch_3'')), (''rev_6'', Review demo_review_6),
       (''src_0'', SourceRevision (demo_revision ''src_0'' ''guide'' [])),
       (''src_1'', SourceRevision (demo_revision ''src_1'' ''guide'' [(Supersedes, ''src_0'')])),
       (''src_2'', SourceRevision (demo_revision ''src_2'' ''manual'' [])),
       (''test_1'', Test demo_test)],
     cg_trace_metadata = [(''req_1'', RequirementMeta demo_metadata)],
     cg_source_graphs = [(''src_1'', demo_graph)],
     cg_source_patches = [(''patch_1'', demo_patch), (''patch_2'', demo_insert ''patch_2'' ''snode_7''),
       (''patch_3'', demo_insert ''patch_3'' ''snode_8'')]\<rparr>"

lemmas demo_corpus_simps = demo_req_def demo_review_1_def demo_review_2_def demo_review_3_def
  demo_review_def demo_revision_def demo_test_def demo_insert_review_def
  demo_moved_def demo_review_6_def

lemma demo_get: "cg_get demo_corpus u = (if u = ''req_1'' then Some (Requirement demo_req)
    else if u = ''rev_1'' then Some (Review demo_review_1)
    else if u = ''rev_2'' then Some (Review demo_review_2)
    else if u = ''rev_3'' then Some (Review demo_review_3)
    else if u = ''src_0'' then Some (SourceRevision (demo_revision ''src_0'' ''guide'' []))
    else if u = ''src_1'' then Some (SourceRevision (demo_revision ''src_1'' ''guide'' [(Supersedes, ''src_0'')]))
    else if u = ''rev_4'' then Some (Review (demo_insert_review ''rev_4'' ''patch_2''))
    else if u = ''rev_5'' then Some (Review (demo_insert_review ''rev_5'' ''patch_3''))
    else if u = ''req_2'' then Some (Requirement demo_moved)
    else if u = ''rev_6'' then Some (Review demo_review_6)
    else if u = ''src_2'' then Some (SourceRevision (demo_revision ''src_2'' ''manual'' []))
    else if u = ''test_1'' then Some (Test demo_test) else None)"
  by (simp add: cg_get_def demo_corpus_def)

lemma demo_node_list: "cg_node_list demo_corpus = [Requirement demo_req,
    Requirement demo_moved, Review demo_review_1,
    Review demo_review_2, Review demo_review_3, Review (demo_insert_review ''rev_4'' ''patch_2''),
    Review (demo_insert_review ''rev_5'' ''patch_3''), Review demo_review_6, SourceRevision (demo_revision ''src_0'' ''guide'' []),
    SourceRevision (demo_revision ''src_1'' ''guide'' [(Supersedes, ''src_0'')]),
    SourceRevision (demo_revision ''src_2'' ''manual'' []), Test demo_test]"
  by (simp add: cg_node_list_def bvals_def demo_corpus_def)

lemma demo_patch_of: "cg_source_patch demo_corpus u = (if u = ''patch_1'' then Some demo_patch
    else if u = ''patch_2'' then Some (demo_insert ''patch_2'' ''snode_7'')
    else if u = ''patch_3'' then Some (demo_insert ''patch_3'' ''snode_8'') else None)"
  by (simp add: cg_source_patch_def demo_corpus_def)

lemma demo_graph_of: "cg_source_graph demo_corpus u = (if u = ''src_1'' then Some demo_graph else None)"
  by (simp add: cg_source_graph_def demo_corpus_def)

lemma demo_patches: "bvals (cg_source_patches demo_corpus) = [demo_patch,
    demo_insert ''patch_2'' ''snode_7'', demo_insert ''patch_3'' ''snode_8'']"
  by (simp add: demo_corpus_def bvals_def)

lemma demo_graphs: "cg_source_graphs demo_corpus = [(''src_1'', demo_graph)]"
  by (simp add: demo_corpus_def)

lemma demo_corpus_inv: "cg_inv demo_corpus"
  using demo_of_revision
  by (simp add: cg_inv_def demo_corpus_def bwf_def demo_corpus_simps demo_patch_fields
      demo_insert_def)

lemma demo_reviews: "cg_reviews demo_corpus = [demo_review_1, demo_review_2, demo_review_3,
    demo_insert_review ''rev_4'' ''patch_2'', demo_insert_review ''rev_5'' ''patch_3'', demo_review_6]"
  by (simp add: cg_reviews_def demo_node_list List.map_filter_simps)

lemma demo_requirements: "cg_requirements demo_corpus = [demo_req, demo_moved]"
  by (simp add: cg_requirements_def demo_node_list List.map_filter_simps)

lemma demo_revisions: "cg_revisions demo_corpus =
    [demo_revision ''src_0'' ''guide'' [], demo_revision ''src_1'' ''guide'' [(Supersedes, ''src_0'')],
      demo_revision ''src_2'' ''manual'' []]"
  by (simp add: cg_revisions_def demo_node_list List.map_filter_simps)

lemma demo_edges_resolve: "edges_resolve demo_corpus"
  by (simp add: edges_resolve_def demo_node_list edge_resolves_def demo_get demo_patch_of
      demo_corpus_simps)

lemma demo_reviews_coherent: "r \<in> set (cg_reviews demo_corpus) \<Longrightarrow> review_coherent demo_corpus r"
  by (auto simp: demo_reviews review_coherent_def demo_get demo_patch_of
      supported_review_content_schema_def demo_corpus_simps)

text \<open>What evaluates the chain checks on a concrete plane.\<close>

lemmas chain_eval = validate_chains_def node_step_def link_step_def supersedes_targets_def
  bpush_def reject_forks_def plane_links_def targets_of_def Let_def

lemma demo_supersession: "validate_review_supersession demo_corpus = Inr ()"
  by (simp add: validate_review_supersession_def chain_eval demo_reviews review_plane_def
      demo_corpus_simps review_lookup_def demo_get review_agrees_def)

lemma demo_lineage: "validate_source_lineage demo_corpus = Inr ()"
  by (simp add: validate_source_lineage_def chain_eval demo_revisions revision_plane_def
      demo_corpus_simps revision_lookup_def demo_get revision_agrees_def reject_multiple_roots_def
      reject_multiple_heads_def reject_several_def revisions_by_document_def group_by_def
      all_superseded_def demo_node_list supersedes_target_def)

lemma demo_source_graphs: "source_graphs_ok demo_platform demo_corpus"
  using demo_well_formed by (simp add: source_graphs_ok_def demo_revisions demo_revision_def
      demo_graphs)

lemma demo_patch_bound: "patch_bound demo_platform demo_corpus demo_patch"
  by (simp add: patch_bound_def demo_revisions demo_revision_def demo_graph_of demo_patch_fields
      demo_operations_def locate_def demo_graphs demo_gets inserted_uids_def
      List.map_filter_simps)
    (simp add: demo_patch_simps)

lemma demo_insert_bound: "patch_bound demo_platform demo_corpus (demo_insert u n)"
  by (simp add: patch_bound_def demo_revisions demo_revision_def demo_graph_of demo_insert_def)

lemma demo_accepted: "cg_validate demo_platform demo_corpus = Inr ()"
  using validate_source_lineage_Ok_iff [OF demo_corpus_inv demo_edges_resolve]
    review_supersession_Ok_iff [OF demo_corpus_inv demo_edges_resolve]
  by (simp add: cg_validate_Ok_iff [OF demo_corpus_inv] corpus_ok_def demo_edges_resolve
      demo_reviews_coherent demo_supersession demo_lineage demo_source_graphs demo_patches
      demo_patch_bound demo_insert_bound)

lemma demo_corpus_ok: "corpus_ok demo_platform demo_corpus"
  using demo_accepted by (simp add: cg_validate_Ok_iff [OF demo_corpus_inv])

lemma demo_review_link: "(u, v) \<in> review_rel demo_corpus \<longleftrightarrow> u = ''rev_2'' \<and> v = ''rev_1''"
  unfolding review_rel_iff [OF demo_corpus_inv] unfolding demo_reviews
  by (simp add: demo_corpus_simps supersedes_targets_def del: set_filter) auto

lemma demo_review_rel: "Range (review_rel demo_corpus) = {''rev_1''}"
  by (auto simp: Range_iff demo_review_link)

lemma demo_review_fields:
  "rv_uid demo_review_1 = ''rev_1''" "rv_uid demo_review_2 = ''rev_2''"
  "rv_uid demo_review_3 = ''rev_3''" "rv_target demo_review_1 = RequirementTarget ''req_1''"
  "rv_target demo_review_2 = RequirementTarget ''req_1''"
  "rv_target demo_review_3 = CuratedPatchTarget ''patch_1''"
  "rv_uid (demo_insert_review u p) = u" "rv_target (demo_insert_review u p) = CuratedPatchTarget p"
  "rv_uid demo_review_6 = ''rev_6''" "rv_target demo_review_6 = RequirementTarget ''req_2''"
  by (simp_all add: demo_corpus_simps)

lemma demo_live: "live_reviews demo_corpus (RequirementTarget ''req_1'') = {demo_review_2}"
    "live_reviews demo_corpus (CuratedPatchTarget ''patch_1'') = {demo_review_3}"
    "live_reviews demo_corpus (CuratedPatchTarget ''patch_2'') = {demo_insert_review ''rev_4'' ''patch_2''}"
    "live_reviews demo_corpus (CuratedPatchTarget ''patch_3'') = {demo_insert_review ''rev_5'' ''patch_3''}"
    "live_reviews demo_corpus (RequirementTarget ''req_2'') = {demo_review_6}"
  unfolding live_reviews_def demo_review_rel unfolding demo_reviews
  by (auto simp: demo_review_fields)

lemma demo_states: "requirement_state demo_platform demo_corpus demo_req = Approved"
    "patch_state demo_corpus demo_patch = Approved"
    "patch_state demo_corpus (demo_insert ''patch_2'' n) = Approved"
    "patch_state demo_corpus (demo_insert ''patch_3'' n) = Approved"
proof -
  have u: "rq_uid demo_req = ''req_1''" by (simp add: demo_req_def)
  show "requirement_state demo_platform demo_corpus demo_req = Approved"
    unfolding requirement_state_def u demo_live
    by (simp add: lifecycle_spec_def decided_def demo_review_2_def demo_review_def demo_req_digest_def)
  show "patch_state demo_corpus demo_patch = Approved"
    unfolding patch_state_def demo_patch_fields demo_live
    by (simp add: lifecycle_spec_def decided_def demo_review_3_def demo_review_def)
  have ins: "sp_uid (demo_insert u n) = u" "std_str (sp_reviewed_content_digest (demo_insert u n)) = ''c''"
    for u n by (simp_all add: demo_insert_def)
  show "patch_state demo_corpus (demo_insert ''patch_2'' n) = Approved"
    "patch_state demo_corpus (demo_insert ''patch_3'' n) = Approved"
    unfolding patch_state_def ins demo_live
    by (simp_all add: lifecycle_spec_def decided_def demo_insert_review_def demo_review_def)
qed

lemma demo_producible: "producible demo_platform demo_corpus demo_patch"
proof -
  have b: "own_bindings demo_patch = demo_bindings"
    by (simp add: own_bindings_def demo_bindings_def demo_patch_simps)
  have "demo_revision ''src_1'' ''guide'' [(Supersedes, ''src_0'')] \<in> set (cg_revisions demo_corpus)"
    by (simp add: demo_revisions)
  moreover have "sr_uid (demo_revision ''src_1'' ''guide'' es) = ''src_1''"
    "sr_media_type (demo_revision ''src_1'' ''guide'' es) = ''text/markdown''" for es
    by (simp_all add: demo_revision_def)
  ultimately show ?thesis using demo_applies
    unfolding producible_def b demo_patch_fields parser_graph_def demo_graph_of by fastforce
qed

lemma demo_not_gated: "\<not> gated demo_corpus demo_moved"
proof -
  have "trace_metadata_of demo_corpus ''req_2'' = None"
    by (simp add: trace_metadata_of_def demo_corpus_def)
  then show ?thesis by (simp add: gated_def demo_node_list demo_test_def demo_moved_def)
qed

section \<open>The two inserting patches\<close>

definition demo_rooted :: "uid \<Rightarrow> source_graph" where
  "demo_rooted n = [(n, \<lparr>sn_uid = n, sn_source_revision_uid = ''src_2'', sn_parent_uid = None,
     sn_kind = Section, sn_ordinal = 0, sn_label = None, sn_canonical_text = ''Root'',
     sn_content_sha256 = content_digest demo_platform Section ''Root'',
     sn_fingerprint = fingerprint demo_platform Section None [], sn_locator = demo_locator 0\<rparr>)]"

lemma demo_rooted_nodes: "sg_nodes (demo_rooted n) = map snd (demo_rooted n)"
  by (simp add: sg_nodes_def bvals_def)

lemma demo_rooted_ordinals: "ordinals_contiguous (demo_rooted n)"
proof -
  have "validate_ordinals [] (demo_rooted n) = Inr ()"
    by (simp add: validate_ordinals_def sibling_sets_def group_by_def bpush_def sg_nodes_def
      bvals_def demo_rooted_def sort_siblings_def)
  then show ?thesis by (simp add: validate_ordinals_Ok_iff)
qed

lemma demo_insert_steps: "fold_res (apply_operation demo_platform (demo_insert u n)) sg_new
    (sp_operations (demo_insert u n)) = Inr (demo_rooted n)"
  by (simp add: demo_insert_def check_parent_exists_def inserted_node_def ancestry_pairs_def
      sg_insert_def sg_get_def sg_nodes_def bvals_def sg_new_def demo_rooted_def)

lemma demo_insert_applies:
  "apply_patch demo_platform sg_new (demo_insert u n) demo_bindings ''text/markdown'' =
    Inr \<lparr>pa_pre_patch_digest = source_graph_digest demo_platform sg_new,
      pa_patch_digest = sp_reviewed_content_digest (demo_insert u n),
      pa_post_patch_digest =
        source_graph_digest demo_platform (recompute_node_digests demo_platform (demo_rooted n)),
      pa_graph = recompute_node_digests demo_platform (demo_rooted n)\<rparr>"
proof -
  have wf: "well_formed_forest demo_platform ''text/markdown'' sg_new"
    by (simp add: well_formed_forest_def sg_new_def sg_nodes_def bvals_def ordinals_contiguous_def
      siblings_def contiguous_def)
  have bind: "bindings_match demo_platform sg_new (demo_insert u n) demo_bindings"
    by (simp add: bindings_match_def demo_insert_def demo_bindings_def)
  have "shape_ok ''text/markdown'' (demo_rooted n)"
    using demo_rooted_ordinals
    by (simp add: shape_ok_def demo_rooted_nodes node_shape_ok_def)
      (simp add: demo_rooted_def demo_locator_def eq_ignore_ascii_case_def exI [of _ "[]"])
  then show ?thesis
    by (simp add: apply_patch_Ok_iff [OF sg_inv_new] wf bind demo_insert_steps)
qed

lemma demo_insert_producible: "producible demo_platform demo_corpus (demo_insert u n)"
proof -
  have b: "own_bindings (demo_insert u n) = demo_bindings"
    by (simp add: own_bindings_def demo_bindings_def demo_insert_def)
  have r: "sp_source_revision_uid (demo_insert u n) = ''src_2''" by (simp add: demo_insert_def)
  have "demo_revision ''src_2'' ''manual'' [] \<in> set (cg_revisions demo_corpus)"
    by (simp add: demo_revisions)
  moreover have "sr_uid (demo_revision ''src_2'' ''manual'' []) = ''src_2''"
    "sr_media_type (demo_revision ''src_2'' ''manual'' []) = ''text/markdown''"
    by (simp_all add: demo_revision_def)
  ultimately show ?thesis using demo_insert_applies [of u n]
    unfolding producible_def b r parser_graph_def demo_graph_of by fastforce
qed

lemma demo_rooted_digest:
  "source_graph_digest demo_platform (recompute_node_digests demo_platform (demo_rooted n))
    \<noteq> source_graph_digest demo_platform sg_new"
proof -
  have "length (render_sorted_nodes demo_platform (sg_nodes (recompute_node_digests demo_platform (demo_rooted n))))
      > length (render_sorted_nodes demo_platform [])"
    by (simp add: render_sorted_nodes_def recompute_node_digests_def demo_rooted_def sg_nodes_def bvals_def
        sg_node_mut_def bupd_def render_node_def)
  then show ?thesis
    by (auto simp: source_graph_digest_def sg_nodes_def sg_new_def bvals_def)
qed

end
