(* ===== verification/Corpus_Properties.thy ===== *)
theory Corpus_Properties
  imports Demo_Corpus
begin

text \<open>
  The properties of the corpus graph: the invariant of its insertions, what validation decides,
  the supersession chains, the derived lifecycles, the approval boundary and the effective graph.
\<close>

section \<open>Loading\<close>

text \<open>One insertion into a corpus, and the corpora a loader can reach.\<close>

inductive corpus_step :: "corpus_graph \<Rightarrow> corpus_graph \<Rightarrow> bool" where
  step_node: "cg_insert G n = Inr H \<Longrightarrow> corpus_step G H"
| step_metadata: "insert_with_trace_metadata G n m = Inr H \<Longrightarrow> corpus_step G H"
| step_source_node: "insert_source_node G s = Inr H \<Longrightarrow> corpus_step G H"
| step_patch: "insert_source_patch G p = Inr H \<Longrightarrow> corpus_step G H"

definition loadable :: "corpus_graph \<Rightarrow> bool" where
  "loadable G \<longleftrightarrow> corpus_step\<^sup>*\<^sup>* cg_new G"

lemma insert_metadata_ok:
  assumes "cg_ok G" "insert_with_trace_metadata G n m = Inr H"
  shows "cg_ok H"
proof -
  from assms(2) obtain K where K: "cg_insert G n = Inr K"
    "H = K\<lparr>cg_trace_metadata := bins (node_uid n) m (cg_trace_metadata K)\<rparr>"
    by (auto simp: insert_with_trace_metadata_def rbind_Ok_iff)
  from cg_insert_ok [OF assms(1) K(1)] show ?thesis
    by (simp add: K(2) cg_ok_def cg_inv_def edges_canonical_def ids_unique_def patch_ids_unique_def
        cg_node_list_def)
qed

lemma corpus_step_ok: "corpus_step G H \<Longrightarrow> cg_ok G \<Longrightarrow> cg_ok H"
  by (induction rule: corpus_step.induct)
    (auto intro: cg_insert_ok insert_metadata_ok insert_source_node_ok insert_source_patch_ok)

text \<open>whatever sequence of insertions a loader makes, every reachable corpus has its nodes
  under their own uids, edges in strict canonical order, human ids unique within a kind, every
  source node in the graph of its own revision, and patches under unique uids and ids.\<close>

theorem loadable_corpus_ok:
  assumes "loadable G"
  shows "cg_ok G"
  using assms unfolding loadable_def
  by (induction rule: rtranclp_induct) (auto intro: cg_new_ok corpus_step_ok)

lemma demo_requirement_loads:
  "loadable (cg_new\<lparr>cg_nodes := [(''req_1'', Requirement demo_req)]\<rparr>)"
proof -
  have "cg_insert cg_new (Requirement demo_req)
      = Inr (cg_new\<lparr>cg_nodes := [(''req_1'', Requirement demo_req)]\<rparr>)"
    by (simp add: cg_insert_Ok_iff cg_get_def cg_node_list_def cg_new_def bvals_def demo_req_def)
  then show ?thesis unfolding loadable_def by (intro r_into_rtranclp step_node)
qed

theorem loadable_corpus_ok_witness:
  "cg_ok (cg_new\<lparr>cg_nodes := [(''req_1'', Requirement demo_req)]\<rparr>)"
  by (rule loadable_corpus_ok [OF demo_requirement_loads])

section \<open>Validation\<close>



text \<open>C12: the depth-first cycle check of the supersession planes, on a link map in which no node has
  two outgoing links and started from a list of roots that holds every node with a link, accepts
  exactly when the links are acyclic. Both validators establish the two conditions before they run
  the check. Without the first one the check is stricter: it rejects an acyclic diamond
  (\<open>shared_target_is_rejected\<close>).\<close>

theorem cycle_check_decides:
  assumes "single_links links" "\<And>u. targets_of links u \<noteq> [] \<Longrightarrow> u \<in> set us"
  shows "reject_cycles cyc links [] us = Inr () \<longleftrightarrow> acyclic (link_rel links)"
  using assms by (rule reject_cycles_iff)

theorem cycle_check_decides_witness:
  "\<not> acyclic (link_rel [(''a'', [''b'']), (''b'', [''a''])])"
proof -
  let ?m = "[(''a'', [''b'']), (''b'', [''a''])] :: (uid, uid list) bmap"
  have s: "single_links ?m" by (simp add: single_links_def targets_of_def)
  have d: "u \<in> set [''a'', ''b'']" if "targets_of ?m u \<noteq> []" for u
    using that by (simp add: targets_of_def split: if_splits)
  have "reject_cycles RE_ReviewSupersessionCycle ?m [] [''a'', ''b''] \<noteq> Inr ()"
    by (simp add: targets_of_def)
  with cycle_check_decides [OF s d] show ?thesis by blast
qed

text \<open>Two paths to one node are reported as a cycle.\<close>

theorem shared_target_is_rejected:
  defines "diamond \<equiv> [(''a'', [''b'', ''c'']), (''b'', [''d'']), (''c'', [''d''])] :: (uid, uid list) bmap"
  shows "acyclic (link_rel diamond) \<and> reject_cycles cyc diamond [] [''a'', ''b'', ''c''] = Err (cyc ''d'')"
proof
  have "link_rel diamond \<subseteq> measure (\<lambda>u. if u = ''a'' then 0 else if u = ''d'' then 2 else 1)"
    by (auto simp: diamond_def link_rel_def targets_of_def split: if_splits)
  then show "acyclic (link_rel diamond)" by (intro wf_acyclic wf_subset [OF wf_measure])
  show "reject_cycles cyc diamond [] [''a'', ''b'', ''c''] = Err (cyc ''d'')"
    by (simp add: diamond_def targets_of_def)
qed

text \<open>In an accepted corpus the reviews fall into correction chains. From every review the
  incoming supersession links lead to exactly one live head, and the head is a review by the same
  reviewer of the same target over the same reviewed digest.\<close>

theorem review_has_unique_head:
  assumes G: "cg_inv G" and ok: "cg_validate X G = Inr ()" and r: "r \<in> set (cg_reviews G)"
  shows "\<exists>h \<in> set (cg_reviews G). heads_of (review_rel G) (rv_uid r) = {rv_uid h} \<and>
    same_judgement h r \<and> h \<in> live_reviews G (rv_target r)"
  using ok by (intro live_head_of_review [OF G _ r]) (simp add: cg_validate_Ok_iff [OF G])

theorem review_has_unique_head_witness:
  "\<exists>h \<in> set (cg_reviews demo_corpus). heads_of (review_rel demo_corpus) ''rev_1'' = {rv_uid h}"
proof -
  have "demo_review_1 \<in> set (cg_reviews demo_corpus)" by (simp add: demo_reviews)
  from review_has_unique_head [OF demo_corpus_inv demo_accepted this] show ?thesis
    by (auto simp: demo_review_fields)
qed

text \<open>C11: in an accepted corpus every source revision has an effective head: the computed map
  sends its document to the one revision no other supersedes, and that head reaches the revision
  along supersession links within the document.\<close>

theorem document_has_effective_head:
  assumes G: "cg_inv G" and ok: "cg_validate X G = Inr ()" and r: "r \<in> set (cg_revisions G)"
  shows "\<exists>h \<in> set (cg_revisions G). sr_document_key h = sr_document_key r \<and>
    bget (effective_source_heads G) (sr_document_key r) = Some (sr_uid h) \<and>
    (sr_uid h, sr_uid r) \<in> (revision_rel G)\<^sup>* \<and> sr_uid h \<notin> Range (revision_rel G)"
proof -
  have "corpus_ok X G" using ok by (simp add: cg_validate_Ok_iff [OF G])
  then show ?thesis by (intro effective_head_of_document [OF _ G _ r]) (simp_all add: corpus_ok_def)
qed

theorem document_has_effective_head_witness:
  "\<exists>h \<in> set (cg_revisions demo_corpus).
    bget (effective_source_heads demo_corpus) ''guide'' = Some (sr_uid h)"
proof -
  have "demo_revision ''src_0'' ''guide'' [] \<in> set (cg_revisions demo_corpus)" by (simp add: demo_revisions)
  from document_has_effective_head [OF demo_corpus_inv demo_accepted this] show ?thesis
    by (auto simp: demo_revision_def)
qed

section \<open>Lifecycles\<close>

text \<open>C8: evaluating every lifecycle of an accepted corpus never fails, covers exactly the
  requirements, and implements the specification: a requirement is rejected when a live review
  rejects its current content, else approved when one approves it, else stale when one approves
  older content, else a candidate.\<close>

theorem lifecycles_refine_specification:
  assumes "cg_inv G" "cg_validate X G = Inr ()"
  shows "\<exists>evs. evaluate_all_lifecycles X G = Inr evs \<and> bwf evs \<and>
    (\<forall>u. bget evs u = (case cg_get G u of
        Some (Requirement q) \<Rightarrow> Some
          \<lparr>le_requirement_uid = rq_uid q,
           le_state = lifecycle_spec (live_reviews G (RequirementTarget (rq_uid q)))
             (rcd_str (review_content_digest_v1 X (from_node q))),
           le_current_digest = review_content_digest_v1 X (from_node q),
           le_effective_review_uids = map rv_uid (requirement_heads G (rq_uid q))\<rparr>
      | _ \<Rightarrow> None))"
  using evaluate_all_on_accepted [OF assms]
  unfolding requirement_evaluation_def requirement_state_def .

theorem lifecycles_refine_specification_witness:
  "\<exists>evs. evaluate_all_lifecycles demo_platform demo_corpus = Inr evs \<and>
    map_option le_state (bget evs ''req_1'') = Some Approved"
proof -
  from lifecycles_refine_specification [OF demo_corpus_inv demo_accepted] obtain evs where
    evs: "evaluate_all_lifecycles demo_platform demo_corpus = Inr evs"
    "\<And>u. bget evs u = (case cg_get demo_corpus u of
        Some (Requirement q) \<Rightarrow> Some
          \<lparr>le_requirement_uid = rq_uid q,
           le_state = lifecycle_spec (live_reviews demo_corpus (RequirementTarget (rq_uid q)))
             (rcd_str (review_content_digest_v1 demo_platform (from_node q))),
           le_current_digest = review_content_digest_v1 demo_platform (from_node q),
           le_effective_review_uids = map rv_uid (requirement_heads demo_corpus (rq_uid q))\<rparr>
      | _ \<Rightarrow> None)" by blast
  have "map_option le_state (bget evs ''req_1'') = Some (requirement_state demo_platform demo_corpus demo_req)"
    by (simp add: evs(2) demo_get requirement_state_def)
  with evs(1) show ?thesis by (simp add: demo_states)
qed

text \<open>C10: approval does not survive a change of content. When the only live decisions over a
  requirement approve an earlier content whose canonical form differs from the current one, the
  evaluated state is stale, unless the hash collides on the two canonical encodings.\<close>

theorem changed_requirement_is_stale:
  assumes G: "cg_inv G" and e: "evaluate_lifecycle X G u = Inr e"
    and now: "cg_get G u = Some (Requirement q)"
    and live: "live_reviews G (RequirementTarget u) \<noteq> {}"
    and bound: "\<forall>r \<in> live_reviews G (RequirementTarget u).
        rv_reviewed_content_sha256 r = review_content_digest_v1 X (from_node old) \<and>
        rv_decision r = Approve"
    and fits: "content_fits (from_node old)" "content_fits (from_node q)"
    and changed: "from_node q \<noteq> from_node old"
    and no_collision: "\<not> collision X (canonical_bytes_v1 (from_node old)) (canonical_bytes_v1 (from_node q))"
  shows "le_state e = Stale"
proof -
  have u: "rq_uid q = u" using cg_get_uid [OF G now] by simp
  have "requirement_state X G q = Stale"
    by (rule changed_content_stale [OF _ _ fits changed no_collision]) (use live bound u in auto)
  with e now show ?thesis
    by (simp add: evaluate_lifecycle_iff [OF G] requirement_evaluation_def)
qed

theorem changed_requirement_is_stale_witness:
  "\<exists>e. evaluate_lifecycle demo_platform demo_corpus ''req_2'' = Inr e \<and> le_state e = Stale"
proof -
  let ?e = "requirement_evaluation demo_platform demo_corpus demo_moved"
  have e: "evaluate_lifecycle demo_platform demo_corpus ''req_2'' = Inr ?e"
    by (simp add: evaluate_lifecycle_iff [OF demo_corpus_inv] demo_corpus_ok demo_get)
  have now: "cg_get demo_corpus ''req_2'' = Some (Requirement demo_moved)" by (simp add: demo_get)
  have fits: "content_fits (from_node demo_moved_old)" "content_fits (from_node demo_moved)"
    by (simp_all add: content_fits_def from_node_def canonicalize_def demo_moved_old_def demo_moved_def
        demo_req_def fits_def fits_opt_def canonical_strings_def)
  have changed: "from_node demo_moved \<noteq> from_node demo_moved_old"
    by (simp add: from_node_def canonicalize_def demo_moved_old_def demo_moved_def demo_req_def)
  have "le_state ?e = Stale"
    by (rule changed_requirement_is_stale [OF demo_corpus_inv e now _ _ fits changed demo_no_collision])
      (simp_all add: demo_live, simp add: demo_review_6_def demo_review_def)
  with e show ?thesis by blast
qed

text \<open>the canonical review content binds what a reviewer decides on. Two contents have the
  same canonical bytes exactly when they agree up to the order and repetition of the two set-like
  lists.\<close>

theorem canonical_content_binds:
  assumes "content_fits c" "content_fits d"
  shows "canonical_bytes_v1 c = canonical_bytes_v1 d \<longleftrightarrow> canonicalize c = canonicalize d"
  using assms by (rule canonical_bytes_inj)

theorem canonical_content_binds_witness:
  "canonical_bytes_v1 (from_node demo_req) \<noteq>
    canonical_bytes_v1 (from_node (demo_req\<lparr>rq_description := None\<rparr>))"
proof -
  have "content_fits (from_node demo_req)" "content_fits (from_node (demo_req\<lparr>rq_description := None\<rparr>))"
    by (simp_all add: content_fits_def from_node_def canonicalize_def demo_req_def fits_def fits_opt_def
        canonical_strings_def)
  from canonical_content_binds [OF this] show ?thesis
    by (simp add: from_node_def canonicalize_def demo_req_def)
qed

section \<open>The approval boundary\<close>

text \<open>C7: the approval boundary lets a corpus through exactly when it is accepted, every requirement
  a test verifies or whose metadata claim modules or emitted codes is approved, and every approved
  patch applies to the committed graph of its revision.\<close>

theorem boundary_characterised:
  assumes "cg_inv G"
  shows "validate_approval_boundary X G Required = Inr () \<longleftrightarrow> corpus_ok X G \<and>
    (\<forall>q \<in> set (cg_requirements G). gated G q \<longrightarrow> requirement_state X G q = Approved) \<and>
    (\<forall>p \<in> set (bvals (cg_source_patches G)). patch_state G p = Approved \<longrightarrow> producible X G p)"
  using assms by (rule approval_boundary_Ok_iff)

theorem boundary_characterised_witness:
  "validate_approval_boundary demo_platform demo_corpus Required = Inr ()"
  unfolding boundary_characterised [OF demo_corpus_inv]
  by (simp add: demo_corpus_ok demo_patches demo_producible demo_insert_producible demo_states
      demo_requirements demo_not_gated)

text \<open>C9: the effective graph of a revision exists exactly when the corpus is accepted, the
  revision is known and its approved patches apply one after another to the committed graph; it is
  then their result, and the recorded uids are exactly those of the approved patches, in order.\<close>

theorem effective_graph_characterised:
  assumes "cg_inv G"
  shows "effective_source_graph X G r b mt = Inr e \<longleftrightarrow>
    corpus_ok X G \<and> (\<exists>rev \<in> set (cg_revisions G). sr_uid rev = r) \<and>
    apply_chain X b mt (parser_graph G r) (approved_patches G r) = Some (eg_graph e) \<and>
    eg_applied_patch_uids e = map sp_uid (approved_patches G r) \<and> eg_source_revision_uid e = r"
  using assms by (rule effective_graph_Ok_iff)

theorem effective_graph_characterised_witness:
  "\<exists>e. effective_source_graph demo_platform demo_corpus ''src_1'' demo_bindings ''text/markdown'' = Inr e
    \<and> eg_applied_patch_uids e = [''patch_1'']"
proof -
  have a: "approved_patches demo_corpus ''src_1'' = [demo_patch]"
    by (simp add: approved_patches_def demo_patches demo_states demo_patch_fields
        demo_insert_def)
  obtain h where h: "apply_chain demo_platform demo_bindings ''text/markdown'' demo_graph [demo_patch] = Some h"
    using demo_applies by auto
  have "effective_source_graph demo_platform demo_corpus ''src_1'' demo_bindings ''text/markdown''
      = Inr \<lparr>eg_source_revision_uid = ''src_1'', eg_graph = h, eg_applied_patch_uids = [''patch_1'']\<rparr>"
    unfolding effective_graph_characterised [OF demo_corpus_inv] a
    using h by (auto simp: demo_corpus_ok demo_revisions demo_revision_def parser_graph_def
        demo_graph_of demo_patch_fields)
  then show ?thesis by auto
qed

text \<open>C13: two approved patches of one revision do not compose. Every patch of an accepted corpus is
  bound to the committed graph, so once the first one changes the digest of the graph the second
  cannot apply and the revision has no effective graph. The approval boundary tries every patch
  alone on the committed graph; the witness is a corpus it lets through.\<close>

theorem second_patch_cannot_apply:
  assumes G: "cg_inv G" and two: "approved_patches G r = p # q # qs"
    and a: "apply_patch X (parser_graph G r) p b mt = Inr a"
    and changed: "source_graph_digest X (pa_graph a) \<noteq> source_graph_digest X (parser_graph G r)"
  shows "\<exists>err. effective_source_graph X G r b mt = Inl err"
proof (rule ccontr)
  assume "\<not> ?thesis"
  then obtain e where e: "effective_source_graph X G r b mt = Inr e"
    by (cases "effective_source_graph X G r b mt") auto
  then have chain: "apply_chain X b mt (parser_graph G r) (approved_patches G r) = Some (eg_graph e)"
    and ok: "corpus_ok X G" by (simp_all add: effective_graph_Ok_iff [OF G])
  have bound: "\<forall>p \<in> set (approved_patches G r). sp_source_revision_uid p = r \<and>
      sp_pre_patch_graph_digest p = source_graph_digest X (parser_graph G r)"
    using ok by (auto simp: approved_patches_def corpus_ok_def patch_bound_def parser_graph_def)
  obtain a' where a': "apply_patch X (pa_graph a) q b mt = Inr a'"
    using chain two a by (auto split: sum.splits)
  have "of_revision (sp_source_revision_uid p) (parser_graph G r)"
    using parser_graph_of_revision [OF G] bound two by simp
  from patched_graph_facts [OF this a] have "sg_inv (pa_graph a)" using of_revision_inv by blast
  from a' [unfolded apply_patch_Ok_iff [OF this]] bound two changed show False
    by (simp add: bindings_match_def)
qed

theorem second_patch_cannot_apply_witness:
  "validate_approval_boundary demo_platform demo_corpus Required = Inr () \<and>
    (\<exists>err. effective_source_graph demo_platform demo_corpus ''src_2'' demo_bindings ''text/markdown''
      = Inl err)"
proof
  show "validate_approval_boundary demo_platform demo_corpus Required = Inr ()"
    unfolding approval_boundary_Ok_iff [OF demo_corpus_inv]
    by (simp add: demo_corpus_ok demo_patches demo_producible demo_insert_producible demo_states
        demo_requirements demo_not_gated)
  have two: "approved_patches demo_corpus ''src_2'' =
      [demo_insert ''patch_2'' ''snode_7'', demo_insert ''patch_3'' ''snode_8'']"
    by (simp add: approved_patches_def demo_patches demo_states demo_patch_fields)
      (simp add: demo_insert_def)
  have p: "parser_graph demo_corpus ''src_2'' = sg_new" by (simp add: parser_graph_def demo_graph_of)
  show "\<exists>err. effective_source_graph demo_platform demo_corpus ''src_2'' demo_bindings ''text/markdown''
      = Inl err"
    by (rule second_patch_cannot_apply [OF demo_corpus_inv two, unfolded p, OF demo_insert_applies])
      (simp add: demo_rooted_digest)
qed

end
