(* ===== verification/Trace_Entries.thy ===== *)
theory Trace_Entries
  imports Corpus_Graph
begin

text \<open>
  The legacy trace documents (\<^verbatim>\<open>trace/entries.rs\<close>), the design assurance levels
  (\<^verbatim>\<open>policy/dal.rs\<close>, \<^verbatim>\<open>policy/assurance.rs\<close>) and the evidence policy each level selects
  (\<^verbatim>\<open>policy/evidence.rs\<close>).
\<close>

section \<open>Trace entries\<close>

record hlr_entry =
  h_uid :: "string option"
  h_ns :: "string option"
  h_id :: string
  h_title :: string
  h_owner :: "string option"
  h_scope :: "string option"
  h_sort_key :: "int option"
  h_category :: "string option"
  h_source :: "string option"
  h_description :: "string option"
  h_rationale :: "string option"
  h_verification_methods :: "string list"
  h_traces_to :: "string list"
  h_surfaces :: "string list"

record llr_entry =
  l_uid :: "string option"
  l_ns :: "string option"
  l_id :: string
  l_title :: string
  l_owner :: "string option"
  l_sort_key :: "int option"
  l_traces_to :: "string list"
  l_source :: "string option"
  l_modules :: "string list"
  l_description :: "string option"
  l_verification_methods :: "string list"
  l_emits :: "string list"

record test_entry =
  t_uid :: "string option"
  t_ns :: "string option"
  t_id :: string
  t_title :: string
  t_owner :: "string option"
  t_sort_key :: "int option"
  t_traces_to :: "string list"
  t_description :: "string option"
  t_category :: "string option"
  t_test_selector :: "string option"
  t_test_selectors :: "string list"
  t_source :: "string option"

record derived_entry =
  d_uid :: "string option"
  d_id :: string
  d_title :: string
  d_owner :: "string option"
  d_source :: "string option"
  d_description :: "string option"
  d_rationale :: "string option"
  d_safety_impact :: "string option"
  d_disposition :: "string option"
  d_reviewed :: "bool option"
  d_sort_key :: "int option"

text \<open>A \<^verbatim>\<open>BTreeSet\<close> of strings collected into a vector: sorted, without repetition.\<close>

definition all_selectors :: "test_entry \<Rightarrow> string list" where
  "all_selectors t = canonical_strings (t_test_selectors t
     @ (case t_test_selector t of None \<Rightarrow> [] | Some s \<Rightarrow> [s]))"

text \<open>The five streams of a trace, in the order the validator takes them.\<close>

record trace_parts =
  tr_sys :: "hlr_entry list"
  tr_hlrs :: "hlr_entry list"
  tr_llrs :: "llr_entry list"
  tr_tests :: "test_entry list"
  tr_derived :: "derived_entry list"

section \<open>Assurance levels\<close>

datatype dal = DalD | DalC | DalB | DalA

fun dal_rank :: "dal \<Rightarrow> nat" where
  "dal_rank DalD = 0"
| "dal_rank DalC = 1"
| "dal_rank DalB = 2"
| "dal_rank DalA = 3"

lemma dal_rank_inj: "dal_rank a = dal_rank b \<longleftrightarrow> a = b"
  by (cases a; cases b) simp_all

instantiation dal :: linorder
begin

definition less_eq_dal :: "dal \<Rightarrow> dal \<Rightarrow> bool" where
  "less_eq_dal a b \<longleftrightarrow> dal_rank a \<le> dal_rank b"

definition less_dal :: "dal \<Rightarrow> dal \<Rightarrow> bool" where
  "less_dal a b \<longleftrightarrow> dal_rank a < dal_rank b"

instance
  by standard (auto simp: less_eq_dal_def less_dal_def dal_rank_inj)

end

fun dal_display :: "dal \<Rightarrow> string" where
  "dal_display DalA = ''A''"
| "dal_display DalB = ''B''"
| "dal_display DalC = ''C''"
| "dal_display DalD = ''D''"

datatype parse_dal_error = UnknownDal string

text \<open>\<^verbatim>\<open>s.to_uppercase()\<close> maps no other string to one of these four letters.\<close>

definition dal_from_str :: "string \<Rightarrow> parse_dal_error + dal" where
  "dal_from_str s =
    (if s = ''A'' \<or> s = ''a'' then Ok DalA
     else if s = ''B'' \<or> s = ''b'' then Ok DalB
     else if s = ''C'' \<or> s = ''c'' then Ok DalC
     else if s = ''D'' \<or> s = ''d'' then Ok DalD
     else Err (UnknownDal s))"

record dal_coverage_thresholds =
  ct_statement_percent :: "nat option"
  ct_branch_percent :: "nat option"

fun coverage_thresholds :: "dal \<Rightarrow> dal_coverage_thresholds" where
  "coverage_thresholds DalD = \<lparr>ct_statement_percent = None, ct_branch_percent = None\<rparr>"
| "coverage_thresholds DalC = \<lparr>ct_statement_percent = Some 90, ct_branch_percent = None\<rparr>"
| "coverage_thresholds DalB = \<lparr>ct_statement_percent = Some 95, ct_branch_percent = Some 85\<rparr>"
| "coverage_thresholds DalA = \<lparr>ct_statement_percent = Some 95, ct_branch_percent = Some 90\<rparr>"

datatype assurance_level = Unclassified | Qm | LevelD | LevelC | LevelB | LevelA

fun level_as_str :: "assurance_level \<Rightarrow> string" where
  "level_as_str Unclassified = ''unclassified''"
| "level_as_str Qm = ''qm''"
| "level_as_str LevelD = ''dal_d''"
| "level_as_str LevelC = ''dal_c''"
| "level_as_str LevelB = ''dal_b''"
| "level_as_str LevelA = ''dal_a''"

fun level_from_dal :: "dal \<Rightarrow> assurance_level" where
  "level_from_dal DalA = LevelA"
| "level_from_dal DalB = LevelB"
| "level_from_dal DalC = LevelC"
| "level_from_dal DalD = LevelD"

fun as_dal :: "assurance_level \<Rightarrow> dal option" where
  "as_dal LevelA = Some DalA"
| "as_dal LevelB = Some DalB"
| "as_dal LevelC = Some DalC"
| "as_dal LevelD = Some DalD"
| "as_dal Qm = None"
| "as_dal Unclassified = None"

definition effective_policy_dal :: "assurance_level \<Rightarrow> dal" where
  "effective_policy_dal level = (case as_dal level of Some d \<Rightarrow> d | None \<Rightarrow> DalD)"

fun level_display :: "assurance_level \<Rightarrow> string" where
  "level_display LevelA = ''A''"
| "level_display LevelB = ''B''"
| "level_display LevelC = ''C''"
| "level_display LevelD = ''D''"
| "level_display Qm = ''QM''"
| "level_display Unclassified = ''unclassified''"

section \<open>Evidence policy\<close>

record trace_policy =
  tp_require_uids :: bool
  tp_require_owners :: bool
  tp_require_hlr_verification_methods :: bool
  tp_require_llr_verification_methods :: bool
  tp_require_derived_rationale :: bool
  tp_require_hlr_sys_trace :: bool
  tp_require_hlr_surface_bijection :: bool
  tp_require_derived_safety_impact :: bool
  tp_require_derived_disposition :: bool
  tp_require_derived_reviewed :: bool

record evidence_policy =
  ep_trace :: trace_policy
  ep_require_structural_coverage :: bool
  ep_coverage_level :: "string option"
  ep_require_independent_verification :: bool

definition strict_trace_policy :: "bool \<Rightarrow> trace_policy" where
  "strict_trace_policy llr_methods =
    \<lparr>tp_require_uids = True, tp_require_owners = True, tp_require_hlr_verification_methods = True,
     tp_require_llr_verification_methods = llr_methods, tp_require_derived_rationale = True,
     tp_require_hlr_sys_trace = True, tp_require_hlr_surface_bijection = False,
     tp_require_derived_safety_impact = True, tp_require_derived_disposition = True,
     tp_require_derived_reviewed = True\<rparr>"

fun for_dal :: "dal \<Rightarrow> evidence_policy" where
  "for_dal DalA = \<lparr>ep_trace = strict_trace_policy True, ep_require_structural_coverage = True,
     ep_coverage_level = Some ''MC/DC'', ep_require_independent_verification = True\<rparr>"
| "for_dal DalB = \<lparr>ep_trace = strict_trace_policy True, ep_require_structural_coverage = True,
     ep_coverage_level = Some ''decision'', ep_require_independent_verification = True\<rparr>"
| "for_dal DalC = \<lparr>ep_trace = strict_trace_policy False, ep_require_structural_coverage = True,
     ep_coverage_level = Some ''statement'', ep_require_independent_verification = False\<rparr>"
| "for_dal DalD = \<lparr>ep_trace =
       \<lparr>tp_require_uids = True, tp_require_owners = False,
        tp_require_hlr_verification_methods = False, tp_require_llr_verification_methods = False,
        tp_require_derived_rationale = False, tp_require_hlr_sys_trace = False,
        tp_require_hlr_surface_bijection = False, tp_require_derived_safety_impact = False,
        tp_require_derived_disposition = False, tp_require_derived_reviewed = False\<rparr>,
     ep_require_structural_coverage = False, ep_coverage_level = None,
     ep_require_independent_verification = False\<rparr>"

text \<open>One trace policy demands whatever another does.\<close>

definition at_least_as_strict :: "trace_policy \<Rightarrow> trace_policy \<Rightarrow> bool" where
  "at_least_as_strict p q \<longleftrightarrow>
    (tp_require_uids q \<longrightarrow> tp_require_uids p) \<and> (tp_require_owners q \<longrightarrow> tp_require_owners p) \<and>
    (tp_require_hlr_verification_methods q \<longrightarrow> tp_require_hlr_verification_methods p) \<and>
    (tp_require_llr_verification_methods q \<longrightarrow> tp_require_llr_verification_methods p) \<and>
    (tp_require_derived_rationale q \<longrightarrow> tp_require_derived_rationale p) \<and>
    (tp_require_hlr_sys_trace q \<longrightarrow> tp_require_hlr_sys_trace p) \<and>
    (tp_require_hlr_surface_bijection q \<longrightarrow> tp_require_hlr_surface_bijection p) \<and>
    (tp_require_derived_safety_impact q \<longrightarrow> tp_require_derived_safety_impact p) \<and>
    (tp_require_derived_disposition q \<longrightarrow> tp_require_derived_disposition p) \<and>
    (tp_require_derived_reviewed q \<longrightarrow> tp_require_derived_reviewed p)"

lemma for_dal_monotone: "d \<le> e \<Longrightarrow> at_least_as_strict (ep_trace (for_dal e)) (ep_trace (for_dal d))"
  by (cases d; cases e) (simp_all add: at_least_as_strict_def strict_trace_policy_def less_eq_dal_def)

lemma level_roundtrip: "as_dal (level_from_dal d) = Some d"
  by (cases d) simp_all

lemma dal_display_roundtrip: "dal_from_str (dal_display d) = Inr d"
  by (cases d) (simp_all add: dal_from_str_def)

end
