(* ===== verification/Trace_Validation.thy ===== *)
theory Trace_Validation
  imports Trace_Entries
begin

text \<open>
  The trace-link validator (\<^verbatim>\<open>trace/validation.rs\<close>) with its typed errors
  (\<^verbatim>\<open>trace/validation/link_errors.rs\<close>), the legacy trace as a corpus graph
  (\<^verbatim>\<open>corpus/legacy.rs\<close>) and the surface and diagnostic bijections (\<^verbatim>\<open>trace/assurance.rs\<close>).
  \<^verbatim>\<open>uuid::Uuid::parse_str(s).is_ok()\<close> is the parameter \<open>is_uuid\<close>.
\<close>

section \<open>Errors\<close>

datatype link_error =
    InvalidLinkUuid string string string
  | DanglingLink string string string string
  | WrongTargetKind string string string string string
  | OwnershipViolation string string string string string string
  | SurfaceUnknown string string
  | SurfaceUnclaimed string
  | MissingVerificationMethods string string
  | MissingHlrSysTrace string
  | DuplicateTraceLink string string string
  | LlrMissingParentLinks string
  | DerivedMissingRationale string
  | DerivedMissingSafetyImpact string
  | DerivedMissingDisposition string
  | DerivedUnreviewed string
  | OtherLinkError string

fun link_error_code :: "link_error \<Rightarrow> string" where
  "link_error_code (InvalidLinkUuid _ _ _) = ''TRACE_INVALID_LINK_UUID''"
| "link_error_code (DanglingLink _ _ _ _) = ''TRACE_DANGLING_LINK''"
| "link_error_code (WrongTargetKind _ _ _ _ _) = ''TRACE_WRONG_TARGET_KIND''"
| "link_error_code (OwnershipViolation _ _ _ _ _ _) = ''TRACE_OWNERSHIP_VIOLATION''"
| "link_error_code (SurfaceUnknown _ _) = ''TRACE_HLR_SURFACE_UNKNOWN''"
| "link_error_code (SurfaceUnclaimed _) = ''TRACE_HLR_SURFACE_UNCLAIMED''"
| "link_error_code (MissingVerificationMethods _ _) = ''TRACE_MISSING_VERIFICATION_METHODS''"
| "link_error_code (MissingHlrSysTrace _) = ''TRACE_MISSING_HLR_SYS_TRACE''"
| "link_error_code (DuplicateTraceLink _ _ _) = ''TRACE_DUPLICATE_TRACE_LINK''"
| "link_error_code (LlrMissingParentLinks _) = ''TRACE_LLR_MISSING_PARENT_LINKS''"
| "link_error_code (DerivedMissingRationale _) = ''TRACE_DERIVED_MISSING_RATIONALE''"
| "link_error_code (DerivedMissingSafetyImpact _) = ''TRACE_DERIVED_MISSING_SAFETY_IMPACT''"
| "link_error_code (DerivedMissingDisposition _) = ''TRACE_DERIVED_MISSING_DISPOSITION''"
| "link_error_code (DerivedUnreviewed _) = ''TRACE_DERIVED_UNREVIEWED''"
| "link_error_code (OtherLinkError _) = ''TRACE_LINK_OTHER''"

datatype trace_validation_error =
    TraceRegister "string list"
  | TraceLink "link_error list"

fun trace_error_code :: "trace_validation_error \<Rightarrow> string" where
  "trace_error_code (TraceRegister _) = ''TRACE_REGISTER_FAILED''"
| "trace_error_code (TraceLink _) = ''TRACE_LINK_FAILED''"

section \<open>The legacy trace as a corpus graph\<close>

definition require_uid :: "string option \<Rightarrow> string \<Rightarrow> corpus_error + uid" where
  "require_uid u entry_id = (case u of Some v \<Rightarrow> Ok v | None \<Rightarrow> Err (CE_LegacyMissingUid entry_id))"

definition derives_from_edges :: "string list \<Rightarrow> edges" where
  "derives_from_edges traces_to = map (\<lambda>target. (DerivesFrom, target)) traces_to"

definition requirement_from_hlr_entry ::
  "hlr_entry \<Rightarrow> requirement_layer \<Rightarrow> corpus_error + node \<times> trace_metadata" where
  "requirement_from_hlr_entry entry layer =
    rbind (require_uid (h_uid entry) (h_id entry)) (\<lambda>u.
    Ok (Requirement \<lparr>rq_uid = u, rq_id = h_id entry, rq_title = h_title entry, rq_layer = layer,
          rq_edges = derives_from_edges (h_traces_to entry), rq_description = h_description entry,
          rq_rationale = h_rationale entry, rq_scope = h_scope entry,
          rq_category = h_category entry, rq_source = h_source entry,
          rq_verification_methods = canonical_strings (h_verification_methods entry),
          rq_safety_impact = None\<rparr>,
        RequirementMeta \<lparr>rm_namespace = h_ns entry, rm_sort_key = h_sort_key entry,
          rm_scope = h_scope entry, rm_category = h_category entry, rm_source = h_source entry,
          rm_modules = [], rm_surfaces = canonical_strings (h_surfaces entry), rm_emits = [],
          rm_verification_methods = canonical_strings (h_verification_methods entry)\<rparr>))"

definition requirement_from_llr_entry :: "llr_entry \<Rightarrow> corpus_error + node \<times> trace_metadata" where
  "requirement_from_llr_entry entry =
    rbind (require_uid (l_uid entry) (l_id entry)) (\<lambda>u.
    Ok (Requirement \<lparr>rq_uid = u, rq_id = l_id entry, rq_title = l_title entry, rq_layer = Llr,
          rq_edges = derives_from_edges (l_traces_to entry), rq_description = l_description entry,
          rq_rationale = None, rq_scope = None, rq_category = None, rq_source = l_source entry,
          rq_verification_methods = canonical_strings (l_verification_methods entry),
          rq_safety_impact = None\<rparr>,
        RequirementMeta \<lparr>rm_namespace = l_ns entry, rm_sort_key = l_sort_key entry,
          rm_scope = None, rm_category = None, rm_source = l_source entry,
          rm_modules = l_modules entry, rm_surfaces = [],
          rm_emits = canonical_strings (l_emits entry),
          rm_verification_methods = canonical_strings (l_verification_methods entry)\<rparr>))"

definition requirement_from_derived_entry :: "derived_entry \<Rightarrow> corpus_error + node \<times> trace_metadata" where
  "requirement_from_derived_entry entry =
    rbind (require_uid (d_uid entry) (d_id entry)) (\<lambda>u.
    Ok (Requirement \<lparr>rq_uid = u, rq_id = d_id entry, rq_title = d_title entry, rq_layer = Derived,
          rq_edges = [], rq_description = d_description entry, rq_rationale = d_rationale entry,
          rq_scope = None, rq_category = None, rq_source = d_source entry,
          rq_verification_methods = [], rq_safety_impact = d_safety_impact entry\<rparr>,
        RequirementMeta \<lparr>rm_namespace = None, rm_sort_key = d_sort_key entry, rm_scope = None,
          rm_category = None, rm_source = d_source entry, rm_modules = [], rm_surfaces = [],
          rm_emits = [], rm_verification_methods = []\<rparr>))"

definition test_from_entry :: "test_entry \<Rightarrow> corpus_error + node \<times> trace_metadata" where
  "test_from_entry entry =
    rbind (require_uid (t_uid entry) (t_id entry)) (\<lambda>u.
    Ok (Test \<lparr>ts_uid = u, ts_id = t_id entry, ts_title = t_title entry,
          ts_selectors = all_selectors entry,
          ts_edges = map (\<lambda>target. (Verifies, target)) (t_traces_to entry)\<rparr>,
        TestMeta \<lparr>tm_namespace = t_ns entry, tm_sort_key = t_sort_key entry,
          tm_category = t_category entry, tm_source = t_source entry,
          tm_primary_selector = t_test_selector entry\<rparr>))"

definition insert_adapted ::
  "('e \<Rightarrow> corpus_error + node \<times> trace_metadata) \<Rightarrow> corpus_graph \<Rightarrow> 'e \<Rightarrow> corpus_error + corpus_graph" where
  "insert_adapted adapt G entry =
    rbind (adapt entry) (\<lambda>(node, metadata). insert_with_trace_metadata G node metadata)"

definition graph_from_trace_parts :: "trace_parts \<Rightarrow> corpus_error + corpus_graph" where
  "graph_from_trace_parts t =
    rbind (fold_res (insert_adapted (\<lambda>e. requirement_from_hlr_entry e Sys)) cg_new (tr_sys t)) (\<lambda>g1.
    rbind (fold_res (insert_adapted (\<lambda>e. requirement_from_hlr_entry e Hlr)) g1 (tr_hlrs t)) (\<lambda>g2.
    rbind (fold_res (insert_adapted requirement_from_llr_entry) g2 (tr_llrs t)) (\<lambda>g3.
    rbind (fold_res (insert_adapted requirement_from_derived_entry) g3 (tr_derived t)) (\<lambda>g4.
    fold_res (insert_adapted test_from_entry) g4 (tr_tests t)))))"

section \<open>Bijections\<close>

definition known_surfaces :: "string list" where
  "known_surfaces = [''check'', ''context'', ''diff'', ''doctor'', ''floors'', ''generate'', ''init'',
     ''keygen'', ''rules'', ''trace'', ''verify'',
     ''CLI_SUBCOMMAND_ERROR terminal'',
     ''VERIFY_OK / VERIFY_FAIL / VERIFY_ERROR terminal contract'',
     ''agent MCP surface'', ''comment hygiene gate'', ''coverage measurement'',
     ''diagnostic code namespace (regex + reserved suffixes)'',
     ''editor-duplicate gate'', ''jsonl stream per Schema Rule 2'',
     ''layered CLAUDE.md (root + crates/*/CLAUDE.md)'', ''per-test outcome capture'',
     ''per-test '' @ [CHR 0xE2, CHR 0x86, CHR 0x94] @ '' LLR back-link'',
     ''pre-release safety gate'', ''root_cause_uid grouping per Schema Rule 7'',
     ''structured Link-phase diagnostic codes'', ''trace-ID reference bijection'',
     ''walker-usage standardization'']"

text \<open>A \<^verbatim>\<open>BTreeSet<String>\<close> as its elements in order.\<close>

type_synonym bset = "string list"

definition sins :: "string \<Rightarrow> bset \<Rightarrow> bset" where
  "sins x s = (if x \<in> set s then s else insort x s)"

record assurance_bijections =
  ab_surface_claimants :: "(string, bset) bmap"
  ab_diagnostic_claimants :: "(string, bset) bmap"

record bijection_diff =
  bd_unknown :: "string list"
  bd_unclaimed :: "string list"

text \<open>\<^verbatim>\<open>entry(claim).or_default().insert(requirement_id)\<close> for each claim.\<close>

definition add_claims :: "string \<Rightarrow> string list \<Rightarrow> (string, bset) bmap \<Rightarrow> (string, bset) bmap" where
  "add_claims requirement_id claims mappings =
    fold (\<lambda>claim m. bins claim
      (sins requirement_id (case bget m claim of None \<Rightarrow> [] | Some s \<Rightarrow> s)) m) claims mappings"

definition claim_node :: "corpus_graph \<Rightarrow> node \<Rightarrow> assurance_bijections \<Rightarrow> assurance_bijections" where
  "claim_node G node b =
    (case node of
       Requirement requirement \<Rightarrow>
        (case trace_metadata_of G (rq_uid requirement) of
           Some (RequirementMeta metadata) \<Rightarrow>
            (case rq_layer requirement of
               Hlr \<Rightarrow> b\<lparr>ab_surface_claimants :=
                 add_claims (rq_id requirement) (rm_surfaces metadata) (ab_surface_claimants b)\<rparr>
             | Llr \<Rightarrow> b\<lparr>ab_diagnostic_claimants :=
                 add_claims (rq_id requirement) (rm_emits metadata) (ab_diagnostic_claimants b)\<rparr>
             | _ \<Rightarrow> b)
         | _ \<Rightarrow> b)
     | _ \<Rightarrow> b)"

definition bijections_from_graph :: "corpus_graph \<Rightarrow> assurance_bijections" where
  "bijections_from_graph G = fold (claim_node G) (cg_node_list G)
     \<lparr>ab_surface_claimants = [], ab_diagnostic_claimants = []\<rparr>"

definition bijections_from_hlr_entries :: "hlr_entry list \<Rightarrow> assurance_bijections" where
  "bijections_from_hlr_entries entries =
    \<lparr>ab_surface_claimants = fold (\<lambda>e. add_claims (h_id e) (h_surfaces e)) entries [],
     ab_diagnostic_claimants = []\<rparr>"

definition diagnostic_diff :: "assurance_bijections \<Rightarrow> string list \<Rightarrow> string list \<Rightarrow> bijection_diff" where
  "diagnostic_diff b known reserved =
    \<lparr>bd_unknown = filter (\<lambda>code. code \<notin> set known) (bkeys (ab_diagnostic_claimants b)),
     bd_unclaimed = filter (\<lambda>code. bget (ab_diagnostic_claimants b) code = None)
       (filter (\<lambda>code. code \<notin> set reserved) (canonical_strings known))\<rparr>"

definition surface_errors :: "assurance_bijections \<Rightarrow> link_error list" where
  "surface_errors b =
    concat (map (\<lambda>(surface, claimants). if surface \<in> set known_surfaces then []
        else map (\<lambda>hlr_id. SurfaceUnknown hlr_id surface) claimants) (ab_surface_claimants b))
    @ concat (map (\<lambda>surface. if bget (ab_surface_claimants b) surface = None
        then [SurfaceUnclaimed surface] else []) known_surfaces)"

section \<open>The register phase\<close>

record register_state =
  rs_errors :: "string list"
  rs_uid_index :: "(string, string \<times> string \<times> string) bmap"
  rs_item_index :: "(string \<times> string \<times> string, string) bmap"

definition quote :: string where
  "quote = [CHR 0x27]"

definition register_entry ::
  "(string \<Rightarrow> bool) \<Rightarrow> trace_policy \<Rightarrow> register_state
    \<Rightarrow> string option \<times> string option \<times> string \<times> string \<Rightarrow> register_state" where
  "register_entry is_uuid policy st entry =
    (case entry of (u, owner, entry_id, kind) \<Rightarrow>
      let tag = ''['' @ kind @ '':'' @ entry_id @ '']'' in
      case owner of
        None \<Rightarrow> if tp_require_owners policy
                then st\<lparr>rs_errors := rs_errors st @ [tag @ '' missing '' @ quote @ ''owner'' @ quote]\<rparr>
                else st
      | Some ow \<Rightarrow>
        (case u of
           None \<Rightarrow> if tp_require_uids policy
                   then st\<lparr>rs_errors := rs_errors st @ [tag @ '' missing UID'']\<rparr> else st
         | Some v \<Rightarrow>
            if tp_require_uids policy \<and> \<not> is_uuid v
            then st\<lparr>rs_errors := rs_errors st
                   @ [tag @ '' invalid UID format '' @ quote @ v @ quote]\<rparr>
            else
              let st1 = (case bget (rs_uid_index st) v of
                    Some (prev_kind, prev_owner, prev_id) \<Rightarrow>
                      st\<lparr>rs_errors := rs_errors st @ [''Duplicate UID '' @ v @ '': used by ['' @ prev_kind
                          @ ''('' @ prev_owner @ ''):'' @ prev_id @ ''] and ['' @ kind @ ''('' @ ow @ ''):''
                          @ entry_id @ '']'']\<rparr>
                  | None \<Rightarrow> st\<lparr>rs_uid_index := bins v (kind, ow, entry_id) (rs_uid_index st)\<rparr>);
                  key = (kind, ow, entry_id)
              in (case bget (rs_item_index st1) key of
                    Some prev_uid \<Rightarrow>
                      st1\<lparr>rs_errors := rs_errors st1 @ [''Duplicate Item '' @ quote @ kind @ ''('' @ ow
                          @ ''):'' @ entry_id @ quote @ '': used by '' @ prev_uid @ '' and '' @ v]\<rparr>
                  | None \<Rightarrow> st1\<lparr>rs_item_index := bins key v (rs_item_index st1)\<rparr>)))"

definition trace_entries ::
  "trace_parts \<Rightarrow> (string option \<times> string option \<times> string \<times> string) list" where
  "trace_entries t =
    map (\<lambda>r. (h_uid r, h_owner r, h_id r, ''SYS'')) (tr_sys t)
    @ map (\<lambda>r. (h_uid r, h_owner r, h_id r, ''HLR'')) (tr_hlrs t)
    @ map (\<lambda>r. (l_uid r, l_owner r, l_id r, ''LLR'')) (tr_llrs t)
    @ map (\<lambda>r. (t_uid r, t_owner r, t_id r, ''TEST'')) (tr_tests t)
    @ map (\<lambda>r. (d_uid r, d_owner r, d_id r, ''DERIVED'')) (tr_derived t)"

definition register_all :: "(string \<Rightarrow> bool) \<Rightarrow> trace_policy \<Rightarrow> trace_parts \<Rightarrow> register_state" where
  "register_all is_uuid policy t =
    foldl (register_entry is_uuid policy)
      \<lparr>rs_errors = [], rs_uid_index = [], rs_item_index = []\<rparr> (trace_entries t)"

section \<open>The link phase\<close>

definition owner_rule_holds :: "string \<Rightarrow> string \<Rightarrow> string \<Rightarrow> string \<Rightarrow> bool" where
  "owner_rule_holds source_kind expected_target_kind sowner towner =
    (if (source_kind, expected_target_kind) = (''HLR'', ''SYS'')
        \<or> (source_kind, expected_target_kind) = (''LLR'', ''HLR'')
     then sowner = towner \<or> towner = ''soi'' \<or> towner = ''project''
     else if (source_kind, expected_target_kind) = (''TEST'', ''LLR'') then sowner = towner
     else True)"

definition check_link ::
  "(string \<Rightarrow> bool) \<Rightarrow> (string, string \<times> string \<times> string) bmap \<Rightarrow> string \<Rightarrow> string \<Rightarrow> string option
    \<Rightarrow> string \<Rightarrow> string \<Rightarrow> link_error option" where
  "check_link is_uuid uid_index source_kind source_id source_owner expected_target_kind link =
    (if \<not> is_uuid link then Some (InvalidLinkUuid source_kind source_id link)
     else case bget uid_index link of
       None \<Rightarrow> Some (DanglingLink source_kind source_id link expected_target_kind)
     | Some (found_kind, found_owner, found_id) \<Rightarrow>
        if found_kind \<noteq> expected_target_kind
        then Some (WrongTargetKind source_kind source_id link expected_target_kind found_kind)
        else
          let s_owner = (case source_owner of Some s \<Rightarrow> s | None \<Rightarrow> ''UNKNOWN'') in
          if owner_rule_holds source_kind expected_target_kind s_owner found_owner then None
          else Some (OwnershipViolation source_kind source_id s_owner expected_target_kind found_id
                 found_owner))"

text \<open>The loop over the links of one entry, with the set of links already seen.\<close>

fun scan_links ::
  "string \<Rightarrow> string \<Rightarrow> (string \<Rightarrow> link_error option) \<Rightarrow> string list \<Rightarrow> string list \<Rightarrow> link_error list" where
  "scan_links source_kind source_id check seen [] = []"
| "scan_links source_kind source_id check seen (link # links) =
    (if link \<in> set seen then [DuplicateTraceLink source_kind source_id link] else [])
    @ (case check link of Some e \<Rightarrow> [e] | None \<Rightarrow> [])
    @ scan_links source_kind source_id check (link # seen) links"

definition hlr_link_errors ::
  "(string \<Rightarrow> bool) \<Rightarrow> trace_policy \<Rightarrow> (string, string \<times> string \<times> string) bmap \<Rightarrow> hlr_entry
    \<Rightarrow> link_error list" where
  "hlr_link_errors is_uuid policy uid_index r =
    (if tp_require_hlr_verification_methods policy \<and> h_verification_methods r = []
     then [MissingVerificationMethods ''HLR'' (h_id r)] else [])
    @ (if tp_require_hlr_sys_trace policy \<and> h_traces_to r = []
       then [MissingHlrSysTrace (h_id r)] else [])
    @ scan_links ''HLR'' (h_id r)
        (check_link is_uuid uid_index ''HLR'' (h_id r) (h_owner r) ''SYS'') [] (h_traces_to r)"

definition llr_link_errors ::
  "(string \<Rightarrow> bool) \<Rightarrow> trace_policy \<Rightarrow> (string, string \<times> string \<times> string) bmap \<Rightarrow> llr_entry
    \<Rightarrow> link_error list" where
  "llr_link_errors is_uuid policy uid_index r =
    (if l_traces_to r = [] then [LlrMissingParentLinks (l_id r)] else [])
    @ (if tp_require_llr_verification_methods policy \<and> l_verification_methods r = []
       then [MissingVerificationMethods ''LLR'' (l_id r)] else [])
    @ scan_links ''LLR'' (l_id r)
        (check_link is_uuid uid_index ''LLR'' (l_id r) (l_owner r) ''HLR'') [] (l_traces_to r)"

definition test_link_errors ::
  "(string \<Rightarrow> bool) \<Rightarrow> (string, string \<times> string \<times> string) bmap \<Rightarrow> test_entry \<Rightarrow> link_error list" where
  "test_link_errors is_uuid uid_index t =
    scan_links ''TEST'' (t_id t)
      (check_link is_uuid uid_index ''TEST'' (t_id t) (t_owner t) ''LLR'') [] (t_traces_to t)"

text \<open>\<^verbatim>\<open>as_ref().map(|s| s.is_empty()).unwrap_or(true)\<close>.\<close>

definition absent_or_empty :: "string option \<Rightarrow> bool" where
  "absent_or_empty s \<longleftrightarrow> s = None \<or> s = Some []"

definition derived_errors :: "trace_policy \<Rightarrow> derived_entry \<Rightarrow> link_error list" where
  "derived_errors policy d =
    (if tp_require_derived_rationale policy \<and> absent_or_empty (d_rationale d)
     then [DerivedMissingRationale (d_id d)] else [])
    @ (if tp_require_derived_safety_impact policy \<and> absent_or_empty (d_safety_impact d)
       then [DerivedMissingSafetyImpact (d_id d)] else [])
    @ (if tp_require_derived_disposition policy \<and> absent_or_empty (d_disposition d)
       then [DerivedMissingDisposition (d_id d)] else [])
    @ (if tp_require_derived_reviewed policy \<and> d_reviewed d \<noteq> Some True
       then [DerivedUnreviewed (d_id d)] else [])"

definition bijections_of :: "trace_parts \<Rightarrow> assurance_bijections" where
  "bijections_of t = (case graph_from_trace_parts t of
       Inr G \<Rightarrow> bijections_from_graph G
     | Inl e \<Rightarrow> bijections_from_hlr_entries (tr_hlrs t))"

definition link_phase ::
  "(string \<Rightarrow> bool) \<Rightarrow> trace_policy \<Rightarrow> (string, string \<times> string \<times> string) bmap \<Rightarrow> trace_parts
    \<Rightarrow> link_error list" where
  "link_phase is_uuid policy uid_index t =
    (if tp_require_hlr_surface_bijection policy then surface_errors (bijections_of t) else [])
    @ concat (map (hlr_link_errors is_uuid policy uid_index) (tr_hlrs t))
    @ concat (map (llr_link_errors is_uuid policy uid_index) (tr_llrs t))
    @ concat (map (test_link_errors is_uuid uid_index) (tr_tests t))
    @ concat (map (derived_errors policy) (tr_derived t))"

definition validate_trace_links_with_policy ::
  "(string \<Rightarrow> bool) \<Rightarrow> trace_parts \<Rightarrow> trace_policy \<Rightarrow> trace_validation_error + unit" where
  "validate_trace_links_with_policy is_uuid t policy =
    (let reg = register_all is_uuid policy t in
     if rs_errors reg \<noteq> [] then Err (TraceRegister (rs_errors reg))
     else
       let errors = link_phase is_uuid policy (rs_uid_index reg) t in
       if errors \<noteq> [] then Err (TraceLink errors) else Ok ())"

text \<open>\<^verbatim>\<open>TracePolicy::default()\<close> is derived: every flag is off.\<close>

definition default_trace_policy :: trace_policy where
  "default_trace_policy =
    \<lparr>tp_require_uids = False, tp_require_owners = False,
     tp_require_hlr_verification_methods = False, tp_require_llr_verification_methods = False,
     tp_require_derived_rationale = False, tp_require_hlr_sys_trace = False,
     tp_require_hlr_surface_bijection = False, tp_require_derived_safety_impact = False,
     tp_require_derived_disposition = False, tp_require_derived_reviewed = False\<rparr>"

definition validate_trace_links ::
  "(string \<Rightarrow> bool) \<Rightarrow> hlr_entry list \<Rightarrow> llr_entry list \<Rightarrow> test_entry list
    \<Rightarrow> trace_validation_error + unit" where
  "validate_trace_links is_uuid hlrs llrs tests =
    validate_trace_links_with_policy is_uuid
      \<lparr>tr_sys = [], tr_hlrs = hlrs, tr_llrs = llrs, tr_tests = tests, tr_derived = []\<rparr>
      default_trace_policy"

end
