(* ===== verification/Trace_Spec.thy ===== *)
theory Trace_Spec
  imports Trace_Validation
begin

text \<open>
  What an accepted trace is: the register phase decides the uniqueness of uids and items, the link
  phase that every link resolves in the right layer under the owner rule. The surface claims are
  shown to be the same whether they are read off the corpus graph or off the entries.
\<close>

section \<open>The register phase\<close>

definition registered1 ::
  "string option \<times> string option \<times> string \<times> string \<Rightarrow> (string \<times> string \<times> string \<times> string) option" where
  "registered1 e = (case e of (Some v, Some ow, i, k) \<Rightarrow> Some (v, k, ow, i) | _ \<Rightarrow> None)"

definition registered ::
  "(string option \<times> string option \<times> string \<times> string) list
    \<Rightarrow> (string \<times> string \<times> string \<times> string) list" where
  "registered es = List.map_filter registered1 es"

definition identified ::
  "(string \<Rightarrow> bool) \<Rightarrow> trace_policy \<Rightarrow> string option \<times> string option \<times> string \<times> string \<Rightarrow> bool" where
  "identified is_uuid policy e = (case e of (u, owner, i, k) \<Rightarrow>
     (tp_require_owners policy \<longrightarrow> owner \<noteq> None) \<and>
     (tp_require_uids policy \<and> owner \<noteq> None \<longrightarrow> (\<exists>v. u = Some v \<and> is_uuid v)))"

lemma registered_simps [simp]:
  "registered [] = []"
  "registered (e # es) = (case registered1 e of None \<Rightarrow> registered es | Some x \<Rightarrow> x # registered es)"
  by (simp_all add: registered_def List.map_filter_simps split: option.split)

lemma registered_append: "registered (xs @ ys) = registered xs @ registered ys"
  by (simp add: registered_def List.map_filter_def)

lemma register_entry_clean:
  "rs_errors (register_entry is_uuid policy st e) = [] \<longleftrightarrow> rs_errors st = [] \<and>
    identified is_uuid policy e \<and>
    (case registered1 e of None \<Rightarrow> True
     | Some (v, key) \<Rightarrow> bget (rs_uid_index st) v = None \<and> bget (rs_item_index st) key = None)"
proof (cases e)
  case (fields u owner i k)
  show ?thesis
  proof (cases owner)
    case None
    then show ?thesis
      by (cases u) (auto simp: fields register_entry_def identified_def registered1_def)
  next
    case (Some ow)
    then show ?thesis
      by (cases u) (auto simp: fields register_entry_def identified_def registered1_def Let_def
          split: option.splits)
  qed
qed

lemma register_entry_index:
  assumes "rs_errors (register_entry is_uuid policy st e) = []"
  shows "register_entry is_uuid policy st e = (case registered1 e of None \<Rightarrow> st
     | Some (v, key) \<Rightarrow> st\<lparr>rs_uid_index := bins v key (rs_uid_index st),
         rs_item_index := bins key v (rs_item_index st)\<rparr>)"
proof (cases e)
  case (fields u owner i k)
  show ?thesis
  proof (cases owner)
    case None
    with assms show ?thesis
      by (cases u) (auto simp: fields register_entry_def registered1_def split: if_splits)
  next
    case (Some ow)
    with assms show ?thesis
      by (cases u) (auto simp: fields register_entry_def registered1_def Let_def
          split: option.splits if_splits)
  qed
qed

lemma ball_bins_None:
  "(\<forall>x \<in> R. bget (bins k v m) (f x) = None) \<longleftrightarrow> k \<notin> f ` R \<and> (\<forall>x \<in> R. bget m (f x) = None)"
  by auto

lemma register_fold_clean:
  "rs_errors (foldl (register_entry is_uuid policy) st es) = [] \<longleftrightarrow> rs_errors st = [] \<and>
    (\<forall>e \<in> set es. identified is_uuid policy e) \<and>
    distinct (map fst (registered es)) \<and> distinct (map snd (registered es)) \<and>
    (\<forall>x \<in> set (registered es).
       bget (rs_uid_index st) (fst x) = None \<and> bget (rs_item_index st) (snd x) = None)"
proof (induction es arbitrary: st)
  case Nil
  show ?case by simp
next
  case (Cons e es)
  let ?st = "register_entry is_uuid policy st e"
  show ?case
  proof (cases "rs_errors ?st = []")
    case False
    then have "\<not> (rs_errors st = [] \<and> identified is_uuid policy e \<and> (case registered1 e of
        None \<Rightarrow> True | Some (v, key) \<Rightarrow>
          bget (rs_uid_index st) v = None \<and> bget (rs_item_index st) key = None))"
      using register_entry_clean [of is_uuid policy st e] by blast
    with False Cons.IH [of ?st] show ?thesis by (auto split: option.splits)
  next
    case True
    note clean = True [unfolded register_entry_clean]
    show ?thesis
    proof (cases "registered1 e")
      case None
      with clean register_entry_index [OF True] Cons.IH [of ?st] show ?thesis by simp
    next
      case (Some x)
      then obtain v key where x: "registered1 e = Some (v, key)" by (cases x) auto
      then have st: "?st = st\<lparr>rs_uid_index := bins v key (rs_uid_index st),
          rs_item_index := bins key v (rs_item_index st)\<rparr>"
        using register_entry_index [OF True] by simp
      let ?R = "set (registered es)"
      have "(\<forall>x \<in> ?R. bget (rs_uid_index ?st) (fst x) = None \<and> bget (rs_item_index ?st) (snd x) = None)
          \<longleftrightarrow> v \<notin> fst ` ?R \<and> key \<notin> snd ` ?R \<and>
          (\<forall>x \<in> ?R. bget (rs_uid_index st) (fst x) = None \<and> bget (rs_item_index st) (snd x) = None)"
        unfolding st by (simp add: ball_conj_distrib ball_bins_None conj_ac del: bget_bins)
      with clean x Cons.IH [of ?st] True show ?thesis by auto
    qed
  qed
qed

lemma register_fold_index:
  "rs_errors (foldl (register_entry is_uuid policy) st es) = [] \<Longrightarrow>
    bget (rs_uid_index (foldl (register_entry is_uuid policy) st es)) v =
    (case map_of (registered es) v of Some key \<Rightarrow> Some key | None \<Rightarrow> bget (rs_uid_index st) v)"
proof (induction es arbitrary: st)
  case (Cons e es)
  let ?st = "register_entry is_uuid policy st e"
  have now: "rs_errors ?st = []"
    using Cons.prems by (simp add: register_fold_clean)
  show ?case
  proof (cases "registered1 e")
    case None
    then have "?st = st" using register_entry_index [OF now] by simp
    with None Cons.IH [of st] Cons.prems show ?thesis by simp
  next
    case (Some x)
    then obtain w key where x: "registered1 e = Some (w, key)" by (cases x) auto
    with Cons.prems have "distinct (map fst (registered (e # es)))"
      unfolding register_fold_clean by blast
    with x have "map_of (registered es) w = None"
      by (simp add: map_of_eq_None_iff)
    moreover have "?st = st\<lparr>rs_uid_index := bins w key (rs_uid_index st),
        rs_item_index := bins key w (rs_item_index st)\<rparr>"
      using register_entry_index [OF now] x by simp
    moreover have "bget (rs_uid_index (foldl (register_entry is_uuid policy) st (e # es))) v =
        (case map_of (registered es) v of Some key \<Rightarrow> Some key | None \<Rightarrow> bget (rs_uid_index ?st) v)"
      using Cons.IH [of ?st] Cons.prems by simp
    ultimately show ?thesis using x by (auto split: option.splits)
  qed
qed simp

lemma register_all_clean:
  "rs_errors (register_all is_uuid policy t) = [] \<longleftrightarrow>
    (\<forall>e \<in> set (trace_entries t). identified is_uuid policy e) \<and>
    distinct (map fst (registered (trace_entries t))) \<and>
    distinct (map snd (registered (trace_entries t)))"
  by (simp add: register_all_def register_fold_clean)

lemma register_all_index:
  assumes "rs_errors (register_all is_uuid policy t) = []"
  shows "bget (rs_uid_index (register_all is_uuid policy t)) v = Some key \<longleftrightarrow>
    (v, key) \<in> set (registered (trace_entries t))"
proof -
  have "distinct (map fst (registered (trace_entries t)))"
    using assms by (simp add: register_all_clean)
  then have "map_of (registered (trace_entries t)) v = Some key \<longleftrightarrow>
      (v, key) \<in> set (registered (trace_entries t))" by simp
  moreover have "bget (rs_uid_index (register_all is_uuid policy t)) v =
      map_of (registered (trace_entries t)) v"
    using assms unfolding register_all_def
    by (simp add: register_fold_index split: option.split)
  ultimately show ?thesis by simp
qed

section \<open>The link phase\<close>

definition link_resolves ::
  "(string \<Rightarrow> bool) \<Rightarrow> trace_parts \<Rightarrow> string \<Rightarrow> string option \<Rightarrow> string \<Rightarrow> string \<Rightarrow> bool" where
  "link_resolves is_uuid t source_kind owner target link \<longleftrightarrow> is_uuid link \<and>
    (\<exists>ow i. (link, target, ow, i) \<in> set (registered (trace_entries t)) \<and>
      owner_rule_holds source_kind target (case owner of Some s \<Rightarrow> s | None \<Rightarrow> ''UNKNOWN'') ow)"

lemma scan_links_Nil:
  "scan_links k i check seen links = [] \<longleftrightarrow>
    distinct links \<and> set links \<inter> set seen = {} \<and> (\<forall>l \<in> set links. check l = None)"
  by (induction links arbitrary: seen) (auto split: option.splits)

lemma check_link_None:
  assumes "rs_errors (register_all is_uuid policy t) = []"
  shows "check_link is_uuid (rs_uid_index (register_all is_uuid policy t)) k i owner target link = None
    \<longleftrightarrow> link_resolves is_uuid t k owner target link"
proof -
  let ?idx = "rs_uid_index (register_all is_uuid policy t)"
  have "check_link is_uuid ?idx k i owner target link = None \<longleftrightarrow> is_uuid link \<and>
      (\<exists>ow j. bget ?idx link = Some (target, ow, j) \<and>
        owner_rule_holds k target (case owner of Some s \<Rightarrow> s | None \<Rightarrow> ''UNKNOWN'') ow)"
    by (auto simp: check_link_def Let_def split: option.splits)
  then show ?thesis by (simp add: link_resolves_def register_all_index [OF assms])
qed

text \<open>What each entry must satisfy.\<close>

definition hlr_ok :: "(string \<Rightarrow> bool) \<Rightarrow> trace_policy \<Rightarrow> trace_parts \<Rightarrow> hlr_entry \<Rightarrow> bool" where
  "hlr_ok is_uuid policy t r \<longleftrightarrow>
    (tp_require_hlr_verification_methods policy \<longrightarrow> h_verification_methods r \<noteq> []) \<and>
    (tp_require_hlr_sys_trace policy \<longrightarrow> h_traces_to r \<noteq> []) \<and> distinct (h_traces_to r) \<and>
    (\<forall>l \<in> set (h_traces_to r). link_resolves is_uuid t ''HLR'' (h_owner r) ''SYS'' l)"

definition llr_ok :: "(string \<Rightarrow> bool) \<Rightarrow> trace_policy \<Rightarrow> trace_parts \<Rightarrow> llr_entry \<Rightarrow> bool" where
  "llr_ok is_uuid policy t r \<longleftrightarrow> l_traces_to r \<noteq> [] \<and>
    (tp_require_llr_verification_methods policy \<longrightarrow> l_verification_methods r \<noteq> []) \<and>
    distinct (l_traces_to r) \<and>
    (\<forall>l \<in> set (l_traces_to r). link_resolves is_uuid t ''LLR'' (l_owner r) ''HLR'' l)"

definition test_ok :: "(string \<Rightarrow> bool) \<Rightarrow> trace_parts \<Rightarrow> test_entry \<Rightarrow> bool" where
  "test_ok is_uuid t r \<longleftrightarrow> distinct (t_traces_to r) \<and>
    (\<forall>l \<in> set (t_traces_to r). link_resolves is_uuid t ''TEST'' (t_owner r) ''LLR'' l)"

definition derived_ok :: "trace_policy \<Rightarrow> derived_entry \<Rightarrow> bool" where
  "derived_ok policy d \<longleftrightarrow>
    (tp_require_derived_rationale policy \<longrightarrow> \<not> absent_or_empty (d_rationale d)) \<and>
    (tp_require_derived_safety_impact policy \<longrightarrow> \<not> absent_or_empty (d_safety_impact d)) \<and>
    (tp_require_derived_disposition policy \<longrightarrow> \<not> absent_or_empty (d_disposition d)) \<and>
    (tp_require_derived_reviewed policy \<longrightarrow> d_reviewed d = Some True)"

definition trace_ok :: "(string \<Rightarrow> bool) \<Rightarrow> trace_policy \<Rightarrow> trace_parts \<Rightarrow> bool" where
  "trace_ok is_uuid policy t \<longleftrightarrow>
    (\<forall>e \<in> set (trace_entries t). identified is_uuid policy e) \<and>
    distinct (map fst (registered (trace_entries t))) \<and>
    distinct (map snd (registered (trace_entries t))) \<and>
    (tp_require_hlr_surface_bijection policy \<longrightarrow>
      (\<Union>r \<in> set (tr_hlrs t). set (h_surfaces r)) = set known_surfaces) \<and>
    (\<forall>r \<in> set (tr_hlrs t). hlr_ok is_uuid policy t r) \<and>
    (\<forall>r \<in> set (tr_llrs t). llr_ok is_uuid policy t r) \<and>
    (\<forall>r \<in> set (tr_tests t). test_ok is_uuid t r) \<and>
    (\<forall>d \<in> set (tr_derived t). derived_ok policy d)"

lemma derived_errors_Nil: "derived_errors policy d = [] \<longleftrightarrow> derived_ok policy d"
  by (simp add: derived_errors_def derived_ok_def)

lemma entry_errors_Nil:
  assumes "rs_errors (register_all is_uuid policy t) = []"
  defines "idx \<equiv> rs_uid_index (register_all is_uuid policy t)"
  shows "hlr_link_errors is_uuid policy idx h = [] \<longleftrightarrow> hlr_ok is_uuid policy t h"
    "llr_link_errors is_uuid policy idx l = [] \<longleftrightarrow> llr_ok is_uuid policy t l"
    "test_link_errors is_uuid idx e = [] \<longleftrightarrow> test_ok is_uuid t e"
  unfolding idx_def
  by (simp_all add: hlr_link_errors_def llr_link_errors_def test_link_errors_def hlr_ok_def llr_ok_def
      test_ok_def scan_links_Nil check_link_None [OF assms(1)])

section \<open>Surface claims\<close>

text \<open>The claimants of a claim among a list of requirements with their claims.\<close>

definition claimed_by :: "(string \<times> string list) list \<Rightarrow> string \<Rightarrow> string set" where
  "claimed_by ps claim = {i. \<exists>cl. (i, cl) \<in> set ps \<and> claim \<in> set cl}"

definition claim_map :: "(string \<times> string list) list \<Rightarrow> (string, bset) bmap" where
  "claim_map ps = fold (\<lambda>(i, cl). add_claims i cl) ps []"

definition claims_wf :: "(string, bset) bmap \<Rightarrow> bool" where
  "claims_wf m \<longleftrightarrow> bwf m \<and> (\<forall>k s. bget m k = Some s \<longrightarrow> s \<noteq> [] \<and> sorted_wrt (<) s)"

lemma sins_set [simp]: "set (sins x s) = insert x (set s)"
  by (auto simp: sins_def set_insort_key)

lemma sins_strict: "sorted_wrt (<) s \<Longrightarrow> sorted_wrt (<) (sins x s)"
  by (auto simp: sins_def strict_sorted_iff sorted_insort distinct_insort)

lemma sins_not_Nil: "sins x s \<noteq> []"
  by (metis insert_not_empty set_empty sins_set)

lemma add_claims_wf: "claims_wf m \<Longrightarrow> claims_wf (add_claims i cl m)"
  unfolding add_claims_def
proof (induction cl arbitrary: m)
  case (Cons c cl)
  have "claims_wf (bins c (sins i (case bget m c of None \<Rightarrow> [] | Some s \<Rightarrow> s)) m)"
    using Cons.prems by (auto simp: claims_wf_def sins_not_Nil sins_strict split: option.split)
  with Cons.IH show ?case by simp
qed simp

definition claimants :: "(string, bset) bmap \<Rightarrow> string \<Rightarrow> string set" where
  "claimants m k = (case bget m k of None \<Rightarrow> {} | Some s \<Rightarrow> set s)"

lemma claimants_add:
  "claimants (add_claims i cl m) k = claimants m k \<union> (if k \<in> set cl then {i} else {})"
  unfolding add_claims_def
proof (induction cl arbitrary: m)
  case (Cons c cl)
  have "claimants (bins c (sins i (case bget m c of None \<Rightarrow> [] | Some s \<Rightarrow> s)) m) k
      = claimants m k \<union> (if k = c then {i} else {})"
    by (auto simp: claimants_def split: option.split)
  with Cons.IH show ?case by auto
qed simp

lemma claim_fold:
  "claims_wf m \<Longrightarrow> claims_wf (fold (\<lambda>(i, cl). add_claims i cl) ps m) \<and>
    claimants (fold (\<lambda>(i, cl). add_claims i cl) ps m) k = claimants m k \<union> claimed_by ps k"
proof (induction ps arbitrary: m)
  case (Cons p ps)
  obtain i cl where p: "p = (i, cl)" by (cases p)
  have "claimed_by (p # ps) k = (if k \<in> set cl then {i} else {}) \<union> claimed_by ps k"
    by (auto simp: claimed_by_def p)
  with Cons.IH [of "add_claims i cl m"] Cons.prems add_claims_wf [of m i cl] show ?case
    by (auto simp: p claimants_add)
qed (simp add: claimed_by_def)

lemma claim_map_wf: "claims_wf (claim_map ps)"
  using claim_fold [of "[]" ps] by (simp add: claim_map_def claims_wf_def)

lemma claim_map_claimants: "claimants (claim_map ps) k = claimed_by ps k"
  using claim_fold [of "[]" ps k] by (simp add: claim_map_def claims_wf_def claimants_def)

text \<open>The map is determined by who claims what.\<close>

lemma claim_map_cong:
  assumes "\<And>k. claimed_by ps k = claimed_by qs k"
  shows "claim_map ps = claim_map qs"
proof (rule bm.entries_unique)
  show wf: "bwf (claim_map ps)" "bwf (claim_map qs)"
    using claim_map_wf unfolding claims_wf_def by blast+
  fix k
  have same: "claimants (claim_map ps) k = claimants (claim_map qs) k"
    by (simp add: claim_map_claimants assms)
  note P = claim_map_wf [of ps, unfolded claims_wf_def] and Q = claim_map_wf [of qs, unfolded claims_wf_def]
  show "bget (claim_map ps) k = bget (claim_map qs) k"
  proof (cases "bget (claim_map ps) k")
    case None
    with same Q show ?thesis by (cases "bget (claim_map qs) k") (auto simp: claimants_def)
  next
    case (Some s)
    with same P obtain u where u: "bget (claim_map qs) k = Some u" "set u = set s"
      by (cases "bget (claim_map qs) k") (auto simp: claimants_def)
    then have "u = s" using P Q Some by (intro strict_sorted_set_unique) auto
    with Some u show ?thesis by simp
  qed
qed

lemma concat_map_Nil: "concat (map f xs) = [] \<longleftrightarrow> (\<forall>x \<in> set xs. f x = [])"
  by (induction xs) auto

lemma surface_errors_Nil:
  assumes "ab_surface_claimants b = claim_map ps"
  shows "surface_errors b = [] \<longleftrightarrow> (\<Union>(i, cl) \<in> set ps. set cl) = set known_surfaces"
proof -
  let ?m = "claim_map ps"
  note wf = claim_map_wf [of ps, unfolded claims_wf_def]
  have key: "bget ?m k \<noteq> None \<longleftrightarrow> k \<in> (\<Union>(i, cl) \<in> set ps. set cl)" for k
  proof -
    have "bget ?m k \<noteq> None \<longleftrightarrow> claimants ?m k \<noteq> {}"
      using wf by (cases "bget ?m k") (auto simp: claimants_def)
    then show ?thesis by (auto simp: claim_map_claimants claimed_by_def)
  qed
  have "surface_errors b = [] \<longleftrightarrow> (\<forall>(k, s) \<in> set ?m. k \<in> set known_surfaces \<or> s = []) \<and>
      (\<forall>k \<in> set known_surfaces. bget ?m k \<noteq> None)"
    unfolding surface_errors_def assms append_is_Nil_conv concat_map_Nil
    by (simp add: split_beta imp_conv_disj)
  also have "(\<forall>(k, s) \<in> set ?m. k \<in> set known_surfaces \<or> s = []) \<longleftrightarrow>
      (\<forall>k. bget ?m k \<noteq> None \<longrightarrow> k \<in> set known_surfaces)"
  proof -
    have "(k, s) \<in> set ?m \<longleftrightarrow> bget ?m k = Some s" for k s using wf by (simp add: bget_iff_in)
    moreover have "(\<forall>(k, s) \<in> set ?m. k \<in> set known_surfaces \<or> s = []) \<longleftrightarrow>
        (\<forall>k s. (k, s) \<in> set ?m \<longrightarrow> k \<in> set known_surfaces \<or> s = [])" by fast
    ultimately have "(\<forall>(k, s) \<in> set ?m. k \<in> set known_surfaces \<or> s = []) \<longleftrightarrow>
        (\<forall>k s. bget ?m k = Some s \<longrightarrow> k \<in> set known_surfaces \<or> s = [])" by simp
    with wf show ?thesis by fastforce
  qed
  finally show ?thesis unfolding key by blast
qed

section \<open>The claims of the corpus graph\<close>

text \<open>What inserting adapted entries leaves in a graph: the nodes with sorted edges, each with its
  own metadata.\<close>

definition graph_holds :: "corpus_graph \<Rightarrow> (node \<times> trace_metadata) set \<Rightarrow> bool" where
  "graph_holds G P \<longleftrightarrow> cg_inv G \<and> set (cg_node_list G) = fst ` P \<and>
    (\<forall>(n, m) \<in> P. trace_metadata_of G (node_uid n) = Some m)"

definition adapted_nodes ::
  "('e \<Rightarrow> corpus_error + node \<times> trace_metadata) \<Rightarrow> 'e list \<Rightarrow> (node \<times> trace_metadata) set" where
  "adapted_nodes f es = {(map_node_edges sort n, m) |e n m. e \<in> set es \<and> f e = Inr (n, m)}"

lemma insert_metadata_holds:
  assumes G: "graph_holds G P" and ins: "insert_with_trace_metadata G n m = Inr H"
  shows "graph_holds H (insert (map_node_edges sort n, m) P)"
proof -
  from ins obtain K where K: "cg_insert G n = Inr K"
    "H = K\<lparr>cg_trace_metadata := bins (node_uid n) m (cg_trace_metadata K)\<rparr>"
    by (auto simp: insert_with_trace_metadata_def rbind_Ok_iff)
  have inv: "cg_inv G" and nodes: "set (cg_node_list G) = fst ` P" using G by (auto simp: graph_holds_def)
  note after = cg_insert_nodes [OF inv K(1)]
  from K(1) have fresh: "cg_get G (node_uid n) = None"
    and meta: "cg_trace_metadata K = cg_trace_metadata G" by (auto simp: cg_insert_Ok_iff)
  have "node_uid q \<noteq> node_uid n" if "(q, k) \<in> P" for q k
  proof
    assume eq: "node_uid q = node_uid n"
    have "q \<in> set (cg_node_list G)" using that nodes by force
    then have "cg_get G (node_uid q) = Some q" using cg_nodes_iff_get [OF inv] by blast
    with eq fresh show False by simp
  qed
  then have "\<forall>(q, k) \<in> P. trace_metadata_of H (node_uid q) = Some k"
    using G by (auto simp: graph_holds_def trace_metadata_of_def K(2) meta)
  moreover have "cg_inv H" using after(1) by (simp add: K(2) cg_inv_def)
  moreover have "set (cg_node_list H) = fst ` insert (map_node_edges sort n, m) P"
    using after(2) nodes by (simp add: K(2) cg_node_list_def)
  ultimately show ?thesis by (simp add: graph_holds_def trace_metadata_of_def K(2))
qed

lemma insert_adapted_holds:
  "fold_res (insert_adapted f) G es = Inr H \<Longrightarrow> graph_holds G P \<Longrightarrow>
    graph_holds H (P \<union> adapted_nodes f es)"
proof (induction es arbitrary: G P)
  case (Cons e es)
  from Cons.prems(1) obtain K where step: "insert_adapted f G e = Inr K"
    and rest: "fold_res (insert_adapted f) K es = Inr H" by (auto split: sum.splits)
  from step obtain n m where K: "f e = Inr (n, m)" "insert_with_trace_metadata G n m = Inr K"
    by (auto simp: insert_adapted_def rbind_Ok_iff)
  have "adapted_nodes f (e # es) = insert (map_node_edges sort n, m) (adapted_nodes f es)"
    using K(1) by (auto simp: adapted_nodes_def)
  with Cons.IH [OF rest insert_metadata_holds [OF Cons.prems(2) K(2)]] show ?case by simp
qed (simp add: adapted_nodes_def)

lemma graph_from_trace_holds:
  assumes "graph_from_trace_parts t = Inr G"
  shows "graph_holds G (adapted_nodes (\<lambda>e. requirement_from_hlr_entry e Sys) (tr_sys t)
    \<union> adapted_nodes (\<lambda>e. requirement_from_hlr_entry e Hlr) (tr_hlrs t)
    \<union> adapted_nodes requirement_from_llr_entry (tr_llrs t)
    \<union> adapted_nodes requirement_from_derived_entry (tr_derived t)
    \<union> adapted_nodes test_from_entry (tr_tests t))"
proof -
  have "graph_holds cg_new {}"
    using cg_new_ok by (simp add: graph_holds_def cg_ok_def) (simp add: cg_new_def cg_node_list_def bvals_def)
  with assms show ?thesis unfolding graph_from_trace_parts_def rbind_Ok_iff
    by (auto dest!: insert_adapted_holds)
qed

definition surface_claim :: "corpus_graph \<Rightarrow> node \<Rightarrow> (string \<times> string list) option" where
  "surface_claim G n = (case n of
      Requirement q \<Rightarrow> (case trace_metadata_of G (rq_uid q) of
          Some (RequirementMeta m) \<Rightarrow> if rq_layer q = Hlr then Some (rq_id q, rm_surfaces m) else None
        | _ \<Rightarrow> None)
    | _ \<Rightarrow> None)"

lemma claim_node_surface:
  "ab_surface_claimants (claim_node G n b) = (case surface_claim G n of
     None \<Rightarrow> ab_surface_claimants b | Some (i, cl) \<Rightarrow> add_claims i cl (ab_surface_claimants b))"
  by (cases n) (auto simp: claim_node_def surface_claim_def
      split: option.splits trace_metadata.splits requirement_layer.splits)

lemma fold_claim_node_surface:
  "ab_surface_claimants (fold (claim_node G) ns b) =
    fold (\<lambda>(i, cl). add_claims i cl) (List.map_filter (surface_claim G) ns) (ab_surface_claimants b)"
  by (induction ns arbitrary: b)
    (auto simp: List.map_filter_simps claim_node_surface split: option.split)

lemma bijections_from_graph_surfaces:
  "ab_surface_claimants (bijections_from_graph G) =
    claim_map (List.map_filter (surface_claim G) (cg_node_list G))"
  by (simp add: bijections_from_graph_def fold_claim_node_surface claim_map_def)

lemma bijections_from_entries_surfaces:
  "ab_surface_claimants (bijections_from_hlr_entries es) = claim_map (map (\<lambda>e. (h_id e, h_surfaces e)) es)"
  by (simp add: bijections_from_hlr_entries_def claim_map_def fold_map comp_def)

lemma requirement_from_hlr_Ok:
  "requirement_from_hlr_entry e layer = Inr (n, m) \<Longrightarrow> \<exists>q k. n = Requirement q \<and> m = RequirementMeta k \<and>
    rq_id q = h_id e \<and> rq_layer q = layer \<and> rm_surfaces k = canonical_strings (h_surfaces e)"
  by (auto simp: requirement_from_hlr_entry_def rbind_Ok_iff)

lemma other_adapted_not_hlr:
  "requirement_from_llr_entry l = Inr (n, m) \<Longrightarrow> \<exists>q. n = Requirement q \<and> rq_layer q = Llr"
  "requirement_from_derived_entry d = Inr (n, m) \<Longrightarrow> \<exists>q. n = Requirement q \<and> rq_layer q = Derived"
  "test_from_entry t = Inr (n, m) \<Longrightarrow> \<exists>q. n = Test q"
  by (auto simp: requirement_from_llr_entry_def requirement_from_derived_entry_def test_from_entry_def
      rbind_Ok_iff)

lemma adapted_all:
  "fold_res (insert_adapted f) G es = Inr H \<Longrightarrow> e \<in> set es \<Longrightarrow> \<exists>n m. f e = Inr (n, m)"
proof (induction es arbitrary: G)
  case (Cons x es)
  from Cons.prems(1) obtain K where "insert_adapted f G x = Inr K"
    "fold_res (insert_adapted f) K es = Inr H" by (auto split: sum.splits)
  with Cons show ?case by (auto simp: insert_adapted_def rbind_Ok_iff)
qed simp

lemma surface_claim_pair:
  assumes "trace_metadata_of G (node_uid n) = Some m"
  shows "surface_claim G n = (case (n, m) of
    (Requirement q, RequirementMeta k) \<Rightarrow> if rq_layer q = Hlr then Some (rq_id q, rm_surfaces k) else None
  | _ \<Rightarrow> None)"
  using assms by (cases n; cases m) (auto simp: surface_claim_def)

lemma graph_claims:
  assumes t: "graph_from_trace_parts t = Inr G"
  shows "set (List.map_filter (surface_claim G) (cg_node_list G)) =
    (\<lambda>e. (h_id e, canonical_strings (h_surfaces e))) ` set (tr_hlrs t)"
proof -
  let ?hlr = "adapted_nodes (\<lambda>e. requirement_from_hlr_entry e Hlr) (tr_hlrs t)"
  let ?rest = "adapted_nodes (\<lambda>e. requirement_from_hlr_entry e Sys) (tr_sys t)
    \<union> adapted_nodes requirement_from_llr_entry (tr_llrs t)
    \<union> adapted_nodes requirement_from_derived_entry (tr_derived t)
    \<union> adapted_nodes test_from_entry (tr_tests t)"
  have holds: "graph_holds G (?rest \<union> ?hlr)"
    using graph_from_trace_holds [OF t] by (simp add: Un_ac)
  then have nodes: "set (cg_node_list G) = fst ` (?rest \<union> ?hlr)" by (simp add: graph_holds_def)
  have claim: "surface_claim G n = (case (n, m) of
      (Requirement q, RequirementMeta k) \<Rightarrow> if rq_layer q = Hlr then Some (rq_id q, rm_surfaces k) else None
    | _ \<Rightarrow> None)" if "(n, m) \<in> ?rest \<union> ?hlr" for n m
    using holds that by (intro surface_claim_pair) (auto simp: graph_holds_def)
  have rest: "surface_claim G n = None" if "(n, m) \<in> ?rest" for n m
    using that unfolding claim [OF UnI1 [OF that]]
    by (auto simp: adapted_nodes_def split: node.splits trace_metadata.splits
        dest!: requirement_from_hlr_Ok other_adapted_not_hlr)
  have hlr: "p \<in> ?hlr \<Longrightarrow> \<exists>e \<in> set (tr_hlrs t).
      surface_claim G (fst p) = Some (h_id e, canonical_strings (h_surfaces e))" for p
  proof -
    assume p: "p \<in> ?hlr"
    then obtain e n m where e: "e \<in> set (tr_hlrs t)" "requirement_from_hlr_entry e Hlr = Inr (n, m)"
      "p = (map_node_edges sort n, m)" by (auto simp: adapted_nodes_def)
    with p claim [of "map_node_edges sort n" m] requirement_from_hlr_Ok [OF e(2)] show ?thesis by auto
  qed
  show ?thesis
  proof (intro equalityI subsetI)
    fix c assume "c \<in> set (List.map_filter (surface_claim G) (cg_node_list G))"
    then obtain n where n: "n \<in> set (cg_node_list G)" "surface_claim G n = Some c"
      by (auto simp: List.map_filter_def)
    then obtain m where m: "(n, m) \<in> ?rest \<union> ?hlr" unfolding nodes by force
    with n(2) rest have "(n, m) \<in> ?hlr" by fastforce
    from hlr [OF this] n(2) show "c \<in> (\<lambda>e. (h_id e, canonical_strings (h_surfaces e))) ` set (tr_hlrs t)"
      by auto
  next
    fix c assume "c \<in> (\<lambda>e. (h_id e, canonical_strings (h_surfaces e))) ` set (tr_hlrs t)"
    then obtain e where e: "e \<in> set (tr_hlrs t)" "c = (h_id e, canonical_strings (h_surfaces e))" by blast
    from t obtain G1 G2 where "fold_res (insert_adapted (\<lambda>e. requirement_from_hlr_entry e Hlr)) G1
        (tr_hlrs t) = Inr G2" unfolding graph_from_trace_parts_def by (auto simp: rbind_Ok_iff)
    from adapted_all [OF this e(1)] obtain n m where n: "requirement_from_hlr_entry e Hlr = Inr (n, m)"
      by blast
    then have p: "(map_node_edges sort n, m) \<in> ?hlr" using e(1) by (auto simp: adapted_nodes_def)
    with claim [of "map_node_edges sort n" m] requirement_from_hlr_Ok [OF n] e(2)
    have "surface_claim G (map_node_edges sort n) = Some c" by auto
    moreover have "map_node_edges sort n \<in> set (cg_node_list G)" unfolding nodes using p by force
    ultimately show "c \<in> set (List.map_filter (surface_claim G) (cg_node_list G))"
      by (force simp: List.map_filter_def)
  qed
qed

text \<open>The two routes to the surface claims agree.\<close>

lemma graph_and_entries_agree:
  assumes "graph_from_trace_parts t = Inr G"
  shows "ab_surface_claimants (bijections_from_graph G) =
    ab_surface_claimants (bijections_from_hlr_entries (tr_hlrs t))"
  unfolding bijections_from_graph_surfaces bijections_from_entries_surfaces
proof (rule claim_map_cong)
  fix k
  show "claimed_by (List.map_filter (surface_claim G) (cg_node_list G)) k =
      claimed_by (map (\<lambda>e. (h_id e, h_surfaces e)) (tr_hlrs t)) k"
    unfolding claimed_by_def graph_claims [OF assms] by (auto simp: canonical_strings_def)
qed

lemma bijections_of_surfaces:
  "ab_surface_claimants (bijections_of t) = claim_map (map (\<lambda>e. (h_id e, h_surfaces e)) (tr_hlrs t))"
  using graph_and_entries_agree [of t]
  by (cases "graph_from_trace_parts t") (simp_all add: bijections_of_def bijections_from_entries_surfaces)

section \<open>Acceptance\<close>

lemma trace_validation_Ok_iff:
  "validate_trace_links_with_policy is_uuid t policy = Inr () \<longleftrightarrow> trace_ok is_uuid policy t"
proof (cases "rs_errors (register_all is_uuid policy t) = []")
  case False
  then have "\<not> trace_ok is_uuid policy t" by (auto simp: trace_ok_def register_all_clean)
  with False show ?thesis by (simp add: validate_trace_links_with_policy_def Let_def)
next
  case True
  have s: "surface_errors (bijections_of t) = [] \<longleftrightarrow>
      (\<Union>r \<in> set (tr_hlrs t). set (h_surfaces r)) = set known_surfaces"
    unfolding surface_errors_Nil [OF bijections_of_surfaces] by simp
  have "link_phase is_uuid policy (rs_uid_index (register_all is_uuid policy t)) t = [] \<longleftrightarrow>
      (tp_require_hlr_surface_bijection policy \<longrightarrow> surface_errors (bijections_of t) = []) \<and>
      (\<forall>r \<in> set (tr_hlrs t). hlr_ok is_uuid policy t r) \<and>
      (\<forall>r \<in> set (tr_llrs t). llr_ok is_uuid policy t r) \<and>
      (\<forall>r \<in> set (tr_tests t). test_ok is_uuid t r) \<and>
      (\<forall>d \<in> set (tr_derived t). derived_ok policy d)"
    unfolding link_phase_def append_is_Nil_conv concat_map_Nil entry_errors_Nil [OF True]
      derived_errors_Nil by simp
  with True show ?thesis unfolding s
    by (simp add: validate_trace_links_with_policy_def Let_def trace_ok_def register_all_clean)
qed

end
