(* ===== verification/Uuid_Backfill.thy ===== *)
theory Uuid_Backfill
  imports Trace_Spec
begin

text \<open>
  The uid backfill of the trace documents (\<^verbatim>\<open>trace/uuid.rs\<close>): entries whose uid is absent or
  not a UUID get a fresh one, and references to the replaced placeholders follow.
  \<^verbatim>\<open>Uuid::new_v4\<close> is the parameter \<open>mint\<close>, read at a counter that every call advances; reading
  and writing the files is left to the caller, who sees the documents and the changed flags.
\<close>

section \<open>One layer\<close>

definition needs_new_uuid :: "(string \<Rightarrow> bool) \<Rightarrow> string option \<Rightarrow> bool" where
  "needs_new_uuid is_uuid u = (case u of None \<Rightarrow> True | Some s \<Rightarrow> \<not> is_uuid s)"

text \<open>The outcome, the uid left in the entry and the advanced counter.\<close>

definition rewrite_uid_if_needed ::
  "(string \<Rightarrow> bool) \<Rightarrow> (nat \<Rightarrow> string) \<Rightarrow> nat \<Rightarrow> string option
    \<Rightarrow> (string option \<times> string) option \<times> string option \<times> nat" where
  "rewrite_uid_if_needed is_uuid mint k u =
    (if \<not> needs_new_uuid is_uuid u then (None, u, k)
     else (Some (u, mint k), Some (mint k), Suc k))"

definition record_rewrite ::
  "(string option \<times> string) option \<Rightarrow> (string, string) bmap \<Rightarrow> (string, string) bmap \<times> bool" where
  "record_rewrite outcome remap =
    (case outcome of
       Some (Some old, new) \<Rightarrow> (bins old new remap, True)
     | Some (None, _) \<Rightarrow> (remap, True)
     | None \<Rightarrow> (remap, False))"

text \<open>The loop the four \<^verbatim>\<open>assign_valid_uuids_*\<close> functions share, over the field they rewrite.\<close>

fun assign_uuids ::
  "(string \<Rightarrow> bool) \<Rightarrow> (nat \<Rightarrow> string) \<Rightarrow> ('e \<Rightarrow> string option) \<Rightarrow> (string option \<Rightarrow> 'e \<Rightarrow> 'e)
    \<Rightarrow> nat \<Rightarrow> nat \<Rightarrow> (string, string) bmap \<Rightarrow> 'e list
    \<Rightarrow> 'e list \<times> nat \<times> (string, string) bmap \<times> nat" where
  "assign_uuids is_uuid mint get put k count remap [] = ([], count, remap, k)"
| "assign_uuids is_uuid mint get put k count remap (e # es) =
    (case rewrite_uid_if_needed is_uuid mint k (get e) of (outcome, u, k') \<Rightarrow>
     case record_rewrite outcome remap of (remap', changed) \<Rightarrow>
     case assign_uuids is_uuid mint get put k' (if changed then count + 1 else count) remap' es of
       (es', count', remap'', k'') \<Rightarrow> (put u e # es', count', remap'', k''))"

definition assign_valid_uuids_hlr ::
  "(string \<Rightarrow> bool) \<Rightarrow> (nat \<Rightarrow> string) \<Rightarrow> nat \<Rightarrow> hlr_entry list
    \<Rightarrow> hlr_entry list \<times> nat \<times> (string, string) bmap \<times> nat" where
  "assign_valid_uuids_hlr is_uuid mint k = assign_uuids is_uuid mint h_uid (\<lambda>u e. e\<lparr>h_uid := u\<rparr>) k 0 []"

definition assign_valid_uuids_llr ::
  "(string \<Rightarrow> bool) \<Rightarrow> (nat \<Rightarrow> string) \<Rightarrow> nat \<Rightarrow> llr_entry list
    \<Rightarrow> llr_entry list \<times> nat \<times> (string, string) bmap \<times> nat" where
  "assign_valid_uuids_llr is_uuid mint k = assign_uuids is_uuid mint l_uid (\<lambda>u e. e\<lparr>l_uid := u\<rparr>) k 0 []"

definition assign_valid_uuids_test ::
  "(string \<Rightarrow> bool) \<Rightarrow> (nat \<Rightarrow> string) \<Rightarrow> nat \<Rightarrow> test_entry list
    \<Rightarrow> test_entry list \<times> nat \<times> (string, string) bmap \<times> nat" where
  "assign_valid_uuids_test is_uuid mint k = assign_uuids is_uuid mint t_uid (\<lambda>u e. e\<lparr>t_uid := u\<rparr>) k 0 []"

definition assign_valid_uuids_derived ::
  "(string \<Rightarrow> bool) \<Rightarrow> (nat \<Rightarrow> string) \<Rightarrow> nat \<Rightarrow> derived_entry list
    \<Rightarrow> derived_entry list \<times> nat \<times> (string, string) bmap \<times> nat" where
  "assign_valid_uuids_derived is_uuid mint k =
    assign_uuids is_uuid mint d_uid (\<lambda>u e. e\<lparr>d_uid := u\<rparr>) k 0 []"

text \<open>The references of one entry, with the flag whether any changed.\<close>

definition rewrite_traces_to :: "(string, string) bmap \<Rightarrow> string list \<Rightarrow> string list \<times> bool" where
  "rewrite_traces_to remap refs =
    (map (\<lambda>r. case bget remap r of Some new \<Rightarrow> new | None \<Rightarrow> r) refs,
     \<exists>r \<in> set refs. bget remap r \<noteq> None)"

section \<open>All layers\<close>

text \<open>The \<^verbatim>\<open>assert!\<close> of \<^verbatim>\<open>merge_remap\<close> panics on a placeholder two layers share.\<close>

datatype backfill_panic = DuplicatePlaceholder string

fun merge_remap ::
  "(string, string) bmap \<Rightarrow> (string \<times> string) list \<Rightarrow> backfill_panic + (string, string) bmap" where
  "merge_remap dst [] = Ok dst"
| "merge_remap dst ((old, new) # src) =
    (if bget dst old \<noteq> None then Err (DuplicatePlaceholder old)
     else merge_remap (bins old new dst) src)"

text \<open>The documents that exist.\<close>

record trace_documents =
  td_sys :: "hlr_entry list option"
  td_hlr :: "hlr_entry list option"
  td_llr :: "llr_entry list option"
  td_tests :: "test_entry list option"
  td_derived :: "derived_entry list option"

text \<open>Phase 2 for one document: the rewritten entries, the running total, the merged remap, the
  counter and whether the document changed.\<close>

definition phase_layer ::
  "(nat \<Rightarrow> 'e list \<Rightarrow> 'e list \<times> nat \<times> (string, string) bmap \<times> nat) \<Rightarrow> 'e list option
    \<Rightarrow> nat \<times> (string, string) bmap \<times> nat
    \<Rightarrow> backfill_panic + 'e list option \<times> bool \<times> nat \<times> (string, string) bmap \<times> nat" where
  "phase_layer assign doc st =
    (case st of (tally, remap, k) \<Rightarrow>
     case doc of
       None \<Rightarrow> Ok (None, False, tally, remap, k)
     | Some es \<Rightarrow>
        (case assign k es of (es', n, m, k') \<Rightarrow>
         rbind (merge_remap remap m) (\<lambda>remap'. Ok (Some es', 0 < n, tally + n, remap', k'))))"

text \<open>Phase 3 for one document: the references, and whether any changed.\<close>

definition phase_refs ::
  "('e \<Rightarrow> string list) \<Rightarrow> (string list \<Rightarrow> 'e \<Rightarrow> 'e) \<Rightarrow> (string, string) bmap \<Rightarrow> 'e list option
    \<Rightarrow> 'e list option \<times> bool" where
  "phase_refs get put remap doc =
    (case doc of None \<Rightarrow> (None, False)
     | Some es \<Rightarrow> (Some (map (\<lambda>e. put (fst (rewrite_traces_to remap (get e))) e) es),
         \<exists>e \<in> set es. snd (rewrite_traces_to remap (get e))))"

record backfill_result =
  bf_total :: nat
  bf_documents :: trace_documents
  bf_changed :: "string list"

definition backfill_uuids ::
  "(string \<Rightarrow> bool) \<Rightarrow> (nat \<Rightarrow> string) \<Rightarrow> nat \<Rightarrow> trace_documents \<Rightarrow> backfill_panic + backfill_result" where
  "backfill_uuids is_uuid mint k0 docs =
    rbind (phase_layer (assign_valid_uuids_hlr is_uuid mint) (td_sys docs) (0, [], k0))
      (\<lambda>(sys, sys_changed, st1).
    rbind (phase_layer (assign_valid_uuids_hlr is_uuid mint) (td_hlr docs) st1)
      (\<lambda>(hlr, hlr_changed, st2).
    rbind (phase_layer (assign_valid_uuids_llr is_uuid mint) (td_llr docs) st2)
      (\<lambda>(llr, llr_changed, st3).
    rbind (phase_layer (assign_valid_uuids_test is_uuid mint) (td_tests docs) st3)
      (\<lambda>(tests, tests_changed, st4).
    rbind (phase_layer (assign_valid_uuids_derived is_uuid mint) (td_derived docs) st4)
      (\<lambda>(derived, derived_changed, tally, remap, k).
    (case phase_refs h_traces_to (\<lambda>r e. e\<lparr>h_traces_to := r\<rparr>) remap hlr of (hlr', hlr_refs) \<Rightarrow>
     case phase_refs l_traces_to (\<lambda>r e. e\<lparr>l_traces_to := r\<rparr>) remap llr of (llr', llr_refs) \<Rightarrow>
     case phase_refs t_traces_to (\<lambda>r e. e\<lparr>t_traces_to := r\<rparr>) remap tests of (tests', tests_refs) \<Rightarrow>
     Ok \<lparr>bf_total = tally,
         bf_documents = \<lparr>td_sys = sys, td_hlr = hlr', td_llr = llr', td_tests = tests',
           td_derived = derived\<rparr>,
         bf_changed = (if sys_changed then [''sys.toml''] else [])
           @ (if hlr_changed \<or> hlr_refs then [''hlr.toml''] else [])
           @ (if llr_changed \<or> llr_refs then [''llr.toml''] else [])
           @ (if tests_changed \<or> tests_refs then [''tests.toml''] else [])
           @ (if derived_changed then [''derived.toml''] else [])\<rparr>))))))"

section \<open>What one layer does\<close>

text \<open>A field that can be read and written.\<close>

definition lens :: "('e \<Rightarrow> 'a) \<Rightarrow> ('a \<Rightarrow> 'e \<Rightarrow> 'e) \<Rightarrow> bool" where
  "lens get put \<longleftrightarrow> (\<forall>u e. get (put u e) = u) \<and> (\<forall>e. put (get e) e = e)"

definition valid_uid :: "(string \<Rightarrow> bool) \<Rightarrow> string option \<Rightarrow> bool" where
  "valid_uid is_uuid u \<longleftrightarrow> (\<exists>v. u = Some v \<and> is_uuid v)"

lemma needs_new_valid: "needs_new_uuid is_uuid u \<longleftrightarrow> \<not> valid_uid is_uuid u"
  by (cases u) (auto simp: needs_new_uuid_def valid_uid_def)

lemma lens_uids:
  "lens h_uid (\<lambda>u e. e\<lparr>h_uid := u\<rparr>)" "lens l_uid (\<lambda>u e. e\<lparr>l_uid := u\<rparr>)"
  "lens t_uid (\<lambda>u e. e\<lparr>t_uid := u\<rparr>)" "lens d_uid (\<lambda>u e. e\<lparr>d_uid := u\<rparr>)"
  by (simp_all add: lens_def)

lemma lens_refs:
  "lens h_traces_to (\<lambda>u e. e\<lparr>h_traces_to := u\<rparr>)" "lens l_traces_to (\<lambda>u e. e\<lparr>l_traces_to := u\<rparr>)"
  "lens t_traces_to (\<lambda>u e. e\<lparr>t_traces_to := u\<rparr>)"
  by (simp_all add: lens_def)

text \<open>When every uid is valid nothing happens.\<close>

lemma assign_uuids_idle:
  assumes "lens get put" "\<forall>e \<in> set es. valid_uid is_uuid (get e)"
  shows "assign_uuids is_uuid mint get put k count remap es = (es, count, remap, k)"
  using assms(2)
  by (induction es arbitrary: k count remap)
    (use assms(1) in \<open>auto simp: rewrite_uid_if_needed_def record_rewrite_def needs_new_valid lens_def\<close>)

lemma assign_uuids_ConsE:
  assumes "assign_uuids is_uuid mint get put k count remap (e # es) = (es', count', remap', k')"
  obtains outcome u k1 remap1 changed es1 where
    "rewrite_uid_if_needed is_uuid mint k (get e) = (outcome, u, k1)"
    "record_rewrite outcome remap = (remap1, changed)"
    "assign_uuids is_uuid mint get put k1 (if changed then count + 1 else count) remap1 es
      = (es1, count', remap', k')"
    "es' = put u e # es1"
proof -
  obtain outcome u k1 where rw: "rewrite_uid_if_needed is_uuid mint k (get e) = (outcome, u, k1)"
    by (metis prod_cases3)
  obtain remap1 changed where rr: "record_rewrite outcome remap = (remap1, changed)"
    by (metis surj_pair)
  obtain es1 c1 m1 k2 where rest: "assign_uuids is_uuid mint get put k1
      (if changed then count + 1 else count) remap1 es = (es1, c1, m1, k2)" by (metis prod_cases4)
  show ?thesis using assms rw rr rest that [OF rw rr] by auto
qed

lemma assign_uuids_valid:
  assumes "lens get put" "\<And>n. is_uuid (mint n)"
    and "assign_uuids is_uuid mint get put k count remap es = (es', count', remap', k')"
  shows "(\<forall>e \<in> set es'. valid_uid is_uuid (get e)) \<and>
    count' = count + length (filter (\<lambda>e. \<not> valid_uid is_uuid (get e)) es) \<and>
    (\<forall>old new. bget remap' old = Some new \<longrightarrow> bget remap old = Some new \<or> \<not> is_uuid old)"
  using assms(3)
proof (induction es arbitrary: k count remap es' count' remap' k')
  case (Cons e es)
  from Cons.prems obtain outcome u k1 remap1 changed es1 where
    rw: "rewrite_uid_if_needed is_uuid mint k (get e) = (outcome, u, k1)"
    and rr: "record_rewrite outcome remap = (remap1, changed)"
    and rest: "assign_uuids is_uuid mint get put k1 (if changed then count + 1 else count) remap1 es
      = (es1, count', remap', k')" and eq: "es' = put u e # es1" by (rule assign_uuids_ConsE)
  have u: "valid_uid is_uuid u" "changed = (\<not> valid_uid is_uuid (get e))"
    using rw rr assms(2)
    by (cases "get e"; auto simp: rewrite_uid_if_needed_def record_rewrite_def needs_new_valid
        valid_uid_def split: if_splits)+
  have m: "bget remap1 old = Some new \<Longrightarrow> bget remap old = Some new \<or> \<not> is_uuid old" for old new
    using rw rr
    by (auto simp: rewrite_uid_if_needed_def record_rewrite_def needs_new_uuid_def
        split: if_splits option.splits)
  have "get (put u e) = u" using assms(1) by (simp add: lens_def)
  note IH = Cons.IH [OF rest]
  from IH m have "\<forall>old new. bget remap' old = Some new \<longrightarrow> bget remap old = Some new \<or> \<not> is_uuid old"
    by blast
  with IH u \<open>get (put u e) = u\<close> show ?case by (simp add: eq)
qed simp

lemma assign_uuids_length:
  "assign_uuids is_uuid mint get put k count remap es = (es', count', remap', k') \<Longrightarrow>
    length es' = length es"
  by (induction es arbitrary: k count remap es' count' remap' k') (auto split: prod.splits)

text \<open>Every replaced placeholder is recorded with the uid that replaced it, when no two entries of
  the layer share one.\<close>

definition placeholders :: "(string \<Rightarrow> bool) \<Rightarrow> ('e \<Rightarrow> string option) \<Rightarrow> 'e list \<Rightarrow> string list" where
  "placeholders is_uuid get es =
    List.map_filter (\<lambda>e. case get e of Some v \<Rightarrow> if is_uuid v then None else Some v | None \<Rightarrow> None) es"

lemma placeholders_Cons:
  "placeholders is_uuid get (e # es) = (case get e of
      Some v \<Rightarrow> (if is_uuid v then [] else [v]) | None \<Rightarrow> []) @ placeholders is_uuid get es"
  by (simp add: placeholders_def List.map_filter_simps split: option.split)

lemma placeholders_in: "get e = Some v \<Longrightarrow> \<not> is_uuid v \<Longrightarrow> e \<in> set es \<Longrightarrow> v \<in> set (placeholders is_uuid get es)"
  by (force simp: placeholders_def List.map_filter_def)

lemma assign_uuids_remap:
  assumes "lens get put"
    and "assign_uuids is_uuid mint get put k count remap es = (es', count', remap', k')"
    and "distinct (placeholders is_uuid get es)"
  shows "(v \<notin> set (placeholders is_uuid get es) \<longrightarrow> bget remap' v = bget remap v) \<and>
    (\<forall>i < length es. get (es ! i) = Some v \<and> \<not> is_uuid v \<longrightarrow> bget remap' v = get (es' ! i))"
  using assms(2,3)
proof (induction es arbitrary: k count remap es' count' remap' k')
  case (Cons e es)
  from Cons.prems(1) obtain outcome u k1 remap1 changed es1 where
    rw: "rewrite_uid_if_needed is_uuid mint k (get e) = (outcome, u, k1)"
    and rr: "record_rewrite outcome remap = (remap1, changed)"
    and rest: "assign_uuids is_uuid mint get put k1 (if changed then count + 1 else count) remap1 es
      = (es1, count', remap', k')" and eq: "es' = put u e # es1" by (rule assign_uuids_ConsE)
  have d: "distinct (placeholders is_uuid get es)" using Cons.prems(2) by (simp add: placeholders_Cons)
  note IH = Cons.IH [OF rest d]
  have "get (put u e) = u" using assms(1) by (simp add: lens_def)
  show ?case
  proof (cases "get e")
    case None
    then have "remap1 = remap" using rw rr
      by (auto simp: rewrite_uid_if_needed_def needs_new_uuid_def record_rewrite_def)
    with None IH show ?thesis by (auto simp: eq placeholders_Cons nth_Cons split: nat.split)
  next
    case (Some w)
    show ?thesis
    proof (cases "is_uuid w")
      case True
      with Some have "remap1 = remap" using rw rr
        by (auto simp: rewrite_uid_if_needed_def needs_new_uuid_def record_rewrite_def)
      with Some True IH show ?thesis by (auto simp: eq placeholders_Cons nth_Cons split: nat.split)
    next
      case False
      with Some have r: "remap1 = bins w (mint k) remap" "u = Some (mint k)" using rw rr
        by (auto simp: rewrite_uid_if_needed_def needs_new_uuid_def record_rewrite_def)
      have w: "w \<notin> set (placeholders is_uuid get es)"
        using Cons.prems(2) Some False by (simp add: placeholders_Cons)
      then have "get (es ! j) \<noteq> Some w" if "j < length es" for j
        using placeholders_in [of get "es ! j" w is_uuid es] that False by auto
      with IH w r Some False \<open>get (put u e) = u\<close> show ?thesis
        by (auto simp: eq placeholders_Cons nth_Cons split: nat.split)
    qed
  qed
qed (simp add: placeholders_def List.map_filter_simps)

lemma merge_remap_get:
  "merge_remap dst src = Inr m \<Longrightarrow>
    bget m v = (case map_of src v of Some new \<Rightarrow> Some new | None \<Rightarrow> bget dst v) \<and>
    (bget dst v \<noteq> None \<longrightarrow> map_of src v = None)"
proof (induction src arbitrary: dst)
  case (Cons p src)
  obtain old new where p: "p = (old, new)" by (cases p)
  with Cons.prems have fresh: "bget dst old = None" and m: "merge_remap (bins old new dst) src = Inr m"
    by (auto split: if_splits)
  from Cons.IH [OF m] fresh show ?case by (auto simp: p split: option.splits if_splits)
qed simp

text \<open>One layer of phase 2, with what later layers keep of it.\<close>

lemma phase_layer_Ok:
  assumes "phase_layer assign doc (n, remap, k) = Inr (doc', ch, n', remap', k')"
  shows "(\<forall>v new. bget remap v = Some new \<longrightarrow> bget remap' v = Some new) \<and>
    (doc = None \<longrightarrow> doc' = None \<and> remap' = remap \<and> n' = n \<and> \<not> ch) \<and>
    (\<forall>es. doc = Some es \<longrightarrow> (\<exists>es' c m. assign k es = (es', c, m, k') \<and> doc' = Some es' \<and> n' = n + c \<and>
      ch = (0 < c) \<and> (\<forall>v. bget remap' v = (case bget m v of Some new \<Rightarrow> Some new | None \<Rightarrow> bget remap v))))"
proof (cases doc)
  case None
  with assms show ?thesis by (simp add: phase_layer_def)
next
  case (Some es)
  obtain es' c m k1 where a: "assign k es = (es', c, m, k1)" by (metis prod_cases4)
  with assms Some have "merge_remap remap m = Inr remap'" "doc' = Some es'" "ch = (0 < c)" "n' = n + c"
    "k1 = k'" by (auto simp: phase_layer_def rbind_Ok_iff)
  with a Some merge_remap_get [of remap m remap'] show ?thesis by (auto simp: bget_def)
qed

section \<open>The whole backfill\<close>

definition doc_valid :: "(string \<Rightarrow> bool) \<Rightarrow> ('e \<Rightarrow> string option) \<Rightarrow> 'e list option \<Rightarrow> bool" where
  "doc_valid is_uuid get doc \<longleftrightarrow> (\<forall>es. doc = Some es \<longrightarrow> (\<forall>e \<in> set es. valid_uid is_uuid (get e)))"

definition doc_missing :: "(string \<Rightarrow> bool) \<Rightarrow> ('e \<Rightarrow> string option) \<Rightarrow> 'e list option \<Rightarrow> nat" where
  "doc_missing is_uuid get doc =
    (case doc of None \<Rightarrow> 0 | Some es \<Rightarrow> length (filter (\<lambda>e. \<not> valid_uid is_uuid (get e)) es))"

definition documents_valid :: "(string \<Rightarrow> bool) \<Rightarrow> trace_documents \<Rightarrow> bool" where
  "documents_valid is_uuid d \<longleftrightarrow> doc_valid is_uuid h_uid (td_sys d) \<and> doc_valid is_uuid h_uid (td_hlr d) \<and>
    doc_valid is_uuid l_uid (td_llr d) \<and> doc_valid is_uuid t_uid (td_tests d) \<and>
    doc_valid is_uuid d_uid (td_derived d)"

definition documents_missing :: "(string \<Rightarrow> bool) \<Rightarrow> trace_documents \<Rightarrow> nat" where
  "documents_missing is_uuid d = doc_missing is_uuid h_uid (td_sys d) + doc_missing is_uuid h_uid (td_hlr d)
    + doc_missing is_uuid l_uid (td_llr d) + doc_missing is_uuid t_uid (td_tests d)
    + doc_missing is_uuid d_uid (td_derived d)"

lemma phase_layer_valid:
  assumes "phase_layer (\<lambda>k. assign_uuids is_uuid mint get put k 0 []) doc (n, remap, k)
      = Inr (doc', ch, n', remap', k')"
    and "lens get put" "\<And>n. is_uuid (mint n)"
  shows "doc_valid is_uuid get doc' \<and> n' = n + doc_missing is_uuid get doc"
proof (cases doc)
  case None
  with phase_layer_Ok [OF assms(1)] show ?thesis by (simp add: doc_valid_def doc_missing_def)
next
  case (Some es)
  from phase_layer_Ok [OF assms(1)] Some obtain es' c m where
    a: "assign_uuids is_uuid mint get put k 0 [] es = (es', c, m, k')" "doc' = Some es'" "n' = n + c"
    by blast
  from assign_uuids_valid [OF assms(2,3) a(1)] show ?thesis
    by (simp add: a doc_valid_def doc_missing_def Some)
qed

lemma phase_layer_idle:
  assumes "lens get put" "doc_valid is_uuid get doc"
  shows "phase_layer (\<lambda>k. assign_uuids is_uuid mint get put k 0 []) doc (n, remap, k)
    = Inr (doc, False, n, remap, k)"
  using assms(2)
  by (cases doc) (simp_all add: phase_layer_def assign_uuids_idle [OF assms(1)] doc_valid_def)

lemma phase_refs_idle: "lens get put \<Longrightarrow> phase_refs get put [] doc = (doc, False)"
  by (cases doc) (simp_all add: phase_refs_def rewrite_traces_to_def lens_def map_idI)

lemma assign_layers:
  "assign_valid_uuids_hlr is_uuid mint = (\<lambda>k. assign_uuids is_uuid mint h_uid (\<lambda>u e. e\<lparr>h_uid := u\<rparr>) k 0 [])"
  "assign_valid_uuids_llr is_uuid mint = (\<lambda>k. assign_uuids is_uuid mint l_uid (\<lambda>u e. e\<lparr>l_uid := u\<rparr>) k 0 [])"
  "assign_valid_uuids_test is_uuid mint = (\<lambda>k. assign_uuids is_uuid mint t_uid (\<lambda>u e. e\<lparr>t_uid := u\<rparr>) k 0 [])"
  "assign_valid_uuids_derived is_uuid mint = (\<lambda>k. assign_uuids is_uuid mint d_uid (\<lambda>u e. e\<lparr>d_uid := u\<rparr>) k 0 [])"
  by (rule ext, simp add: assign_valid_uuids_hlr_def assign_valid_uuids_llr_def
      assign_valid_uuids_test_def assign_valid_uuids_derived_def)+

lemma backfill_idle:
  assumes "documents_valid is_uuid d"
  shows "backfill_uuids is_uuid mint k d = Inr \<lparr>bf_total = 0, bf_documents = d, bf_changed = []\<rparr>"
  using assms unfolding documents_valid_def
  by (cases d) (simp add: backfill_uuids_def assign_layers phase_layer_idle lens_uids phase_refs_idle
      lens_refs)

lemma rbind_layerE:
  assumes "rbind x (\<lambda>(doc, ch, st). f doc ch st) = Inr r"
  obtains doc ch n m k where "x = Inr (doc, ch, n, m, k)" "f doc ch (n, m, k) = Inr r"
  using assms by (cases x) (auto simp: rbind_def)

lemma backfill_steps:
  assumes "backfill_uuids is_uuid mint k0 docs = Inr r"
  obtains sys c1 s1 m1 k1 hlr c2 s2 m2 k2 llr c3 s3 m3 k3 tests c4 s4 m4 k4 derived c5 s5 m5 k5 where
    "phase_layer (assign_valid_uuids_hlr is_uuid mint) (td_sys docs) (0, [], k0) = Inr (sys, c1, s1, m1, k1)"
    "phase_layer (assign_valid_uuids_hlr is_uuid mint) (td_hlr docs) (s1, m1, k1) = Inr (hlr, c2, s2, m2, k2)"
    "phase_layer (assign_valid_uuids_llr is_uuid mint) (td_llr docs) (s2, m2, k2) = Inr (llr, c3, s3, m3, k3)"
    "phase_layer (assign_valid_uuids_test is_uuid mint) (td_tests docs) (s3, m3, k3) = Inr (tests, c4, s4, m4, k4)"
    "phase_layer (assign_valid_uuids_derived is_uuid mint) (td_derived docs) (s4, m4, k4)
      = Inr (derived, c5, s5, m5, k5)"
    "bf_total r = s5"
    "bf_documents r = \<lparr>td_sys = sys,
       td_hlr = fst (phase_refs h_traces_to (\<lambda>r e. e\<lparr>h_traces_to := r\<rparr>) m5 hlr),
       td_llr = fst (phase_refs l_traces_to (\<lambda>r e. e\<lparr>l_traces_to := r\<rparr>) m5 llr),
       td_tests = fst (phase_refs t_traces_to (\<lambda>r e. e\<lparr>t_traces_to := r\<rparr>) m5 tests),
       td_derived = derived\<rparr>"
proof -
  from assms show ?thesis
    unfolding backfill_uuids_def
    by (elim rbind_layerE) (rule that, assumption+, auto simp: case_prod_unfold)
qed

lemma doc_valid_refs:
  "(\<And>r e. get (put r e) = get e) \<Longrightarrow> doc_valid is_uuid get doc \<Longrightarrow>
    doc_valid is_uuid get (fst (phase_refs g put remap doc))"
  by (cases doc) (auto simp: phase_refs_def doc_valid_def)

lemma backfill_result_valid:
  assumes "backfill_uuids is_uuid mint k docs = Inr r" "\<And>n. is_uuid (mint n)"
  shows "documents_valid is_uuid (bf_documents r) \<and> bf_total r = documents_missing is_uuid docs"
proof -
  from assms(1) obtain sys c1 s1 m1 k1 hlr c2 s2 m2 k2 llr c3 s3 m3 k3 tests c4 s4 m4 k4
    derived c5 s5 m5 k5 where
    steps: "phase_layer (assign_valid_uuids_hlr is_uuid mint) (td_sys docs) (0, [], k) = Inr (sys, c1, s1, m1, k1)"
    "phase_layer (assign_valid_uuids_hlr is_uuid mint) (td_hlr docs) (s1, m1, k1) = Inr (hlr, c2, s2, m2, k2)"
    "phase_layer (assign_valid_uuids_llr is_uuid mint) (td_llr docs) (s2, m2, k2) = Inr (llr, c3, s3, m3, k3)"
    "phase_layer (assign_valid_uuids_test is_uuid mint) (td_tests docs) (s3, m3, k3) = Inr (tests, c4, s4, m4, k4)"
    "phase_layer (assign_valid_uuids_derived is_uuid mint) (td_derived docs) (s4, m4, k4)
      = Inr (derived, c5, s5, m5, k5)"
    and r: "bf_total r = s5" "bf_documents r = \<lparr>td_sys = sys,
       td_hlr = fst (phase_refs h_traces_to (\<lambda>r e. e\<lparr>h_traces_to := r\<rparr>) m5 hlr),
       td_llr = fst (phase_refs l_traces_to (\<lambda>r e. e\<lparr>l_traces_to := r\<rparr>) m5 llr),
       td_tests = fst (phase_refs t_traces_to (\<lambda>r e. e\<lparr>t_traces_to := r\<rparr>) m5 tests),
       td_derived = derived\<rparr>"
    by (rule backfill_steps)
  note layers = steps [unfolded assign_layers]
  note valid = phase_layer_valid [OF layers(1) lens_uids(1) assms(2)]
    phase_layer_valid [OF layers(2) lens_uids(1) assms(2)]
    phase_layer_valid [OF layers(3) lens_uids(2) assms(2)]
    phase_layer_valid [OF layers(4) lens_uids(3) assms(2)]
    phase_layer_valid [OF layers(5) lens_uids(4) assms(2)]
  then show ?thesis
    by (simp add: documents_valid_def documents_missing_def r doc_valid_refs)
qed

section \<open>References follow\<close>

lemma assign_uuids_keeps:
  assumes "\<And>u e. g (put u e) = g e"
  shows "assign_uuids is_uuid mint get put k count remap es = (es', count', remap', k') \<Longrightarrow>
    map g es' = map g es"
proof (induction es arbitrary: k count remap es' count' remap' k')
  case (Cons e es)
  from Cons.prems obtain outcome u k1 remap1 changed es1 where
    rest: "assign_uuids is_uuid mint get put k1 (if changed then count + 1 else count) remap1 es
      = (es1, count', remap', k')" and eq: "es' = put u e # es1" by (rule assign_uuids_ConsE)
  have "map g es1 = map g es" by (rule Cons.IH [OF rest])
  then show ?case unfolding eq list.map assms by simp
qed simp

lemma phase_layer_target:
  assumes p: "phase_layer (\<lambda>k. assign_uuids is_uuid mint get put k 0 []) (Some es) (n, remap, k)
      = Inr (doc', ch, n', remap', k')"
    and l: "lens get put" and d: "distinct (placeholders is_uuid get es)"
    and i: "i < length es" "get (es ! i) = Some v" "\<not> is_uuid v" and valid: "\<And>n. is_uuid (mint n)"
  shows "\<exists>es'. doc' = Some es' \<and> length es' = length es \<and> bget remap' v = get (es' ! i)"
proof -
  from phase_layer_Ok [OF p] obtain es' c m where
    a: "assign_uuids is_uuid mint get put k 0 [] es = (es', c, m, k')" "doc' = Some es'"
    "\<forall>v. bget remap' v = (case bget m v of Some new \<Rightarrow> Some new | None \<Rightarrow> bget remap v)" by blast
  from assign_uuids_remap [OF l a(1) d, of v] i have m: "bget m v = get (es' ! i)" by blast
  have len: "length es' = length es" using assign_uuids_length [OF a(1)] .
  have "valid_uid is_uuid (get (es' ! i))"
    using assign_uuids_valid [OF l valid a(1)] i(1) len by (metis nth_mem)
  with m a(3) have "bget remap' v = get (es' ! i)" by (auto simp: valid_uid_def)
  with a(2) len show ?thesis by blast
qed

lemma phase_layer_keeps:
  assumes p: "phase_layer (\<lambda>k. assign_uuids is_uuid mint get put k 0 []) (Some es) (n, remap, k)
      = Inr (doc', ch, n', remap', k')" and g: "\<And>u e. g (put u e) = g e"
  shows "\<exists>es'. doc' = Some es' \<and> map g es' = map g es"
proof -
  from phase_layer_Ok [OF p] obtain es' c m where
    a: "assign_uuids is_uuid mint get put k 0 [] es = (es', c, m, k')" "doc' = Some es'" by blast
  have "map g es' = map g es" by (rule assign_uuids_keeps [OF g a(1)])
  with a(2) show ?thesis by blast
qed

lemma phase_layer_extends:
  "phase_layer assign doc (n, remap, k) = Inr (doc', ch, n', remap', k') \<Longrightarrow>
    bget remap v = Some new \<Longrightarrow> bget remap' v = Some new"
proof -
  assume p: "phase_layer assign doc (n, remap, k) = Inr (doc', ch, n', remap', k')"
    and v: "bget remap v = Some new"
  from conjunct1 [OF phase_layer_Ok [OF p]] v show ?thesis by blast
qed

lemma phase_refs_nth:
  assumes "\<And>r e. get (put r e) = r" "j < length es" "q < length (get (es ! j))"
    "bget remap (get (es ! j) ! q) = Some new"
  shows "get (the (fst (phase_refs get put remap (Some es))) ! j) ! q = new"
  using assms by (simp add: phase_refs_def rewrite_traces_to_def)

lemma backfill_follows:
  assumes run: "backfill_uuids is_uuid mint k docs = Inr r" and valid: "\<And>n. is_uuid (mint n)"
    and docs: "td_hlr docs = Some hs" "td_llr docs = Some ls"
    and d: "distinct (placeholders is_uuid h_uid hs)"
    and i: "i < length hs" "h_uid (hs ! i) = Some v" "\<not> is_uuid v"
    and j: "j < length ls" "q < length (l_traces_to (ls ! j))" "l_traces_to (ls ! j) ! q = v"
  shows "Some (l_traces_to (the (td_llr (bf_documents r)) ! j) ! q) =
    h_uid (the (td_hlr (bf_documents r)) ! i)"
proof -
  from run obtain sys c1 s1 m1 k1 hlr c2 s2 m2 k2 llr c3 s3 m3 k3 tests c4 s4 m4 k4
    derived c5 s5 m5 k5 where
    steps: "phase_layer (assign_valid_uuids_hlr is_uuid mint) (td_sys docs) (0, [], k) = Inr (sys, c1, s1, m1, k1)"
    "phase_layer (assign_valid_uuids_hlr is_uuid mint) (td_hlr docs) (s1, m1, k1) = Inr (hlr, c2, s2, m2, k2)"
    "phase_layer (assign_valid_uuids_llr is_uuid mint) (td_llr docs) (s2, m2, k2) = Inr (llr, c3, s3, m3, k3)"
    "phase_layer (assign_valid_uuids_test is_uuid mint) (td_tests docs) (s3, m3, k3) = Inr (tests, c4, s4, m4, k4)"
    "phase_layer (assign_valid_uuids_derived is_uuid mint) (td_derived docs) (s4, m4, k4)
      = Inr (derived, c5, s5, m5, k5)"
    and r: "bf_total r = s5" "bf_documents r = \<lparr>td_sys = sys,
       td_hlr = fst (phase_refs h_traces_to (\<lambda>r e. e\<lparr>h_traces_to := r\<rparr>) m5 hlr),
       td_llr = fst (phase_refs l_traces_to (\<lambda>r e. e\<lparr>l_traces_to := r\<rparr>) m5 llr),
       td_tests = fst (phase_refs t_traces_to (\<lambda>r e. e\<lparr>t_traces_to := r\<rparr>) m5 tests),
       td_derived = derived\<rparr>"
    by (rule backfill_steps)
  note layers = steps [unfolded assign_layers docs]
  from phase_layer_target [OF layers(2) lens_uids(1) d i valid] obtain hs' where
    h: "hlr = Some hs'" "length hs' = length hs" "bget m2 v = h_uid (hs' ! i)" by blast
  have "valid_uid is_uuid (h_uid (hs' ! i))"
    using phase_layer_valid [OF layers(2) lens_uids(1) valid] h i(1)
    by (auto simp: doc_valid_def)
  then obtain new where new: "h_uid (hs' ! i) = Some new" by (auto simp: valid_uid_def)
  with h(3) have "bget m2 v = Some new" by simp
  then have "bget m5 v = Some new"
    by (rule phase_layer_extends [OF steps(5) phase_layer_extends [OF steps(4)
          phase_layer_extends [OF steps(3)]]])
  from phase_layer_keeps [OF layers(3), of l_traces_to] obtain ls' where
    l: "llr = Some ls'" "map l_traces_to ls' = map l_traces_to ls" by auto
  then have len: "length ls' = length ls" using map_eq_imp_length_eq by blast
  then have same: "l_traces_to (ls' ! j) = l_traces_to (ls ! j)"
    using l(2) j(1) by (metis nth_map)
  have "l_traces_to (the (td_llr (bf_documents r)) ! j) ! q = new"
    unfolding r(2) trace_documents.simps l(1)
    by (rule phase_refs_nth) (use j len same \<open>bget m5 v = Some new\<close> in simp_all)
  moreover have "h_uid (the (td_hlr (bf_documents r)) ! i) = Some new"
    using new h i(1) by (simp add: r(2) phase_refs_def)
  ultimately show ?thesis by simp
qed

end
