(* ===== verification/Trace_Evidence.thy ===== *)
theory Trace_Evidence
  imports Uuid_Backfill
begin

text \<open>
  The semantic state of the trace evidence behind an assurance claim
  (\<^verbatim>\<open>trace/evidence_state.rs\<close>), over reading a trace root (\<^verbatim>\<open>trace/read.rs\<close>). The file system
  is the parameter \<open>read_root\<close>: a root is missing, or reads to its documents, or fails to read.
\<close>

section \<open>Reading\<close>

datatype trace_read_error = TraceRead string | TraceParse string

fun trace_read_error_code :: "trace_read_error \<Rightarrow> string" where
  "trace_read_error_code (TraceRead _) = ''TRACE_READ_FAILED''"
| "trace_read_error_code (TraceParse _) = ''TRACE_PARSE_FAILED''"

text \<open>What the five paths of a present root yield: a file is absent, or parses, or fails.\<close>

record root_files =
  rf_sys :: "(trace_read_error + hlr_entry list) option"
  rf_hlr :: "(trace_read_error + hlr_entry list) option"
  rf_llr :: "(trace_read_error + llr_entry list) option"
  rf_tests :: "(trace_read_error + test_entry list) option"
  rf_derived :: "(trace_read_error + derived_entry list) option"

definition read_or_default ::
  "(trace_read_error + 'e list) option \<Rightarrow> trace_read_error + 'e list" where
  "read_or_default file = (case file of None \<Rightarrow> Ok [] | Some r \<Rightarrow> r)"

text \<open>The derived stream is optional in the source; its absence contributes no entries anywhere.\<close>

definition read_all_trace_files :: "root_files \<Rightarrow> trace_read_error + trace_parts" where
  "read_all_trace_files files =
    rbind (read_or_default (rf_sys files)) (\<lambda>sys.
    rbind (read_or_default (rf_hlr files)) (\<lambda>hlr.
    rbind (read_or_default (rf_llr files)) (\<lambda>llr.
    rbind (read_or_default (rf_tests files)) (\<lambda>tests.
    rbind (read_or_default (rf_derived files)) (\<lambda>derived.
    Ok \<lparr>tr_sys = sys, tr_hlrs = hlr, tr_llrs = llr, tr_tests = tests, tr_derived = derived\<rparr>)))))"

section \<open>The evaluation\<close>

datatype trace_evidence_state =
    NotConfigured
  | NotAdopted "string list"
  | EmptyEvidence
  | InvalidEvidence
  | ValidEvidence

fun state_satisfies_claim :: "trace_evidence_state \<Rightarrow> bool" where
  "state_satisfies_claim ValidEvidence = True"
| "state_satisfies_claim _ = False"

fun gap_code :: "trace_evidence_state \<Rightarrow> string option" where
  "gap_code NotConfigured = Some ''TRACE_EVIDENCE_NOT_CONFIGURED''"
| "gap_code (NotAdopted _) = Some ''TRACE_EVIDENCE_NOT_ADOPTED''"
| "gap_code EmptyEvidence = Some ''TRACE_EVIDENCE_EMPTY''"
| "gap_code InvalidEvidence = None"
| "gap_code ValidEvidence = None"

record trace_evidence_eval =
  te_state :: trace_evidence_state
  te_roots :: "string list"
  te_missing_roots :: "string list"
  te_requirement_count :: nat
  te_validation :: "trace_validation_error option"
  te_read_error :: "trace_read_error option"

definition eval_satisfies_claim :: "trace_evidence_eval \<Rightarrow> bool" where
  "eval_satisfies_claim e = state_satisfies_claim (te_state e)"

definition empty_parts :: trace_parts where
  "empty_parts = \<lparr>tr_sys = [], tr_hlrs = [], tr_llrs = [], tr_tests = [], tr_derived = []\<rparr>"

definition append_parts :: "trace_parts \<Rightarrow> trace_parts \<Rightarrow> trace_parts" where
  "append_parts a b = \<lparr>tr_sys = tr_sys a @ tr_sys b, tr_hlrs = tr_hlrs a @ tr_hlrs b,
     tr_llrs = tr_llrs a @ tr_llrs b, tr_tests = tr_tests a @ tr_tests b,
     tr_derived = tr_derived a @ tr_derived b\<rparr>"

definition parts_count :: "trace_parts \<Rightarrow> nat" where
  "parts_count t = length (tr_sys t) + length (tr_hlrs t) + length (tr_llrs t) + length (tr_tests t)
     + length (tr_derived t)"

text \<open>The loop over the roots: the evaluation so far and the aggregated streams. A read error
  leaves the loop with the evaluation as it stands.\<close>

fun aggregate_roots ::
  "(string \<Rightarrow> root_files option) \<Rightarrow> trace_evidence_eval \<Rightarrow> trace_parts \<Rightarrow> string list
    \<Rightarrow> trace_evidence_eval + trace_evidence_eval \<times> trace_parts" where
  "aggregate_roots read_root ev parts [] = Inr (ev, parts)"
| "aggregate_roots read_root ev parts (root # roots) =
    (case read_root root of
       None \<Rightarrow> aggregate_roots read_root
         (ev\<lparr>te_missing_roots := te_missing_roots ev @ [root]\<rparr>) parts roots
     | Some files \<Rightarrow>
        (case read_all_trace_files files of
           Inl e \<Rightarrow> Inl (ev\<lparr>te_state := InvalidEvidence, te_read_error := Some e\<rparr>)
         | Inr t \<Rightarrow> aggregate_roots read_root
             (ev\<lparr>te_requirement_count := te_requirement_count ev + parts_count t\<rparr>)
             (append_parts parts t) roots))"

definition evaluate_trace_evidence ::
  "(string \<Rightarrow> bool) \<Rightarrow> (string \<Rightarrow> root_files option) \<Rightarrow> string list \<Rightarrow> trace_policy
    \<Rightarrow> trace_evidence_eval" where
  "evaluate_trace_evidence is_uuid read_root roots policy =
    (let ev0 = \<lparr>te_state = NotConfigured, te_roots = roots, te_missing_roots = [],
           te_requirement_count = 0, te_validation = None, te_read_error = None\<rparr> in
     if roots = [] then ev0
     else case aggregate_roots read_root ev0 empty_parts roots of
       Inl ev \<Rightarrow> ev
     | Inr (ev, parts) \<Rightarrow>
        if te_requirement_count ev = 0
        then ev\<lparr>te_state := (if length (te_missing_roots ev) = length roots
               then NotAdopted (te_missing_roots ev) else EmptyEvidence)\<rparr>
        else case validate_trace_links_with_policy is_uuid parts policy of
            Inr _ \<Rightarrow> ev\<lparr>te_state := ValidEvidence\<rparr>
          | Inl e \<Rightarrow> ev\<lparr>te_state := InvalidEvidence, te_validation := Some e\<rparr>)"

section \<open>When the claim is satisfied\<close>

text \<open>The streams of the present roots, one after another.\<close>

definition root_parts :: "(string \<Rightarrow> root_files option) \<Rightarrow> string \<Rightarrow> trace_parts" where
  "root_parts read_root root = (case read_root root of None \<Rightarrow> empty_parts
     | Some files \<Rightarrow> (case read_all_trace_files files of Inl _ \<Rightarrow> empty_parts | Inr t \<Rightarrow> t))"

definition all_parts :: "(string \<Rightarrow> root_files option) \<Rightarrow> string list \<Rightarrow> trace_parts" where
  "all_parts read_root roots = foldl (\<lambda>p r. append_parts p (root_parts read_root r)) empty_parts roots"

definition root_readable :: "(string \<Rightarrow> root_files option) \<Rightarrow> string \<Rightarrow> bool" where
  "root_readable read_root root \<longleftrightarrow>
    (\<forall>files. read_root root = Some files \<longrightarrow> (\<exists>t. read_all_trace_files files = Inr t))"

lemma append_empty [simp]: "append_parts p empty_parts = p"
  by (simp add: append_parts_def empty_parts_def)

lemma parts_count_simps [simp]:
  "parts_count empty_parts = 0" "parts_count (append_parts a b) = parts_count a + parts_count b"
  by (simp_all add: parts_count_def empty_parts_def append_parts_def)

lemma aggregate_roots_Ok:
  "(\<forall>r \<in> set roots. root_readable read_root r) \<Longrightarrow> \<exists>ev'. aggregate_roots read_root ev parts roots =
    Inr (ev', foldl (\<lambda>p r. append_parts p (root_parts read_root r)) parts roots) \<and>
    te_requirement_count ev' = te_requirement_count ev
      + (parts_count (foldl (\<lambda>p r. append_parts p (root_parts read_root r)) parts roots) - parts_count parts) \<and>
    parts_count parts \<le> parts_count (foldl (\<lambda>p r. append_parts p (root_parts read_root r)) parts roots) \<and>
    te_missing_roots ev' = te_missing_roots ev @ filter (\<lambda>r. read_root r = None) roots"
proof (induction roots arbitrary: ev parts)
  case (Cons r roots)
  then have ok: "root_readable read_root r" "\<forall>r \<in> set roots. root_readable read_root r" by auto
  show ?case
  proof (cases "read_root r")
    case None
    with Cons.IH [OF ok(2), of "ev\<lparr>te_missing_roots := te_missing_roots ev @ [r]\<rparr>" parts]
    show ?thesis by (simp add: root_parts_def)
  next
    case (Some files)
    with ok(1) obtain t where t: "read_all_trace_files files = Inr t" by (auto simp: root_readable_def)
    have r: "root_parts read_root r = t" by (simp add: root_parts_def Some t)
    let ?all = "foldl (\<lambda>p r. append_parts p (root_parts read_root r)) (append_parts parts t) roots"
    from Cons.IH [OF ok(2), of "ev\<lparr>te_requirement_count := te_requirement_count ev + parts_count t\<rparr>"
        "append_parts parts t"] obtain ev' where
      ev': "aggregate_roots read_root
          (ev\<lparr>te_requirement_count := te_requirement_count ev + parts_count t\<rparr>)
          (append_parts parts t) roots = Inr (ev', ?all)"
      "te_requirement_count ev' = te_requirement_count ev + parts_count t
        + (parts_count ?all - (parts_count parts + parts_count t))"
      "parts_count parts + parts_count t \<le> parts_count ?all"
      "te_missing_roots ev' = te_missing_roots ev @ filter (\<lambda>r. read_root r = None) roots"
      by auto
    then have "te_requirement_count ev' = te_requirement_count ev + (parts_count ?all - parts_count parts)"
      by linarith
    with ev' Some t show ?thesis by (simp add: r)
  qed
qed simp

lemma aggregate_roots_Err:
  "\<not> (\<forall>r \<in> set roots. root_readable read_root r) \<Longrightarrow>
    \<exists>ev'. aggregate_roots read_root ev parts roots = Inl ev' \<and> te_state ev' = InvalidEvidence"
proof (induction roots arbitrary: ev parts)
  case (Cons r roots)
  show ?case
  proof (cases "root_readable read_root r")
    case True
    with Cons.prems have "\<not> (\<forall>r \<in> set roots. root_readable read_root r)" by simp
    note IH = Cons.IH [OF this]
    show ?thesis
    proof (cases "read_root r")
      case None
      with IH show ?thesis by simp
    next
      case (Some files)
      with True obtain t where "read_all_trace_files files = Inr t" by (auto simp: root_readable_def)
      with Some IH show ?thesis by simp
    qed
  next
    case False
    then obtain files where "read_root r = Some files" "\<forall>t. read_all_trace_files files \<noteq> Inr t"
      by (auto simp: root_readable_def)
    then show ?thesis by (cases "read_all_trace_files files") auto
  qed
qed simp

lemma evidence_claim_iff:
  "eval_satisfies_claim (evaluate_trace_evidence is_uuid read_root roots policy) \<longleftrightarrow>
    (\<forall>r \<in> set roots. root_readable read_root r) \<and>
    0 < parts_count (all_parts read_root roots) \<and> trace_ok is_uuid policy (all_parts read_root roots)"
proof (cases "\<forall>r \<in> set roots. root_readable read_root r")
  case False
  then have "roots \<noteq> []" by auto
  moreover from aggregate_roots_Err [OF False] obtain ev where
    "aggregate_roots read_root \<lparr>te_state = NotConfigured, te_roots = roots, te_missing_roots = [],
       te_requirement_count = 0, te_validation = None, te_read_error = None\<rparr> empty_parts roots = Inl ev"
    "te_state ev = InvalidEvidence" by blast
  ultimately have "\<not> eval_satisfies_claim (evaluate_trace_evidence is_uuid read_root roots policy)"
    by (simp add: eval_satisfies_claim_def evaluate_trace_evidence_def Let_def)
  with False show ?thesis by blast
next
  case True
  show ?thesis
  proof (cases "roots = []")
    case True
    then show ?thesis
      by (simp add: eval_satisfies_claim_def evaluate_trace_evidence_def Let_def all_parts_def)
  next
    case False
    let ?ev0 = "\<lparr>te_state = NotConfigured, te_roots = roots, te_missing_roots = [],
           te_requirement_count = 0, te_validation = None, te_read_error = None\<rparr>"
    from aggregate_roots_Ok [OF True, of ?ev0 empty_parts] obtain ev where
      ev: "aggregate_roots read_root ?ev0 empty_parts roots = Inr (ev, all_parts read_root roots)"
      "te_requirement_count ev = parts_count (all_parts read_root roots)"
      by (auto simp: all_parts_def)
    have "validate_trace_links_with_policy is_uuid (all_parts read_root roots) policy = Inr u \<longleftrightarrow>
        trace_ok is_uuid policy (all_parts read_root roots)" for u
      using trace_validation_Ok_iff by simp
    with False ev True show ?thesis
      by (auto simp: eval_satisfies_claim_def evaluate_trace_evidence_def Let_def split: sum.split)
  qed
qed

end
