(* ===== verification/Trace_Properties.thy ===== *)
theory Trace_Properties
  imports Trace_Evidence
begin

text \<open>
  The properties of the legacy trace: what validation decides at each assurance level, that accepted
  requirements reach the system layer, what the uid backfill guarantees and when the trace evidence
  supports the assurance claim. A small trace of one entry per layer serves as the example.
\<close>

section \<open>An example trace\<close>

definition demo_is_uuid :: "string \<Rightarrow> bool" where
  "demo_is_uuid s = (s \<noteq> [] \<and> hd s = CHR ''u'')"

definition demo_mint :: "nat \<Rightarrow> string" where
  "demo_mint n = CHR ''u'' # replicate n (CHR ''0'')"

lemma demo_mint_valid: "demo_is_uuid (demo_mint n)"
  by (simp add: demo_is_uuid_def demo_mint_def)

definition demo_hlr_entry :: "string \<Rightarrow> string \<Rightarrow> string list \<Rightarrow> hlr_entry" where
  "demo_hlr_entry u i links = \<lparr>h_uid = Some u, h_ns = None, h_id = i, h_title = ''title'',
     h_owner = Some ''soi'', h_scope = None, h_sort_key = None, h_category = None, h_source = None,
     h_description = None, h_rationale = None, h_verification_methods = [''test''],
     h_traces_to = links, h_surfaces = []\<rparr>"

definition demo_llr_entry :: "string \<Rightarrow> string \<Rightarrow> string list \<Rightarrow> llr_entry" where
  "demo_llr_entry u i links = \<lparr>l_uid = Some u, l_ns = None, l_id = i, l_title = ''title'',
     l_owner = Some ''nav'', l_sort_key = None, l_traces_to = links, l_source = None, l_modules = [],
     l_description = None, l_verification_methods = [''test''], l_emits = []\<rparr>"

definition demo_test_entry :: "string \<Rightarrow> string \<Rightarrow> string list \<Rightarrow> test_entry" where
  "demo_test_entry u i links = \<lparr>t_uid = Some u, t_ns = None, t_id = i, t_title = ''title'',
     t_owner = Some ''nav'', t_sort_key = None, t_traces_to = links, t_description = None,
     t_category = None, t_test_selector = None, t_test_selectors = [], t_source = None\<rparr>"

definition demo_trace :: trace_parts where
  "demo_trace = \<lparr>tr_sys = [demo_hlr_entry ''u1'' ''SYS-1'' []],
     tr_hlrs = [demo_hlr_entry ''u2'' ''HLR-1'' [''u1'']],
     tr_llrs = [demo_llr_entry ''u3'' ''LLR-1'' [''u2'']],
     tr_tests = [demo_test_entry ''u4'' ''TEST-1'' [''u3'']], tr_derived = []\<rparr>"

lemmas demo_trace_simps = demo_trace_def demo_hlr_entry_def demo_llr_entry_def demo_test_entry_def
  demo_is_uuid_def

lemma demo_trace_entries:
  "registered (trace_entries demo_trace) =
    [(''u1'', ''SYS'', ''soi'', ''SYS-1''), (''u2'', ''HLR'', ''soi'', ''HLR-1''),
     (''u3'', ''LLR'', ''nav'', ''LLR-1''), (''u4'', ''TEST'', ''nav'', ''TEST-1'')]"
  by (simp add: trace_entries_def demo_trace_simps registered1_def)

lemma demo_trace_ok: "trace_ok demo_is_uuid (ep_trace (for_dal d)) demo_trace"
proof -
  have ids: "\<forall>e \<in> set (trace_entries demo_trace). identified demo_is_uuid (ep_trace (for_dal d)) e"
    by (simp add: demo_trace_simps trace_entries_def identified_def)
  have "hlr_ok demo_is_uuid (ep_trace (for_dal d)) demo_trace (demo_hlr_entry ''u2'' ''HLR-1'' [''u1''])"
    "llr_ok demo_is_uuid (ep_trace (for_dal d)) demo_trace (demo_llr_entry ''u3'' ''LLR-1'' [''u2''])"
    "test_ok demo_is_uuid demo_trace (demo_test_entry ''u4'' ''TEST-1'' [''u3''])"
    unfolding hlr_ok_def llr_ok_def test_ok_def link_resolves_def demo_trace_entries
    by (simp_all add: demo_hlr_entry_def demo_llr_entry_def demo_test_entry_def demo_is_uuid_def
        owner_rule_holds_def)
  moreover have "\<not> tp_require_hlr_surface_bijection (ep_trace (for_dal d))"
    by (cases d) (simp_all add: strict_trace_policy_def)
  ultimately show ?thesis
    unfolding trace_ok_def demo_trace_entries using ids by (simp add: demo_trace_def)
qed

lemma demo_trace_accepted:
  "validate_trace_links_with_policy demo_is_uuid demo_trace (ep_trace (for_dal d)) = Inr ()"
  by (simp add: trace_validation_Ok_iff demo_trace_ok)

section \<open>Validation\<close>

text \<open>C14: trace validation accepts exactly the traces in which every registered entry is identified
  as the policy demands, uids and items are unique, every link is a UUID that resolves to an entry of
  the layer above under the owner rule and occurs once, every low-level requirement has a parent, and
  the fields, surfaces and derived-requirement answers that the policy asks for are there.\<close>

theorem trace_validation_decides:
  "validate_trace_links_with_policy is_uuid t policy = Inr () \<longleftrightarrow> trace_ok is_uuid policy t"
  by (rule trace_validation_Ok_iff)


lemma trace_ok_mono:
  assumes s: "at_least_as_strict p q" and ok: "trace_ok is_uuid p t"
  shows "trace_ok is_uuid q t"
proof -
  have id: "identified is_uuid q e" if "identified is_uuid p e" for e
    using that s by (cases e) (simp add: identified_def at_least_as_strict_def)
  have hlr: "hlr_ok is_uuid q t r" if "hlr_ok is_uuid p t r" for r
    using that s by (auto simp: hlr_ok_def at_least_as_strict_def)
  have llr: "llr_ok is_uuid q t r" if "llr_ok is_uuid p t r" for r
    using that s by (auto simp: llr_ok_def at_least_as_strict_def)
  have derived: "derived_ok q r" if "derived_ok p r" for r
    using that s by (auto simp: derived_ok_def at_least_as_strict_def)
  have "tp_require_hlr_surface_bijection q \<Longrightarrow> tp_require_hlr_surface_bijection p"
    using s by (simp add: at_least_as_strict_def)
  with ok show ?thesis unfolding trace_ok_def by (simp add: id hlr llr derived)
qed

text \<open>The assurance levels are ordered as the standard orders them: a trace that validates
  under the policy of a level validates under the policy of every lower level.\<close>

theorem lower_level_accepts:
  assumes "d \<le> e"
    and "validate_trace_links_with_policy is_uuid t (ep_trace (for_dal e)) = Inr ()"
  shows "validate_trace_links_with_policy is_uuid t (ep_trace (for_dal d)) = Inr ()"
  using trace_ok_mono [OF for_dal_monotone [OF assms(1)]] assms(2)
  by (simp add: trace_validation_Ok_iff)

theorem lower_level_accepts_witness:
  "validate_trace_links_with_policy demo_is_uuid demo_trace (ep_trace (for_dal DalC)) = Inr ()"
  by (rule lower_level_accepts [OF _ demo_trace_accepted [of DalA]]) (simp add: less_eq_dal_def)

lemma registered_in:
  "(v, k, ow, i) \<in> set (registered es) \<longleftrightarrow> (Some v, Some ow, i, k) \<in> set es"
proof (induction es)
  case (Cons e es)
  then show ?case
    by (cases e) (auto simp: registered1_def split: option.splits)
qed simp

lemma entry_of_layer:
  "(Some v, Some ow, i, ''SYS'') \<in> set (trace_entries t) \<Longrightarrow> \<exists>r \<in> set (tr_sys t). h_uid r = Some v"
  "(Some v, Some ow, i, ''HLR'') \<in> set (trace_entries t) \<Longrightarrow> \<exists>r \<in> set (tr_hlrs t). h_uid r = Some v"
  by (auto simp: trace_entries_def)

text \<open>C15: with the system trace required, no accepted low-level requirement is an orphan: each one
  links to a high-level requirement that links to a system requirement.\<close>

theorem requirement_reaches_system:
  assumes "validate_trace_links_with_policy is_uuid t policy = Inr ()"
    and "tp_require_hlr_sys_trace policy" and "l \<in> set (tr_llrs t)"
  shows "\<exists>h \<in> set (tr_hlrs t). \<exists>s \<in> set (tr_sys t). \<exists>u v.
    h_uid h = Some u \<and> u \<in> set (l_traces_to l) \<and> h_uid s = Some v \<and> v \<in> set (h_traces_to h)"
proof -
  from assms(1) have ok: "trace_ok is_uuid policy t" by (simp add: trace_validation_Ok_iff)
  with assms(3) have "llr_ok is_uuid policy t l" by (simp add: trace_ok_def)
  then obtain u where u: "u \<in> set (l_traces_to l)" "link_resolves is_uuid t ''LLR'' (l_owner l) ''HLR'' u"
    unfolding llr_ok_def by (metis list.set_sel(1))
  then obtain h where h: "h \<in> set (tr_hlrs t)" "h_uid h = Some u"
    by (auto simp: link_resolves_def registered_in dest: entry_of_layer)
  with ok have "hlr_ok is_uuid policy t h" by (simp add: trace_ok_def)
  with assms(2) obtain v where
    v: "v \<in> set (h_traces_to h)" "link_resolves is_uuid t ''HLR'' (h_owner h) ''SYS'' v"
    unfolding hlr_ok_def by (metis list.set_sel(1))
  then obtain s where "s \<in> set (tr_sys t)" "h_uid s = Some v"
    by (auto simp: link_resolves_def registered_in dest: entry_of_layer)
  with u h v show ?thesis by blast
qed

theorem requirement_reaches_system_witness:
  "\<exists>h \<in> set (tr_hlrs demo_trace). \<exists>s \<in> set (tr_sys demo_trace). \<exists>v.
    h_uid s = Some v \<and> v \<in> set (h_traces_to h)"
  using requirement_reaches_system [OF demo_trace_accepted [of DalA], of "demo_llr_entry ''u3'' ''LLR-1'' [''u2'']"]
  by (auto simp: strict_trace_policy_def demo_trace_def)

text \<open>C18: at level D, where uids are required but owners are not, a system requirement without an
  owner escapes the uid checks: anywhere in the list of system requirements, adding or removing one
  changes nothing about whether the trace is accepted, whatever its uid is, absent, malformed or the
  uid of another entry. The claim is about system requirements, which link to nothing; a requirement
  or test of a lower layer without an owner still has its links checked, the owner rule included.\<close>

theorem unowned_uid_is_unchecked:
  assumes "h_owner s = None"
  shows "validate_trace_links_with_policy is_uuid (t\<lparr>tr_sys := xs @ s # ys\<rparr>) (ep_trace (for_dal DalD)) = Inr ()
    \<longleftrightarrow> validate_trace_links_with_policy is_uuid (t\<lparr>tr_sys := xs @ ys\<rparr>) (ep_trace (for_dal DalD)) = Inr ()"
proof -
  let ?t = "t\<lparr>tr_sys := xs @ s # ys\<rparr>" and ?u = "t\<lparr>tr_sys := xs @ ys\<rparr>"
  define as where "as = map (\<lambda>r. (h_uid r, h_owner r, h_id r, ''SYS'')) xs"
  obtain bs where entries: "trace_entries ?t = as @ (h_uid s, None, h_id s, ''SYS'') # bs"
    "trace_entries ?u = as @ bs"
    using assms by (simp add: trace_entries_def as_def)
  have same: "registered (trace_entries ?t) = registered (trace_entries ?u)"
    by (simp add: entries registered_append registered1_def split: option.split)
  have "trace_ok is_uuid (ep_trace (for_dal DalD)) ?t \<longleftrightarrow> trace_ok is_uuid (ep_trace (for_dal DalD)) ?u"
    unfolding trace_ok_def hlr_ok_def llr_ok_def test_ok_def link_resolves_def same
    by (simp add: entries identified_def)
  then show ?thesis by (simp add: trace_validation_Ok_iff)
qed

theorem unowned_uid_is_unchecked_witness:
  "validate_trace_links_with_policy demo_is_uuid
    (demo_trace\<lparr>tr_sys := (demo_hlr_entry ''not a uuid'' ''SYS-2'' [])\<lparr>h_owner := None\<rparr> # tr_sys demo_trace\<rparr>)
    (ep_trace (for_dal DalD)) = Inr ()"
  using unowned_uid_is_unchecked [of "(demo_hlr_entry ''not a uuid'' ''SYS-2'' [])\<lparr>h_owner := None\<rparr>"
      demo_is_uuid "[]" "tr_sys demo_trace" demo_trace] demo_trace_accepted [of DalD]
  by simp

section \<open>The uid backfill\<close>

definition demo_documents :: trace_documents where
  "demo_documents = \<lparr>td_sys = None, td_hlr = Some [demo_hlr_entry ''HLR-1'' ''HLR-1'' []],
     td_llr = Some [demo_llr_entry ''u3'' ''LLR-1'' [''HLR-1'']], td_tests = None, td_derived = None\<rparr>"

definition demo_backfilled :: trace_documents where
  "demo_backfilled = \<lparr>td_sys = None, td_hlr = Some [demo_hlr_entry ''u'' ''HLR-1'' []],
     td_llr = Some [demo_llr_entry ''u3'' ''LLR-1'' [''u'']], td_tests = None, td_derived = None\<rparr>"

lemma demo_backfill_run:
  "backfill_uuids demo_is_uuid demo_mint 0 demo_documents =
    Inr \<lparr>bf_total = 1, bf_documents = demo_backfilled, bf_changed = [''hlr.toml'', ''llr.toml'']\<rparr>"
  by (simp add: backfill_uuids_def demo_documents_def demo_backfilled_def phase_layer_def
      assign_valid_uuids_hlr_def assign_valid_uuids_llr_def rewrite_uid_if_needed_def
      needs_new_uuid_def record_rewrite_def phase_refs_def rewrite_traces_to_def demo_mint_def
      demo_trace_simps)

text \<open>C16: the backfill is finished after one run. It counts exactly the entries whose uid was
  missing or malformed, leaves every uid valid, and a second run changes nothing.\<close>

theorem backfill_is_finished:
  assumes "backfill_uuids is_uuid mint k docs = Inr r" and "\<And>n. is_uuid (mint n)"
  shows "bf_total r = documents_missing is_uuid docs \<and>
    backfill_uuids is_uuid mint k' (bf_documents r)
      = Inr \<lparr>bf_total = 0, bf_documents = bf_documents r, bf_changed = []\<rparr>"
  using backfill_result_valid [OF assms] by (simp add: backfill_idle)

theorem backfill_is_finished_witness:
  "documents_missing demo_is_uuid demo_documents = 1 \<and>
    backfill_uuids demo_is_uuid demo_mint 7 demo_backfilled
      = Inr \<lparr>bf_total = 0, bf_documents = demo_backfilled, bf_changed = []\<rparr>"
  using backfill_is_finished [OF demo_backfill_run demo_mint_valid] by simp

text \<open>References survive the backfill. When the placeholder uids of the high-level requirements
  are distinct, a low-level requirement that referred to one of them refers, after the backfill, to
  the fresh uid of that same requirement.\<close>

theorem references_follow_backfill:
  assumes "backfill_uuids is_uuid mint k docs = Inr r" and "\<And>n. is_uuid (mint n)"
    and "td_hlr docs = Some hs" "td_llr docs = Some ls"
    and "distinct (placeholders is_uuid h_uid hs)"
    and "i < length hs" "h_uid (hs ! i) = Some v" "\<not> is_uuid v"
    and "j < length ls" "q < length (l_traces_to (ls ! j))" "l_traces_to (ls ! j) ! q = v"
  shows "Some (l_traces_to (the (td_llr (bf_documents r)) ! j) ! q) =
    h_uid (the (td_hlr (bf_documents r)) ! i)"
  using assms by (rule backfill_follows)

theorem references_follow_backfill_witness:
  "Some (l_traces_to (the (td_llr demo_backfilled) ! 0) ! 0) = h_uid (the (td_hlr demo_backfilled) ! 0)"
  using references_follow_backfill [OF demo_backfill_run demo_mint_valid,
      of "[demo_hlr_entry ''HLR-1'' ''HLR-1'' []]" "[demo_llr_entry ''u3'' ''LLR-1'' [''HLR-1'']]"
      0 "''HLR-1''" 0 0]
  by (simp add: demo_documents_def placeholders_def List.map_filter_simps demo_trace_simps)

section \<open>Trace evidence\<close>

definition demo_trace_root :: "string \<Rightarrow> root_files option" where
  "demo_trace_root r = (if r = ''a'' then Some \<lparr>rf_sys = Some (Ok (tr_sys demo_trace)),
       rf_hlr = Some (Ok (tr_hlrs demo_trace)), rf_llr = Some (Ok (tr_llrs demo_trace)),
       rf_tests = Some (Ok (tr_tests demo_trace)), rf_derived = None\<rparr> else None)"

lemma demo_trace_roots:
  "all_parts demo_trace_root [''a'', ''b''] = demo_trace" "root_readable demo_trace_root r"
  by (simp_all add: all_parts_def root_parts_def root_readable_def demo_trace_root_def read_all_trace_files_def
      read_or_default_def append_parts_def empty_parts_def demo_trace_def)

text \<open>C17: the trace evidence satisfies the assurance claim exactly when every present root can be
  read, together they hold at least one entry, and the concatenation of their streams is an accepted
  trace. Missing roots, empty traces and an empty configuration never satisfy it.\<close>

theorem evidence_claim_characterised:
  "eval_satisfies_claim (evaluate_trace_evidence is_uuid read_root roots policy) \<longleftrightarrow>
    (\<forall>r \<in> set roots. root_readable read_root r) \<and>
    0 < parts_count (all_parts read_root roots) \<and> trace_ok is_uuid policy (all_parts read_root roots)"
  by (rule evidence_claim_iff)

theorem evidence_claim_characterised_witness:
  "eval_satisfies_claim
    (evaluate_trace_evidence demo_is_uuid demo_trace_root [''a'', ''b''] (ep_trace (for_dal DalA)))"
  unfolding evidence_claim_characterised demo_trace_roots(1)
  using demo_trace_roots(2) demo_trace_ok [of DalA] by (simp add: parts_count_def demo_trace_def)

end
