(* ===== verification/Structural_Identity.thy ===== *)
theory Structural_Identity
  imports Lifecycle_Spec
begin

text \<open>
  Structural node identity (\<^verbatim>\<open>corpus/source_graph/identity.rs\<close>): the structural key of a committed
  node or of an ingested candidate, and the reconciliation that reuses committed uids. \<^verbatim>\<open>mint_node_uid\<close>
  draws a random uid; it is the parameter \<open>mint\<close>, read at a counter that every call advances.
\<close>

section \<open>Explicit identities\<close>

definition leading_numbering_token :: "string \<Rightarrow> string option" where
  "leading_numbering_token label =
    (let token = take_token (skip_ws label) in
     if token \<noteq> [] \<and> (\<forall>b \<in> set token. is_ascii_digit b \<or> b = CHR ''.'')
        \<and> is_ascii_digit (hd token) \<and> is_ascii_digit (last token)
     then Some token else None)"

definition explicit_identity :: "string option \<Rightarrow> source_locator \<Rightarrow> string option" where
  "explicit_identity label locator =
    (case (case label of Some l \<Rightarrow> leading_numbering_token l | None \<Rightarrow> None) of
       Some numbering \<Rightarrow> Some numbering
     | None \<Rightarrow> explicit_anchor locator)"

section \<open>Structural keys\<close>

datatype structural_key =
    ExplicitKey source_node_kind string
  | PositionKey structural_key source_node_kind u32
  | FingerprintKey structural_content_digest

fun node_kind_rank :: "source_node_kind \<Rightarrow> nat" where
  "node_kind_rank Section = 0"
| "node_kind_rank Paragraph = 1"
| "node_kind_rank ListItem = 2"
| "node_kind_rank DefinitionTerm = 3"
| "node_kind_rank DefinitionBody = 4"
| "node_kind_rank Table = 5"
| "node_kind_rank TableRow = 6"
| "node_kind_rank TableCell = 7"
| "node_kind_rank CodeBlock = 8"
| "node_kind_rank Note = 9"
| "node_kind_rank FigureCaption = 10"

lemma node_kind_rank_inj: "node_kind_rank a = node_kind_rank b \<longleftrightarrow> a = b"
  by (cases a; cases b) simp_all

text \<open>The derived order compares the constructor, then the fields in turn. The code of a key lists
  them in that order and no code is a prefix of another, so the list order is the derived one.\<close>

fun key_code :: "structural_key \<Rightarrow> (nat \<times> string) list" where
  "key_code (ExplicitKey kind anchor) = [(0, []), (node_kind_rank kind, []), (0, anchor)]"
| "key_code (PositionKey parent kind ordinal) =
    (1, []) # key_code parent @ [(node_kind_rank kind, []), (unat ordinal, [])]"
| "key_code (FingerprintKey digest) = [(2, []), (0, std_str digest)]"

lemma key_code_split: "key_code a @ x = key_code b @ y \<Longrightarrow> a = b \<and> x = y"
proof (induction a arbitrary: b x y)
  case (ExplicitKey kind anchor)
  then show ?case by (cases b) (auto simp: node_kind_rank_inj)
next
  case (PositionKey parent kind ordinal)
  then show ?case
    by (cases b) (auto simp: node_kind_rank_inj word_unat_eq_iff dest!: PositionKey.IH)
next
  case (FingerprintKey digest)
  then show ?case by (cases b) (auto intro: structural_content_digest.expand)
qed

lemma key_code_inj: "key_code a = key_code b \<longleftrightarrow> a = b"
  using key_code_split [of a "[]" b "[]"] by auto

instantiation structural_key :: linorder
begin

definition less_eq_structural_key :: "structural_key \<Rightarrow> structural_key \<Rightarrow> bool" where
  "less_eq_structural_key a b \<longleftrightarrow> key_code a \<le> key_code b"

definition less_structural_key :: "structural_key \<Rightarrow> structural_key \<Rightarrow> bool" where
  "less_structural_key a b \<longleftrightarrow> key_code a < key_code b"

instance
proof
  fix a b c :: structural_key
  show "a < b \<longleftrightarrow> a \<le> b \<and> \<not> b \<le> a"
    by (auto simp: less_eq_structural_key_def less_structural_key_def)
  show "a \<le> a" by (simp add: less_eq_structural_key_def)
  show "a \<le> b \<Longrightarrow> b \<le> c \<Longrightarrow> a \<le> c"
    unfolding less_eq_structural_key_def by (rule order_trans)
  show "a \<le> b \<Longrightarrow> b \<le> a \<Longrightarrow> a = b"
    unfolding less_eq_structural_key_def using key_code_inj by (metis order_antisym)
  show "a \<le> b \<or> b \<le> a"
    unfolding less_eq_structural_key_def by (rule linear)
qed

end

definition fold_tier ::
  "platform \<Rightarrow> source_node_kind \<Rightarrow> string option \<Rightarrow> source_locator \<Rightarrow> u32 \<Rightarrow> structural_key option
    \<Rightarrow> structural_key" where
  "fold_tier X kind label locator ordinal parent_key =
    (case explicit_identity label locator of
       Some anchor \<Rightarrow> ExplicitKey kind anchor
     | None \<Rightarrow>
        (case parent_key of
           Some parent \<Rightarrow> PositionKey parent kind ordinal
         | None \<Rightarrow> FingerprintKey (fingerprint X kind label [])))"

text \<open>The walk to the root, nearest ancestor first. It stops at a missing or a visited node.\<close>

function ancestor_chain ::
  "('n \<Rightarrow> uid) \<Rightarrow> ('n \<Rightarrow> uid option) \<Rightarrow> (uid, 'n) bmap \<Rightarrow> uid list \<Rightarrow> uid option \<Rightarrow> 'n list" where
  "ancestor_chain id_of parent_of m visited current =
    (case current of
       None \<Rightarrow> []
     | Some u \<Rightarrow>
        (case bget m u of
           None \<Rightarrow> []
         | Some parent \<Rightarrow>
            if id_of parent \<in> set visited then []
            else parent # ancestor_chain id_of parent_of m (id_of parent # visited) (parent_of parent)))"
  by pat_completeness auto
termination
proof (relation "measure (\<lambda>(id_of, parent_of, m, visited, current).
    length (filter (\<lambda>n. id_of n \<notin> set visited) (bvals m)))")
  fix id_of :: "'n \<Rightarrow> uid" and parent_of :: "'n \<Rightarrow> uid option" and m :: "(uid, 'n) bmap"
    and visited current u parent
  assume "bget m u = Some parent" "id_of parent \<notin> set visited"
  then show "((id_of, parent_of, m, id_of parent # visited, parent_of parent),
      (id_of, parent_of, m, visited, current)) \<in> measure (\<lambda>(id_of, parent_of, m, visited, current).
      length (filter (\<lambda>n. id_of n \<notin> set visited) (bvals m)))"
    using unvisited_shrinks [of parent "bvals m" id_of visited] by (auto dest: bget_in_bvals)
qed simp

declare ancestor_chain.simps [simp del]

definition structural_key :: "platform \<Rightarrow> source_node \<Rightarrow> source_graph \<Rightarrow> structural_key" where
  "structural_key X node graph =
    (case explicit_identity (sn_label node) (sn_locator node) of
       Some anchor \<Rightarrow> ExplicitKey (sn_kind node) anchor
     | None \<Rightarrow>
        let chain = rev (ancestor_chain sn_uid sn_parent_uid graph [sn_uid node] (sn_parent_uid node));
            key = foldl (\<lambda>key a. Some (fold_tier X (sn_kind a) (sn_label a) (sn_locator a)
              (sn_ordinal a) key)) None chain
        in case key of
            Some parent \<Rightarrow> PositionKey parent (sn_kind node) (sn_ordinal node)
          | None \<Rightarrow> FingerprintKey (fingerprint X (sn_kind node) (sn_label node) []))"

section \<open>Candidates and reconciliation\<close>

record candidate_node =
  cn_provisional_id :: uid
  cn_parent_id :: "uid option"
  cn_kind :: source_node_kind
  cn_ordinal :: u32
  cn_label :: "string option"
  cn_canonical_text :: string
  cn_locator :: source_locator

record reconciled_node =
  rn_uid :: uid
  rn_candidate :: candidate_node

definition candidate_key :: "platform \<Rightarrow> candidate_node \<Rightarrow> (uid, candidate_node) bmap \<Rightarrow> structural_key" where
  "candidate_key X candidate by_id =
    (case explicit_identity (cn_label candidate) (cn_locator candidate) of
       Some anchor \<Rightarrow> ExplicitKey (cn_kind candidate) anchor
     | None \<Rightarrow>
        let chain = rev (ancestor_chain cn_provisional_id cn_parent_id by_id
              [cn_provisional_id candidate] (cn_parent_id candidate));
            key = foldl (\<lambda>key a. Some (fold_tier X (cn_kind a) (cn_label a) (cn_locator a)
              (cn_ordinal a) key)) None chain
        in case key of
            Some parent \<Rightarrow> PositionKey parent (cn_kind candidate) (cn_ordinal candidate)
          | None \<Rightarrow> FingerprintKey (fingerprint X (cn_kind candidate) (cn_label candidate) []))"

definition key_pool :: "platform \<Rightarrow> source_graph \<Rightarrow> (structural_key, uid list) bmap" where
  "key_pool X committed =
    fold (\<lambda>node. bpush (structural_key X node committed) (sn_uid node)) (sg_nodes committed) []"

definition by_provisional_id :: "candidate_node list \<Rightarrow> (uid, candidate_node) bmap" where
  "by_provisional_id candidates = fold (\<lambda>c. bins (cn_provisional_id c) c) candidates []"

fun consume_keys ::
  "(nat \<Rightarrow> uid) \<Rightarrow> nat \<Rightarrow> (structural_key, uid list) bmap \<Rightarrow> (candidate_node \<times> structural_key) list
    \<Rightarrow> reconciled_node list" where
  "consume_keys mint k pool [] = []"
| "consume_keys mint k pool ((candidate, key) # rest) =
    (case bget pool key of
       Some (u # us) \<Rightarrow>
         \<lparr>rn_uid = u, rn_candidate = candidate\<rparr> # consume_keys mint k (bins key us pool) rest
     | _ \<Rightarrow> \<lparr>rn_uid = mint k, rn_candidate = candidate\<rparr> # consume_keys mint (Suc k) pool rest)"

definition reconcile ::
  "platform \<Rightarrow> (nat \<Rightarrow> uid) \<Rightarrow> source_graph \<Rightarrow> candidate_node list \<Rightarrow> reconciled_node list" where
  "reconcile X mint committed candidates =
    (let by_id = by_provisional_id candidates in
     consume_keys mint 0 (key_pool X committed) (map (\<lambda>c. (c, candidate_key X c by_id)) candidates))"

section \<open>What reconciliation returns\<close>

lemma reconcile_candidates: "map rn_candidate (consume_keys mint k pool ps) = map fst ps"
  by (induction mint k pool ps rule: consume_keys.induct) (auto split: option.splits list.splits)

lemma length_consume_keys [simp]: "length (consume_keys mint k pool ps) = length ps"
  by (induction mint k pool ps rule: consume_keys.induct) (auto split: option.splits list.splits)

lemma bget_key_pool:
  "bget (key_pool X g) key =
    (if \<exists>n \<in> set (sg_nodes g). structural_key X n g = key
     then Some (map sn_uid (filter (\<lambda>n. structural_key X n g = key) (sg_nodes g))) else None)"
  unfolding key_pool_def
  by (simp add: bget_fold_bpush [where f = "\<lambda>n. structural_key X n g" and h = sn_uid])

text \<open>When the keys of the candidates are distinct, each takes the first uid of its own pool.\<close>

lemma consume_distinct_keys:
  assumes "distinct (map snd ps)" "\<forall>(c, key) \<in> set ps. \<exists>us. bget pool key = Some (h c # us)"
  shows "consume_keys mint k pool ps = map (\<lambda>(c, key). \<lparr>rn_uid = h c, rn_candidate = c\<rparr>) ps"
  using assms
proof (induction ps arbitrary: pool)
  case (Cons p ps)
  obtain c key where p: "p = (c, key)" by (cases p)
  from Cons.prems(2) obtain us where us: "bget pool key = Some (h c # us)" by (auto simp: p)
  have "\<forall>(d, j) \<in> set ps. \<exists>vs. bget (bins key us pool) j = Some (h d # vs)"
    using Cons.prems by (force simp: p)
  with Cons us show ?case by (simp add: p)
qed simp

text \<open>No uid is handed out twice: pooled uids are consumed, minted uids are fresh.\<close>

definition pool_uids :: "('k, 'u list) bmap \<Rightarrow> 'u set" where
  "pool_uids pool = {u. \<exists>key us. bget pool key = Some us \<and> u \<in> set us}"

definition pool_ok :: "('k, 'u list) bmap \<Rightarrow> bool" where
  "pool_ok pool \<longleftrightarrow> (\<forall>key us. bget pool key = Some us \<longrightarrow> distinct us) \<and>
    (\<forall>a b us vs. bget pool a = Some us \<longrightarrow> bget pool b = Some vs \<longrightarrow> set us \<inter> set vs \<noteq> {} \<longrightarrow> a = b)"

lemma pool_consume:
  assumes ok: "pool_ok pool" and key: "bget pool key = Some (u # us)"
  shows "pool_ok (bins key us pool)" "pool_uids (bins key us pool) \<subseteq> pool_uids pool - {u}"
proof -
  have d: "distinct (u # us)" using ok key by (auto simp only: pool_ok_def)
  have sep: "u \<notin> set vs" if "bget pool j = Some vs" "j \<noteq> key" for j vs
    using ok key that unfolding pool_ok_def by (metis disjoint_iff list.set_intros(1))
  have sep': "set us \<inter> set vs = {}" if "bget pool j = Some vs" "j \<noteq> key" for j vs
    using ok key that unfolding pool_ok_def by (metis Int_insert_left insert_not_empty list.simps(15))
  show "pool_uids (bins key us pool) \<subseteq> pool_uids pool - {u}"
  proof
    fix v assume "v \<in> pool_uids (bins key us pool)"
    then obtain j vs where v: "(if j = key then Some us else bget pool j) = Some vs" "v \<in> set vs"
      by (auto simp: pool_uids_def)
    show "v \<in> pool_uids pool - {u}"
    proof (cases "j = key")
      case True
      with v d key show ?thesis unfolding pool_uids_def by fastforce
    next
      case False
      with v sep [of j vs] show ?thesis by (auto simp: pool_uids_def)
    qed
  qed
  show "pool_ok (bins key us pool)"
    unfolding pool_ok_def bget_bins
  proof (intro conjI allI impI)
    fix j vs assume "(if j = key then Some us else bget pool j) = Some vs"
    then show "distinct vs" using d ok by (auto simp: pool_ok_def split: if_splits)
  next
    fix a b vs ws
    assume "(if a = key then Some us else bget pool a) = Some vs"
      "(if b = key then Some us else bget pool b) = Some ws" "set vs \<inter> set ws \<noteq> {}"
    then show "a = b" using sep' ok unfolding pool_ok_def
      by (metis Int_commute option.inject)
  qed
qed

lemma consume_keys_distinct_uids:
  assumes "pool_ok pool" "inj mint" "range mint \<inter> pool_uids pool = {}"
  shows "distinct (map rn_uid (consume_keys mint k pool ps)) \<and>
    rn_uid ` set (consume_keys mint k pool ps) \<subseteq> pool_uids pool \<union> mint ` {k..}"
  using assms
proof (induction ps arbitrary: k pool)
  case (Cons p ps)
  obtain c key where p: "p = (c, key)" by (cases p)
  show ?case
  proof (cases "\<exists>u us. bget pool key = Some (u # us)")
    case True
    then obtain u us where key: "bget pool key = Some (u # us)" by blast
    note rest = pool_consume [OF Cons.prems(1) key]
    have "range mint \<inter> pool_uids (bins key us pool) = {}" using rest(2) Cons.prems(3) by blast
    from Cons.IH [OF rest(1) Cons.prems(2) this, of k] have
      IH: "distinct (map rn_uid (consume_keys mint k (bins key us pool) ps))"
      "rn_uid ` set (consume_keys mint k (bins key us pool) ps)
        \<subseteq> pool_uids (bins key us pool) \<union> mint ` {k..}" by blast+
    have u: "u \<in> pool_uids pool" unfolding pool_uids_def using key by force
    then have "u \<notin> mint ` {k..}" using Cons.prems(3) by blast
    then have "u \<notin> rn_uid ` set (consume_keys mint k (bins key us pool) ps)"
      using IH(2) rest(2) by blast
    with IH rest(2) u key show ?thesis by (auto simp: p)
  next
    case False
    then have run: "consume_keys mint k pool (p # ps)
        = \<lparr>rn_uid = mint k, rn_candidate = c\<rparr> # consume_keys mint (Suc k) pool ps"
      by (auto simp: p split: option.split list.split)
    from Cons.IH [OF Cons.prems, of "Suc k"] have
      IH: "distinct (map rn_uid (consume_keys mint (Suc k) pool ps))"
      "rn_uid ` set (consume_keys mint (Suc k) pool ps) \<subseteq> pool_uids pool \<union> mint ` {Suc k..}"
      by blast+
    have "mint k \<notin> mint ` {Suc k..}" using Cons.prems(2) by (auto dest: injD)
    then have "mint k \<notin> rn_uid ` set (consume_keys mint (Suc k) pool ps)"
      using IH(2) Cons.prems(3) by blast
    moreover have "mint ` {Suc k..} \<subseteq> mint ` {k..}" by auto
    ultimately show ?thesis using IH unfolding run by auto
  qed
qed simp

lemma key_pool_ok:
  assumes g: "sg_inv g"
  shows "pool_ok (key_pool X g)" "pool_uids (key_pool X g) = sn_uid ` set (sg_nodes g)"
proof -
  show "pool_uids (key_pool X g) = sn_uid ` set (sg_nodes g)"
    by (auto simp: pool_uids_def bget_key_pool split: if_splits)
  show "pool_ok (key_pool X g)"
    unfolding pool_ok_def bget_key_pool
  proof (intro conjI allI impI)
    fix key us
    assume "(if \<exists>n \<in> set (sg_nodes g). structural_key X n g = key
       then Some (map sn_uid (filter (\<lambda>n. structural_key X n g = key) (sg_nodes g))) else None) = Some us"
    then show "distinct us" using sg_nodes_distinct [OF g] by (auto simp: distinct_map_filter split: if_splits)
  next
    fix a b us vs
    assume a: "(if \<exists>n \<in> set (sg_nodes g). structural_key X n g = a
       then Some (map sn_uid (filter (\<lambda>n. structural_key X n g = a) (sg_nodes g))) else None) = Some us"
      "(if \<exists>n \<in> set (sg_nodes g). structural_key X n g = b
       then Some (map sn_uid (filter (\<lambda>n. structural_key X n g = b) (sg_nodes g))) else None) = Some vs"
      "set us \<inter> set vs \<noteq> {}"
    then obtain m n where "m \<in> set (sg_nodes g)" "n \<in> set (sg_nodes g)" "sn_uid m = sn_uid n"
      "structural_key X m g = a" "structural_key X n g = b" by (auto split: if_splits)
    then show "a = b" using sg_nodes_uid_inj [OF g] by blast
  qed
qed

lemma reconcile_distinct_uids:
  assumes "sg_inv g" "inj mint" "range mint \<inter> sn_uid ` set (sg_nodes g) = {}"
  shows "distinct (map rn_uid (reconcile X mint g cs))"
  using consume_keys_distinct_uids [OF key_pool_ok(1) [OF assms(1)] assms(2), of X] assms(3)
  unfolding key_pool_ok(2) [OF assms(1)] reconcile_def Let_def by blast

section \<open>Identity under re-ingestion\<close>

text \<open>A re-ingested node: the same structure under renamed provisional ids, with any text.\<close>

definition reingested :: "(uid \<Rightarrow> uid) \<Rightarrow> (source_node \<Rightarrow> string) \<Rightarrow> source_node \<Rightarrow> candidate_node" where
  "reingested f text n = \<lparr>cn_provisional_id = f (sn_uid n), cn_parent_id = map_option f (sn_parent_uid n),
     cn_kind = sn_kind n, cn_ordinal = sn_ordinal n, cn_label = sn_label n, cn_canonical_text = text n,
     cn_locator = sn_locator n\<rparr>"

lemma reingested_simps [simp]:
  "cn_provisional_id (reingested f text n) = f (sn_uid n)"
  "cn_parent_id (reingested f text n) = map_option f (sn_parent_uid n)"
  "cn_kind (reingested f text n) = sn_kind n" "cn_ordinal (reingested f text n) = sn_ordinal n"
  "cn_label (reingested f text n) = sn_label n" "cn_locator (reingested f text n) = sn_locator n"
  "cn_canonical_text (reingested f text n) = text n"
  by (simp_all add: reingested_def)

lemma by_id_reingested:
  assumes g: "sg_inv g" and ns: "distinct ns" "set ns = set (sg_nodes g)" and f: "inj f"
  shows "bget (by_provisional_id (map (reingested f text) ns)) (f u)
    = map_option (reingested f text) (sg_get g u)"
proof -
  let ?cs = "map (reingested f text) ns"
  have eq: "by_provisional_id ?cs = fold (\<lambda>c. bins (cn_provisional_id c) c) ?cs []"
    by (simp add: by_provisional_id_def)
  have "inj_on sn_uid (set ns)" using sg_nodes_uid_inj [OF g] by (auto simp: ns(2) inj_on_def)
  then have "inj_on (\<lambda>n. f (sn_uid n)) (set ns)" using f by (auto simp: inj_on_def)
  then have d: "distinct (map cn_provisional_id ?cs)" using ns(1) by (simp add: distinct_map comp_def)
  show ?thesis
  proof (cases "sg_get g u")
    case None
    have "cn_provisional_id c \<noteq> f u" if c: "c \<in> set ?cs" for c
    proof
      assume eq: "cn_provisional_id c = f u"
      from c obtain n where n: "c = reingested f text n" "n \<in> set (sg_nodes g)" by (auto simp: ns(2))
      with eq have "f (sn_uid n) = f u" by simp
      then have "sn_uid n = u" using f by (simp add: inj_eq)
      with n(2) None show False by (simp add: sg_nodes_iff_get [OF g])
    qed
    then have "find (\<lambda>c. cn_provisional_id c = f u) (rev ?cs) = None"
      unfolding find_None_iff set_rev by metis
    with None show ?thesis unfolding eq bget_fold_bins by simp
  next
    case (Some n)
    then have n: "n \<in> set ns" "sn_uid n = u"
      using ns(2) sg_get_in_nodes sg_get_uid [OF g] by blast+
    then have "reingested f text n \<in> set ?cs" by simp
    from bget_fold_bins_distinct [OF d this, of "\<lambda>c. c"] n Some show ?thesis unfolding eq by simp
  qed
qed

lemma chain_map:
  assumes "\<And>u. bget m' (f u) = map_option h (bget m u)" "\<And>n. id' (h n) = f (id_of n)"
    "\<And>n. parent' (h n) = map_option f (parent_of n)" "inj f"
  shows "ancestor_chain id' parent' m' (map f visited) (map_option f current)
    = map h (ancestor_chain id_of parent_of m visited current)"
  using assms
proof (induction id_of parent_of m visited current rule: ancestor_chain.induct)
  case (1 id_of parent_of m visited current)
  show ?case
  proof (cases current)
    case None
    then show ?thesis by (simp add: ancestor_chain.simps)
  next
    case (Some u)
    note u = Some
    show ?thesis
    proof (cases "bget m u")
      case None
      with u "1.prems"(1) [of u] show ?thesis by (simp add: ancestor_chain.simps)
    next
      case (Some p)
      have m': "bget m' (f u) = Some (h p)" using Some "1.prems"(1) [of u] by simp
      have mem: "f (id_of p) \<in> f ` set visited \<longleftrightarrow> id_of p \<in> set visited"
        using "1.prems"(4) by (simp add: inj_image_mem_iff)
      show ?thesis
      proof (cases "id_of p \<in> set visited")
        case True
        with u Some m' mem "1.prems" show ?thesis
          by (simp add: ancestor_chain.simps [of _ _ _ _ "Some _"])
      next
        case False
        from "1.IH" [OF u Some False "1.prems"] u Some m' mem False "1.prems"(2,3) show ?thesis
          by (simp add: ancestor_chain.simps [of _ _ _ _ "Some _"])
      qed
    qed
  qed
qed

lemma candidate_key_reingested:
  assumes "\<And>u. bget by_id (f u) = map_option (reingested f text) (bget g u)" "inj f"
  shows "candidate_key X (reingested f text n) by_id = structural_key X n g"
proof -
  have "ancestor_chain cn_provisional_id cn_parent_id by_id [f (sn_uid n)]
      (map_option f (sn_parent_uid n))
    = map (reingested f text) (ancestor_chain sn_uid sn_parent_uid g [sn_uid n] (sn_parent_uid n))"
    using chain_map [OF assms(1) _ _ assms(2), of cn_provisional_id sn_uid cn_parent_id sn_parent_uid
        "[sn_uid n]"] by simp
  then show ?thesis
    by (cases "explicit_identity (sn_label n) (sn_locator n)")
      (simp_all add: candidate_key_def structural_key_def Let_def rev_map foldl_map)
qed

definition keys_distinct :: "platform \<Rightarrow> source_graph \<Rightarrow> bool" where
  "keys_distinct X g \<longleftrightarrow> (\<forall>a \<in> set (sg_nodes g). \<forall>b \<in> set (sg_nodes g).
     structural_key X a g = structural_key X b g \<longrightarrow> a = b)"

text \<open>Re-ingesting the committed structure, in any order, under any provisional ids and with any
  text, gives every node its committed uid back.\<close>

lemma reconcile_reingested:
  assumes g: "sg_inv g" and ns: "distinct ns" "set ns = set (sg_nodes g)" and f: "inj f"
    and keys: "keys_distinct X g"
  shows "map rn_uid (reconcile X mint g (map (reingested f text) ns)) = map sn_uid ns"
proof -
  have by_id: "bget (by_provisional_id (map (reingested f text) ns)) (f u)
      = map_option (reingested f text) (bget g u)" for u
    using by_id_reingested [OF g ns f] by (simp add: sg_get_def)
  let ?ps = "map (\<lambda>n. (reingested f text n, structural_key X n g)) ns"
  have d: "distinct (map snd ?ps)"
    using ns keys by (auto simp: distinct_map comp_def keys_distinct_def inj_on_def)
  have pool: "\<exists>us. bget (key_pool X g) (structural_key X n g) = Some (sn_uid n # us)"
    if n: "n \<in> set ns" for n
  proof -
    have n': "n \<in> set (sg_nodes g)" using n ns(2) by simp
    let ?F = "filter (\<lambda>m. structural_key X m g = structural_key X n g) (sg_nodes g)"
    have "set ?F = {n}" using keys n' by (auto simp: keys_distinct_def)
    then obtain rest where "?F = n # rest" by (cases ?F) auto
    with n' show ?thesis by (auto simp: bget_key_pool)
  qed
  have eq: "map (\<lambda>c. (c, candidate_key X c (by_provisional_id (map (reingested f text) ns))))
      (map (reingested f text) ns) = ?ps"
    by (simp add: candidate_key_reingested [OF by_id f])
  obtain h where h: "\<And>n. n \<in> set ns \<Longrightarrow> h (reingested f text n) = sn_uid n"
    using f by (intro that [of "\<lambda>c. inv f (cn_provisional_id c)"]) simp
  then have "\<forall>(c, key) \<in> set ?ps. \<exists>us. bget (key_pool X g) key = Some (h c # us)"
    using pool by auto
  from consume_distinct_keys [OF d this, of mint 0] h show ?thesis
    unfolding reconcile_def Let_def eq by simp
qed

end
