(* ===== verification/Drift_Nodes.thy ===== *)
theory Drift_Nodes
  imports Structural_Identity Effective_Spec
begin

text \<open>
  The drift comparison of a re-ingestion, first part: the findings and the canonical report
  (\<^verbatim>\<open>corpus/drift/findings.rs\<close>), the locator comparison (\<^verbatim>\<open>node_locator.rs\<close>) and the node plane
  with its relaxed re-pairing (\<^verbatim>\<open>nodes.rs\<close>).
\<close>

section \<open>Findings\<close>

datatype drift_category =
    RecipeChangedOrUnavailable | VerifiedInputChanged | ExtractorOutputChanged
  | NodeAdded | NodeRemoved | NodeUnreconciled | NodeKindChanged | NodeParentChanged
  | NodeOrdinalChanged | NodeLabelChanged | NodeCanonicalTextChanged | NodeContentDigestChanged
  | NodeStructuralFingerprintChanged | NodeSemanticLocatorChanged | DiagnosticLocatorMoved
  | PatchAdded | PatchRemoved | PatchChanged | PatchStale | PatchRejected | PatchUnappliable
  | ReviewStateChanged | EffectiveGraphChanged | OutputEqual

fun category_rank :: "drift_category \<Rightarrow> nat" where
  "category_rank RecipeChangedOrUnavailable = 0"
| "category_rank VerifiedInputChanged = 1"
| "category_rank ExtractorOutputChanged = 2"
| "category_rank NodeAdded = 3"
| "category_rank NodeRemoved = 4"
| "category_rank NodeUnreconciled = 5"
| "category_rank NodeKindChanged = 6"
| "category_rank NodeParentChanged = 7"
| "category_rank NodeOrdinalChanged = 8"
| "category_rank NodeLabelChanged = 9"
| "category_rank NodeCanonicalTextChanged = 10"
| "category_rank NodeContentDigestChanged = 11"
| "category_rank NodeStructuralFingerprintChanged = 12"
| "category_rank NodeSemanticLocatorChanged = 13"
| "category_rank DiagnosticLocatorMoved = 14"
| "category_rank PatchAdded = 15"
| "category_rank PatchRemoved = 16"
| "category_rank PatchChanged = 17"
| "category_rank PatchStale = 18"
| "category_rank PatchRejected = 19"
| "category_rank PatchUnappliable = 20"
| "category_rank ReviewStateChanged = 21"
| "category_rank EffectiveGraphChanged = 22"
| "category_rank OutputEqual = 23"

fun category_as_str :: "drift_category \<Rightarrow> string" where
  "category_as_str RecipeChangedOrUnavailable = ''recipe_changed_or_unavailable''"
| "category_as_str VerifiedInputChanged = ''verified_input_changed''"
| "category_as_str ExtractorOutputChanged = ''extractor_output_changed''"
| "category_as_str NodeAdded = ''node_added''"
| "category_as_str NodeRemoved = ''node_removed''"
| "category_as_str NodeUnreconciled = ''node_unreconciled''"
| "category_as_str NodeKindChanged = ''node_kind_changed''"
| "category_as_str NodeParentChanged = ''node_parent_changed''"
| "category_as_str NodeOrdinalChanged = ''node_ordinal_changed''"
| "category_as_str NodeLabelChanged = ''node_label_changed''"
| "category_as_str NodeCanonicalTextChanged = ''node_canonical_text_changed''"
| "category_as_str NodeContentDigestChanged = ''node_content_digest_changed''"
| "category_as_str NodeStructuralFingerprintChanged = ''node_structural_fingerprint_changed''"
| "category_as_str NodeSemanticLocatorChanged = ''node_semantic_locator_changed''"
| "category_as_str DiagnosticLocatorMoved = ''diagnostic_locator_moved''"
| "category_as_str PatchAdded = ''patch_added''"
| "category_as_str PatchRemoved = ''patch_removed''"
| "category_as_str PatchChanged = ''patch_changed''"
| "category_as_str PatchStale = ''patch_stale''"
| "category_as_str PatchRejected = ''patch_rejected''"
| "category_as_str PatchUnappliable = ''patch_unappliable''"
| "category_as_str ReviewStateChanged = ''review_state_changed''"
| "category_as_str EffectiveGraphChanged = ''effective_graph_changed''"
| "category_as_str OutputEqual = ''output_equal''"

datatype drift_detail =
    PlaneDigest string "string option"
  | FieldChange string string string
  | CandidateOnly
  | CommittedOnly
  | AmbiguousKey "uid list"
  | PatchDigest string string
  | LifecycleStates string string
  | Failure string
  | EffectiveDigests string string

record drift_finding =
  df_category :: drift_category
  df_structural_path :: "string option"
  df_node_uid :: "uid option"
  df_patch_uid :: "uid option"
  df_detail :: drift_detail

definition finding_sort_key ::
  "drift_finding \<Rightarrow> nat \<times> string option \<times> string option \<times> string option" where
  "finding_sort_key f =
    (category_rank (df_category f), df_structural_path f, df_node_uid f, df_patch_uid f)"

datatype drift_outcome = Equal | Drifted

fun outcome_as_str :: "drift_outcome \<Rightarrow> string" where
  "outcome_as_str Equal = ''equal''"
| "outcome_as_str Drifted = ''drifted''"

record drift_report =
  dr_source_document :: string
  dr_source_revision_uid :: uid
  dr_findings :: "drift_finding list"

definition report_outcome :: "drift_report \<Rightarrow> drift_outcome" where
  "report_outcome r = (if dr_findings r = [] then Equal else Drifted)"

definition report_is_equal :: "drift_report \<Rightarrow> bool" where
  "report_is_equal r \<longleftrightarrow> report_outcome r = Equal"

subsection \<open>The canonical rendering\<close>

text \<open>\<^verbatim>\<open>push_field\<close> and \<^verbatim>\<open>push_basic_string\<close> repeat those of the source-graph rendering.\<close>

fun push_detail :: "drift_detail \<Rightarrow> string" where
  "push_detail (PlaneDigest baseline candidate) =
    push_field ''baseline_digest'' baseline
      @ push_field ''candidate_digest'' (case candidate of Some c \<Rightarrow> c | None \<Rightarrow> ''<unavailable>'')"
| "push_detail (FieldChange field committed candidate) =
    push_field ''field'' field @ push_field ''committed'' committed @ push_field ''candidate'' candidate"
| "push_detail CandidateOnly = push_field ''presence'' ''candidate_only''"
| "push_detail CommittedOnly = push_field ''presence'' ''committed_only''"
| "push_detail (AmbiguousKey committed_pool) = push_string_array ''committed_pool'' committed_pool"
| "push_detail (PatchDigest committed candidate) =
    push_field ''committed_digest'' committed @ push_field ''candidate_digest'' candidate"
| "push_detail (LifecycleStates committed candidate) =
    push_field ''committed_state'' committed @ push_field ''candidate_state'' candidate"
| "push_detail (Failure message) = push_field ''failure'' message"
| "push_detail (EffectiveDigests committed candidate) =
    push_field ''committed_effective'' committed @ push_field ''candidate_effective'' candidate"

definition render_finding :: "drift_finding \<Rightarrow> string" where
  "render_finding f =
    [CHR 0x0A] @ ''[[finding]]'' @ [CHR 0x0A]
      @ push_field ''category'' (category_as_str (df_category f))
      @ push_opt_field ''structural_path'' (df_structural_path f)
      @ push_opt_field ''node_uid'' (df_node_uid f)
      @ push_opt_field ''patch_uid'' (df_patch_uid f)
      @ push_detail (df_detail f)"

definition report_header :: string where
  "report_header = ''evidence/reingestion-drift/v1''"

definition render_report_canonical :: "drift_report \<Rightarrow> string" where
  "render_report_canonical r =
    report_header @ [CHR 0x0A]
      @ push_field ''source_document'' (dr_source_document r)
      @ push_field ''source_revision_uid'' (dr_source_revision_uid r)
      @ ''outcome = '' @ outcome_as_str (report_outcome r) @ [CHR 0x0A]
      @ (if report_is_equal r then push_field ''category'' (category_as_str OutputEqual) else [])
      @ ''findings = '' @ show_nat (length (dr_findings r)) @ [CHR 0x0A]
      @ concat (map render_finding (dr_findings r))"

section \<open>Locators\<close>

definition render_option :: "string option \<Rightarrow> string" where
  "render_option value = (case value of Some v \<Rightarrow> v | None \<Rightarrow> ''<none>'')"

definition render_list :: "string list \<Rightarrow> string" where
  "render_list values = ''['' @ join_with '', '' values @ '']''"

definition render_u32_list :: "u32 list \<Rightarrow> string" where
  "render_u32_list values = ''['' @ join_with '', '' (map (\<lambda>v. show_nat (unat v)) values) @ '']''"

definition render_range :: "u64 \<times> u64 \<Rightarrow> string" where
  "render_range r = ''['' @ show_nat (unat (fst r)) @ '', '' @ show_nat (unat (snd r)) @ '']''"

text \<open>IEEE equality of two bit patterns, on the four coordinates of a box.\<close>

definition f64_eq :: "f64 \<Rightarrow> f64 \<Rightarrow> bool" where
  "f64_eq a b \<longleftrightarrow> \<not> f64_is_nan a \<and> \<not> f64_is_nan b \<and> f64_key a = f64_key b"

definition bbox_eq :: "f64 \<times> f64 \<times> f64 \<times> f64 \<Rightarrow> f64 \<times> f64 \<times> f64 \<times> f64 \<Rightarrow> bool" where
  "bbox_eq p q = (case (p, q) of ((a, b, c, d), (a', b', c', d')) \<Rightarrow>
     f64_eq a a' \<and> f64_eq b b' \<and> f64_eq c c' \<and> f64_eq d d')"

type_synonym field_change = "string \<times> string \<times> string"

definition changed :: "bool \<Rightarrow> string \<Rightarrow> string \<Rightarrow> string \<Rightarrow> field_change list" where
  "changed b field committed candidate = (if b then [(field, committed, candidate)] else [])"

text \<open>The changed semantic and diagnostic fields of two locators of one format.\<close>

fun locator_changes ::
  "platform \<Rightarrow> source_locator \<Rightarrow> source_locator \<Rightarrow> field_change list \<times> field_change list" where
  "locator_changes X (Markdown path git_blob anchor heading_path byte_range)
      (Markdown c_path c_blob c_anchor c_headings c_range) =
    (changed (path \<noteq> c_path) ''path'' (path_str path) (path_str c_path)
       @ changed (anchor \<noteq> c_anchor) ''anchor'' (render_option anchor) (render_option c_anchor)
       @ changed (heading_path \<noteq> c_headings) ''heading_path'' (render_list heading_path)
           (render_list c_headings),
     changed (git_blob \<noteq> c_blob) ''git_blob'' (render_option git_blob) (render_option c_blob)
       @ changed (byte_range \<noteq> c_range) ''byte_range'' (render_range byte_range) (render_range c_range))"
| "locator_changes X (Html canonical_url final_url fragment heading_path dom_path)
      (Html c_url c_final c_fragment c_headings c_dom) =
    (changed (canonical_url \<noteq> c_url) ''canonical_url'' canonical_url c_url
       @ changed (fragment \<noteq> c_fragment) ''fragment'' (render_option fragment) (render_option c_fragment)
       @ changed (heading_path \<noteq> c_headings) ''heading_path'' (render_list heading_path)
           (render_list c_headings),
     changed (final_url \<noteq> c_final) ''final_url'' (render_option final_url) (render_option c_final)
       @ changed (dom_path \<noteq> c_dom) ''dom_path'' (render_u32_list dom_path) (render_u32_list c_dom))"
| "locator_changes X (Pdf physical_page printed_label bbox) (Pdf c_page c_label c_bbox) =
    ([],
     changed (physical_page \<noteq> c_page) ''physical_page'' (show_nat (unat physical_page))
         (show_nat (unat c_page))
       @ changed (printed_label \<noteq> c_label) ''printed_label'' (render_option printed_label)
           (render_option c_label)
       @ changed (\<not> bbox_eq bbox c_bbox) ''bbox'' (render_bbox X bbox) (render_bbox X c_bbox))"
| "locator_changes X _ _ = ([], [])"

definition render_fields :: "(string \<times> string) list \<Rightarrow> string" where
  "render_fields fs = join_with ''; '' (map (\<lambda>(field, value). field @ '' = '' @ value) fs)"

definition compare_locators ::
  "platform \<Rightarrow> source_node \<Rightarrow> source_node \<Rightarrow> (drift_category \<times> drift_detail) list" where
  "compare_locators X committed candidate =
    (let a = sn_locator committed; b = sn_locator candidate in
     if format_str a \<noteq> format_str b
     then [(NodeSemanticLocatorChanged, FieldChange ''format'' (format_str a) (format_str b))]
     else case locator_changes X a b of (semantic, diagnostic) \<Rightarrow>
       map (\<lambda>(field, before, after). (NodeSemanticLocatorChanged, FieldChange field before after)) semantic
       @ (if diagnostic = [] then []
          else [(DiagnosticLocatorMoved, FieldChange ''diagnostic_fields''
            (render_fields (map (\<lambda>(field, before, after). (field, before)) diagnostic))
            (render_fields (map (\<lambda>(field, before, after). (field, after)) diagnostic)))]))"

section \<open>Relaxed keys\<close>

datatype relaxed_key =
    RelaxedExplicit string
  | RelaxedPosition relaxed_key u32
  | RelaxedFingerprint structural_content_digest

fun relax :: "structural_key \<Rightarrow> relaxed_key" where
  "relax (ExplicitKey kind anchor) = RelaxedExplicit anchor"
| "relax (PositionKey parent kind ordinal) = RelaxedPosition (relax parent) ordinal"
| "relax (FingerprintKey digest) = RelaxedFingerprint digest"

fun relaxed_code :: "relaxed_key \<Rightarrow> (nat \<times> string) list" where
  "relaxed_code (RelaxedExplicit anchor) = [(0, []), (0, anchor)]"
| "relaxed_code (RelaxedPosition parent ordinal) = (1, []) # relaxed_code parent @ [(unat ordinal, [])]"
| "relaxed_code (RelaxedFingerprint digest) = [(2, []), (0, std_str digest)]"

lemma relaxed_code_split: "relaxed_code a @ x = relaxed_code b @ y \<Longrightarrow> a = b \<and> x = y"
proof (induction a arbitrary: b x y)
  case (RelaxedExplicit anchor)
  then show ?case by (cases b) auto
next
  case (RelaxedPosition parent ordinal)
  then show ?case by (cases b) (auto simp: word_unat_eq_iff dest!: RelaxedPosition.IH)
next
  case (RelaxedFingerprint digest)
  then show ?case by (cases b) (auto intro: structural_content_digest.expand)
qed

lemma relaxed_code_inj: "relaxed_code a = relaxed_code b \<longleftrightarrow> a = b"
  using relaxed_code_split [of a "[]" b "[]"] by auto

instantiation relaxed_key :: linorder
begin

definition less_eq_relaxed_key :: "relaxed_key \<Rightarrow> relaxed_key \<Rightarrow> bool" where
  "less_eq_relaxed_key a b \<longleftrightarrow> relaxed_code a \<le> relaxed_code b"

definition less_relaxed_key :: "relaxed_key \<Rightarrow> relaxed_key \<Rightarrow> bool" where
  "less_relaxed_key a b \<longleftrightarrow> relaxed_code a < relaxed_code b"

instance
proof
  fix a b c :: relaxed_key
  show "a < b \<longleftrightarrow> a \<le> b \<and> \<not> b \<le> a"
    by (auto simp: less_eq_relaxed_key_def less_relaxed_key_def)
  show "a \<le> a" by (simp add: less_eq_relaxed_key_def)
  show "a \<le> b \<Longrightarrow> b \<le> c \<Longrightarrow> a \<le> c"
    unfolding less_eq_relaxed_key_def by (rule order_trans)
  show "a \<le> b \<Longrightarrow> b \<le> a \<Longrightarrow> a = b"
    unfolding less_eq_relaxed_key_def using relaxed_code_inj by (metis order_antisym)
  show "a \<le> b \<or> b \<le> a"
    unfolding less_eq_relaxed_key_def by (rule linear)
qed

end

section \<open>Re-pairing\<close>

text \<open>The content pass: each candidate consumes the first committed node left with its content.\<close>

fun content_pass ::
  "(string, source_node list) bmap \<Rightarrow> source_node list \<Rightarrow> (uid \<times> uid) list \<times> source_node list" where
  "content_pass pool [] = ([], [])"
| "content_pass pool (c # cs) =
    (case bget pool (std_str (sn_content_sha256 c)) of
       Some (m # ms) \<Rightarrow>
         (case content_pass (bins (std_str (sn_content_sha256 c)) ms pool) cs of (pairs, deferred) \<Rightarrow>
           ((sn_uid m, sn_uid c) # pairs, deferred))
     | _ \<Rightarrow> (case content_pass pool cs of (pairs, deferred) \<Rightarrow> (pairs, c # deferred)))"

definition pool_of :: "('k::linorder, source_node list) bmap \<Rightarrow> 'k \<Rightarrow> source_node list" where
  "pool_of m k = (case bget m k of Some ns \<Rightarrow> ns | None \<Rightarrow> [])"

definition pair_pools :: "source_node list \<Rightarrow> source_node list \<Rightarrow> (uid \<times> uid) list" where
  "pair_pools committed_pool candidate_pool =
    map (\<lambda>(m, c). (sn_uid m, sn_uid c)) (zip committed_pool candidate_pool)"

text \<open>The pairs, the leftover committed and the leftover candidate uids.\<close>

definition relaxed_pairs ::
  "platform \<Rightarrow> source_node list \<Rightarrow> source_node list \<Rightarrow> source_graph \<Rightarrow> source_graph
    \<Rightarrow> (uid \<times> uid) list \<times> uid list \<times> uid list" where
  "relaxed_pairs X committed candidates committed_graph candidate_graph =
    (case content_pass (group_by (\<lambda>n. std_str (sn_content_sha256 n)) committed) candidates of
      (pairs, deferred) \<Rightarrow>
      let remaining = filter (\<lambda>n. sn_uid n \<notin> fst ` set pairs) committed;
          committed_by_key = group_by (\<lambda>n. relax (structural_key X n committed_graph)) remaining;
          candidate_by_key = group_by (\<lambda>n. relax (structural_key X n candidate_graph)) deferred;
          keys = dedup (sort (bkeys committed_by_key @ bkeys candidate_by_key))
      in (pairs @ concat (map (\<lambda>k. pair_pools (pool_of committed_by_key k) (pool_of candidate_by_key k)) keys),
          concat (map (\<lambda>k. map sn_uid (drop (length (pool_of candidate_by_key k))
            (pool_of committed_by_key k))) keys),
          concat (map (\<lambda>k. map sn_uid (drop (length (pool_of committed_by_key k))
            (pool_of candidate_by_key k))) keys)))"

section \<open>The node plane\<close>

definition to_candidate :: "source_node \<Rightarrow> candidate_node" where
  "to_candidate node = \<lparr>cn_provisional_id = sn_uid node, cn_parent_id = sn_parent_uid node,
     cn_kind = sn_kind node, cn_ordinal = sn_ordinal node, cn_label = sn_label node,
     cn_canonical_text = sn_canonical_text node, cn_locator = sn_locator node\<rparr>"

definition path_segment :: "source_node \<Rightarrow> string" where
  "path_segment node = (case sn_label node of
     Some label \<Rightarrow> label
   | None \<Rightarrow> kind_as_str (sn_kind node) @ ''['' @ show_nat (unat (sn_ordinal node)) @ '']'')"

definition structural_path :: "source_graph \<Rightarrow> uid \<Rightarrow> string" where
  "structural_path graph u = join_with ''/''
     (rev (map path_segment (ancestor_chain sn_uid sn_parent_uid graph [] (Some u))))"

definition rendered_parents ::
  "source_node \<Rightarrow> source_node \<Rightarrow> source_graph \<Rightarrow> (uid, uid) bmap \<Rightarrow> string \<times> string" where
  "rendered_parents committed candidate committed_graph reconciled_uid =
    (case sn_parent_uid committed of Some p \<Rightarrow> p | None \<Rightarrow> ''<root>'',
     case sn_parent_uid candidate of
       None \<Rightarrow> ''<root>''
     | Some parent \<Rightarrow>
        (case bget reconciled_uid parent of
           Some reconciled \<Rightarrow>
             if sg_get committed_graph reconciled \<noteq> None then reconciled
             else ''<uncommitted parent '' @ parent @ ''>''
         | None \<Rightarrow> ''<uncommitted parent '' @ parent @ ''>''))"

definition flagged :: "bool \<Rightarrow> drift_category \<Rightarrow> drift_detail \<Rightarrow> (drift_category \<times> drift_detail) list" where
  "flagged b category detail = (if b then [(category, detail)] else [])"

definition field_changes ::
  "platform \<Rightarrow> source_node \<Rightarrow> source_node \<Rightarrow> source_graph \<Rightarrow> (uid, uid) bmap
    \<Rightarrow> (drift_category \<times> drift_detail) list" where
  "field_changes X committed candidate committed_graph reconciled_uid =
    flagged (sn_kind committed \<noteq> sn_kind candidate) NodeKindChanged
      (FieldChange ''kind'' (kind_as_str (sn_kind committed)) (kind_as_str (sn_kind candidate)))
    @ (case rendered_parents committed candidate committed_graph reconciled_uid of
        (committed_parent, candidate_parent) \<Rightarrow>
        flagged (committed_parent \<noteq> candidate_parent) NodeParentChanged
          (FieldChange ''parent_uid'' committed_parent candidate_parent))
    @ flagged (sn_ordinal committed \<noteq> sn_ordinal candidate) NodeOrdinalChanged
      (FieldChange ''ordinal'' (show_nat (unat (sn_ordinal committed)))
        (show_nat (unat (sn_ordinal candidate))))
    @ flagged (sn_label committed \<noteq> sn_label candidate) NodeLabelChanged
      (FieldChange ''label'' (render_option (sn_label committed)) (render_option (sn_label candidate)))
    @ flagged (sn_canonical_text committed \<noteq> sn_canonical_text candidate) NodeCanonicalTextChanged
      (FieldChange ''canonical_text'' (sn_canonical_text committed) (sn_canonical_text candidate))
    @ flagged (sn_content_sha256 committed \<noteq> sn_content_sha256 candidate) NodeContentDigestChanged
      (FieldChange ''content_sha256'' (std_str (sn_content_sha256 committed))
        (std_str (sn_content_sha256 candidate)))
    @ flagged (sn_fingerprint committed \<noteq> sn_fingerprint candidate) NodeStructuralFingerprintChanged
      (FieldChange ''fingerprint'' (std_str (sn_fingerprint committed)) (std_str (sn_fingerprint candidate)))
    @ compare_locators X committed candidate"

definition compare_matched ::
  "platform \<Rightarrow> source_graph \<Rightarrow> (uid, uid) bmap \<Rightarrow> source_node \<times> source_node \<Rightarrow> drift_finding list" where
  "compare_matched X committed_graph reconciled_uid pair = (case pair of (committed, candidate) \<Rightarrow>
    map (\<lambda>(category, detail). \<lparr>df_category = category,
        df_structural_path = Some (structural_path committed_graph (sn_uid committed)),
        df_node_uid = Some (sn_uid committed), df_patch_uid = None, df_detail = detail\<rparr>)
      (field_changes X committed candidate committed_graph reconciled_uid))"

text \<open>The loop over the reconciled candidates.\<close>

record node_scan =
  ns_matched :: "uid list"
  ns_pairs :: "(source_node \<times> source_node) list"
  ns_unmatched :: "source_node list"
  ns_findings :: "drift_finding list"

definition scan_reconciled ::
  "platform \<Rightarrow> source_graph \<Rightarrow> source_graph \<Rightarrow> (structural_key, uid list) bmap \<Rightarrow> node_scan
    \<Rightarrow> reconciled_node \<Rightarrow> node_scan" where
  "scan_reconciled X committed candidate pools st entry =
    (case sg_get candidate (cn_provisional_id (rn_candidate entry)) of
       None \<Rightarrow> st
     | Some candidate_node \<Rightarrow>
        (case sg_get committed (rn_uid entry) of
           None \<Rightarrow> st\<lparr>ns_unmatched := ns_unmatched st @ [candidate_node]\<rparr>
         | Some committed_node \<Rightarrow>
            let st = st\<lparr>ns_matched := ns_matched st @ [sn_uid committed_node]\<rparr>;
                key = structural_key X committed_node committed;
                pool = (case bget pools key of Some us \<Rightarrow> us | None \<Rightarrow> [])
            in if 1 < length pool
               then st\<lparr>ns_findings := ns_findings st
                 @ [\<lparr>df_category = NodeUnreconciled,
                     df_structural_path = Some (structural_path committed (sn_uid committed_node)),
                     df_node_uid = Some (sn_uid candidate_node), df_patch_uid = None,
                     df_detail = AmbiguousKey pool\<rparr>]\<rparr>
               else st\<lparr>ns_pairs := ns_pairs st @ [(committed_node, candidate_node)]\<rparr>))"

definition relaxed_step ::
  "source_graph \<Rightarrow> source_graph \<Rightarrow> (uid, uid) bmap \<times> (source_node \<times> source_node) list \<Rightarrow> uid \<times> uid
    \<Rightarrow> (uid, uid) bmap \<times> (source_node \<times> source_node) list" where
  "relaxed_step committed candidate st pair =
    (case (st, pair) of ((reconciled_uid, pairs), (committed_uid, candidate_uid)) \<Rightarrow>
      case (sg_get committed committed_uid, sg_get candidate candidate_uid) of
        (Some committed_node, Some candidate_node) \<Rightarrow>
          (bins candidate_uid committed_uid reconciled_uid, pairs @ [(committed_node, candidate_node)])
      | _ \<Rightarrow> (reconciled_uid, pairs))"

definition leftover_finding ::
  "drift_category \<Rightarrow> drift_detail \<Rightarrow> source_graph \<Rightarrow> uid \<Rightarrow> drift_finding" where
  "leftover_finding category detail graph u =
    \<lparr>df_category = category, df_structural_path = Some (structural_path graph u),
     df_node_uid = Some u, df_patch_uid = None, df_detail = detail\<rparr>"

definition compare_nodes ::
  "platform \<Rightarrow> (nat \<Rightarrow> uid) \<Rightarrow> source_graph \<Rightarrow> source_graph \<Rightarrow> drift_finding list" where
  "compare_nodes X mint committed candidate =
    (let pools = key_pool X committed;
         reconciled = reconcile X mint committed (map to_candidate (sg_nodes candidate));
         reconciled_uid = fold (\<lambda>e. bins (cn_provisional_id (rn_candidate e)) (rn_uid e)) reconciled [];
         scan = foldl (scan_reconciled X committed candidate pools)
           \<lparr>ns_matched = [], ns_pairs = [], ns_unmatched = [], ns_findings = []\<rparr> reconciled;
         unmatched_committed = filter (\<lambda>n. sn_uid n \<notin> set (ns_matched scan)) (sg_nodes committed)
     in case relaxed_pairs X unmatched_committed (ns_unmatched scan) committed candidate of
       (relaxed, leftover_committed, leftover_candidates) \<Rightarrow>
       (case foldl (relaxed_step committed candidate) (reconciled_uid, ns_pairs scan) relaxed of
         (reconciled_uid, pairs) \<Rightarrow>
         ns_findings scan
           @ concat (map (compare_matched X committed reconciled_uid) pairs)
           @ map (leftover_finding NodeAdded CandidateOnly candidate) leftover_candidates
           @ map (leftover_finding NodeRemoved CommittedOnly committed) leftover_committed))"

end
