(* ===== verification/Drift_Compare.thy ===== *)
theory Drift_Compare
  imports Drift_Nodes
begin

text \<open>
  The drift comparison, second part: the recipe identity (\<^verbatim>\<open>corpus/ingest/recipe.rs\<close>), the patch,
  review and effective planes (\<^verbatim>\<open>corpus/drift/patches.rs\<close>) and the entry point with its
  prerequisites (\<^verbatim>\<open>corpus/drift/compare.rs\<close>, \<^verbatim>\<open>error.rs\<close>). The text of a failed patch application
  is the rendering that the error derives; it is the parameter \<open>error_text\<close>.
\<close>

section \<open>Ingester recipes\<close>

text \<open>The extensions are a \<^verbatim>\<open>BTreeSet\<close>: the elements in order.\<close>

record ingester_recipe =
  ir_parser :: string
  ir_parser_version :: string
  ir_extensions :: "string list"
  ir_adapter_version :: string
  ir_normalization_contract :: string

definition recipe_domain_tag :: bytes where
  "recipe_domain_tag = ''evidence/ingester-recipe/v1''"

definition recipe_canonical_bytes :: "ingester_recipe \<Rightarrow> bytes" where
  "recipe_canonical_bytes r =
    recipe_domain_tag @ [CHR 0x00] @ push_str (ir_parser r) @ push_str (ir_parser_version r)
      @ push_seq push_str (ir_extensions r)
      @ push_str (ir_adapter_version r) @ push_str (ir_normalization_contract r)"

definition recipe_digest :: "platform \<Rightarrow> ingester_recipe \<Rightarrow> structural_content_digest" where
  "recipe_digest X r = StructuralContentDigest (sha256 X (recipe_canonical_bytes r))"

section \<open>The patch and review planes\<close>

definition state_name :: "requirement_lifecycle \<Rightarrow> string" where
  "state_name s = lifecycle_as_str s"

definition patch_finding :: "drift_category \<Rightarrow> uid \<Rightarrow> drift_detail \<Rightarrow> drift_finding" where
  "patch_finding category patch_uid detail =
    \<lparr>df_category = category, df_structural_path = None, df_node_uid = None,
     df_patch_uid = Some patch_uid, df_detail = detail\<rparr>"

definition group_step ::
  "drift_finding list \<times> (uid, source_patch_record) bmap \<Rightarrow> uid \<times> source_patch_record list
    \<Rightarrow> drift_finding list \<times> (uid, source_patch_record) bmap" where
  "group_step st entry = (case (st, entry) of ((findings, by_uid), (u, members)) \<Rightarrow>
     let sorted_group = sort_key (\<lambda>p. std_str (sp_reviewed_content_digest p)) members in
     if \<exists>i < length sorted_group - 1. sp_reviewed_content_digest (sorted_group ! i)
          \<noteq> sp_reviewed_content_digest (sorted_group ! Suc i)
     then (findings @ [patch_finding PatchUnappliable u (Failure (''candidate plane carries ''
             @ show_nat (length sorted_group) @ '' distinct patch records with uid '' @ u))], by_uid)
     else (case sorted_group of
         patch # _ \<Rightarrow> (findings, bins u patch by_uid)
       | [] \<Rightarrow> (findings, by_uid)))"

definition group_candidate_uids ::
  "source_patch_record list \<Rightarrow> drift_finding list \<times> (uid, source_patch_record) bmap" where
  "group_candidate_uids candidate = foldl group_step ([], []) (group_by sp_uid candidate)"

record candidate_patch_plane =
  cp_graph :: source_graph
  cp_patches :: "source_patch_record list"
  cp_evaluations :: "(uid, patch_lifecycle_evaluation) bmap"
  cp_recipe_digest :: "structural_content_digest option"
  cp_input_digest :: "structural_content_digest option"

definition unverifiable_bindings :: string where
  "unverifiable_bindings =
    ''candidate recipe or input identity is unavailable; the patch's bindings are unverifiable''"

definition apply_approved ::
  "platform \<Rightarrow> (source_patch_error \<Rightarrow> string) \<Rightarrow> source_patch_record \<Rightarrow> string
    \<Rightarrow> structural_content_digest option \<Rightarrow> structural_content_digest option
    \<Rightarrow> source_graph \<times> drift_finding list \<Rightarrow> source_graph \<times> drift_finding list" where
  "apply_approved X error_text patch media_type recipe_identity input_identity st =
    (case st of (effective, findings) \<Rightarrow>
      case (recipe_identity, input_identity) of
        (Some recipe, Some input) \<Rightarrow>
          (case apply_patch X effective patch
              \<lparr>pb_recipe_digest = recipe, pb_input_digest = input\<rparr> media_type of
             Inr application \<Rightarrow> (pa_graph application, findings)
           | Inl e \<Rightarrow> (effective,
               findings @ [patch_finding PatchUnappliable (sp_uid patch) (Failure (error_text e))]))
      | _ \<Rightarrow> (effective, findings @ [patch_finding PatchUnappliable (sp_uid patch)
               (Failure unverifiable_bindings)]))"

definition digest_not_recomputed :: string where
  "digest_not_recomputed = ''candidate patch record's reviewed-content digest does not ''
    @ ''recompute from its bindings and operations''"

text \<open>A patch of both planes whose digest is unchanged: the evaluated states.\<close>

definition compare_states ::
  "platform \<Rightarrow> (source_patch_error \<Rightarrow> string) \<Rightarrow> string \<Rightarrow> candidate_patch_plane
    \<Rightarrow> source_patch_record \<Rightarrow> uid \<Rightarrow> requirement_lifecycle \<Rightarrow> requirement_lifecycle
    \<Rightarrow> source_graph \<times> drift_finding list \<Rightarrow> source_graph \<times> drift_finding list" where
  "compare_states X error_text media_type plane candidate_patch u committed_state candidate_state st =
    (case st of (effective, findings) \<Rightarrow>
      let states = LifecycleStates (state_name committed_state) (state_name candidate_state);
          reported = findings
            @ (if candidate_state \<noteq> committed_state then [patch_finding ReviewStateChanged u states] else [])
            @ (if candidate_state = Stale then [patch_finding PatchStale u states] else [])
            @ (if candidate_state = Rejected then [patch_finding PatchRejected u states] else [])
      in if candidate_state = Approved
         then apply_approved X error_text candidate_patch media_type (cp_recipe_digest plane)
           (cp_input_digest plane) (effective, reported)
         else (effective, reported))"

definition compare_patch ::
  "platform \<Rightarrow> (source_patch_error \<Rightarrow> string) \<Rightarrow> string \<Rightarrow> (uid, source_patch_record) bmap
    \<Rightarrow> (uid, patch_lifecycle_evaluation) bmap \<Rightarrow> candidate_patch_plane
    \<Rightarrow> (uid, source_patch_record) bmap \<Rightarrow> source_graph \<times> drift_finding list \<Rightarrow> uid
    \<Rightarrow> source_graph \<times> drift_finding list" where
  "compare_patch X error_text media_type committed committed_evaluations plane candidate_by_uid st u =
    (case st of (effective, findings) \<Rightarrow>
      case (bget committed u, bget candidate_by_uid u) of
        (Some _, None) \<Rightarrow> (effective, findings @ [patch_finding PatchRemoved u CommittedOnly])
      | (None, Some _) \<Rightarrow> (effective, findings @ [patch_finding PatchAdded u CandidateOnly])
      | (None, None) \<Rightarrow> (effective, findings)
      | (Some committed_patch, Some candidate_patch) \<Rightarrow>
          if sp_reviewed_content_digest candidate_patch \<noteq> reviewed_content_digest X candidate_patch
          then (effective, findings @ [patch_finding PatchUnappliable u (Failure digest_not_recomputed)])
          else if sp_reviewed_content_digest candidate_patch \<noteq> sp_reviewed_content_digest committed_patch
          then (effective, findings @ [patch_finding PatchChanged u
                 (PatchDigest (std_str (sp_reviewed_content_digest committed_patch))
                   (std_str (sp_reviewed_content_digest candidate_patch)))])
          else case (bget committed_evaluations u, bget (cp_evaluations plane) u) of
            (Some committed_eval, Some candidate_eval) \<Rightarrow>
              compare_states X error_text media_type plane candidate_patch u
                (pe_state committed_eval) (pe_state candidate_eval) (effective, findings)
          | _ \<Rightarrow> (effective, findings))"

text \<open>The candidate effective graph and the findings.\<close>

definition compare_patches ::
  "platform \<Rightarrow> (source_patch_error \<Rightarrow> string) \<Rightarrow> string \<Rightarrow> (uid, source_patch_record) bmap
    \<Rightarrow> (uid, patch_lifecycle_evaluation) bmap \<Rightarrow> candidate_patch_plane
    \<Rightarrow> source_graph \<times> drift_finding list" where
  "compare_patches X error_text media_type committed committed_evaluations plane =
    (case group_candidate_uids (cp_patches plane) of (findings, candidate_by_uid) \<Rightarrow>
      foldl (compare_patch X error_text media_type committed committed_evaluations plane candidate_by_uid)
        (cp_graph plane, findings) (dedup (sort (bkeys committed @ bkeys candidate_by_uid))))"

section \<open>The comparison\<close>

datatype (plugins only: code) drift_error =
    DE_InvalidBaseline corpus_error
  | DE_UnknownSourceRevision uid
  | DE_CandidateRevisionMismatch uid uid uid
  | DE_InvalidCandidateGraph source_graph_error
  | DE_MissingPatchEvaluation string uid
  | DE_InvalidEffectiveBaseline effective_graph_error

record drift_baseline =
  bl_corpus :: corpus_graph
  bl_source_revision_uid :: uid
  bl_recipe_digest :: structural_content_digest
  bl_input_digest :: structural_content_digest
  bl_extractor_output_digest :: "structural_content_digest option"
  bl_patch_evaluations :: "(uid, patch_lifecycle_evaluation) bmap"

record reingestion_candidate =
  rc_source_document :: string
  rc_recipe :: "ingester_recipe option"
  rc_verified_input_digest :: "structural_content_digest option"
  rc_extractor_output_digest :: "structural_content_digest option"
  rc_parser_graph :: source_graph
  rc_patches :: "source_patch_record list"
  rc_patch_evaluations :: "(uid, patch_lifecycle_evaluation) bmap"

definition revision_media_type :: "corpus_graph \<Rightarrow> uid \<Rightarrow> drift_error + string" where
  "revision_media_type G revision_uid =
    (case find (\<lambda>r. sr_uid r = revision_uid) (cg_revisions G) of
       Some revision \<Rightarrow> Ok (sr_media_type revision)
     | None \<Rightarrow> Err (DE_UnknownSourceRevision revision_uid))"

definition plane_finding ::
  "drift_category \<Rightarrow> structural_content_digest \<Rightarrow> structural_content_digest option \<Rightarrow> drift_finding" where
  "plane_finding category baseline candidate =
    \<lparr>df_category = category, df_structural_path = None, df_node_uid = None, df_patch_uid = None,
     df_detail = PlaneDigest (std_str baseline) (map_option std_str candidate)\<rparr>"

text \<open>The recipe, input and extractor-output planes.\<close>

definition identity_findings ::
  "platform \<Rightarrow> drift_baseline \<Rightarrow> reingestion_candidate \<Rightarrow> drift_finding list" where
  "identity_findings X baseline candidate =
    (let candidate_recipe_digest = map_option (recipe_digest X) (rc_recipe candidate) in
     (if candidate_recipe_digest \<noteq> Some (bl_recipe_digest baseline)
      then [plane_finding RecipeChangedOrUnavailable (bl_recipe_digest baseline) candidate_recipe_digest]
      else [])
     @ (if rc_verified_input_digest candidate \<noteq> Some (bl_input_digest baseline)
        then [plane_finding VerifiedInputChanged (bl_input_digest baseline)
               (rc_verified_input_digest candidate)] else [])
     @ (case bl_extractor_output_digest baseline of
          Some extractor \<Rightarrow>
            if rc_extractor_output_digest candidate \<noteq> Some extractor
            then [plane_finding ExtractorOutputChanged extractor (rc_extractor_output_digest candidate)]
            else []
        | None \<Rightarrow> []))"

definition effective_finding ::
  "structural_content_digest \<Rightarrow> structural_content_digest \<Rightarrow> drift_finding list" where
  "effective_finding committed candidate =
    (if committed \<noteq> candidate
     then [\<lparr>df_category = EffectiveGraphChanged, df_structural_path = None, df_node_uid = None,
         df_patch_uid = None, df_detail = EffectiveDigests (std_str committed) (std_str candidate)\<rparr>]
     else [])"

text \<open>The patches of the compared revision in the committed plane.\<close>

definition committed_patches :: "corpus_graph \<Rightarrow> uid \<Rightarrow> (uid, source_patch_record) bmap" where
  "committed_patches G revision_uid =
    filter (\<lambda>(u, patch). sp_source_revision_uid patch = revision_uid) (cg_source_patches G)"

definition compare_reingestion ::
  "platform \<Rightarrow> (source_patch_error \<Rightarrow> string) \<Rightarrow> (nat \<Rightarrow> uid) \<Rightarrow> drift_baseline
    \<Rightarrow> reingestion_candidate \<Rightarrow> drift_error + drift_report" where
  "compare_reingestion X error_text mint baseline candidate =
    (let G = bl_corpus baseline; revision_uid = bl_source_revision_uid baseline;
         committed = committed_patches G revision_uid;
         candidate_patches = filter (\<lambda>p. sp_source_revision_uid p = revision_uid) (rc_patches candidate)
     in
     rbind (map_err DE_InvalidBaseline (cg_validate X G)) (\<lambda>_.
     rbind (revision_media_type G revision_uid) (\<lambda>media_type.
     rbind (for_each (\<lambda>node. fail_if (sn_source_revision_uid node \<noteq> revision_uid)
         (DE_CandidateRevisionMismatch revision_uid (sn_uid node) (sn_source_revision_uid node)))
       (sg_nodes (rc_parser_graph candidate))) (\<lambda>_.
     rbind (map_err DE_InvalidCandidateGraph
       (validate_graph_standalone X revision_uid media_type (rc_parser_graph candidate))) (\<lambda>_.
     rbind (for_each (\<lambda>u. fail_if (bget (bl_patch_evaluations baseline) u = None)
         (DE_MissingPatchEvaluation ''committed'' u)) (bkeys committed)) (\<lambda>_.
     rbind (for_each (\<lambda>p. fail_if (bget (rc_patch_evaluations candidate) (sp_uid p) = None)
         (DE_MissingPatchEvaluation ''candidate'' (sp_uid p))) candidate_patches) (\<lambda>_.
     let recipe = map_option (recipe_digest X) (rc_recipe candidate);
         node_findings = compare_nodes X mint (parser_graph G revision_uid) (rc_parser_graph candidate)
     in
     case compare_patches X error_text media_type committed (bl_patch_evaluations baseline)
         \<lparr>cp_graph = rc_parser_graph candidate, cp_patches = candidate_patches,
          cp_evaluations = rc_patch_evaluations candidate, cp_recipe_digest = recipe,
          cp_input_digest = rc_verified_input_digest candidate\<rparr> of (effective, patch_findings) \<Rightarrow>
     rbind (map_err DE_InvalidEffectiveBaseline (effective_source_graph X G revision_uid
         \<lparr>pb_recipe_digest = bl_recipe_digest baseline, pb_input_digest = bl_input_digest baseline\<rparr>
         media_type)) (\<lambda>committed_effective.
     Ok \<lparr>dr_source_document = rc_source_document candidate, dr_source_revision_uid = revision_uid,
         dr_findings = sort_key finding_sort_key
           (identity_findings X baseline candidate @ node_findings @ patch_findings
             @ effective_finding (source_graph_digest X (eg_graph committed_effective))
                 (source_graph_digest X effective))\<rparr>))))))))"

end
