(* ===== verification/Drift_Spec.thy ===== *)
theory Drift_Spec
  imports Drift_Compare
begin

text \<open>
  What the comparison reports on identical planes: nothing but the ambiguous structural keys of the
  committed graph and the stale and rejected patches of the revision.
\<close>

section \<open>Reconciling a graph with itself\<close>

lemma consume_suffix:
  assumes "\<forall>key \<in> K ` set ns. bget pool key = Some (map sn_uid (filter (\<lambda>n. K n = key) ns))"
  shows "consume_keys mint k pool (map (\<lambda>n. (c n, K n)) ns)
    = map (\<lambda>n. \<lparr>rn_uid = sn_uid n, rn_candidate = c n\<rparr>) ns"
  using assms
proof (induction ns arbitrary: pool)
  case (Cons n ns)
  then have here: "bget pool (K n) = Some (sn_uid n # map sn_uid (filter (\<lambda>m. K m = K n) ns))" by simp
  let ?pool = "bins (K n) (map sn_uid (filter (\<lambda>m. K m = K n) ns)) pool"
  have "\<forall>key \<in> K ` set ns. bget ?pool key = Some (map sn_uid (filter (\<lambda>n. K n = key) ns))"
    using Cons.prems by auto
  from Cons.IH [OF this] here show ?case by simp
qed simp

lemma to_candidate_reingested: "to_candidate n = reingested (\<lambda>u. u) sn_canonical_text n"
  by (simp add: to_candidate_def reingested_def option.map_ident)

lemma reconcile_self:
  assumes g: "sg_inv g"
  shows "reconcile X mint g (map to_candidate (sg_nodes g))
    = map (\<lambda>n. \<lparr>rn_uid = sn_uid n, rn_candidate = to_candidate n\<rparr>) (sg_nodes g)"
proof -
  have c: "to_candidate = reingested (\<lambda>u. u) sn_canonical_text" using to_candidate_reingested by blast
  have d: "distinct (sg_nodes g)" using sg_nodes_distinct [OF g] by (simp add: distinct_map)
  have "candidate_key X (to_candidate n) (by_provisional_id (map to_candidate (sg_nodes g)))
      = structural_key X n g" for n
    unfolding c using by_id_reingested [OF g d refl, of "\<lambda>u. u"]
    by (intro candidate_key_reingested) (simp_all add: sg_get_def)
  then have eq: "map (\<lambda>c. (c, candidate_key X c (by_provisional_id (map to_candidate (sg_nodes g)))))
      (map to_candidate (sg_nodes g)) = map (\<lambda>n. (to_candidate n, structural_key X n g)) (sg_nodes g)"
    by simp
  show ?thesis
    unfolding reconcile_def Let_def eq
    by (rule consume_suffix) (auto simp: bget_key_pool)
qed

definition ambiguous :: "platform \<Rightarrow> source_graph \<Rightarrow> source_node \<Rightarrow> bool" where
  "ambiguous X g n \<longleftrightarrow> (\<exists>m \<in> set (sg_nodes g). m \<noteq> n \<and> structural_key X m g = structural_key X n g)"

definition unreconciled_finding :: "platform \<Rightarrow> source_graph \<Rightarrow> source_node \<Rightarrow> drift_finding" where
  "unreconciled_finding X g n =
    \<lparr>df_category = NodeUnreconciled, df_structural_path = Some (structural_path g (sn_uid n)),
     df_node_uid = Some (sn_uid n), df_patch_uid = None,
     df_detail = AmbiguousKey (map sn_uid
       (filter (\<lambda>m. structural_key X m g = structural_key X n g) (sg_nodes g)))\<rparr>"

lemma ambiguous_pool:
  assumes g: "sg_inv g" and n: "n \<in> set (sg_nodes g)"
  shows "1 < length (filter (\<lambda>m. structural_key X m g = structural_key X n g) (sg_nodes g))
    \<longleftrightarrow> ambiguous X g n"
proof -
  let ?F = "filter (\<lambda>m. structural_key X m g = structural_key X n g) (sg_nodes g)"
  have d: "distinct ?F" using sg_nodes_distinct [OF g] by (simp add: distinct_map)
  have nF: "n \<in> set ?F" using n by simp
  have "1 < length ?F \<longleftrightarrow> (\<exists>m \<in> set ?F. m \<noteq> n)"
  proof
    assume "1 < length ?F"
    then have "1 < card (set ?F)" by (simp only: distinct_card [OF d])
    then have "set ?F \<noteq> {n}" by auto
    with nF show "\<exists>m \<in> set ?F. m \<noteq> n" by blast
  next
    assume "\<exists>m \<in> set ?F. m \<noteq> n"
    then obtain m where "m \<in> set ?F" "m \<noteq> n" by blast
    with nF have "{m, n} \<subseteq> set ?F" "card {m, n} = 2" by auto
    then have "2 \<le> card (set ?F)" using card_mono [of "set ?F" "{m, n}"] by simp
    then show "1 < length ?F" by (simp only: distinct_card [OF d])
  qed
  then show ?thesis by (auto simp: ambiguous_def)
qed

lemma keys_distinct_iff: "keys_distinct X g \<longleftrightarrow> (\<forall>n \<in> set (sg_nodes g). \<not> ambiguous X g n)"
  by (auto simp: keys_distinct_def ambiguous_def)

lemma scan_self:
  assumes g: "sg_inv g" and ns: "set ns \<subseteq> set (sg_nodes g)"
  shows "foldl (scan_reconciled X g g (key_pool X g)) st
      (map (\<lambda>n. \<lparr>rn_uid = sn_uid n, rn_candidate = to_candidate n\<rparr>) ns) =
    \<lparr>ns_matched = ns_matched st @ map sn_uid ns,
     ns_pairs = ns_pairs st @ map (\<lambda>n. (n, n)) (filter (\<lambda>n. \<not> ambiguous X g n) ns),
     ns_unmatched = ns_unmatched st,
     ns_findings = ns_findings st @ map (unreconciled_finding X g) (filter (ambiguous X g) ns)\<rparr>"
  using ns
proof (induction ns arbitrary: st)
  case (Cons n ns)
  then have n: "n \<in> set (sg_nodes g)" by simp
  then have get: "sg_get g (sn_uid n) = Some n" by (simp add: sg_nodes_iff_get [OF g])
  have pool: "bget (key_pool X g) (structural_key X n g) =
      Some (map sn_uid (filter (\<lambda>m. structural_key X m g = structural_key X n g) (sg_nodes g)))"
    using n by (auto simp: bget_key_pool)
  have step: "scan_reconciled X g g (key_pool X g) st
      \<lparr>rn_uid = sn_uid n, rn_candidate = to_candidate n\<rparr> =
    (if ambiguous X g n
     then st\<lparr>ns_matched := ns_matched st @ [sn_uid n],
       ns_findings := ns_findings st @ [unreconciled_finding X g n]\<rparr>
     else st\<lparr>ns_matched := ns_matched st @ [sn_uid n], ns_pairs := ns_pairs st @ [(n, n)]\<rparr>)"
    using ambiguous_pool [OF g n, of X]
    by (simp add: scan_reconciled_def to_candidate_def get pool unreconciled_finding_def Let_def)
  from Cons show ?case by (simp add: step)
qed simp

section \<open>A node compared with itself\<close>

lemma f64_eq_self: "f64_is_finite b \<Longrightarrow> f64_eq b b"
  by (simp add: f64_eq_def f64_finite_not_nan)

lemma changed_False [simp]: "changed False field a b = []"
  by (simp add: changed_def)

lemma changed_Nil [simp]: "changed b field x y = [] \<longleftrightarrow> \<not> b"
  by (simp add: changed_def)

lemma flagged_Nil [simp]: "flagged b category detail = [] \<longleftrightarrow> \<not> b"
  by (simp add: flagged_def)

lemma locator_changes_self: "locator_finite l \<Longrightarrow> locator_changes X l l = ([], [])"
  by (cases l rule: locator_finite.cases) (auto simp: bbox_eq_def f64_eq_self)

lemma compare_locators_self:
  "locator_finite (sn_locator n) \<Longrightarrow> compare_locators X n n = []"
  by (simp add: compare_locators_def Let_def locator_changes_self)

lemma compare_self:
  assumes "locator_finite (sn_locator n)"
    "\<And>p. sn_parent_uid n = Some p \<Longrightarrow> bget m p = Some p \<and> sg_get g p \<noteq> None"
  shows "compare_matched X g m (n, n) = []"
  using assms
  by (cases "sn_parent_uid n")
    (simp_all add: compare_matched_def field_changes_def rendered_parents_def compare_locators_self
      flagged_def)

lemma relaxed_none: "relaxed_pairs X [] [] g h = ([], [], [])"
  by (simp add: relaxed_pairs_def group_by_def pool_of_def bkeys_def)

lemma forest_parent:
  assumes "well_formed_forest X mt g" "n \<in> set (sg_nodes g)" "sn_parent_uid n = Some p"
  shows "sg_get g p \<noteq> None"
proof -
  from assms obtain ps where "parent_path g n ps" by (auto simp: well_formed_forest_def)
  with assms(3) show ?thesis by (cases ps) auto
qed

lemma compare_nodes_self:
  assumes g: "sg_inv g" and wf: "well_formed_forest X mt g" and fin: "graph_finite g"
  shows "compare_nodes X mint g g = map (unreconciled_finding X g) (filter (ambiguous X g) (sg_nodes g))"
proof -
  let ?es = "map (\<lambda>n. \<lparr>rn_uid = sn_uid n, rn_candidate = to_candidate n\<rparr>) (sg_nodes g)"
  let ?m = "fold (\<lambda>e. bins (cn_provisional_id (rn_candidate e)) (rn_uid e)) ?es []"
  let ?scan = "foldl (scan_reconciled X g g (key_pool X g))
      \<lparr>ns_matched = [], ns_pairs = [], ns_unmatched = [], ns_findings = []\<rparr> ?es"
  note scan = scan_self [OF g order_refl, of X
      "\<lparr>ns_matched = [], ns_pairs = [], ns_unmatched = [], ns_findings = []\<rparr>"]
  have ids: "cn_provisional_id (to_candidate n) = sn_uid n" for n by (simp add: to_candidate_def)
  have "map (\<lambda>e. cn_provisional_id (rn_candidate e)) ?es = map sn_uid (sg_nodes g)"
    by (simp add: comp_def ids)
  then have d: "distinct (map (\<lambda>e. cn_provisional_id (rn_candidate e)) ?es)"
    using sg_nodes_distinct [OF g] by (simp only:)
  have m: "bget ?m p = Some p" if "sg_get g p = Some n" for p n
  proof -
    have "n \<in> set (sg_nodes g)" "sn_uid n = p" using that sg_get_in_nodes sg_get_uid [OF g] by blast+
    then have "\<lparr>rn_uid = p, rn_candidate = to_candidate n\<rparr> \<in> set ?es"
      "cn_provisional_id (to_candidate n) = p" by (auto simp: to_candidate_def)
    with bget_fold_bins_distinct [OF d, of "\<lparr>rn_uid = p, rn_candidate = to_candidate n\<rparr>" rn_uid]
    show ?thesis by simp
  qed
  have same: "compare_matched X g ?m (n, n) = []" if "n \<in> set (sg_nodes g)" for n
    using forest_parent [OF wf that] fin that m by (intro compare_self) (auto simp: graph_finite_def)
  have um: "filter (\<lambda>n. sn_uid n \<notin> set (ns_matched ?scan)) (sg_nodes g) = []" "ns_unmatched ?scan = []"
    unfolding scan by simp_all
  have pairs: "concat (map (compare_matched X g ?m) (ns_pairs ?scan)) = []"
    unfolding scan using same by simp
  have findings: "ns_findings ?scan = map (unreconciled_finding X g) (filter (ambiguous X g) (sg_nodes g))"
    unfolding scan by simp
  show ?thesis
    unfolding compare_nodes_def Let_def reconcile_self [OF g] um relaxed_none
    using pairs findings by simp
qed

section \<open>The patch plane compared with itself\<close>

lemma filter_distinct_key:
  "distinct (map f xs) \<Longrightarrow> x \<in> set xs \<Longrightarrow> filter (\<lambda>y. f y = f x) xs = [x]"
proof (induction xs)
  case (Cons y ys)
  show ?case
  proof (cases "x = y")
    case True
    from Cons.prems(1) have "f y \<notin> f ` set ys" by simp
    then have "filter (\<lambda>z. f z = f x) ys = []" unfolding filter_empty_conv True by (metis image_eqI)
    with True show ?thesis by simp
  next
    case False
    with Cons show ?thesis by force
  qed
qed simp

lemma bget_keyed:
  "distinct (map f xs) \<Longrightarrow> x \<in> set xs \<Longrightarrow> bget (map (\<lambda>x. (f x, h x)) xs) (f x) = Some (h x)"
  by (simp add: bget_def map_of_eq_Some_iff comp_def)

lemma bget_keyed_None: "k \<notin> f ` set xs \<Longrightarrow> bget (map (\<lambda>x. (f x, h x)) xs) k = None"
  by (induction xs) auto

lemma group_by_distinct:
  assumes "sorted_wrt (<) (map f xs)"
  shows "group_by f xs = map (\<lambda>x. (f x, [x])) xs"
proof (rule bm.entries_unique)
  show "bwf (map (\<lambda>x. (f x, [x])) xs)" using assms by (simp add: bwf_def comp_def)
  have d: "distinct (map f xs)" using assms by (simp add: strict_sorted_iff)
  fix k
  show "bget (group_by f xs) k = bget (map (\<lambda>x. (f x, [x])) xs) k"
  proof (cases "k \<in> f ` set xs")
    case True
    then obtain x where x: "x \<in> set xs" "k = f x" by blast
    then have "(k, filter (\<lambda>y. f y = f x) xs) \<in> set (group_by f xs)" by (auto simp: group_by_entry)
    then have "bget (group_by f xs) k = Some [x]"
      using filter_distinct_key [OF d x(1)] by (simp add: bget_iff_in)
    with bget_keyed [OF d x(1), of "\<lambda>x. [x]"] x show ?thesis by simp
  next
    case False
    then have "bget (group_by f xs) k = None"
      by (cases "bget (group_by f xs) k") (auto simp: bget_iff_in group_by_entry)
    with bget_keyed_None [OF False, of "\<lambda>x. [x]"] show ?thesis by simp
  qed
qed simp

lemma group_single:
  "foldl group_step (fs, m) (map (\<lambda>p. (sp_uid p, [p])) ps) = (fs, fold (\<lambda>p. bins (sp_uid p) p) ps m)"
  by (induction ps arbitrary: m) (simp_all add: group_step_def Let_def)

text \<open>A map of patches filed under their uids.\<close>

definition patches_keyed :: "(uid, source_patch_record) bmap \<Rightarrow> bool" where
  "patches_keyed m \<longleftrightarrow> bwf m \<and> (\<forall>(u, p) \<in> set m. sp_uid p = u)"

lemma patches_keyed_uids: "patches_keyed m \<Longrightarrow> map sp_uid (bvals m) = bkeys m"
  by (auto simp: patches_keyed_def bvals_def bkeys_def)

lemma patches_keyed_get: "patches_keyed m \<Longrightarrow> p \<in> set (bvals m) \<Longrightarrow> bget m (sp_uid p) = Some p"
  by (auto simp: patches_keyed_def bvals_def bget_iff_in)

lemma group_committed:
  assumes "patches_keyed m"
  shows "group_candidate_uids (bvals m) = ([], m)"
proof -
  have s: "sorted_wrt (<) (map sp_uid (bvals m))"
    using assms unfolding patches_keyed_uids [OF assms] by (simp add: patches_keyed_def bwf_def bkeys_def)
  then have d: "distinct (map sp_uid (bvals m))" by (simp add: strict_sorted_iff)
  have "fold (\<lambda>p. bins (sp_uid p) p) (bvals m) [] = m"
  proof (rule bm.entries_unique)
    show "bwf (fold (\<lambda>p. bins (sp_uid p) p) (bvals m) [])" by (rule bwf_fold_bins) simp
    show "bwf m" using assms by (simp add: patches_keyed_def)
    fix u
    show "bget (fold (\<lambda>p. bins (sp_uid p) p) (bvals m) []) u = bget m u"
    proof (cases "bget m u")
      case (Some p)
      then have p: "p \<in> set (bvals m)" by (rule bget_in_bvals)
      from Some have "sp_uid p = u" using assms by (auto simp: patches_keyed_def dest: bget_Some_in)
      with Some bget_fold_bins_distinct [OF d p, of "\<lambda>p. p"] show ?thesis by simp
    next
      case None
      then have "\<forall>p \<in> set (bvals m). sp_uid p \<noteq> u" using patches_keyed_get [OF assms] by force
      then have "find (\<lambda>p. sp_uid p = u) (rev (bvals m)) = None" by (simp add: find_None_iff)
      with None show ?thesis by (simp add: bget_fold_bins)
    qed
  qed
  then show ?thesis by (simp add: group_candidate_uids_def group_by_distinct [OF s] group_single)
qed

text \<open>What one patch contributes when both planes hold it in the same state.\<close>

definition state_findings :: "corpus_graph \<Rightarrow> source_patch_record \<Rightarrow> drift_finding list" where
  "state_findings G p =
    (let s = patch_state G p; states = LifecycleStates (state_name s) (state_name s) in
     (if s = Stale then [patch_finding PatchStale (sp_uid p) states] else [])
     @ (if s = Rejected then [patch_finding PatchRejected (sp_uid p) states] else []))"

lemma state_findings_Nil: "state_findings G p = [] \<longleftrightarrow> patch_state G p \<noteq> Stale \<and> patch_state G p \<noteq> Rejected"
  by (simp add: state_findings_def Let_def)

lemma compare_patch_fold:
  assumes "\<And>p. p \<in> set ps \<Longrightarrow> bget m (sp_uid p) = Some p \<and>
      sp_reviewed_content_digest p = reviewed_content_digest X p \<and>
      (\<exists>e. bget evs (sp_uid p) = Some e \<and> pe_state e = patch_state G p)"
    and "cp_evaluations plane = evs" "cp_recipe_digest plane = Some (pb_recipe_digest b)"
    "cp_input_digest plane = Some (pb_input_digest b)"
    and "apply_chain X b mt g (filter (\<lambda>p. patch_state G p = Approved) ps) = Some h"
  shows "foldl (compare_patch X error_text mt m evs plane m) (g, fs) (map sp_uid ps)
    = (h, fs @ concat (map (state_findings G) ps))"
  using assms
proof (induction ps arbitrary: g fs)
  case (Cons p ps)
  from Cons.prems(1) [of p] obtain e where p: "bget m (sp_uid p) = Some p"
    "sp_reviewed_content_digest p = reviewed_content_digest X p"
    "bget evs (sp_uid p) = Some e" "pe_state e = patch_state G p" by auto
  have rest: "\<And>q. q \<in> set ps \<Longrightarrow> bget m (sp_uid q) = Some q \<and>
      sp_reviewed_content_digest q = reviewed_content_digest X q \<and>
      (\<exists>e. bget evs (sp_uid q) = Some e \<and> pe_state e = patch_state G q)"
    using Cons.prems(1) by simp
  note plane = Cons.prems(2-4)
  show ?case
  proof (cases "patch_state G p = Approved")
    case True
    with Cons.prems(5) obtain a where a: "apply_patch X g p b mt = Inr a"
      "apply_chain X b mt (pa_graph a) (filter (\<lambda>p. patch_state G p = Approved) ps) = Some h"
      by (auto split: sum.splits)
    obtain recipe input where b: "b = \<lparr>pb_recipe_digest = recipe, pb_input_digest = input\<rparr>" by (cases b)
    with a(1) have "compare_patch X error_text mt m evs plane m (g, fs) (sp_uid p) = (pa_graph a, fs)"
      using p plane True
      by (simp add: compare_patch_def compare_states_def Let_def apply_approved_def)
    moreover have "state_findings G p = []" using True by (simp add: state_findings_Nil)
    ultimately show ?thesis using Cons.IH [OF rest plane a(2)] by simp
  next
    case False
    then have chain: "apply_chain X b mt g (filter (\<lambda>p. patch_state G p = Approved) ps) = Some h"
      using Cons.prems(5) by simp
    have "compare_patch X error_text mt m evs plane m (g, fs) (sp_uid p) = (g, fs @ state_findings G p)"
      using p plane False
      by (simp add: compare_patch_def compare_states_def Let_def state_findings_def)
    with Cons.IH [OF rest plane chain] show ?thesis by simp
  qed
qed simp

section \<open>Identical planes\<close>

text \<open>A re-ingestion that presents exactly what is committed.\<close>

definition identical_planes :: "platform \<Rightarrow> drift_baseline \<Rightarrow> reingestion_candidate \<Rightarrow> bool" where
  "identical_planes X baseline candidate \<longleftrightarrow>
    (\<exists>recipe. rc_recipe candidate = Some recipe \<and> recipe_digest X recipe = bl_recipe_digest baseline) \<and>
    rc_verified_input_digest candidate = Some (bl_input_digest baseline) \<and>
    rc_extractor_output_digest candidate = bl_extractor_output_digest baseline \<and>
    rc_parser_graph candidate = parser_graph (bl_corpus baseline) (bl_source_revision_uid baseline) \<and>
    rc_patches candidate = bvals (cg_source_patches (bl_corpus baseline)) \<and>
    rc_patch_evaluations candidate = bl_patch_evaluations baseline"

lemma identity_findings_self:
  "identical_planes X baseline candidate \<Longrightarrow> identity_findings X baseline candidate = []"
  by (auto simp: identical_planes_def identity_findings_def Let_def split: option.split)

lemma committed_patches_keyed: "cg_inv G \<Longrightarrow> patches_keyed (committed_patches G r)"
  by (auto simp: committed_patches_def patches_keyed_def cg_inv_def bwf_def sorted_wrt_map
      intro: sorted_wrt_filter)

lemma bvals_committed:
  "bvals (committed_patches G r) = filter (\<lambda>p. sp_source_revision_uid p = r) (bvals (cg_source_patches G))"
  by (simp add: committed_patches_def bvals_def filter_map comp_def case_prod_unfold)

lemma revision_media_type_Ok:
  assumes "cg_inv G" "q0 \<in> set (cg_revisions G)"
  shows "revision_media_type G (sr_uid q0) = Inr (sr_media_type q0)"
proof -
  have "find (\<lambda>r. sr_uid r = sr_uid q0) (cg_revisions G) = Some q0"
  proof (cases "find (\<lambda>r. sr_uid r = sr_uid q0) (cg_revisions G)")
    case None
    with assms(2) show ?thesis by (auto simp: find_None_iff)
  next
    case (Some q)
    then have "q \<in> set (cg_revisions G)" "sr_uid q = sr_uid q0"
      by (auto simp: find_Some_iff)
    then have "q = q0" using assms revision_lookup_iff [OF assms(1), of "sr_uid q0"]
      by (metis option.inject)
    with Some show ?thesis by simp
  qed
  then show ?thesis by (simp add: revision_media_type_def)
qed

text \<open>A comparison that reports has produced the effective graph of the baseline.\<close>

lemma compare_reingestion_effective:
  assumes G: "cg_inv (bl_corpus baseline)"
    and q0: "q0 \<in> set (cg_revisions (bl_corpus baseline))" "sr_uid q0 = bl_source_revision_uid baseline"
    and report: "compare_reingestion X error_text mint baseline candidate = Inr report"
  shows "\<exists>e. effective_source_graph X (bl_corpus baseline) (bl_source_revision_uid baseline)
      \<lparr>pb_recipe_digest = bl_recipe_digest baseline, pb_input_digest = bl_input_digest baseline\<rparr>
      (sr_media_type q0) = Inr e"
proof -
  have media: "revision_media_type (bl_corpus baseline) (bl_source_revision_uid baseline) = Inr (sr_media_type q0)"
    using revision_media_type_Ok [OF G q0(1)] by (simp add: q0(2))
  from report show ?thesis
    unfolding compare_reingestion_def Let_def media by (simp add: rbind_Ok_iff map_err_Ok_iff split: prod.splits) blast
qed

lemma parser_graph_well_formed:
  assumes G: "cg_inv G" and ok: "corpus_ok X G" and q0: "q0 \<in> set (cg_revisions G)"
  shows "well_formed_forest X (sr_media_type q0) (parser_graph G (sr_uid q0))"
proof (cases "cg_source_graph G (sr_uid q0)")
  case None
  then show ?thesis
    by (simp add: parser_graph_def well_formed_forest_def sg_new_def sg_nodes_def bvals_def
        ordinals_contiguous_def siblings_def contiguous_def)
next
  case (Some g)
  then have "(sr_uid q0, g) \<in> set (cg_source_graphs G)"
    by (simp add: cg_source_graph_def bget_Some_in)
  with ok obtain q where q: "q \<in> set (cg_revisions G)" "sr_uid q = sr_uid q0"
    "well_formed_forest X (sr_media_type q) g" by (auto simp: corpus_ok_def source_graphs_ok_def)
  then have "q = q0" using q0 revision_lookup_iff [OF G, of "sr_uid q0"] by (metis option.inject)
  with q Some show ?thesis by (simp add: parser_graph_def)
qed

lemma identical_planes_report:
  assumes G: "cg_inv (bl_corpus baseline)"
    and same: "identical_planes X baseline candidate"
    and q0: "q0 \<in> set (cg_revisions (bl_corpus baseline))" "sr_uid q0 = bl_source_revision_uid baseline"
    and evs: "evaluate_all_patch_lifecycles X (bl_corpus baseline) = Inr (bl_patch_evaluations baseline)"
    and eff: "effective_source_graph X (bl_corpus baseline) (bl_source_revision_uid baseline)
      \<lparr>pb_recipe_digest = bl_recipe_digest baseline, pb_input_digest = bl_input_digest baseline\<rparr>
      (sr_media_type q0) = Inr e"
    and digests: "\<And>p. p \<in> set (bvals (committed_patches (bl_corpus baseline)
        (bl_source_revision_uid baseline))) \<Longrightarrow>
      sp_reviewed_content_digest p = reviewed_content_digest X p"
    and fin: "graph_finite (parser_graph (bl_corpus baseline) (bl_source_revision_uid baseline))"
  shows "\<exists>report. compare_reingestion X error_text mint baseline candidate = Inr report \<and>
    set (dr_findings report) =
      set (map (unreconciled_finding X (parser_graph (bl_corpus baseline) (sr_uid q0)))
        (filter (ambiguous X (parser_graph (bl_corpus baseline) (sr_uid q0)))
          (sg_nodes (parser_graph (bl_corpus baseline) (sr_uid q0))))) \<union>
      set (concat (map (state_findings (bl_corpus baseline))
        (bvals (committed_patches (bl_corpus baseline) (sr_uid q0)))))"
proof -
  let ?G = "bl_corpus baseline"
  let ?r = "sr_uid q0"
  let ?b = "\<lparr>pb_recipe_digest = bl_recipe_digest baseline, pb_input_digest = bl_input_digest baseline\<rparr>"
  let ?m = "committed_patches ?G ?r"
  let ?g = "parser_graph ?G ?r"
  note r = q0(2) [symmetric]
  from same have c: "rc_parser_graph candidate = ?g" "rc_patch_evaluations candidate = bl_patch_evaluations baseline"
    "map_option (recipe_digest X) (rc_recipe candidate) = Some (bl_recipe_digest baseline)"
    "rc_verified_input_digest candidate = Some (bl_input_digest baseline)"
    "filter (\<lambda>p. sp_source_revision_uid p = ?r) (rc_patches candidate) = bvals ?m"
    by (auto simp: identical_planes_def r bvals_committed)
  from eff have ok: "corpus_ok X ?G" and
    chain: "apply_chain X ?b (sr_media_type q0) ?g (approved_patches ?G ?r) = Some (eg_graph e)"
    by (auto simp: effective_graph_Ok_iff [OF G] r)
  have valid: "cg_validate X ?G = Inr ()" using ok by (simp add: cg_validate_Ok_iff [OF G])
  have inv: "sg_inv ?g" and nodes: "\<forall>n \<in> set (sg_nodes ?g). sn_source_revision_uid n = ?r"
    using parser_graph_of_revision [OF G, of ?r] by (auto simp: of_revision_def sg_nodes_iff_get)
  note wf = parser_graph_well_formed [OF G ok q0(1)]
  have keyed: "patches_keyed ?m" by (rule committed_patches_keyed [OF G])
  have ev: "\<exists>e. bget (bl_patch_evaluations baseline) (sp_uid p) = Some e \<and> pe_state e = patch_state ?G p"
    if "p \<in> set (bvals ?m)" for p
  proof -
    from evaluate_patches_on_accepted [OF G valid] evs have
      "bget (bl_patch_evaluations baseline) (sp_uid p) = map_option (patch_evaluation ?G) (cg_source_patch ?G (sp_uid p))"
      by auto
    moreover have "cg_source_patch ?G (sp_uid p) = Some p"
      using that by (simp add: bvals_committed cg_patches_iff [OF G])
    ultimately show ?thesis by (simp add: patch_evaluation_def)
  qed
  have keys: "dedup (sort (bkeys ?m @ bkeys ?m)) = map sp_uid (bvals ?m)"
    unfolding patches_keyed_uids [OF keyed]
  proof (rule strict_sorted_set_unique)
    show "sorted_wrt (<) (dedup (sort (bkeys ?m @ bkeys ?m)))" by (rule dedup_sorted_strict) simp
    show "sorted_wrt (<) (bkeys ?m)" using keyed by (simp add: patches_keyed_def bwf_def bkeys_def)
  qed simp
  let ?plane = "\<lparr>cp_graph = ?g, cp_patches = bvals ?m, cp_evaluations = bl_patch_evaluations baseline,
      cp_recipe_digest = Some (bl_recipe_digest baseline), cp_input_digest = Some (bl_input_digest baseline)\<rparr>"
  have approved: "filter (\<lambda>p. patch_state ?G p = Approved) (bvals ?m) = approved_patches ?G ?r"
    by (simp add: approved_patches_def bvals_committed)
  have patches: "compare_patches X error_text (sr_media_type q0) ?m (bl_patch_evaluations baseline) ?plane
      = (eg_graph e, concat (map (state_findings ?G) (bvals ?m)))"
    unfolding compare_patches_def candidate_patch_plane.simps group_committed [OF keyed]
    using compare_patch_fold [of "bvals ?m" ?m X "bl_patch_evaluations baseline" ?G ?plane ?b
        "sr_media_type q0" ?g "eg_graph e" error_text "[]"] ev digests chain patches_keyed_get [OF keyed]
    by (simp add: keys approved r)
  have bound: "for_each (\<lambda>node. fail_if (sn_source_revision_uid node \<noteq> ?r)
      (DE_CandidateRevisionMismatch ?r (sn_uid node) (sn_source_revision_uid node))) (sg_nodes ?g) = Inr ()"
    using nodes by (simp add: for_each_Ok_iff fail_if_Ok_iff)
  have have_evs: "for_each (\<lambda>u. fail_if (bget (bl_patch_evaluations baseline) u = None)
      (DE_MissingPatchEvaluation ''committed'' u)) (bkeys ?m) = Inr ()"
    "for_each (\<lambda>p. fail_if (bget (bl_patch_evaluations baseline) (sp_uid p) = None)
      (DE_MissingPatchEvaluation ''candidate'' (sp_uid p))) (bvals ?m) = Inr ()"
    using ev by (force simp: for_each_Ok_iff fail_if_Ok_iff patches_keyed_uids [OF keyed, symmetric])+
  have standalone: "validate_graph_standalone X ?r (sr_media_type q0) ?g = Inr ()"
    using wf by (simp add: validate_graph_standalone_Ok_iff [OF inv])
  have nodes_self: "compare_nodes X mint ?g ?g
      = map (unreconciled_finding X ?g) (filter (ambiguous X ?g) (sg_nodes ?g))"
    using fin by (intro compare_nodes_self [OF inv wf]) (simp add: r)
  show ?thesis
    unfolding compare_reingestion_def Let_def r c valid revision_media_type_Ok [OF G q0(1)] bound
      standalone have_evs patches nodes_self identity_findings_self [OF same]
    using eff by (simp add: r effective_finding_def standalone patches)
qed

end
