(* ===== verification/Drift_Sound.thy ===== *)
theory Drift_Sound
  imports Drift_Spec "HOL-Library.Multiset"
begin

text \<open>
  An empty node plane is an isomorphism: when the comparison of two parser graphs reports nothing,
  the candidate graph is the committed one up to the renaming of uids.
\<close>

section \<open>The pairs cover both sides\<close>

lemma pool_of_group_by: "pool_of (group_by f xs) k = filter (\<lambda>x. f x = k) xs"
proof (cases "bget (group_by f xs) k")
  case None
  have "f x \<noteq> k" if "x \<in> set xs" for x
  proof
    assume "f x = k"
    with that have "(k, filter (\<lambda>x. f x = k) xs) \<in> set (group_by f xs)" by (auto simp: group_by_entry)
    with None show False by (simp add: bget_None_iff) force
  qed
  with None show ?thesis by (simp add: pool_of_def filter_empty_conv [symmetric])
next
  case (Some ys)
  then have "(k, ys) \<in> set (group_by f xs)" by (rule bget_Some_in)
  with Some show ?thesis by (simp add: pool_of_def group_by_entry)
qed

lemma keys_group_by: "set (bkeys (group_by f xs)) = f ` set xs"
proof -
  have "k \<in> set (bkeys (group_by f xs)) \<longleftrightarrow> k \<in> f ` set xs" for k
  proof -
    have "k \<in> set (bkeys (group_by f xs)) \<longleftrightarrow> (\<exists>g. (k, g) \<in> set (group_by f xs))"
      by (force simp: bkeys_def)
    then show ?thesis by (auto simp: group_by_entry)
  qed
  then show ?thesis by blast
qed

lemma concat_groups:
  "distinct ks \<Longrightarrow> mset (concat (map (\<lambda>k. filter (\<lambda>x. f x = k) xs) ks))
    = mset (filter (\<lambda>x. f x \<in> set ks) xs)"
proof (induction ks)
  case (Cons k ks)
  have "mset (filter (\<lambda>x. f x \<in> set (k # ks)) xs) =
      mset (filter (\<lambda>x. f x = k) xs) + mset (filter (\<lambda>x. f x \<in> set ks) xs)"
    using Cons.prems by (induction xs) auto
  with Cons show ?case by simp
qed simp

lemma concat_groups_all:
  assumes "distinct ks" "f ` set xs \<subseteq> set ks"
  shows "mset (concat (map (\<lambda>k. filter (\<lambda>x. f x = k) xs) ks)) = mset xs"
proof -
  have "filter (\<lambda>x. f x \<in> set ks) xs = xs" using assms(2) by (intro filter_True) blast
  with concat_groups [OF assms(1), of f xs] show ?thesis by simp
qed

lemma content_pass_spec:
  assumes "content_pass pool cs = (ps, ds)" "pool_ok pool" "inj_on sn_uid (pool_uids pool)"
    "distinct (map sn_uid cs)"
  shows "distinct (map fst ps) \<and> fst ` set ps \<subseteq> sn_uid ` pool_uids pool \<and>
    mset (map snd ps) + mset (map sn_uid ds) = mset (map sn_uid cs) \<and> set ds \<subseteq> set cs"
  using assms
proof (induction cs arbitrary: pool ps ds)
  case (Cons c cs)
  let ?key = "std_str (sn_content_sha256 c)"
  show ?case
  proof (cases "\<exists>m ms. bget pool ?key = Some (m # ms)")
    case True
    then obtain m ms where key: "bget pool ?key = Some (m # ms)" by blast
    obtain qs es where run: "content_pass (bins ?key ms pool) cs = (qs, es)" by fastforce
    with Cons.prems(1) key have eq: "ps = (sn_uid m, sn_uid c) # qs" "ds = es" by auto
    note rest = pool_consume [OF Cons.prems(2) key]
    have "inj_on sn_uid (pool_uids (bins ?key ms pool))"
      using Cons.prems(3) rest(2) by (meson Diff_subset inj_on_subset subset_trans)
    from Cons.IH [OF run rest(1) this] Cons.prems(4) have
      IH: "distinct (map fst qs)" "fst ` set qs \<subseteq> sn_uid ` pool_uids (bins ?key ms pool)"
      "mset (map snd qs) + mset (map sn_uid es) = mset (map sn_uid cs)" "set es \<subseteq> set cs" by auto
    have m: "m \<in> pool_uids pool" unfolding pool_uids_def using key by force
    have "sn_uid m \<notin> sn_uid ` pool_uids (bins ?key ms pool)"
      using Cons.prems(3) m rest(2) by (auto dest!: inj_onD)
    moreover have "fst ` set qs \<subseteq> sn_uid ` pool_uids pool" using IH(2) rest(2) by blast
    ultimately show ?thesis using IH m unfolding eq by auto
  next
    case False
    obtain qs es where run: "content_pass pool cs = (qs, es)" by fastforce
    with Cons.prems(1) False have eq: "ps = qs" "ds = c # es" by (auto split: option.splits list.splits)
    from Cons.IH [OF run Cons.prems(2,3)] Cons.prems(4) show ?thesis unfolding eq by auto
  qed
qed simp

lemma content_pool_ok:
  assumes "distinct (map sn_uid ns)"
  shows "pool_ok (group_by f ns)" "pool_uids (group_by f ns) = set ns"
proof -
  have b: "bget (group_by f ns) k = Some us \<longleftrightarrow> (\<exists>x \<in> set ns. f x = k) \<and> us = filter (\<lambda>x. f x = k) ns" for k us
    by (simp add: bget_iff_in group_by_entry)
  show "pool_uids (group_by f ns) = set ns" by (auto simp: pool_uids_def b)
  show "pool_ok (group_by f ns)"
    using assms by (auto simp: pool_ok_def b distinct_map)
qed

lemma pair_pools_full:
  assumes "length as = length bs"
  shows "map fst (pair_pools as bs) = map sn_uid as" "map snd (pair_pools as bs) = map sn_uid bs"
  using assms by (induction as bs rule: list_induct2) (simp_all add: pair_pools_def)

lemma no_leftover:
  "concat (map (\<lambda>k. map sn_uid (drop (length (B k)) (A k))) ks) = [] \<Longrightarrow> k \<in> set ks \<Longrightarrow>
    length (A k) \<le> length (B k)"
  by (simp add: concat_eq_Nil_conv)

lemma relaxed_pairs_cover:
  assumes run: "relaxed_pairs X committed candidates g h = (ps, [], [])"
    and d: "distinct (map sn_uid committed)" "distinct (map sn_uid candidates)"
  shows "distinct (map fst ps) \<and> fst ` set ps = sn_uid ` set committed \<and>
    distinct (map snd ps) \<and> snd ` set ps = sn_uid ` set candidates"
proof -
  obtain qs ds where cp: "content_pass (group_by (\<lambda>n. std_str (sn_content_sha256 n)) committed) candidates
      = (qs, ds)" by fastforce
  let ?rest = "filter (\<lambda>n. sn_uid n \<notin> fst ` set qs) committed"
  let ?fa = "\<lambda>n. relax (structural_key X n g)" and ?fb = "\<lambda>n. relax (structural_key X n h)"
  let ?A = "\<lambda>k. filter (\<lambda>n. ?fa n = k) ?rest" and ?B = "\<lambda>k. filter (\<lambda>n. ?fb n = k) ds"
  let ?ks = "dedup (sort (bkeys (group_by ?fa ?rest) @ bkeys (group_by ?fb ds)))"
  from run have ps: "ps = qs @ concat (map (\<lambda>k. pair_pools (?A k) (?B k)) ?ks)"
    and la: "concat (map (\<lambda>k. map sn_uid (drop (length (?B k)) (?A k))) ?ks) = []"
    and lb: "concat (map (\<lambda>k. map sn_uid (drop (length (?A k)) (?B k))) ?ks) = []"
    by (auto simp: relaxed_pairs_def cp Let_def pool_of_group_by)
  have len: "length (?A k) = length (?B k)" if "k \<in> set ?ks" for k
    by (rule le_antisym [OF no_leftover [OF la that] no_leftover [OF lb that]])
  have ks: "distinct ?ks" "?fa ` set ?rest \<subseteq> set ?ks" "?fb ` set ds \<subseteq> set ?ks"
    using dedup_sorted_strict [of "sort (bkeys (group_by ?fa ?rest) @ bkeys (group_by ?fb ds))"]
    by (auto simp: strict_sorted_iff keys_group_by)
  have "map fst (concat (map (\<lambda>k. pair_pools (?A k) (?B k)) ?ks)) = map sn_uid (concat (map ?A ?ks))"
    "map snd (concat (map (\<lambda>k. pair_pools (?A k) (?B k)) ?ks)) = map sn_uid (concat (map ?B ?ks))"
    unfolding map_concat using len by (auto intro!: arg_cong [of _ _ concat] simp: pair_pools_full)
  moreover have "mset (concat (map ?A ?ks)) = mset ?rest"
    by (rule concat_groups_all [OF ks(1,2)])
  moreover have "mset (concat (map ?B ?ks)) = mset ds"
    by (rule concat_groups_all [OF ks(1,3)])
  ultimately have tail: "mset (map fst (concat (map (\<lambda>k. pair_pools (?A k) (?B k)) ?ks))) = mset (map sn_uid ?rest)"
    "mset (map snd (concat (map (\<lambda>k. pair_pools (?A k) (?B k)) ?ks))) = mset (map sn_uid ds)"
    by (simp_all only: mset_map)
  note pool = content_pool_ok [OF d(1), of "\<lambda>n. std_str (sn_content_sha256 n)"]
  have "inj_on sn_uid (pool_uids (group_by (\<lambda>n. std_str (sn_content_sha256 n)) committed))"
    using d(1) by (simp add: pool(2) distinct_map)
  from content_pass_spec [OF cp pool(1) this d(2)] have
    q: "distinct (map fst qs)" "fst ` set qs \<subseteq> sn_uid ` set committed"
    "mset (map snd qs) + mset (map sn_uid ds) = mset (map sn_uid candidates)" by (auto simp: pool(2))
  have snds: "mset (map snd ps) = mset (map sn_uid candidates)"
    using q(3) tail(2) by (simp add: ps)
  have fsts: "mset (map fst ps) = mset (map fst qs) + mset (map sn_uid ?rest)"
    using tail(1) by (simp add: ps)
  have "set (map fst ps) = fst ` set qs \<union> sn_uid ` set ?rest"
    using arg_cong [OF fsts, of set_mset] by simp
  also have "\<dots> = sn_uid ` set committed" using q(2) by auto
  finally have s: "fst ` set ps = sn_uid ` set committed" by simp
  have "set (map fst qs) \<inter> set (map sn_uid ?rest) = {}" by force
  then have "distinct (map fst qs @ map sn_uid ?rest)"
    using q(1) d(1) by (simp add: distinct_map_filter)
  then have "distinct (map fst ps)" using fsts by (metis mset_append mset_eq_imp_distinct_iff)
  moreover have "distinct (map snd ps)" using snds d(2) by (metis mset_eq_imp_distinct_iff)
  moreover have "snd ` set ps = sn_uid ` set candidates"
    using mset_eq_setD [OF snds] by simp
  ultimately show ?thesis using s by simp
qed

section \<open>The loops\<close>

definition hit :: "source_graph \<Rightarrow> uid \<times> source_node \<Rightarrow> bool" where
  "hit g z \<longleftrightarrow> sg_get g (fst z) \<noteq> None"

definition reconciled_entry :: "uid \<times> source_node \<Rightarrow> reconciled_node" where
  "reconciled_entry z = \<lparr>rn_uid = fst z, rn_candidate = to_candidate (snd z)\<rparr>"

lemma scan_zip:
  fixes st :: node_scan and pools :: "(structural_key, uid list) bmap" and X :: platform
    and g c :: source_graph and zs :: "(uid \<times> source_node) list"
  assumes g: "sg_inv g" and zs: "\<And>u n. (u, n) \<in> set zs \<Longrightarrow> sg_get c (sn_uid n) = Some n"
  defines "run \<equiv> foldl (scan_reconciled X g c pools) st (map reconciled_entry zs)"
  shows "ns_matched run = ns_matched st @ map fst (filter (hit g) zs) \<and>
    ns_unmatched run = ns_unmatched st @ map snd (filter (\<lambda>z. \<not> hit g z) zs) \<and>
    (\<exists>fs. ns_findings run = ns_findings st @ fs \<and> (fs = [] \<longrightarrow>
      ns_pairs run = ns_pairs st @ map (\<lambda>z. (the (sg_get g (fst z)), snd z)) (filter (hit g) zs)))"
  unfolding run_def using zs
proof (induction zs arbitrary: st)
  case (Cons z zs)
  obtain u n where z: "z = (u, n)" by (cases z)
  have get: "sg_get c (sn_uid n) = Some n" by (rule Cons.prems [of u]) (simp add: z)
  let ?st = "scan_reconciled X g c pools st (reconciled_entry z)"
  from Cons.IH [of ?st] Cons.prems have IH:
    "ns_matched (foldl (scan_reconciled X g c pools) ?st (map reconciled_entry zs))
      = ns_matched ?st @ map fst (filter (hit g) zs)"
    "ns_unmatched (foldl (scan_reconciled X g c pools) ?st (map reconciled_entry zs))
      = ns_unmatched ?st @ map snd (filter (\<lambda>z. \<not> hit g z) zs)"
    "\<exists>fs. ns_findings (foldl (scan_reconciled X g c pools) ?st (map reconciled_entry zs))
      = ns_findings ?st @ fs \<and> (fs = [] \<longrightarrow>
        ns_pairs (foldl (scan_reconciled X g c pools) ?st (map reconciled_entry zs))
          = ns_pairs ?st @ map (\<lambda>z. (the (sg_get g (fst z)), snd z)) (filter (hit g) zs))"
    by auto
  show ?case
  proof (cases "sg_get g u")
    case None
    then have "?st = st\<lparr>ns_unmatched := ns_unmatched st @ [n]\<rparr>" "\<not> hit g z"
      using get by (simp_all add: scan_reconciled_def reconciled_entry_def to_candidate_def z hit_def)
    with IH show ?thesis by (simp add: z)
  next
    case (Some m)
    then have m: "sn_uid m = u" "hit g z" using sg_get_uid [OF g] by (auto simp: hit_def z)
    let ?pool = "case bget pools (structural_key X m g) of Some us \<Rightarrow> us | None \<Rightarrow> []"
    let ?fs = "if 1 < length ?pool then [\<lparr>df_category = NodeUnreconciled,
        df_structural_path = Some (structural_path g u), df_node_uid = Some (sn_uid n),
        df_patch_uid = None, df_detail = AmbiguousKey ?pool\<rparr>] else []"
    obtain fs where st: "ns_matched ?st = ns_matched st @ [u]" "ns_unmatched ?st = ns_unmatched st"
      "ns_findings ?st = ns_findings st @ fs" "fs = [] \<Longrightarrow> ns_pairs ?st = ns_pairs st @ [(m, n)]"
      using get Some m(1)
      by (intro that [of ?fs]) (auto simp: scan_reconciled_def reconciled_entry_def to_candidate_def z Let_def)
    from IH(3) obtain fs' where fs': "ns_findings (foldl (scan_reconciled X g c pools) ?st
        (map reconciled_entry zs)) = ns_findings ?st @ fs'"
      "fs' = [] \<Longrightarrow> ns_pairs (foldl (scan_reconciled X g c pools) ?st (map reconciled_entry zs))
          = ns_pairs ?st @ map (\<lambda>z. (the (sg_get g (fst z)), snd z)) (filter (hit g) zs)" by blast
    have "\<exists>fs. ns_findings (foldl (scan_reconciled X g c pools) st (map reconciled_entry (z # zs)))
        = ns_findings st @ fs \<and> (fs = [] \<longrightarrow>
        ns_pairs (foldl (scan_reconciled X g c pools) st (map reconciled_entry (z # zs)))
          = ns_pairs st @ map (\<lambda>z. (the (sg_get g (fst z)), snd z)) (filter (hit g) (z # zs)))"
      using fs' st(3,4) Some m(2) by (intro exI [of _ "fs @ fs'"]) (simp add: z)
    with IH(1,2) st(1,2) m(2) show ?thesis by (simp add: z)
  qed
qed simp

lemma relaxed_fold:
  assumes "\<And>a b. (a, b) \<in> set ps \<Longrightarrow> sg_get g a \<noteq> None \<and> sg_get c b \<noteq> None"
  shows "foldl (relaxed_step g c) (m, qs) ps =
    (fold (\<lambda>p. bins (snd p) (fst p)) ps m, qs @ map (\<lambda>(a, b). (the (sg_get g a), the (sg_get c b))) ps)"
  using assms
proof (induction ps arbitrary: m qs)
  case (Cons p ps)
  obtain a b where p: "p = (a, b)" by (cases p)
  have "sg_get g a \<noteq> None \<and> sg_get c b \<noteq> None" by (rule Cons.prems) (simp add: p)
  then have step: "relaxed_step g c (m, qs) p
      = (bins b a m, qs @ [(the (sg_get g a), the (sg_get c b))])"
    by (auto simp: p relaxed_step_def)
  have "\<And>a b. (a, b) \<in> set ps \<Longrightarrow> sg_get g a \<noteq> None \<and> sg_get c b \<noteq> None"
    by (rule Cons.prems) simp
  from Cons.IH [OF this] show ?case by (simp add: step [unfolded p] p)
qed simp

section \<open>Isomorphic graphs\<close>

text \<open>The fields that a comparison reports on, up to the parent.\<close>

definition same_fields :: "platform \<Rightarrow> source_node \<Rightarrow> source_node \<Rightarrow> bool" where
  "same_fields X m n \<longleftrightarrow> sn_kind m = sn_kind n \<and> sn_ordinal m = sn_ordinal n \<and> sn_label m = sn_label n \<and>
    sn_canonical_text m = sn_canonical_text n \<and> sn_content_sha256 m = sn_content_sha256 n \<and>
    sn_fingerprint m = sn_fingerprint n \<and> compare_locators X m n = []"

definition renamed_by ::
  "platform \<Rightarrow> (uid \<Rightarrow> uid) \<Rightarrow> source_graph \<Rightarrow> source_graph \<Rightarrow> bool" where
  "renamed_by X f committed candidate \<longleftrightarrow>
    bij_betw f (sn_uid ` set (sg_nodes candidate)) (sn_uid ` set (sg_nodes committed)) \<and>
    (\<forall>n \<in> set (sg_nodes candidate). \<exists>m \<in> set (sg_nodes committed). sn_uid m = f (sn_uid n) \<and>
      same_fields X m n \<and> sn_parent_uid m = map_option f (sn_parent_uid n))"

text \<open>The uids of a committed graph carry their prefix, so no uid reads like the two renderings a
  report uses in its place.\<close>

definition native_uids :: "source_graph \<Rightarrow> bool" where
  "native_uids g \<longleftrightarrow> (\<forall>n \<in> set (sg_nodes g). \<exists>s. sn_uid n = snode_uid_prefix @ s)"

lemma compare_matched_Nil:
  assumes "compare_matched X g m (a, n) = []"
  shows "same_fields X a n" "fst (rendered_parents a n g m) = snd (rendered_parents a n g m)"
  using assms by (auto simp: compare_matched_def field_changes_def same_fields_def split: prod.splits)

lemma matched_parents:
  assumes g: "sg_inv g" and native: "native_uids g" and a: "sn_parent_uid a = None \<or>
      (\<exists>p. sn_parent_uid a = Some p \<and> sg_get g p \<noteq> None)"
    and m: "\<And>p. sn_parent_uid n = Some p \<Longrightarrow> bget m p = Some (f p) \<and> sg_get g (f p) \<noteq> None"
    and eq: "fst (rendered_parents a n g m) = snd (rendered_parents a n g m)"
  shows "sn_parent_uid a = map_option f (sn_parent_uid n)"
proof -
  have root: "q \<noteq> ''<root>''" if "sg_get g q \<noteq> None" for q
  proof
    assume "q = ''<root>''"
    moreover from that obtain k where "sg_get g q = Some k" by blast
    ultimately have "k \<in> set (sg_nodes g)" "sn_uid k = ''<root>''"
      using sg_get_in_nodes sg_get_uid [OF g] by blast+
    with native show False by (auto simp: native_uids_def snode_uid_prefix_def)
  qed
  show ?thesis
  proof (cases "sn_parent_uid n")
    case None
    with eq have "(case sn_parent_uid a of Some p \<Rightarrow> p | None \<Rightarrow> ''<root>'') = ''<root>''"
      by (simp add: rendered_parents_def)
    with a root None show ?thesis by auto
  next
    case (Some p)
    from m [OF Some] eq Some have "(case sn_parent_uid a of Some p \<Rightarrow> p | None \<Rightarrow> ''<root>'') = f p"
      by (simp add: rendered_parents_def)
    with a root m [OF Some] Some show ?thesis by (cases "sn_parent_uid a") auto
  qed
qed

lemma bget_fold_bins_in:
  assumes "distinct (map k xs)" "x \<in> set xs"
  shows "bget (fold (\<lambda>x. bins (k x) (h x)) xs m) (k x) = Some (h x)"
  using assms by (induction xs arbitrary: m rule: rev_induct) (auto simp: image_iff)

lemma bget_fold_bins_out:
  "v \<notin> k ` set xs \<Longrightarrow> bget (fold (\<lambda>x. bins (k x) (h x)) xs m) v = bget m v"
  by (induction xs arbitrary: m) auto

lemma reconcile_zip:
  obtains zs where "reconcile X mint g (map to_candidate ns) = map reconciled_entry zs"
    "map snd zs = ns" "map fst zs = map rn_uid (reconcile X mint g (map to_candidate ns))"
proof -
  let ?es = "reconcile X mint g (map to_candidate ns)"
  have c: "map rn_candidate ?es = map to_candidate ns"
    by (simp add: reconcile_def Let_def reconcile_candidates comp_def)
  then have len: "length ?es = length ns" using map_eq_imp_length_eq by blast
  let ?zs = "zip (map rn_uid ?es) ns"
  have "?es = map reconciled_entry ?zs"
  proof (rule nth_equalityI)
    fix i assume i: "i < length ?es"
    have "rn_candidate (?es ! i) = to_candidate (ns ! i)"
      using arg_cong [OF c, of "\<lambda>xs. xs ! i"] i len by simp
    then show "?es ! i = map reconciled_entry ?zs ! i"
      using i len by (cases "?es ! i") (simp add: reconciled_entry_def)
  qed (simp add: len)
  with len show ?thesis by (intro that [of ?zs]) simp_all
qed

text \<open>A list of uid pairs that is distinct on both sides is a bijection.\<close>

lemma pairs_bij:
  assumes "distinct (map fst P)" "distinct (map snd P)"
  obtains f where "bij_betw f (snd ` set P) (fst ` set P)" "\<And>a b. (a, b) \<in> set P \<Longrightarrow> f b = a"
proof
  let ?f = "\<lambda>b. the (map_of (map prod.swap P) b)"
  have swap: "map fst (map prod.swap P) = map snd P" by simp
  show f: "?f b = a" if "(a, b) \<in> set P" for a b
  proof -
    have "(b, a) \<in> set (map prod.swap P)" using that by force
    moreover have "distinct (map fst (map prod.swap P))" using assms(2) by (simp only: swap)
    ultimately have "map_of (map prod.swap P) b = Some a" by (intro map_of_is_SomeI)
    then show ?thesis by simp
  qed
  show "bij_betw ?f (snd ` set P) (fst ` set P)"
  proof (rule bij_betw_imageI)
    show "inj_on ?f (snd ` set P)"
    proof (rule inj_onI)
      fix b b' assume "b \<in> snd ` set P" "b' \<in> snd ` set P" "?f b = ?f b'"
      then obtain a where "(a, b) \<in> set P" "(a, b') \<in> set P" using f by fastforce
      moreover have "inj_on fst (set P)" using assms(1) by (simp add: distinct_map)
      ultimately have "(a, b) = (a, b')" by (intro inj_onD [of fst "set P"]) simp_all
      then show "b = b'" by simp
    qed
    show "?f ` snd ` set P = fst ` set P"
      using f by (force simp: image_iff)
  qed
qed

lemma compare_nodes_sound:
  assumes g: "sg_inv g" "well_formed_forest X mt g" "native_uids g"
    and c: "sg_inv c" "well_formed_forest X mt c"
    and mint: "inj mint" "range mint \<inter> sn_uid ` set (sg_nodes g) = {}"
    and none: "compare_nodes X mint g c = []"
  shows "\<exists>f. renamed_by X f g c"
proof -
  let ?N = "sg_nodes c"
  let ?init = "\<lparr>ns_matched = [], ns_pairs = [], ns_unmatched = [], ns_findings = []\<rparr>"
  obtain zs where es: "reconcile X mint g (map to_candidate ?N) = map reconciled_entry zs"
    and snd_zs: "map snd zs = ?N"
    and fst_zs: "map fst zs = map rn_uid (reconcile X mint g (map to_candidate ?N))"
    by (rule reconcile_zip)
  have dfst: "distinct (map fst zs)" unfolding fst_zs by (rule reconcile_distinct_uids [OF g(1) mint])
  have dsnd: "distinct (map (\<lambda>z. sn_uid (snd z)) zs)"
    using sg_nodes_distinct [OF c(1)] by (simp flip: snd_zs add: comp_def)
  have zget: "sg_get c (sn_uid n) = Some n" if "(u, n) \<in> set zs" for u n
  proof -
    have "n \<in> set ?N" using that by (force simp flip: snd_zs)
    then show ?thesis by (simp add: sg_nodes_iff_get [OF c(1)])
  qed
  let ?M = "filter (hit g) zs" and ?U = "filter (\<lambda>z. \<not> hit g z) zs"
  let ?run = "foldl (scan_reconciled X g c (key_pool X g)) ?init (map reconciled_entry zs)"
  from scan_zip [OF g(1) zget, where X = X and pools = "key_pool X g" and st = ?init] obtain fs where
    run: "ns_matched ?run = map fst ?M" "ns_unmatched ?run = map snd ?U" "ns_findings ?run = fs"
      "fs = [] \<Longrightarrow> ns_pairs ?run = map (\<lambda>z. (the (sg_get g (fst z)), snd z)) ?M" by auto
  let ?uc = "filter (\<lambda>n. sn_uid n \<notin> set (map fst ?M)) (sg_nodes g)"
  let ?base = "fold (\<lambda>e. bins (cn_provisional_id (rn_candidate e)) (rn_uid e)) (map reconciled_entry zs) []"
  obtain R lc ln where rp: "relaxed_pairs X ?uc (map snd ?U) g c = (R, lc, ln)" by (metis prod_cases3)
  obtain m' qs where rf: "foldl (relaxed_step g c) (?base, ns_pairs ?run) R = (m', qs)" by fastforce
  have parts: "fs = []" "concat (map (compare_matched X g m') qs) = []" "lc = []" "ln = []"
    using none unfolding compare_nodes_def Let_def es run(1,2) rp prod.case rf run(3) by auto
  note cover = relaxed_pairs_cover [OF rp [unfolded parts]]
  have duc: "distinct (map sn_uid ?uc)" using sg_nodes_distinct [OF g(1)] by (simp add: distinct_map_filter)
  have "distinct (map sn_uid (map snd ?U))"
    using dsnd by (simp add: comp_def distinct_map_filter)
  from cover [OF duc this] have R: "distinct (map fst R)" "fst ` set R = sn_uid ` set ?uc"
    "distinct (map snd R)" "snd ` set R = sn_uid ` snd ` set ?U" by auto
  define P where "P = map (\<lambda>z. (fst z, sn_uid (snd z))) ?M @ R"
  have hits: "fst ` set ?M \<subseteq> sn_uid ` set (sg_nodes g)"
    using sg_get_in_nodes sg_get_uid [OF g(1)] by (force simp: hit_def)
  have P: "distinct (map fst P)" "fst ` set P = sn_uid ` set (sg_nodes g)"
    "distinct (map snd P)" "snd ` set P = sn_uid ` set ?N"
    unfolding atomize_conj
  proof (intro conjI)
    have "distinct (map fst ?M)" using dfst by (simp add: distinct_map_filter)
    moreover have "fst ` set ?M \<inter> fst ` set R = {}" unfolding R(2) by force
    ultimately show "distinct (map fst P)" using R(1) by (simp add: P_def comp_def image_image)
    have "fst ` set P = fst ` set ?M \<union> fst ` set R" by (force simp: P_def)
    also have "\<dots> = sn_uid ` set (sg_nodes g)" using hits by (force simp: R(2))
    finally show "fst ` set P = sn_uid ` set (sg_nodes g)" .
    have "distinct (map (\<lambda>z. sn_uid (snd z)) ?M)" using dsnd by (simp add: distinct_map_filter)
    moreover have "(\<lambda>z. sn_uid (snd z)) ` set ?M \<inter> snd ` set R = {}"
      using dsnd by (auto simp: R(4) distinct_map inj_on_def)
    ultimately show "distinct (map snd P)" using R(3) by (simp add: P_def comp_def image_image)
    have "snd ` set P = (\<lambda>z. sn_uid (snd z)) ` set ?M \<union> sn_uid ` snd ` set ?U"
      by (auto simp: P_def image_Un image_image R(4))
    also have "\<dots> = (\<lambda>z. sn_uid (snd z)) ` set zs" by auto
    also have "\<dots> = sn_uid ` set ?N" by (simp flip: snd_zs add: image_image)
    finally show "snd ` set P = sn_uid ` set ?N" .
  qed
  from pairs_bij [OF P(1,3)] obtain f where
    f: "bij_betw f (sn_uid ` set ?N) (sn_uid ` set (sg_nodes g))" "\<And>a b. (a, b) \<in> set P \<Longrightarrow> f b = a"
    unfolding P(2,4) by blast
  have ing: "sg_get g a \<noteq> None" if "a \<in> fst ` set P" for a
    using that unfolding P(2) by (auto simp: sg_nodes_iff_get [OF g(1)])
  have inc: "\<exists>n. sg_get c b = Some n" if "b \<in> snd ` set P" for b
    using that unfolding P(4) by (auto simp: sg_nodes_iff_get [OF c(1)])
  have sub: "fst ` set R \<subseteq> fst ` set P" "snd ` set R \<subseteq> snd ` set P" by (auto simp: P_def)
  have "sg_get g a \<noteq> None \<and> sg_get c b \<noteq> None" if "(a, b) \<in> set R" for a b
    using that ing [of a] inc [of b] sub by force
  from relaxed_fold [OF this, of R] rf have m': "m' = fold (\<lambda>p. bins (snd p) (fst p)) R ?base"
    and qs: "qs = map (\<lambda>z. (the (sg_get g (fst z)), snd z)) ?M
      @ map (\<lambda>(a, b). (the (sg_get g a), the (sg_get c b))) R"
    using run(4) [OF parts(1)] by auto
  have base: "?base = fold (\<lambda>z. bins (sn_uid (snd z)) (fst z)) zs []"
    by (simp add: fold_map comp_def reconciled_entry_def to_candidate_def)
  have get': "bget m' b = Some (f b)" if "b \<in> sn_uid ` set ?N" for b
  proof -
    from that obtain a where ab: "(a, b) \<in> set P" unfolding P(4) [symmetric] by force
    show ?thesis
    proof (cases "b \<in> snd ` set R")
      case True
      then obtain a' where "(a', b) \<in> set R" by force
      with f(2) [of a' b] bget_fold_bins_in [OF R(3), of "(a', b)" fst ?base] show ?thesis
        by (simp add: m' P_def)
    next
      case False
      with ab obtain z where z: "z \<in> set ?M" "a = fst z" "b = sn_uid (snd z)"
        by (force simp: P_def)
      have "bget m' b = bget ?base b"
        unfolding m' using bget_fold_bins_out [OF False, of fst ?base] by simp
      also have "\<dots> = Some a"
        using z bget_fold_bins_in [OF dsnd, of z fst "[]"] unfolding base by simp
      finally show ?thesis using f(2) [OF ab] by simp
    qed
  qed
  have "\<exists>m \<in> set (sg_nodes g). sn_uid m = f (sn_uid n) \<and> same_fields X m n \<and>
      sn_parent_uid m = map_option f (sn_parent_uid n)" if n: "n \<in> set ?N" for n
  proof -
    from n have "sn_uid n \<in> snd ` set P" unfolding P(4) by blast
    then obtain a where ab: "(a, sn_uid n) \<in> set P" by force
    then have "sg_get g a \<noteq> None" by (intro ing) force
    then obtain m where m: "sg_get g a = Some m" by blast
    have getn: "sg_get c (sn_uid n) = Some n" using n by (simp add: sg_nodes_iff_get [OF c(1)])
    have "(m, n) \<in> set qs"
    proof (cases "(a, sn_uid n) \<in> set R")
      case True
      then show ?thesis using m getn by (force simp: qs)
    next
      case False
      with ab obtain z where z: "z \<in> set ?M" "a = fst z" "sn_uid n = sn_uid (snd z)"
        by (force simp: P_def)
      then have "snd z \<in> set ?N" by (auto simp flip: snd_zs)
      with z(3) n have "n = snd z" using sg_nodes_uid_inj [OF c(1)] by blast
      with z m show ?thesis by (force simp: qs)
    qed
    with parts(2) have same: "compare_matched X g m' (m, n) = []" by (auto simp: concat_eq_Nil_conv)
    have node: "m \<in> set (sg_nodes g)" "sn_uid m = a"
      using m sg_get_in_nodes sg_get_uid [OF g(1)] by blast+
    have mp: "sn_parent_uid m = None \<or> (\<exists>p. sn_parent_uid m = Some p \<and> sg_get g p \<noteq> None)"
      using forest_parent [OF g(2) node(1)] by (cases "sn_parent_uid m") auto
    have np: "bget m' p = Some (f p) \<and> sg_get g (f p) \<noteq> None" if "sn_parent_uid n = Some p" for p
    proof -
      from forest_parent [OF c(2) n that] obtain q where "sg_get c p = Some q" by blast
      then have p: "p \<in> sn_uid ` set ?N" using sg_get_in_nodes sg_get_uid [OF c(1)] by blast
      then have "f p \<in> sn_uid ` set (sg_nodes g)" using f(1) by (auto simp: bij_betw_def)
      then have "sg_get g (f p) \<noteq> None" by (intro ing) (simp add: P(2))
      with get' [OF p] show ?thesis by simp
    qed
    from compare_matched_Nil [OF same] have "same_fields X m n"
      "sn_parent_uid m = map_option f (sn_parent_uid n)"
      using matched_parents [OF g(1,3) mp np] by blast+
    with node f(2) [OF ab] show ?thesis by (intro bexI [of _ m] conjI) simp_all
  qed
  with f(1) show ?thesis by (auto simp: renamed_by_def)
qed

end
