(* ===== verification/Drift_Properties.thy ===== *)
theory Drift_Properties
  imports Drift_Sound Demo_Corpus
begin

text \<open>
  The properties of structural identity and of the drift comparison, on a corpus with one revision,
  its committed graph and a draft patch.
\<close>

section \<open>Concrete inputs\<close>

definition demo_node_mint :: "nat \<Rightarrow> uid" where
  "demo_node_mint k = ''m'' @ show_nat k"

lemma demo_node_mint_fresh: "inj demo_node_mint" "range demo_node_mint \<inter> sn_uid ` set (sg_nodes demo_graph) = {}"
  by (auto simp: inj_def demo_node_mint_def demo_sg_nodes dest: show_nat_inj)

lemma demo_structural_keys:
  "structural_key demo_platform demo_root demo_graph
    = FingerprintKey (fingerprint demo_platform Section None [])"
  "structural_key demo_platform demo_first demo_graph
    = PositionKey (FingerprintKey (fingerprint demo_platform Section None [])) Paragraph 0"
  "structural_key demo_platform demo_second demo_graph
    = PositionKey (FingerprintKey (fingerprint demo_platform Section None [])) Section 1"
  "structural_key demo_platform demo_leaf demo_graph
    = PositionKey (PositionKey (FingerprintKey (fingerprint demo_platform Section None [])) Section 1)
        Paragraph 0"
  by (simp_all add: structural_key_def explicit_identity_def ancestor_chain.simps fold_tier_def
      demo_graph_def demo_nodes demo_locator_def)

lemma demo_keys_distinct: "keys_distinct demo_platform demo_graph"
  by (simp add: keys_distinct_def demo_sg_nodes demo_structural_keys)

lemma demo_graph_finite: "graph_finite demo_graph"
  by (simp add: graph_finite_def demo_sg_nodes) (simp add: demo_nodes demo_locator_def)

lemma demo_native: "native_uids demo_graph"
  by (simp add: native_uids_def demo_sg_nodes snode_uid_prefix_def)

definition drift_corpus :: corpus_graph where
  "drift_corpus = \<lparr>cg_nodes = [(''src_1'', SourceRevision (demo_revision ''src_1'' ''guide'' []))],
     cg_trace_metadata = [], cg_source_graphs = [(''src_1'', demo_graph)],
     cg_source_patches = [(''patch_1'', demo_patch)]\<rparr>"

lemma drift_node_list:
  "cg_node_list drift_corpus = [SourceRevision (demo_revision ''src_1'' ''guide'' [])]"
  by (simp add: cg_node_list_def bvals_def drift_corpus_def)

lemma drift_get: "cg_get drift_corpus u =
    (if u = ''src_1'' then Some (SourceRevision (demo_revision ''src_1'' ''guide'' [])) else None)"
  by (simp add: cg_get_def drift_corpus_def)

lemma drift_revisions: "cg_revisions drift_corpus = [demo_revision ''src_1'' ''guide'' []]"
  "cg_reviews drift_corpus = []" "cg_requirements drift_corpus = []"
  by (simp_all add: cg_revisions_def cg_reviews_def cg_requirements_def drift_node_list
      List.map_filter_simps)

lemma drift_patches: "bvals (cg_source_patches drift_corpus) = [demo_patch]"
  "cg_source_patch drift_corpus u = (if u = ''patch_1'' then Some demo_patch else None)"
  by (simp_all add: drift_corpus_def bvals_def cg_source_patch_def)

lemma drift_graphs: "cg_source_graphs drift_corpus = [(''src_1'', demo_graph)]"
  "cg_source_graph drift_corpus u = (if u = ''src_1'' then Some demo_graph else None)"
  by (simp_all add: drift_corpus_def cg_source_graph_def)

lemma drift_inv: "cg_inv drift_corpus"
  using demo_of_revision
  by (simp add: cg_inv_def drift_corpus_def bwf_def demo_revision_def demo_patch_fields)

lemma drift_edges: "edges_resolve drift_corpus"
  by (simp add: edges_resolve_def drift_node_list demo_revision_def)

lemma drift_patch_bound: "patch_bound demo_platform drift_corpus demo_patch"
  by (simp add: patch_bound_def drift_revisions demo_revision_def drift_graphs demo_patch_fields
      demo_operations_def locate_def demo_gets inserted_uids_def List.map_filter_simps)
    (simp add: demo_patch_simps)

lemma drift_lineage: "validate_review_supersession drift_corpus = Inr ()"
    "validate_source_lineage drift_corpus = Inr ()"
  by (simp_all add: validate_review_supersession_def validate_source_lineage_def chain_eval
      drift_revisions review_plane_def revision_plane_def demo_revision_def revision_lookup_def
      drift_get revision_agrees_def reject_multiple_roots_def reject_multiple_heads_def
      reject_several_def revisions_by_document_def group_by_def all_superseded_def drift_node_list
      supersedes_target_def)

lemma drift_source_graphs: "source_graphs_ok demo_platform drift_corpus"
  using demo_well_formed
  by (simp add: source_graphs_ok_def drift_revisions demo_revision_def drift_graphs)

lemma drift_accepted: "cg_validate demo_platform drift_corpus = Inr ()"
  using validate_source_lineage_Ok_iff [OF drift_inv drift_edges]
    review_supersession_Ok_iff [OF drift_inv drift_edges]
  by (simp add: cg_validate_Ok_iff [OF drift_inv] corpus_ok_def drift_edges drift_revisions
      drift_lineage drift_source_graphs drift_patches drift_patch_bound)

lemma drift_state: "patch_state drift_corpus demo_patch = Candidate"
  by (simp add: patch_state_def live_reviews_def drift_revisions lifecycle_spec_def decided_def)

lemma drift_approved: "approved_patches drift_corpus r = []"
  by (simp add: approved_patches_def drift_patches drift_state)

definition demo_recipe :: ingester_recipe where
  "demo_recipe = \<lparr>ir_parser = ''pulldown'', ir_parser_version = ''0.12'', ir_extensions = [''tables''],
     ir_adapter_version = ''1'', ir_normalization_contract = ''v1''\<rparr>"

lemma drift_evaluations:
  "\<exists>evs. evaluate_all_patch_lifecycles demo_platform drift_corpus = Inr evs"
  using evaluate_patches_on_accepted [OF drift_inv drift_accepted] by blast

lemma drift_effective:
  "\<exists>e. effective_source_graph demo_platform drift_corpus ''src_1'' b ''text/markdown'' = Inr e"
proof -
  have "effective_source_graph demo_platform drift_corpus ''src_1'' b ''text/markdown''
      = Inr \<lparr>eg_source_revision_uid = ''src_1'',
          eg_graph = parser_graph drift_corpus ''src_1'', eg_applied_patch_uids = []\<rparr>"
    using drift_accepted by (simp add: effective_graph_Ok_iff [OF drift_inv]
        cg_validate_Ok_iff [OF drift_inv] drift_approved drift_revisions demo_revision_def)
  then show ?thesis by blast
qed

section \<open>The properties\<close>

text \<open>C19: Identity survives re-ingestion. When no two committed nodes share a structural key, an
  ingestion that presents the committed structure gives every node its committed uid back, whatever
  the order of the nodes, the provisional ids and the text they now carry.\<close>

theorem identity_survives_reingestion:
  assumes "sg_inv g" "distinct ns" "set ns = set (sg_nodes g)" "inj f" "keys_distinct X g"
  shows "map rn_uid (reconcile X mint g (map (reingested f text) ns)) = map sn_uid ns"
  by (rule reconcile_reingested [OF assms])

theorem identity_survives_reingestion_witness:
  "map rn_uid (reconcile demo_platform demo_node_mint demo_graph
      (map (reingested (\<lambda>u. ''fresh-'' @ u) (\<lambda>_. ''moved'')) (rev (sg_nodes demo_graph))))
    = [''snode_4'', ''snode_3'', ''snode_2'', ''snode_1'']"
proof -
  have d: "distinct (rev (sg_nodes demo_graph))"
    using sg_nodes_distinct [OF demo_inv] by (simp add: distinct_map)
  have "set (rev (sg_nodes demo_graph)) = set (sg_nodes demo_graph)" "inj (\<lambda>u. ''fresh-'' @ u)"
    by (simp_all add: inj_def)
  from identity_survives_reingestion [OF demo_inv d this demo_keys_distinct, of demo_node_mint "\<lambda>_. ''moved''"]
  have "map rn_uid (reconcile demo_platform demo_node_mint demo_graph
      (map (reingested (\<lambda>u. ''fresh-'' @ u) (\<lambda>_. ''moved'')) (rev (sg_nodes demo_graph))))
    = map sn_uid (rev (sg_nodes demo_graph))" .
  also have "\<dots> = [''snode_4'', ''snode_3'', ''snode_2'', ''snode_1'']"
    by (simp add: demo_sg_nodes)
  finally show ?thesis .
qed

text \<open>Soundness of the node plane. When the comparison of a committed graph with an ingested
  one reports nothing about their nodes, the ingested graph is the committed one up to the names of
  its nodes: a bijection of the uids carries every node to a committed one with the same kind,
  ordinal, label, text, digests and locator, and its parent to that node's parent.\<close>

theorem silent_nodes_are_renamed:
  assumes "sg_inv g" "well_formed_forest X mt g" "native_uids g" "sg_inv c"
    "well_formed_forest X mt c" "inj mint" "range mint \<inter> sn_uid ` set (sg_nodes g) = {}"
    "compare_nodes X mint g c = []"
  shows "\<exists>f. renamed_by X f g c"
  by (rule compare_nodes_sound [OF assms])

theorem silent_nodes_are_renamed_witness:
  "compare_nodes demo_platform demo_node_mint demo_graph demo_graph = [] \<and>
    (\<exists>f. renamed_by demo_platform f demo_graph demo_graph)"
proof -
  have "compare_nodes demo_platform demo_node_mint demo_graph demo_graph = []"
    using compare_nodes_self [OF demo_inv demo_well_formed demo_graph_finite]
      demo_keys_distinct by (simp add: keys_distinct_iff)
  with silent_nodes_are_renamed [OF demo_inv demo_well_formed demo_native demo_inv demo_well_formed
      demo_node_mint_fresh] show ?thesis by simp
qed

text \<open>C20: Identical planes. Let the baseline be a corpus with the representation invariant whose
  evaluations are the ones the lifecycle evaluation computes, whose patches of the compared revision
  record the reviewed digest that recomputes, and whose parser graph has only finite coordinates, and
  let a re-ingestion present exactly what is committed (recipe, input, extractor output, parser
  graph, patches and evaluations). When the corpus has no effective graph for the revision, as with
  two approved patches that do not compose, the comparison fails. When it has one, the comparison
  reports, and its outcome is \<^verbatim>\<open>Equal\<close> exactly if no two committed nodes share a structural key
  and no patch of the revision is stale or rejected.\<close>

theorem identical_planes_equal_iff:
  assumes "cg_inv (bl_corpus baseline)" "identical_planes X baseline candidate"
    "q0 \<in> set (cg_revisions (bl_corpus baseline))" "sr_uid q0 = bl_source_revision_uid baseline"
    "evaluate_all_patch_lifecycles X (bl_corpus baseline) = Inr (bl_patch_evaluations baseline)"
    "\<And>p. p \<in> set (bvals (committed_patches (bl_corpus baseline) (bl_source_revision_uid baseline)))
      \<Longrightarrow> sp_reviewed_content_digest p = reviewed_content_digest X p"
    "graph_finite (parser_graph (bl_corpus baseline) (bl_source_revision_uid baseline))"
  shows "case effective_source_graph X (bl_corpus baseline) (bl_source_revision_uid baseline)
        \<lparr>pb_recipe_digest = bl_recipe_digest baseline, pb_input_digest = bl_input_digest baseline\<rparr>
        (sr_media_type q0) of
      Inl _ \<Rightarrow> isl (compare_reingestion X error_text mint baseline candidate)
    | Inr _ \<Rightarrow> \<exists>report. compare_reingestion X error_text mint baseline candidate = Inr report \<and>
        (report_is_equal report \<longleftrightarrow>
          keys_distinct X (parser_graph (bl_corpus baseline) (bl_source_revision_uid baseline)) \<and>
          (\<forall>p \<in> set (bvals (committed_patches (bl_corpus baseline) (bl_source_revision_uid baseline))).
            patch_state (bl_corpus baseline) p \<notin> {Stale, Rejected}))"
proof (cases "effective_source_graph X (bl_corpus baseline) (bl_source_revision_uid baseline)
    \<lparr>pb_recipe_digest = bl_recipe_digest baseline, pb_input_digest = bl_input_digest baseline\<rparr> (sr_media_type q0)")
  case (Inl err)
  then have "compare_reingestion X error_text mint baseline candidate \<noteq> Inr report" for report
    using compare_reingestion_effective [OF assms(1,3,4)] by (metis Inl_Inr_False)
  then have "isl (compare_reingestion X error_text mint baseline candidate)"
    by (cases "compare_reingestion X error_text mint baseline candidate") auto
  with Inl show ?thesis by simp
next
  case (Inr e)
  from identical_planes_report [OF assms(1-5) Inr assms(6,7)] obtain report where
    r: "compare_reingestion X error_text mint baseline candidate = Inr report" and
    fs: "set (dr_findings report) =
      set (map (unreconciled_finding X (parser_graph (bl_corpus baseline) (sr_uid q0)))
        (filter (ambiguous X (parser_graph (bl_corpus baseline) (sr_uid q0)))
          (sg_nodes (parser_graph (bl_corpus baseline) (sr_uid q0))))) \<union>
      set (concat (map (state_findings (bl_corpus baseline))
        (bvals (committed_patches (bl_corpus baseline) (sr_uid q0)))))" by blast
  have "report_is_equal report \<longleftrightarrow> set (dr_findings report) = {}"
    by (simp add: report_is_equal_def report_outcome_def)
  also have "\<dots> \<longleftrightarrow> keys_distinct X (parser_graph (bl_corpus baseline) (sr_uid q0)) \<and>
      (\<forall>p \<in> set (bvals (committed_patches (bl_corpus baseline) (sr_uid q0))).
        state_findings (bl_corpus baseline) p = [])"
    unfolding fs by (auto simp: keys_distinct_iff)
  finally show ?thesis using r by (simp add: state_findings_Nil assms(4) Inr)
qed

theorem identical_planes_equal_iff_witness:
  "\<exists>baseline candidate report. bl_corpus baseline = drift_corpus \<and>
    compare_reingestion demo_platform (\<lambda>_. ''failed'') demo_node_mint baseline candidate = Inr report \<and>
    report_is_equal report"
proof -
  from drift_evaluations obtain evs where
    evs: "evaluate_all_patch_lifecycles demo_platform drift_corpus = Inr evs" by blast
  define baseline where "baseline = \<lparr>bl_corpus = drift_corpus, bl_source_revision_uid = ''src_1'',
    bl_recipe_digest = recipe_digest demo_platform demo_recipe,
    bl_input_digest = StructuralContentDigest ''i'', bl_extractor_output_digest = None,
    bl_patch_evaluations = evs\<rparr>"
  define candidate where "candidate = \<lparr>rc_source_document = ''guide'', rc_recipe = Some demo_recipe,
    rc_verified_input_digest = Some (StructuralContentDigest ''i''),
    rc_extractor_output_digest = None, rc_parser_graph = demo_graph, rc_patches = [demo_patch],
    rc_patch_evaluations = evs\<rparr>"
  have parser: "parser_graph drift_corpus ''src_1'' = demo_graph"
    by (simp add: parser_graph_def drift_graphs)
  have same: "identical_planes demo_platform baseline candidate"
    by (simp add: identical_planes_def baseline_def candidate_def parser drift_patches)
  have rev: "demo_revision ''src_1'' ''guide'' [] \<in> set (cg_revisions drift_corpus)"
    "sr_uid (demo_revision ''src_1'' ''guide'' []) = ''src_1''"
    "sr_media_type (demo_revision ''src_1'' ''guide'' []) = ''text/markdown''"
    by (simp_all add: drift_revisions demo_revision_def)
  have committed: "bvals (committed_patches drift_corpus ''src_1'') = [demo_patch]"
    by (simp add: bvals_committed drift_patches demo_patch_fields)
  have digest: "sp_reviewed_content_digest demo_patch = reviewed_content_digest demo_platform demo_patch"
    by (simp add: demo_patch_simps reviewed_content_digest_def reviewed_content_bytes_def)
  from drift_effective obtain e where
    "effective_source_graph demo_platform drift_corpus ''src_1''
      \<lparr>pb_recipe_digest = recipe_digest demo_platform demo_recipe,
       pb_input_digest = StructuralContentDigest ''i''\<rparr> ''text/markdown'' = Inr e" by blast
  with identical_planes_equal_iff [of baseline demo_platform candidate
      "demo_revision ''src_1'' ''guide'' []" "\<lambda>_. ''failed''" demo_node_mint]
    evs drift_inv same rev digest demo_graph_finite demo_keys_distinct drift_state
  have "\<exists>report. compare_reingestion demo_platform (\<lambda>_. ''failed'') demo_node_mint baseline candidate
      = Inr report \<and> report_is_equal report"
    by (simp add: baseline_def parser committed)
  moreover have "bl_corpus baseline = drift_corpus" by (simp add: baseline_def)
  ultimately show ?thesis by blast
qed

end
