(* ===== verification/Bundle_Store.thy ===== *)
theory Bundle_Store
  imports Corpus_Types
begin

text \<open>
  A bundle directory on a Unix host, and the content hashing over it (\<^verbatim>\<open>hash.rs\<close>, \<^verbatim>\<open>util.rs\<close>,
  \<^verbatim>\<open>verify/paths.rs\<close>). A tree holds regular files under their component lists and the directories
  that hold none; every file is readable. What a name denotes that leads out of the tree (an
  absolute name, or one with a parent component) is not determined by the tree; it is the field
  \<open>bt_outside\<close>. Symbolic links are left out.
\<close>

section \<open>Text\<close>

definition is_continuation :: "char \<Rightarrow> bool" where
  "is_continuation c \<longleftrightarrow> 128 \<le> byte c \<and> byte c \<le> 191"

text \<open>What \<^verbatim>\<open>String::from_utf8\<close> accepts.\<close>

fun is_utf8 :: "bytes \<Rightarrow> bool" where
  "is_utf8 [] = True"
| "is_utf8 (a # s) =
    (if byte a < 128 then is_utf8 s
     else if 194 \<le> byte a \<and> byte a \<le> 223 then
       (case s of b # s' \<Rightarrow> is_continuation b \<and> is_utf8 s' | [] \<Rightarrow> False)
     else if 224 \<le> byte a \<and> byte a \<le> 239 then
       (case s of b # c # s' \<Rightarrow>
           is_continuation b \<and> is_continuation c \<and> (byte a = 224 \<longrightarrow> 160 \<le> byte b)
             \<and> (byte a = 237 \<longrightarrow> byte b \<le> 159) \<and> is_utf8 s'
         | _ \<Rightarrow> False)
     else if 240 \<le> byte a \<and> byte a \<le> 244 then
       (case s of b # c # d # s' \<Rightarrow>
           is_continuation b \<and> is_continuation c \<and> is_continuation d
             \<and> (byte a = 240 \<longrightarrow> 144 \<le> byte b) \<and> (byte a = 244 \<longrightarrow> byte b \<le> 143) \<and> is_utf8 s'
         | _ \<Rightarrow> False)
     else False)"

definition newline :: char where
  "newline = CHR 0x0A"

definition strip_cr :: "string \<Rightarrow> string" where
  "strip_cr l = (if l \<noteq> [] \<and> last l = CHR 0x0D then butlast l else l)"

text \<open>\<^verbatim>\<open>str::lines\<close>: a carriage return is dropped only before a line feed, and the piece after the
  last line feed is a line when it is not empty.\<close>

definition str_lines :: "string \<Rightarrow> string list" where
  "str_lines s = (let pieces = split_on newline s in
    map strip_cr (butlast pieces) @ (if last pieces = [] then [] else [last pieces]))"

definition replace_char :: "char \<Rightarrow> char \<Rightarrow> string \<Rightarrow> string" where
  "replace_char a b = map (\<lambda>c. if c = a then b else c)"

section \<open>Paths and trees\<close>

datatype io_error = NotFound | IsADirectory | NotADirectory | InvalidData

datatype fs_entry = RegularFile bytes | Directory

record bundle_tree =
  bt_files :: "(string list, bytes) bmap"
  bt_dirs :: "string list list"
  bt_outside :: "string \<Rightarrow> fs_entry option"

definition slash :: char where
  "slash = CHR ''/''"

definition backslash :: char where
  "backslash = CHR 0x5C"

definition is_absolute :: "string \<Rightarrow> bool" where
  "is_absolute rel \<longleftrightarrow> rel \<noteq> [] \<and> hd rel = slash"

definition path_components :: "string \<Rightarrow> string list" where
  "path_components rel = filter (\<lambda>p. p \<noteq> [] \<and> p \<noteq> ''.'') (split_on slash rel)"

text \<open>\<^verbatim>\<open>is_safe_bundle_path\<close>: no absolute path, no parent component, no leading backslash.\<close>

definition is_safe_bundle_path :: "string \<Rightarrow> bool" where
  "is_safe_bundle_path filename \<longleftrightarrow>
    \<not> is_absolute filename \<and> ''..'' \<notin> set (split_on slash filename)
    \<and> \<not> (filename \<noteq> [] \<and> hd filename = backslash)"

definition tree_dir :: "bundle_tree \<Rightarrow> string list \<Rightarrow> bool" where
  "tree_dir t p \<longleftrightarrow> p = [] \<or> (\<exists>d \<in> set (bt_dirs t). take (length p) d = p)
    \<or> (\<exists>k \<in> set (bkeys (bt_files t)). length p < length k \<and> take (length p) k = p)"

text \<open>What \<^verbatim>\<open>bundle.join(rel)\<close> denotes. A trailing separator asks for a directory.\<close>

definition tree_entry :: "bundle_tree \<Rightarrow> string \<Rightarrow> fs_entry option" where
  "tree_entry t rel =
    (if is_absolute rel \<or> ''..'' \<in> set (split_on slash rel) then bt_outside t rel
     else let p = path_components rel in
       case bget (bt_files t) p of
         Some content \<Rightarrow>
           if last (split_on slash rel) \<in> {[], ''.''} then None else Some (RegularFile content)
       | None \<Rightarrow> if tree_dir t p then Some Directory else None)"

definition path_exists :: "bundle_tree \<Rightarrow> string \<Rightarrow> bool" where
  "path_exists t rel \<longleftrightarrow> tree_entry t rel \<noteq> None"

definition path_is_file :: "bundle_tree \<Rightarrow> string \<Rightarrow> bool" where
  "path_is_file t rel \<longleftrightarrow> (case tree_entry t rel of Some (RegularFile _) \<Rightarrow> True | _ \<Rightarrow> False)"

definition path_is_dir :: "bundle_tree \<Rightarrow> string \<Rightarrow> bool" where
  "path_is_dir t rel \<longleftrightarrow> tree_entry t rel = Some Directory"

definition read_bytes :: "bundle_tree \<Rightarrow> string \<Rightarrow> io_error + bytes" where
  "read_bytes t rel = (case tree_entry t rel of
     Some (RegularFile content) \<Rightarrow> Ok content
   | Some Directory \<Rightarrow> Err IsADirectory
   | None \<Rightarrow> Err NotFound)"

definition read_to_string :: "bundle_tree \<Rightarrow> string \<Rightarrow> io_error + string" where
  "read_to_string t rel = rbind (read_bytes t rel) (\<lambda>content.
     if is_utf8 content then Ok content else Err InvalidData)"

text \<open>\<^verbatim>\<open>fs::write\<close> to a name inside the tree, after the code has created its directory.\<close>

definition write_bytes :: "bundle_tree \<Rightarrow> string \<Rightarrow> bytes \<Rightarrow> io_error + bundle_tree" where
  "write_bytes t rel content =
    (let p = path_components rel in
     if tree_dir t p then Err IsADirectory
     else if \<exists>k < length p. bget (bt_files t) (take k p) \<noteq> None then Err NotADirectory
     else Ok (t\<lparr>bt_files := bins p content (bt_files t)\<rparr>))"

section \<open>Content hashing\<close>

datatype hash_error =
    HashOpen string io_error
  | HashRead string io_error
  | HashWrite string io_error
  | HashWalk string
  | NotUnderBase string string
  | NonUtf8Path string

fun hash_error_code :: "hash_error \<Rightarrow> string" where
  "hash_error_code (HashOpen _ _) = ''HASH_OPEN_FAILED''"
| "hash_error_code (HashRead _ _) = ''HASH_READ_FAILED''"
| "hash_error_code (HashWrite _ _) = ''HASH_WRITE_FAILED''"
| "hash_error_code (HashWalk _) = ''HASH_WALK_FAILED''"
| "hash_error_code (NotUnderBase _ _) = ''HASH_NOT_UNDER_BASE''"
| "hash_error_code (NonUtf8Path _) = ''HASH_NON_UTF8_PATH''"

text \<open>A directory opens; reading it fails.\<close>

definition sha256_file :: "platform \<Rightarrow> bundle_tree \<Rightarrow> string \<Rightarrow> hash_error + string" where
  "sha256_file X t rel = (case tree_entry t rel of
     Some (RegularFile content) \<Rightarrow> Ok (sha256 X content)
   | Some Directory \<Rightarrow> Err (HashRead rel IsADirectory)
   | None \<Rightarrow> Err (HashOpen rel NotFound))"

definition normalize_bundle_path :: "string \<Rightarrow> string" where
  "normalize_bundle_path p = replace_char backslash slash p"

text \<open>The name of a walked file relative to the bundle.\<close>

definition relative_name :: "string list \<Rightarrow> string" where
  "relative_name p = normalize_bundle_path (join_with [slash] p)"

definition metadata_layer :: "string list list" where
  "metadata_layer = [[''SHA256SUMS''], [''index.json''], [''BUNDLE.sig'']]"

definition sha256sums_line :: "platform \<Rightarrow> string list \<times> bytes \<Rightarrow> string" where
  "sha256sums_line X file = sha256 X (snd file) @ ''  '' @ relative_name (fst file)"

definition sha256sums_content :: "platform \<Rightarrow> bundle_tree \<Rightarrow> string" where
  "sha256sums_content X t = join_with [newline] (map (sha256sums_line X)
     (filter (\<lambda>file. fst file \<notin> set metadata_layer) (bt_files t))) @ [newline]"

text \<open>The callers write the listing to \<^verbatim>\<open>SHA256SUMS\<close> in the root. The walk yields files in the
  order of the tree; sorting them by path leaves that order.\<close>

definition write_sha256sums :: "platform \<Rightarrow> bundle_tree \<Rightarrow> hash_error + bundle_tree" where
  "write_sha256sums X t = map_err (HashWrite ''SHA256SUMS'')
     (write_bytes t ''SHA256SUMS'' (sha256sums_content X t))"

end
