(* ===== verification/Bundle_Index.thy ===== *)
theory Bundle_Index
  imports Trace_Evidence Bundle_Store
begin

text \<open>
  The records a bundle carries: the profiles and policies (\<^verbatim>\<open>policy/profile.rs\<close>,
  \<^verbatim>\<open>policy/resolution.rs\<close>, \<^verbatim>\<open>policy/boundary.rs\<close>), the index (\<^verbatim>\<open>bundle/index.rs\<close>) with its
  completeness states (\<^verbatim>\<open>bundle/completeness.rs\<close>), the projection of the dependency graph
  (\<^verbatim>\<open>cargo_metadata.rs\<close>) and the recipe manifest (\<^verbatim>\<open>env/manifest.rs\<close>, \<^verbatim>\<open>env/fingerprint.rs\<close>).
\<close>

section \<open>Profiles and policies\<close>

datatype profile = DevProfile | CertProfile | RecordProfile

fun profile_display :: "profile \<Rightarrow> string" where
  "profile_display DevProfile = ''dev''"
| "profile_display CertProfile = ''cert''"
| "profile_display RecordProfile = ''record''"

datatype parse_profile_error = UnknownProfile string

text \<open>Lower-casing maps no letter outside ASCII to a letter of these words.\<close>

definition profile_from_str :: "string \<Rightarrow> parse_profile_error + profile" where
  "profile_from_str s =
    (if eq_ignore_ascii_case s ''dev'' then Ok DevProfile
     else if eq_ignore_ascii_case s ''cert'' then Ok CertProfile
     else if eq_ignore_ascii_case s ''record'' then Ok RecordProfile
     else Err (UnknownProfile s))"

text \<open>\<^verbatim>\<open>matches!(profile, Profile::Cert | Profile::Record)\<close>.\<close>

definition assured_profile :: "profile \<Rightarrow> bool" where
  "assured_profile p \<longleftrightarrow> p \<in> {CertProfile, RecordProfile}"

datatype resolution_policy = LockedOffline | OnlineOptIn

datatype resolution_policy_error = OnlineForbidden profile

fun resolution_for_profile :: "profile \<Rightarrow> bool \<Rightarrow> resolution_policy_error + resolution_policy" where
  "resolution_for_profile DevProfile True = Ok OnlineOptIn"
| "resolution_for_profile p False = Ok LockedOffline"
| "resolution_for_profile p True = Err (OnlineForbidden p)"

fun cargo_args :: "resolution_policy \<Rightarrow> string list" where
  "cargo_args LockedOffline = [''--locked'', ''--offline'']"
| "cargo_args OnlineOptIn = []"

fun resolution_as_str :: "resolution_policy \<Rightarrow> string" where
  "resolution_as_str LockedOffline = ''locked_offline''"
| "resolution_as_str OnlineOptIn = ''online_opt_in''"

record boundary_policy =
  bp_no_out_of_scope_deps :: bool
  bp_forbid_build_rs :: bool
  bp_forbid_proc_macros :: bool

definition enabled_rules :: "boundary_policy \<Rightarrow> string list" where
  "enabled_rules p =
    (if bp_no_out_of_scope_deps p then [''no_out_of_scope_deps''] else [])
    @ (if bp_forbid_build_rs p then [''forbid_build_rs''] else [])
    @ (if bp_forbid_proc_macros p then [''forbid_proc_macros''] else [])"

definition is_default_boundary_policy :: "boundary_policy \<Rightarrow> bool" where
  "is_default_boundary_policy p \<longleftrightarrow>
    \<not> bp_no_out_of_scope_deps p \<and> \<not> bp_forbid_build_rs p \<and> \<not> bp_forbid_proc_macros p"

section \<open>Captured commands and tests\<close>

record command_record =
  cr_argv :: "string list"
  cr_cwd :: string
  cr_exit_code :: int
  cr_stdout_path :: "string option"
  cr_stderr_path :: "string option"

record tool_command_failure =
  tf_command_name :: string
  tf_exit_code :: int
  tf_stderr_tail :: string

definition stderr_tail_lines :: nat where
  "stderr_tail_lines = 20"

definition tail_stderr :: "string \<Rightarrow> string" where
  "tail_stderr stderr_text = (let ls = str_lines stderr_text in
    join_with [newline] (drop (length ls - stderr_tail_lines) ls))"

record test_summary =
  sm_total :: u32
  sm_passed :: u32
  sm_failed :: u32
  sm_ignored :: u32
  sm_filtered_out :: u32

section \<open>Completeness\<close>

datatype completeness_state = Complete | Incomplete | NotApplicable | Unverifiable

record completeness_states =
  cq_capture :: completeness_state
  cq_graph_validity :: completeness_state
  cq_verification :: completeness_state
  cq_objective_mapping :: completeness_state
  cq_review_approval :: completeness_state
  cq_integrity :: completeness_state
  cq_reproducibility :: completeness_state
  cq_tool_qualification :: completeness_state

definition legacy_completeness :: completeness_states where
  "legacy_completeness = \<lparr>cq_capture = Unverifiable, cq_graph_validity = Unverifiable,
     cq_verification = Unverifiable, cq_objective_mapping = Unverifiable,
     cq_review_approval = Unverifiable, cq_integrity = Unverifiable,
     cq_reproducibility = Unverifiable, cq_tool_qualification = Unverifiable\<rparr>"

record completeness_facts =
  ff_tool_command_failures_empty :: bool
  ff_inputs_empty :: bool
  ff_outputs_empty :: bool
  ff_skip_tests :: bool
  ff_test_summary_present :: bool
  ff_trace_evidence :: "trace_evidence_state option"
  ff_trace_roots_empty :: bool
  ff_in_scope_claim :: bool
  ff_any_dal_claim :: bool
  ff_compliance_reports_complete :: bool
  ff_signature_planned :: bool

definition derive_capture :: "completeness_facts \<Rightarrow> completeness_state" where
  "derive_capture facts =
    (if \<not> ff_tool_command_failures_empty facts \<or> ff_inputs_empty facts then Incomplete
     else if ff_skip_tests facts then NotApplicable
     else if \<not> ff_test_summary_present facts then Incomplete
     else Complete)"

definition derive_graph_validity :: "completeness_facts \<Rightarrow> completeness_state" where
  "derive_graph_validity facts = (case ff_trace_evidence facts of
     Some ValidEvidence \<Rightarrow> Complete
   | Some NotConfigured \<Rightarrow> NotApplicable
   | Some (NotAdopted _) \<Rightarrow> Incomplete
   | Some EmptyEvidence \<Rightarrow> Incomplete
   | Some InvalidEvidence \<Rightarrow> Incomplete
   | None \<Rightarrow> if ff_trace_roots_empty facts then NotApplicable else Unverifiable)"

definition derive_objective_mapping :: "completeness_facts \<Rightarrow> completeness_state" where
  "derive_objective_mapping facts =
    (if \<not> ff_in_scope_claim facts then NotApplicable
     else if ff_compliance_reports_complete facts then Complete
     else Incomplete)"

definition derive_reproducibility :: "completeness_facts \<Rightarrow> completeness_state" where
  "derive_reproducibility facts =
    (if \<not> ff_outputs_empty facts then Complete
     else if ff_skip_tests facts then NotApplicable
     else Incomplete)"

definition derive_tool_qualification :: "completeness_facts \<Rightarrow> completeness_state" where
  "derive_tool_qualification facts =
    (if \<not> ff_any_dal_claim facts then NotApplicable
     else if ff_compliance_reports_complete facts then Complete
     else Incomplete)"

definition derive_completeness :: "completeness_facts \<Rightarrow> completeness_states" where
  "derive_completeness facts = \<lparr>cq_capture = derive_capture facts,
     cq_graph_validity = derive_graph_validity facts, cq_verification = Unverifiable,
     cq_objective_mapping = derive_objective_mapping facts, cq_review_approval = NotApplicable,
     cq_integrity = (if ff_signature_planned facts then Complete else NotApplicable),
     cq_reproducibility = derive_reproducibility facts,
     cq_tool_qualification = derive_tool_qualification facts\<rparr>"

section \<open>The index\<close>

record evidence_index =
  ix_schema_version :: string
  ix_boundary_schema_version :: string
  ix_trace_schema_version :: string
  ix_profile :: profile
  ix_timestamp_rfc3339 :: string
  ix_git_sha :: string
  ix_git_branch :: string
  ix_git_dirty :: bool
  ix_engine_crate_version :: string
  ix_engine_git_sha :: string
  ix_engine_build_source :: string
  ix_inputs_hashes_file :: string
  ix_outputs_hashes_file :: string
  ix_commands_file :: string
  ix_env_fingerprint_file :: string
  ix_trace_roots :: "string list"
  ix_trace_outputs :: "string list"
  ix_bundle_complete :: bool
  ix_content_hash :: string
  ix_recipe_hash :: string
  ix_test_summary :: "test_summary option"
  ix_tool_command_failures :: "tool_command_failure list"
  ix_dal_map :: "(string, string) bmap"
  ix_boundary_policy :: boundary_policy
  ix_resolution_policy :: resolution_policy
  ix_completeness :: completeness_states

section \<open>The projection of the dependency graph\<close>

record package_projection =
  pk_name :: string
  pk_targets :: "string list list"
  pk_links :: "string option"

record cargo_projection =
  cj_packages :: "package_projection list"
  cj_dependencies :: "(string, string list) bmap"

record raw_package =
  rp_name :: string
  rp_id :: string
  rp_version :: string
  rp_targets :: "string list list"
  rp_links :: "string option"

text \<open>A node of the resolved graph: a package id and the ids of its dependencies.\<close>

record raw_metadata =
  rw_packages :: "raw_package list"
  rw_nodes :: "(string \<times> string list) list"

datatype projection_error =
    ParseRawMetadata string
  | ParseProjection string
  | UnresolvablePackageId string
  | AmbiguousPackageIdentity string

definition id_to_identity :: "raw_metadata \<Rightarrow> (string, string) bmap" where
  "id_to_identity raw =
    fold (\<lambda>p. bins (rp_id p) (rp_name p @ '' '' @ rp_version p)) (rw_packages raw) []"

definition resolve_identity :: "raw_metadata \<Rightarrow> string \<Rightarrow> projection_error + string" where
  "resolve_identity raw i = (case bget (id_to_identity raw) i of
     Some identity \<Rightarrow> Ok identity | None \<Rightarrow> Err (UnresolvablePackageId i))"

text \<open>A dependency set is listed in order, without repetition.\<close>

definition project_node ::
  "raw_metadata \<Rightarrow> (string, string list) bmap \<Rightarrow> string \<times> string list
    \<Rightarrow> projection_error + (string, string list) bmap" where
  "project_node raw dependencies node =
    rbind (resolve_identity raw (fst node)) (\<lambda>identity.
    rbind (fold_res (\<lambda>deps d. rbind (resolve_identity raw d) (\<lambda>i. Ok (deps @ [i]))) [] (snd node))
      (\<lambda>deps.
    if bget dependencies identity \<noteq> None then Err (AmbiguousPackageIdentity identity)
    else Ok (bins identity (dedup (sort deps)) dependencies)))"

definition project_resolved_graph ::
  "raw_metadata \<Rightarrow> projection_error + (string, string list) bmap" where
  "project_resolved_graph raw = fold_res (project_node raw) [] (rw_nodes raw)"

text \<open>\<open>from_raw_metadata\<close> after parsing.\<close>

definition projection_from_raw :: "raw_metadata \<Rightarrow> projection_error + cargo_projection" where
  "projection_from_raw raw =
    rbind (project_resolved_graph raw) (\<lambda>dependencies.
    Ok \<lparr>cj_packages = sort_key pk_name (map (\<lambda>p. \<lparr>pk_name = rp_name p, pk_targets = rp_targets p,
          pk_links = rp_links p\<rparr>) (rw_packages raw)),
        cj_dependencies = dependencies\<rparr>)"

definition target_is_build_rs :: "string list \<Rightarrow> bool" where
  "target_is_build_rs kinds \<longleftrightarrow> ''custom-build'' \<in> set kinds"

definition target_is_proc_macro :: "string list \<Rightarrow> bool" where
  "target_is_proc_macro kinds \<longleftrightarrow> ''proc-macro'' \<in> set kinds"

text \<open>A build-script violation is the crate with its \<^verbatim>\<open>links\<close> value.\<close>

definition check_build_rs_in_projection ::
  "string list \<Rightarrow> cargo_projection \<Rightarrow> (string \<times> string option) list" where
  "check_build_rs_in_projection in_scope projection =
    dedup (sort (map (\<lambda>p. (pk_name p, pk_links p))
      (filter (\<lambda>p. pk_name p \<in> set in_scope \<and> (\<exists>t \<in> set (pk_targets p). target_is_build_rs t))
        (cj_packages projection))))"

definition check_proc_macros_in_projection :: "string list \<Rightarrow> cargo_projection \<Rightarrow> string list" where
  "check_proc_macros_in_projection in_scope projection =
    dedup (sort (map pk_name
      (filter (\<lambda>p. pk_name p \<in> set in_scope \<and> (\<exists>t \<in> set (pk_targets p). target_is_proc_macro t))
        (cj_packages projection))))"

section \<open>The recipe\<close>

text \<open>The fields of the environment fingerprint that the recipe and the verifier read.\<close>

record env_fingerprint =
  ev_profile :: profile
  ev_rustc :: string
  ev_cargo :: string
  ev_git_sha :: string
  ev_git_branch :: string
  ev_git_dirty :: bool
  ev_llvm_version :: "string option"
  ev_cargo_lock_hash :: "string option"
  ev_rust_toolchain_toml :: "string option"
  ev_rustflags :: "string option"
  ev_target_triple :: string
  ev_tool_prerelease :: bool

record recipe_inputs =
  ri_features :: "string list"
  ri_locked_graph_hash :: "string option"
  ri_command_recipe_hash :: string
  ri_inputs_hash :: string
  ri_resolution_policy :: resolution_policy

record recipe_manifest =
  mf_schema_version :: string
  mf_profile :: profile
  mf_rustc :: string
  mf_cargo :: string
  mf_llvm_version :: "string option"
  mf_cargo_lock_hash :: "string option"
  mf_rust_toolchain_toml :: "string option"
  mf_rustflags :: "string option"
  mf_target_triple :: string
  mf_features :: "string list"
  mf_locked_graph_hash :: "string option"
  mf_command_recipe_hash :: string
  mf_inputs_hash :: string
  mf_resolution_policy :: resolution_policy
  mf_git_sha :: string
  mf_git_branch :: string
  mf_git_dirty :: bool

definition project_manifest :: "env_fingerprint \<Rightarrow> recipe_inputs \<Rightarrow> recipe_manifest" where
  "project_manifest env inputs = \<lparr>mf_schema_version = ''0.0.1'', mf_profile = ev_profile env,
     mf_rustc = ev_rustc env, mf_cargo = ev_cargo env, mf_llvm_version = ev_llvm_version env,
     mf_cargo_lock_hash = ev_cargo_lock_hash env,
     mf_rust_toolchain_toml = ev_rust_toolchain_toml env, mf_rustflags = ev_rustflags env,
     mf_target_triple = ev_target_triple env, mf_features = ri_features inputs,
     mf_locked_graph_hash = ri_locked_graph_hash inputs,
     mf_command_recipe_hash = ri_command_recipe_hash inputs, mf_inputs_hash = ri_inputs_hash inputs,
     mf_resolution_policy = ri_resolution_policy inputs, mf_git_sha = ev_git_sha env,
     mf_git_branch = ev_git_branch env, mf_git_dirty = ev_git_dirty env\<rparr>"

end
