(* ===== verification/Test_Output.thy ===== *)
theory Test_Output
  imports Bundle_Index
begin

text \<open>
  What the captured test output says: the \<^verbatim>\<open>libtest-json\<close> stream of nextest
  (\<^verbatim>\<open>bundle/nextest.rs\<close>, \<^verbatim>\<open>bundle/outcome_record.rs\<close>) and the text of \<^verbatim>\<open>cargo test\<close>
  (\<^verbatim>\<open>bundle/test_summary.rs\<close>). The JSON parser is the parameter \<open>parse_json\<close>. The sums of the text
  parser wrap, as they do in a release build.
\<close>

section \<open>Strings\<close>

text \<open>A continuation byte never starts white space, so the end is trimmed scalar by scalar.\<close>

fun trim_end :: "string \<Rightarrow> string" where
  "trim_end [] = []"
| "trim_end (c # cs) = (if is_blank (c # cs) then [] else c # trim_end cs)"

definition trim :: "string \<Rightarrow> string" where
  "trim s = trim_end (skip_ws s)"

text \<open>\<^verbatim>\<open>split_whitespace().nth(n)\<close>.\<close>

fun nth_token :: "nat \<Rightarrow> string \<Rightarrow> string option" where
  "nth_token 0 s = (let s = skip_ws s in if s = [] then None else Some (take_token s))"
| "nth_token (Suc n) s = (let s = skip_ws s in
    if s = [] then None else nth_token n (drop (length (take_token s)) s))"

definition has_prefix :: "string \<Rightarrow> string \<Rightarrow> bool" where
  "has_prefix p s \<longleftrightarrow> strip_prefix p s \<noteq> None"

definition contains_str :: "string \<Rightarrow> string \<Rightarrow> bool" where
  "contains_str pat s \<longleftrightarrow> split_once pat s \<noteq> None"

definition rsplit_once :: "string \<Rightarrow> string \<Rightarrow> (string \<times> string) option" where
  "rsplit_once pat s = map_option (\<lambda>(b, a). (rev a, rev b)) (split_once (rev pat) (rev s))"

text \<open>\<^verbatim>\<open>parse::<u64>\<close>: an optional plus sign, digits, no overflow.\<close>

definition digits_value :: "string \<Rightarrow> nat" where
  "digits_value ds = fold (\<lambda>d n. 10 * n + (byte d - 48)) ds 0"

definition parse_u64 :: "string \<Rightarrow> u64 option" where
  "parse_u64 s =
    (let ds = (case s of c # cs \<Rightarrow> if c = CHR ''+'' then cs else s | [] \<Rightarrow> []) in
     if ds \<noteq> [] \<and> (\<forall>d \<in> set ds. is_ascii_digit d) \<and> digits_value ds < 2 ^ 64
     then Some (of_nat (digits_value ds)) else None)"

definition saturating_add :: "'a::len word \<Rightarrow> 'a word \<Rightarrow> 'a word" where
  "saturating_add a b = (if unat a + unat b < 2 ^ LENGTH('a) then a + b else - 1)"

section \<open>JSON values\<close>

datatype json =
    JNull
  | JBool bool
  | JPosInt u64
  | JNegInt int
  | JFloat f64
  | JString string
  | JArray "json list"
  | JObject "(string \<times> json) list"

definition json_get :: "string \<Rightarrow> json \<Rightarrow> json option" where
  "json_get k v = (case v of JObject members \<Rightarrow> map_of members k | _ \<Rightarrow> None)"

definition json_str :: "json \<Rightarrow> string option" where
  "json_str v = (case v of JString s \<Rightarrow> Some s | _ \<Rightarrow> None)"

definition json_bool :: "json \<Rightarrow> bool option" where
  "json_bool v = (case v of JBool b \<Rightarrow> Some b | _ \<Rightarrow> None)"

definition json_u64 :: "json \<Rightarrow> u64 option" where
  "json_u64 v = (case v of JPosInt n \<Rightarrow> Some n | _ \<Rightarrow> None)"

definition json_array :: "json \<Rightarrow> json list option" where
  "json_array v = (case v of JArray vs \<Rightarrow> Some vs | _ \<Rightarrow> None)"

definition str_member :: "string \<Rightarrow> json \<Rightarrow> string option" where
  "str_member k v = Option.bind (json_get k v) json_str"

definition or_default :: "string option \<Rightarrow> string \<Rightarrow> string" where
  "or_default r d = (case r of Some s \<Rightarrow> s | None \<Rightarrow> d)"

section \<open>The nextest stream\<close>

record test_outcome_record =
  tro_name :: string
  tro_module_path :: string
  tro_package :: string
  tro_binary :: string
  tro_harness :: string
  tro_passed :: bool
  tro_ignored :: bool
  tro_failure_message :: "string option"
  tro_duration_ms :: "u64 option"
  tro_requirement_uids :: "string list"

record nextest_run =
  nr_records :: "test_outcome_record list"
  nr_summary :: test_summary

record suite_tally =
  sy_passed :: u32
  sy_failed :: u32
  sy_ignored :: u32
  sy_filtered_out :: "u32 option"

definition empty_tally :: suite_tally where
  "empty_tally = \<lparr>sy_passed = 0, sy_failed = 0, sy_ignored = 0, sy_filtered_out = None\<rparr>"

definition json_count :: "json \<Rightarrow> string \<Rightarrow> u32" where
  "json_count v key = (case Option.bind (json_get key v) json_u64 of
     Some n \<Rightarrow> if unat n < 2 ^ 32 then ucast n else 0
   | None \<Rightarrow> 0)"

definition fold_suite :: "json \<Rightarrow> suite_tally \<Rightarrow> suite_tally" where
  "fold_suite v t =
    (let fo = json_count v ''filtered_out'' in
     \<lparr>sy_passed = saturating_add (sy_passed t) (json_count v ''passed''),
      sy_failed = saturating_add (sy_failed t) (json_count v ''failed''),
      sy_ignored = max (sy_ignored t) (json_count v ''ignored''),
      sy_filtered_out = Some (case sy_filtered_out t of None \<Rightarrow> fo | Some m \<Rightarrow> min m fo)\<rparr>)"

definition suite_identity :: "json \<Rightarrow> string option" where
  "suite_identity v =
    Option.bind (json_get ''nextest'' v) (\<lambda>n.
    Option.bind (str_member ''crate'' n) (\<lambda>c.
    Option.bind (str_member ''test_binary'' n) (\<lambda>b.
    Option.bind (str_member ''kind'' n) (\<lambda>k.
    Some (c @ [CHR 0x00] @ b @ [CHR 0x00] @ k)))))"

definition summarize_suites :: "(string, suite_tally) bmap \<Rightarrow> test_summary" where
  "summarize_suites suites =
    (let tallies = bvals suites;
         passed = fold (\<lambda>t n. saturating_add n (sy_passed t)) tallies 0;
         failed = fold (\<lambda>t n. saturating_add n (sy_failed t)) tallies 0;
         ignored = fold (\<lambda>t n. saturating_add n (sy_ignored t)) tallies 0;
         filtered_out = fold (\<lambda>t n. saturating_add n
           (case sy_filtered_out t of Some m \<Rightarrow> m | None \<Rightarrow> 0)) tallies 0
     in \<lparr>sm_total = saturating_add (saturating_add (saturating_add passed failed) ignored) filtered_out,
         sm_passed = passed, sm_failed = failed, sm_ignored = ignored,
         sm_filtered_out = filtered_out\<rparr>)"

record test_identity =
  ti_package :: string
  ti_binary :: string
  ti_module_path :: string
  ti_test_name :: string

definition parse_identity :: "string \<Rightarrow> test_identity" where
  "parse_identity name =
    (let (prefix, rest) = (case split_once ''$'' name of Some pr \<Rightarrow> pr | None \<Rightarrow> ([], name));
         (package, binary) = (case rsplit_once ''::'' prefix of
            Some (pkg, bin) \<Rightarrow> (pkg, replace_char CHR ''-'' CHR ''_'' bin)
          | None \<Rightarrow> ([], replace_char CHR ''-'' CHR ''_'' prefix));
         (module_chain, test_name) = (case rsplit_once ''::'' rest of
            Some mt \<Rightarrow> mt | None \<Rightarrow> ([], rest));
         module_path = (if binary = [] then module_chain
            else if module_chain = [] then binary
            else binary @ ''::'' @ module_chain)
     in \<lparr>ti_package = package, ti_binary = binary, ti_module_path = module_path,
         ti_test_name = test_name\<rparr>)"

definition build_record :: "string \<Rightarrow> string \<Rightarrow> json \<Rightarrow> test_outcome_record" where
  "build_record name event v =
    (let i = parse_identity name in
     \<lparr>tro_name = ti_test_name i, tro_module_path = ti_module_path i, tro_package = ti_package i,
      tro_binary = ti_binary i, tro_harness = ''libtest'', tro_passed = (event = ''ok''),
      tro_ignored = (event = ''ignored''),
      tro_failure_message = (if event = ''failed''
        then (case str_member ''stdout'' v of Some s \<Rightarrow> if s = [] then None else Some s | None \<Rightarrow> None)
        else None),
      tro_duration_ms = None, tro_requirement_uids = []\<rparr>)"

record nextest_state =
  nx_records :: "test_outcome_record list"
  nx_suites :: "(string, suite_tally) bmap"
  nx_noident_seq :: u32

definition nextest_event :: "json \<Rightarrow> nextest_state \<Rightarrow> nextest_state" where
  "nextest_event v st =
    (let ty = or_default (str_member ''type'' v) [];
         event = or_default (str_member ''event'' v) []
     in if ty = ''suite'' \<and> event \<in> {''ok'', ''failed''}
        then (let (key, seq) = (case suite_identity v of
                 Some k \<Rightarrow> (k, nx_noident_seq st)
               | None \<Rightarrow> ([CHR 0x00] @ ''noident'' @ [CHR 0x00] @ show_nat (unat (nx_noident_seq st)),
                   nx_noident_seq st + 1));
                  tally = (case bget (nx_suites st) key of Some t \<Rightarrow> t | None \<Rightarrow> empty_tally)
              in st\<lparr>nx_suites := bins key (fold_suite v tally) (nx_suites st), nx_noident_seq := seq\<rparr>)
        else if ty = ''test'' \<and> event \<in> {''ok'', ''failed'', ''ignored''}
        then (case str_member ''name'' v of
            Some name \<Rightarrow> st\<lparr>nx_records := nx_records st @ [build_record name event v]\<rparr>
          | None \<Rightarrow> st)
        else st)"

definition nextest_line :: "(string \<Rightarrow> json option) \<Rightarrow> string \<Rightarrow> nextest_state \<Rightarrow> nextest_state" where
  "nextest_line parse_json line st =
    (let line = trim line in
     if line = [] then st
     else (case parse_json line of Some v \<Rightarrow> nextest_event v st | None \<Rightarrow> st))"

definition parse_nextest_libtest_json :: "(string \<Rightarrow> json option) \<Rightarrow> string \<Rightarrow> nextest_run" where
  "parse_nextest_libtest_json parse_json stdout =
    (let st = fold (nextest_line parse_json) (str_lines stdout)
       \<lparr>nx_records = [], nx_suites = [], nx_noident_seq = 0\<rparr>
     in \<lparr>nr_records = sort_key (\<lambda>r. (tro_module_path r, tro_name r)) (nx_records st),
         nr_summary = summarize_suites (nx_suites st)\<rparr>)"

text \<open>A dimension in which the summary and the records disagree, with both counts.\<close>

definition count_records :: "(test_outcome_record \<Rightarrow> bool) \<Rightarrow> test_outcome_record list \<Rightarrow> u32" where
  "count_records p rs = fold (\<lambda>r n. if p r then n + 1 else n) rs 0"

definition reconcile_run :: "nextest_run \<Rightarrow> (string \<times> u32 \<times> u32) list" where
  "reconcile_run run =
    filter (\<lambda>(_, summary, records). summary \<noteq> records)
      [(''passed'', sm_passed (nr_summary run),
          count_records (\<lambda>r. \<not> tro_ignored r \<and> tro_passed r) (nr_records run)),
       (''failed'', sm_failed (nr_summary run),
          count_records (\<lambda>r. \<not> tro_ignored r \<and> \<not> tro_passed r) (nr_records run)),
       (''ignored'', sm_ignored (nr_summary run), count_records tro_ignored (nr_records run))]"

section \<open>The text of cargo test\<close>

datatype test_outcome = TestPassed | TestFailed | TestIgnored

definition rfind_char :: "char \<Rightarrow> string \<Rightarrow> nat option" where
  "rfind_char c s = (if c \<in> set s then Some (length (takeWhile (\<lambda>d. d \<noteq> c) (rev s))) else None)"

text \<open>\<open>rfind_char\<close> counts the bytes after the last occurrence; \<open>before_last\<close> keeps those before it.\<close>

definition before_last :: "char \<Rightarrow> string \<Rightarrow> string option" where
  "before_last c s = map_option (\<lambda>n. take (length s - n - 1) s) (rfind_char c s)"

definition extract_binary_name :: "string \<Rightarrow> string option" where
  "extract_binary_name line =
    Option.bind (before_last CHR ''('' line) (\<lambda>pre_open.
    Option.bind (before_last CHR '')'' line) (\<lambda>pre_close.
    if length pre_close \<le> length pre_open + 1 then None
    else Option.bind (before_last CHR ''-''
        (last (split_on slash (drop (length pre_open + 1) pre_close)))) (\<lambda>bin.
      if bin = [] then None else Some bin)))"

record libtest_state =
  lb_passed :: u64
  lb_failed :: u64
  lb_ignored :: u64
  lb_filtered_out :: u64
  lb_found :: bool
  lb_binary_idx :: int
  lb_outcomes :: "(string, test_outcome) bmap"

definition merge_outcome ::
  "string \<Rightarrow> test_outcome \<Rightarrow> (string, test_outcome) bmap \<Rightarrow> (string, test_outcome) bmap" where
  "merge_outcome key new outcomes =
    (case bget outcomes key of
       Some TestFailed \<Rightarrow> outcomes
     | old \<Rightarrow> if new = TestFailed then bins key TestFailed outcomes
         else if old = Some TestPassed then outcomes
         else bins key new outcomes)"

definition outcome_of_word :: "string option \<Rightarrow> test_outcome option" where
  "outcome_of_word w =
    (if w = Some ''ok'' then Some TestPassed
     else if w = Some ''FAILED'' then Some TestFailed
     else if w = Some ''ignored'' then Some TestIgnored
     else None)"

definition unknown_binary :: string where
  "unknown_binary = ''__unknown_binary__''"

definition libtest_outcome :: "string list \<Rightarrow> string \<Rightarrow> libtest_state \<Rightarrow> libtest_state" where
  "libtest_outcome binaries rest st =
    (case split_once '' ... '' rest of
       None \<Rightarrow> st
     | Some (name, outcome_tail) \<Rightarrow>
        (case outcome_of_word (nth_token 0 outcome_tail) of
           None \<Rightarrow> st
         | Some new \<Rightarrow>
            let i = lb_binary_idx st;
                bin = (if 0 \<le> i \<and> nat i < length binaries then binaries ! nat i else unknown_binary)
            in st\<lparr>lb_outcomes := merge_outcome (bin @ ''::'' @ name) new (lb_outcomes st)\<rparr>))"

text \<open>A segment comes from splitting at the semicolons, so it ends in none.\<close>

definition libtest_segment :: "string \<Rightarrow> libtest_state \<Rightarrow> libtest_state" where
  "libtest_segment segment st =
    (case split_once '' '' (trim segment) of
       None \<Rightarrow> st
     | Some (number, word) \<Rightarrow>
        (case parse_u64 number of
           None \<Rightarrow> st
         | Some n \<Rightarrow>
            let w = trim word in
            if w = ''passed'' then st\<lparr>lb_passed := lb_passed st + n\<rparr>
            else if w = ''failed'' then st\<lparr>lb_failed := lb_failed st + n\<rparr>
            else if w = ''ignored'' then st\<lparr>lb_ignored := lb_ignored st + n\<rparr>
            else if w = ''filtered out'' then st\<lparr>lb_filtered_out := lb_filtered_out st + n\<rparr>
            else st))"

definition libtest_result :: "string \<Rightarrow> libtest_state \<Rightarrow> libtest_state" where
  "libtest_result line st =
    (case (case strip_prefix ''test result: ok. '' line of
             Some rest \<Rightarrow> Some rest
           | None \<Rightarrow> strip_prefix ''test result: FAILED. '' line) of
       Some after_prefix \<Rightarrow>
         fold libtest_segment (split_on CHR '';'' after_prefix) (st\<lparr>lb_found := True\<rparr>)
     | None \<Rightarrow> st)"

definition libtest_line :: "string list \<Rightarrow> string \<Rightarrow> libtest_state \<Rightarrow> libtest_state" where
  "libtest_line binaries line st =
    (let line = trim line in
     if has_prefix ''running '' line \<and> nth_token 2 line \<in> {Some ''tests'', Some ''test''}
     then st\<lparr>lb_binary_idx := lb_binary_idx st + 1\<rparr>
     else if has_prefix ''Running '' line then st
     else if has_prefix ''test result:'' line then libtest_result line st
     else (case strip_prefix ''test '' line of
         Some rest \<Rightarrow> libtest_outcome binaries rest st
       | None \<Rightarrow> st))"

definition crlf_to_lf :: "string \<Rightarrow> string" where
  "crlf_to_lf s = (let pieces = split_on newline s in
    join_with [newline] (map strip_cr (butlast pieces) @ [last pieces]))"

definition parse_cargo_test_output_with_outcomes ::
  "string \<Rightarrow> (test_summary \<times> (string, test_outcome) bmap) option" where
  "parse_cargo_test_output_with_outcomes output =
    (let output_lines = str_lines (crlf_to_lf output);
         binaries = List.map_filter extract_binary_name
           (filter (has_prefix ''Running '') (map trim output_lines));
         st = fold (libtest_line binaries) output_lines
           \<lparr>lb_passed = 0, lb_failed = 0, lb_ignored = 0, lb_filtered_out = 0, lb_found = False,
            lb_binary_idx = -1, lb_outcomes = []\<rparr>
     in if \<not> lb_found st then None
        else Some (\<lparr>sm_total = ucast (saturating_add (saturating_add
               (saturating_add (lb_passed st) (lb_failed st)) (lb_ignored st)) (lb_filtered_out st)),
             sm_passed = ucast (lb_passed st), sm_failed = ucast (lb_failed st),
             sm_ignored = ucast (lb_ignored st), sm_filtered_out = ucast (lb_filtered_out st)\<rparr>,
           lb_outcomes st))"

definition parse_cargo_test_output :: "string \<Rightarrow> test_summary option" where
  "parse_cargo_test_output output =
    map_option fst (parse_cargo_test_output_with_outcomes output)"

end
