(* ===== verification/Verify_Checks.thy ===== *)
theory Verify_Checks
  imports Test_Output
begin

text \<open>
  The findings of a bundle verification (\<^verbatim>\<open>verify/errors.rs\<close>) and its checks over the index and
  the files of the bundle (the other files of \<^verbatim>\<open>verify/\<close> and \<^verbatim>\<open>verify/bundle.rs\<close>). Each check
  returns the findings it pushes. The JSON and TOML parsers, the JSON printer and the rendering of a
  gathering error are parameters, the fields of a \<open>codec\<close>.
\<close>

section \<open>Findings\<close>

datatype (plugins only: code) verify_error =
    UnexpectedFile string
  | SignatureInvalid
  | HashMismatch string string string
  | MissingHashedFile string
  | ContentHashMismatch string string
  | UnsafePath string
  | FormatError string string string
  | CrossFileInconsistency string string string
  | DeterministicHashMismatch string string
  | ManifestProjectionDrift string
  | TraceOutputNotHashed string
  | TestSummaryMismatch string string string
  | DalMapMismatch string string string
  | DalMapOrphan string string
  | PrereleaseToolDetected string string
  | BundleIncompletelyClaimed nat
  | ToolCommandsFailedSilently string "string list"
  | TestSummaryAbsentOnFailedRun string
  | LlrTestSelectorUnresolved string string
  | BoundaryVerifyMetadataMissing
  | BoundaryVerifyForbiddenBuildRs string
  | BoundaryVerifyForbiddenProcMacro string
  | SourceBaselineEmpty
  | TestIdentityUnknown string
  | OutputManifestEmpty
  | TraceEvidenceNotAdopted string
  | TraceEvidenceEmpty string
  | OnlineResolutionBundle string

fun verify_error_code :: "verify_error \<Rightarrow> string" where
  "verify_error_code (UnexpectedFile _) = ''VERIFY_UNEXPECTED_FILE''"
| "verify_error_code SignatureInvalid = ''VERIFY_SIGNATURE_INVALID''"
| "verify_error_code (HashMismatch _ _ _) = ''VERIFY_HASH_MISMATCH''"
| "verify_error_code (MissingHashedFile _) = ''VERIFY_MISSING_HASHED_FILE''"
| "verify_error_code (ContentHashMismatch _ _) = ''VERIFY_CONTENT_HASH_MISMATCH''"
| "verify_error_code (UnsafePath _) = ''VERIFY_UNSAFE_PATH''"
| "verify_error_code (FormatError _ _ _) = ''VERIFY_INVALID_FORMAT''"
| "verify_error_code (CrossFileInconsistency _ _ _) = ''VERIFY_CROSS_FILE_INCONSISTENCY''"
| "verify_error_code (DeterministicHashMismatch _ _) = ''VERIFY_DETERMINISTIC_HASH_MISMATCH''"
| "verify_error_code (ManifestProjectionDrift _) = ''VERIFY_MANIFEST_PROJECTION_DRIFT''"
| "verify_error_code (TraceOutputNotHashed _) = ''VERIFY_TRACE_OUTPUT_NOT_HASHED''"
| "verify_error_code (TestSummaryMismatch _ _ _) = ''VERIFY_TEST_SUMMARY_MISMATCH''"
| "verify_error_code (DalMapMismatch _ _ _) = ''VERIFY_DAL_MAP_MISMATCH''"
| "verify_error_code (DalMapOrphan _ _) = ''VERIFY_DAL_MAP_ORPHAN''"
| "verify_error_code (PrereleaseToolDetected _ _) = ''VERIFY_PRERELEASE_TOOL''"
| "verify_error_code (BundleIncompletelyClaimed _) = ''VERIFY_BUNDLE_INCOMPLETELY_CLAIMED''"
| "verify_error_code (ToolCommandsFailedSilently _ _) = ''VERIFY_TOOL_COMMANDS_FAILED_SILENTLY''"
| "verify_error_code (TestSummaryAbsentOnFailedRun _) = ''VERIFY_TEST_SUMMARY_ABSENT_ON_FAILED_RUN''"
| "verify_error_code (LlrTestSelectorUnresolved _ _) = ''VERIFY_LLR_TEST_SELECTOR_UNRESOLVED''"
| "verify_error_code BoundaryVerifyMetadataMissing = ''BOUNDARY_VERIFY_METADATA_MISSING''"
| "verify_error_code (BoundaryVerifyForbiddenBuildRs _) = ''VERIFY_BOUNDARY_BUILD_RS_DETECTED''"
| "verify_error_code (BoundaryVerifyForbiddenProcMacro _) = ''VERIFY_BOUNDARY_PROC_MACRO_DETECTED''"
| "verify_error_code SourceBaselineEmpty = ''VERIFY_SOURCE_BASELINE_EMPTY''"
| "verify_error_code (TestIdentityUnknown _) = ''VERIFY_TEST_IDENTITY_UNKNOWN''"
| "verify_error_code OutputManifestEmpty = ''VERIFY_OUTPUT_MANIFEST_EMPTY''"
| "verify_error_code (TraceEvidenceNotAdopted _) = ''TRACE_EVIDENCE_NOT_ADOPTED''"
| "verify_error_code (TraceEvidenceEmpty _) = ''TRACE_EVIDENCE_EMPTY''"
| "verify_error_code (OnlineResolutionBundle _) = ''VERIFY_ONLINE_RESOLUTION''"

text \<open>The file a finding points at.\<close>

fun verify_error_location :: "verify_error \<Rightarrow> string option" where
  "verify_error_location (UnexpectedFile p) = Some p"
| "verify_error_location (MissingHashedFile p) = Some p"
| "verify_error_location (UnsafePath p) = Some p"
| "verify_error_location (TraceOutputNotHashed p) = Some p"
| "verify_error_location (HashMismatch file _ _) = Some file"
| "verify_error_location (DalMapMismatch name _ _) = Some (''compliance/'' @ name @ ''.json'')"
| "verify_error_location (DalMapOrphan name _) = Some (''compliance/'' @ name @ ''.json'')"
| "verify_error_location BoundaryVerifyMetadataMissing = Some ''cargo_metadata.json''"
| "verify_error_location SourceBaselineEmpty = Some ''inputs_hashes.json''"
| "verify_error_location (TestIdentityUnknown _) = Some ''tests/test_outcomes.jsonl''"
| "verify_error_location OutputManifestEmpty = Some ''outputs_hashes.json''"
| "verify_error_location (TraceEvidenceNotAdopted _) = Some ''trace/''"
| "verify_error_location (TraceEvidenceEmpty _) = Some ''trace/''"
| "verify_error_location _ = None"

section \<open>What the checks take from the serialization libraries\<close>

datatype recipe_projection_error =
    ProjectionIo string string io_error
  | ProjectionSerialize string string
  | ProjectionParse string string string

record codec =
  decode_index :: "string \<Rightarrow> string + evidence_index"
  decode_value :: "string \<Rightarrow> json option"
  decode_string_map :: "bytes \<Rightarrow> string + (string, string) bmap"
  decode_env :: "bytes \<Rightarrow> string + env_fingerprint"
  decode_commands :: "bytes \<Rightarrow> string + command_record list"
  decode_projection :: "bytes \<Rightarrow> string + cargo_projection"
  decode_report_dal :: "string \<Rightarrow> string + string"
  decode_hlrs :: "string \<Rightarrow> hlr_entry list option"
  decode_llrs :: "string \<Rightarrow> llr_entry list option"
  decode_tests :: "string \<Rightarrow> test_entry list option"
  decode_derived :: "string \<Rightarrow> derived_entry list option"
  encode_string_map :: "(string, string) bmap \<Rightarrow> string + bytes"
  encode_commands :: "command_record list \<Rightarrow> string + bytes"
  encode_dependencies :: "(string, string list) bmap \<Rightarrow> string + bytes"
  encode_manifest :: "recipe_manifest \<Rightarrow> string + bytes"
  encode_projection :: "cargo_projection \<Rightarrow> string + bytes"
  encode_outcome :: "test_outcome_record \<Rightarrow> string + bytes"
  from_utf8_lossy :: "bytes \<Rightarrow> string"
  encode_index :: "evidence_index \<Rightarrow> string + bytes"
  decode_hex :: "string \<Rightarrow> string + bytes"
  encode_hex :: "bytes \<Rightarrow> string"
  show_projection_error :: "recipe_projection_error \<Rightarrow> string"
  show_io_error :: "io_error \<Rightarrow> string"

definition ok_of :: "'e + 'a \<Rightarrow> 'a option" where
  "ok_of r = (case r of Inr x \<Rightarrow> Some x | Inl _ \<Rightarrow> None)"

definition push_if :: "bool \<Rightarrow> 'e \<Rightarrow> 'e list" where
  "push_if b e = (if b then [e] else [])"

section \<open>Checks over the index\<close>

definition commands_owning_test_summary :: "string list" where
  "commands_owning_test_summary = [''cargo test --workspace'']"

definition check_bundle_completeness :: "evidence_index \<Rightarrow> verify_error list" where
  "check_bundle_completeness index =
    (let failures = ix_tool_command_failures index in
     push_if (ix_bundle_complete index \<and> failures \<noteq> []) (BundleIncompletelyClaimed (length failures))
     @ push_if (\<not> ix_bundle_complete index \<and> assured_profile (ix_profile index))
         (ToolCommandsFailedSilently (profile_display (ix_profile index)) (map tf_command_name failures))
     @ concat (map (\<lambda>failure. push_if
           (tf_command_name failure \<in> set commands_owning_test_summary \<and> ix_test_summary index = None)
           (TestSummaryAbsentOnFailedRun (tf_command_name failure))) failures))"

definition check_resolution_policy :: "evidence_index \<Rightarrow> verify_error list" where
  "check_resolution_policy index =
    push_if (ix_resolution_policy index = OnlineOptIn \<and> assured_profile (ix_profile index))
      (OnlineResolutionBundle (profile_display (ix_profile index)))"

definition is_hexdigit :: "char \<Rightarrow> bool" where
  "is_hexdigit c \<longleftrightarrow> is_lower_hex c \<or> (65 \<le> byte c \<and> byte c \<le> 70)"

definition is_git_sha :: "string \<Rightarrow> bool" where
  "is_git_sha s \<longleftrightarrow> length s = 40 \<and> (\<forall>c \<in> set s. is_hexdigit c)"

definition check_engine_source :: "string \<Rightarrow> string \<Rightarrow> profile \<Rightarrow> verify_error list" where
  "check_engine_source source sha profile =
    (if source = ''git'' then
       push_if (\<not> is_git_sha sha) (FormatError ''engine_git_sha''
         (''40-character hex SHA when engine_build_source='' @ [CHR 0x22] @ ''git'' @ [CHR 0x22]) sha)
     else if source = ''release'' then
       push_if (case strip_prefix ''release-v'' sha of
            Some (c # _) \<Rightarrow> \<not> is_ascii_digit c | _ \<Rightarrow> True)
         (FormatError ''engine_git_sha'' (''release-v<version> string when engine_build_source=''
            @ [CHR 0x22] @ ''release'' @ [CHR 0x22]) sha)
       @ push_if (profile \<noteq> DevProfile) (FormatError ''engine_build_source''
           ([CHR 0x22] @ ''git'' @ [CHR 0x22] @ '' (required for cert/record profiles)'') source)
     else if source = ''unknown'' then
       push_if (profile \<noteq> DevProfile) (FormatError ''engine_build_source''
         ([CHR 0x22] @ ''git'' @ [CHR 0x22]
           @ '' (cert/record cannot accept unlabeled engine provenance)'') source)
     else [FormatError ''engine_build_source'' ''one of: git, release, unknown'' source])"

definition validate_index_fields :: "platform \<Rightarrow> evidence_index \<Rightarrow> verify_error list" where
  "validate_index_fields X index =
    push_if (ix_profile index \<noteq> DevProfile \<and> \<not> is_git_sha (ix_git_sha index))
      (FormatError ''git_sha'' ''40-character hex (required for cert/record profiles)''
        (ix_git_sha index))
    @ check_engine_source (ix_engine_build_source index) (ix_engine_git_sha index) (ix_profile index)
    @ push_if (\<not> is_rfc3339 X (ix_timestamp_rfc3339 index))
        (FormatError ''timestamp_rfc3339'' ''valid RFC3339 datetime'' (ix_timestamp_rfc3339 index))
    @ push_if (\<not> is_valid_digest_hex (ix_content_hash index))
        (FormatError ''content_hash'' ''64-character lowercase hex (SHA-256)'' (ix_content_hash index))
    @ push_if (\<not> is_valid_digest_hex (ix_recipe_hash index))
        (FormatError ''recipe_hash'' ''64-character lowercase hex (SHA-256)'' (ix_recipe_hash index))"

section \<open>Checks over files\<close>

definition nonblank_lines :: "string \<Rightarrow> string list" where
  "nonblank_lines s = filter (\<lambda>l. \<not> is_blank l) (str_lines s)"

definition claimed_uids :: "codec \<Rightarrow> string \<Rightarrow> string list" where
  "claimed_uids C jsonl = concat (map (\<lambda>line.
     case Option.bind (decode_value C line) (\<lambda>rec.
       Option.bind (json_get ''requirement_uids'' rec) json_array) of
       Some arr \<Rightarrow> List.map_filter json_str arr
     | None \<Rightarrow> []) (nonblank_lines jsonl))"

definition llr_selector_error :: "string list \<Rightarrow> llr_entry \<Rightarrow> verify_error list" where
  "llr_selector_error claimed llr =
    (case l_uid llr of
       None \<Rightarrow> []
     | Some u \<Rightarrow>
        push_if (u \<noteq> [] \<and> (\<exists>m \<in> set (l_verification_methods llr). eq_ignore_ascii_case m ''test'')
            \<and> u \<notin> set claimed)
          (LlrTestSelectorUnresolved u (l_id llr)))"

definition check_llr_test_selectors :: "codec \<Rightarrow> bundle_tree \<Rightarrow> verify_error list" where
  "check_llr_test_selectors C bundle =
    (if \<not> path_exists bundle ''tests/test_outcomes.jsonl'' \<or> \<not> path_exists bundle ''trace/llr.toml''
     then []
     else case read_to_string bundle ''tests/test_outcomes.jsonl'' of
       Inl _ \<Rightarrow> []
     | Inr jsonl \<Rightarrow>
        (case Option.bind (ok_of (read_to_string bundle ''trace/llr.toml'')) (decode_llrs C) of
           None \<Rightarrow> []
         | Some llrs \<Rightarrow> concat (map (llr_selector_error (claimed_uids C jsonl)) llrs)))"

text \<open>The source baseline and the output manifest: a digest map that must not be empty.\<close>

definition empty_map_file :: "codec \<Rightarrow> bundle_tree \<Rightarrow> string \<Rightarrow> bool" where
  "empty_map_file C bundle name \<longleftrightarrow>
    Option.bind (ok_of (read_to_string bundle name)) (\<lambda>c. ok_of (decode_string_map C c)) = Some []"

definition check_source_baseline :: "codec \<Rightarrow> bundle_tree \<Rightarrow> bool \<Rightarrow> verify_error list" where
  "check_source_baseline C bundle declares_scope =
    push_if (declares_scope \<and> empty_map_file C bundle ''inputs_hashes.json'') SourceBaselineEmpty"

definition check_output_manifest :: "codec \<Rightarrow> bundle_tree \<Rightarrow> bool \<Rightarrow> verify_error list" where
  "check_output_manifest C bundle build_ran =
    push_if (build_ran \<and> empty_map_file C bundle ''outputs_hashes.json'') OutputManifestEmpty"

definition identity_error :: "codec \<Rightarrow> string \<Rightarrow> verify_error list" where
  "identity_error C line = (case decode_value C line of
     None \<Rightarrow> []
   | Some rec \<Rightarrow>
      let module_path = or_default (str_member ''module_path'' rec) [] in
      push_if (contains_str unknown_binary module_path) (TestIdentityUnknown
        (module_path @ ''::'' @ or_default (str_member ''name'' rec) ''<unknown>'')))"

definition check_test_identity :: "codec \<Rightarrow> bundle_tree \<Rightarrow> verify_error list" where
  "check_test_identity C bundle =
    (case read_to_string bundle ''tests/test_outcomes.jsonl'' of
       Inl _ \<Rightarrow> []
     | Inr jsonl \<Rightarrow> concat (map (identity_error C) (nonblank_lines jsonl)))"

text \<open>One trace file: whether it is there, and how many entries it parses to.\<close>

definition trace_file_count ::
  "bundle_tree \<Rightarrow> (string \<Rightarrow> 'e list option) \<Rightarrow> string \<Rightarrow> bool \<times> nat" where
  "trace_file_count bundle parse name =
    (if path_is_file bundle (''trace/'' @ name)
     then (True, case Option.bind (ok_of (read_to_string bundle (''trace/'' @ name))) parse of
         Some es \<Rightarrow> length es | None \<Rightarrow> 0)
     else (False, 0))"

definition check_trace_evidence :: "codec \<Rightarrow> bundle_tree \<Rightarrow> profile \<Rightarrow> verify_error list" where
  "check_trace_evidence C bundle profile =
    (if \<not> assured_profile profile then []
     else let counts = [trace_file_count bundle (decode_hlrs C) ''sys.toml'',
              trace_file_count bundle (decode_hlrs C) ''hlr.toml'',
              trace_file_count bundle (decode_llrs C) ''llr.toml'',
              trace_file_count bundle (decode_tests C) ''tests.toml'',
              trace_file_count bundle (decode_derived C) ''derived.toml'']
       in if \<not> (\<exists>c \<in> set counts. fst c) then [TraceEvidenceNotAdopted (profile_display profile)]
          else push_if (sum_list (map snd counts) = 0) (TraceEvidenceEmpty (profile_display profile)))"

text \<open>A member that is absent or not of the expected type is not compared.\<close>

definition compare_member ::
  "(json \<Rightarrow> 'a option) \<Rightarrow> ('a \<Rightarrow> string) \<Rightarrow> json \<Rightarrow> string \<Rightarrow> 'a \<Rightarrow> verify_error list" where
  "compare_member read show_it env field index_value =
    (case Option.bind (json_get field env) read of
       Some env_value \<Rightarrow> push_if (env_value \<noteq> index_value)
         (CrossFileInconsistency field (show_it index_value) (show_it env_value))
     | None \<Rightarrow> [])"

definition show_bool :: "bool \<Rightarrow> string" where
  "show_bool b = (if b then ''true'' else ''false'')"

definition check_env_vs_index :: "codec \<Rightarrow> bundle_tree \<Rightarrow> evidence_index \<Rightarrow> verify_error list" where
  "check_env_vs_index C bundle index =
    (case Option.bind (ok_of (read_to_string bundle ''env.json'')) (decode_value C) of
       None \<Rightarrow> []
     | Some env \<Rightarrow>
        compare_member json_str (\<lambda>s. s) env ''profile'' (profile_display (ix_profile index))
        @ compare_member json_str (\<lambda>s. s) env ''git_sha'' (ix_git_sha index)
        @ compare_member json_str (\<lambda>s. s) env ''git_branch'' (ix_git_branch index)
        @ compare_member json_bool show_bool env ''git_dirty'' (ix_git_dirty index))"

definition check_prerelease_tool :: "codec \<Rightarrow> bundle_tree \<Rightarrow> evidence_index \<Rightarrow> verify_error list" where
  "check_prerelease_tool C bundle index =
    (case Option.bind (ok_of (read_bytes bundle ''env.json'')) (\<lambda>b. ok_of (decode_env C b)) of
       Some env \<Rightarrow> push_if (ev_tool_prerelease env) (PrereleaseToolDetected
         (profile_display (ix_profile index)) (ix_engine_crate_version index))
     | None \<Rightarrow> [])"

definition check_trace_output :: "bundle_tree \<Rightarrow> string \<Rightarrow> verify_error list" where
  "check_trace_output bundle trace_out =
    (if \<not> is_safe_bundle_path trace_out then [UnsafePath trace_out]
     else push_if (\<not> path_exists bundle trace_out) (MissingHashedFile (''trace output: '' @ trace_out)))"

definition check_trace_outputs_hashed :: "evidence_index \<Rightarrow> string list \<Rightarrow> verify_error list" where
  "check_trace_outputs_hashed index listed =
    concat (map (\<lambda>t. push_if (t \<notin> set listed) (TraceOutputNotHashed t)) (ix_trace_outputs index))"

section \<open>The captured test summary\<close>

definition show_u32 :: "u32 \<Rightarrow> string" where
  "show_u32 n = show_nat (unat n)"

definition suite_marker :: string where
  "suite_marker = [CHR 0x22] @ ''type'' @ [CHR 0x22, CHR '':'', CHR 0x22] @ ''suite'' @ [CHR 0x22]"

definition summary_case :: "string \<Rightarrow> u32 \<Rightarrow> u32 \<Rightarrow> verify_error list" where
  "summary_case field index_value parsed_value = push_if (index_value \<noteq> parsed_value)
     (TestSummaryMismatch field (show_u32 index_value) (show_u32 parsed_value))"

definition check_test_summary :: "codec \<Rightarrow> bundle_tree \<Rightarrow> evidence_index \<Rightarrow> verify_error list" where
  "check_test_summary C bundle index =
    (case ix_test_summary index of
       None \<Rightarrow> []
     | Some ts \<Rightarrow>
        (case read_to_string bundle ''tests/cargo_test_stdout.txt'' of
           Inl _ \<Rightarrow> []
         | Inr captured \<Rightarrow>
            (case (if contains_str suite_marker captured
                 then Some (nr_summary (parse_nextest_libtest_json (decode_value C) captured))
                 else parse_cargo_test_output captured) of
               Some parsed \<Rightarrow>
                 summary_case ''total'' (sm_total ts) (sm_total parsed)
                 @ summary_case ''passed'' (sm_passed ts) (sm_passed parsed)
                 @ summary_case ''failed'' (sm_failed ts) (sm_failed parsed)
                 @ summary_case ''ignored'' (sm_ignored ts) (sm_ignored parsed)
                 @ summary_case ''filtered_out'' (sm_filtered_out ts) (sm_filtered_out parsed)
             | None \<Rightarrow> [TestSummaryMismatch ''parse''
                 (''total='' @ show_u32 (sm_total ts) @ '' passed='' @ show_u32 (sm_passed ts)
                    @ '' failed='' @ show_u32 (sm_failed ts))
                 ''no recognizable test summary in cargo_test_stdout.txt''])))"

section \<open>The assurance map against the compliance reports\<close>

definition report_path :: "string \<Rightarrow> string" where
  "report_path crate_name = ''compliance/'' @ crate_name @ ''.json''"

definition check_dal_entry :: "codec \<Rightarrow> bundle_tree \<Rightarrow> string \<times> string \<Rightarrow> verify_error list" where
  "check_dal_entry C bundle entry =
    (case entry of (crate_name, index_dal) \<Rightarrow>
       if \<not> path_exists bundle (report_path crate_name)
       then [DalMapOrphan crate_name (report_path crate_name @ '' missing'')]
       else case read_to_string bundle (report_path crate_name) of
         Inl e \<Rightarrow> [DalMapOrphan crate_name
           (report_path crate_name @ '' read error: '' @ show_io_error C e)]
       | Inr s \<Rightarrow> (case decode_report_dal C s of
           Inl e \<Rightarrow> [DalMapOrphan crate_name (report_path crate_name @ '' parse error: '' @ e)]
         | Inr report_dal \<Rightarrow> push_if (report_dal \<noteq> index_dal)
             (DalMapMismatch crate_name index_dal report_dal)))"

text \<open>The entries of a directory, each once; \<^verbatim>\<open>read_dir\<close> lists files and directories.\<close>

definition dir_entries :: "bundle_tree \<Rightarrow> string list \<Rightarrow> string list" where
  "dir_entries t p = dedup (sort (List.map_filter
     (\<lambda>q. if length p < length q \<and> take (length p) q = p then Some (q ! length p) else None)
     (bkeys (bt_files t) @ bt_dirs t)))"

text \<open>\<^verbatim>\<open>Path::extension\<close> and \<^verbatim>\<open>Path::file_stem\<close> of a name: split at the last dot, unless the dot
  is the first byte.\<close>

definition json_stem :: "string \<Rightarrow> string option" where
  "json_stem name = (case rsplit_once ''.'' name of
     Some (stem, ext) \<Rightarrow> if stem \<noteq> [] \<and> ext = ''json'' then Some stem else None
   | None \<Rightarrow> None)"

definition check_dal_map :: "codec \<Rightarrow> bundle_tree \<Rightarrow> evidence_index \<Rightarrow> verify_error list" where
  "check_dal_map C bundle index =
    concat (map (check_dal_entry C bundle) (ix_dal_map index))
    @ (if path_is_dir bundle ''compliance'' then
        concat (map (\<lambda>stem. push_if (bget (ix_dal_map index) stem = None)
            (DalMapOrphan stem (report_path stem @ '' has no entry in index.dal_map'')))
          (List.map_filter json_stem (dir_entries bundle [''compliance''])))
       else [])"

section \<open>The boundary policy against the recorded dependency graph\<close>

definition build_rs_text :: "string \<times> string option \<Rightarrow> string" where
  "build_rs_text v = (case v of
     (name, Some l) \<Rightarrow> name @ '' (links = '' @ [CHR 0x22] @ l @ [CHR 0x22] @ '')''
   | (name, None) \<Rightarrow> name)"

definition check_boundary_recheck :: "codec \<Rightarrow> bundle_tree \<Rightarrow> evidence_index \<Rightarrow> verify_error list" where
  "check_boundary_recheck C bundle index =
    (let policy = ix_boundary_policy index; in_scope = bkeys (ix_dal_map index) in
     if \<not> bp_forbid_build_rs policy \<and> \<not> bp_forbid_proc_macros policy then []
     else if ix_dal_map index = [] then []
     else case (if path_is_file bundle ''cargo_metadata.json''
         then Option.bind (ok_of (read_to_string bundle ''cargo_metadata.json''))
           (\<lambda>raw. ok_of (decode_projection C raw))
         else None) of
       None \<Rightarrow> [BoundaryVerifyMetadataMissing]
     | Some projection \<Rightarrow>
        (let build = check_build_rs_in_projection in_scope projection in
         push_if (bp_forbid_build_rs policy \<and> build \<noteq> [])
           (BoundaryVerifyForbiddenBuildRs (join_with '', '' (map build_rs_text build))))
        @ (let macros = check_proc_macros_in_projection in_scope projection in
           push_if (bp_forbid_proc_macros policy \<and> macros \<noteq> [])
             (BoundaryVerifyForbiddenProcMacro (join_with '', '' macros))))"

end
