(* ===== verification/Verify_Bundle.thy ===== *)
theory Verify_Bundle
  imports Verify_Checks
begin

text \<open>
  The bundle verifier (\<^verbatim>\<open>verify/bundle.rs\<close>): the listing of content hashes, the recipe manifest as
  a projection of the bundle's content (\<^verbatim>\<open>env/manifest.rs\<close>), the signature over the envelope
  (\<^verbatim>\<open>bundle/signing.rs\<close>), and the order in which all checks run. A verifying key is its
  verification function; log lines are left out.
\<close>

section \<open>Runtime faults and results\<close>

datatype signing_error =
    SigningRead string io_error
  | SigningWrite string io_error
  | InvalidKey string
  | InvalidSignatureHex string
  | KeygenEntropy string

fun signing_error_code :: "signing_error \<Rightarrow> string" where
  "signing_error_code (SigningRead _ _) = ''SIGN_READ_FAILED''"
| "signing_error_code (SigningWrite _ _) = ''SIGN_WRITE_FAILED''"
| "signing_error_code (InvalidKey _) = ''SIGN_INVALID_KEY''"
| "signing_error_code (InvalidSignatureHex _) = ''SIGN_INVALID_SIGNATURE_HEX''"
| "signing_error_code (KeygenEntropy _) = ''SIGN_KEYGEN_ENTROPY''"

datatype verify_runtime_error =
    BundleNotFound string
  | RuntimeReadFile string io_error
  | ReadVerifyKey string io_error
  | ParseIndex string
  | RuntimeWalk string
  | RuntimeHash hash_error
  | RuntimeSigning signing_error

fun verify_runtime_error_code :: "verify_runtime_error \<Rightarrow> string" where
  "verify_runtime_error_code (BundleNotFound _) = ''VERIFY_RUNTIME_BUNDLE_NOT_FOUND''"
| "verify_runtime_error_code (RuntimeReadFile _ _) = ''VERIFY_RUNTIME_READ_FILE''"
| "verify_runtime_error_code (ReadVerifyKey _ _) = ''VERIFY_RUNTIME_READ_VERIFY_KEY''"
| "verify_runtime_error_code (ParseIndex _) = ''VERIFY_RUNTIME_PARSE_INDEX''"
| "verify_runtime_error_code (RuntimeWalk _) = ''VERIFY_RUNTIME_WALK''"
| "verify_runtime_error_code (RuntimeHash _) = ''VERIFY_RUNTIME_HASH''"
| "verify_runtime_error_code (RuntimeSigning _) = ''VERIFY_RUNTIME_SIGNING''"

datatype (plugins only: code) verify_result = Pass | Fail "verify_error list" | Skipped string

section \<open>The listing of content hashes\<close>

definition required_files :: "string list" where
  "required_files = [''index.json'', ''inputs_hashes.json'', ''outputs_hashes.json'', ''commands.json'',
     ''env.json'', ''deterministic-manifest.json'', ''SHA256SUMS'']"

definition known_meta_files :: "string list" where
  "known_meta_files = [''index.json'', ''SHA256SUMS'', ''BUNDLE.sig'']"

text \<open>One line of the listing, over the files listed so far and the findings.\<close>

definition check_listed_file ::
  "platform \<Rightarrow> bundle_tree \<Rightarrow> string \<Rightarrow> string \<Rightarrow> hash_error + verify_error list" where
  "check_listed_file X bundle expected_hash filename =
    (if \<not> path_exists bundle filename then Ok [MissingHashedFile filename]
     else rbind (sha256_file X bundle filename) (\<lambda>actual_hash.
       Ok (push_if (actual_hash \<noteq> expected_hash) (HashMismatch filename expected_hash actual_hash))))"

definition hash_line ::
  "platform \<Rightarrow> bundle_tree \<Rightarrow> string list \<times> verify_error list \<Rightarrow> string
    \<Rightarrow> hash_error + string list \<times> verify_error list" where
  "hash_line X bundle st line =
    (case st of (listed, errors) \<Rightarrow>
     if line = [] then Ok (listed, errors)
     else case split_once ''  '' line of
       None \<Rightarrow> Ok (listed, errors
         @ [HashMismatch ''(malformed line)'' [] (''malformed SHA256SUMS line: '' @ line)])
     | Some (expected_hash, filename) \<Rightarrow>
        if length expected_hash \<noteq> 64 \<or> \<not> (\<forall>c \<in> set expected_hash. is_hexdigit c)
        then Ok (listed, errors @ [HashMismatch filename
               (''64-char hex, got '' @ show_nat (length expected_hash) @ '' chars'') expected_hash])
        else if \<not> is_safe_bundle_path filename then Ok (listed, errors @ [UnsafePath filename])
        else rbind (check_listed_file X bundle expected_hash filename) (\<lambda>found.
          Ok (listed @ [filename], errors @ found)))"

definition hash_sha256sums_entries ::
  "platform \<Rightarrow> bundle_tree \<Rightarrow> string \<Rightarrow> hash_error + string list \<times> verify_error list" where
  "hash_sha256sums_entries X bundle content = fold_res (hash_line X bundle) ([], []) (str_lines content)"

text \<open>The files the walk finds that are neither listed nor metadata.\<close>

definition unexpected_files :: "bundle_tree \<Rightarrow> string list \<Rightarrow> verify_error list" where
  "unexpected_files bundle listed = concat (map (\<lambda>p.
     push_if (relative_name p \<notin> set listed \<and> relative_name p \<notin> set known_meta_files)
       (UnexpectedFile (relative_name p))) (bkeys (bt_files bundle)))"

section \<open>The recipe manifest\<close>

datatype gather_failure = GatherMissing | GatherUnreadable recipe_projection_error

definition inputs_digest ::
  "platform \<Rightarrow> codec \<Rightarrow> (string, string) bmap \<Rightarrow> recipe_projection_error + string" where
  "inputs_digest X C inputs = rbind (map_err (ProjectionSerialize ''inputs_hashes.json'')
     (encode_string_map C inputs)) (\<lambda>b. Ok (sha256 X b))"

definition commands_digest ::
  "platform \<Rightarrow> codec \<Rightarrow> command_record list \<Rightarrow> recipe_projection_error + string" where
  "commands_digest X C commands = rbind (map_err (ProjectionSerialize ''commands.json'')
     (encode_commands C commands)) (\<lambda>b. Ok (sha256 X b))"

definition locked_graph_digest ::
  "platform \<Rightarrow> codec \<Rightarrow> cargo_projection \<Rightarrow> recipe_projection_error + string" where
  "locked_graph_digest X C projection =
    rbind (map_err (ProjectionSerialize ''cargo_metadata.json dependencies'')
     (encode_dependencies C (cj_dependencies projection))) (\<lambda>b. Ok (sha256 X b))"

definition read_json ::
  "(bytes \<Rightarrow> string + 'a) \<Rightarrow> bundle_tree \<Rightarrow> string \<Rightarrow> gather_failure + 'a" where
  "read_json decode bundle name =
    rbind (map_err (\<lambda>e. GatherUnreadable (ProjectionIo ''reading'' name e)) (read_bytes bundle name)) (\<lambda>b.
    map_err (\<lambda>e. GatherUnreadable (ProjectionParse name name e)) (decode b))"

definition recipe_inputs_from_bundle ::
  "platform \<Rightarrow> codec \<Rightarrow> bundle_tree \<Rightarrow> resolution_policy \<Rightarrow> gather_failure + recipe_inputs" where
  "recipe_inputs_from_bundle X C bundle policy =
    (if \<not> path_exists bundle ''inputs_hashes.json'' \<or> \<not> path_exists bundle ''commands.json''
     then Err GatherMissing
     else
     rbind (read_json (decode_string_map C) bundle ''inputs_hashes.json'') (\<lambda>inputs.
     rbind (read_json (decode_commands C) bundle ''commands.json'') (\<lambda>commands.
     rbind (map_err GatherUnreadable (inputs_digest X C inputs)) (\<lambda>inputs_hash.
     rbind (map_err GatherUnreadable (commands_digest X C commands)) (\<lambda>command_recipe_hash.
     rbind (if path_exists bundle ''cargo_metadata.json''
         then rbind (read_json (decode_projection C) bundle ''cargo_metadata.json'') (\<lambda>projection.
           rbind (map_err GatherUnreadable (locked_graph_digest X C projection)) (\<lambda>h. Ok (Some h)))
         else Ok None) (\<lambda>locked_graph_hash.
     Ok \<lparr>ri_features = [], ri_locked_graph_hash = locked_graph_hash,
         ri_command_recipe_hash = command_recipe_hash, ri_inputs_hash = inputs_hash,
         ri_resolution_policy = policy\<rparr>))))))"

text \<open>The projection check proper, once the environment parses.\<close>

definition check_projection ::
  "platform \<Rightarrow> codec \<Rightarrow> bundle_tree \<Rightarrow> evidence_index \<Rightarrow> bytes \<Rightarrow> env_fingerprint
    \<Rightarrow> verify_error list" where
  "check_projection X C bundle index manifest_bytes env =
    (case recipe_inputs_from_bundle X C bundle (ix_resolution_policy index) of
       Inl GatherMissing \<Rightarrow> []
     | Inl (GatherUnreadable e) \<Rightarrow>
         [ManifestProjectionDrift (''gather recipe inputs: '' @ show_projection_error C e)]
     | Inr inputs \<Rightarrow> (case encode_manifest C (project_manifest env inputs) of
         Inr reprojected \<Rightarrow> push_if (reprojected \<noteq> manifest_bytes) (ManifestProjectionDrift
           (''manifest '' @ show_nat (length manifest_bytes) @ '' bytes, reprojection ''
              @ show_nat (length reprojected) @ '' bytes''))
       | Inl e \<Rightarrow> [ManifestProjectionDrift (''serialize reprojection: '' @ e)]))"

definition check_recipe_manifest ::
  "platform \<Rightarrow> codec \<Rightarrow> bundle_tree \<Rightarrow> evidence_index \<Rightarrow> hash_error + verify_error list" where
  "check_recipe_manifest X C bundle index =
    (if \<not> path_exists bundle ''deterministic-manifest.json'' then Ok []
     else rbind (sha256_file X bundle ''deterministic-manifest.json'') (\<lambda>actual_manifest_hash.
       Ok (push_if (ix_recipe_hash index \<noteq> actual_manifest_hash)
           (DeterministicHashMismatch (ix_recipe_hash index) actual_manifest_hash)
         @ (if \<not> path_exists bundle ''env.json'' then []
            else case (read_bytes bundle ''env.json'', read_bytes bundle ''deterministic-manifest.json'') of
              (Inr env_bytes, Inr manifest_bytes) \<Rightarrow> (case decode_env C env_bytes of
                  Inl e \<Rightarrow> [ManifestProjectionDrift (''parse env.json: '' @ e)]
                | Inr env \<Rightarrow> check_projection X C bundle index manifest_bytes env)
            | _ \<Rightarrow> []))))"

section \<open>The signature\<close>

type_synonym verifying_key = "bytes \<Rightarrow> bytes \<Rightarrow> bool"

definition envelope_bytes :: "bytes \<Rightarrow> bytes \<Rightarrow> bytes" where
  "envelope_bytes sha256sums index_json =
    be_bytes 8 (length sha256sums) @ sha256sums @ be_bytes 8 (length index_json) @ index_json"

definition read_envelope_input :: "bundle_tree \<Rightarrow> string \<Rightarrow> signing_error + bytes" where
  "read_envelope_input bundle filename = map_err (SigningRead filename) (read_bytes bundle filename)"

definition sign_bundle ::
  "codec \<Rightarrow> (bytes \<Rightarrow> bytes) \<Rightarrow> bundle_tree \<Rightarrow> signing_error + bundle_tree" where
  "sign_bundle C sign bundle =
    rbind (read_envelope_input bundle ''SHA256SUMS'') (\<lambda>sums.
    rbind (read_envelope_input bundle ''index.json'') (\<lambda>index_json.
    map_err (SigningWrite ''BUNDLE.sig'') (write_bytes bundle ''BUNDLE.sig''
      (encode_hex C (sign (envelope_bytes sums index_json)) @ [newline]))))"

definition verify_bundle_signature ::
  "codec \<Rightarrow> verifying_key \<Rightarrow> bundle_tree \<Rightarrow> signing_error + bool" where
  "verify_bundle_signature C key bundle =
    rbind (read_envelope_input bundle ''SHA256SUMS'') (\<lambda>sums.
    rbind (read_envelope_input bundle ''index.json'') (\<lambda>index_json.
    rbind (map_err (SigningRead ''BUNDLE.sig'') (read_to_string bundle ''BUNDLE.sig'')) (\<lambda>sig_text.
    rbind (map_err InvalidSignatureHex (decode_hex C (trim sig_text))) (\<lambda>sig.
    if length sig \<noteq> 64
    then Err (InvalidKey (''ed25519 signature must be 64 bytes (got '' @ show_nat (length sig) @ '')''))
    else Ok (key (envelope_bytes sums index_json) sig)))))"

section \<open>The verifier\<close>

definition missing_required :: "bundle_tree \<Rightarrow> verify_error list" where
  "missing_required bundle =
    map MissingHashedFile (filter (\<lambda>f. \<not> path_exists bundle f) required_files)"

text \<open>The checks before the listing, in their order.\<close>

definition early_checks ::
  "platform \<Rightarrow> codec \<Rightarrow> bundle_tree \<Rightarrow> evidence_index \<Rightarrow> verify_error list" where
  "early_checks X C bundle index =
    check_bundle_completeness index
    @ check_llr_test_selectors C bundle
    @ check_source_baseline C bundle (ix_dal_map index \<noteq> [])
    @ check_test_identity C bundle
    @ check_output_manifest C bundle (ix_test_summary index \<noteq> None)
    @ check_trace_evidence C bundle (ix_profile index)
    @ check_resolution_policy index
    @ validate_index_fields X index
    @ check_env_vs_index C bundle index
    @ check_prerelease_tool C bundle index
    @ concat (map (check_trace_output bundle) (ix_trace_outputs index))"

text \<open>The content layer: the listing and what the index says of it.\<close>

definition content_checks ::
  "platform \<Rightarrow> bundle_tree \<Rightarrow> evidence_index \<Rightarrow> verify_runtime_error + string list \<times> verify_error list"
where
  "content_checks X bundle index =
    rbind (map_err (RuntimeReadFile ''SHA256SUMS'') (read_to_string bundle ''SHA256SUMS'')) (\<lambda>sums.
    rbind (map_err RuntimeHash (hash_sha256sums_entries X bundle sums)) (\<lambda>(listed, hash_errors).
    rbind (map_err RuntimeHash (sha256_file X bundle ''SHA256SUMS'')) (\<lambda>actual.
    Ok (listed, hash_errors
      @ push_if (''index.json'' \<in> set listed) (UnexpectedFile
          ''index.json must NOT be listed in SHA256SUMS (metadata layer violation)'')
      @ push_if (ix_content_hash index \<noteq> actual) (ContentHashMismatch (ix_content_hash index) actual)))))"

definition late_checks :: "codec \<Rightarrow> bundle_tree \<Rightarrow> evidence_index \<Rightarrow> string list \<Rightarrow> verify_error list"
where
  "late_checks C bundle index listed =
    check_trace_outputs_hashed index listed
    @ check_test_summary C bundle index
    @ check_dal_map C bundle index
    @ check_boundary_recheck C bundle index
    @ unexpected_files bundle listed"

definition check_signature ::
  "codec \<Rightarrow> bundle_tree \<Rightarrow> verifying_key option \<Rightarrow> signing_error + verify_error list" where
  "check_signature C bundle verify_key = (case verify_key of
     None \<Rightarrow> Ok []
   | Some key \<Rightarrow>
      if \<not> path_exists bundle ''BUNDLE.sig'' then Ok [SignatureInvalid]
      else rbind (verify_bundle_signature C key bundle) (\<lambda>valid.
        Ok (push_if (\<not> valid) SignatureInvalid)))"

definition verify_bundle_with_key ::
  "platform \<Rightarrow> codec \<Rightarrow> string \<Rightarrow> bundle_tree option \<Rightarrow> verifying_key option
    \<Rightarrow> verify_runtime_error + verify_result" where
  "verify_bundle_with_key X C path directory verify_key =
    (case directory of
       None \<Rightarrow> Err (BundleNotFound path)
     | Some bundle \<Rightarrow>
       if missing_required bundle \<noteq> [] then Ok (Fail (missing_required bundle))
       else
       rbind (map_err (RuntimeReadFile ''index.json'') (read_to_string bundle ''index.json'')) (\<lambda>text.
       rbind (map_err ParseIndex (decode_index C text)) (\<lambda>index.
       rbind (content_checks X bundle index) (\<lambda>(listed, content_errors).
       rbind (map_err RuntimeHash (check_recipe_manifest X C bundle index)) (\<lambda>recipe_errors.
       rbind (map_err RuntimeSigning (check_signature C bundle verify_key)) (\<lambda>signature_errors.
       let errors = early_checks X C bundle index @ content_errors @ recipe_errors
           @ late_checks C bundle index listed @ signature_errors
       in Ok (if errors \<noteq> [] then Fail errors else Pass)))))))"

definition verify_bundle ::
  "platform \<Rightarrow> codec \<Rightarrow> string \<Rightarrow> bundle_tree option \<Rightarrow> verify_runtime_error + verify_result" where
  "verify_bundle X C path directory = verify_bundle_with_key X C path directory None"

end
