(* ===== verification/Bundle_Spec.thy ===== *)
theory Bundle_Spec
  imports Verify_Bundle
begin

text \<open>
  The content layer of a bundle: names of files survive the listing, a listing computed from a tree
  verifies against it without findings, and a listing that verifies fixes every content file.
\<close>

section \<open>Splitting and joining\<close>

lemma split_on_append: "d \<notin> set p \<Longrightarrow> split_on d (p @ d # s) = p # split_on d s"
  by (induction p) auto

lemma split_on_single: "d \<notin> set p \<Longrightarrow> split_on d p = [p]"
  by (induction p) auto

lemma split_on_join:
  "ps \<noteq> [] \<Longrightarrow> (\<And>p. p \<in> set ps \<Longrightarrow> d \<notin> set p) \<Longrightarrow> split_on d (join_with [d] ps) = ps"
proof (induction ps rule: induct_list012)
  case (3 p q ps)
  then have "split_on d (join_with [d] (q # ps)) = q # ps" by simp
  with "3.prems" show ?case by (simp add: split_on_append)
qed (simp_all add: split_on_single)

lemma set_join: "set (join_with sep ps) \<subseteq> set sep \<union> \<Union> (set ` set ps)"
  by (induction sep ps rule: join_with.induct) auto

lemma join_snoc_Nil: "ls \<noteq> [] \<Longrightarrow> join_with sep (ls @ [[]]) = join_with sep ls @ sep"
  by (induction sep ls rule: join_with.induct) auto

lemma str_lines_join:
  assumes "\<And>l. l \<in> set ls \<Longrightarrow> newline \<notin> set l \<and> CHR 0x0D \<notin> set l"
  shows "str_lines (join_with [newline] ls @ [newline]) = (if ls = [] then [[]] else ls)"
proof (cases "ls = []")
  case True
  then show ?thesis by (simp add: str_lines_def strip_cr_def)
next
  case False
  have "split_on newline (join_with [newline] ls @ [newline]) = ls @ [[]]"
    using False assms by (subst join_snoc_Nil [symmetric]) (auto intro!: split_on_join)
  moreover have "strip_cr l = l" if "l \<in> set ls" for l
  proof -
    from assms [OF that] have "l = [] \<or> last l \<noteq> CHR 0x0D" by (metis last_in_set)
    then show ?thesis by (auto simp: strip_cr_def)
  qed
  ultimately show ?thesis using False by (simp add: str_lines_def Let_def map_idI)
qed

lemma split_once_first:
  assumes "CHR '' '' \<notin> set h"
  shows "split_once ''  '' (h @ ''  '' @ n) = Some (h, n)"
  using assms by (induction h) (auto simp: strip_prefix_def)

lemma replace_char_id: "a \<notin> set s \<Longrightarrow> replace_char a b s = s"
  by (auto simp: replace_char_def intro: map_idI)

section \<open>UTF-8\<close>

lemma is_utf8_append: "is_utf8 a \<Longrightarrow> is_utf8 b \<Longrightarrow> is_utf8 (a @ b)"
proof (induction a rule: is_utf8.induct)
  case (2 a s)
  show ?case
  proof (cases "byte a < 128")
    case True
    with 2 show ?thesis by simp
  next
    case False
    note ge = this
    show ?thesis
    proof (cases "194 \<le> byte a \<and> byte a \<le> 223")
      case True
      with ge "2.prems" obtain c s' where "s = c # s'" "is_continuation c" "is_utf8 s'"
        by (auto split: list.splits)
      with "2.IH"(2) [OF ge True, of c s'] "2.prems"(2) ge True show ?thesis by simp
    next
      case two: False
      show ?thesis
      proof (cases "224 \<le> byte a \<and> byte a \<le> 239")
        case True
        with ge two "2.prems" obtain c d s' where "s = c # d # s'"
          "is_utf8 s'" by (auto split: list.splits)
        with "2.IH"(3) [OF ge two True, of c "d # s'" d s'] "2.prems" ge two True
        show ?thesis by simp
      next
        case three: False
        with ge two "2.prems" have four: "240 \<le> byte a \<and> byte a \<le> 244"
          by (auto split: if_splits)
        with ge two three "2.prems" obtain c d e s' where "s = c # d # e # s'"
          "is_utf8 s'" by (auto split: list.splits)
        with "2.IH"(4) [OF ge two three four, of c "d # e # s'" d "e # s'" e s'] "2.prems"
          ge two three four show ?thesis by simp
      qed
    qed
  qed
qed simp

lemma is_utf8_ascii: "(\<And>c. c \<in> set s \<Longrightarrow> byte c < 128) \<Longrightarrow> is_utf8 s"
  by (induction s) auto

lemma is_utf8_join: "is_utf8 sep \<Longrightarrow> (\<And>p. p \<in> set ps \<Longrightarrow> is_utf8 p) \<Longrightarrow> is_utf8 (join_with sep ps)"
  by (induction sep ps rule: join_with.induct) (auto intro!: is_utf8_append)

section \<open>Trees\<close>

definition component_ok :: "string \<Rightarrow> bool" where
  "component_ok c \<longleftrightarrow> c \<noteq> [] \<and> c \<noteq> ''.'' \<and> c \<noteq> ''..'' \<and> slash \<notin> set c"

text \<open>A name that a listing can carry: no backslash, no line break, UTF-8.\<close>

definition portable :: "string \<Rightarrow> bool" where
  "portable c \<longleftrightarrow> component_ok c \<and> backslash \<notin> set c \<and> newline \<notin> set c \<and> CHR 0x0D \<notin> set c
    \<and> is_utf8 c"

definition portable_path :: "string list \<Rightarrow> bool" where
  "portable_path p \<longleftrightarrow> p \<noteq> [] \<and> (\<forall>c \<in> set p. portable c)"

text \<open>No file is a directory of another one.\<close>

definition tree_ok :: "bundle_tree \<Rightarrow> bool" where
  "tree_ok t \<longleftrightarrow> bwf (bt_files t) \<and>
    (\<forall>k \<in> set (bkeys (bt_files t)). k \<noteq> [] \<and> (\<forall>c \<in> set k. component_ok c)) \<and>
    (\<forall>k \<in> set (bkeys (bt_files t)). \<not> tree_dir t k)"

definition portable_tree :: "bundle_tree \<Rightarrow> bool" where
  "portable_tree t \<longleftrightarrow> tree_ok t \<and> (\<forall>k \<in> set (bkeys (bt_files t)). portable_path k)"

lemma set_bkeys: "set (bkeys m) = fst ` set m"
  by (simp add: bkeys_def)

lemma portable_path_name:
  assumes "portable_path p"
  shows "relative_name p = join_with [slash] p" and "split_on slash (relative_name p) = p"
    and "newline \<notin> set (relative_name p)" and "CHR 0x0D \<notin> set (relative_name p)"
    and "backslash \<notin> set (relative_name p)" and "is_utf8 (relative_name p)"
proof -
  have s: "slash \<noteq> newline" "slash \<noteq> CHR 0x0D" "slash \<noteq> backslash"
    by (simp_all add: slash_def newline_def backslash_def)
  have out: "c \<notin> set (join_with [slash] p)" if "slash \<noteq> c" "\<forall>q \<in> set p. c \<notin> set q" for c
    using set_join [of "[slash]" p] that by auto
  have ok: "\<forall>q \<in> set p. portable q" using assms by (simp add: portable_path_def)
  have bs: "backslash \<notin> set (join_with [slash] p)"
    using out [OF s(3)] ok by (simp add: portable_def)
  then show name: "relative_name p = join_with [slash] p"
    by (simp add: relative_name_def normalize_bundle_path_def replace_char_id)
  show "split_on slash (relative_name p) = p"
    unfolding name using assms by (intro split_on_join) (auto simp: portable_path_def portable_def component_ok_def)
  show "newline \<notin> set (relative_name p)" "CHR 0x0D \<notin> set (relative_name p)"
    "backslash \<notin> set (relative_name p)"
    unfolding name using out [OF s(1)] out [OF s(2)] bs ok by (simp_all add: portable_def)
  show "is_utf8 (relative_name p)"
    unfolding name using assms
    by (intro is_utf8_join) (auto simp: portable_path_def portable_def byte_def slash_def)
qed

lemma portable_components: "portable_path p \<Longrightarrow> path_components (relative_name p) = p"
  using portable_path_name(2) [of p]
  by (auto simp: path_components_def portable_path_def portable_def component_ok_def intro: filter_True)

lemma portable_relative:
  assumes "portable_path p"
  shows "\<not> is_absolute (relative_name p)" "''..'' \<notin> set (split_on slash (relative_name p))"
    "is_safe_bundle_path (relative_name p)" "last (split_on slash (relative_name p)) \<notin> {[], ''.''}"
proof -
  have "hd p \<noteq> []" "slash \<notin> set (hd p)" "p \<noteq> []"
    using assms by (auto simp: portable_path_def portable_def component_ok_def)
  have "relative_name p \<noteq> []" using portable_path_name(2) [OF assms] \<open>hd p \<noteq> []\<close>
    by (cases "relative_name p") auto
  show abs: "\<not> is_absolute (relative_name p)"
  proof
    assume "is_absolute (relative_name p)"
    then obtain s where "relative_name p = slash # s"
      by (cases "relative_name p") (auto simp: is_absolute_def)
    then have "split_on slash (relative_name p) = [] # split_on slash s" by simp
    with portable_path_name(2) [OF assms] have "hd p = []" by (cases p) auto
    with \<open>hd p \<noteq> []\<close> show False ..
  qed
  show dots: "''..'' \<notin> set (split_on slash (relative_name p))"
    unfolding portable_path_name(2) [OF assms] using assms
    by (auto simp: portable_path_def portable_def component_ok_def)
  show "is_safe_bundle_path (relative_name p)"
    using abs dots portable_path_name(5) [OF assms] \<open>relative_name p \<noteq> []\<close>
    by (cases "relative_name p") (auto simp: is_safe_bundle_path_def)
  have "last p \<in> set p" using \<open>p \<noteq> []\<close> by simp
  then show "last (split_on slash (relative_name p)) \<notin> {[], ''.''}"
    unfolding portable_path_name(2) [OF assms] using assms
    by (auto simp: portable_path_def portable_def component_ok_def)
qed

lemma relative_name_inj:
  "portable_path p \<Longrightarrow> portable_path q \<Longrightarrow> relative_name p = relative_name q \<longleftrightarrow> p = q"
  by (metis portable_components)

lemma locate_portable:
  "portable_path p \<Longrightarrow> tree_entry t (relative_name p) =
    (case bget (bt_files t) p of Some c \<Rightarrow> Some (RegularFile c)
     | None \<Rightarrow> if tree_dir t p then Some Directory else None)"
  using portable_relative [of p] by (auto simp: tree_entry_def portable_components split: option.splits)

lemma safe_locate_file:
  assumes "is_safe_bundle_path rel" "tree_entry t rel = Some (RegularFile c)"
  shows "bget (bt_files t) (path_components rel) = Some c"
  using assms by (auto simp: is_safe_bundle_path_def tree_entry_def Let_def split: option.splits if_splits)

section \<open>The listing\<close>

text \<open>What the hasher returns: the lower-case hexadecimal of a SHA-256 digest.\<close>

definition sha_hex :: "platform \<Rightarrow> bool" where
  "sha_hex X \<longleftrightarrow> (\<forall>b. is_valid_digest_hex (sha256 X b))"

lemma hex_chars:
  assumes "is_lower_hex c"
  shows "is_hexdigit c" "byte c < 128" "c \<noteq> CHR '' ''" "c \<noteq> newline" "c \<noteq> CHR 0x0D"
  using assms by (auto simp: is_hexdigit_def is_lower_hex_def is_ascii_digit_def byte_def newline_def)

lemma sha_hex_simps:
  assumes "sha_hex X"
  shows "length (sha256 X b) = 64" "\<forall>c \<in> set (sha256 X b). is_hexdigit c"
    "CHR '' '' \<notin> set (sha256 X b)" "newline \<notin> set (sha256 X b)" "CHR 0x0D \<notin> set (sha256 X b)"
    "is_utf8 (sha256 X b)"
proof -
  have hex: "length (sha256 X b) = 64" "\<forall>c \<in> set (sha256 X b). is_lower_hex c"
    using assms by (auto simp: sha_hex_def is_valid_digest_hex_def)
  show "length (sha256 X b) = 64" by (rule hex)
  show "\<forall>c \<in> set (sha256 X b). is_hexdigit c" "CHR '' '' \<notin> set (sha256 X b)"
    "newline \<notin> set (sha256 X b)" "CHR 0x0D \<notin> set (sha256 X b)"
    using hex(2) hex_chars by blast+
  show "is_utf8 (sha256 X b)" using hex(2) hex_chars(2) by (intro is_utf8_ascii) blast
qed

text \<open>A line that names a file with its digest is listed without a finding.\<close>

lemma hash_line_good:
  assumes "sha_hex X" "is_safe_bundle_path n" "tree_entry t n = Some (RegularFile c)"
  shows "hash_line X t (listed, errors) (sha256 X c @ ''  '' @ n) = Ok (listed @ [n], errors)"
proof -
  have "sha256 X c @ ''  '' @ n \<noteq> []" by simp
  then show ?thesis
    using assms split_once_first [OF sha_hex_simps(3) [OF assms(1)], of c n]
      sha_hex_simps(1,2) [OF assms(1), of c]
    by (simp add: hash_line_def check_listed_file_def path_exists_def sha256_file_def push_if_def)
qed

lemma fold_listed:
  assumes "sha_hex X"
    and "\<And>p c. (p, c) \<in> set fs \<Longrightarrow> portable_path p \<and> tree_entry t (relative_name p) = Some (RegularFile c)"
  shows "fold_res (hash_line X t) (listed, errors) (map (sha256sums_line X) fs)
    = Ok (listed @ map (\<lambda>f. relative_name (fst f)) fs, errors)"
  using assms(2)
proof (induction fs arbitrary: listed)
  case (Cons f fs)
  obtain p c where f: "f = (p, c)" by (cases f)
  with Cons.prems have "portable_path p" "tree_entry t (relative_name p) = Some (RegularFile c)" by auto
  then have "hash_line X t (listed, errors) (sha256sums_line X f) = Ok (listed @ [relative_name p], errors)"
    using hash_line_good [OF assms(1) portable_relative(3)] by (simp add: f sha256sums_line_def)
  moreover have "fold_res (hash_line X t) (listed @ [relative_name p], errors) (map (sha256sums_line X) fs)
      = Ok ((listed @ [relative_name p]) @ map (\<lambda>f. relative_name (fst f)) fs, errors)"
    by (intro Cons.IH Cons.prems) (rule list.set_intros(2))
  ultimately show ?case by (simp add: f)
qed simp

definition content_files :: "bundle_tree \<Rightarrow> (string list \<times> bytes) list" where
  "content_files t = filter (\<lambda>f. fst f \<notin> set metadata_layer) (bt_files t)"

lemma portable_tree_path: "portable_tree t \<Longrightarrow> (p, c) \<in> set (bt_files t) \<Longrightarrow> portable_path p"
  by (force simp: portable_tree_def set_bkeys)

lemma sums_lines:
  assumes X: "sha_hex X" and fs: "\<And>p c. (p, c) \<in> set fs \<Longrightarrow> portable_path p"
  shows "str_lines (join_with [newline] (map (sha256sums_line X) fs) @ [newline])
      = (if fs = [] then [[]] else map (sha256sums_line X) fs)"
    and "is_utf8 (join_with [newline] (map (sha256sums_line X) fs) @ [newline])"
proof -
  have blank: "newline \<noteq> CHR '' ''" by (simp add: newline_def)
  have line: "newline \<notin> set l \<and> CHR 0x0D \<notin> set l \<and> is_utf8 l" if "l \<in> set (map (sha256sums_line X) fs)" for l
  proof -
    from that obtain p c where pc: "(p, c) \<in> set fs" "l = sha256 X c @ ''  '' @ relative_name p"
      by (auto simp: sha256sums_line_def)
    note P = portable_path_name [OF fs [OF pc(1)]] and S = sha_hex_simps [OF X, of c]
    have "is_utf8 (''  '' @ relative_name p)" using P(6) by (simp add: byte_def)
    then have "is_utf8 l" unfolding pc(2) by (rule is_utf8_append [OF S(6)])
    then show ?thesis using P S blank by (auto simp: pc(2))
  qed
  then show "str_lines (join_with [newline] (map (sha256sums_line X) fs) @ [newline])
      = (if fs = [] then [[]] else map (sha256sums_line X) fs)"
    by (subst str_lines_join) auto
  have nl: "is_utf8 [newline]" by (simp add: byte_def newline_def)
  show "is_utf8 (join_with [newline] (map (sha256sums_line X) fs) @ [newline])"
    using line by (intro is_utf8_append is_utf8_join nl) simp
qed

lemma listing_verifies:
  assumes X: "sha_hex X" and t: "portable_tree t"
    and same: "\<And>p c. (p, c) \<in> set (content_files t) \<Longrightarrow> bget (bt_files t') p = Some c"
  shows "hash_sha256sums_entries X t' (sha256sums_content X t)
    = Ok (map (\<lambda>f. relative_name (fst f)) (content_files t), [])"
proof -
  have P: "portable_path p" if "(p, c) \<in> set (content_files t)" for p c
    using that portable_tree_path [OF t] by (auto simp: content_files_def)
  have lines: "str_lines (sha256sums_content X t) =
      (if content_files t = [] then [[]] else map (sha256sums_line X) (content_files t))"
    using sums_lines(1) [OF X P, of "content_files t" "\<lambda>_ c. c"]
    by (simp add: sha256sums_content_def content_files_def)
  have "fold_res (hash_line X t') ([], []) (map (sha256sums_line X) (content_files t))
      = Ok ([] @ map (\<lambda>f. relative_name (fst f)) (content_files t), [])"
    using P same by (intro fold_listed [OF X]) (auto simp: locate_portable)
  then show ?thesis
    by (simp add: hash_sha256sums_entries_def lines hash_line_def)
qed

lemma sums_utf8: "sha_hex X \<Longrightarrow> portable_tree t \<Longrightarrow> is_utf8 (sha256sums_content X t)"
  unfolding sha256sums_content_def
  by (rule sums_lines(2)) (auto intro: portable_tree_path)

text \<open>Every file is listed or metadata.\<close>

lemma no_unexpected:
  assumes "set (bkeys (bt_files t')) \<subseteq> fst ` set (content_files t) \<union> set metadata_layer"
  shows "unexpected_files t' (map (\<lambda>f. relative_name (fst f)) (content_files t)) = []"
proof -
  have meta: "relative_name p \<in> set known_meta_files" if "p \<in> set metadata_layer" for p
    using that by (auto simp: metadata_layer_def known_meta_files_def relative_name_def
        normalize_bundle_path_def replace_char_def backslash_def)
  have "relative_name p \<in> set (map (\<lambda>f. relative_name (fst f)) (content_files t))
      \<or> relative_name p \<in> set known_meta_files" if "p \<in> set (bkeys (bt_files t'))" for p
    using that assms meta [of p] by auto
  then show ?thesis by (auto simp: unexpected_files_def push_if_def)
qed

section \<open>What a silent listing says\<close>

lemma hash_line_errors:
  "hash_line X t (listed, errors) line = Ok (listed', errors') \<Longrightarrow> \<exists>found. errors' = errors @ found"
  by (auto simp: hash_line_def rbind_Ok_iff split: if_splits option.splits prod.splits)

lemma fold_hash_errors:
  "fold_res (hash_line X t) (listed, errors) ls = Ok (listed', errors') \<Longrightarrow> \<exists>found. errors' = errors @ found"
proof (induction ls arbitrary: listed errors)
  case (Cons l ls)
  then obtain l1 e1 where step: "hash_line X t (listed, errors) l = Ok (l1, e1)"
    "fold_res (hash_line X t) (l1, e1) ls = Ok (listed', errors')" by (auto split: sum.splits)
  from hash_line_errors [OF step(1)] Cons.IH [OF step(2)] show ?case by auto
qed simp

text \<open>The names and digests a listing carries, read off its text alone.\<close>

definition listed_entries :: "string list \<Rightarrow> (string \<times> string) list" where
  "listed_entries ls = List.map_filter (\<lambda>l. if l = [] then None else split_once ''  '' l) ls"

lemma hash_line_silent:
  assumes "hash_line X t (listed, []) line = Ok (listed', [])"
  shows "listed' = listed @ map snd (listed_entries [line])"
    and "(h, n) \<in> set (listed_entries [line]) \<Longrightarrow> is_safe_bundle_path n \<and>
      (\<exists>c. tree_entry t n = Some (RegularFile c) \<and> sha256 X c = h)"
  using assms
  by (auto simp: hash_line_def listed_entries_def List.map_filter_simps check_listed_file_def
      rbind_Ok_iff path_exists_def sha256_file_def push_if_def
      split: if_splits option.splits fs_entry.splits)

lemma listed_entries_Cons: "listed_entries (l # ls) = listed_entries [l] @ listed_entries ls"
  by (simp add: listed_entries_def List.map_filter_simps split: option.split)

lemma fold_hash_silent:
  assumes "fold_res (hash_line X t) (listed, []) ls = Ok (listed', [])"
  shows "listed' = listed @ map snd (listed_entries ls) \<and>
    (\<forall>(h, n) \<in> set (listed_entries ls). is_safe_bundle_path n \<and>
      (\<exists>c. tree_entry t n = Some (RegularFile c) \<and> sha256 X c = h))"
  using assms
proof (induction ls arbitrary: listed)
  case Nil
  then show ?case by (simp add: listed_entries_def List.map_filter_simps)
next
  case (Cons l ls)
  then obtain l1 e1 where step: "hash_line X t (listed, []) l = Ok (l1, e1)"
    "fold_res (hash_line X t) (l1, e1) ls = Ok (listed', [])" by (auto split: sum.splits)
  from fold_hash_errors [OF step(2)] have "e1 = []" by auto
  with step hash_line_silent [of X t listed l l1] Cons.IH [of l1] show ?case
    by (subst (1 2) listed_entries_Cons) auto
qed

end
