(* ===== verification/Bundle_Frame.thy ===== *)
theory Bundle_Frame
  imports Bundle_Spec
begin

text \<open>
  What a verification does not look at: two trees that agree outside a set of root names give the
  same findings, as long as the names are none of those the checks read.
\<close>

section \<open>Agreement\<close>

definition agree :: "string list set \<Rightarrow> bundle_tree \<Rightarrow> bundle_tree \<Rightarrow> bool" where
  "agree K t t' \<longleftrightarrow> (\<forall>rel. path_components rel \<notin> K \<longrightarrow> tree_entry t' rel = tree_entry t rel) \<and>
    dir_entries t' [''compliance''] = dir_entries t [''compliance'']"

text \<open>The root names a check reads or enters.\<close>

definition fixed_roots :: "string list" where
  "fixed_roots = [''inputs_hashes.json'', ''outputs_hashes.json'', ''commands.json'', ''env.json'',
     ''deterministic-manifest.json'', ''SHA256SUMS'', ''cargo_metadata.json'', ''tests'', ''trace'',
     ''compliance'']"

definition frame_ok :: "string list set \<Rightarrow> bool" where
  "frame_ok K \<longleftrightarrow> (\<forall>p \<in> K. \<exists>n. p = [n] \<and> n \<notin> set fixed_roots)"

lemma path_components_slash:
  "slash \<notin> set p \<Longrightarrow> p \<noteq> [] \<Longrightarrow> p \<noteq> ''.'' \<Longrightarrow>
    path_components (p @ slash # s) = p # path_components s"
  by (simp add: path_components_def split_on_append)

lemma hd_components:
  assumes "slash \<notin> set p" "p \<noteq> []" "p \<noteq> ''.''" "p \<in> set fixed_roots" "frame_ok K"
  shows "path_components (p @ slash # s) \<notin> K" "path_components p \<notin> K"
  using assms path_components_slash [OF assms(1-3), of s]
  by (auto simp: frame_ok_def path_components_def split_on_single)

lemma report_components: "frame_ok K \<Longrightarrow> path_components (report_path n) \<notin> K"
  using hd_components(1) [of "''compliance''" K "n @ ''.json''"]
  by (simp add: report_path_def slash_def fixed_roots_def)

lemma frame_ok_nested: "frame_ok K \<Longrightarrow> length p \<noteq> 1 \<Longrightarrow> p \<notin> K"
  by (force simp: frame_ok_def)

lemma frame_ok_root: "frame_ok K \<Longrightarrow> n \<in> set fixed_roots \<Longrightarrow> [n] \<notin> K"
  by (auto simp: frame_ok_def)

lemma fixed_components:
  assumes "frame_ok K"
  shows "path_components ''inputs_hashes.json'' \<notin> K" "path_components ''outputs_hashes.json'' \<notin> K"
    "path_components ''commands.json'' \<notin> K" "path_components ''env.json'' \<notin> K"
    "path_components ''deterministic-manifest.json'' \<notin> K" "path_components ''SHA256SUMS'' \<notin> K"
    "path_components ''cargo_metadata.json'' \<notin> K" "path_components ''compliance'' \<notin> K"
    "path_components ''tests/test_outcomes.jsonl'' \<notin> K"
    "path_components ''tests/cargo_test_stdout.txt'' \<notin> K"
    "path_components ''trace/sys.toml'' \<notin> K" "path_components ''trace/hlr.toml'' \<notin> K"
    "path_components ''trace/llr.toml'' \<notin> K" "path_components ''trace/tests.toml'' \<notin> K"
    "path_components ''trace/derived.toml'' \<notin> K"
  using frame_ok_root [OF assms] frame_ok_nested [OF assms]
  by (simp_all add: path_components_def slash_def fixed_roots_def)

lemma agree_locate: "agree K t t' \<Longrightarrow> path_components rel \<notin> K \<Longrightarrow> tree_entry t' rel = tree_entry t rel"
  by (simp add: agree_def)

lemma agree_reads:
  assumes "agree K t t'" "path_components rel \<notin> K"
  shows "path_exists t' rel = path_exists t rel" "path_is_file t' rel = path_is_file t rel"
    "path_is_dir t' rel = path_is_dir t rel" "read_bytes t' rel = read_bytes t rel"
    "read_to_string t' rel = read_to_string t rel" "sha256_file X t' rel = sha256_file X t rel"
  using agree_locate [OF assms]
  by (simp_all add: path_exists_def path_is_file_def path_is_dir_def read_bytes_def read_to_string_def
      sha256_file_def)

lemma in_map_filter: "x \<in> set (List.map_filter f xs) \<longleftrightarrow> (\<exists>y \<in> set xs. f y = Some x)"
  by (force simp: List.map_filter_def)

text \<open>One more file at the root.\<close>

lemma agree_insert:
  assumes n: "\<not> tree_dir t [n]" "n \<noteq> ''compliance''"
  shows "agree {[n]} t (t\<lparr>bt_files := bins [n] c (bt_files t)\<rparr>)"
proof -
  let ?t = "t\<lparr>bt_files := bins [n] c (bt_files t)\<rparr>"
  have dir: "tree_dir ?t p = tree_dir t p" for p
    by (auto simp: tree_dir_def set_bkeys)
  have entries: "bget (bt_files ?t) p = bget (bt_files t) p" if "p \<noteq> [n]" for p
    using that by simp
  have "tree_entry ?t rel = tree_entry t rel" if "path_components rel \<noteq> [n]" for rel
    using dir entries [OF that] by (simp add: tree_entry_def Let_def)
  moreover have "dir_entries ?t [''compliance''] = dir_entries t [''compliance'']"
  proof -
    let ?f = "\<lambda>q. if length [''compliance''] < length q \<and> take (length [''compliance'']) q = [''compliance'']
        then Some (q ! length [''compliance'']) else None"
    have "set (List.map_filter ?f (bkeys (bt_files ?t) @ bt_dirs ?t))
        = set (List.map_filter ?f (bkeys (bt_files t) @ bt_dirs t))"
      by (auto simp: in_map_filter set_bkeys)
    then show ?thesis unfolding dir_entries_def
      by (intro strict_sorted_set_unique dedup_sorted_strict) simp_all
  qed
  ultimately show ?thesis by (simp add: agree_def)
qed

lemma agree_trans: "agree K t u \<Longrightarrow> agree L u v \<Longrightarrow> agree (K \<union> L) t v"
  by (simp add: agree_def)

lemma agree_mono: "agree K t u \<Longrightarrow> K \<subseteq> L \<Longrightarrow> agree L t u"
  by (auto simp: agree_def)

section \<open>The checks\<close>

lemma early_checks_agree:
  assumes a: "agree K t t'" and K: "frame_ok K"
    and outs: "\<And>n. n \<in> set (ix_trace_outputs index) \<Longrightarrow> path_components n \<notin> K"
  shows "early_checks X C t' index = early_checks X C t index"
proof -
  note r = agree_reads [OF a fixed_components(1) [OF K]] agree_reads [OF a fixed_components(2) [OF K]]
    agree_reads [OF a fixed_components(4) [OF K]] agree_reads [OF a fixed_components(9) [OF K]]
    agree_reads [OF a fixed_components(11) [OF K]] agree_reads [OF a fixed_components(12) [OF K]]
    agree_reads [OF a fixed_components(13) [OF K]] agree_reads [OF a fixed_components(14) [OF K]]
    agree_reads [OF a fixed_components(15) [OF K]]
  have "check_llr_test_selectors C t' = check_llr_test_selectors C t"
    unfolding check_llr_test_selectors_def r ..
  moreover have "check_source_baseline C t' = check_source_baseline C t"
    "check_output_manifest C t' = check_output_manifest C t"
    unfolding check_source_baseline_def check_output_manifest_def empty_map_file_def r by simp_all
  moreover have "check_test_identity C t' = check_test_identity C t"
    unfolding check_test_identity_def r ..
  moreover have "check_trace_evidence C t' = check_trace_evidence C t"
  proof -
    have count: "trace_file_count t' f n = trace_file_count t f n"
      if "path_components (''trace/'' @ n) \<notin> K" for f :: "string \<Rightarrow> 'e list option" and n
      unfolding trace_file_count_def agree_reads [OF a that] ..
    note k = fixed_components [OF K]
    have "trace_file_count t' f ''sys.toml'' = trace_file_count t f ''sys.toml''"
      "trace_file_count t' f ''hlr.toml'' = trace_file_count t f ''hlr.toml''"
      "trace_file_count t' g ''llr.toml'' = trace_file_count t g ''llr.toml''"
      "trace_file_count t' h ''tests.toml'' = trace_file_count t h ''tests.toml''"
      "trace_file_count t' d ''derived.toml'' = trace_file_count t d ''derived.toml''"
      for f :: "string \<Rightarrow> hlr_entry list option" and g :: "string \<Rightarrow> llr_entry list option"
        and h :: "string \<Rightarrow> test_entry list option" and d :: "string \<Rightarrow> derived_entry list option"
      by (rule count, use k in simp)+
    then show ?thesis by (simp add: fun_eq_iff check_trace_evidence_def)
  qed
  moreover have "check_env_vs_index C t' = check_env_vs_index C t"
    "check_prerelease_tool C t' = check_prerelease_tool C t"
    unfolding fun_eq_iff check_env_vs_index_def check_prerelease_tool_def r by simp_all
  moreover have "map (check_trace_output t') (ix_trace_outputs index)
      = map (check_trace_output t) (ix_trace_outputs index)"
    using agree_reads(1) [OF a outs] by (simp add: check_trace_output_def)
  ultimately show ?thesis by (simp add: early_checks_def cong: map_cong)
qed

lemma late_checks_agree:
  assumes a: "agree K t t'" and K: "frame_ok K"
  shows "check_test_summary C t' index = check_test_summary C t index"
    "check_dal_map C t' index = check_dal_map C t index"
    "check_boundary_recheck C t' index = check_boundary_recheck C t index"
proof -
  note r = agree_reads [OF a fixed_components(7) [OF K]] agree_reads [OF a fixed_components(8) [OF K]]
    agree_reads [OF a fixed_components(10) [OF K]]
  have entry: "check_dal_entry C t' e = check_dal_entry C t e" for e
    unfolding check_dal_entry_def agree_reads [OF a report_components [OF K]] ..
  show "check_test_summary C t' index = check_test_summary C t index"
    unfolding check_test_summary_def r ..
  show "check_boundary_recheck C t' index = check_boundary_recheck C t index"
    unfolding check_boundary_recheck_def r ..
  show "check_dal_map C t' index = check_dal_map C t index"
    using a unfolding check_dal_map_def r by (simp add: ext [OF entry] agree_def)
qed

lemma recipe_agree:
  assumes a: "agree K t t'" and K: "frame_ok K"
  shows "check_recipe_manifest X C t' index = check_recipe_manifest X C t index"
proof -
  note r = agree_reads [OF a fixed_components(1) [OF K]] agree_reads [OF a fixed_components(3) [OF K]]
    agree_reads [OF a fixed_components(4) [OF K]] agree_reads [OF a fixed_components(5) [OF K]]
    agree_reads [OF a fixed_components(7) [OF K]]
  have "recipe_inputs_from_bundle X C t' policy = recipe_inputs_from_bundle X C t policy" for policy
    unfolding recipe_inputs_from_bundle_def read_json_def r ..
  then have "check_projection X C t' index = check_projection X C t index"
    by (simp add: fun_eq_iff check_projection_def)
  then show ?thesis unfolding check_recipe_manifest_def r by (simp only:)
qed

text \<open>The listing, when it names no file outside the agreement.\<close>

lemma content_agree:
  assumes a: "agree K t t'" and K: "frame_ok K"
    and sums: "read_to_string t ''SHA256SUMS'' = Inr sums"
    and names: "\<And>h n. (h, n) \<in> set (listed_entries (str_lines sums)) \<Longrightarrow> path_components n \<notin> K"
  shows "content_checks X t' index = content_checks X t index"
proof -
  note r = agree_reads [OF a fixed_components(6) [OF K]]
  have line: "hash_line X t' st l = hash_line X t st l"
    if "l \<in> set ls" "\<And>h n. (h, n) \<in> set (listed_entries ls) \<Longrightarrow> path_components n \<notin> K" for st l ls
  proof -
    have "path_components n \<notin> K" if "l \<noteq> []" "split_once ''  '' l = Some (h, n)" for h n
      using that \<open>l \<in> set ls\<close> \<open>\<And>h n. (h, n) \<in> set (listed_entries ls) \<Longrightarrow> path_components n \<notin> K\<close>
      by (force simp: listed_entries_def in_map_filter)
    then show ?thesis
      using agree_reads [OF a]
      by (auto simp: hash_line_def check_listed_file_def split: option.split prod.split)
  qed
  have "fold_res (hash_line X t') st ls = fold_res (hash_line X t) st ls"
    if "\<And>l s. l \<in> set ls \<Longrightarrow> hash_line X t' s l = hash_line X t s l" for st ls
    using that by (induction ls arbitrary: st) (auto split: sum.split)
  with line names have "hash_sha256sums_entries X t' sums = hash_sha256sums_entries X t sums"
    by (simp add: hash_sha256sums_entries_def)
  then show ?thesis using sums by (simp add: content_checks_def r)
qed

text \<open>No check reads the completeness states.\<close>

lemma completeness_fields:
  "ix_profile (index\<lparr>ix_completeness := s\<rparr>) = ix_profile index"
  "ix_git_sha (index\<lparr>ix_completeness := s\<rparr>) = ix_git_sha index"
  "ix_git_branch (index\<lparr>ix_completeness := s\<rparr>) = ix_git_branch index"
  "ix_git_dirty (index\<lparr>ix_completeness := s\<rparr>) = ix_git_dirty index"
  "ix_engine_crate_version (index\<lparr>ix_completeness := s\<rparr>) = ix_engine_crate_version index"
  "ix_engine_git_sha (index\<lparr>ix_completeness := s\<rparr>) = ix_engine_git_sha index"
  "ix_engine_build_source (index\<lparr>ix_completeness := s\<rparr>) = ix_engine_build_source index"
  "ix_bundle_complete (index\<lparr>ix_completeness := s\<rparr>) = ix_bundle_complete index"
  "ix_tool_command_failures (index\<lparr>ix_completeness := s\<rparr>) = ix_tool_command_failures index"
  "ix_resolution_policy (index\<lparr>ix_completeness := s\<rparr>) = ix_resolution_policy index"
  "ix_boundary_policy (index\<lparr>ix_completeness := s\<rparr>) = ix_boundary_policy index"
  "ix_dal_map (index\<lparr>ix_completeness := s\<rparr>) = ix_dal_map index"
  "ix_test_summary (index\<lparr>ix_completeness := s\<rparr>) = ix_test_summary index"
  "ix_trace_outputs (index\<lparr>ix_completeness := s\<rparr>) = ix_trace_outputs index"
  "ix_content_hash (index\<lparr>ix_completeness := s\<rparr>) = ix_content_hash index"
  "ix_recipe_hash (index\<lparr>ix_completeness := s\<rparr>) = ix_recipe_hash index"
  "ix_timestamp_rfc3339 (index\<lparr>ix_completeness := s\<rparr>) = ix_timestamp_rfc3339 index"
  by simp_all

lemma completeness_unread:
  "early_checks X C t (index\<lparr>ix_completeness := s\<rparr>) = early_checks X C t index"
  "content_checks X t (index\<lparr>ix_completeness := s\<rparr>) = content_checks X t index"
  "check_recipe_manifest X C t (index\<lparr>ix_completeness := s\<rparr>) = check_recipe_manifest X C t index"
  "late_checks C t (index\<lparr>ix_completeness := s\<rparr>) listed = late_checks C t index listed"
  unfolding early_checks_def check_bundle_completeness_def check_resolution_policy_def
    validate_index_fields_def check_env_vs_index_def check_prerelease_tool_def content_checks_def
    check_recipe_manifest_def check_projection_def late_checks_def check_trace_outputs_hashed_def
    check_test_summary_def check_dal_map_def check_boundary_recheck_def completeness_fields
  by (rule refl)+

end
