(* ===== verification/Bundle_Builder.thy ===== *)
theory Bundle_Builder
  imports Verify_Bundle
begin

text \<open>
  The producer of bundles: the builder (\<^verbatim>\<open>bundle/builder.rs\<close> and \<^verbatim>\<open>bundle/builder/\<close>), the capture
  of a command (\<^verbatim>\<open>bundle/run_capture.rs\<close>, \<^verbatim>\<open>bundle/capture.rs\<close>), the git snapshot (\<^verbatim>\<open>git.rs\<close>), the
  back-links from tests to requirements (\<^verbatim>\<open>trace/test_backlinks.rs\<close>) and the closing sequence of the
  generator (\<^verbatim>\<open>cli/generate/finalize.rs\<close>). The bundle directory is a field of the builder. What git,
  cargo, the clock and a captured process answer are arguments.
\<close>

section \<open>The git snapshot\<close>

datatype git_error =
    GitCmd string
  | GitSubcommandFailed string
  | StrictStateRequired
  | StrictBranchRequired
  | StrictDirtyRequired
  | ShallowClone
  | GitNonUtf8Path
  | GitOther string

fun git_error_code :: "git_error \<Rightarrow> string" where
  "git_error_code (GitCmd _) = ''GIT_CMD_FAILED''"
| "git_error_code (GitSubcommandFailed _) = ''GIT_SUBCOMMAND_FAILED''"
| "git_error_code StrictStateRequired = ''GIT_STRICT_STATE_REQUIRED''"
| "git_error_code StrictBranchRequired = ''GIT_STRICT_BRANCH_REQUIRED''"
| "git_error_code StrictDirtyRequired = ''GIT_STRICT_DIRTY_REQUIRED''"
| "git_error_code ShallowClone = ''GIT_SHALLOW_CLONE''"
| "git_error_code GitNonUtf8Path = ''GIT_NON_UTF8_PATH''"
| "git_error_code (GitOther _) = ''GIT_OTHER''"

record git_provider =
  gp_sha :: "git_error + string"
  gp_branch :: "git_error + string"
  gp_is_dirty :: "git_error + bool"
  gp_dirty_files :: "git_error + string list"

record git_snapshot =
  gs_sha :: string
  gs_branch :: string
  gs_dirty :: bool

definition or_else :: "'e + 'a \<Rightarrow> 'a \<Rightarrow> 'a" where
  "or_else r d = (case r of Inr x \<Rightarrow> x | Inl _ \<Rightarrow> d)"

definition capture_snapshot :: "git_provider \<Rightarrow> bool \<Rightarrow> git_error + git_snapshot" where
  "capture_snapshot provider strict =
    (if strict \<and> or_else (gp_sha provider) ''unknown'' = ''unknown'' then Err StrictStateRequired
     else if strict \<and> or_else (gp_branch provider) ''unknown'' = ''unknown''
     then Err StrictBranchRequired
     else if strict \<and> ok_of (gp_is_dirty provider) = None then Err StrictDirtyRequired
     else Ok \<lparr>gs_sha = or_else (gp_sha provider) ''unknown'',
             gs_branch = or_else (gp_branch provider) ''unknown'',
             gs_dirty = or_else (gp_is_dirty provider) True\<rparr>)"

section \<open>The builder\<close>

datatype builder_error =
    BE_Git git_error
  | BE_Hash hash_error
  | BE_DirtyGitTree profile string
  | BE_BundleExists string
  | BE_Io string string io_error
  | BE_RunCommand string string
  | BE_CurrentDir string
  | BE_Serialize string string
  | BE_ParseEnv string
  | BE_Toctou string string
  | BE_CargoMetadataRun string
  | BE_CargoMetadataProject projection_error
  | BE_LockedGraphUnavailable string string

fun builder_error_code :: "builder_error \<Rightarrow> string" where
  "builder_error_code (BE_Git _) = ''BUNDLE_GIT_FAILED''"
| "builder_error_code (BE_Hash _) = ''BUNDLE_HASH_FAILED''"
| "builder_error_code (BE_DirtyGitTree _ _) = ''BUNDLE_DIRTY_GIT_TREE''"
| "builder_error_code (BE_BundleExists _) = ''BUNDLE_ALREADY_EXISTS''"
| "builder_error_code (BE_Io _ _ _) = ''BUNDLE_IO_FAILED''"
| "builder_error_code (BE_RunCommand _ _) = ''BUNDLE_RUN_COMMAND_FAILED''"
| "builder_error_code (BE_CurrentDir _) = ''BUNDLE_CURRENT_DIR_FAILED''"
| "builder_error_code (BE_Serialize _ _) = ''BUNDLE_SERIALIZE_FAILED''"
| "builder_error_code (BE_ParseEnv _) = ''BUNDLE_PARSE_ENV_FAILED''"
| "builder_error_code (BE_Toctou _ _) = ''BUNDLE_TOCTOU''"
| "builder_error_code (BE_CargoMetadataRun _) = ''BUNDLE_CARGO_METADATA_FAILED''"
| "builder_error_code (BE_CargoMetadataProject _) = ''BUNDLE_CARGO_METADATA_FAILED''"
| "builder_error_code (BE_LockedGraphUnavailable _ _) = ''BUNDLE_LOCKED_GRAPH_UNAVAILABLE''"

record build_config =
  bc_output_root :: string
  bc_profile :: profile
  bc_in_scope_crates :: "string list"
  bc_trace_roots :: "string list"
  bc_require_clean_git :: bool
  bc_fail_on_dirty :: bool
  bc_dal_map :: "(string, assurance_level) bmap"
  bc_boundary_policy :: boundary_policy
  bc_resolution_policy :: resolution_policy
  bc_skip_tests :: bool

record evidence_builder =
  eb_config :: build_config
  eb_git_snapshot :: git_snapshot
  eb_bundle :: bundle_tree
  eb_commands :: "command_record list"
  eb_inputs :: "(string, string) bmap"
  eb_outputs :: "(string, string) bmap"
  eb_test_summary :: "test_summary option"
  eb_test_outcomes :: "test_outcome_record list"
  eb_tool_command_failures :: "tool_command_failure list"
  eb_trace_evidence_state :: "trace_evidence_state option"
  eb_signature_planned :: bool

definition bundle_dir_name :: "build_config \<Rightarrow> git_snapshot \<Rightarrow> string \<Rightarrow> string" where
  "bundle_dir_name config snapshot timestamp =
    (let sha = gs_sha snapshot;
         sha_short = (if 8 < length sha \<and> is_continuation (sha ! 8) then sha else take 8 sha)
     in profile_display (bc_profile config) @ ''-'' @ timestamp @ ''-'' @ sha_short)"

definition dirty_suffix :: "string list \<Rightarrow> string" where
  "dirty_suffix dirty_files =
    (if dirty_files = [] then []
     else [newline, newline] @ ''Dirty files:'' @ [newline] @ ''  ''
       @ join_with ([newline] @ ''  '') (take 10 dirty_files)
       @ (if 10 < length dirty_files
          then [newline] @ ''  ... and '' @ show_nat (length dirty_files - 10) @ '' more'' else [])
       @ [newline, newline] @ ''To fix:'' @ [newline] @ ''  git add <files> && git commit -m '' @ [CHR 0x22]
       @ ''...'' @ [CHR 0x22, newline, newline] @ ''To override (dev only):'' @ [newline]
       @ ''  cargo xtask evidence --profile dev'')"

definition new_builder ::
  "build_config \<Rightarrow> git_provider \<Rightarrow> string \<Rightarrow> bool \<Rightarrow> (string \<Rightarrow> bool) \<Rightarrow> (string \<Rightarrow> fs_entry option)
    \<Rightarrow> builder_error + evidence_builder" where
  "new_builder config provider timestamp shallow exists_dir outside =
    rbind (map_err BE_Git (capture_snapshot provider (assured_profile (bc_profile config)))) (\<lambda>snapshot.
    rbind (map_err BE_Git (fail_if shallow ShallowClone)) (\<lambda>_.
    rbind (fail_if ((bc_require_clean_git config \<or> bc_fail_on_dirty config) \<and> gs_dirty snapshot)
      (BE_DirtyGitTree (bc_profile config) (dirty_suffix (or_else (gp_dirty_files provider) [])))) (\<lambda>_.
    let name = bundle_dir_name config snapshot timestamp in
    rbind (fail_if (exists_dir name) (BE_BundleExists (bc_output_root config @ ''/'' @ name))) (\<lambda>_.
    Ok \<lparr>eb_config = config, eb_git_snapshot = snapshot,
        eb_bundle = \<lparr>bt_files = [], bt_dirs = [[''tests''], [''trace'']], bt_outside = outside\<rparr>,
        eb_commands = [], eb_inputs = [], eb_outputs = [], eb_test_summary = None,
        eb_test_outcomes = [], eb_tool_command_failures = [], eb_trace_evidence_state = None,
        eb_signature_planned = False\<rparr>))))"

subsection \<open>Recording\<close>

text \<open>An input is read from the source tree, an output from the bundle or from a build tree.\<close>

definition hash_input ::
  "platform \<Rightarrow> bundle_tree \<Rightarrow> string \<Rightarrow> evidence_builder \<Rightarrow> builder_error + evidence_builder" where
  "hash_input X source rel b = rbind (map_err BE_Hash (sha256_file X source rel))
     (\<lambda>h. Ok (b\<lparr>eb_inputs := bins rel h (eb_inputs b)\<rparr>))"

definition hash_output ::
  "platform \<Rightarrow> string \<Rightarrow> evidence_builder \<Rightarrow> builder_error + evidence_builder" where
  "hash_output X rel b = rbind (map_err BE_Hash (sha256_file X (eb_bundle b) rel))
     (\<lambda>h. Ok (b\<lparr>eb_outputs := bins (normalize_bundle_path rel) h (eb_outputs b)\<rparr>))"

definition add_output ::
  "platform \<Rightarrow> bundle_tree \<Rightarrow> string \<Rightarrow> string \<Rightarrow> evidence_builder \<Rightarrow> builder_error + evidence_builder"
where
  "add_output X build_tree key file b = rbind (map_err BE_Hash (sha256_file X build_tree file))
     (\<lambda>h. Ok (b\<lparr>eb_outputs := bins key h (eb_outputs b)\<rparr>))"

definition record_command :: "command_record \<Rightarrow> evidence_builder \<Rightarrow> evidence_builder" where
  "record_command c b = b\<lparr>eb_commands := eb_commands b @ [c]\<rparr>"

definition record_command_failure :: "tool_command_failure \<Rightarrow> evidence_builder \<Rightarrow> evidence_builder" where
  "record_command_failure f b = b\<lparr>eb_tool_command_failures := eb_tool_command_failures b @ [f]\<rparr>"

definition set_test_summary :: "test_summary \<Rightarrow> evidence_builder \<Rightarrow> evidence_builder" where
  "set_test_summary s b = b\<lparr>eb_test_summary := Some s\<rparr>"

definition set_test_outcomes :: "test_outcome_record list \<Rightarrow> evidence_builder \<Rightarrow> evidence_builder" where
  "set_test_outcomes rs b = b\<lparr>eb_test_outcomes := rs\<rparr>"

definition set_trace_evidence_state :: "trace_evidence_state \<Rightarrow> evidence_builder \<Rightarrow> evidence_builder"
where
  "set_trace_evidence_state s b = b\<lparr>eb_trace_evidence_state := Some s\<rparr>"

definition set_signature_planned :: "bool \<Rightarrow> evidence_builder \<Rightarrow> evidence_builder" where
  "set_signature_planned planned b = b\<lparr>eb_signature_planned := planned\<rparr>"

definition tests_passed :: "evidence_builder \<Rightarrow> bool option" where
  "tests_passed b = map_option (\<lambda>s. sm_failed s = 0) (eb_test_summary b)"

subsection \<open>Back-links\<close>

definition selector_matches_qualified :: "string list \<Rightarrow> string \<Rightarrow> bool" where
  "selector_matches_qualified selectors qualified \<longleftrightarrow>
    (\<exists>sel \<in> set selectors. sel = qualified \<or>
      (case strip_prefix sel qualified of Some rest \<Rightarrow> has_prefix ''::'' rest | None \<Rightarrow> False))"

definition qualified_name :: "test_outcome_record \<Rightarrow> string" where
  "qualified_name r = (if tro_module_path r = [] then tro_name r
     else tro_module_path r @ ''::'' @ tro_name r)"

definition resolve_llr_backlinks ::
  "test_entry list \<Rightarrow> test_outcome_record list \<Rightarrow> test_outcome_record list" where
  "resolve_llr_backlinks tests = map (\<lambda>r. r\<lparr>tro_requirement_uids := dedup (sort (concat (map t_traces_to
     (filter (\<lambda>t. selector_matches_qualified (all_selectors t) (qualified_name r)) tests))))\<rparr>)"

definition enrich_test_outcomes :: "test_entry list \<Rightarrow> evidence_builder \<Rightarrow> evidence_builder" where
  "enrich_test_outcomes tests b =
    b\<lparr>eb_test_outcomes := resolve_llr_backlinks tests (eb_test_outcomes b)\<rparr>"

subsection \<open>Writing\<close>

definition write_file ::
  "string \<Rightarrow> string \<Rightarrow> bytes \<Rightarrow> evidence_builder \<Rightarrow> builder_error + evidence_builder" where
  "write_file doing rel content b =
    rbind (map_err (BE_Io doing rel) (write_bytes (eb_bundle b) rel content))
      (\<lambda>t. Ok (b\<lparr>eb_bundle := t\<rparr>))"

definition write_encoded ::
  "string \<Rightarrow> string + bytes \<Rightarrow> evidence_builder \<Rightarrow> builder_error + evidence_builder" where
  "write_encoded rel encoded b =
    rbind (map_err (BE_Serialize rel) encoded) (\<lambda>content. write_file ''writing'' rel content b)"

definition write_inputs :: "codec \<Rightarrow> evidence_builder \<Rightarrow> builder_error + evidence_builder" where
  "write_inputs C b = write_encoded ''inputs_hashes.json'' (encode_string_map C (eb_inputs b)) b"

definition write_outputs :: "codec \<Rightarrow> evidence_builder \<Rightarrow> builder_error + evidence_builder" where
  "write_outputs C b = write_encoded ''outputs_hashes.json'' (encode_string_map C (eb_outputs b)) b"

definition write_commands :: "codec \<Rightarrow> evidence_builder \<Rightarrow> builder_error + evidence_builder" where
  "write_commands C b = write_encoded ''commands.json'' (encode_commands C (eb_commands b)) b"

definition write_test_outcomes :: "codec \<Rightarrow> evidence_builder \<Rightarrow> builder_error + evidence_builder" where
  "write_test_outcomes C b =
    (if eb_test_outcomes b = [] then Ok b
     else rbind (fold_res (\<lambda>buf r. map_err (BE_Serialize ''tests/test_outcomes.jsonl'')
          (rbind (encode_outcome C r) (\<lambda>line. Ok (buf @ line @ [newline])))) [] (eb_test_outcomes b))
        (\<lambda>buf. write_file ''writing'' ''tests/test_outcomes.jsonl'' buf b))"

text \<open>A captured process: what it was called with, how it ended, what it printed.\<close>

record captured_process =
  pr_argv :: "string list"
  pr_cwd :: string
  pr_exit_code :: "int option"
  pr_success :: bool
  pr_stdout :: bytes
  pr_stderr :: bytes

fun normalize_captured_text :: "bytes \<Rightarrow> bytes" where
  "normalize_captured_text (a # b # s) =
    (if a = CHR 0x0D \<and> b = newline then newline # normalize_captured_text s
     else a # normalize_captured_text (b # s))"
| "normalize_captured_text s = s"

definition capture_paths :: "string \<Rightarrow> string \<Rightarrow> string \<times> string" where
  "capture_paths rel_dir base =
    (if rel_dir = [] then (base @ ''.json'', base @ ''_stderr.txt'')
     else (rel_dir @ ''/'' @ base @ ''_stdout.txt'', rel_dir @ ''/'' @ base @ ''_stderr.txt''))"

definition run_capture ::
  "codec \<Rightarrow> captured_process \<Rightarrow> string \<Rightarrow> string \<Rightarrow> string \<Rightarrow> evidence_builder
    \<Rightarrow> builder_error + evidence_builder" where
  "run_capture C p rel_dir base display_name b =
    (let (stdout_path, stderr_path) = capture_paths rel_dir base;
         out = normalize_captured_text (pr_stdout p);
         err = normalize_captured_text (pr_stderr p);
         exit_code = (case pr_exit_code p of Some c \<Rightarrow> c | None \<Rightarrow> - 1)
     in rbind (write_file ''writing stdout to'' stdout_path out b) (\<lambda>b.
        rbind (write_file ''writing stderr to'' stderr_path err b) (\<lambda>b.
        let b = record_command \<lparr>cr_argv = pr_argv p, cr_cwd = pr_cwd p, cr_exit_code = exit_code,
              cr_stdout_path = Some stdout_path, cr_stderr_path = Some stderr_path\<rparr> b
        in Ok (if pr_success p then b
           else record_command_failure \<lparr>tf_command_name = display_name, tf_exit_code = exit_code,
             tf_stderr_tail = tail_stderr (from_utf8_lossy C err)\<rparr> b))))"

section \<open>Finalizing\<close>

text \<open>What the build and the environment of the run contribute: the engine's build constants, the
  clock, the current commit, and the parsed output of \<^verbatim>\<open>cargo metadata\<close>.\<close>

record host =
  ho_crate_version :: string
  ho_engine_git_sha :: string
  ho_engine_build_source :: string
  ho_now_rfc3339 :: string
  ho_current_sha :: "git_error + string"
  ho_cargo_metadata :: "resolution_policy \<Rightarrow> builder_error + raw_metadata"

definition compliance_reports_on_disk :: "evidence_builder \<Rightarrow> bool" where
  "compliance_reports_on_disk b \<longleftrightarrow>
    (\<forall>name \<in> set (bkeys (bc_dal_map (eb_config b))). path_is_file (eb_bundle b) (report_path name))"

definition derive_completeness_states :: "evidence_builder \<Rightarrow> completeness_states" where
  "derive_completeness_states b = derive_completeness
    \<lparr>ff_tool_command_failures_empty = (eb_tool_command_failures b = []),
     ff_inputs_empty = (eb_inputs b = []), ff_outputs_empty = (eb_outputs b = []),
     ff_skip_tests = bc_skip_tests (eb_config b),
     ff_test_summary_present = (eb_test_summary b \<noteq> None),
     ff_trace_evidence = eb_trace_evidence_state b,
     ff_trace_roots_empty = (bc_trace_roots (eb_config b) = []),
     ff_in_scope_claim = (bc_dal_map (eb_config b) \<noteq> []),
     ff_any_dal_claim = (\<exists>l \<in> set (bvals (bc_dal_map (eb_config b))). l \<noteq> Unclassified),
     ff_compliance_reports_complete = compliance_reports_on_disk b,
     ff_signature_planned = eb_signature_planned b\<rparr>"

definition needs_metadata :: "evidence_builder \<Rightarrow> bool" where
  "needs_metadata b \<longleftrightarrow> assured_profile (bc_profile (eb_config b))
    \<or> bp_forbid_build_rs (bc_boundary_policy (eb_config b))
    \<or> bp_forbid_proc_macros (bc_boundary_policy (eb_config b))"

definition write_cargo_metadata_projection ::
  "codec \<Rightarrow> host \<Rightarrow> evidence_builder \<Rightarrow> builder_error + evidence_builder \<times> cargo_projection" where
  "write_cargo_metadata_projection C H b =
    rbind (ho_cargo_metadata H (bc_resolution_policy (eb_config b))) (\<lambda>raw.
    rbind (map_err BE_CargoMetadataProject (projection_from_raw raw)) (\<lambda>projection.
    rbind (write_encoded ''cargo_metadata.json'' (encode_projection C projection) b) (\<lambda>b.
    Ok (b, projection))))"

fun recipe_projection_err :: "recipe_projection_error \<Rightarrow> builder_error" where
  "recipe_projection_err (ProjectionSerialize kind e) = BE_Serialize kind e"
| "recipe_projection_err (ProjectionParse kind _ e) = BE_Serialize kind e"
| "recipe_projection_err (ProjectionIo doing path e) = BE_Io doing path e"

definition assemble_recipe_inputs ::
  "platform \<Rightarrow> codec \<Rightarrow> (string, string) bmap \<Rightarrow> command_record list \<Rightarrow> cargo_projection option
    \<Rightarrow> resolution_policy \<Rightarrow> builder_error + recipe_inputs" where
  "assemble_recipe_inputs X C inputs commands projection policy =
    map_err recipe_projection_err (
    rbind (case projection of None \<Rightarrow> Ok None
        | Some p \<Rightarrow> rbind (locked_graph_digest X C p) (\<lambda>h. Ok (Some h))) (\<lambda>locked_graph_hash.
    rbind (commands_digest X C commands) (\<lambda>command_recipe_hash.
    rbind (inputs_digest X C inputs) (\<lambda>inputs_hash.
    Ok \<lparr>ri_features = [], ri_locked_graph_hash = locked_graph_hash,
        ri_command_recipe_hash = command_recipe_hash, ri_inputs_hash = inputs_hash,
        ri_resolution_policy = policy\<rparr>))))"

definition build_index ::
  "host \<Rightarrow> evidence_builder \<Rightarrow> string list list \<Rightarrow> string \<Rightarrow> string \<Rightarrow> evidence_index" where
  "build_index H b trace_outputs content_hash recipe_hash =
    \<lparr>ix_schema_version = ''0.0.1'', ix_boundary_schema_version = ''0.0.1'',
     ix_trace_schema_version = ''0.0.1'', ix_profile = bc_profile (eb_config b),
     ix_timestamp_rfc3339 = ho_now_rfc3339 H, ix_git_sha = gs_sha (eb_git_snapshot b),
     ix_git_branch = gs_branch (eb_git_snapshot b), ix_git_dirty = gs_dirty (eb_git_snapshot b),
     ix_engine_crate_version = ho_crate_version H, ix_engine_git_sha = ho_engine_git_sha H,
     ix_engine_build_source = ho_engine_build_source H,
     ix_inputs_hashes_file = ''inputs_hashes.json'', ix_outputs_hashes_file = ''outputs_hashes.json'',
     ix_commands_file = ''commands.json'', ix_env_fingerprint_file = ''env.json'',
     ix_trace_roots = bc_trace_roots (eb_config b),
     ix_trace_outputs = map relative_name trace_outputs,
     ix_bundle_complete = (eb_tool_command_failures b = []), ix_content_hash = content_hash,
     ix_recipe_hash = recipe_hash, ix_test_summary = eb_test_summary b,
     ix_tool_command_failures = eb_tool_command_failures b,
     ix_dal_map = map (\<lambda>(k, v). (k, level_display v)) (bc_dal_map (eb_config b)),
     ix_boundary_policy = bc_boundary_policy (eb_config b),
     ix_resolution_policy = bc_resolution_policy (eb_config b),
     ix_completeness = derive_completeness_states b\<rparr>"

text \<open>The tail of \<^verbatim>\<open>finalize\<close>: the manifest is on disk; hash the content, then write the index.\<close>

definition seal ::
  "platform \<Rightarrow> codec \<Rightarrow> host \<Rightarrow> string list list \<Rightarrow> evidence_builder \<Rightarrow> builder_error + evidence_builder"
where
  "seal X C H trace_outputs b =
    rbind (map_err BE_Hash (write_sha256sums X (eb_bundle b))) (\<lambda>t.
    rbind (map_err BE_Hash (sha256_file X t ''SHA256SUMS'')) (\<lambda>content_hash.
    rbind (map_err BE_Hash (sha256_file X t ''deterministic-manifest.json'')) (\<lambda>recipe_hash.
    let b = b\<lparr>eb_bundle := t\<rparr> in
    write_encoded ''index.json''
      (encode_index C (build_index H b trace_outputs content_hash recipe_hash)) b)))"

definition finalize ::
  "platform \<Rightarrow> codec \<Rightarrow> host \<Rightarrow> string list list \<Rightarrow> evidence_builder \<Rightarrow> builder_error + evidence_builder"
where
  "finalize X C H trace_outputs b =
    (let snapshot_sha = gs_sha (eb_git_snapshot b) in
    rbind (case ho_current_sha H of
        Inr sha \<Rightarrow> fail_if (snapshot_sha \<noteq> ''unknown'' \<and> trim sha \<noteq> snapshot_sha)
          (BE_Toctou snapshot_sha (trim sha))
      | Inl _ \<Rightarrow> Ok ()) (\<lambda>_.
    rbind (if needs_metadata b
      then rbind (write_cargo_metadata_projection C H b) (\<lambda>(b, projection). Ok (b, Some projection))
      else Ok (b, None)) (\<lambda>(b, projection).
    rbind (map_err (BE_Io ''reading'' ''env.json'') (read_bytes (eb_bundle b) ''env.json'')) (\<lambda>env_bytes.
    rbind (map_err BE_ParseEnv (decode_env C env_bytes)) (\<lambda>env.
    rbind (assemble_recipe_inputs X C (eb_inputs b) (eb_commands b) projection
      (bc_resolution_policy (eb_config b))) (\<lambda>inputs.
    rbind (write_encoded ''deterministic-manifest.json''
      (encode_manifest C (project_manifest env inputs)) b) (\<lambda>b.
    seal X C H trace_outputs b)))))))"

section \<open>Closing a bundle\<close>

datatype completeness_error =
    CompletenessIo string string io_error
  | CompletenessParse string string
  | CompletenessSerialize string

text \<open>\<open>decode_index\<close> takes text; \<^verbatim>\<open>from_slice\<close> also refuses what is not UTF-8.\<close>

definition record_verification_state ::
  "codec \<Rightarrow> completeness_state \<Rightarrow> bundle_tree \<Rightarrow> completeness_error + bundle_tree" where
  "record_verification_state C state bundle =
    rbind (map_err (CompletenessIo ''reading'' ''index.json'') (read_bytes bundle ''index.json'')) (\<lambda>b.
    rbind (map_err (CompletenessParse ''index.json'')
      (if is_utf8 b then decode_index C b else Err ''invalid UTF-8'')) (\<lambda>index.
    rbind (map_err CompletenessSerialize
      (encode_index C (index\<lparr>ix_completeness := (ix_completeness index)\<lparr>cq_verification := state\<rparr>\<rparr>)))
      (\<lambda>patched.
    map_err (CompletenessIo ''writing'' ''index.json'') (write_bytes bundle ''index.json'' patched))))"

definition observed_state :: "verify_runtime_error + verify_result \<Rightarrow> completeness_state" where
  "observed_state r = (case r of
     Inr Pass \<Rightarrow> Complete | Inr _ \<Rightarrow> Incomplete | Inl _ \<Rightarrow> Unverifiable)"

datatype generate_error =
    GE_NoSigningKey
  | GE_Builder builder_error
  | GE_Completeness completeness_error
  | GE_Signing signing_error

text \<open>\<open>finalize_and_sign\<close> with a resolved key; the comparison with a committed public key reads
  nothing of the bundle and is left out.\<close>

definition finalize_and_sign ::
  "platform \<Rightarrow> codec \<Rightarrow> host \<Rightarrow> string \<Rightarrow> string list list \<Rightarrow> (bytes \<Rightarrow> bytes) option
    \<Rightarrow> evidence_builder \<Rightarrow> generate_error + bundle_tree" where
  "finalize_and_sign X C H path trace_outputs signing_key b =
    rbind (fail_if (signing_key = None \<and> assured_profile (bc_profile (eb_config b))) GE_NoSigningKey) (\<lambda>_.
    rbind (map_err GE_Builder (finalize X C H trace_outputs
      (set_signature_planned (signing_key \<noteq> None) b))) (\<lambda>b.
    let state = observed_state (verify_bundle X C path (Some (eb_bundle b))) in
    rbind (map_err GE_Completeness (record_verification_state C state (eb_bundle b))) (\<lambda>t.
    case signing_key of
      None \<Rightarrow> Ok t
    | Some sign \<Rightarrow> map_err GE_Signing (sign_bundle C sign t))))"

end
