(* ===== verification/Bundle_Seal.thy ===== *)
theory Bundle_Seal
  imports Bundle_Frame Bundle_Builder
begin

text \<open>
  What the builder leaves on disk: writes at the root of a portable tree, the sealing sequence, and
  the verdict of the verifier on a sealed bundle, reduced to the checks that judge the run.
\<close>

section \<open>Root files\<close>

lemma relative_name_root: "portable n \<Longrightarrow> relative_name [n] = n"
  using portable_path_name(1) [of "[n]"] by (simp add: portable_path_def)

lemma portable_root: "portable n \<Longrightarrow> portable_path [n]"
  by (simp add: portable_path_def)

lemma locate_root: "portable n \<Longrightarrow> tree_entry t n =
    (case bget (bt_files t) [n] of Some c \<Rightarrow> Some (RegularFile c)
     | None \<Rightarrow> if tree_dir t [n] then Some Directory else None)"
  using locate_portable [OF portable_root] by (simp add: relative_name_root)

lemma components_root: "portable n \<Longrightarrow> path_components n = [n]"
  using portable_components [OF portable_root] by (simp add: relative_name_root)

lemma root_reads:
  assumes "portable n" "bget (bt_files t) [n] = Some c"
  shows "path_exists t n" "read_bytes t n = Ok c" "sha256_file X t n = Ok (sha256 X c)"
    "is_utf8 c \<Longrightarrow> read_to_string t n = Ok c"
  using assms
  by (simp_all add: path_exists_def read_bytes_def sha256_file_def read_to_string_def locate_root)

lemma read_bytes_root:
  "portable n \<Longrightarrow> read_bytes t n = Ok c \<longleftrightarrow> bget (bt_files t) [n] = Some c"
  by (simp add: read_bytes_def locate_root split: option.split)

lemma portable_tree_dir: "portable_tree t \<Longrightarrow> bget (bt_files t) p = Some c \<Longrightarrow> \<not> tree_dir t p"
  by (force simp: portable_tree_def tree_ok_def set_bkeys dest: bget_Some_in)

lemma portable_tree_root: "portable_tree t \<Longrightarrow> bget (bt_files t) [] = None"
  by (force simp: portable_tree_def tree_ok_def set_bkeys bget_None_iff)

definition with_file :: "string list \<Rightarrow> bytes \<Rightarrow> bundle_tree \<Rightarrow> bundle_tree" where
  "with_file p c t = t\<lparr>bt_files := bins p c (bt_files t)\<rparr>"

lemma bget_with_file [simp]:
  "bget (bt_files (with_file p c t)) q = (if q = p then Some c else bget (bt_files t) q)"
  by (simp add: with_file_def)

lemma keys_with_file [simp]:
  "set (bkeys (bt_files (with_file p c t))) = insert p (set (bkeys (bt_files t)))"
  by (simp add: with_file_def set_bkeys)

lemma bwf_with_file [simp]: "bwf (bt_files t) \<Longrightarrow> bwf (bt_files (with_file p c t))"
  by (simp add: with_file_def)

lemma tree_dir_with_root: "tree_dir (with_file [n] c t) p = tree_dir t p"
  by (auto simp: tree_dir_def with_file_def set_bkeys)

lemma write_root:
  assumes n: "portable n" and t: "portable_tree t" and w: "write_bytes t n c = Ok t'"
  shows "t' = with_file [n] c t" "portable_tree (with_file [n] c t)"
proof -
  show "t' = with_file [n] c t"
    using w by (auto simp: write_bytes_def Let_def components_root [OF n] with_file_def split: if_splits)
  have "\<not> tree_dir t [n]" using w
    by (auto simp: write_bytes_def Let_def components_root [OF n] split: if_splits)
  then show "portable_tree (with_file [n] c t)"
    using t n portable_root [OF n] by (simp add: portable_tree_def tree_ok_def tree_dir_with_root portable_def)
qed

lemma write_root_new:
  "portable n \<Longrightarrow> portable_tree t \<Longrightarrow> \<not> tree_dir t [n] \<Longrightarrow> write_bytes t n c = Ok (with_file [n] c t)"
  using portable_tree_root [of t] by (simp add: write_bytes_def Let_def components_root with_file_def)

text \<open>The root names the builder uses.\<close>

lemma portable_names [simp]:
  "portable ''inputs_hashes.json''" "portable ''outputs_hashes.json''" "portable ''commands.json''"
  "portable ''env.json''" "portable ''deterministic-manifest.json''" "portable ''SHA256SUMS''"
  "portable ''index.json''" "portable ''cargo_metadata.json''" "portable ''BUNDLE.sig''"
  by (simp_all add: portable_def component_ok_def slash_def backslash_def newline_def byte_def)

section \<open>The codec\<close>

text \<open>
  What the verifier relies on: the serializer writes UTF-8 text that the parser reads back, for
  maps in key order (a \<^verbatim>\<open>BTreeMap\<close> has no other).
\<close>

definition index_wf :: "evidence_index \<Rightarrow> bool" where
  "index_wf i \<longleftrightarrow> bwf (ix_dal_map i)"

definition codec_ok :: "codec \<Rightarrow> bool" where
  "codec_ok C \<longleftrightarrow>
    (\<forall>i b. index_wf i \<longrightarrow> encode_index C i = Ok b \<longrightarrow> is_utf8 b \<and> decode_index C b = Ok i) \<and>
    (\<forall>m b. bwf m \<longrightarrow> encode_string_map C m = Ok b \<longrightarrow> decode_string_map C b = Ok m) \<and>
    (\<forall>cs b. encode_commands C cs = Ok b \<longrightarrow> decode_commands C b = Ok cs) \<and>
    (\<forall>p b. bwf (cj_dependencies p) \<longrightarrow> encode_projection C p = Ok b \<longrightarrow> decode_projection C b = Ok p)"

lemma codec_okD:
  assumes "codec_ok C"
  shows "index_wf i \<Longrightarrow> encode_index C i = Ok b \<Longrightarrow> is_utf8 b"
    "index_wf i \<Longrightarrow> encode_index C i = Ok b \<Longrightarrow> decode_index C b = Ok i"
    "bwf m \<Longrightarrow> encode_string_map C m = Ok b \<Longrightarrow> decode_string_map C b = Ok m"
    "encode_commands C cs = Ok b \<Longrightarrow> decode_commands C b = Ok cs"
    "bwf (cj_dependencies p) \<Longrightarrow> encode_projection C p = Ok b \<Longrightarrow> decode_projection C b = Ok p"
  using assms by (auto simp: codec_ok_def)

lemma project_node_wf: "project_node raw m n = Ok m' \<Longrightarrow> bwf m \<Longrightarrow> bwf m'"
  by (auto simp: project_node_def rbind_Ok_iff split: if_splits)

lemma fold_project_wf: "fold_res (project_node raw) m ns = Ok m' \<Longrightarrow> bwf m \<Longrightarrow> bwf m'"
  by (induction ns arbitrary: m) (auto split: sum.splits dest: project_node_wf)

lemma projection_wf: "projection_from_raw raw = Ok p \<Longrightarrow> bwf (cj_dependencies p)"
  using fold_project_wf [of raw "[]"]
  by (auto simp: projection_from_raw_def project_resolved_graph_def rbind_Ok_iff)

section \<open>The staged builder\<close>

text \<open>The digest manifests and the command log on disk are the ones in memory.\<close>

definition on_disk :: "evidence_builder \<Rightarrow> string \<Rightarrow> string + bytes \<Rightarrow> bool" where
  "on_disk b n encoded \<longleftrightarrow> (\<exists>c. encoded = Ok c \<and> bget (bt_files (eb_bundle b)) [n] = Some c)"

definition staged :: "codec \<Rightarrow> evidence_builder \<Rightarrow> bool" where
  "staged C b \<longleftrightarrow> portable_tree (eb_bundle b)
    \<and> bwf (eb_inputs b) \<and> bwf (bc_dal_map (eb_config b))
    \<and> on_disk b ''inputs_hashes.json'' (encode_string_map C (eb_inputs b))
    \<and> on_disk b ''outputs_hashes.json'' (encode_string_map C (eb_outputs b))
    \<and> on_disk b ''commands.json'' (encode_commands C (eb_commands b))"

lemma write_encoded_root:
  assumes n: "portable n" and t: "portable_tree (eb_bundle b)" and w: "write_encoded n enc b = Ok b'"
  shows "\<exists>c. enc = Ok c \<and> b' = b\<lparr>eb_bundle := with_file [n] c (eb_bundle b)\<rparr>
    \<and> portable_tree (eb_bundle b') \<and> on_disk b' n enc"
proof -
  from w obtain c t' where c: "enc = Ok c" "write_bytes (eb_bundle b) n c = Ok t'"
    "b' = b\<lparr>eb_bundle := t'\<rparr>"
    by (auto simp: write_encoded_def write_file_def rbind_Ok_iff map_err_Ok_iff)
  from write_root [OF n t c(2)] c(1,3) show ?thesis by (simp add: on_disk_def)
qed

text \<open>The three writes of the generator stage a builder.\<close>

lemma writes_stage:
  assumes t: "portable_tree (eb_bundle b)" "bwf (eb_inputs b)" "bwf (bc_dal_map (eb_config b))"
    and w: "write_inputs C b = Ok b1" "write_outputs C b1 = Ok b2" "write_commands C b2 = Ok b3"
  shows "staged C b3"
proof -
  from w(1) write_encoded_root [OF portable_names(1) t(1)] obtain i where
    i: "encode_string_map C (eb_inputs b) = Ok i"
      "b1 = b\<lparr>eb_bundle := with_file [''inputs_hashes.json''] i (eb_bundle b)\<rparr>"
      "portable_tree (eb_bundle b1)"
    unfolding write_inputs_def by blast
  from w(2) write_encoded_root [OF portable_names(2) i(3)] obtain out where
    out: "encode_string_map C (eb_outputs b1) = Ok out"
      "b2 = b1\<lparr>eb_bundle := with_file [''outputs_hashes.json''] out (eb_bundle b1)\<rparr>"
      "portable_tree (eb_bundle b2)"
    unfolding write_outputs_def by blast
  from w(3) write_encoded_root [OF portable_names(3) out(3)] obtain c where
    c: "encode_commands C (eb_commands b2) = Ok c"
      "b3 = b2\<lparr>eb_bundle := with_file [''commands.json''] c (eb_bundle b2)\<rparr>"
      "portable_tree (eb_bundle b3)"
    unfolding write_commands_def by blast
  show ?thesis using c(3) i(1) out(1) c(1) t(2,3)
    by (simp add: staged_def on_disk_def c(2) out(2) i(2))
qed

section \<open>Sealed bundles\<close>

definition verdict :: "verify_error list \<Rightarrow> verify_result" where
  "verdict errors = (if errors \<noteq> [] then Fail errors else Pass)"

text \<open>The checks that judge the run; the others compare the bundle with itself.\<close>

definition residual_checks ::
  "platform \<Rightarrow> codec \<Rightarrow> bundle_tree \<Rightarrow> evidence_index \<Rightarrow> verify_error list" where
  "residual_checks X C t index = early_checks X C t index
    @ check_trace_outputs_hashed index (map (\<lambda>f. relative_name (fst f)) (content_files t))
    @ check_test_summary C t index @ check_dal_map C t index @ check_boundary_recheck C t index"

definition sealed :: "platform \<Rightarrow> codec \<Rightarrow> bundle_tree \<Rightarrow> evidence_index \<Rightarrow> bool" where
  "sealed X C t index \<longleftrightarrow> portable_tree t
    \<and> (\<forall>f \<in> set required_files. path_exists t f)
    \<and> (\<exists>text. bget (bt_files t) [''index.json''] = Some text \<and> is_utf8 text
         \<and> decode_index C text = Ok index)
    \<and> bget (bt_files t) [''SHA256SUMS''] = Some (sha256sums_content X t)
    \<and> ix_content_hash index = sha256 X (sha256sums_content X t)
    \<and> check_recipe_manifest X C t index = Ok []"

lemma content_files_bget:
  "portable_tree t \<Longrightarrow> (p, c) \<in> set (content_files t) \<Longrightarrow> bget (bt_files t) p = Some c"
  by (auto simp: content_files_def portable_tree_def tree_ok_def bget_iff_in)

lemma sealed_content:
  assumes X: "sha_hex X" and s: "sealed X C t index"
  shows "content_checks X t index = Ok (map (\<lambda>f. relative_name (fst f)) (content_files t), [])"
    "unexpected_files t (map (\<lambda>f. relative_name (fst f)) (content_files t)) = []"
proof -
  have t: "portable_tree t" and sums: "bget (bt_files t) [''SHA256SUMS''] = Some (sha256sums_content X t)"
    and h: "ix_content_hash index = sha256 X (sha256sums_content X t)"
    using s by (auto simp: sealed_def)
  have "''index.json'' \<notin> set (map (\<lambda>f. relative_name (fst f)) (content_files t))"
  proof
    assume "''index.json'' \<in> set (map (\<lambda>f. relative_name (fst f)) (content_files t))"
    then obtain p c where p: "(p, c) \<in> set (content_files t)" "relative_name p = ''index.json''" by auto
    then have "portable_path p" using portable_tree_path [OF t] by (auto simp: content_files_def)
    then have "p = [''index.json'']"
      using p(2) relative_name_root [OF portable_names(7)] relative_name_inj [OF _ portable_root [OF portable_names(7)]]
      by metis
    with p(1) show False by (simp add: content_files_def metadata_layer_def)
  qed
  then show "content_checks X t index = Ok (map (\<lambda>f. relative_name (fst f)) (content_files t), [])"
    using root_reads [OF portable_names(6) sums] sums_utf8 [OF X t]
      listing_verifies [OF X t content_files_bget [OF t]]
    by (simp add: content_checks_def h push_if_def)
  show "unexpected_files t (map (\<lambda>f. relative_name (fst f)) (content_files t)) = []"
    by (rule no_unexpected) (auto simp: content_files_def set_bkeys)
qed

lemma sealed_verdict:
  assumes X: "sha_hex X" and s: "sealed X C t index"
  shows "verify_bundle_with_key X C path (Some t) key =
    rbind (map_err RuntimeSigning (check_signature C t key))
      (\<lambda>found. Ok (verdict (residual_checks X C t index @ found)))"
proof -
  from s obtain raw where raw: "bget (bt_files t) [''index.json''] = Some raw" "is_utf8 raw"
    "decode_index C raw = Ok index" by (auto simp: sealed_def)
  have present: "missing_required t = []" using s by (auto simp: sealed_def missing_required_def)
  have recipe: "check_recipe_manifest X C t index = Ok []" using s by (simp add: sealed_def)
  show ?thesis
    using present root_reads(4) [OF portable_names(7) raw(1,2)] raw(3) recipe sealed_content [OF X s]
    by (cases "check_signature C t key")
      (simp_all add: verify_bundle_with_key_def residual_checks_def late_checks_def verdict_def Let_def)
qed

section \<open>Finalizing seals\<close>

lemma content_files_metadata:
  "p \<in> set metadata_layer \<Longrightarrow> content_files (with_file p c t) = content_files t"
proof -
  assume p: "p \<in> set metadata_layer"
  have "filter (\<lambda>f. fst f \<notin> set metadata_layer) (bins p c m) = filter (\<lambda>f. fst f \<notin> set metadata_layer) m"
    for m :: "(string list, bytes) bmap"
    using p by (induction p c m rule: bins.induct) auto
  then show ?thesis by (simp add: content_files_def with_file_def)
qed

lemma sums_content: "sha256sums_content X t
    = join_with [newline] (map (sha256sums_line X) (content_files t)) @ [newline]"
  by (simp add: sha256sums_content_def content_files_def)

lemma sums_metadata:
  "p \<in> set metadata_layer \<Longrightarrow> sha256sums_content X (with_file p c t) = sha256sums_content X t"
  by (simp add: sums_content content_files_metadata)

text \<open>The recipe read back from the bundle is the one assembled in memory.\<close>

definition metadata_on_disk :: "codec \<Rightarrow> evidence_builder \<Rightarrow> cargo_projection option \<Rightarrow> bool" where
  "metadata_on_disk C b projection \<longleftrightarrow> (case projection of
     None \<Rightarrow> \<not> path_exists (eb_bundle b) ''cargo_metadata.json''
   | Some p \<Rightarrow> bwf (cj_dependencies p) \<and> on_disk b ''cargo_metadata.json'' (encode_projection C p))"

lemma read_json_root:
  "portable n \<Longrightarrow> bget (bt_files t) [n] = Some c \<Longrightarrow> decode c = Ok v \<Longrightarrow> read_json decode t n = Ok v"
  by (simp add: read_json_def root_reads)

lemma recipe_read_back:
  assumes C: "codec_ok C" and b: "staged C b" and m: "metadata_on_disk C b projection"
    and r: "assemble_recipe_inputs X C (eb_inputs b) (eb_commands b) projection policy = Ok inputs"
  shows "recipe_inputs_from_bundle X C (eb_bundle b) policy = Ok inputs"
proof -
  note laws = codec_okD [OF C]
  from b obtain i c where i: "encode_string_map C (eb_inputs b) = Ok i" "bwf (eb_inputs b)"
      "bget (bt_files (eb_bundle b)) [''inputs_hashes.json''] = Some i"
    and c: "encode_commands C (eb_commands b) = Ok c"
      "bget (bt_files (eb_bundle b)) [''commands.json''] = Some c"
    by (auto simp: staged_def on_disk_def)
  have reads: "path_exists (eb_bundle b) ''inputs_hashes.json''" "path_exists (eb_bundle b) ''commands.json''"
    "read_json (decode_string_map C) (eb_bundle b) ''inputs_hashes.json'' = Ok (eb_inputs b)"
    "read_json (decode_commands C) (eb_bundle b) ''commands.json'' = Ok (eb_commands b)"
    using root_reads(1) [OF portable_names(1) i(3)] root_reads(1) [OF portable_names(3) c(2)]
      read_json_root [of _ _ _ "decode_string_map C", OF portable_names(1) i(3) laws(3) [OF i(2,1)]]
      read_json_root [of _ _ _ "decode_commands C", OF portable_names(3) c(2) laws(4) [OF c(1)]] by simp_all
  show ?thesis
  proof (cases projection)
    case None
    with m have "\<not> path_exists (eb_bundle b) ''cargo_metadata.json''" by (simp add: metadata_on_disk_def)
    then show ?thesis using reads r i(1) c(1) None
      by (simp add: recipe_inputs_from_bundle_def assemble_recipe_inputs_def inputs_digest_def commands_digest_def)
  next
    case (Some p)
    with m obtain g where g: "bwf (cj_dependencies p)" "encode_projection C p = Ok g"
      "bget (bt_files (eb_bundle b)) [''cargo_metadata.json''] = Some g"
      by (auto simp: metadata_on_disk_def on_disk_def)
    have meta: "path_exists (eb_bundle b) ''cargo_metadata.json''"
      "read_json (decode_projection C) (eb_bundle b) ''cargo_metadata.json'' = Ok p"
      using root_reads(1) [OF portable_names(8) g(3)]
        read_json_root [of _ _ _ "decode_projection C", OF portable_names(8) g(3) laws(5) [OF g(1,2)]] by simp_all
    from r Some obtain h where h: "locked_graph_digest X C p = Ok h"
      by (auto simp: assemble_recipe_inputs_def rbind_Ok_iff map_err_Ok_iff)
    show ?thesis using reads meta r i(1) c(1) Some h
      by (simp add: recipe_inputs_from_bundle_def assemble_recipe_inputs_def inputs_digest_def commands_digest_def)
  qed
qed

text \<open>The three steps of \<open>finalize\<close>: the metadata, the manifest, the seal.\<close>

lemma staged_with_file:
  assumes b: "staged C b" and n: "[n] \<notin> {[''inputs_hashes.json''], [''outputs_hashes.json''], [''commands.json'']}"
    and t: "portable_tree (with_file [n] c (eb_bundle b))"
  shows "staged C (b\<lparr>eb_bundle := with_file [n] c (eb_bundle b)\<rparr>)"
  using b n t by (auto simp: staged_def on_disk_def)

lemma metadata_step:
  assumes b: "staged C b" and m: "\<not> path_exists (eb_bundle b) ''cargo_metadata.json''"
    and w: "(if needs_metadata b
      then rbind (write_cargo_metadata_projection C H b) (\<lambda>(b, projection). Ok (b, Some projection))
      else Ok (b, None)) = Ok (b', projection)"
  shows "staged C b' \<and> metadata_on_disk C b' projection \<and> (\<exists>t. b' = b\<lparr>eb_bundle := t\<rparr>)"
proof (cases "needs_metadata b")
  case False
  with w b m show ?thesis by (auto simp: metadata_on_disk_def intro: exI [of _ "eb_bundle b"])
next
  case True
  with w obtain raw p where p: "projection_from_raw raw = Ok p" "projection = Some p"
    "write_encoded ''cargo_metadata.json'' (encode_projection C p) b = Ok b'"
    by (auto simp: write_cargo_metadata_projection_def rbind_Ok_iff map_err_Ok_iff)
  have t: "portable_tree (eb_bundle b)" using b by (simp add: staged_def)
  from write_encoded_root [OF portable_names(8) t p(3)] obtain c where
    c: "b' = b\<lparr>eb_bundle := with_file [''cargo_metadata.json''] c (eb_bundle b)\<rparr>"
      "portable_tree (eb_bundle b')" "on_disk b' ''cargo_metadata.json'' (encode_projection C p)" by blast
  with staged_with_file [OF b, of "''cargo_metadata.json''" c] projection_wf [OF p(1)] p(2)
  show ?thesis by (auto simp: metadata_on_disk_def)
qed

lemma metadata_with_file:
  assumes "metadata_on_disk C b projection" "portable n" "n \<noteq> ''cargo_metadata.json''"
  shows "metadata_on_disk C (b\<lparr>eb_bundle := with_file [n] c (eb_bundle b)\<rparr>) projection"
  using assms
  by (auto simp: metadata_on_disk_def on_disk_def path_exists_def locate_root tree_dir_with_root
      split: option.splits)

text \<open>The manifest step leaves a recipe that reprojects to the bytes on disk.\<close>

lemma recipe_accepts:
  assumes C: "codec_ok C" and b: "staged C b" and m: "metadata_on_disk C b projection"
    and env: "bget (bt_files (eb_bundle b)) [''env.json''] = Some e" "decode_env C e = Ok env"
    and r: "assemble_recipe_inputs X C (eb_inputs b) (eb_commands b) projection (ix_resolution_policy index) = Ok inputs"
    and manifest: "encode_manifest C (project_manifest env inputs) = Ok c"
      "bget (bt_files (eb_bundle b)) [''deterministic-manifest.json''] = Some c"
      "ix_recipe_hash index = sha256 X c"
  shows "check_recipe_manifest X C (eb_bundle b) index = Ok []"
  using root_reads [OF portable_names(5) manifest(2)] root_reads [OF portable_names(4) env(1)]
    recipe_read_back [OF C b m r] manifest(1,3) env(2)
  by (simp add: check_recipe_manifest_def check_projection_def push_if_def)

lemma build_index_fields:
  "ix_content_hash (build_index H b outs ch rh) = ch" "ix_recipe_hash (build_index H b outs ch rh) = rh"
  "ix_resolution_policy (build_index H b outs ch rh) = bc_resolution_policy (eb_config b)"
  "ix_trace_outputs (build_index H b outs ch rh) = map relative_name outs"
  "bwf (bc_dal_map (eb_config b)) \<Longrightarrow> index_wf (build_index H b outs ch rh)"
  by (simp_all add: build_index_def index_wf_def bwf_def comp_def split_def)

lemma staged_env: "staged C b \<Longrightarrow> portable_tree (eb_bundle b)"
  by (simp add: staged_def)

lemma seal_step:
  assumes C: "codec_ok C" and b: "staged C b" and w: "seal X C H outs b = Ok b'"
    and c: "bget (bt_files (eb_bundle b)) [''deterministic-manifest.json''] = Some c"
  shows "\<exists>index raw. index = build_index H (b\<lparr>eb_bundle := with_file [''SHA256SUMS'']
        (sha256sums_content X (eb_bundle b)) (eb_bundle b)\<rparr>) outs
        (sha256 X (sha256sums_content X (eb_bundle b))) (sha256 X c)
    \<and> is_utf8 raw \<and> decode_index C raw = Ok index \<and> index_wf index
    \<and> eb_bundle b' = with_file [''index.json''] raw (with_file [''SHA256SUMS'']
        (sha256sums_content X (eb_bundle b)) (eb_bundle b)) \<and> portable_tree (eb_bundle b')"
proof -
  let ?s = "sha256sums_content X (eb_bundle b)" let ?t = "with_file [''SHA256SUMS''] ?s (eb_bundle b)"
  let ?b = "b\<lparr>eb_bundle := ?t\<rparr>"
  from w obtain t ch rh where w1: "write_bytes (eb_bundle b) ''SHA256SUMS'' ?s = Ok t"
    and ch: "sha256_file X t ''SHA256SUMS'' = Ok ch"
    and rh: "sha256_file X t ''deterministic-manifest.json'' = Ok rh"
    and w2: "write_encoded ''index.json'' (encode_index C (build_index H (b\<lparr>eb_bundle := t\<rparr>) outs ch rh))
      (b\<lparr>eb_bundle := t\<rparr>) = Ok b'"
    by (auto simp: seal_def write_sha256sums_def Let_def rbind_Ok_iff map_err_Ok_iff)
  from write_root [OF portable_names(6) staged_env [OF b] w1] have t: "t = ?t" "portable_tree ?t" by auto
  have hashes: "ch = sha256 X ?s" "rh = sha256 X c"
    using ch rh root_reads(3) [OF portable_names(6), of ?t ?s X]
      root_reads(3) [OF portable_names(5), of ?t c X] c by (simp_all add: t(1))
  let ?index = "build_index H ?b outs (sha256 X ?s) (sha256 X c)"
  have wf: "index_wf ?index" using b by (intro build_index_fields(5)) (simp add: staged_def)
  from write_encoded_root [OF portable_names(7) _ w2] t hashes obtain raw where
    raw: "encode_index C ?index = Ok raw" "b' = ?b\<lparr>eb_bundle := with_file [''index.json''] raw ?t\<rparr>"
      "portable_tree (eb_bundle b')" by auto
  show ?thesis using raw codec_okD(1,2) [OF C wf raw(1)] wf by (intro exI [of _ ?index] exI [of _ raw]) simp
qed

theorem finalize_seals:
  assumes X: "sha_hex X" and C: "codec_ok C" and b: "staged C b"
    and m: "\<not> path_exists (eb_bundle b) ''cargo_metadata.json''"
    and f: "finalize X C H outs b = Ok b'"
  shows "\<exists>index. sealed X C (eb_bundle b') index \<and> index_wf index
    \<and> ix_trace_outputs index = map relative_name outs"
proof -
  from f obtain b1 projection e env inputs b2 where
    w1: "(if needs_metadata b
      then rbind (write_cargo_metadata_projection C H b) (\<lambda>(b, projection). Ok (b, Some projection))
      else Ok (b, None)) = Ok (b1, projection)"
    and e: "read_bytes (eb_bundle b1) ''env.json'' = Ok e" "decode_env C e = Ok env"
    and r: "assemble_recipe_inputs X C (eb_inputs b1) (eb_commands b1) projection
      (bc_resolution_policy (eb_config b1)) = Ok inputs"
    and w2: "write_encoded ''deterministic-manifest.json'' (encode_manifest C (project_manifest env inputs)) b1 = Ok b2"
    and w3: "seal X C H outs b2 = Ok b'"
    by (auto simp: finalize_def Let_def rbind_Ok_iff map_err_Ok_iff split: if_splits)
  from metadata_step [OF b m w1] have b1: "staged C b1" "metadata_on_disk C b1 projection" by auto
  from write_encoded_root [OF portable_names(5) staged_env [OF b1(1)] w2] obtain c where
    c: "encode_manifest C (project_manifest env inputs) = Ok c"
      "b2 = b1\<lparr>eb_bundle := with_file [''deterministic-manifest.json''] c (eb_bundle b1)\<rparr>"
      "portable_tree (with_file [''deterministic-manifest.json''] c (eb_bundle b1))" by auto
  have b2: "staged C b2" "metadata_on_disk C b2 projection"
    unfolding c(2) using staged_with_file [OF b1(1) _ c(3)] metadata_with_file [OF b1(2) portable_names(5)]
    by simp_all
  have manifest: "bget (bt_files (eb_bundle b2)) [''deterministic-manifest.json''] = Some c"
    by (simp add: c(2))
  let ?s = "sha256sums_content X (eb_bundle b2)"
  from seal_step [OF C b2(1) w3 manifest] obtain index raw where
    index: "index = build_index H (b2\<lparr>eb_bundle := with_file [''SHA256SUMS''] ?s (eb_bundle b2)\<rparr>) outs
        (sha256 X ?s) (sha256 X c)"
    and raw: "is_utf8 raw" "decode_index C raw = Ok index" "index_wf index"
    and t: "eb_bundle b' = with_file [''index.json''] raw (with_file [''SHA256SUMS''] ?s (eb_bundle b2))"
      "portable_tree (eb_bundle b')" by blast
  have sums: "sha256sums_content X (eb_bundle b') = ?s"
    by (simp add: t(1) sums_metadata metadata_layer_def)
  let ?b = "b2\<lparr>eb_bundle := eb_bundle b'\<rparr>"
  have st: "staged C ?b" using b2(1) t by (auto simp: staged_def on_disk_def)
  have mt: "metadata_on_disk C ?b projection"
    using metadata_with_file [OF metadata_with_file [OF b2(2) portable_names(6)] portable_names(7)]
    by (simp add: t(1))
  have e': "bget (bt_files (eb_bundle ?b)) [''env.json''] = Some e"
    using e(1) by (simp add: t(1) c(2) read_bytes_root)
  have r': "assemble_recipe_inputs X C (eb_inputs ?b) (eb_commands ?b) projection
      (ix_resolution_policy index) = Ok inputs"
    using r by (simp add: index build_index_fields c(2))
  have "check_recipe_manifest X C (eb_bundle ?b) index = Ok []"
    using recipe_accepts [OF C st mt e' e(2) r' c(1)] manifest
    by (simp add: t(1) index build_index_fields)
  moreover have "\<forall>f \<in> set required_files. path_exists (eb_bundle b') f"
    using st e' manifest root_reads(1) [OF portable_names(1)] root_reads(1) [OF portable_names(2)]
      root_reads(1) [OF portable_names(3)] root_reads(1) [OF portable_names(4)]
      root_reads(1) [OF portable_names(5)] root_reads(1) [OF portable_names(6)]
      root_reads(1) [OF portable_names(7)]
    by (auto simp: required_files_def staged_def on_disk_def t(1))
  ultimately have "sealed X C (eb_bundle b') index"
    using t raw by (simp add: sealed_def sums_metadata metadata_layer_def index build_index_fields)
  with raw(3) show ?thesis by (auto simp: index build_index_fields)
qed

end
