(* ===== verification/Bundle_Closing.thy ===== *)
theory Bundle_Closing
  imports Bundle_Seal
begin

text \<open>
  Closing a sealed bundle: recording the verdict in the index and signing the envelope leave every
  finding as it was. The second part is about what a listing fixes.
\<close>

section \<open>The signature file\<close>

text \<open>What the hexadecimal codec promises: digits, read back.\<close>

definition hex_ok :: "codec \<Rightarrow> bool" where
  "hex_ok C \<longleftrightarrow> (\<forall>s. (\<forall>c \<in> set (encode_hex C s). is_hexdigit c) \<and> decode_hex C (encode_hex C s) = Ok s)"

lemma hexdigit_bytes: "is_hexdigit c \<Longrightarrow> byte c < 128 \<and> byte c \<noteq> 32 \<and> \<not> (9 \<le> byte c \<and> byte c \<le> 13)"
  by (auto simp: is_hexdigit_def is_lower_hex_def is_ascii_digit_def byte_def)

lemma ws_len_hexdigit: "is_hexdigit c \<Longrightarrow> ws_len (c # s) = 0"
  using hexdigit_bytes [of c] by (auto split: list.splits)

lemma skip_newline: "skip_ws [newline] = []"
  by (subst skip_ws.simps) (simp add: skip_ws.simps [of "[]"] newline_def byte_def)

lemma trim_end_hex: "\<forall>c \<in> set h. is_hexdigit c \<Longrightarrow> trim_end (h @ [newline]) = h"
proof (induction h)
  case Nil
  show ?case by (simp add: is_blank_def skip_newline)
next
  case (Cons c h)
  then have "skip_ws (c # h @ [newline]) = c # h @ [newline]"
    using ws_len_hexdigit [of c "h @ [newline]"] by (subst skip_ws.simps) simp
  with Cons show ?case by (simp add: is_blank_def)
qed

lemma trim_hex:
  assumes "\<forall>c \<in> set h. is_hexdigit c"
  shows "trim (h @ [newline]) = h"
proof (cases h)
  case Nil
  then show ?thesis by (simp add: trim_def skip_newline)
next
  case (Cons c r)
  with assms have "skip_ws (h @ [newline]) = h @ [newline]"
    using ws_len_hexdigit [of c "r @ [newline]"] by (subst skip_ws.simps) simp
  with trim_end_hex [OF assms] show ?thesis by (simp add: trim_def)
qed

section \<open>Recording and signing\<close>

lemma frame_closing: "frame_ok {[''index.json''], [''BUNDLE.sig'']}"
  by (simp add: frame_ok_def fixed_roots_def)

lemma agree_with_file:
  assumes "portable_tree t" "portable_tree (with_file [n] c t)" "n \<noteq> ''compliance''"
  shows "agree {[n]} t (with_file [n] c t)"
proof -
  have "\<not> tree_dir t [n]" using portable_tree_dir [OF assms(2)] by (simp add: tree_dir_with_root)
  then show ?thesis using assms(3) unfolding with_file_def by (rule agree_insert)
qed

text \<open>Two sealed trees that differ in the metadata layer, under indices that differ in the
  completeness states, have the same verdict.\<close>

lemma residual_agree:
  assumes a: "agree K t t'" and K: "frame_ok K"
    and outs: "\<And>n. n \<in> set (ix_trace_outputs index) \<Longrightarrow> path_components n \<notin> K"
    and files: "content_files t' = content_files t"
  shows "residual_checks X C t' (index\<lparr>ix_completeness := s\<rparr>) = residual_checks X C t index"
proof -
  have u: "check_trace_outputs_hashed (index\<lparr>ix_completeness := s\<rparr>) l = check_trace_outputs_hashed index l"
    "check_test_summary C t (index\<lparr>ix_completeness := s\<rparr>) = check_test_summary C t index"
    "check_dal_map C t (index\<lparr>ix_completeness := s\<rparr>) = check_dal_map C t index"
    "check_boundary_recheck C t (index\<lparr>ix_completeness := s\<rparr>) = check_boundary_recheck C t index" for l
    unfolding check_trace_outputs_hashed_def check_test_summary_def check_dal_map_def
      check_boundary_recheck_def completeness_fields by (rule refl)+
  have "early_checks X C t' (index\<lparr>ix_completeness := s\<rparr>) = early_checks X C t (index\<lparr>ix_completeness := s\<rparr>)"
    by (rule early_checks_agree [OF a K]) (use outs in simp)
  then show ?thesis
    unfolding residual_checks_def late_checks_agree [OF a K] files u completeness_unread(1) by simp
qed

lemma sealed_recorded:
  assumes s: "sealed X C t index" and C: "codec_ok C" and wf: "index_wf index"
    and e: "encode_index C (index\<lparr>ix_completeness := st\<rparr>) = Ok raw"
    and t: "portable_tree (with_file [''index.json''] raw t)"
  shows "sealed X C (with_file [''index.json''] raw t) (index\<lparr>ix_completeness := st\<rparr>)"
proof -
  let ?t = "with_file [''index.json''] raw t" let ?i = "index\<lparr>ix_completeness := st\<rparr>"
  have t0: "portable_tree t" using s by (simp add: sealed_def)
  have a: "agree {[''index.json'']} t ?t" by (rule agree_with_file [OF t0 t]) simp
  have K: "frame_ok {[''index.json'']}" by (simp add: frame_ok_def fixed_roots_def)
  have "index_wf ?i" using wf by (simp add: index_wf_def)
  then have raw: "is_utf8 raw" "decode_index C raw = Ok ?i" using codec_okD(1,2) [OF C _ e] by auto
  have "check_recipe_manifest X C ?t ?i = Ok []"
    using s unfolding recipe_agree [OF a K] completeness_unread(3) by (simp add: sealed_def)
  moreover have "path_exists ?t f" if "f \<in> set required_files" for f
  proof (cases "f = ''index.json''")
    case True
    then show ?thesis using root_reads(1) [OF portable_names(7), of ?t raw] by simp
  next
    case False
    then have "path_components f \<notin> {[''index.json'']}"
      using that by (auto simp: required_files_def components_root)
    then show ?thesis using agree_reads(1) [OF a] s that by (simp add: sealed_def)
  qed
  ultimately show ?thesis using s raw t
    by (simp add: sealed_def sums_metadata metadata_layer_def)
qed

lemma sealed_signed:
  assumes s: "sealed X C t index" and t: "portable_tree (with_file [''BUNDLE.sig''] c t)"
  shows "sealed X C (with_file [''BUNDLE.sig''] c t) index"
proof -
  let ?t = "with_file [''BUNDLE.sig''] c t"
  have t0: "portable_tree t" using s by (simp add: sealed_def)
  have a: "agree {[''BUNDLE.sig'']} t ?t" by (rule agree_with_file [OF t0 t]) simp
  have K: "frame_ok {[''BUNDLE.sig'']}" by (simp add: frame_ok_def fixed_roots_def)
  have "check_recipe_manifest X C ?t index = Ok []"
    using s unfolding recipe_agree [OF a K] by (simp add: sealed_def)
  moreover have "path_exists ?t f" if "f \<in> set required_files" for f
  proof -
    have "path_components f \<notin> {[''BUNDLE.sig'']}"
      using that by (auto simp: required_files_def components_root)
    then show ?thesis using agree_reads(1) [OF a] s that by (simp add: sealed_def)
  qed
  ultimately show ?thesis using s t by (simp add: sealed_def sums_metadata metadata_layer_def)
qed

text \<open>The steps of closing, read off a successful run.\<close>

lemma record_step:
  assumes C: "codec_ok C" and s: "sealed X C t index"
    and r: "record_verification_state C st t = Ok t'"
  shows "\<exists>raw. encode_index C (index\<lparr>ix_completeness := (ix_completeness index)\<lparr>cq_verification := st\<rparr>\<rparr>)
      = Ok raw \<and> t' = with_file [''index.json''] raw t \<and> portable_tree t'"
proof -
  from s obtain raw where raw: "bget (bt_files t) [''index.json''] = Some raw" "is_utf8 raw"
    "decode_index C raw = Ok index" and t: "portable_tree t" by (auto simp: sealed_def)
  from r raw root_reads(2) [OF portable_names(7) raw(1)] obtain new where
    new: "encode_index C (index\<lparr>ix_completeness := (ix_completeness index)\<lparr>cq_verification := st\<rparr>\<rparr>) = Ok new"
      "write_bytes t ''index.json'' new = Ok t'"
    by (auto simp: record_verification_state_def rbind_Ok_iff map_err_Ok_iff)
  with write_root [OF portable_names(7) t new(2)] show ?thesis by auto
qed

lemma sign_step:
  assumes h: "hex_ok C" and s: "sealed X C t index" and r: "sign_bundle C sign t = Ok t'"
    and l: "\<And>m. length (sign m) = 64" and k: "\<And>m. key m (sign m)"
  shows "\<exists>c. t' = with_file [''BUNDLE.sig''] c t \<and> portable_tree t' \<and>
    check_signature C t' (Some key) = Ok []"
proof -
  from s obtain raw where raw: "bget (bt_files t) [''index.json''] = Some raw" and t: "portable_tree t"
    and sums: "bget (bt_files t) [''SHA256SUMS''] = Some (sha256sums_content X t)" by (auto simp: sealed_def)
  let ?m = "envelope_bytes (sha256sums_content X t) raw" let ?h = "encode_hex C (sign ?m)"
  let ?t = "with_file [''BUNDLE.sig''] (?h @ [newline]) t"
  from r root_reads(2) [OF portable_names(7) raw] root_reads(2) [OF portable_names(6) sums]
  have w: "write_bytes t ''BUNDLE.sig'' (?h @ [newline]) = Ok t'"
    by (auto simp: sign_bundle_def read_envelope_input_def rbind_Ok_iff map_err_Ok_iff)
  note t' = write_root [OF portable_names(9) t w]
  have hex: "\<forall>c \<in> set ?h. is_hexdigit c" "decode_hex C ?h = Ok (sign ?m)"
    using h by (auto simp: hex_ok_def)
  then have u: "is_utf8 (?h @ [newline])"
    using hexdigit_bytes by (intro is_utf8_ascii) (auto simp: newline_def byte_def)
  have sig: "bget (bt_files ?t) [''BUNDLE.sig''] = Some (?h @ [newline])" by simp
  have "verify_bundle_signature C key ?t = Ok True"
    using root_reads(2) [OF portable_names(7), of ?t raw] root_reads(2) [OF portable_names(6), of ?t] raw sums
      root_reads(4) [OF portable_names(9) sig u] trim_hex [OF hex(1)] hex(2) l k
    by (simp add: verify_bundle_signature_def read_envelope_input_def)
  then have "check_signature C ?t (Some key) = Ok []"
    using root_reads(1) [OF portable_names(9) sig] by (simp add: check_signature_def push_if_def)
  with t' show ?thesis by auto
qed

theorem closing_core:
  assumes X: "sha_hex X" and C: "codec_ok C" and h: "hex_ok C"
    and s: "sealed X C t index" "index_wf index"
    and outs: "\<And>n. n \<in> set (ix_trace_outputs index) \<Longrightarrow>
      path_components n \<notin> {[''index.json''], [''BUNDLE.sig'']}"
    and st: "st = observed_state (verify_bundle X C path (Some t))"
    and r: "record_verification_state C st t = Ok u" and w: "sign_bundle C sign u = Ok t'"
    and l: "\<And>m. length (sign m) = 64" and k: "\<And>m. key m (sign m)"
  shows "verify_bundle_with_key X C path (Some t') (Some key) = verify_bundle X C path (Some t)
    \<and> sealed X C t' (index\<lparr>ix_completeness := (ix_completeness index)\<lparr>cq_verification := st\<rparr>\<rparr>)"
proof -
  let ?i = "index\<lparr>ix_completeness := (ix_completeness index)\<lparr>cq_verification := st\<rparr>\<rparr>"
  from record_step [OF C s(1) r] obtain raw where raw: "encode_index C ?i = Ok raw"
    "u = with_file [''index.json''] raw t" "portable_tree u" by blast
  have su: "sealed X C u ?i" using sealed_recorded [OF s(1) C s(2) raw(1)] raw(2,3) by simp
  from sign_step [of C X u _ sign t' key, OF h su w l k] obtain c where c: "t' = with_file [''BUNDLE.sig''] c u"
    "portable_tree t'" "check_signature C t' (Some key) = Ok []" by blast
  have st': "sealed X C t' ?i" using sealed_signed [OF su] c(1,2) by simp
  have "agree ({[''index.json'']} \<union> {[''BUNDLE.sig'']}) t t'"
  proof (rule agree_trans)
    have "portable_tree t" using s(1) by (simp add: sealed_def)
    then show "agree {[''index.json'']} t u"
      using agree_with_file [of t "''index.json''" raw] raw(2,3) by simp
    show "agree {[''BUNDLE.sig'']} u t'"
      using agree_with_file [of u "''BUNDLE.sig''" c] raw(3) c(1,2) by simp
  qed
  then have a: "agree {[''index.json''], [''BUNDLE.sig'']} t t'" by (simp add: insert_commute)
  have "residual_checks X C t' ?i = residual_checks X C t index"
    by (rule residual_agree [OF a frame_closing outs])
      (simp_all add: c(1) raw(2) content_files_metadata metadata_layer_def)
  then show ?thesis
    using st' sealed_verdict [OF X st', of path "Some key"] sealed_verdict [OF X s(1), of path None] c(3)
    by (simp add: verify_bundle_def check_signature_def)
qed

end
