(* ===== verification/Bundle_Listing.thy ===== *)
theory Bundle_Listing
  imports Bundle_Closing
begin

text \<open>
  What a verdict of the verifier is worth: the facts behind a pass, the files a listing fixes, and
  the files it overlooks.
\<close>

section \<open>A pass\<close>

definition passes :: "platform \<Rightarrow> codec \<Rightarrow> bundle_tree \<Rightarrow> verifying_key option \<Rightarrow> bool" where
  "passes X C t key \<longleftrightarrow> (\<exists>raw index listed sums. missing_required t = []
    \<and> read_to_string t ''index.json'' = Ok raw \<and> decode_index C raw = Ok index
    \<and> read_to_string t ''SHA256SUMS'' = Ok sums
    \<and> hash_sha256sums_entries X t sums = Ok (listed, [])
    \<and> content_checks X t index = Ok (listed, [])
    \<and> check_recipe_manifest X C t index = Ok [] \<and> check_signature C t key = Ok []
    \<and> early_checks X C t index = [] \<and> late_checks C t index listed = [])"

lemma passes_iff:
  "verify_bundle_with_key X C path (Some t) key = Ok Pass \<longleftrightarrow> passes X C t key" (is "?L \<longleftrightarrow> ?R")
proof
  assume ?L
  then obtain raw index listed errs rs ss where m: "missing_required t = []"
    and i: "read_to_string t ''index.json'' = Ok raw" "decode_index C raw = Ok index"
    and c: "content_checks X t index = Ok (listed, errs)"
    and r: "check_recipe_manifest X C t index = Ok rs" and s: "check_signature C t key = Ok ss"
    and e: "early_checks X C t index @ errs @ rs @ late_checks C t index listed @ ss = []"
    by (auto simp: verify_bundle_with_key_def rbind_Ok_iff map_err_Ok_iff Let_def split: if_splits)
  from e c have c': "content_checks X t index = Ok (listed, [])" by simp
  then obtain sums where "read_to_string t ''SHA256SUMS'' = Ok sums"
    "hash_sha256sums_entries X t sums = Ok (listed, [])"
    by (auto simp: content_checks_def rbind_Ok_iff map_err_Ok_iff)
  with m i c' r s e show ?R unfolding passes_def by auto
next
  assume ?R
  then show ?L by (auto simp: passes_def verify_bundle_with_key_def)
qed

section \<open>What a listing fixes\<close>

lemma push_if_Nil: "push_if b e = [] \<longleftrightarrow> \<not> b"
  by (simp add: push_if_def)

lemma listed_names:
  assumes "hash_sha256sums_entries X t sums = Ok (listed, [])"
  shows "listed = map snd (listed_entries (str_lines sums))"
    and "(h, n) \<in> set (listed_entries (str_lines sums)) \<Longrightarrow>
      \<exists>c. bget (bt_files t) (path_components n) = Some c \<and> sha256 X c = h"
  using fold_hash_silent [OF assms [unfolded hash_sha256sums_entries_def]] safe_locate_file
  by fastforce+

lemma unexpected_listed:
  assumes "unexpected_files t listed = []" "portable_tree t" "bget (bt_files t) p = Some c"
    "p \<notin> set metadata_layer"
  shows "relative_name p \<in> set listed"
proof -
  have p: "(p, c) \<in> set (bt_files t)" using assms(3) by (rule bget_Some_in)
  note P = portable_tree_path [OF assms(2) p]
  have "relative_name p \<notin> set known_meta_files"
  proof
    assume "relative_name p \<in> set known_meta_files"
    then have "p \<in> set metadata_layer"
      using P relative_name_inj [OF P portable_root [OF portable_names(6)]]
        relative_name_inj [OF P portable_root [OF portable_names(7)]]
        relative_name_inj [OF P portable_root [OF portable_names(9)]]
        relative_name_root [OF portable_names(6)] relative_name_root [OF portable_names(7)]
        relative_name_root [OF portable_names(9)]
      by (auto simp: known_meta_files_def metadata_layer_def)
    with assms(4) show False ..
  qed
  moreover have "p \<in> set (bkeys (bt_files t))" using p by (force simp: set_bkeys)
  ultimately show ?thesis using assms(1) by (auto simp: unexpected_files_def push_if_Nil)
qed

lemma listing_covers:
  assumes h: "hash_sha256sums_entries X t sums = Ok (listed, [])" and u: "unexpected_files t listed = []"
    and t: "portable_tree t" and p: "bget (bt_files t) p = Some c" "p \<notin> set metadata_layer"
  shows "(sha256 X c, relative_name p) \<in> set (listed_entries (str_lines sums)) \<and> portable_path p"
proof -
  have P: "portable_path p" using portable_tree_path [OF t bget_Some_in [OF p(1)]] .
  from unexpected_listed [OF u t p] obtain d where d: "(d, relative_name p) \<in> set (listed_entries (str_lines sums))"
    unfolding listed_names(1) [OF h] by auto
  with listed_names(2) [OF h d] p(1) P show ?thesis by (auto simp: portable_components)
qed

text \<open>Two trees with one listing hold the same content files, or a collision.\<close>

lemma same_listing_same_content:
  assumes h: "hash_sha256sums_entries X t sums = Ok (l, [])" "hash_sha256sums_entries X u sums = Ok (m, [])"
    and un: "unexpected_files t l = []" and t: "portable_tree t"
    and p: "bget (bt_files t) p = Some c" "p \<notin> set metadata_layer"
  shows "\<exists>d. bget (bt_files u) p = Some d \<and> sha256 X d = sha256 X c"
  using listed_names(2) [OF h(2) conjunct1 [OF listing_covers [OF h(1) un t p]]]
    listing_covers [OF h(1) un t p] by (auto simp: portable_components)

lemma pass_listing:
  assumes "verify_bundle_with_key X C path (Some t) key = Ok Pass"
    and "bget (bt_files t) [''SHA256SUMS''] = Some s"
  shows "\<exists>l. hash_sha256sums_entries X t s = Ok (l, []) \<and> unexpected_files t l = []"
proof -
  from assms(1) obtain sums l index where l: "read_to_string t ''SHA256SUMS'' = Ok sums"
    "hash_sha256sums_entries X t sums = Ok (l, [])" "late_checks C t index l = []"
    unfolding passes_iff by (auto simp: passes_def)
  have "sums = s" using l(1) root_reads(2) [OF portable_names(6) assms(2)]
    by (simp add: read_to_string_def split: if_splits)
  with l show ?thesis by (auto simp: late_checks_def)
qed

lemma same_content:
  assumes l: "hash_sha256sums_entries X t s = Ok (l, [])" "unexpected_files t l = []"
    and m: "hash_sha256sums_entries X u s = Ok (m, [])" "unexpected_files u m = []"
    and t: "portable_tree t" "portable_tree u" and p: "p \<notin> set metadata_layer"
    and free: "\<not> (\<exists>a b. collision X a b)"
  shows "bget (bt_files t) p = bget (bt_files u) p"
proof -
  have same: "bget (bt_files u) p = Some c" if "bget (bt_files t) p = Some c" for c
    using same_listing_same_content [OF l(1) m(1) l(2) t(1) that p] free by (metis collision_def)
  have "bget (bt_files t) p = Some c" if "bget (bt_files u) p = Some c" for c
    using same_listing_same_content [OF m(1) l(1) m(2) t(2) that p] free by (metis collision_def)
  with same show ?thesis by (cases "bget (bt_files t) p"; cases "bget (bt_files u) p") auto
qed

lemma envelope_inj:
  assumes e: "envelope_bytes s i = envelope_bytes s' i'"
    and l: "length s < 2 ^ 64" "length s' < 2 ^ 64"
  shows "s = s' \<and> i = i'"
proof -
  have len: "length (be_bytes 8 (length s)) = length (be_bytes 8 (length s'))" by simp
  with e have "be_bytes 8 (length s) = be_bytes 8 (length s')"
    and rest: "s @ be_bytes 8 (length i) @ i = s' @ be_bytes 8 (length i') @ i'"
    by (simp_all add: envelope_bytes_def append_eq_append_conv)
  then have "length s = length s'" using l by (intro be_bytes_inj [of _ 8]) simp_all
  with rest have s: "s = s'" "be_bytes 8 (length i) @ i = be_bytes 8 (length i') @ i'" by auto
  then show ?thesis by (simp add: append_eq_append_conv)
qed

section \<open>What a listing overlooks\<close>

lemma component_chars: "p \<in> set (split_on d s) \<Longrightarrow> set p \<subseteq> set s"
  by (induction s arbitrary: p) (fastforce split: if_splits list.splits)+

lemma backslash_component:
  assumes "backslash \<in> set n" "backslash \<notin> set rel"
  shows "path_components rel \<noteq> [n]"
proof
  assume "path_components rel = [n]"
  then have "n \<in> set (filter (\<lambda>p. p \<noteq> [] \<and> p \<noteq> ''.'') (split_on slash rel))"
    by (simp add: path_components_def)
  then have "n \<in> set (split_on slash rel)" by simp
  with component_chars assms show False by blast
qed

lemma frame_backslash: "backslash \<in> set n \<Longrightarrow> frame_ok {[n]}"
  by (auto simp: frame_ok_def fixed_roots_def backslash_def)

lemma signature_agree:
  assumes a: "agree K t t'" and K: "frame_ok K" "[''index.json''] \<notin> K" "[''BUNDLE.sig''] \<notin> K"
  shows "check_signature C t' key = check_signature C t key"
proof -
  have r: "path_components ''index.json'' \<notin> K" "path_components ''BUNDLE.sig'' \<notin> K"
    using K by (simp_all add: components_root)
  have "verify_bundle_signature C k t' = verify_bundle_signature C k t" for k
    unfolding verify_bundle_signature_def read_envelope_input_def agree_reads [OF a r(1)]
      agree_reads [OF a r(2)] agree_reads [OF a fixed_components(6) [OF K(1)]] ..
  then show ?thesis by (cases key) (simp_all add: check_signature_def agree_reads [OF a r(2)])
qed

lemma backslash_unseen:
  assumes p: "passes X C t key" and n: "backslash \<in> set n" and dir: "\<not> tree_dir t [n]"
    and sums: "read_to_string t ''SHA256SUMS'' = Ok sums"
    and names: "\<And>m. m \<in> set (map snd (listed_entries (str_lines sums))) \<Longrightarrow> backslash \<notin> set m"
    and twin: "normalize_bundle_path n \<in> set (map snd (listed_entries (str_lines sums)))"
  shows "passes X C (with_file [n] c t) key"
proof -
  let ?t = "with_file [n] c t"
  have "n \<noteq> ''compliance''" using n by (auto simp: backslash_def)
  with dir have a: "agree {[n]} t ?t" unfolding with_file_def by (rule agree_insert)
  have K: "frame_ok {[n]}" using n by (rule frame_backslash)
  have free: "path_components m \<notin> {[n]}" if "backslash \<notin> set m" for m
    using backslash_component [OF n that] by simp
  from p obtain raw index listed where q: "missing_required t = []"
    "read_to_string t ''index.json'' = Ok raw" "decode_index C raw = Ok index"
    "hash_sha256sums_entries X t sums = Ok (listed, [])" "content_checks X t index = Ok (listed, [])"
    "check_recipe_manifest X C t index = Ok []" "check_signature C t key = Ok []"
    "early_checks X C t index = []" "late_checks C t index listed = []"
    using sums by (auto simp: passes_def)
  note listed = listed_names(1) [OF q(4)]
  have outs: "path_components m \<notin> {[n]}" if "m \<in> set (ix_trace_outputs index)" for m
  proof -
    have "check_trace_outputs_hashed index listed = []" using q(9) by (simp add: late_checks_def)
    with that have "m \<in> set listed"
      by (simp add: check_trace_outputs_hashed_def push_if_Nil)
    then show ?thesis using names free unfolding listed by blast
  qed
  have root: "path_components m \<notin> {[n]}" if "m \<in> {''index.json'', ''SHA256SUMS'', ''BUNDLE.sig''} \<union> set required_files" for m
    using that by (intro free) (auto simp: required_files_def backslash_def)
  have "missing_required ?t = []"
    using q(1) agree_reads(1) [OF a root] by (simp add: missing_required_def filter_empty_conv)
  moreover have "read_to_string ?t ''index.json'' = Ok raw" "read_to_string ?t ''SHA256SUMS'' = Ok sums"
    using q(2) sums agree_reads(5) [OF a root] by simp_all
  moreover have "content_checks X ?t index = Ok (listed, [])"
  proof -
    have "path_components m \<notin> {[n]}" if "(h, m) \<in> set (listed_entries (str_lines sums))" for h m
      using that by (intro free names) force
    then show ?thesis using q(5) content_agree [OF a K sums] by simp
  qed
  moreover have "check_recipe_manifest X C ?t index = Ok []" using q(6) recipe_agree [OF a K] by simp
  moreover have "check_signature C ?t key = Ok []"
  proof -
    have "n \<noteq> ''index.json''" "n \<noteq> ''BUNDLE.sig''" using n by (auto simp: backslash_def)
    then show ?thesis using q(7) signature_agree [OF a K] by simp
  qed
  moreover have "early_checks X C ?t index = []" using q(8) early_checks_agree [OF a K outs] by simp
  moreover have "late_checks C ?t index listed = []"
  proof -
    have "relative_name [n] \<in> set listed" using twin unfolding listed by (simp add: relative_name_def)
    then have "unexpected_files ?t listed = []"
      using q(9) by (simp add: late_checks_def unexpected_files_def push_if_Nil)
    then show ?thesis using q(9) late_checks_agree [OF a K] by (simp add: late_checks_def)
  qed
  moreover have "hash_sha256sums_entries X ?t sums = Ok (listed, [])"
    using calculation by (auto simp: content_checks_def rbind_Ok_iff map_err_Ok_iff)
  ultimately show ?thesis using q(3) unfolding passes_def by blast
qed

end
