(* ===== verification/Demo_Bundle.thy ===== *)
theory Demo_Bundle
  imports Bundle_Listing Demo_Data
begin

text \<open>
  A small bundle for the witnesses: a development-profile builder that holds one trace output, a
  codec that knows exactly the values of that run, and a platform whose digests are 64 digits.
\<close>

definition demo_digests :: platform where
  "demo_digests = demo_platform\<lparr>sha256 := (\<lambda>b. replicate 64 (char_of (48 + length b mod 10)))\<rparr>"

definition demo_config :: build_config where
  "demo_config = \<lparr>bc_output_root = ''out'', bc_profile = DevProfile, bc_in_scope_crates = [],
     bc_trace_roots = [''cert/trace''], bc_require_clean_git = False, bc_fail_on_dirty = False,
     bc_dal_map = [], bc_boundary_policy = \<lparr>bp_no_out_of_scope_deps = False, bp_forbid_build_rs = False,
       bp_forbid_proc_macros = False\<rparr>, bc_resolution_policy = LockedOffline, bc_skip_tests = True\<rparr>"

definition demo_tree :: bundle_tree where
  "demo_tree = \<lparr>bt_files = [([''commands.json''], ''[]''), ([''env.json''], ''env''),
       ([''inputs_hashes.json''], ''{}''), ([''outputs_hashes.json''], ''{}''),
       ([''trace'', ''matrix.md''], ''matrix'')],
     bt_dirs = [[''tests''], [''trace'']], bt_outside = (\<lambda>_. None)\<rparr>"

definition demo_builder :: evidence_builder where
  "demo_builder = \<lparr>eb_config = demo_config,
     eb_git_snapshot = \<lparr>gs_sha = ''abc'', gs_branch = ''main'', gs_dirty = False\<rparr>,
     eb_bundle = demo_tree, eb_commands = [], eb_inputs = [], eb_outputs = [], eb_test_summary = None,
     eb_test_outcomes = [], eb_tool_command_failures = [], eb_trace_evidence_state = None,
     eb_signature_planned = True\<rparr>"

definition demo_host :: host where
  "demo_host = \<lparr>ho_crate_version = ''1.0.0'', ho_engine_git_sha = ''abc'', ho_engine_build_source = ''unknown'',
     ho_now_rfc3339 = ''now'', ho_current_sha = Inr ''abc'',
     ho_cargo_metadata = (\<lambda>_. Inl (BE_CargoMetadataRun ''not run''))\<rparr>"

definition demo_manifest_tree :: bundle_tree where
  "demo_manifest_tree = with_file [''deterministic-manifest.json''] ''manifest'' demo_tree"

definition demo_sums :: string where
  "demo_sums = sha256sums_content demo_digests demo_manifest_tree"

definition demo_outs :: "string list list" where
  "demo_outs = [[''trace'', ''matrix.md'']]"

definition demo_index :: "completeness_state \<Rightarrow> evidence_index" where
  "demo_index st = (let i = build_index demo_host demo_builder demo_outs (sha256 demo_digests demo_sums)
       (sha256 demo_digests ''manifest'')
     in i\<lparr>ix_completeness := (ix_completeness i)\<lparr>cq_verification := st\<rparr>\<rparr>)"

definition demo_env :: env_fingerprint where
  "demo_env = \<lparr>ev_profile = DevProfile, ev_rustc = ''rustc'', ev_cargo = ''cargo'', ev_git_sha = ''abc'',
     ev_git_branch = ''main'', ev_git_dirty = False, ev_llvm_version = None, ev_cargo_lock_hash = None,
     ev_rust_toolchain_toml = None, ev_rustflags = None, ev_target_triple = ''x86'',
     ev_tool_prerelease = False\<rparr>"

fun demo_tag :: "completeness_state \<Rightarrow> string" where
  "demo_tag Complete = ''complete''"
| "demo_tag Incomplete = ''incomplete''"
| "demo_tag NotApplicable = ''not applicable''"
| "demo_tag Unverifiable = ''unverifiable''"

definition demo_decode_index :: "string \<Rightarrow> string + evidence_index" where
  "demo_decode_index s = (case find (\<lambda>st. demo_tag st = s) [Complete, Incomplete, NotApplicable, Unverifiable] of
     Some st \<Rightarrow> Inr (demo_index st) | None \<Rightarrow> Inl ''unknown index'')"

definition demo_encode_index :: "evidence_index \<Rightarrow> string + bytes" where
  "demo_encode_index i = (let st = cq_verification (ix_completeness i) in
     if i = demo_index st then Inr (demo_tag st) else Inl ''unknown index'')"

definition demo_only :: "'a \<Rightarrow> string \<Rightarrow> string \<Rightarrow> string + 'a" where
  "demo_only v s t = (if t = s then Inr v else Inl ''unknown text'')"

definition demo_write :: "'a \<Rightarrow> string \<Rightarrow> 'a \<Rightarrow> string + string" where
  "demo_write v s w = (if w = v then Inr s else Inl ''unknown value'')"

definition demo_nibble :: "nat \<Rightarrow> char" where
  "demo_nibble n = char_of (if n < 10 then 48 + n else 87 + n)"

definition demo_value :: "char \<Rightarrow> nat" where
  "demo_value c = (if byte c < 58 then byte c - 48 else byte c - 87)"

definition demo_hex :: "bytes \<Rightarrow> string" where
  "demo_hex b = concat (map (\<lambda>c. [demo_nibble (byte c div 16), demo_nibble (byte c mod 16)]) b)"

fun demo_unhex :: "string \<Rightarrow> string + bytes" where
  "demo_unhex [] = Inr []"
| "demo_unhex [c] = Inl ''odd length''"
| "demo_unhex (a # b # s) = rbind (demo_unhex s) (\<lambda>t. Inr (char_of (16 * demo_value a + demo_value b) # t))"

definition demo_codec :: codec where
  "demo_codec = \<lparr>decode_index = demo_decode_index, decode_value = (\<lambda>_. None),
     decode_string_map = demo_only [] ''{}'', decode_env = demo_only demo_env ''env'',
     decode_commands = demo_only [] ''[]'', decode_projection = (\<lambda>_. Inl ''unknown text''),
     decode_report_dal = (\<lambda>_. Inl ''unknown text''), decode_hlrs = (\<lambda>_. None),
     decode_llrs = (\<lambda>_. None), decode_tests = (\<lambda>_. None), decode_derived = (\<lambda>_. None),
     encode_string_map = demo_write [] ''{}'', encode_commands = demo_write [] ''[]'',
     encode_dependencies = (\<lambda>_. Inl ''unknown value''), encode_manifest = (\<lambda>_. Inr ''manifest''),
     encode_projection = (\<lambda>_. Inl ''unknown value''), encode_outcome = (\<lambda>_. Inl ''unknown value''),
     from_utf8_lossy = (\<lambda>b. b), encode_index = demo_encode_index, decode_hex = demo_unhex,
     encode_hex = demo_hex, show_projection_error = (\<lambda>_. ''projection''),
     show_io_error = (\<lambda>_. ''io'')\<rparr>"

definition demo_sign :: "bytes \<Rightarrow> bytes" where
  "demo_sign m = replicate 64 (CHR ''s'')"

definition demo_key :: verifying_key where
  "demo_key m s \<longleftrightarrow> s = demo_sign m"

definition demo_sealed :: "completeness_state \<Rightarrow> bundle_tree" where
  "demo_sealed st = with_file [''index.json''] (demo_tag st)
     (with_file [''SHA256SUMS''] demo_sums demo_manifest_tree)"

definition demo_signed :: bundle_tree where
  "demo_signed = with_file [''BUNDLE.sig''] (demo_hex (demo_sign []) @ [newline]) (demo_sealed Complete)"

section \<open>The laws hold\<close>

lemma demo_sha_hex: "sha_hex demo_digests"
proof -
  have "is_lower_hex (char_of (48 + n mod 10))" for n :: nat
    by (auto simp: is_lower_hex_def is_ascii_digit_def byte_def)
  then show ?thesis by (simp add: sha_hex_def is_valid_digest_hex_def demo_digests_def)
qed

lemma demo_nibble: "n < 16 \<Longrightarrow> demo_value (demo_nibble n) = n" "n < 16 \<Longrightarrow> is_hexdigit (demo_nibble n)"
  by (auto simp: demo_value_def demo_nibble_def byte_def is_hexdigit_def is_lower_hex_def is_ascii_digit_def)

lemma demo_unhex_hex: "demo_unhex (demo_hex b) = Inr b"
proof (induction b)
  case (Cons c b)
  have "byte c < 256" by (simp add: byte_def)
  with Cons show ?case by (simp add: demo_hex_def demo_nibble byte_def less_mult_imp_div_less)
qed (simp add: demo_hex_def)

lemma demo_hex_ok: "hex_ok demo_codec"
proof -
  have "byte c div 16 < 16" for c by (simp add: byte_def less_mult_imp_div_less)
  then have "\<forall>d \<in> set (demo_hex s). is_hexdigit d" for s by (auto simp: demo_hex_def demo_nibble)
  then show ?thesis by (simp add: hex_ok_def demo_codec_def demo_unhex_hex)
qed

lemma demo_tag_inj: "demo_tag s = demo_tag t \<longleftrightarrow> s = t"
  by (cases s; cases t) simp_all

lemma demo_decode_tag: "demo_decode_index (demo_tag st) = Inr (demo_index st)"
  by (cases st) (simp_all add: demo_decode_index_def)

lemma demo_tag_utf8: "is_utf8 (demo_tag st)"
  by (cases st) (simp_all add: byte_def)

lemma demo_codec_ok: "codec_ok demo_codec"
proof -
  have "is_utf8 b \<and> decode_index demo_codec b = Inr i" if "encode_index demo_codec i = Inr b" for i b
    using that by (auto simp: demo_codec_def demo_encode_index_def Let_def demo_decode_tag demo_tag_utf8
        split: if_splits)
  then show ?thesis
    by (auto simp: codec_ok_def demo_codec_def demo_only_def demo_write_def split: if_splits)
qed

lemma demo_staged: "staged demo_codec demo_builder"
proof -
  have "portable_tree demo_tree"
    by (auto simp: portable_tree_def tree_ok_def demo_tree_def bwf_def bkeys_def tree_dir_def portable_path_def
        portable_def component_ok_def slash_def backslash_def newline_def byte_def take_Suc_conv_app_nth)
  then show ?thesis
    by (simp add: staged_def demo_builder_def demo_config_def on_disk_def demo_codec_def demo_write_def demo_tree_def)
qed

section \<open>The run\<close>

lemma demo_no_metadata: "\<not> path_exists demo_tree ''cargo_metadata.json''"
  by (simp add: path_exists_def locate_root demo_tree_def tree_dir_def bkeys_def)

lemma portable_with_root:
  assumes "portable n" "portable_tree t" "\<not> tree_dir t [n]"
  shows "portable_tree (with_file [n] c t)"
  using assms portable_root [OF assms(1)]
  by (simp add: portable_tree_def tree_ok_def tree_dir_with_root portable_def)

lemma demo_dirs:
  assumes "portable n" "n \<notin> {''tests'', ''trace''}"
  shows "\<not> tree_dir demo_tree [n]" "\<not> tree_dir demo_manifest_tree [n]" "\<not> tree_dir (demo_sealed st) [n]"
proof -
  show t: "\<not> tree_dir demo_tree [n]"
    using assms by (auto simp: tree_dir_def demo_tree_def bkeys_def take_Cons split: nat.splits)
  then show "\<not> tree_dir demo_manifest_tree [n]" "\<not> tree_dir (demo_sealed st) [n]"
    by (simp_all add: demo_manifest_tree_def demo_sealed_def tree_dir_with_root)
qed

lemma demo_portable: "portable_tree demo_tree" "portable_tree demo_manifest_tree"
  "portable_tree (demo_sealed st)" "portable_tree demo_signed"
proof -
  show t: "portable_tree demo_tree" using demo_staged by (simp add: staged_def demo_builder_def)
  show m: "portable_tree demo_manifest_tree" unfolding demo_manifest_tree_def
    by (rule portable_with_root [OF _ t]) (simp_all add: demo_dirs)
  show "portable_tree (demo_sealed st)" for st unfolding demo_sealed_def
    by (intro portable_with_root m) (simp_all add: demo_dirs tree_dir_with_root)
  then show "portable_tree demo_signed" unfolding demo_signed_def
    by (intro portable_with_root) (simp_all add: demo_dirs)
qed

lemma demo_index_tag: "encode_index demo_codec (demo_index st) = Inr (demo_tag st)"
proof -
  have "cq_verification (ix_completeness (demo_index st)) = st" by (simp add: demo_index_def Let_def)
  then show ?thesis by (simp add: demo_codec_def demo_encode_index_def Let_def)
qed

lemma demo_built: "build_index demo_host (demo_builder\<lparr>eb_bundle := t\<rparr>) demo_outs
    (sha256 demo_digests demo_sums) (sha256 demo_digests ''manifest'') = demo_index Unverifiable"
  by (simp add: demo_index_def build_index_def Let_def derive_completeness_states_def
      compliance_reports_on_disk_def demo_builder_def demo_config_def derive_completeness_def bkeys_def)

lemma demo_reads:
  "read_bytes demo_tree ''env.json'' = Inr ''env''"
  "sha256_file X (with_file [''SHA256SUMS''] s demo_manifest_tree) ''SHA256SUMS'' = Inr (sha256 X s)"
  "sha256_file X (with_file [''SHA256SUMS''] s demo_manifest_tree) ''deterministic-manifest.json''
    = Inr (sha256 X ''manifest'')"
  using root_reads(2) [OF portable_names(4), of demo_tree] root_reads(3) [OF portable_names(6)]
    root_reads(3) [OF portable_names(5)]
  by (simp_all add: demo_tree_def demo_manifest_tree_def)

lemma demo_seal:
  "seal demo_digests demo_codec demo_host demo_outs (demo_builder\<lparr>eb_bundle := demo_manifest_tree\<rparr>)
    = Inr (demo_builder\<lparr>eb_bundle := demo_sealed Unverifiable\<rparr>)"
proof -
  let ?t = "with_file [''SHA256SUMS''] demo_sums demo_manifest_tree"
  have t: "portable_tree ?t" by (intro portable_with_root demo_portable) (simp_all add: demo_dirs)
  have w: "write_bytes demo_manifest_tree ''SHA256SUMS'' demo_sums = Inr ?t"
    by (intro write_root_new demo_portable) (simp_all add: demo_dirs)
  have "write_bytes ?t ''index.json'' c = Inr (with_file [''index.json''] c ?t)" for c
    by (intro write_root_new t) (simp_all add: demo_dirs tree_dir_with_root)
  then show ?thesis using w demo_index_tag [of Unverifiable]
    by (simp add: seal_def write_sha256sums_def demo_sums_def [symmetric] demo_reads demo_built
        write_encoded_def write_file_def demo_sealed_def)
qed

lemma demo_finalize:
  "finalize demo_digests demo_codec demo_host demo_outs demo_builder
    = Inr (demo_builder\<lparr>eb_bundle := demo_sealed Unverifiable\<rparr>)"
proof -
  have fields: "\<not> needs_metadata demo_builder" "gs_sha (eb_git_snapshot demo_builder) = ''abc''"
    "eb_bundle demo_builder = demo_tree" "eb_inputs demo_builder = []" "eb_commands demo_builder = []"
    by (simp_all add: needs_metadata_def demo_builder_def demo_config_def assured_profile_def)
  have recipe: "\<exists>inputs. assemble_recipe_inputs demo_digests demo_codec [] [] None p = Inr inputs" for p
    by (simp add: assemble_recipe_inputs_def commands_digest_def inputs_digest_def demo_codec_def demo_write_def)
  have trimmed: "trim ''abc'' = ''abc''"
    by code_simp
  have w: "write_bytes demo_tree ''deterministic-manifest.json'' ''manifest'' = Inr demo_manifest_tree"
    unfolding demo_manifest_tree_def by (intro write_root_new demo_portable) (simp_all add: demo_dirs)
  have decoded: "decode_env demo_codec ''env'' = Inr demo_env" "encode_manifest demo_codec m = Inr ''manifest''" for m
    by (simp_all add: demo_codec_def demo_only_def)
  obtain inputs where "assemble_recipe_inputs demo_digests demo_codec [] [] None
      (bc_resolution_policy (eb_config demo_builder)) = Inr inputs" using recipe by blast
  then show ?thesis
    by (simp add: finalize_def fields demo_reads decoded write_encoded_def write_file_def w demo_seal
        demo_host_def [THEN arg_cong, of ho_current_sha] trimmed)
qed

section \<open>The verdict\<close>

lemma demo_index_wf: "index_wf (demo_index st)"
  by (simp add: index_wf_def demo_index_def Let_def build_index_def demo_builder_def demo_config_def)

lemma demo_sealed_ok: "sealed demo_digests demo_codec (demo_sealed Unverifiable) (demo_index Unverifiable)"
proof -
  from finalize_seals [OF demo_sha_hex demo_codec_ok demo_staged _ demo_finalize] demo_no_metadata obtain index
    where s: "sealed demo_digests demo_codec (demo_sealed Unverifiable) index"
    by (auto simp: demo_builder_def)
  then have "index = demo_index Unverifiable"
    by (auto simp: sealed_def demo_sealed_def demo_codec_def demo_decode_tag simp del: demo_tag.simps)
  with s show ?thesis by simp
qed

lemma demo_index_fields:
  "ix_bundle_complete (demo_index st)" "ix_tool_command_failures (demo_index st) = []"
  "ix_profile (demo_index st) = DevProfile" "ix_dal_map (demo_index st) = []"
  "ix_test_summary (demo_index st) = None" "ix_resolution_policy (demo_index st) = LockedOffline"
  "ix_trace_outputs (demo_index st) = [''trace/matrix.md'']"
  "ix_engine_build_source (demo_index st) = ''unknown''" "ix_timestamp_rfc3339 (demo_index st) = ''now''"
  "ix_engine_git_sha (demo_index st) = ''abc''"
  "ix_content_hash (demo_index st) = sha256 demo_digests demo_sums"
  "ix_recipe_hash (demo_index st) = sha256 demo_digests ''manifest''"
  "\<not> bp_forbid_build_rs (ix_boundary_policy (demo_index st))"
  "\<not> bp_forbid_proc_macros (ix_boundary_policy (demo_index st))"
  by (simp_all add: demo_index_def build_index_def Let_def demo_builder_def demo_config_def demo_host_def
      demo_outs_def relative_name_def normalize_bundle_path_def replace_char_def backslash_def slash_def)

lemma demo_bundle_get: "bget (bt_files (demo_sealed st)) p =
    (if p = [''index.json''] then Some (demo_tag st) else if p = [''SHA256SUMS''] then Some demo_sums
     else if p = [''deterministic-manifest.json''] then Some ''manifest'' else bget (bt_files demo_tree) p)"
  by (simp add: demo_sealed_def demo_manifest_tree_def)

lemma demo_no_dir: "\<not> tree_dir (demo_sealed st) [''tests'', ''test_outcomes.jsonl'']"
  "\<not> tree_dir (demo_sealed st) [''compliance'']"
proof -
  have "\<not> tree_dir demo_tree [''tests'', ''test_outcomes.jsonl'']" "\<not> tree_dir demo_tree [''compliance'']"
    by (simp_all add: tree_dir_def demo_tree_def bkeys_def)
  then show "\<not> tree_dir (demo_sealed st) [''tests'', ''test_outcomes.jsonl'']"
    "\<not> tree_dir (demo_sealed st) [''compliance'']"
    by (simp_all add: demo_sealed_def demo_manifest_tree_def tree_dir_with_root)
qed

lemma demo_locate:
  "tree_entry (demo_sealed st) ''tests/test_outcomes.jsonl'' = None"
  "tree_entry (demo_sealed st) ''compliance'' = None"
  "tree_entry (demo_sealed st) ''env.json'' = Some (RegularFile ''env'')"
  "tree_entry (demo_sealed st) ''trace/matrix.md'' = Some (RegularFile ''matrix'')"
  by (simp_all add: tree_entry_def Let_def is_absolute_def path_components_def slash_def demo_bundle_get demo_no_dir demo_tree_def)

lemma demo_files: "relative_name [''trace'', ''matrix.md''] = ''trace/matrix.md''"
  by (simp add: relative_name_def normalize_bundle_path_def replace_char_def backslash_def slash_def)

lemma demo_listed:
  "''trace/matrix.md'' \<in> set (map (\<lambda>f. relative_name (fst f)) (content_files (demo_sealed st)))"
proof -
  have "([''trace'', ''matrix.md''], ''matrix'') \<in> set (bt_files (demo_sealed st))"
    by (rule bget_Some_in) (simp add: demo_sealed_def demo_manifest_tree_def demo_tree_def)
  then show ?thesis using demo_files
    by (force simp: content_files_def metadata_layer_def)
qed

lemma demo_residual: "residual_checks demo_digests demo_codec (demo_sealed st) (demo_index st) = []"
proof -
  have hex: "is_valid_digest_hex (sha256 demo_digests b)" for b using demo_sha_hex by (simp add: sha_hex_def)
  have safe: "is_safe_bundle_path ''trace/matrix.md''"
    by (simp add: is_safe_bundle_path_def is_absolute_def slash_def backslash_def)
  have "is_rfc3339 demo_digests ''now''" by (simp add: demo_digests_def demo_platform_def)
  then have "early_checks demo_digests demo_codec (demo_sealed st) (demo_index st) = []"
    using safe hex
    by (simp add: early_checks_def check_bundle_completeness_def check_llr_test_selectors_def
        check_source_baseline_def check_test_identity_def check_output_manifest_def check_trace_evidence_def
        check_resolution_policy_def validate_index_fields_def check_env_vs_index_def
        check_prerelease_tool_def check_engine_source_def check_trace_output_def demo_index_fields
        push_if_def assured_profile_def path_exists_def read_to_string_def read_bytes_def demo_locate
        demo_codec_def demo_only_def demo_env_def ok_of_def byte_def)
  moreover have "check_trace_outputs_hashed (demo_index st)
      (map (\<lambda>f. relative_name (fst f)) (content_files (demo_sealed st))) = []"
    using demo_listed by (simp add: check_trace_outputs_hashed_def demo_index_fields push_if_def)
  ultimately show ?thesis
    by (simp add: residual_checks_def check_test_summary_def check_dal_map_def check_boundary_recheck_def
        demo_index_fields path_is_dir_def demo_locate)
qed

lemma demo_verified: "verify_bundle demo_digests demo_codec path (Some (demo_sealed Unverifiable)) = Inr Pass"
  using sealed_verdict [OF demo_sha_hex demo_sealed_ok, of path None]
  by (simp add: verify_bundle_def demo_residual check_signature_def verdict_def)

section \<open>Closing the run\<close>

lemma bins_again: "bins k v (bins k w m) = bins k v m"
  by (induction k w m rule: bins.induct) auto

lemma demo_rewrite: "with_file [''index.json''] (demo_tag st') (demo_sealed st) = demo_sealed st'"
  by (simp add: demo_sealed_def with_file_def bins_again)

lemma demo_record: "record_verification_state demo_codec st (demo_sealed st0) = Inr (demo_sealed st)"
proof -
  have r: "read_bytes (demo_sealed st0) ''index.json'' = Inr (demo_tag st0)"
    by (rule root_reads(2)) (simp_all add: demo_bundle_get)
  have i: "(demo_index st0)\<lparr>ix_completeness := (ix_completeness (demo_index st0))\<lparr>cq_verification := st\<rparr>\<rparr>
      = demo_index st" by (simp add: demo_index_def Let_def)
  have d: "decode_index demo_codec (demo_tag st0) = Inr (demo_index st0)"
    by (simp add: demo_codec_def demo_decode_tag)
  have w: "write_bytes (demo_sealed st0) ''index.json'' (demo_tag st) = Inr (demo_sealed st)"
    using write_root_new [of "''index.json''" "demo_sealed st0" "demo_tag st"]
    by (simp add: demo_portable demo_dirs demo_rewrite)
  show ?thesis
    by (simp add: record_verification_state_def r d i w demo_tag_utf8 demo_index_tag)
qed

lemma demo_sign_step: "sign_bundle demo_codec demo_sign (demo_sealed Complete) = Inr demo_signed"
proof -
  have r: "read_bytes (demo_sealed Complete) ''SHA256SUMS'' = Inr demo_sums"
    "read_bytes (demo_sealed Complete) ''index.json'' = Inr (demo_tag Complete)"
    by (rule root_reads(2), simp, simp add: demo_bundle_get)+
  have "write_bytes (demo_sealed Complete) ''BUNDLE.sig'' c = Inr (with_file [''BUNDLE.sig''] c (demo_sealed Complete))" for c
    by (intro write_root_new) (simp_all add: demo_portable demo_dirs)
  then show ?thesis
    by (simp add: sign_bundle_def read_envelope_input_def r demo_signed_def demo_codec_def demo_sign_def)
qed

lemma demo_closed:
  "finalize_and_sign demo_digests demo_codec demo_host path demo_outs (Some demo_sign) demo_builder
    = Inr demo_signed"
proof -
  have b: "set_signature_planned True demo_builder = demo_builder"
    by (simp add: set_signature_planned_def demo_builder_def)
  show ?thesis
    by (simp add: finalize_and_sign_def b demo_finalize demo_verified observed_state_def demo_record demo_sign_step)
qed

section \<open>What the witnesses read off it\<close>

lemma demo_complete_sealed: "sealed demo_digests demo_codec (demo_sealed Complete) (demo_index Complete)"
proof -
  have e: "(demo_index Unverifiable)\<lparr>ix_completeness := ix_completeness (demo_index Complete)\<rparr> = demo_index Complete"
    by (simp add: demo_index_def Let_def)
  show ?thesis
    using sealed_recorded [OF demo_sealed_ok demo_codec_ok demo_index_wf,
        of "ix_completeness (demo_index Complete)" "demo_tag Complete"]
    unfolding e demo_rewrite by (simp add: demo_index_tag demo_portable)
qed

lemma demo_complete_passes:
  "verify_bundle_with_key demo_digests demo_codec path (Some (demo_sealed Complete)) None = Inr Pass"
  using sealed_verdict [OF demo_sha_hex demo_complete_sealed, of path None]
  by (simp add: demo_residual check_signature_def verdict_def)

lemma demo_signed_passes:
  "verify_bundle_with_key demo_digests demo_codec path (Some demo_signed) (Some demo_key) = Inr Pass"
proof -
  have "verify_bundle_with_key demo_digests demo_codec path (Some demo_signed) (Some demo_key)
    = verify_bundle demo_digests demo_codec path (Some (demo_sealed Unverifiable))"
    by (rule conjunct1 [OF closing_core [OF demo_sha_hex demo_codec_ok demo_hex_ok demo_sealed_ok demo_index_wf
          _ refl _ demo_sign_step]])
      (simp_all add: demo_index_fields path_components_def slash_def demo_verified observed_state_def
        demo_record demo_sign_def demo_key_def)
  then show ?thesis by (simp add: demo_verified)
qed

lemma demo_envelope:
  "read_envelope_input demo_signed ''SHA256SUMS'' = Inr demo_sums"
  "read_envelope_input demo_signed ''index.json'' = Inr (demo_tag Complete)"
  "read_envelope_input (demo_sealed Complete) ''SHA256SUMS'' = Inr demo_sums"
  "read_envelope_input (demo_sealed Complete) ''index.json'' = Inr (demo_tag Complete)"
  by (simp_all add: read_envelope_input_def map_err_Ok_iff read_bytes_root demo_signed_def demo_bundle_get
      del: demo_tag.simps)

text \<open>Six lines, each of 64 digits, two spaces and a name.\<close>

lemma demo_content: "content_files demo_manifest_tree =
    [([''commands.json''], ''[]''), ([''deterministic-manifest.json''], ''manifest''), ([''env.json''], ''env''),
     ([''inputs_hashes.json''], ''{}''), ([''outputs_hashes.json''], ''{}''),
     ([''trace'', ''matrix.md''], ''matrix'')]"
  by (simp add: content_files_def demo_manifest_tree_def demo_tree_def with_file_def metadata_layer_def
      less_char_def)

lemma demo_short: "length demo_sums < 2 ^ 64"
  by (simp add: demo_sums_def sums_content demo_content sha256sums_line_def relative_name_def
      normalize_bundle_path_def replace_char_def demo_digests_def)

lemma demo_out_ok: "p \<in> set demo_outs \<Longrightarrow> portable_path p \<and> p \<notin> set metadata_layer"
  by (simp add: demo_outs_def portable_path_def portable_def component_ok_def slash_def backslash_def
      newline_def byte_def metadata_layer_def)

lemma demo_sums_read: "read_to_string demo_signed ''SHA256SUMS'' = Inr demo_sums"
proof -
  have "is_utf8 demo_sums" unfolding demo_sums_def by (rule sums_utf8 [OF demo_sha_hex demo_portable(2)])
  then show ?thesis by (intro root_reads(4)) (simp_all add: demo_signed_def demo_bundle_get)
qed

lemma demo_listing: "map snd (listed_entries (str_lines demo_sums)) =
    map (\<lambda>f. relative_name (fst f)) (content_files demo_manifest_tree)"
proof -
  have "hash_sha256sums_entries demo_digests demo_manifest_tree demo_sums
      = Inr (map (\<lambda>f. relative_name (fst f)) (content_files demo_manifest_tree), [])"
    unfolding demo_sums_def
    by (rule listing_verifies [OF demo_sha_hex demo_portable(2)])
      (rule content_files_bget [OF demo_portable(2)])
  from listed_names(1) [OF this] show ?thesis by simp
qed

lemma demo_names:
  "m \<in> set (map snd (listed_entries (str_lines demo_sums))) \<Longrightarrow> backslash \<notin> set m"
  unfolding demo_listing demo_content
  by (auto simp: relative_name_def normalize_bundle_path_def replace_char_def backslash_def slash_def)

lemma demo_twin: "normalize_bundle_path (''trace'' @ [backslash] @ ''matrix.md'')
    \<in> set (map snd (listed_entries (str_lines demo_sums)))"
  unfolding demo_listing demo_content
  by (simp add: relative_name_def normalize_bundle_path_def replace_char_def backslash_def slash_def)

lemma demo_no_planted_dir: "\<not> tree_dir demo_signed [''trace'' @ backslash # ''matrix.md'']"
proof -
  have "\<not> tree_dir demo_tree [''trace'' @ backslash # ''matrix.md'']"
    by (simp add: tree_dir_def demo_tree_def bkeys_def)
  then show ?thesis
    by (simp add: demo_signed_def demo_sealed_def demo_manifest_tree_def tree_dir_with_root)
qed

end
