(* ===== verification/Bundle_Properties.thy ===== *)
theory Bundle_Properties
  imports Demo_Bundle
begin

text \<open>
  Properties of the evidence bundle: what the builder seals verifies, the signature covers the
  content, closing keeps the verdict, and the file the verifier overlooks. Each is followed by a
  witness.
\<close>



text \<open>C22: The signed envelope authenticates a bundle with portable file names (UTF-8, no backslash,
  no line break). Two directories of such files that pass verification and carry the same envelope
  (the listing and the index, the listing shorter than 2 to the 64 bytes) hold the same files with
  the same content, the signature apart, unless SHA-256 collides on two contents. The names matter:
  a file whose name has a backslash can be added unnoticed, as shown below.\<close>

theorem envelope_authenticates_bundle:
  assumes "verify_bundle_with_key X C path (Some t) key = Inr Pass"
    and "verify_bundle_with_key X C path' (Some u) key' = Inr Pass"
    and "portable_tree t" and "portable_tree u"
    and "read_envelope_input t ''SHA256SUMS'' = Inr s" and "read_envelope_input t ''index.json'' = Inr i"
    and "read_envelope_input u ''SHA256SUMS'' = Inr s'" and "read_envelope_input u ''index.json'' = Inr i'"
    and "length s < 2 ^ 64" and "length s' < 2 ^ 64"
    and "envelope_bytes s i = envelope_bytes s' i'"
  shows "(\<exists>a b. collision X a b)
    \<or> (\<forall>p. p \<noteq> [''BUNDLE.sig''] \<longrightarrow> bget (bt_files t) p = bget (bt_files u) p)"
proof (cases "\<exists>a b. collision X a b")
  case True
  then show ?thesis by (rule disjI1)
next
  case False
  note free = this
  have e: "s = s'" "i = i'" using envelope_inj [OF assms(11,9,10)] by simp_all
  have meta: "bget (bt_files t) [''SHA256SUMS''] = Some s" "bget (bt_files u) [''SHA256SUMS''] = Some s"
    "bget (bt_files t) [''index.json''] = Some i" "bget (bt_files u) [''index.json''] = Some i"
    using assms(5-8) by (simp_all add: read_envelope_input_def map_err_Ok_iff read_bytes_root e)
  from pass_listing [OF assms(1) meta(1)] obtain l where l: "hash_sha256sums_entries X t s = Inr (l, [])"
    "unexpected_files t l = []" by blast
  from pass_listing [OF assms(2) meta(2)] obtain m where m: "hash_sha256sums_entries X u s = Inr (m, [])"
    "unexpected_files u m = []" by blast
  have "bget (bt_files t) p = bget (bt_files u) p" if "p \<noteq> [''BUNDLE.sig'']" for p
  proof (cases "p \<in> set metadata_layer")
    case True
    with that meta show ?thesis by (auto simp: metadata_layer_def)
  next
    case outside: False
    then show ?thesis by (rule same_content [OF l m assms(3,4) _ free])
  qed
  then show ?thesis by blast
qed

theorem envelope_authenticates_bundle_witness:
  "(\<exists>a b. collision demo_digests a b)
    \<or> (\<forall>p. p \<noteq> [''BUNDLE.sig''] \<longrightarrow>
      bget (bt_files demo_signed) p = bget (bt_files (demo_sealed Complete)) p)"
  by (rule envelope_authenticates_bundle [where path = "''a''" and path' = "''b''" and key = "Some demo_key"
        and key' = None, OF demo_signed_passes demo_complete_passes demo_portable(4) demo_portable(3)
        demo_envelope(1-4) demo_short demo_short refl])

text \<open>Closing a bundle keeps its verdict. When the generator finalizes, verifies, records the
  observed verdict in the index and signs, the published bundle still gets that verdict, now with
  the signature checked: the recorded verification state is the one a later verification with the
  matching public key observes.\<close>

theorem closing_keeps_verdict:
  assumes "sha_hex X" and "codec_ok C" and "hex_ok C" and "staged C b"
    and "\<not> path_exists (eb_bundle b) ''cargo_metadata.json''"
    and "\<And>p. p \<in> set outs \<Longrightarrow> portable_path p \<and> p \<notin> set metadata_layer"
    and "\<And>m. length (sign m) = 64" and "\<And>m. key m (sign m)"
    and "finalize_and_sign X C H path outs (Some sign) b = Inr t"
  shows "\<exists>raw index. bget (bt_files t) [''index.json''] = Some raw \<and> decode_index C raw = Inr index
    \<and> cq_verification (ix_completeness index)
      = observed_state (verify_bundle_with_key X C path (Some t) (Some key))"
proof -
  let ?b = "set_signature_planned True b"
  have b: "staged C ?b" "\<not> path_exists (eb_bundle ?b) ''cargo_metadata.json''"
    using assms(4,5) by (simp_all add: set_signature_planned_def staged_def on_disk_def)
  from assms(9) obtain b' u where f: "finalize X C H outs ?b = Inr b'"
    and r: "record_verification_state C (observed_state (verify_bundle X C path (Some (eb_bundle b'))))
      (eb_bundle b') = Inr u" and w: "sign_bundle C sign u = Inr t"
    by (auto simp: finalize_and_sign_def Let_def rbind_Ok_iff map_err_Ok_iff)
  from finalize_seals [OF assms(1,2) b f] obtain index where s: "sealed X C (eb_bundle b') index"
    "index_wf index" "ix_trace_outputs index = map relative_name outs" by blast
  have "path_components n \<notin> {[''index.json''], [''BUNDLE.sig'']}" if "n \<in> set (ix_trace_outputs index)" for n
    using that assms(6) by (auto simp: s(3) portable_components metadata_layer_def)
  from closing_core [of X C "eb_bundle b'" index _ path u sign t key, OF assms(1-3) s(1,2) this refl r w assms(7,8)] show ?thesis
    by (auto simp: sealed_def)
qed

theorem closing_keeps_verdict_witness:
  "\<exists>raw index. bget (bt_files demo_signed) [''index.json''] = Some raw
    \<and> decode_index demo_codec raw = Inr index
    \<and> cq_verification (ix_completeness index)
      = observed_state (verify_bundle_with_key demo_digests demo_codec ''out'' (Some demo_signed) (Some demo_key))"
  by (rule closing_keeps_verdict [OF demo_sha_hex demo_codec_ok demo_hex_ok demo_staged _ _ _ _
        demo_closed [of "''out''"]])
    (use demo_no_metadata demo_out_ok in \<open>simp_all add: demo_builder_def demo_sign_def demo_key_def\<close>)

text \<open>C23: A file whose name holds a backslash passes for the file it normalizes to. The verifier
  compares the names it walks after turning backslashes into slashes, so a bundle that passes
  still passes, signature included, once such a file is added next to a listed one: nothing hashes
  the added file and nothing reports it.\<close>

theorem backslash_file_is_unnoticed:
  assumes "verify_bundle_with_key X C path (Some t) key = Inr Pass"
    and "backslash \<in> set n" and "\<not> tree_dir t [n]"
    and "read_to_string t ''SHA256SUMS'' = Inr sums"
    and "\<And>m. m \<in> set (map snd (listed_entries (str_lines sums))) \<Longrightarrow> backslash \<notin> set m"
    and "normalize_bundle_path n \<in> set (map snd (listed_entries (str_lines sums)))"
  shows "verify_bundle_with_key X C path (Some (with_file [n] planted t)) key = Inr Pass"
  using assms unfolding passes_iff by (rule backslash_unseen)

theorem backslash_file_is_unnoticed_witness:
  "verify_bundle_with_key demo_digests demo_codec ''out''
    (Some (with_file [''trace'' @ [backslash] @ ''matrix.md''] ''planted'' demo_signed)) (Some demo_key) = Inr Pass"
  by (rule backslash_file_is_unnoticed [OF demo_signed_passes _ _ demo_sums_read demo_names demo_twin])
    (use demo_no_planted_dir in simp_all)

end
