(* ===== verification/Source_Lock.thy ===== *)
theory Source_Lock
  imports Corpus_Validation Bundle_Store
begin

text \<open>
  The committed inventory of effective source documents: the lock file derived from a graph and its
  canonical rendering (\<^verbatim>\<open>corpus/source/lock.rs\<close>), parsing and validating a committed lock
  (\<^verbatim>\<open>corpus/source/lock/validate.rs\<close>), and the append-only transition from one committed graph to
  the next (\<^verbatim>\<open>corpus/source/lineage/transition.rs\<close>). The TOML reader is the argument \<open>decode\<close>, from
  text to the wire record or a message.
\<close>

section \<open>The lock\<close>

definition supported_lock_schema :: u32 where
  "supported_lock_schema = 1"

record external_control_id =
  ec_system :: string
  ec_immutable_id :: string

datatype lock_capture = LockVendored | LockHashOnly | LockExternal external_control_id

datatype lock_material = LockAvailable source_content_digest lock_capture | LockUnavailable

record source_lock_entry =
  le_document_key :: string
  le_source_uid :: uid
  le_material :: lock_material

record source_lock =
  lk_schema_version :: u32
  lk_entries :: "source_lock_entry list"

fun capture_as_str :: "lock_capture \<Rightarrow> string" where
  "capture_as_str LockVendored = ''vendored''"
| "capture_as_str LockHashOnly = ''hash_only''"
| "capture_as_str (LockExternal _) = ''external_controlled''"

fun lock_capture_of :: "source_capture \<Rightarrow> lock_capture" where
  "lock_capture_of (Vendored _) = LockVendored"
| "lock_capture_of HashOnly = LockHashOnly"
| "lock_capture_of (ExternalControlled system immutable_id) =
     LockExternal \<lparr>ec_system = system, ec_immutable_id = immutable_id\<rparr>"

fun lock_material_of :: "source_material \<Rightarrow> lock_material" where
  "lock_material_of (Available _ digest capture) = LockAvailable digest (lock_capture_of capture)"
| "lock_material_of (Unavailable _) = LockUnavailable"

definition entry_from_revision :: "string \<Rightarrow> uid \<Rightarrow> source_revision_node \<Rightarrow> source_lock_entry" where
  "entry_from_revision document_key u revision =
    \<lparr>le_document_key = document_key, le_source_uid = u, le_material = lock_material_of (sr_material revision)\<rparr>"

definition sort_entries :: "source_lock_entry list \<Rightarrow> source_lock_entry list" where
  "sort_entries = sort_key (\<lambda>e. (le_document_key e, le_source_uid e))"

definition derive_lock :: "corpus_graph \<Rightarrow> source_lock" where
  "derive_lock G = \<lparr>lk_schema_version = supported_lock_schema,
     lk_entries = sort_entries (List.map_filter (\<lambda>(document_key, u).
       case cg_get G u of Some (SourceRevision revision) \<Rightarrow> Some (entry_from_revision document_key u revision)
       | _ \<Rightarrow> None) (effective_source_heads G))\<rparr>"

section \<open>Canonical rendering\<close>

fun render_material :: "lock_material \<Rightarrow> string" where
  "render_material (LockAvailable digest capture) =
    push_field ''availability'' ''available'' @ push_field ''sha256'' (scd_str digest)
    @ push_field ''capture_mode'' (capture_as_str capture)
    @ (case capture of
        LockExternal external \<Rightarrow> ''external_control = { system = '' @ push_basic_string (ec_system external)
          @ '', immutable_id = '' @ push_basic_string (ec_immutable_id external) @ '' }'' @ [CHR 0x0A]
      | _ \<Rightarrow> [])"
| "render_material LockUnavailable = push_field ''availability'' ''unavailable''"

definition render_entry :: "source_lock_entry \<Rightarrow> string" where
  "render_entry entry = [CHR 0x0A] @ ''[[entries]]'' @ [CHR 0x0A]
    @ push_field ''document_key'' (le_document_key entry)
    @ push_field ''source_uid'' (le_source_uid entry) @ render_material (le_material entry)"

definition render_lock_canonical :: "source_lock \<Rightarrow> bytes" where
  "render_lock_canonical lock = ''schema_version = '' @ show_nat (unat (lk_schema_version lock)) @ [CHR 0x0A]
    @ concat (map render_entry (sort_entries (lk_entries lock)))"

section \<open>Parsing\<close>

datatype lock_capture_mode = ModeVendored | ModeHashOnly | ModeExternalControlled

datatype entry_wire =
    WireAvailable (ew_document_key: string) (ew_source_uid: string) source_content_digest
      lock_capture_mode "external_control_id option"
  | WireUnavailable (ew_document_key: string) (ew_source_uid: string)

record lock_file_wire =
  lw_schema_version :: u32
  lw_entries :: "entry_wire list"

definition lock_error :: "corpus_error source_lock_error \<Rightarrow> corpus_error source_error" where
  "lock_error = SE_Lock"

fun entry_from_wire :: "entry_wire \<Rightarrow> corpus_error source_error + source_lock_entry" where
  "entry_from_wire (WireAvailable document_key u digest capture_mode external_control) =
    rbind (case (capture_mode, external_control) of
        (ModeVendored, None) \<Rightarrow> Ok LockVendored
      | (ModeHashOnly, None) \<Rightarrow> Ok LockHashOnly
      | (ModeExternalControlled, Some external) \<Rightarrow> Ok (LockExternal external)
      | _ \<Rightarrow> Err (lock_error (LK_Parse (''external_control is required iff capture_mode is '' @ [CHR 0x22]
          @ ''external_controlled'' @ [CHR 0x22])))) (\<lambda>capture.
    Ok \<lparr>le_document_key = document_key, le_source_uid = u, le_material = LockAvailable digest capture\<rparr>)"
| "entry_from_wire (WireUnavailable document_key u) =
    Ok \<lparr>le_document_key = document_key, le_source_uid = u, le_material = LockUnavailable\<rparr>"

text \<open>The entries read so far, with the keys seen.\<close>

definition parse_entry ::
  "string list \<times> source_lock_entry list \<Rightarrow> entry_wire
    \<Rightarrow> corpus_error source_error + string list \<times> source_lock_entry list" where
  "parse_entry st wire = (case st of (seen, entries) \<Rightarrow>
    if ew_document_key wire \<in> set seen then Err (lock_error (LK_DuplicateKey (ew_document_key wire)))
    else rbind (entry_from_wire wire) (\<lambda>entry. Ok (ew_document_key wire # seen, entries @ [entry])))"

definition parse_lock ::
  "(string \<Rightarrow> string + lock_file_wire) \<Rightarrow> bytes \<Rightarrow> corpus_error source_error + source_lock" where
  "parse_lock decode b =
    rbind (fail_if (\<not> is_utf8 b) (lock_error (LK_Parse ''sources.lock bytes are not valid UTF-8''))) (\<lambda>_.
    rbind (map_err (\<lambda>e. lock_error (LK_Parse e)) (decode b)) (\<lambda>wire.
    rbind (fail_if (supported_lock_schema < lw_schema_version wire)
      (lock_error (LK_SchemaTooNew (lw_schema_version wire) supported_lock_schema))) (\<lambda>_.
    rbind (fold_res parse_entry ([], []) (lw_entries wire)) (\<lambda>(_, entries).
    Ok \<lparr>lk_schema_version = lw_schema_version wire, lk_entries = entries\<rparr>))))"

section \<open>Comparison\<close>

definition by_document_key :: "source_lock \<Rightarrow> (string, source_lock_entry) bmap" where
  "by_document_key lock = fold (\<lambda>entry. bins (le_document_key entry) entry) (lk_entries lock) []"

fun external_control :: "lock_capture \<Rightarrow> external_control_id option" where
  "external_control (LockExternal external) = Some external"
| "external_control _ = None"

definition first_changed_field :: "source_lock_entry \<Rightarrow> source_lock_entry \<Rightarrow> string option" where
  "first_changed_field derived committed =
    (if le_source_uid committed \<noteq> le_source_uid derived then Some ''uid''
     else case (le_material derived, le_material committed) of
       (LockUnavailable, LockUnavailable) \<Rightarrow> None
     | (LockAvailable derived_sha256 derived_capture, LockAvailable committed_sha256 committed_capture) \<Rightarrow>
         if committed_sha256 \<noteq> derived_sha256 then Some ''digest''
         else if capture_as_str committed_capture \<noteq> capture_as_str derived_capture then Some ''capture_mode''
         else if external_control committed_capture \<noteq> external_control derived_capture
         then Some ''external_identity'' else None
     | _ \<Rightarrow> Some ''availability'')"

definition diff_inventories :: "source_lock \<Rightarrow> source_lock \<Rightarrow> corpus_error source_lock_error + unit" where
  "diff_inventories derived committed =
    (let derived_by_key = by_document_key derived; committed_by_key = by_document_key committed in
     rbind (for_each (\<lambda>k. fail_if (bget committed_by_key k = None) (LK_Missing k)) (bkeys derived_by_key)) (\<lambda>_.
     rbind (for_each (\<lambda>k. fail_if (bget derived_by_key k = None) (LK_Extra k)) (bkeys committed_by_key)) (\<lambda>_.
     for_each (\<lambda>(k, derived_entry).
       case Option.bind (bget committed_by_key k) (first_changed_field derived_entry) of
         Some field \<Rightarrow> Err (LK_Changed k field)
       | None \<Rightarrow> Ok ()) derived_by_key)))"

definition show_byte :: "char \<Rightarrow> string" where
  "show_byte c = ''0x'' @ [hex_digit (byte c div 16), hex_digit (byte c mod 16)]"

fun byte_difference :: "nat \<Rightarrow> bytes \<Rightarrow> bytes \<Rightarrow> string option" where
  "byte_difference i (a # s) (b # t) =
    (if a \<noteq> b then Some (''first difference at byte '' @ show_nat i @ '': committed byte '' @ show_byte a
       @ '', canonical byte '' @ show_byte b)
     else byte_difference (Suc i) s t)"
| "byte_difference i _ _ = None"

definition first_difference :: "bytes \<Rightarrow> bytes \<Rightarrow> string" where
  "first_difference committed canonical = (case byte_difference 0 committed canonical of
     Some s \<Rightarrow> s
   | None \<Rightarrow> ''length differs: committed is '' @ show_nat (length committed)
       @ '' bytes, the canonical rendering is '' @ show_nat (length canonical) @ '' bytes'')"

definition validate_committed_lock ::
  "platform \<Rightarrow> (string \<Rightarrow> string + lock_file_wire) \<Rightarrow> bytes \<Rightarrow> corpus_graph
    \<Rightarrow> corpus_error source_error + unit" where
  "validate_committed_lock X decode b G =
    rbind (map_err (\<lambda>e. lock_error (LK_InvalidGraph e)) (cg_validate X G)) (\<lambda>_.
    rbind (parse_lock decode b) (\<lambda>committed.
    let canonical = render_lock_canonical committed in
    rbind (fail_if (canonical \<noteq> b) (lock_error (LK_NonCanonical (first_difference b canonical)))) (\<lambda>_.
    map_err lock_error (diff_inventories (derive_lock G) committed))))"

section \<open>Transitions\<close>

record source_revision_projection =
  pj_uid :: uid
  pj_id :: string
  pj_document_key :: string
  pj_title :: string
  pj_media_type :: string
  pj_canonical_location :: string
  pj_material :: source_material
  pj_supersedes :: "uid option"

definition project_revision :: "source_revision_node \<Rightarrow> source_revision_projection" where
  "project_revision n = \<lparr>pj_uid = sr_uid n, pj_id = sr_id n, pj_document_key = sr_document_key n,
     pj_title = sr_title n, pj_media_type = sr_media_type n,
     pj_canonical_location = sr_canonical_location n, pj_material = sr_material n,
     pj_supersedes = supersedes_target n\<rparr>"

fun material_diff :: "source_material \<Rightarrow> source_material \<Rightarrow> string option" where
  "material_diff (Available prior_at prior_sha256 prior_capture)
     (Available proposed_at proposed_sha256 proposed_capture) =
    (if prior_at \<noteq> proposed_at then Some ''retrieved_at''
     else if prior_sha256 \<noteq> proposed_sha256 then Some ''sha256''
     else if prior_capture \<noteq> proposed_capture then Some ''capture'' else None)"
| "material_diff (Unavailable prior_reason) (Unavailable proposed_reason) =
    (if prior_reason \<noteq> proposed_reason then Some ''reason'' else None)"
| "material_diff _ _ = Some ''material''"

definition projection_diff ::
  "source_revision_projection \<Rightarrow> source_revision_projection \<Rightarrow> string option" where
  "projection_diff prior proposed =
    (if pj_id prior \<noteq> pj_id proposed then Some ''id''
     else if pj_document_key prior \<noteq> pj_document_key proposed then Some ''document_key''
     else if pj_title prior \<noteq> pj_title proposed then Some ''title''
     else if pj_media_type prior \<noteq> pj_media_type proposed then Some ''media_type''
     else if pj_canonical_location prior \<noteq> pj_canonical_location proposed then Some ''canonical_location''
     else case material_diff (pj_material prior) (pj_material proposed) of
       Some field \<Rightarrow> Some field
     | None \<Rightarrow> if pj_supersedes prior \<noteq> pj_supersedes proposed then Some ''supersedes'' else None)"

definition check_kept ::
  "corpus_graph \<Rightarrow> source_revision_node \<Rightarrow> corpus_error source_error + unit" where
  "check_kept proposed prior_revision = (case cg_get proposed (sr_uid prior_revision) of
     None \<Rightarrow> Err (SE_SourceTransitionRemoval (sr_uid prior_revision))
   | Some (SourceRevision proposed_revision) \<Rightarrow>
       (case projection_diff (project_revision prior_revision) (project_revision proposed_revision) of
          Some field \<Rightarrow> Err (SE_SourceTransitionMutation (sr_uid prior_revision) field)
        | None \<Rightarrow> Ok ())
   | Some _ \<Rightarrow> Err (SE_SourceTransitionMutation (sr_uid prior_revision) ''kind''))"

definition check_extends ::
  "corpus_graph \<Rightarrow> (string, uid) bmap \<Rightarrow> source_revision_node \<Rightarrow> corpus_error source_error + unit" where
  "check_extends prior prior_heads new_revision =
    (if cg_get prior (sr_uid new_revision) \<noteq> None then Ok ()
     else case bget prior_heads (sr_document_key new_revision) of
       None \<Rightarrow> Ok ()
     | Some prior_head_uid \<Rightarrow> fail_if (supersedes_target new_revision \<noteq> Some prior_head_uid)
         (SE_SourceTransitionCompetingHead (sr_uid new_revision) (sr_document_key new_revision) prior_head_uid))"

definition validate_source_transition ::
  "platform \<Rightarrow> corpus_graph \<Rightarrow> corpus_graph \<Rightarrow> corpus_error source_error + unit" where
  "validate_source_transition X prior proposed =
    rbind (map_err (SE_SourceTransitionInvalidGraph ''prior'') (cg_validate X prior)) (\<lambda>_.
    rbind (for_each (check_kept proposed) (cg_revisions prior)) (\<lambda>_.
    rbind (for_each (check_extends prior (effective_source_heads prior)) (cg_revisions proposed)) (\<lambda>_.
    map_err (SE_SourceTransitionInvalidGraph ''proposed'') (cg_validate X proposed))))"

end
