(* ===== verification/Source_Lock_Spec.thy ===== *)
theory Source_Lock_Spec
  imports Source_Lock
begin

text \<open>
  A validated lock is the canonical rendering of the derived one, and an accepted transition
  appends to the history of every document.
\<close>

section \<open>Inventories as maps\<close>

lemma bget_fold_entries:
  "distinct (map le_document_key es) \<Longrightarrow> bget (fold (\<lambda>e. bins (le_document_key e) e) es m) k
    = (case find (\<lambda>e. le_document_key e = k) es of Some e \<Rightarrow> Some e | None \<Rightarrow> bget m k)"
proof (induction es arbitrary: m k)
  case (Cons e es)
  have "find (\<lambda>e. le_document_key e = k) es = None" if k: "le_document_key e = k"
  proof -
    have "le_document_key e \<notin> le_document_key ` set es" using Cons.prems by simp
    then have "\<forall>f \<in> set es. le_document_key f \<noteq> k" using k by (metis image_eqI)
    then show ?thesis by (simp add: find_None_iff)
  qed
  moreover have "distinct (map le_document_key es)" using Cons.prems by simp
  ultimately show ?case
    by (cases "k = le_document_key e") (auto simp: Cons.IH split: option.split)
qed simp

lemma by_document_key_iff:
  assumes "distinct (map le_document_key (lk_entries lock))"
  shows "bget (by_document_key lock) k = Some e \<longleftrightarrow> e \<in> set (lk_entries lock) \<and> le_document_key e = k"
proof -
  have "find (\<lambda>e. le_document_key e = k) (lk_entries lock) = Some e \<longleftrightarrow>
      e \<in> set (lk_entries lock) \<and> le_document_key e = k"
  proof
    assume "e \<in> set (lk_entries lock) \<and> le_document_key e = k"
    moreover then obtain f where f: "find (\<lambda>e. le_document_key e = k) (lk_entries lock) = Some f"
      by (cases "find (\<lambda>e. le_document_key e = k) (lk_entries lock)") (auto simp: find_None_iff)
    moreover from f have "f \<in> set (lk_entries lock)" "le_document_key f = k"
      by (auto simp: find_Some_iff)
    ultimately show "find (\<lambda>e. le_document_key e = k) (lk_entries lock) = Some e"
      using assms by (metis inj_onD distinct_map)
  qed (auto simp: find_Some_iff)
  moreover have "bget (by_document_key lock) k = find (\<lambda>e. le_document_key e = k) (lk_entries lock)"
    unfolding by_document_key_def bget_fold_entries [OF assms] by (simp split: option.split)
  ultimately show ?thesis by simp
qed

lemma bwf_fold_entries: "bwf m \<Longrightarrow> bwf (fold (\<lambda>x. bins (f x) (g x)) xs m)"
  by (induction xs arbitrary: m) auto

lemma bwf_by_document_key: "bwf (by_document_key lock)"
  unfolding by_document_key_def by (rule bwf_fold_entries) simp

lemma capture_determined:
  "capture_as_str a = capture_as_str b \<Longrightarrow> external_control a = external_control b \<Longrightarrow> a = b"
  by (cases a; cases b) auto

lemma first_changed_field_None:
  "le_document_key d = le_document_key c \<Longrightarrow> first_changed_field d c = None \<longleftrightarrow> d = c"
  using capture_determined
  by (cases "le_material d"; cases "le_material c")
    (auto simp: first_changed_field_def intro: source_lock_entry.equality)

lemma diff_inventories_Ok_iff:
  assumes d: "distinct (map le_document_key (lk_entries D))" "distinct (map le_document_key (lk_entries C))"
  shows "diff_inventories D C = Inr () \<longleftrightarrow> set (lk_entries D) = set (lk_entries C)"
proof -
  note iff = by_document_key_iff [OF d(1)] by_document_key_iff [OF d(2)]
  let ?D = "by_document_key D" let ?C = "by_document_key C"
  have keys: "k \<in> set (bkeys m) \<longleftrightarrow> bget m k \<noteq> None" for m :: "(string, source_lock_entry) bmap" and k
    by (simp add: bkeys_def bget_None_iff)
  have entries: "(k, e) \<in> set ?D \<longleftrightarrow> e \<in> set (lk_entries D) \<and> le_document_key e = k" for k e
    using bget_iff_in [OF bwf_by_document_key, of D k e] iff(1) by simp
  have third: "for_each (\<lambda>(k, derived_entry).
       case Option.bind (bget ?C k) (first_changed_field derived_entry) of
         Some field \<Rightarrow> Err (LK_Changed k field) | None \<Rightarrow> Ok ()) ?D = (Inr () :: corpus_error source_lock_error + unit)
    \<longleftrightarrow> (\<forall>e \<in> set (lk_entries D). \<forall>c. bget ?C (le_document_key e) = Some c \<longrightarrow> e = c)"
  proof -
    have one: "(case Option.bind (bget ?C (le_document_key e)) (first_changed_field e) of
         Some field \<Rightarrow> Err (LK_Changed k field) | None \<Rightarrow> Ok ()) = (Inr () :: corpus_error source_lock_error + unit)
      \<longleftrightarrow> (\<forall>c. bget ?C (le_document_key e) = Some c \<longrightarrow> e = c)" for e k
    proof (cases "bget ?C (le_document_key e)")
      case (Some c)
      then have "first_changed_field e c = None \<longleftrightarrow> e = c"
        using iff(2) by (intro first_changed_field_None) simp
      with Some show ?thesis by (auto split: option.split)
    qed simp
    have "(\<forall>x \<in> set ?D. case x of (k, e) \<Rightarrow> \<forall>c. bget ?C (le_document_key e) = Some c \<longrightarrow> e = c)
      \<longleftrightarrow> (\<forall>e \<in> set (lk_entries D). \<forall>c. bget ?C (le_document_key e) = Some c \<longrightarrow> e = c)"
    proof (intro iffI ballI)
      fix e assume "\<forall>x \<in> set ?D. case x of (k, e) \<Rightarrow> \<forall>c. bget ?C (le_document_key e) = Some c \<longrightarrow> e = c"
        and "e \<in> set (lk_entries D)"
      then show "\<forall>c. bget ?C (le_document_key e) = Some c \<longrightarrow> e = c"
        using entries [of "le_document_key e" e] by blast
    next
      fix x assume all: "\<forall>e \<in> set (lk_entries D). \<forall>c. bget ?C (le_document_key e) = Some c \<longrightarrow> e = c"
        and x: "x \<in> set ?D"
      obtain k e where "x = (k, e)" by (cases x)
      with all x entries [of k e] show "case x of (k, e) \<Rightarrow> \<forall>c. bget ?C (le_document_key e) = Some c \<longrightarrow> e = c"
        by simp
    qed
    moreover have "(case x of (k, e) \<Rightarrow> \<forall>c. bget ?C (le_document_key e) = Some c \<longrightarrow> e = c) \<longleftrightarrow>
        (case x of (k, e) \<Rightarrow> case Option.bind (bget ?C k) (first_changed_field e) of
          Some field \<Rightarrow> Err (LK_Changed k field) | None \<Rightarrow> Ok ()) = (Inr () :: corpus_error source_lock_error + unit)"
      if x: "x \<in> set ?D" for x
    proof -
      obtain k e where x': "x = (k, e)" by (cases x)
      with x entries [of k e] have "le_document_key e = k" by simp
      with one [of k e] x' show ?thesis by simp
    qed
    ultimately show ?thesis unfolding for_each_Ok_iff by blast
  qed
  show ?thesis
  proof
    assume "diff_inventories D C = Inr ()"
    then have a: "\<forall>k \<in> set (bkeys ?D). bget ?C k \<noteq> None" "\<forall>k \<in> set (bkeys ?C). bget ?D k \<noteq> None"
      and b: "\<forall>e \<in> set (lk_entries D). \<forall>c. bget ?C (le_document_key e) = Some c \<longrightarrow> e = c"
      using third by (auto simp: diff_inventories_def Let_def rbind_Ok_iff for_each_Ok_iff fail_if_Ok_iff)
    have "e \<in> set (lk_entries C)" if e: "e \<in> set (lk_entries D)" for e
    proof -
      have "bget ?D (le_document_key e) = Some e" using e iff(1) by simp
      then obtain c where c: "bget ?C (le_document_key e) = Some c" using a(1) keys by fastforce
      with b e iff(2) show ?thesis by metis
    qed
    moreover have "c \<in> set (lk_entries D)" if c: "c \<in> set (lk_entries C)" for c
    proof -
      have k: "bget ?C (le_document_key c) = Some c" using c iff(2) by simp
      then obtain e where e: "bget ?D (le_document_key c) = Some e" using a(2) keys by fastforce
      then have "e \<in> set (lk_entries D)" "le_document_key e = le_document_key c" using iff(1) by auto
      with b k show ?thesis by metis
    qed
    ultimately show "set (lk_entries D) = set (lk_entries C)" by blast
  next
    assume same: "set (lk_entries D) = set (lk_entries C)"
    then have "bget ?D k = bget ?C k" for k
      using iff by (cases "bget ?D k"; cases "bget ?C k") (metis option.distinct(1) option.inject)+
    moreover have "\<forall>e \<in> set (lk_entries D). \<forall>c. bget ?C (le_document_key e) = Some c \<longrightarrow> e = c"
      using calculation iff same by (metis option.inject)
    ultimately show "diff_inventories D C = Inr ()" using third
      by (simp add: diff_inventories_def Let_def rbind_Ok_iff for_each_Ok_iff fail_if_Ok_iff keys)
  qed
qed

section \<open>Order does not matter\<close>

lemma sort_entries_cong:
  assumes "set es = set fs" "distinct (map le_document_key es)" "distinct (map le_document_key fs)"
  shows "sort_entries es = sort_entries fs"
proof -
  let ?k = "\<lambda>e. (le_document_key e, le_source_uid e)"
  have inj: "inj_on ?k (set gs)" "distinct gs" if "distinct (map le_document_key gs)" for gs
    using that by (auto simp: distinct_map inj_on_def)
  show ?thesis unfolding sort_entries_def
  proof (rule map_sorted_distinct_set_unique [of ?k])
    show "inj_on ?k (set (sort_key ?k es) \<union> set (sort_key ?k fs))"
      using inj(1) [OF assms(3)] assms(1) by simp
    show "distinct (map ?k (sort_key ?k es))" using inj [OF assms(2)] by (simp add: distinct_map)
    show "distinct (map ?k (sort_key ?k fs))" using inj [OF assms(3)] by (simp add: distinct_map)
  qed (use assms in simp_all)
qed

lemma sort_entries_idem [simp]: "sort_entries (sort_entries es) = sort_entries es"
  unfolding sort_entries_def by (rule sort_key_id_if_sorted) simp

lemma render_sorted: "set (lk_entries a) = set (lk_entries b) \<Longrightarrow>
    distinct (map le_document_key (lk_entries a)) \<Longrightarrow> distinct (map le_document_key (lk_entries b)) \<Longrightarrow>
    lk_schema_version a = lk_schema_version b \<Longrightarrow> render_lock_canonical a = render_lock_canonical b"
  using sort_entries_cong [of "lk_entries a" "lk_entries b"] by (simp add: render_lock_canonical_def)

section \<open>The derived lock\<close>

lemma bwf_fold_heads:
  "bwf m \<Longrightarrow> bwf (fold (\<lambda>x heads. if P x then bins (f x) (g x) heads else heads) xs m)"
  by (induction xs arbitrary: m) auto

lemma bwf_effective_heads: "bwf (effective_source_heads G)"
  unfolding effective_source_heads_def by (rule bwf_fold_heads) simp

lemma distinct_map_filter_keys:
  assumes "distinct (map fst xs)" "\<And>x e. x \<in> set xs \<Longrightarrow> f x = Some e \<Longrightarrow> le_document_key e = fst x"
  shows "distinct (map le_document_key (List.map_filter f xs))"
  using assms
proof (induction xs)
  case (Cons x xs)
  have keys: "le_document_key e \<in> fst ` set xs" if e: "e \<in> set (List.map_filter f xs)" for e
  proof -
    from e obtain y where "y \<in> set xs" "f y = Some e" by (auto simp: List.map_filter_def)
    with Cons.prems(2) [of y e] show ?thesis by simp
  qed
  have IH: "distinct (map le_document_key (List.map_filter f xs))"
    using Cons.prems by (intro Cons.IH) auto
  show ?case
  proof (cases "f x")
    case (Some e)
    then have "le_document_key e \<notin> fst ` set xs" using Cons.prems(1) Cons.prems(2) [of x e] by simp
    then have "\<forall>d \<in> set (List.map_filter f xs). le_document_key d \<noteq> le_document_key e"
      using keys by metis
    with IH Some show ?thesis by (auto simp: List.map_filter_simps)
  qed (simp add: IH List.map_filter_simps)
qed (simp add: List.map_filter_simps)

lemma derived_keys_distinct: "distinct (map le_document_key (lk_entries (derive_lock G)))"
proof -
  let ?es = "List.map_filter (\<lambda>(document_key, u).
       case cg_get G u of Some (SourceRevision revision) \<Rightarrow> Some (entry_from_revision document_key u revision)
       | _ \<Rightarrow> None) (effective_source_heads G)"
  have "distinct (map le_document_key ?es)"
    by (rule distinct_map_filter_keys)
      (auto simp: bwf_distinct [OF bwf_effective_heads] entry_from_revision_def split: option.splits node.splits)
  then show ?thesis by (simp add: derive_lock_def sort_entries_def distinct_map)
qed

lemma derived_sorted: "sort_entries (lk_entries (derive_lock G)) = lk_entries (derive_lock G)"
  by (simp add: derive_lock_def)

section \<open>Parsing\<close>

lemma fold_parse_entries:
  "fold_res parse_entry (seen, es) ws = Inr (seen', es') \<Longrightarrow>
    \<exists>fs. es' = es @ fs \<and> map le_document_key fs = map ew_document_key ws \<and>
      distinct (map le_document_key fs) \<and> set (map le_document_key fs) \<inter> set seen = {}"
proof (induction ws arbitrary: seen es)
  case (Cons w ws)
  from Cons.prems obtain acc where step: "parse_entry (seen, es) w = Inr acc"
    and rest: "fold_res parse_entry acc ws = Inr (seen', es')"
    by (cases "parse_entry (seen, es) w") simp_all
  from step obtain e where w: "ew_document_key w \<notin> set seen" "entry_from_wire w = Inr e"
    and acc: "acc = (ew_document_key w # seen, es @ [e])"
    by (auto simp: parse_entry_def rbind_Ok_iff split: if_splits)
  note rest = rest [unfolded acc]
  have k: "le_document_key e = ew_document_key w" using w(2)
    by (cases w) (auto simp: rbind_Ok_iff split: lock_capture_mode.splits option.splits)
  from Cons.IH [OF rest] obtain fs where fs: "es' = (es @ [e]) @ fs"
    "map le_document_key fs = map ew_document_key ws" "distinct (map le_document_key fs)"
    "set (map le_document_key fs) \<inter> set (ew_document_key w # seen) = {}" by blast
  then show ?case using w(1) k by (intro exI [of _ "e # fs"]) auto
qed simp

lemma parsed_keys_distinct:
  "parse_lock decode b = Inr lock \<Longrightarrow> distinct (map le_document_key (lk_entries lock)) \<and> is_utf8 b
    \<and> lk_schema_version lock \<le> supported_lock_schema"
  using fold_parse_entries [of "[]" "[]"]
  by (fastforce simp: parse_lock_def rbind_Ok_iff fail_if_Ok_iff map_err_Ok_iff)

fun wire_of_capture :: "lock_capture \<Rightarrow> lock_capture_mode \<times> external_control_id option" where
  "wire_of_capture LockVendored = (ModeVendored, None)"
| "wire_of_capture LockHashOnly = (ModeHashOnly, None)"
| "wire_of_capture (LockExternal external) = (ModeExternalControlled, Some external)"

definition wire_of :: "source_lock_entry \<Rightarrow> entry_wire" where
  "wire_of e = (case le_material e of
     LockAvailable digest capture \<Rightarrow> WireAvailable (le_document_key e) (le_source_uid e) digest
       (fst (wire_of_capture capture)) (snd (wire_of_capture capture))
   | LockUnavailable \<Rightarrow> WireUnavailable (le_document_key e) (le_source_uid e))"

lemma wire_of_key [simp]: "ew_document_key (wire_of e) = le_document_key e"
  by (simp add: wire_of_def split: lock_material.split)

lemma entry_from_wire_of: "entry_from_wire (wire_of e) = Inr e"
proof (cases "le_material e")
  case (LockAvailable digest capture)
  then show ?thesis by (cases capture) (simp_all add: wire_of_def)
qed (simp add: wire_of_def)

lemma fold_parse_wires:
  "distinct (map le_document_key fs) \<Longrightarrow> set (map le_document_key fs) \<inter> set seen = {} \<Longrightarrow>
    \<exists>seen'. fold_res parse_entry (seen, es) (map wire_of fs) = Inr (seen', es @ fs)"
proof (induction fs arbitrary: seen es)
  case (Cons f fs)
  then have "\<exists>seen'. fold_res parse_entry (le_document_key f # seen, es @ [f]) (map wire_of fs)
      = Inr (seen', (es @ [f]) @ fs)" by (intro Cons.IH) auto
  moreover have "parse_entry (seen, es) (wire_of f) = Inr (le_document_key f # seen, es @ [f])"
    using Cons.prems by (simp add: parse_entry_def entry_from_wire_of)
  ultimately show ?case by simp
qed simp

text \<open>What the TOML reader promises: a canonical rendering that is text, with digests of the
  accepted form, reads back as the entries in rendered order.\<close>

definition digest_ok :: "source_lock_entry \<Rightarrow> bool" where
  "digest_ok e \<longleftrightarrow> (case le_material e of
     LockAvailable digest _ \<Rightarrow> is_valid_digest_hex (scd_str digest) | LockUnavailable \<Rightarrow> True)"

definition lock_reader :: "(string \<Rightarrow> string + lock_file_wire) \<Rightarrow> source_lock \<Rightarrow> bool" where
  "lock_reader decode lock \<longleftrightarrow> (is_utf8 (render_lock_canonical lock) \<longrightarrow> (\<forall>e \<in> set (lk_entries lock). digest_ok e)
    \<longrightarrow> decode (render_lock_canonical lock) = Inr \<lparr>lw_schema_version = lk_schema_version lock,
          lw_entries = map wire_of (sort_entries (lk_entries lock))\<rparr>)"

lemma validate_lock_iff:
  assumes D: "\<And>v. v \<le> supported_lock_schema \<Longrightarrow> lock_reader decode ((derive_lock G)\<lparr>lk_schema_version := v\<rparr>)" and ok: "\<And>e. e \<in> set (lk_entries (derive_lock G)) \<Longrightarrow> digest_ok e"
  shows "validate_committed_lock X decode b G = Inr () \<longleftrightarrow> cg_validate X G = Inr () \<and> is_utf8 b \<and>
    (\<exists>v \<le> supported_lock_schema. b = render_lock_canonical ((derive_lock G)\<lparr>lk_schema_version := v\<rparr>))"
    (is "?L \<longleftrightarrow> ?R")
proof
  assume ?L
  then obtain committed where v: "cg_validate X G = Inr ()" and p: "parse_lock decode b = Inr committed"
    and c: "render_lock_canonical committed = b" and d: "diff_inventories (derive_lock G) committed = Inr ()"
    by (auto simp: validate_committed_lock_def rbind_Ok_iff map_err_Ok_iff fail_if_Ok_iff Let_def)
  note P = parsed_keys_distinct [OF p]
  from d have "set (lk_entries (derive_lock G)) = set (lk_entries committed)"
    by (simp add: diff_inventories_Ok_iff derived_keys_distinct P)
  then have "render_lock_canonical committed
      = render_lock_canonical ((derive_lock G)\<lparr>lk_schema_version := lk_schema_version committed\<rparr>)"
    using P derived_keys_distinct [of G] by (intro render_sorted) simp_all
  with v P c show ?R by auto
next
  assume ?R
  then obtain v where v: "cg_validate X G = Inr ()" "is_utf8 b" "v \<le> supported_lock_schema"
    "b = render_lock_canonical ((derive_lock G)\<lparr>lk_schema_version := v\<rparr>)" by blast
  let ?lock = "(derive_lock G)\<lparr>lk_schema_version := v\<rparr>"
  have dec: "decode b = Inr \<lparr>lw_schema_version = v, lw_entries = map wire_of (lk_entries (derive_lock G))\<rparr>"
    using D [OF v(3)] v(2,4) ok by (simp add: lock_reader_def derived_sorted)
  obtain seen where "fold_res parse_entry ([], []) (map wire_of (lk_entries (derive_lock G)))
      = Inr (seen, [] @ lk_entries (derive_lock G))"
    using fold_parse_wires [OF derived_keys_distinct [of G], of "[]" "[]"] by auto
  then have "parse_lock decode b = Inr ?lock" using v(2,3) dec
    by (simp add: parse_lock_def fail_if_def)
  moreover have "diff_inventories (derive_lock G) ?lock = Inr ()"
    by (simp add: diff_inventories_Ok_iff derived_keys_distinct)
  ultimately show ?L using v by (simp add: validate_committed_lock_def Let_def)
qed

section \<open>Transitions append\<close>

definition same_revision :: "source_revision_node \<Rightarrow> source_revision_node \<Rightarrow> bool" where
  "same_revision r q \<longleftrightarrow> project_revision q = project_revision r"

lemma same_revision_uid: "same_revision r q \<Longrightarrow> sr_uid q = sr_uid r"
  by (simp add: same_revision_def project_revision_def)

lemma same_revision_document: "same_revision r q \<Longrightarrow> sr_document_key q = sr_document_key r"
  by (simp add: same_revision_def project_revision_def)

lemma same_revision_supersedes: "same_revision r q \<Longrightarrow> supersedes_target q = supersedes_target r"
  by (simp add: same_revision_def project_revision_def)

lemma material_diff_None: "material_diff a b = None \<longleftrightarrow> a = b"
  by (cases a; cases b) auto

lemma projection_diff_None: "pj_uid a = pj_uid b \<Longrightarrow> projection_diff a b = None \<longleftrightarrow> a = b"
proof (rule iffI)
  assume "projection_diff a b = None" "pj_uid a = pj_uid b"
  then show "a = b"
    by (auto simp: projection_diff_def material_diff_None split: option.splits if_splits
        intro!: source_revision_projection.equality)
qed (simp add: projection_diff_def material_diff_None [THEN iffD2, OF refl])

lemma projection_diff_same [simp]: "projection_diff a a = None"
  by (simp add: projection_diff_None)

lemma check_kept_Ok_iff:
  assumes "cg_inv Q"
  shows "check_kept Q r = Inr () \<longleftrightarrow> (\<exists>q \<in> set (cg_revisions Q). same_revision r q)"
proof
  assume "check_kept Q r = Inr ()"
  then obtain q where q: "cg_get Q (sr_uid r) = Some (SourceRevision q)"
    and d: "projection_diff (project_revision r) (project_revision q) = None"
    by (auto simp: check_kept_def split: option.splits node.splits)
  from q have u: "sr_uid q = sr_uid r" using cg_get_uid [OF assms q] by simp
  with q have "q \<in> set (cg_revisions Q)" by (simp add: cg_revisions_iff [OF assms])
  have "project_revision r = project_revision q"
    using d u by (subst (asm) projection_diff_None) (simp_all add: project_revision_def)
  then have "same_revision r q" by (simp add: same_revision_def)
  with \<open>q \<in> _\<close> show "\<exists>q \<in> set (cg_revisions Q). same_revision r q" by blast
next
  assume "\<exists>q \<in> set (cg_revisions Q). same_revision r q"
  then obtain q where q: "q \<in> set (cg_revisions Q)" "same_revision r q" by blast
  then have "cg_get Q (sr_uid r) = Some (SourceRevision q)"
    using cg_revisions_iff [OF assms] same_revision_uid by metis
  with q(2) show "check_kept Q r = Inr ()"
    by (simp add: check_kept_def same_revision_def projection_diff_None)
qed

lemma find_supersedes: "find (\<lambda>(kind, target). kind = Supersedes) es = Some e \<Longrightarrow>
    snd e \<in> set (supersedes_targets es)"
  by (induction es) (auto simp: supersedes_targets_def split: if_splits)

lemma supersedes_target_in: "supersedes_target r = Some t \<Longrightarrow> t \<in> set (supersedes_targets (sr_edges r))"
  unfolding supersedes_target_def by (auto dest: find_supersedes)

lemma supersedes_target_unique:
  assumes "length (supersedes_targets (sr_edges r)) \<le> 1" "t \<in> set (supersedes_targets (sr_edges r))"
  shows "supersedes_target r = Some t"
proof -
  have "supersedes_target r \<noteq> None"
    using assms(2) by (auto simp: supersedes_target_def supersedes_targets_def find_None_iff)
  then obtain s where s: "supersedes_target r = Some s" by blast
  with assms show ?thesis using supersedes_target_in [OF s]
    by (cases "supersedes_targets (sr_edges r)") auto
qed

lemma same_uid_same_revision:
  assumes "cg_inv G" "r \<in> set (cg_revisions G)" "q \<in> set (cg_revisions G)" "sr_uid r = sr_uid q"
  shows "r = q"
proof -
  have "revision_lookup G (sr_uid q) = Some r" "revision_lookup G (sr_uid q) = Some q"
    using assms by (simp_all add: revision_lookup_iff)
  then show ?thesis by simp
qed

text \<open>No revision takes over the uid of a node of another kind.\<close>

definition uids_keep_kind :: "corpus_graph \<Rightarrow> corpus_graph \<Rightarrow> bool" where
  "uids_keep_kind P Q \<longleftrightarrow> (\<forall>q \<in> set (cg_revisions Q). \<forall>n. cg_get P (sr_uid q) = Some n \<longrightarrow>
     kind_of_node n = SourceRevisionKind)"

definition is_new :: "corpus_graph \<Rightarrow> source_revision_node \<Rightarrow> bool" where
  "is_new P q \<longleftrightarrow> cg_get P (sr_uid q) = None"

text \<open>What an accepted transition tells of two corpora.\<close>

lemma transition_facts:
  assumes P: "cg_inv P" and Q: "cg_inv Q" and t: "validate_source_transition X P Q = Inr ()"
  shows "edges_resolve P" "lineage_ok P" "edges_resolve Q" "lineage_ok Q"
    "\<And>r. r \<in> set (cg_revisions P) \<Longrightarrow> \<exists>q \<in> set (cg_revisions Q). same_revision r q"
    "\<And>q h. q \<in> set (cg_revisions Q) \<Longrightarrow> is_new P q \<Longrightarrow>
      bget (effective_source_heads P) (sr_document_key q) = Some h \<Longrightarrow> supersedes_target q = Some h"
proof -
  from t have a: "cg_validate X P = Inr ()" "cg_validate X Q = Inr ()"
    "\<forall>r \<in> set (cg_revisions P). check_kept Q r = Inr ()"
    "\<forall>q \<in> set (cg_revisions Q). check_extends P (effective_source_heads P) q = Inr ()"
    by (auto simp: validate_source_transition_def rbind_Ok_iff map_err_Ok_iff for_each_Ok_iff)
  from a(1,2) show "edges_resolve P" "lineage_ok P" "edges_resolve Q" "lineage_ok Q"
    by (auto simp: cg_validate_Ok_iff [OF P] cg_validate_Ok_iff [OF Q] corpus_ok_def)
  from a(3) show "\<exists>q \<in> set (cg_revisions Q). same_revision r q" if "r \<in> set (cg_revisions P)" for r
    using that by (simp add: check_kept_Ok_iff [OF Q])
  fix q h assume "q \<in> set (cg_revisions Q)" "is_new P q"
    "bget (effective_source_heads P) (sr_document_key q) = Some h"
  with a(4) show "supersedes_target q = Some h"
    by (auto simp: check_extends_def is_new_def fail_if_Ok_iff)
qed

lemma kept_revision_superseded:
  assumes P: "cg_inv P" and Q: "cg_inv Q" and t: "validate_source_transition X P Q = Inr ()"
    and p: "p \<in> set (cg_revisions P)" "q \<in> set (cg_revisions Q)" "sr_uid q = sr_uid p"
    and live: "sr_uid q \<notin> Range (revision_rel Q)"
  shows "sr_uid p \<notin> Range (revision_rel P)"
proof
  note T = transition_facts [OF P Q t]
  assume "sr_uid p \<in> Range (revision_rel P)"
  then obtain s where s: "s \<in> set (cg_revisions P)" "sr_uid p \<in> set (supersedes_targets (sr_edges s))"
    by (auto simp: revision_rel_iff [OF P])
  moreover have "length (supersedes_targets (sr_edges s)) \<le> 1"
    using T(2) s(1) by (auto simp: lineage_ok_def)
  ultimately have "supersedes_target s = Some (sr_uid p)" by (simp add: supersedes_target_unique)
  moreover from T(5) [OF s(1)] obtain s' where s': "s' \<in> set (cg_revisions Q)" "same_revision s s'"
    by blast
  ultimately have "supersedes_target s' = Some (sr_uid p)" by (simp add: same_revision_supersedes)
  then have "(sr_uid s', sr_uid q) \<in> revision_rel Q"
    using supersedes_target_in p(3) by (simp add: revision_rel_of [OF Q s'(1)])
  with live show False by blast
qed

lemma transition_head:
  assumes P: "cg_inv P" and Q: "cg_inv Q" and t: "validate_source_transition X P Q = Inr ()"
    and kind: "uids_keep_kind P Q" and r: "r \<in> set (cg_revisions P)"
  obtains h k where "h \<in> set (cg_revisions P)" "k \<in> set (cg_revisions Q)"
    "bget (effective_source_heads P) (sr_document_key r) = Some (sr_uid h)"
    "bget (effective_source_heads Q) (sr_document_key r) = Some (sr_uid k)"
    "same_revision h k \<and> (\<forall>n \<in> set (cg_revisions Q). sr_document_key n = sr_document_key r \<longrightarrow> \<not> is_new P n)
     \<or> is_new P k \<and> supersedes_target k = Some (sr_uid h) \<and>
       (\<forall>n \<in> set (cg_revisions Q). sr_document_key n = sr_document_key r \<longrightarrow> is_new P n \<longrightarrow> n = k)"
proof -
  note T = transition_facts [OF P Q t]
  from effective_head_of_document [OF T(2) P T(1) r] obtain h where
    h: "h \<in> set (cg_revisions P)" "sr_document_key h = sr_document_key r"
      "bget (effective_source_heads P) (sr_document_key r) = Some (sr_uid h)"
      "sr_uid h \<notin> Range (revision_rel P)" by blast
  from T(5) [OF r] obtain r' where r': "r' \<in> set (cg_revisions Q)" "same_revision r r'" by blast
  from effective_head_of_document [OF T(4) Q T(3) r'(1)] obtain k where
    k: "k \<in> set (cg_revisions Q)" "sr_document_key k = sr_document_key r"
      "bget (effective_source_heads Q) (sr_document_key r) = Some (sr_uid k)"
      "sr_uid k \<notin> Range (revision_rel Q)"
    using same_revision_document [OF r'(2)] by metis
  have new: "(sr_uid n, sr_uid h) \<in> revision_rel Q \<and> supersedes_target n = Some (sr_uid h)"
    if n: "n \<in> set (cg_revisions Q)" "sr_document_key n = sr_document_key r" "is_new P n" for n
  proof -
    have "supersedes_target n = Some (sr_uid h)" using T(6) [OF n(1,3)] n(2) h(3) by simp
    then show ?thesis using supersedes_target_in by (simp add: revision_rel_of [OF Q n(1)])
  qed
  show thesis
  proof (cases "is_new P k")
    case True
    have "n = k" if n: "n \<in> set (cg_revisions Q)" "sr_document_key n = sr_document_key r" "is_new P n" for n
    proof -
      have "single_valued ((revision_rel Q)\<inverse>)" using T(4) by (simp add: lineage_ok_def chain_rel_def)
      with new [OF n] new [OF k(1,2) True] have "sr_uid n = sr_uid k"
        by (meson converseI single_valuedD)
      then show ?thesis by (rule same_uid_same_revision [OF Q n(1) k(1)])
    qed
    with True new [OF k(1,2) True] show thesis by (intro that [OF h(1) k(1) h(3) k(3)]) blast
  next
    case False
    then obtain m where m: "cg_get P (sr_uid k) = Some m" by (auto simp: is_new_def)
    with kind k(1) have "kind_of_node m = SourceRevisionKind" by (auto simp: uids_keep_kind_def)
    then obtain p where "m = SourceRevision p" by (cases m) auto
    with m cg_get_uid [OF P m] have p: "p \<in> set (cg_revisions P)" "sr_uid p = sr_uid k"
      by (auto simp: cg_revisions_iff [OF P])
    from T(5) [OF p(1)] obtain q where q: "q \<in> set (cg_revisions Q)" "same_revision p q" by blast
    have [simp]: "q = k"
      by (rule same_uid_same_revision [OF Q q(1) k(1)]) (simp add: same_revision_uid [OF q(2)] p(2))
    have "sr_uid p \<notin> Range (revision_rel P)"
      using kept_revision_superseded [OF P Q t p(1) k(1) p(2) [symmetric] k(4)] .
    moreover have "sr_document_key p = sr_document_key h"
      using same_revision_document [OF q(2)] k(2) h(2) by simp
    ultimately have [simp]: "p = h" using T(2) h(1,4) p(1) unfolding lineage_ok_def by blast
    have none: "\<forall>n \<in> set (cg_revisions Q). sr_document_key n = sr_document_key r \<longrightarrow> \<not> is_new P n"
    proof (intro ballI impI notI)
      fix n assume n: "n \<in> set (cg_revisions Q)" "sr_document_key n = sr_document_key r" "is_new P n"
      from new [OF n] have "sr_uid h \<in> Range (revision_rel Q)" by blast
      with k(4) p(2) show False by simp
    qed
    have "same_revision h k" using q(2) by simp
    then show thesis by (rule that [OF h(1) k(1) h(3) k(3) disjI1 [OF conjI [OF _ none]]])
  qed
qed

end
