(* ===== verification/Lock_Properties.thy ===== *)
theory Lock_Properties
  imports Source_Lock_Spec Demo_Corpus
begin

text \<open>
  The properties of the source lock and of baseline transitions, with a document that gains a
  second revision as the concrete input.
\<close>

section \<open>Two baselines\<close>

definition demo_baseline :: "node list \<Rightarrow> corpus_graph" where
  "demo_baseline ns = \<lparr>cg_nodes = map (\<lambda>n. (node_uid n, n)) ns, cg_trace_metadata = [],
     cg_source_graphs = [], cg_source_patches = []\<rparr>"

definition demo_lock_first :: source_revision_node where
  "demo_lock_first = (demo_revision ''src_0'' ''guide'' [])
     \<lparr>sr_material := Available ''t'' (SourceContentDigest (replicate 64 CHR ''a'')) HashOnly\<rparr>"

definition demo_lock_second :: source_revision_node where
  "demo_lock_second = demo_revision ''src_1'' ''guide'' [(Supersedes, ''src_0'')]"

definition demo_lock_third :: source_revision_node where
  "demo_lock_third = demo_revision ''src_2'' ''guide'' [(Supersedes, ''src_1'')]"

definition demo_before :: corpus_graph where
  "demo_before = demo_baseline [SourceRevision demo_lock_first]"

definition demo_after :: corpus_graph where
  "demo_after = demo_baseline [SourceRevision demo_lock_first, SourceRevision demo_lock_second]"

lemma demo_before_inv: "cg_inv demo_before" "cg_inv demo_after"
  by (simp_all add: cg_inv_def demo_before_def demo_after_def demo_baseline_def bwf_def demo_lock_first_def
      demo_lock_second_def demo_revision_def)

lemma demo_transition: "validate_source_transition demo_platform demo_before demo_after = Inr ()"
  by code_simp

definition demo_render :: "u32 \<Rightarrow> bytes" where
  "demo_render v = render_lock_canonical ((derive_lock demo_before)\<lparr>lk_schema_version := v\<rparr>)"

text \<open>A reader of the two renderings the lock of the first baseline can have.\<close>

definition demo_decode :: "string \<Rightarrow> string + lock_file_wire" where
  "demo_decode s = (let es = map wire_of (lk_entries (derive_lock demo_before)) in
     if s = demo_render 1 then Ok \<lparr>lw_schema_version = 1, lw_entries = es\<rparr>
     else if s = demo_render 0 then Ok \<lparr>lw_schema_version = 0, lw_entries = es\<rparr>
     else Err ''not a lock'')"

lemma demo_renders: "demo_render 0 \<noteq> demo_render 1" "is_utf8 (demo_render 1)"
  by code_simp+

lemma word_le_1: "(v::u32) \<le> 1 \<Longrightarrow> v = 0 \<or> v = 1"
  by (auto simp: word_le_nat_alt le_Suc_eq word_unat_eq_iff)

lemma demo_reader:
  "v \<le> supported_lock_schema \<Longrightarrow> lock_reader demo_decode ((derive_lock demo_before)\<lparr>lk_schema_version := v\<rparr>)"
  using demo_renders(1) word_le_1 [of v] derived_sorted [of demo_before]
  by (auto simp: lock_reader_def demo_decode_def supported_lock_schema_def demo_render_def)

lemma demo_digests: "e \<in> set (lk_entries (derive_lock demo_before)) \<Longrightarrow> digest_ok e"
proof -
  have "list_all digest_ok (lk_entries (derive_lock demo_before))" by code_simp
  then show "e \<in> set (lk_entries (derive_lock demo_before)) \<Longrightarrow> digest_ok e" by (simp add: list_all_iff)
qed

section \<open>The properties\<close>

text \<open>C24: a committed source lock is accepted for a graph exactly when the graph is valid and the
  committed bytes are, byte for byte, the canonical rendering of the lock derived from the graph, at
  a schema version up to the supported one: no missing, extra or changed document, no other order,
  spelling or whitespace. The reader is the argument; what is asked of it is that it reads the
  canonical renderings of this lock back.\<close>

theorem validate_committed_lock_iff:
  assumes "\<forall>v \<le> supported_lock_schema. lock_reader decode ((derive_lock G)\<lparr>lk_schema_version := v\<rparr>)"
    and "\<forall>e \<in> set (lk_entries (derive_lock G)). digest_ok e"
  shows "validate_committed_lock X decode b G = Inr () \<longleftrightarrow> cg_validate X G = Inr () \<and> is_utf8 b \<and>
    (\<exists>v \<le> supported_lock_schema. b = render_lock_canonical ((derive_lock G)\<lparr>lk_schema_version := v\<rparr>))"
  using assms by (intro validate_lock_iff) blast+

theorem validate_committed_lock_iff_witness:
  "validate_committed_lock demo_platform demo_decode (demo_render 1) demo_before = Inr ()"
proof -
  have "cg_validate demo_platform demo_before = Inr ()" by code_simp
  moreover have "(1::u32) \<le> supported_lock_schema" by (simp add: supported_lock_schema_def)
  ultimately show ?thesis
    using validate_committed_lock_iff [of demo_decode demo_before demo_platform "demo_render 1"]
      demo_reader demo_digests demo_renders(2) unfolding demo_render_def by blast
qed

text \<open>C25: a baseline transition between graphs with the representation invariant only appends,
  provided that no revision of the proposed graph takes the uid of another kind of node of the prior
  graph (a requirement's or a test's, say). When such a transition is accepted, every document of the
  prior graph either keeps its effective head, unchanged and with no revision of it added, or gains
  exactly one revision, which supersedes the prior head and is the new head. Without the proviso two revisions can be
  appended at once (\<open>requirement_uid_hides_revision\<close>).\<close>

theorem transition_appends:
  assumes "cg_inv P" "cg_inv Q" "validate_source_transition X P Q = Inr ()"
    and "uids_keep_kind P Q" "r \<in> set (cg_revisions P)"
  shows "\<exists>h \<in> set (cg_revisions P). \<exists>k \<in> set (cg_revisions Q).
    bget (effective_source_heads P) (sr_document_key r) = Some (sr_uid h) \<and>
    bget (effective_source_heads Q) (sr_document_key r) = Some (sr_uid k) \<and>
    (same_revision h k \<and> (\<forall>n \<in> set (cg_revisions Q). sr_document_key n = sr_document_key r \<longrightarrow> \<not> is_new P n)
     \<or> is_new P k \<and> supersedes_target k = Some (sr_uid h) \<and>
       (\<forall>n \<in> set (cg_revisions Q). sr_document_key n = sr_document_key r \<longrightarrow> is_new P n \<longrightarrow> n = k))"
  by (rule transition_head [OF assms]) blast

theorem transition_appends_witness:
  "\<exists>h k. bget (effective_source_heads demo_before) ''guide'' = Some (sr_uid h) \<and>
    bget (effective_source_heads demo_after) ''guide'' = Some (sr_uid k) \<and>
    (same_revision h k \<or> supersedes_target k = Some (sr_uid h))"
proof -
  have "uids_keep_kind demo_before demo_after"
    by (simp add: uids_keep_kind_def demo_before_def demo_after_def demo_baseline_def cg_revisions_def
        cg_node_list_def bvals_def List.map_filter_simps cg_get_def demo_lock_first_def demo_lock_second_def
        demo_revision_def)
  moreover have "demo_lock_first \<in> set (cg_revisions demo_before)"
    by (simp add: demo_before_def demo_baseline_def cg_revisions_def
        cg_node_list_def bvals_def List.map_filter_simps)
  moreover have "sr_document_key demo_lock_first = ''guide''" by (simp add: demo_lock_first_def demo_revision_def)
  ultimately show ?thesis
    using transition_appends [OF demo_before_inv demo_transition, of demo_lock_first] by metis
qed

text \<open>The check that a new revision extends the prior head is skipped for every uid the prior
  graph knows, a requirement's too: with that requirement the transition appends two revisions of
  the document at once, without it the same proposed graph is rejected.\<close>

definition demo_requirement_before :: corpus_graph where
  "demo_requirement_before = demo_baseline [SourceRevision demo_lock_first, Requirement (demo_req\<lparr>rq_uid := ''src_2''\<rparr>)]"

definition demo_two_more :: corpus_graph where
  "demo_two_more = demo_baseline [SourceRevision demo_lock_first, SourceRevision demo_lock_second, SourceRevision demo_lock_third]"

theorem requirement_uid_hides_revision:
  "validate_source_transition demo_platform demo_requirement_before demo_two_more = Inr ()"
  "validate_source_transition demo_platform demo_before demo_two_more
    = Err (SE_SourceTransitionCompetingHead ''src_2'' ''guide'' ''src_0'')"
  by code_simp+

end
