(* ===== verification/Corpus_Loader.thy ===== *)
theory Corpus_Loader
  imports Corpus_Validation Test_Output
begin

text \<open>
  Loading a committed corpus: the record loaders of the five planes
  (\<^verbatim>\<open>corpus/source/records.rs\<close>, \<^verbatim>\<open>corpus/source_graph/records.rs\<close>,
  \<^verbatim>\<open>corpus/source_patch/records.rs\<close>, \<^verbatim>\<open>corpus/records.rs\<close>,
  \<^verbatim>\<open>corpus/review_records.rs\<close>) and the index that names their files
  (\<^verbatim>\<open>corpus/index.rs\<close>). The host, the TOML reader and the directory walker are parameters.
\<close>

section \<open>What the loader reads\<close>

record source_revision_record =
  sv_uid :: string
  sv_id :: string
  sv_document_key :: string
  sv_title :: string
  sv_media_type :: string
  sv_canonical_location :: string
  sv_material :: source_material
  sv_supersedes :: "string option"

record source_node_record =
  nr_uid :: string
  nr_source_revision_uid :: string
  nr_parent_uid :: "string option"
  nr_kind :: source_node_kind
  nr_ordinal :: u32
  nr_label :: "string option"
  nr_canonical_text :: string
  nr_content_sha256 :: structural_content_digest
  nr_fingerprint :: structural_content_digest
  nr_locator :: source_locator

record requirement_record =
  qr_uid :: string
  qr_id :: string
  qr_layer :: requirement_layer
  qr_title :: string
  qr_derives_from :: "string list"
  qr_description :: "string option"
  qr_rationale :: "string option"
  qr_scope :: "string option"
  qr_category :: "string option"
  qr_source :: "string option"
  qr_verification_methods :: "string list"
  qr_safety_impact :: "string option"

record review_target_wire =
  tw_kind :: review_target_kind
  tw_uid :: string

record review_record =
  wr_uid :: string
  wr_id :: string
  wr_requirement_uid :: "string option"
  wr_target :: "review_target_wire option"
  wr_content_schema :: u32
  wr_reviewed_content_sha256 :: review_content_digest
  wr_decision :: review_decision
  wr_reviewer :: string
  wr_reviewed_at :: string
  wr_rationale :: "string option"
  wr_supersedes_review_uid :: "string option"

text \<open>A record file: its schema version and its records.\<close>

record 'r record_file =
  rf_schema_version :: u32
  rf_records :: "'r list"

record index_file =
  xf_schema_version :: u32
  xf_sources :: "string list"
  xf_source_graphs :: "string list"
  xf_source_patches :: "string list"
  xf_requirements :: "string list"
  xf_ambiguities :: "string list"
  xf_decisions :: "string list"
  xf_profiles :: "string list"
  xf_reviews :: "string list"
  xf_tests :: "string list"

text \<open>The files of the host, the walker (one item per entry: an error, or the path and whether
  it is a regular file), and the TOML reader at each of the types it is used at.\<close>

record corpus_host =
  ch_read :: "string \<Rightarrow> string + string"
  ch_is_dir :: "string \<Rightarrow> bool"
  ch_is_file :: "string \<Rightarrow> bool"
  ch_walk :: "string \<Rightarrow> (string + string \<times> bool) list"
  ch_index :: "string \<Rightarrow> string + index_file"
  ch_sources :: "string \<Rightarrow> string + source_revision_record record_file"
  ch_source_nodes :: "string \<Rightarrow> string + source_node_record record_file"
  ch_source_patch :: "string \<Rightarrow> string + source_patch_file"
  ch_requirements :: "string \<Rightarrow> string + requirement_record record_file"
  ch_reviews :: "string \<Rightarrow> string + review_record record_file"

text \<open>The beginning the loaders share: read, parse, check the version.\<close>

definition read_records ::
  "('r record_file \<Rightarrow> u32) \<Rightarrow> (string \<Rightarrow> 'e) \<Rightarrow> (string \<Rightarrow> 'e) \<Rightarrow> (u32 \<Rightarrow> u32 \<Rightarrow> 'e) \<Rightarrow> u32
    \<Rightarrow> string + string \<Rightarrow> (string \<Rightarrow> string + 'r record_file) \<Rightarrow> 'e + 'r record_file" where
  "read_records version read_error parse_error too_new supported raw decode =
    rbind (map_err read_error raw) (\<lambda>text.
    rbind (map_err parse_error (decode text)) (\<lambda>file.
    rbind (fail_if (supported < version file) (too_new (version file) supported)) (\<lambda>_. Ok file)))"

section \<open>Source revisions\<close>

definition supported_source_schema :: u32 where
  "supported_source_schema = 1"

definition validate_source_uid :: "platform \<Rightarrow> uid \<Rightarrow> corpus_error source_error + unit" where
  "validate_source_uid X u = validate_native_uid X u source_uid_prefix SE_NativeUidPrefix SE_NativeUidUuidV4"

definition valid_media_name :: "string \<Rightarrow> bool" where
  "valid_media_name name \<longleftrightarrow> name \<noteq> [] \<and> is_ascii_alphanumeric (hd name) \<and>
    (\<forall>b \<in> set name. is_ascii_alphanumeric b \<or> b \<in> set ''!#$&-^_.+'')"

definition is_valid_media_type :: "string \<Rightarrow> bool" where
  "is_valid_media_type value = (case split_once ''/'' value of
     None \<Rightarrow> False | Some (media_type, subtype) \<Rightarrow> valid_media_name media_type \<and> valid_media_name subtype)"

definition validate_capture ::
  "string \<Rightarrow> source_revision_record \<Rightarrow> source_capture \<Rightarrow> corpus_error source_error + unit" where
  "validate_capture path record capture = (case capture of
     Vendored wire_path \<Rightarrow> map_err (SE_SourceVendoredPath path (sv_uid record) (sv_id record) wire_path)
       (validate_vendored_wire_path wire_path)
   | HashOnly \<Rightarrow> Ok ()
   | ExternalControlled system immutable_id \<Rightarrow>
       rbind (fail_if (is_blank system) (SE_SourceCaptureSystem path (sv_uid record) (sv_id record))) (\<lambda>_.
       fail_if (is_blank immutable_id) (SE_SourceCaptureImmutableId path (sv_uid record) (sv_id record))))"

definition validate_material ::
  "platform \<Rightarrow> string \<Rightarrow> source_revision_record \<Rightarrow> corpus_error source_error + unit" where
  "validate_material X path record = (case sv_material record of
     Available retrieved_at _ capture \<Rightarrow>
       rbind (fail_if (\<not> is_rfc3339 X retrieved_at)
         (SE_SourceTimestamp path (sv_uid record) (sv_id record) retrieved_at)) (\<lambda>_.
       validate_capture path record capture)
   | Unavailable reason \<Rightarrow>
       fail_if (is_blank reason) (SE_SourceReason path (sv_uid record) (sv_id record)))"

definition validate_source_record ::
  "platform \<Rightarrow> string \<Rightarrow> source_revision_record \<Rightarrow> corpus_error source_error + unit" where
  "validate_source_record X path record =
    rbind (validate_source_uid X (sv_uid record)) (\<lambda>_.
    rbind (fail_if (is_blank (sv_id record)) (SE_SourceHumanId path (sv_uid record))) (\<lambda>_.
    rbind (fail_if (is_blank (sv_document_key record))
      (SE_SourceDocumentKey path (sv_uid record) (sv_id record))) (\<lambda>_.
    rbind (fail_if (is_blank (sv_title record)) (SE_SourceTitle path (sv_uid record) (sv_id record))) (\<lambda>_.
    rbind (fail_if (\<not> is_valid_media_type (sv_media_type record))
      (SE_SourceMediaType path (sv_uid record) (sv_id record) (sv_media_type record))) (\<lambda>_.
    rbind (fail_if (is_blank (sv_canonical_location record))
      (SE_SourceCanonicalLocation path (sv_uid record) (sv_id record))) (\<lambda>_.
    rbind (validate_material X path record) (\<lambda>_.
    on_some (validate_source_uid X) (sv_supersedes record))))))))"

definition source_revision_of :: "source_revision_record \<Rightarrow> source_revision_node" where
  "source_revision_of record = \<lparr>sr_uid = sv_uid record, sr_id = sv_id record,
     sr_document_key = sv_document_key record, sr_title = sv_title record,
     sr_media_type = sv_media_type record, sr_canonical_location = sv_canonical_location record,
     sr_material = sv_material record,
     sr_edges = (case sv_supersedes record of None \<Rightarrow> [] | Some target \<Rightarrow> [(Supersedes, target)])\<rparr>"

fun source_from_insert :: "corpus_error \<Rightarrow> corpus_error source_error" where
  "source_from_insert (CE_DuplicateUid u) = SE_DuplicateUid u"
| "source_from_insert (CE_DuplicateHumanId i kind first_uid duplicate_uid) =
     SE_DuplicateHumanId i kind first_uid duplicate_uid"
| "source_from_insert (CE_DuplicateEdge from_uid to_uid kind) = SE_DuplicateEdge from_uid to_uid kind"
| "source_from_insert other = SE_UnexpectedInsertError other"

definition load_source ::
  "platform \<Rightarrow> string \<Rightarrow> corpus_graph \<Rightarrow> source_revision_record \<Rightarrow> corpus_error source_error + corpus_graph" where
  "load_source X path G record =
    rbind (validate_source_record X path record) (\<lambda>_.
    map_err source_from_insert (cg_insert G (SourceRevision (source_revision_of record))))"

definition load_sources_into ::
  "platform \<Rightarrow> corpus_host \<Rightarrow> string \<Rightarrow> corpus_graph \<Rightarrow> corpus_error source_error + corpus_graph" where
  "load_sources_into X H path G =
    rbind (read_records rf_schema_version (SE_RecordRead path) (SE_RecordParse path) (SE_RecordSchemaTooNew path)
      supported_source_schema (ch_read H path) (ch_sources H)) (\<lambda>file.
    fold_res (load_source X path) G (rf_records file))"

section \<open>Source nodes\<close>

definition supported_source_graph_schema :: u32 where
  "supported_source_graph_schema = 1"

definition validate_node_uid :: "platform \<Rightarrow> uid \<Rightarrow> source_graph_error + unit" where
  "validate_node_uid X u = validate_native_uid X u snode_uid_prefix SG_NativeUidPrefix SG_NativeUidUuidV4"

definition validate_node_record ::
  "platform \<Rightarrow> string \<Rightarrow> source_node_record \<Rightarrow> source_graph_error + unit" where
  "validate_node_record X path record =
    rbind (validate_node_uid X (nr_uid record)) (\<lambda>_.
    rbind (validate_native_uid X (nr_source_revision_uid record) source_uid_prefix
      SG_NativeUidPrefix SG_NativeUidUuidV4) (\<lambda>_.
    rbind (on_some (validate_node_uid X) (nr_parent_uid record)) (\<lambda>_.
    rbind (on_some (\<lambda>label. fail_if (is_blank label) (SG_NodeLabel path (nr_uid record)))
      (nr_label record)) (\<lambda>_.
    map_err (\<lambda>err. SG_InvalidLocatorField path (nr_uid record) (lf_field err) (lf_value err) (lf_rule err))
      (locator_validate X (nr_locator record))))))"

definition source_node_of :: "source_node_record \<Rightarrow> source_node" where
  "source_node_of record = \<lparr>sn_uid = nr_uid record, sn_source_revision_uid = nr_source_revision_uid record,
     sn_parent_uid = nr_parent_uid record, sn_kind = nr_kind record, sn_ordinal = nr_ordinal record,
     sn_label = nr_label record, sn_canonical_text = nr_canonical_text record,
     sn_content_sha256 = nr_content_sha256 record, sn_fingerprint = nr_fingerprint record,
     sn_locator = nr_locator record\<rparr>"

definition load_source_node ::
  "platform \<Rightarrow> string \<Rightarrow> corpus_graph \<Rightarrow> source_node_record \<Rightarrow> source_graph_error + corpus_graph" where
  "load_source_node X path G record =
    rbind (validate_node_record X path record) (\<lambda>_. insert_source_node G (source_node_of record))"

definition load_source_graphs_into ::
  "platform \<Rightarrow> corpus_host \<Rightarrow> string \<Rightarrow> corpus_graph \<Rightarrow> source_graph_error + corpus_graph" where
  "load_source_graphs_into X H path G =
    rbind (read_records rf_schema_version (SG_RecordRead path) (SG_RecordParse path) (SG_RecordSchemaTooNew path)
      supported_source_graph_schema (ch_read H path) (ch_source_nodes H)) (\<lambda>file.
    fold_res (load_source_node X path) G (rf_records file))"

section \<open>Curated patches\<close>

definition load_source_patches_into ::
  "platform \<Rightarrow> corpus_host \<Rightarrow> string \<Rightarrow> corpus_graph \<Rightarrow> source_patch_error + corpus_graph" where
  "load_source_patches_into X H path G =
    rbind (map_err (SP_RecordRead path) (ch_read H path)) (\<lambda>raw.
    rbind (parse_source_patch X path (ch_source_patch H raw)) (\<lambda>record.
    insert_source_patch G record))"

section \<open>Requirements\<close>

definition supported_records_schema :: u32 where
  "supported_records_schema = 1"

definition requirement_uid_prefix :: string where
  "requirement_uid_prefix = ''req_''"

definition validate_requirement_uid :: "platform \<Rightarrow> uid \<Rightarrow> corpus_error + unit" where
  "validate_requirement_uid X u =
    validate_native_uid X u requirement_uid_prefix CE_NativeUidPrefix CE_NativeUidUuidV4"

definition requirement_of :: "requirement_record \<Rightarrow> requirement_node" where
  "requirement_of record = \<lparr>rq_uid = qr_uid record, rq_id = qr_id record, rq_title = qr_title record,
     rq_layer = qr_layer record, rq_edges = map (Pair DerivesFrom) (qr_derives_from record),
     rq_description = qr_description record, rq_rationale = qr_rationale record,
     rq_scope = qr_scope record, rq_category = qr_category record, rq_source = qr_source record,
     rq_verification_methods = canonical_strings (qr_verification_methods record),
     rq_safety_impact = qr_safety_impact record\<rparr>"

definition load_requirement ::
  "platform \<Rightarrow> corpus_graph \<Rightarrow> requirement_record \<Rightarrow> corpus_error + corpus_graph" where
  "load_requirement X G record =
    rbind (validate_requirement_uid X (qr_uid record)) (\<lambda>_.
    cg_insert G (Requirement (requirement_of record)))"

definition load_requirements_into ::
  "platform \<Rightarrow> corpus_host \<Rightarrow> string \<Rightarrow> corpus_graph \<Rightarrow> corpus_error + corpus_graph" where
  "load_requirements_into X H path G =
    rbind (read_records rf_schema_version (CE_RecordRead path) (CE_RecordParse path) (CE_RecordSchemaTooNew path)
      supported_records_schema (ch_read H path) (ch_requirements H)) (\<lambda>file.
    fold_res (load_requirement X) G (rf_records file))"

section \<open>Reviews\<close>

definition supported_review_schema :: u32 where
  "supported_review_schema = 2"

definition review_uid_prefix :: string where
  "review_uid_prefix = ''rev_''"

definition validate_review_uid :: "platform \<Rightarrow> uid \<Rightarrow> corpus_error review_error + unit" where
  "validate_review_uid X u = validate_native_uid X u review_uid_prefix RE_NativeUidPrefix RE_NativeUidUuidV4"

definition resolve_target ::
  "platform \<Rightarrow> string \<Rightarrow> u32 \<Rightarrow> review_record \<Rightarrow> corpus_error review_error + review_target" where
  "resolve_target X path schema_version record =
    (let shape_err = RE_ReviewTargetShape path (wr_uid record) (wr_id record) schema_version;
         legacy = schema_version < 2 in
     case (legacy, wr_requirement_uid record, wr_target record) of
       (True, Some requirement_uid, None) \<Rightarrow>
         rbind (validate_native_uid X requirement_uid requirement_uid_prefix
           RE_NativeUidPrefix RE_NativeUidUuidV4) (\<lambda>_. Ok (RequirementTarget requirement_uid))
     | (True, _, _) \<Rightarrow> Err (shape_err ''the legacy `requirement_uid` field and no `target` table''
         ''a missing `requirement_uid` or a present `target` table'')
     | (False, None, Some target) \<Rightarrow>
         rbind (validate_native_uid X (tw_uid target)
           (case tw_kind target of TargetRequirement \<Rightarrow> requirement_uid_prefix
             | TargetCuratedPatch \<Rightarrow> patch_uid_prefix) RE_NativeUidPrefix RE_NativeUidUuidV4) (\<lambda>_.
         Ok (case tw_kind target of TargetRequirement \<Rightarrow> RequirementTarget (tw_uid target)
           | TargetCuratedPatch \<Rightarrow> CuratedPatchTarget (tw_uid target)))
     | (False, _, _) \<Rightarrow> Err (shape_err ''the typed `target` table and no `requirement_uid` field''
         ''a missing `target` table or a present `requirement_uid` field''))"

definition validate_review_record ::
  "platform \<Rightarrow> string \<Rightarrow> u32 \<Rightarrow> review_record \<Rightarrow> corpus_error review_error + review_target" where
  "validate_review_record X path schema_version record =
    rbind (validate_review_uid X (wr_uid record)) (\<lambda>_.
    rbind (fail_if (is_blank (wr_id record)) (RE_ReviewHumanId path (wr_uid record))) (\<lambda>_.
    rbind (resolve_target X path schema_version record) (\<lambda>target.
    rbind (fail_if (wr_content_schema record \<noteq> supported_review_content_schema)
      (RE_ReviewContentSchema path (wr_uid record) (wr_id record) (wr_content_schema record)
        supported_review_content_schema)) (\<lambda>_.
    rbind (fail_if (is_blank (wr_reviewer record)) (RE_ReviewReviewer path (wr_uid record) (wr_id record))) (\<lambda>_.
    rbind (fail_if (\<not> is_rfc3339 X (wr_reviewed_at record))
      (RE_ReviewTimestamp path (wr_uid record) (wr_id record) (wr_reviewed_at record))) (\<lambda>_.
    rbind (fail_if (wr_decision record = Reject \<and>
        (case wr_rationale record of None \<Rightarrow> True | Some rationale \<Rightarrow> is_blank rationale))
      (RE_ReviewRationale path (wr_uid record) (wr_id record))) (\<lambda>_.
    rbind (on_some (validate_review_uid X) (wr_supersedes_review_uid record)) (\<lambda>_.
    Ok target))))))))"

definition review_of :: "review_record \<Rightarrow> review_target \<Rightarrow> review_node" where
  "review_of record target = \<lparr>rv_uid = wr_uid record, rv_id = wr_id record, rv_target = target,
     rv_content_schema = wr_content_schema record,
     rv_reviewed_content_sha256 = wr_reviewed_content_sha256 record,
     rv_decision = wr_decision record, rv_reviewer = wr_reviewer record,
     rv_reviewed_at = wr_reviewed_at record, rv_rationale = wr_rationale record,
     rv_edges = (Reviews, target_uid target) # (case wr_supersedes_review_uid record of
       None \<Rightarrow> [] | Some t \<Rightarrow> [(Supersedes, t)])\<rparr>"

fun review_from_insert :: "corpus_error \<Rightarrow> corpus_error review_error" where
  "review_from_insert (CE_DuplicateUid u) = RE_DuplicateUid u"
| "review_from_insert (CE_DuplicateHumanId i kind first_uid duplicate_uid) =
     RE_DuplicateHumanId i kind first_uid duplicate_uid"
| "review_from_insert (CE_DuplicateEdge from_uid to_uid kind) = RE_DuplicateEdge from_uid to_uid kind"
| "review_from_insert other = RE_UnexpectedInsertError other"

definition load_review ::
  "platform \<Rightarrow> string \<Rightarrow> u32 \<Rightarrow> corpus_graph \<Rightarrow> review_record \<Rightarrow> corpus_error review_error + corpus_graph" where
  "load_review X path schema_version G record =
    rbind (validate_review_record X path schema_version record) (\<lambda>target.
    map_err review_from_insert (cg_insert G (Review (review_of record target))))"

definition load_reviews_into ::
  "platform \<Rightarrow> corpus_host \<Rightarrow> string \<Rightarrow> corpus_graph \<Rightarrow> corpus_error review_error + corpus_graph" where
  "load_reviews_into X H path G =
    rbind (read_records rf_schema_version (RE_RecordRead path) (RE_RecordParse path) (RE_RecordSchemaTooNew path)
      supported_review_schema (ch_read H path) (ch_reviews H)) (\<lambda>file.
    fold_res (load_review X path (rf_schema_version file)) G (rf_records file))"

section \<open>The index\<close>

definition supported_index_schema :: u32 where
  "supported_index_schema = 1"

record corpus_index =
  ci_source_files :: "string list"
  ci_source_graph_files :: "string list"
  ci_source_patch_files :: "string list"
  ci_requirement_files :: "string list"
  ci_review_files :: "string list"

definition reject_unsupported :: "index_file \<Rightarrow> corpus_error + unit" where
  "reject_unsupported file =
    for_each (\<lambda>(kind, entries). fail_if (entries \<noteq> []) (CE_UnsupportedKind kind))
      [(''ambiguities'', xf_ambiguities file), (''decisions'', xf_decisions file),
       (''profiles'', xf_profiles file), (''tests'', xf_tests file)]"

definition strip_suffix :: "string \<Rightarrow> string \<Rightarrow> string option" where
  "strip_suffix p s = map_option List.rev (strip_prefix (List.rev p) (List.rev s))"

text \<open>\<^verbatim>\<open>Path::join\<close> and the ordering of paths, which is by components.\<close>

definition path_join :: "string \<Rightarrow> string \<Rightarrow> string" where
  "path_join root entry =
    (if entry \<noteq> [] \<and> hd entry = CHR ''/'' then entry
     else if root = [] \<or> last root = CHR ''/'' then root @ entry else root @ ''/'' @ entry)"

definition path_parts :: "string \<Rightarrow> string list" where
  "path_parts p = filter (\<lambda>c. c \<noteq> '''' \<and> c \<noteq> ''.'') (split_on (CHR ''/'') p)"

text \<open>\<^verbatim>\<open>extension() == "toml"\<close>: the last component has a dot after its first character, and what
  follows the last one is the extension.\<close>

definition has_toml_extension :: "string \<Rightarrow> bool" where
  "has_toml_extension p \<longleftrightarrow> (case path_parts p of [] \<Rightarrow> False
     | parts \<Rightarrow> (case strip_suffix ''.toml'' (last parts) of None \<Rightarrow> False | Some stem \<Rightarrow> stem \<noteq> []))"

definition walk_step ::
  "string \<Rightarrow> string list \<Rightarrow> string + string \<times> bool \<Rightarrow> corpus_error + string list" where
  "walk_step dir files walked =
    rbind (map_err (CE_PatternWalk dir) walked) (\<lambda>(path, regular).
    Ok (if regular \<and> has_toml_extension path then files @ [path] else files))"

definition resolve_entry :: "corpus_host \<Rightarrow> string \<Rightarrow> string \<Rightarrow> corpus_error + string list" where
  "resolve_entry H root entry = (case strip_suffix ''/**/*.toml'' entry of
     Some dir \<Rightarrow>
       (let dir = path_join root dir in
        rbind (fail_if (\<not> ch_is_dir H dir) (CE_EmptyIndexEntry entry)) (\<lambda>_.
        rbind (fold_res (walk_step dir) [] (ch_walk H dir)) (\<lambda>files.
        rbind (fail_if (files = []) (CE_EmptyIndexEntry entry)) (\<lambda>_.
        Ok (sort_key path_parts files)))))
   | None \<Rightarrow>
       (let path = path_join root entry in
        rbind (fail_if (\<not> ch_is_file H path) (CE_EmptyIndexEntry entry)) (\<lambda>_. Ok [path])))"

definition resolve_all :: "corpus_host \<Rightarrow> string \<Rightarrow> string list \<Rightarrow> corpus_error + string list" where
  "resolve_all H root entries =
    fold_res (\<lambda>files entry. rbind (resolve_entry H root entry) (\<lambda>more. Ok (files @ more))) [] entries"

text \<open>\<^verbatim>\<open>path.parent().unwrap_or_else(|| Path::new("."))\<close>: the text before the last component,
  without trailing separators and current-directory steps; a path with no component has no parent.\<close>

function trim_rev :: "string \<Rightarrow> string" where
  "trim_rev [] = []"
| "trim_rev (c # s) = (if c = CHR ''/'' \<or> c = CHR ''.'' \<and> s \<noteq> [] \<and> hd s = CHR ''/''
     then trim_rev s else c # s)"
  by pat_completeness auto
termination by (relation "measure length") simp_all

definition trim_separators :: "string \<Rightarrow> string" where
  "trim_separators s = List.rev (trim_rev (List.rev s))"

definition index_root :: "string \<Rightarrow> string" where
  "index_root path = (let p = trim_separators path in
    if p = [] then ''.''
    else (let kept = List.rev (dropWhile (\<lambda>c. c \<noteq> CHR ''/'') (List.rev p)) in
      if kept = [] then [] else if trim_separators kept = [] then ''/'' else trim_separators kept))"

definition index_load :: "corpus_host \<Rightarrow> string \<Rightarrow> corpus_error + corpus_index" where
  "index_load H path =
    rbind (map_err (CE_IndexRead path) (ch_read H path)) (\<lambda>raw.
    rbind (map_err (CE_IndexParse path) (ch_index H raw)) (\<lambda>file.
    rbind (fail_if (supported_index_schema < xf_schema_version file)
      (CE_IndexSchemaTooNew path (xf_schema_version file) supported_index_schema)) (\<lambda>_.
    rbind (reject_unsupported file) (\<lambda>_.
    let root = index_root path in
    rbind (resolve_all H root (xf_sources file)) (\<lambda>source_files.
    rbind (resolve_all H root (xf_source_graphs file)) (\<lambda>source_graph_files.
    rbind (resolve_all H root (xf_source_patches file)) (\<lambda>source_patch_files.
    rbind (resolve_all H root (xf_requirements file)) (\<lambda>requirement_files.
    rbind (resolve_all H root (xf_reviews file)) (\<lambda>review_files.
    Ok \<lparr>ci_source_files = source_files, ci_source_graph_files = source_graph_files,
      ci_source_patch_files = source_patch_files, ci_requirement_files = requirement_files,
      ci_review_files = review_files\<rparr>)))))))))"

definition load_indexed :: "platform \<Rightarrow> corpus_host \<Rightarrow> corpus_index \<Rightarrow> corpus_error + corpus_graph" where
  "load_indexed X H index =
    rbind (fold_res (\<lambda>G file. map_err CE_Source (load_sources_into X H file G))
      cg_new (ci_source_files index)) (\<lambda>G.
    rbind (fold_res (\<lambda>G file. map_err CE_SourceGraph (load_source_graphs_into X H file G))
      G (ci_source_graph_files index)) (\<lambda>G.
    rbind (fold_res (\<lambda>G file. map_err CE_SourcePatch (load_source_patches_into X H file G))
      G (ci_source_patch_files index)) (\<lambda>G.
    rbind (fold_res (\<lambda>G file. load_requirements_into X H file G) G (ci_requirement_files index)) (\<lambda>G.
    fold_res (\<lambda>G file. map_err CE_Review (load_reviews_into X H file G)) G (ci_review_files index)))))"

definition load_graph :: "platform \<Rightarrow> corpus_host \<Rightarrow> string \<Rightarrow> corpus_error + corpus_graph" where
  "load_graph X H path =
    rbind (index_load H path) (\<lambda>index.
    rbind (load_indexed X H index) (\<lambda>G.
    rbind (cg_validate X G) (\<lambda>_. Ok G)))"

end
