(* ===== verification/Loader_Spec.thy ===== *)
theory Loader_Spec
  imports Corpus_Loader Lifecycle "HOL-Library.Multiset"
begin

text \<open>
  What a load amounts to: the items its files hold, put into the empty corpus one by one. The order
  of the items does not matter, so neither does the layout of the files.
\<close>

section \<open>Insertions that commute\<close>

locale commuting =
  fixes ins :: "'s \<Rightarrow> 'a \<Rightarrow> 'e + 's" and inv :: "'s \<Rightarrow> bool"
  assumes keeps: "inv s \<Longrightarrow> ins s a = Inr t \<Longrightarrow> inv t"
    and swap: "inv s \<Longrightarrow> ins s a = Inr t \<Longrightarrow> ins t b = Inr u \<Longrightarrow>
      \<exists>v. ins s b = Inr v \<and> ins v a = Inr u"
begin

lemma to_front:
  assumes "inv s" "fold_res ins s (xs @ y # ys) = Inr u"
  shows "fold_res ins s (y # xs @ ys) = Inr u"
  using assms
proof (induction xs arbitrary: s)
  case (Cons x xs)
  from Cons.prems(2) obtain t where t: "ins s x = Inr t" "fold_res ins t (xs @ y # ys) = Inr u"
    by (auto split: sum.splits)
  from Cons.IH [OF keeps [OF Cons.prems(1) t(1)] t(2)] obtain r where
    r: "ins t y = Inr r" "fold_res ins r (xs @ ys) = Inr u" by (auto split: sum.splits)
  from swap [OF Cons.prems(1) t(1) r(1)] r(2) show ?case by auto
qed simp

lemma fold_permuted:
  "inv s \<Longrightarrow> mset xs = mset ys \<Longrightarrow> fold_res ins s xs = Inr u \<Longrightarrow> fold_res ins s ys = Inr u"
proof (induction ys arbitrary: s xs)
  case (Cons y ys)
  then obtain as bs where xs: "xs = as @ y # bs"
    by (metis list.set_intros(1) mset_eq_setD split_list)
  with Cons.prems(2) have rest: "mset (as @ bs) = mset ys" by simp
  from to_front [OF Cons.prems(1) Cons.prems(3) [unfolded xs]] obtain t where
    t: "ins s y = Inr t" "fold_res ins t (as @ bs) = Inr u" by (auto split: sum.splits)
  from Cons.IH [OF keeps [OF Cons.prems(1) t(1)] rest t(2)] t(1) show ?case by simp
qed simp

lemma fold_keeps: "inv s \<Longrightarrow> fold_res ins s xs = Inr t \<Longrightarrow> inv t"
  by (erule fold_res_invariant) (auto intro: keeps)

end

section \<open>Items\<close>

datatype corpus_item = NodeItem node | SourceNodeItem source_node | PatchItem source_patch_record

fun put_item :: "corpus_graph \<Rightarrow> corpus_item \<Rightarrow> unit + corpus_graph" where
  "put_item G (NodeItem n) = map_err (\<lambda>_. ()) (cg_insert G n)"
| "put_item G (SourceNodeItem n) = map_err (\<lambda>_. ()) (insert_source_node G n)"
| "put_item G (PatchItem p) = map_err (\<lambda>_. ()) (insert_source_patch G p)"

lemma bins_commute:
  assumes "bwf m" "j \<noteq> k"
  shows "bins j x (bins k y m) = bins k y (bins j x m)"
  by (rule bm.entries_unique) (use assms in auto)

lemma sg_insert_iff:
  "sg_insert g n = Inr h \<longleftrightarrow> sg_get g (sn_uid n) = None \<and> h = bins (sn_uid n) n g \<and>
    (\<forall>l. sn_label n = Some l \<longrightarrow> (\<forall>m \<in> set (sg_nodes g). sn_kind m = sn_kind n \<longrightarrow> sn_label m \<noteq> Some l))"
  (is "_ \<longleftrightarrow> ?R")
proof
  assume "sg_insert g n = Inr h"
  from sg_insert_OkD [OF this] show ?R by blast
next
  assume b: ?R
  then have "find (\<lambda>m. sn_kind m = sn_kind n \<and> sn_label m = Some l) (sg_nodes g) = None"
    if "sn_label n = Some l" for l
    using that by (auto simp: find_None_iff)
  with b show "sg_insert g n = Inr h" by (auto simp: sg_insert_def split: option.split)
qed

lemma sg_insert_swap:
  assumes g: "sg_inv g" and a: "sg_insert g a = Inr h" and b: "sg_insert h b = Inr i"
  shows "\<exists>j. sg_insert g b = Inr j \<and> sg_insert j a = Inr i"
proof -
  have h: "sg_inv h" using g a by (rule sg_insert_inv)
  note A = a [unfolded sg_insert_iff] and B = b [unfolded sg_insert_iff]
  have get: "sg_get h u = (if u = sn_uid a then Some a else sg_get g u)" for u
    by (rule sg_insert_get [OF a])
  have ne: "sn_uid a \<noteq> sn_uid b" using B get [of "sn_uid b"] by auto
  have nodes: "set (sg_nodes h) = insert a (set (sg_nodes g))" by (rule sg_insert_nodes [OF g a])
  have b0: "sg_insert g b = Inr (bins (sn_uid b) b g)"
    using B ne get [of "sn_uid b"] unfolding sg_insert_iff nodes by simp
  have "set (sg_nodes (bins (sn_uid b) b g)) = insert b (set (sg_nodes g))"
    by (rule sg_insert_nodes [OF g b0])
  moreover have "\<forall>l. sn_label a = Some l \<longrightarrow> sn_kind b = sn_kind a \<longrightarrow> sn_label b \<noteq> Some l"
    using B unfolding nodes by auto
  moreover have "sg_get (bins (sn_uid b) b g) (sn_uid a) = None"
    using A ne sg_insert_get [OF b0, of "sn_uid a"] by simp
  ultimately have "sg_insert (bins (sn_uid b) b g) a = Inr (bins (sn_uid a) a (bins (sn_uid b) b g))"
    using A unfolding sg_insert_iff by simp
  moreover have "bins (sn_uid a) a (bins (sn_uid b) b g) = i"
    using A B bins_commute [OF sg_inv_bwf [OF g] ne] by simp
  ultimately show ?thesis using b0 by blast
qed

lemma cg_insert_swap:
  assumes G: "cg_inv G" and a: "cg_insert G a = Inr H" and b: "cg_insert H b = Inr K"
  shows "\<exists>L. cg_insert G b = Inr L \<and> cg_insert L a = Inr K"
proof -
  note A = a [unfolded cg_insert_Ok_iff] and B = b [unfolded cg_insert_Ok_iff]
  have wf: "bwf (cg_nodes G)" using G by (simp add: cg_inv_def)
  have ne: "node_uid a \<noteq> node_uid b" using A B by (auto simp: cg_get_def)
  have nodes: "set (cg_node_list H) = insert (map_node_edges sort a) (set (cg_node_list G))"
    by (rule cg_insert_nodes(2) [OF G a])
  let ?L = "G\<lparr>cg_nodes := bins (node_uid b) (map_node_edges sort b) (cg_nodes G)\<rparr>"
  have b0: "cg_insert G b = Inr ?L"
    using A B ne nodes by (auto simp: cg_insert_Ok_iff cg_get_def)
  have "set (cg_node_list ?L) = insert (map_node_edges sort b) (set (cg_node_list G))"
    by (rule cg_insert_nodes(2) [OF G b0])
  then have "cg_insert ?L a = Inr (?L\<lparr>cg_nodes := bins (node_uid a) (map_node_edges sort a) (cg_nodes ?L)\<rparr>)"
    using A B ne nodes by (auto simp: cg_insert_Ok_iff cg_get_def)
  also have "?L\<lparr>cg_nodes := bins (node_uid a) (map_node_edges sort a) (cg_nodes ?L)\<rparr> = K"
    using A B bins_commute [OF wf ne] by simp
  finally show ?thesis using b0 by blast
qed

lemma insert_source_patch_swap:
  assumes G: "cg_inv G" and a: "insert_source_patch G a = Inr H" and b: "insert_source_patch H b = Inr K"
  shows "\<exists>L. insert_source_patch G b = Inr L \<and> insert_source_patch L a = Inr K"
proof -
  note A = a [unfolded insert_source_patch_Ok_iff] and B = b [unfolded insert_source_patch_Ok_iff]
  have wf: "bwf (cg_source_patches G)" using G by (simp add: cg_inv_def)
  have ne: "sp_uid a \<noteq> sp_uid b" using A B by (auto simp: cg_source_patch_def)
  have fresh: "bget (cg_source_patches G) (sp_uid a) = None" "bget (cg_source_patches G) (sp_uid b) = None"
    using A B ne by (auto simp: cg_source_patch_def)
  have vals: "set (bvals (bins (sp_uid a) a (cg_source_patches G))) = insert a (set (bvals (cg_source_patches G)))"
    "set (bvals (bins (sp_uid b) b (cg_source_patches G))) = insert b (set (bvals (cg_source_patches G)))"
    using bvals_bins [OF wf] fresh by blast+
  let ?L = "G\<lparr>cg_source_patches := bins (sp_uid b) b (cg_source_patches G)\<rparr>"
  have "insert_source_patch G b = Inr ?L"
    using B fresh A vals by (auto simp: insert_source_patch_Ok_iff cg_source_patch_def)
  moreover have "insert_source_patch ?L a
      = Inr (?L\<lparr>cg_source_patches := bins (sp_uid a) a (cg_source_patches ?L)\<rparr>)"
    using A B fresh ne vals by (auto simp: insert_source_patch_Ok_iff cg_source_patch_def)
  moreover have "?L\<lparr>cg_source_patches := bins (sp_uid a) a (cg_source_patches ?L)\<rparr> = K"
    using A B bins_commute [OF wf ne] by simp
  ultimately show ?thesis by auto
qed

definition graph_of_revision :: "corpus_graph \<Rightarrow> uid \<Rightarrow> source_graph" where
  "graph_of_revision G r = (case bget (cg_source_graphs G) r of None \<Rightarrow> sg_new | Some g \<Rightarrow> g)"

lemma insert_source_node_Ok_iff:
  "insert_source_node G n = Inr H \<longleftrightarrow> (\<exists>g. sg_insert (graph_of_revision G (sn_source_revision_uid n)) n = Inr g
    \<and> H = G\<lparr>cg_source_graphs := bins (sn_source_revision_uid n) g (cg_source_graphs G)\<rparr>)"
  by (auto simp: insert_source_node_def graph_of_revision_def Let_def rbind_Ok_iff)

lemma graph_of_revision_inv: "cg_inv G \<Longrightarrow> sg_inv (graph_of_revision G r)"
  by (auto simp: graph_of_revision_def cg_inv_def of_revision_def dest: bget_Some_in split: option.split)

lemma graph_of_revision_upd [simp]:
  "graph_of_revision (G\<lparr>cg_source_graphs := bins r g (cg_source_graphs G)\<rparr>) s
    = (if s = r then g else graph_of_revision G s)"
  by (simp add: graph_of_revision_def)

lemma bins_same: "bwf m \<Longrightarrow> bins k v (bins k w m) = bins k v m"
  by (rule bm.entries_unique) auto

lemma insert_source_node_swap:
  assumes G: "cg_inv G" and a: "insert_source_node G a = Inr H" and b: "insert_source_node H b = Inr K"
  shows "\<exists>L. insert_source_node G b = Inr L \<and> insert_source_node L a = Inr K"
proof -
  let ?r = "sn_source_revision_uid a" and ?s = "sn_source_revision_uid b"
  have wf: "bwf (cg_source_graphs G)" using G by (simp add: cg_inv_def)
  from a obtain g where g: "sg_insert (graph_of_revision G ?r) a = Inr g"
    "H = G\<lparr>cg_source_graphs := bins ?r g (cg_source_graphs G)\<rparr>" by (auto simp: insert_source_node_Ok_iff)
  from b obtain h where h: "sg_insert (graph_of_revision H ?s) b = Inr h"
    "K = H\<lparr>cg_source_graphs := bins ?s h (cg_source_graphs H)\<rparr>" by (auto simp: insert_source_node_Ok_iff)
  show ?thesis
  proof (cases "?s = ?r")
    case True
    with g(2) h(1) have "sg_insert g b = Inr h" by simp
    from sg_insert_swap [OF graph_of_revision_inv [OF G] g(1) this] obtain j where
      j: "sg_insert (graph_of_revision G ?r) b = Inr j" "sg_insert j a = Inr h" by blast
    let ?L = "G\<lparr>cg_source_graphs := bins ?r j (cg_source_graphs G)\<rparr>"
    have "insert_source_node G b = Inr ?L" using j(1) True by (auto simp: insert_source_node_Ok_iff)
    moreover have "insert_source_node ?L a = Inr K"
      using j(2) g(2) h(2) True by (auto simp: insert_source_node_Ok_iff bins_same wf)
    ultimately show ?thesis by blast
  next
    case False
    let ?L = "G\<lparr>cg_source_graphs := bins ?s h (cg_source_graphs G)\<rparr>"
    have "insert_source_node G b = Inr ?L" using h(1) g(2) False by (auto simp: insert_source_node_Ok_iff)
    moreover have "insert_source_node ?L a = Inr K"
      using g h(2) False bins_commute [OF wf, of ?r ?s] by (auto simp: insert_source_node_Ok_iff)
    ultimately show ?thesis by blast
  qed
qed

lemma put_item_Ok_iff:
  "put_item G (NodeItem n) = Inr H \<longleftrightarrow> cg_insert G n = Inr H"
  "put_item G (SourceNodeItem m) = Inr H \<longleftrightarrow> insert_source_node G m = Inr H"
  "put_item G (PatchItem p) = Inr H \<longleftrightarrow> insert_source_patch G p = Inr H"
  by (simp_all add: map_err_Ok_iff)

lemmas plane_simps = cg_insert_Ok_iff insert_source_node_Ok_iff insert_source_patch_Ok_iff
  cg_get_def cg_node_list_def graph_of_revision_def cg_source_patch_def

lemma put_item_other_plane:
  "cg_insert G n = Inr H \<Longrightarrow> insert_source_node H m = Inr K \<Longrightarrow>
    \<exists>L. insert_source_node G m = Inr L \<and> cg_insert L n = Inr K"
  "cg_insert G n = Inr H \<Longrightarrow> insert_source_patch H p = Inr K \<Longrightarrow>
    \<exists>L. insert_source_patch G p = Inr L \<and> cg_insert L n = Inr K"
  "insert_source_node G m = Inr H \<Longrightarrow> cg_insert H n = Inr K \<Longrightarrow>
    \<exists>L. cg_insert G n = Inr L \<and> insert_source_node L m = Inr K"
  "insert_source_node G m = Inr H \<Longrightarrow> insert_source_patch H p = Inr K \<Longrightarrow>
    \<exists>L. insert_source_patch G p = Inr L \<and> insert_source_node L m = Inr K"
  "insert_source_patch G p = Inr H \<Longrightarrow> cg_insert H n = Inr K \<Longrightarrow>
    \<exists>L. cg_insert G n = Inr L \<and> insert_source_patch L p = Inr K"
  "insert_source_patch G p = Inr H \<Longrightarrow> insert_source_node H m = Inr K \<Longrightarrow>
    \<exists>L. insert_source_node G m = Inr L \<and> insert_source_patch L p = Inr K"
  by (auto simp: plane_simps)

lemma cg_ok_inv: "cg_ok G \<Longrightarrow> cg_inv G"
  by (simp add: cg_ok_def)

interpretation items: commuting put_item cg_ok
proof unfold_locales
  fix G H i
  assume "cg_ok G" "put_item G i = Inr H"
  then show "cg_ok H"
    by (cases i) (auto simp: put_item_Ok_iff simp del: put_item.simps
        intro: cg_insert_ok insert_source_node_ok insert_source_patch_ok)
next
  fix G H K i j
  assume G: "cg_ok G" and i: "put_item G i = Inr H" and j: "put_item H j = Inr K"
  note inv = cg_ok_inv [OF G]
  show "\<exists>L. put_item G j = Inr L \<and> put_item L i = Inr K"
    using i j cg_insert_swap [OF inv] insert_source_node_swap [OF inv] insert_source_patch_swap [OF inv]
      put_item_other_plane
    by (cases i; cases j) (simp_all add: put_item_Ok_iff del: put_item.simps)
qed

section \<open>From files to items\<close>

lemma fold_checked:
  assumes "\<And>G r H. f G r = Inr H \<longleftrightarrow> V r \<and> put_item G (h r) = Inr H"
  shows "fold_res f G rs = Inr H \<longleftrightarrow> (\<forall>r \<in> set rs. V r) \<and> fold_res put_item G (map h rs) = Inr H"
proof (induction rs arbitrary: G)
  case (Cons r rs)
  have "fold_res f G (r # rs) = Inr H \<longleftrightarrow> (\<exists>K. f G r = Inr K \<and> fold_res f K rs = Inr H)"
    by (auto split: sum.splits)
  also have "\<dots> \<longleftrightarrow> (\<forall>r \<in> set (r # rs). V r) \<and> (\<exists>K. put_item G (h r) = Inr K \<and>
      fold_res put_item K (map h rs) = Inr H)"
    by (auto simp: assms Cons.IH)
  also have "(\<exists>K. put_item G (h r) = Inr K \<and> fold_res put_item K (map h rs) = Inr H) \<longleftrightarrow>
      fold_res put_item G (map h (r # rs)) = Inr H"
    by (auto split: sum.splits)
  finally show ?case .
qed simp

lemma fold_append_iff:
  "fold_res f s (xs @ ys) = Inr u \<longleftrightarrow> (\<exists>t. fold_res f s xs = Inr t \<and> fold_res f t ys = Inr u)"
  by (cases "fold_res f s xs") (simp_all add: fold_res_append)

lemma fold_files:
  assumes "\<And>G p H. F G p = Inr H \<longleftrightarrow> (\<exists>is. R p is \<and> fold_res put_item G is = Inr H)"
  shows "fold_res F G ps = Inr H \<longleftrightarrow>
    (\<exists>iss. list_all2 R ps iss \<and> fold_res put_item G (concat iss) = Inr H)"
proof (induction ps arbitrary: G)
  case (Cons p ps)
  have "fold_res F G (p # ps) = Inr H \<longleftrightarrow> (\<exists>K. F G p = Inr K \<and> fold_res F K ps = Inr H)"
    by (auto split: sum.splits)
  also have "\<dots> \<longleftrightarrow> (\<exists>is iss K. R p is \<and> fold_res put_item G is = Inr K \<and> list_all2 R ps iss
      \<and> fold_res put_item K (concat iss) = Inr H)"
    by (auto simp: assms Cons.IH)
  also have "\<dots> \<longleftrightarrow> (\<exists>is iss. R p is \<and> list_all2 R ps iss \<and>
      fold_res put_item G (is @ concat iss) = Inr H)"
    by (simp add: fold_append_iff) blast
  also have "\<dots> \<longleftrightarrow> (\<exists>iss. list_all2 R (p # ps) iss \<and> fold_res put_item G (concat iss) = Inr H)"
  proof (intro iffI; elim exE conjE)
    fix "is" iss assume "R p is" "list_all2 R ps iss" "fold_res put_item G (is @ concat iss) = Inr H"
    then show "\<exists>iss. list_all2 R (p # ps) iss \<and> fold_res put_item G (concat iss) = Inr H"
      by (intro exI [of _ "is # iss"]) simp
  next
    fix iss assume "list_all2 R (p # ps) iss" "fold_res put_item G (concat iss) = Inr H"
    then show "\<exists>is iss. R p is \<and> list_all2 R ps iss \<and> fold_res put_item G (is @ concat iss) = Inr H"
      by (cases iss) auto
  qed
  finally show ?case .
qed simp

lemma read_records_Ok_iff:
  "read_records version e1 e2 e3 n raw decode = Inr file \<longleftrightarrow>
    (\<exists>text. raw = Inr text \<and> decode text = Inr file) \<and> version file \<le> n"
  by (auto simp: read_records_def rbind_Ok_iff map_err_Ok_iff fail_if_Ok_iff)

text \<open>A file that holds valid records, and their items.\<close>

definition holds ::
  "(string + string) \<Rightarrow> (string \<Rightarrow> string + 'r record_file) \<Rightarrow> u32 \<Rightarrow> (u32 \<Rightarrow> 'r \<Rightarrow> bool)
    \<Rightarrow> (u32 \<Rightarrow> 'r \<Rightarrow> corpus_item) \<Rightarrow> corpus_item list \<Rightarrow> bool" where
  "holds raw decode supported valid item is \<longleftrightarrow> (\<exists>text file. raw = Inr text \<and> decode text = Inr file \<and>
    rf_schema_version file \<le> supported \<and> (\<forall>r \<in> set (rf_records file). valid (rf_schema_version file) r) \<and>
    is = map (item (rf_schema_version file)) (rf_records file))"

lemma holds_unique: "holds a b c d e is \<Longrightarrow> holds a b c d e js \<Longrightarrow> is = js"
  by (auto simp: holds_def)

definition source_item :: "source_revision_record \<Rightarrow> corpus_item" where
  "source_item r = NodeItem (SourceRevision (source_revision_of r))"

definition node_item :: "source_node_record \<Rightarrow> corpus_item" where
  "node_item r = SourceNodeItem (source_node_of r)"

definition requirement_item :: "requirement_record \<Rightarrow> corpus_item" where
  "requirement_item r = NodeItem (Requirement (requirement_of r))"

definition declared_target :: "u32 \<Rightarrow> review_record \<Rightarrow> review_target" where
  "declared_target v r = (if v < 2 then RequirementTarget (the (wr_requirement_uid r))
     else case tw_kind (the (wr_target r)) of
       TargetRequirement \<Rightarrow> RequirementTarget (tw_uid (the (wr_target r)))
     | TargetCuratedPatch \<Rightarrow> CuratedPatchTarget (tw_uid (the (wr_target r))))"

definition review_item :: "u32 \<Rightarrow> review_record \<Rightarrow> corpus_item" where
  "review_item v r = NodeItem (Review (review_of r (declared_target v r)))"

lemma resolve_target_declared: "resolve_target X path v r = Inr t \<Longrightarrow> t = declared_target v r"
  by (auto simp: resolve_target_def declared_target_def Let_def rbind_Ok_iff
      split: option.splits bool.splits if_splits review_target_kind.splits)

lemma validate_review_declared: "validate_review_record X path v r = Inr t \<Longrightarrow> t = declared_target v r"
  by (auto simp: validate_review_record_def rbind_Ok_iff dest: resolve_target_declared)

definition source_file_holds :: "platform \<Rightarrow> corpus_host \<Rightarrow> string \<Rightarrow> corpus_item list \<Rightarrow> bool" where
  "source_file_holds X H p = holds (ch_read H p) (ch_sources H) supported_source_schema
     (\<lambda>_ r. validate_source_record X p r = Inr ()) (\<lambda>_. source_item)"

definition graph_file_holds :: "platform \<Rightarrow> corpus_host \<Rightarrow> string \<Rightarrow> corpus_item list \<Rightarrow> bool" where
  "graph_file_holds X H p = holds (ch_read H p) (ch_source_nodes H) supported_source_graph_schema
     (\<lambda>_ r. validate_node_record X p r = Inr ()) (\<lambda>_. node_item)"

definition patch_file_holds :: "platform \<Rightarrow> corpus_host \<Rightarrow> string \<Rightarrow> corpus_item list \<Rightarrow> bool" where
  "patch_file_holds X H p is \<longleftrightarrow> (\<exists>text record. ch_read H p = Inr text \<and>
     parse_source_patch X p (ch_source_patch H text) = Inr record \<and> is = [PatchItem record])"

definition requirement_file_holds :: "platform \<Rightarrow> corpus_host \<Rightarrow> string \<Rightarrow> corpus_item list \<Rightarrow> bool" where
  "requirement_file_holds X H p = holds (ch_read H p) (ch_requirements H) supported_records_schema
     (\<lambda>_ r. validate_requirement_uid X (qr_uid r) = Inr ()) (\<lambda>_. requirement_item)"

definition review_file_holds :: "platform \<Rightarrow> corpus_host \<Rightarrow> string \<Rightarrow> corpus_item list \<Rightarrow> bool" where
  "review_file_holds X H p = holds (ch_read H p) (ch_reviews H) supported_review_schema
     (\<lambda>v r. \<exists>t. validate_review_record X p v r = Inr t) review_item"

lemmas file_holds_defs = source_file_holds_def graph_file_holds_def patch_file_holds_def
  requirement_file_holds_def review_file_holds_def

lemma load_sources_iff:
  "map_err CE_Source (load_sources_into X H p G) = Inr K \<longleftrightarrow>
    (\<exists>is. source_file_holds X H p is \<and> fold_res put_item G is = Inr K)"
proof -
  have "fold_res (load_source X p) G rs = Inr K \<longleftrightarrow> (\<forall>r \<in> set rs. validate_source_record X p r = Inr ())
      \<and> fold_res put_item G (map source_item rs) = Inr K" for rs
    by (rule fold_checked) (auto simp: load_source_def rbind_Ok_iff map_err_Ok_iff source_item_def)
  then show ?thesis
    by (auto simp: load_sources_into_def rbind_Ok_iff map_err_Ok_iff read_records_Ok_iff
        source_file_holds_def holds_def)
qed

lemma load_graphs_iff:
  "map_err CE_SourceGraph (load_source_graphs_into X H p G) = Inr K \<longleftrightarrow>
    (\<exists>is. graph_file_holds X H p is \<and> fold_res put_item G is = Inr K)"
proof -
  have "fold_res (load_source_node X p) G rs = Inr K \<longleftrightarrow> (\<forall>r \<in> set rs. validate_node_record X p r = Inr ())
      \<and> fold_res put_item G (map node_item rs) = Inr K" for rs
    by (rule fold_checked) (auto simp: load_source_node_def rbind_Ok_iff map_err_Ok_iff node_item_def)
  then show ?thesis
    by (auto simp: load_source_graphs_into_def rbind_Ok_iff map_err_Ok_iff read_records_Ok_iff
        graph_file_holds_def holds_def)
qed

lemma load_patches_iff:
  "map_err CE_SourcePatch (load_source_patches_into X H p G) = Inr K \<longleftrightarrow>
    (\<exists>is. patch_file_holds X H p is \<and> fold_res put_item G is = Inr K)"
  by (auto simp: load_source_patches_into_def rbind_Ok_iff map_err_Ok_iff patch_file_holds_def
      split: sum.splits)

lemma load_requirements_iff:
  "load_requirements_into X H p G = Inr K \<longleftrightarrow>
    (\<exists>is. requirement_file_holds X H p is \<and> fold_res put_item G is = Inr K)"
proof -
  have "fold_res (load_requirement X) G rs = Inr K \<longleftrightarrow>
      (\<forall>r \<in> set rs. validate_requirement_uid X (qr_uid r) = Inr ())
      \<and> fold_res put_item G (map requirement_item rs) = Inr K" for rs
    by (rule fold_checked) (auto simp: load_requirement_def rbind_Ok_iff map_err_Ok_iff requirement_item_def)
  then show ?thesis
    by (auto simp: load_requirements_into_def rbind_Ok_iff map_err_Ok_iff read_records_Ok_iff
        requirement_file_holds_def holds_def)
qed

lemma load_reviews_iff:
  "map_err CE_Review (load_reviews_into X H p G) = Inr K \<longleftrightarrow>
    (\<exists>is. review_file_holds X H p is \<and> fold_res put_item G is = Inr K)"
proof -
  have "fold_res (load_review X p v) G rs = Inr K \<longleftrightarrow>
      (\<forall>r \<in> set rs. \<exists>t. validate_review_record X p v r = Inr t)
      \<and> fold_res put_item G (map (review_item v) rs) = Inr K" for rs v
    by (rule fold_checked) (auto simp: load_review_def rbind_Ok_iff map_err_Ok_iff review_item_def
        dest: validate_review_declared)
  then show ?thesis
    by (auto simp: load_reviews_into_def rbind_Ok_iff map_err_Ok_iff read_records_Ok_iff
        review_file_holds_def holds_def)
qed

section \<open>From an index to items\<close>

definition index_holds :: "platform \<Rightarrow> corpus_host \<Rightarrow> corpus_index \<Rightarrow> corpus_item list \<Rightarrow> bool" where
  "index_holds X H ix is \<longleftrightarrow> (\<exists>a b c d e. list_all2 (source_file_holds X H) (ci_source_files ix) a \<and>
     list_all2 (graph_file_holds X H) (ci_source_graph_files ix) b \<and>
     list_all2 (patch_file_holds X H) (ci_source_patch_files ix) c \<and>
     list_all2 (requirement_file_holds X H) (ci_requirement_files ix) d \<and>
     list_all2 (review_file_holds X H) (ci_review_files ix) e \<and>
     is = concat a @ concat b @ concat c @ concat d @ concat e)"

definition corpus_holds :: "platform \<Rightarrow> corpus_host \<Rightarrow> string \<Rightarrow> corpus_item list \<Rightarrow> bool" where
  "corpus_holds X H path is \<longleftrightarrow> (\<exists>ix. index_load H path = Inr ix \<and> index_holds X H ix is)"

lemma load_indexed_iff:
  "load_indexed X H ix = Inr G \<longleftrightarrow> (\<exists>is. index_holds X H ix is \<and> fold_res put_item cg_new is = Inr G)"
proof -
  note folds = fold_files [OF load_sources_iff] fold_files [OF load_graphs_iff]
    fold_files [OF load_patches_iff] fold_files [OF load_requirements_iff] fold_files [OF load_reviews_iff]
  show ?thesis
  proof
    assume "load_indexed X H ix = Inr G"
    then obtain G1 G2 G3 G4 a b c d e where
      "list_all2 (source_file_holds X H) (ci_source_files ix) a" "fold_res put_item cg_new (concat a) = Inr G1"
      "list_all2 (graph_file_holds X H) (ci_source_graph_files ix) b" "fold_res put_item G1 (concat b) = Inr G2"
      "list_all2 (patch_file_holds X H) (ci_source_patch_files ix) c" "fold_res put_item G2 (concat c) = Inr G3"
      "list_all2 (requirement_file_holds X H) (ci_requirement_files ix) d" "fold_res put_item G3 (concat d) = Inr G4"
      "list_all2 (review_file_holds X H) (ci_review_files ix) e" "fold_res put_item G4 (concat e) = Inr G"
      unfolding load_indexed_def rbind_Ok_iff folds by blast
    then have "fold_res put_item cg_new (concat a @ concat b @ concat c @ concat d @ concat e) = Inr G
      \<and> index_holds X H ix (concat a @ concat b @ concat c @ concat d @ concat e)"
      unfolding fold_append_iff index_holds_def by blast
    then show "\<exists>is. index_holds X H ix is \<and> fold_res put_item cg_new is = Inr G" by blast
  next
    assume "\<exists>is. index_holds X H ix is \<and> fold_res put_item cg_new is = Inr G"
    then obtain a b c d e where
      "list_all2 (source_file_holds X H) (ci_source_files ix) a"
      "list_all2 (graph_file_holds X H) (ci_source_graph_files ix) b"
      "list_all2 (patch_file_holds X H) (ci_source_patch_files ix) c"
      "list_all2 (requirement_file_holds X H) (ci_requirement_files ix) d"
      "list_all2 (review_file_holds X H) (ci_review_files ix) e"
      "fold_res put_item cg_new (concat a @ concat b @ concat c @ concat d @ concat e) = Inr G"
      unfolding index_holds_def by blast
    then show "load_indexed X H ix = Inr G"
      unfolding load_indexed_def rbind_Ok_iff folds fold_append_iff by blast
  qed
qed

lemma list_all2_unique:
  "list_all2 R ps xs \<Longrightarrow> list_all2 R ps ys \<Longrightarrow> (\<And>p x y. R p x \<Longrightarrow> R p y \<Longrightarrow> x = y) \<Longrightarrow> xs = ys"
  by (induction ps arbitrary: xs ys) (auto simp: list_all2_Cons1)

lemma file_holds_unique:
  "source_file_holds X H p is \<Longrightarrow> source_file_holds X H p js \<Longrightarrow> is = js"
  "graph_file_holds X H p is \<Longrightarrow> graph_file_holds X H p js \<Longrightarrow> is = js"
  "patch_file_holds X H p is \<Longrightarrow> patch_file_holds X H p js \<Longrightarrow> is = js"
  "requirement_file_holds X H p is \<Longrightarrow> requirement_file_holds X H p js \<Longrightarrow> is = js"
  "review_file_holds X H p is \<Longrightarrow> review_file_holds X H p js \<Longrightarrow> is = js"
  unfolding source_file_holds_def graph_file_holds_def requirement_file_holds_def review_file_holds_def
  by (erule (1) holds_unique, erule (1) holds_unique, force simp: patch_file_holds_def,
      erule (1) holds_unique, erule (1) holds_unique)

lemma index_holds_unique: "index_holds X H ix is \<Longrightarrow> index_holds X H ix js \<Longrightarrow> is = js"
proof -
  assume "index_holds X H ix is" "index_holds X H ix js"
  then obtain a b c d e a' b' c' d' e' where
    "list_all2 (source_file_holds X H) (ci_source_files ix) a" "list_all2 (source_file_holds X H) (ci_source_files ix) a'"
    "list_all2 (graph_file_holds X H) (ci_source_graph_files ix) b" "list_all2 (graph_file_holds X H) (ci_source_graph_files ix) b'"
    "list_all2 (patch_file_holds X H) (ci_source_patch_files ix) c" "list_all2 (patch_file_holds X H) (ci_source_patch_files ix) c'"
    "list_all2 (requirement_file_holds X H) (ci_requirement_files ix) d" "list_all2 (requirement_file_holds X H) (ci_requirement_files ix) d'"
    "list_all2 (review_file_holds X H) (ci_review_files ix) e" "list_all2 (review_file_holds X H) (ci_review_files ix) e'"
    and eq: "is = concat a @ concat b @ concat c @ concat d @ concat e"
      "js = concat a' @ concat b' @ concat c' @ concat d' @ concat e'"
    unfolding index_holds_def by blast
  note u = list_all2_unique [OF _ _ file_holds_unique(1)] list_all2_unique [OF _ _ file_holds_unique(2)]
    list_all2_unique [OF _ _ file_holds_unique(3)] list_all2_unique [OF _ _ file_holds_unique(4)]
    list_all2_unique [OF _ _ file_holds_unique(5)]
  have "a = a'" by (rule u(1)) fact+
  moreover have "b = b'" by (rule u(2)) fact+
  moreover have "c = c'" by (rule u(3)) fact+
  moreover have "d = d'" by (rule u(4)) fact+
  moreover have "e = e'" by (rule u(5)) fact+
  ultimately show "is = js" by (simp add: eq)
qed

lemma corpus_holds_unique: "corpus_holds X H p is \<Longrightarrow> corpus_holds X H p js \<Longrightarrow> is = js"
  unfolding corpus_holds_def using index_holds_unique by fastforce

lemma load_graph_iff:
  "load_graph X H path = Inr G \<longleftrightarrow> (\<exists>is. corpus_holds X H path is \<and> fold_res put_item cg_new is = Inr G)
    \<and> cg_validate X G = Inr ()"
  by (auto simp: load_graph_def rbind_Ok_iff load_indexed_iff corpus_holds_def)

lemma load_permuted:
  assumes "corpus_holds X H p is" "corpus_holds X H' q js" "mset is = mset js" "load_graph X H p = Inr G"
  shows "load_graph X H' q = Inr G"
proof -
  have "fold_res put_item cg_new is = Inr G" "cg_validate X G = Inr ()"
    using assms(4) corpus_holds_unique [OF assms(1)] by (auto simp: load_graph_iff)
  with items.fold_permuted [OF cg_new_ok assms(3)] assms(2) show ?thesis
    by (auto simp: load_graph_iff)
qed

section \<open>What every loaded record satisfies\<close>

definition native_uid :: "platform \<Rightarrow> string \<Rightarrow> uid \<Rightarrow> bool" where
  "native_uid X prefix u \<longleftrightarrow> (\<exists>s. u = prefix @ s \<and> is_uuid_v4 X s)"

lemma validate_native_uid_iff: "validate_native_uid X u p e1 e2 = Inr v \<longleftrightarrow> native_uid X p u"
  by (simp add: validate_native_uid_Ok_iff native_uid_def)

fun native_capture :: "source_capture \<Rightarrow> bool" where
  "native_capture (Vendored wire_path) = (validate_vendored_wire_path wire_path = Inr ())"
| "native_capture HashOnly = True"
| "native_capture (ExternalControlled system immutable_id) = (\<not> is_blank system \<and> \<not> is_blank immutable_id)"

fun native_material :: "platform \<Rightarrow> source_material \<Rightarrow> bool" where
  "native_material X (Available retrieved_at _ capture) = (is_rfc3339 X retrieved_at \<and> native_capture capture)"
| "native_material X (Unavailable reason) = (\<not> is_blank reason)"

definition native_target :: "platform \<Rightarrow> review_target \<Rightarrow> bool" where
  "native_target X t = (case t of RequirementTarget u \<Rightarrow> native_uid X requirement_uid_prefix u
     | CuratedPatchTarget u \<Rightarrow> native_uid X patch_uid_prefix u)"

text \<open>A node as the loaders accept it; there is no loader for tests.\<close>

fun native_node :: "platform \<Rightarrow> node \<Rightarrow> bool" where
  "native_node X (Requirement r) = (native_uid X requirement_uid_prefix (rq_uid r) \<and>
     (\<forall>(kind, _) \<in> set (rq_edges r). kind = DerivesFrom) \<and>
     sorted_wrt (<) (rq_verification_methods r))"
| "native_node X (Test t) = False"
| "native_node X (Review r) = (native_uid X review_uid_prefix (rv_uid r) \<and> \<not> is_blank (rv_id r) \<and>
     native_target X (rv_target r) \<and> rv_content_schema r = supported_review_content_schema \<and>
     \<not> is_blank (rv_reviewer r) \<and> is_rfc3339 X (rv_reviewed_at r) \<and>
     (rv_decision r = Reject \<longrightarrow> (\<exists>why. rv_rationale r = Some why \<and> \<not> is_blank why)) \<and>
     (\<forall>(kind, t) \<in> set (rv_edges r). kind = Reviews \<and> t = target_uid (rv_target r) \<or>
       kind = Supersedes \<and> native_uid X review_uid_prefix t))"
| "native_node X (SourceRevision s) = (native_uid X source_uid_prefix (sr_uid s) \<and> \<not> is_blank (sr_id s) \<and>
     \<not> is_blank (sr_document_key s) \<and> \<not> is_blank (sr_title s) \<and> is_valid_media_type (sr_media_type s) \<and>
     \<not> is_blank (sr_canonical_location s) \<and> native_material X (sr_material s) \<and>
     (\<forall>(kind, t) \<in> set (sr_edges s). kind = Supersedes \<and> native_uid X source_uid_prefix t))"

definition native_source_node :: "platform \<Rightarrow> source_node \<Rightarrow> bool" where
  "native_source_node X n \<longleftrightarrow> native_uid X snode_uid_prefix (sn_uid n) \<and>
     native_uid X source_uid_prefix (sn_source_revision_uid n) \<and>
     (\<forall>u. sn_parent_uid n = Some u \<longrightarrow> native_uid X snode_uid_prefix u) \<and>
     (\<forall>l. sn_label n = Some l \<longrightarrow> \<not> is_blank l) \<and> locator_validate X (sn_locator n) = Inr ()"

definition native_patch :: "platform \<Rightarrow> source_patch_record \<Rightarrow> bool" where
  "native_patch X p \<longleftrightarrow> (\<exists>path parsed. parse_source_patch X path parsed = Inr p)"

fun native_item :: "platform \<Rightarrow> corpus_item \<Rightarrow> bool" where
  "native_item X (NodeItem n) = native_node X n"
| "native_item X (SourceNodeItem n) = native_source_node X n"
| "native_item X (PatchItem p) = native_patch X p"

lemma native_sorted_edges: "native_node X (map_node_edges sort n) = native_node X n"
  by (cases n) simp_all

lemma source_record_native:
  assumes "validate_source_record X p r = Inr ()"
  shows "native_item X (source_item r)"
proof -
  have m: "native_material X (sv_material r)"
    using assms by (cases "sv_material r")
      (auto simp: validate_source_record_def validate_material_def validate_capture_def rbind_Ok_iff
        map_err_Ok_iff fail_if_Ok_iff split: source_capture.splits)
  from assms have "native_uid X source_uid_prefix (sv_uid r)" "\<not> is_blank (sv_id r)"
    "\<not> is_blank (sv_document_key r)" "\<not> is_blank (sv_title r)" "is_valid_media_type (sv_media_type r)"
    "\<not> is_blank (sv_canonical_location r)"
    "\<forall>t. sv_supersedes r = Some t \<longrightarrow> native_uid X source_uid_prefix t"
    by (auto simp: validate_source_record_def validate_source_uid_def validate_native_uid_iff
        rbind_Ok_iff fail_if_Ok_iff on_some_Ok_iff)
  with m show ?thesis by (auto simp: source_item_def source_revision_of_def split: option.splits)
qed

lemma node_record_native:
  assumes "validate_node_record X p r = Inr ()"
  shows "native_item X (node_item r)"
  using assms
  by (auto simp: validate_node_record_def validate_node_uid_def validate_native_uid_iff rbind_Ok_iff
      fail_if_Ok_iff on_some_Ok_iff map_err_Ok_iff node_item_def source_node_of_def native_source_node_def)

lemma requirement_record_native:
  assumes "validate_requirement_uid X (qr_uid r) = Inr ()"
  shows "native_item X (requirement_item r)"
  using assms canonical_strings_strict
  by (auto simp: validate_requirement_uid_def validate_native_uid_iff requirement_item_def requirement_of_def)

lemma resolved_target_native: "resolve_target X p v r = Inr t \<Longrightarrow> native_target X t"
  by (auto simp: resolve_target_def native_target_def Let_def rbind_Ok_iff validate_native_uid_iff
      split: option.splits bool.splits review_target_kind.splits)

lemma review_record_native:
  assumes "validate_review_record X p v r = Inr t"
  shows "native_item X (review_item v r)"
proof -
  have t: "t = declared_target v r" using assms by (rule validate_review_declared)
  from assms have "native_uid X review_uid_prefix (wr_uid r)" "\<not> is_blank (wr_id r)"
    "resolve_target X p v r = Inr t" "wr_content_schema r = supported_review_content_schema"
    "\<not> is_blank (wr_reviewer r)" "is_rfc3339 X (wr_reviewed_at r)"
    "wr_decision r = Reject \<longrightarrow> (\<exists>why. wr_rationale r = Some why \<and> \<not> is_blank why)"
    "\<forall>u. wr_supersedes_review_uid r = Some u \<longrightarrow> native_uid X review_uid_prefix u"
    by (auto simp: validate_review_record_def validate_review_uid_def validate_native_uid_iff
        rbind_Ok_iff fail_if_Ok_iff on_some_Ok_iff split: option.splits)
  with resolved_target_native t show ?thesis
    by (auto simp: review_item_def review_of_def split: option.splits)
qed

lemma holds_native:
  assumes "\<And>v r. valid v r \<Longrightarrow> native_item X (item v r)" "holds raw decode n valid item is" "i \<in> set is"
  shows "native_item X i"
  using assms by (auto simp: holds_def)

lemma file_holds_native:
  "source_file_holds X H p is \<Longrightarrow> i \<in> set is \<Longrightarrow> native_item X i"
  "graph_file_holds X H p is \<Longrightarrow> i \<in> set is \<Longrightarrow> native_item X i"
  "patch_file_holds X H p is \<Longrightarrow> i \<in> set is \<Longrightarrow> native_item X i"
  "requirement_file_holds X H p is \<Longrightarrow> i \<in> set is \<Longrightarrow> native_item X i"
  "review_file_holds X H p is \<Longrightarrow> i \<in> set is \<Longrightarrow> native_item X i"
proof -
  show "source_file_holds X H p is \<Longrightarrow> i \<in> set is \<Longrightarrow> native_item X i"
    unfolding source_file_holds_def by (erule (1) holds_native [rotated]) (rule source_record_native)
  show "graph_file_holds X H p is \<Longrightarrow> i \<in> set is \<Longrightarrow> native_item X i"
    unfolding graph_file_holds_def by (erule (1) holds_native [rotated]) (rule node_record_native)
  show "patch_file_holds X H p is \<Longrightarrow> i \<in> set is \<Longrightarrow> native_item X i"
    unfolding patch_file_holds_def by (elim exE conjE) (simp add: native_patch_def, blast)
  show "requirement_file_holds X H p is \<Longrightarrow> i \<in> set is \<Longrightarrow> native_item X i"
    unfolding requirement_file_holds_def
    by (erule (1) holds_native [rotated]) (rule requirement_record_native)
  show "review_file_holds X H p is \<Longrightarrow> i \<in> set is \<Longrightarrow> native_item X i"
    unfolding review_file_holds_def
    by (erule (1) holds_native [rotated]) (blast intro: review_record_native)
qed

lemma concat_holds_native:
  assumes "\<And>p is i. R p is \<Longrightarrow> i \<in> set is \<Longrightarrow> native_item X i" "list_all2 R ps iss" "i \<in> set (concat iss)"
  shows "native_item X i"
  using assms(2,3) by (induction rule: list_all2_induct) (auto intro: assms(1))

lemma corpus_holds_native:
  assumes "corpus_holds X H path is" "i \<in> set is"
  shows "native_item X i"
proof -
  from assms(1) obtain ix where "index_holds X H ix is" unfolding corpus_holds_def by blast
  then obtain a b c d e where
    h: "list_all2 (source_file_holds X H) (ci_source_files ix) a"
      "list_all2 (graph_file_holds X H) (ci_source_graph_files ix) b"
      "list_all2 (patch_file_holds X H) (ci_source_patch_files ix) c"
      "list_all2 (requirement_file_holds X H) (ci_requirement_files ix) d"
      "list_all2 (review_file_holds X H) (ci_review_files ix) e"
    and eq: "is = concat a @ concat b @ concat c @ concat d @ concat e"
    unfolding index_holds_def by blast
  from assms(2) consider "i \<in> set (concat a)" | "i \<in> set (concat b)" | "i \<in> set (concat c)"
    | "i \<in> set (concat d)" | "i \<in> set (concat e)"
    unfolding eq set_append by blast
  then show ?thesis
    by cases (rule concat_holds_native [OF file_holds_native(1) h(1)] concat_holds_native [OF file_holds_native(2) h(2)]
      concat_holds_native [OF file_holds_native(3) h(3)] concat_holds_native [OF file_holds_native(4) h(4)]
      concat_holds_native [OF file_holds_native(5) h(5)], assumption+)+
qed

section \<open>What a load puts into the graph\<close>

definition graph_items :: "corpus_graph \<Rightarrow> corpus_item set" where
  "graph_items G = NodeItem ` set (cg_node_list G)
     \<union> SourceNodeItem ` (\<Union>(r, g) \<in> set (cg_source_graphs G). set (sg_nodes g))
     \<union> PatchItem ` set (bvals (cg_source_patches G))"

fun filed_item :: "corpus_item \<Rightarrow> corpus_item" where
  "filed_item (NodeItem n) = NodeItem (map_node_edges sort n)"
| "filed_item i = i"

lemma native_filed_item: "native_item X (filed_item i) = native_item X i"
  by (cases i) (simp_all add: native_sorted_edges)

lemma source_graph_values:
  assumes "cg_inv G" "sg_insert (graph_of_revision G r) n = Inr h"
  shows "(\<Union>(s, g) \<in> set (bins r h (cg_source_graphs G)). set (sg_nodes g))
    = insert n (\<Union>(s, g) \<in> set (cg_source_graphs G). set (sg_nodes g))"
proof -
  have wf: "bwf (cg_source_graphs G)" using assms(1) by (simp add: cg_inv_def)
  have h: "set (sg_nodes h) = insert n (set (sg_nodes (graph_of_revision G r)))"
    by (rule sg_insert_nodes [OF graph_of_revision_inv [OF assms(1)] assms(2)])
  have mem: "m \<in> (\<Union>(s, g) \<in> set M. set (sg_nodes g)) \<longleftrightarrow> (\<exists>s g. bget M s = Some g \<and> m \<in> set (sg_nodes g))"
    if "bwf M" for M :: "(uid, source_graph) bmap" and m
    using that by (auto simp: bget_iff_in)
  have "m \<in> set (sg_nodes (graph_of_revision G r)) \<longleftrightarrow>
      (\<exists>g. bget (cg_source_graphs G) r = Some g \<and> m \<in> set (sg_nodes g))" for m
    by (cases "bget (cg_source_graphs G) r")
      (simp_all add: graph_of_revision_def sg_new_def sg_nodes_def bvals_def)
  note old = this and new = mem [OF bwf_bins [OF wf, of r h]] and before = mem [OF wf]
  show ?thesis
  proof (intro set_eqI iffI)
    fix m assume "m \<in> (\<Union>(s, g) \<in> set (bins r h (cg_source_graphs G)). set (sg_nodes g))"
    then obtain s g where sg: "bget (bins r h (cg_source_graphs G)) s = Some g" "m \<in> set (sg_nodes g)"
      unfolding new by blast
    show "m \<in> insert n (\<Union>(s, g) \<in> set (cg_source_graphs G). set (sg_nodes g))"
    proof (cases "s = r")
      case True
      with sg h have "m = n \<or> m \<in> set (sg_nodes (graph_of_revision G r))" by simp
      then show ?thesis unfolding old insert_iff before by blast
    next
      case False
      with sg have "bget (cg_source_graphs G) s = Some g" by simp
      with sg(2) show ?thesis unfolding insert_iff before by blast
    qed
  next
    fix m assume "m \<in> insert n (\<Union>(s, g) \<in> set (cg_source_graphs G). set (sg_nodes g))"
    then consider "m = n" | s g where "bget (cg_source_graphs G) s = Some g" "m \<in> set (sg_nodes g)"
      unfolding insert_iff before by blast
    then show "m \<in> (\<Union>(s, g) \<in> set (bins r h (cg_source_graphs G)). set (sg_nodes g))"
    proof cases
      case 1
      with h have "bget (bins r h (cg_source_graphs G)) r = Some h" "m \<in> set (sg_nodes h)" by simp_all
      then show ?thesis unfolding new by blast
    next
      case 2
      show ?thesis
      proof (cases "s = r")
        case True
        with 2 h have "bget (bins r h (cg_source_graphs G)) r = Some h" "m \<in> set (sg_nodes h)"
          by (simp_all add: graph_of_revision_def)
        then show ?thesis unfolding new by blast
      next
        case False
        with 2 have "bget (bins r h (cg_source_graphs G)) s = Some g" by simp
        with 2(2) show ?thesis unfolding new by blast
      qed
    qed
  qed
qed

lemma put_item_adds:
  assumes "cg_inv G" "put_item G i = Inr H"
  shows "graph_items H = insert (filed_item i) (graph_items G)"
proof (cases i)
  case (NodeItem n)
  with assms(2) have i: "cg_insert G n = Inr H" by (simp add: map_err_Ok_iff)
  then have "cg_source_graphs H = cg_source_graphs G" "cg_source_patches H = cg_source_patches G"
    by (auto simp: cg_insert_Ok_iff)
  with cg_insert_nodes(2) [OF assms(1) i] NodeItem show ?thesis by (simp add: graph_items_def)
next
  case (SourceNodeItem n)
  with assms(2) obtain h where "sg_insert (graph_of_revision G (sn_source_revision_uid n)) n = Inr h"
    "H = G\<lparr>cg_source_graphs := bins (sn_source_revision_uid n) h (cg_source_graphs G)\<rparr>"
    by (auto simp: map_err_Ok_iff insert_source_node_Ok_iff)
  with source_graph_values [OF assms(1)] SourceNodeItem show ?thesis
    by (simp add: graph_items_def cg_node_list_def)
next
  case (PatchItem p)
  with assms(2) have p: "cg_source_patch G (sp_uid p) = None"
    "H = G\<lparr>cg_source_patches := bins (sp_uid p) p (cg_source_patches G)\<rparr>"
    by (auto simp: map_err_Ok_iff insert_source_patch_Ok_iff)
  moreover have "bwf (cg_source_patches G)" using assms(1) by (simp add: cg_inv_def)
  ultimately show ?thesis using PatchItem
    by (simp add: graph_items_def cg_node_list_def cg_source_patch_def bvals_bins)
qed

lemma fold_put_adds:
  "cg_ok G \<Longrightarrow> fold_res put_item G is = Inr H \<Longrightarrow> graph_items H = filed_item ` set is \<union> graph_items G"
proof (induction "is" arbitrary: G)
  case (Cons i "is")
  from Cons.prems(2) obtain K where K: "put_item G i = Inr K" "fold_res put_item K is = Inr H"
    by (auto split: sum.splits)
  with Cons.IH [OF items.keeps [OF Cons.prems(1) K(1)] K(2)] put_item_adds [OF cg_ok_inv [OF Cons.prems(1)] K(1)]
  show ?case by simp
qed simp

lemma put_item_metadata: "put_item G i = Inr H \<Longrightarrow> cg_trace_metadata H = cg_trace_metadata G"
  by (cases i) (auto simp: map_err_Ok_iff plane_simps)

lemma load_graph_contents:
  assumes "load_graph X H path = Inr G"
  shows "\<exists>is. corpus_holds X H path is \<and> graph_items G = filed_item ` set is"
    "\<forall>i \<in> graph_items G. native_item X i" "cg_ok G" "corpus_ok X G" "cg_trace_metadata G = []"
proof -
  from assms obtain "is" where h: "corpus_holds X H path is" and f: "fold_res put_item cg_new is = Inr G"
    and v: "cg_validate X G = Inr ()" by (auto simp: load_graph_iff)
  have "graph_items cg_new = {}"
    by (simp add: graph_items_def cg_new_def cg_node_list_def bvals_def)
  with fold_put_adds [OF cg_new_ok f] have g: "graph_items G = filed_item ` set is" by simp
  with h show "\<exists>is. corpus_holds X H path is \<and> graph_items G = filed_item ` set is" by blast
  from g show "\<forall>i \<in> graph_items G. native_item X i"
    using corpus_holds_native [OF h] by (auto simp: native_filed_item)
  show ok: "cg_ok G" by (rule items.fold_keeps [OF cg_new_ok f])
  from v show "corpus_ok X G" using cg_validate_Ok_iff [OF cg_ok_inv [OF ok]] by simp
  show "cg_trace_metadata G = []"
    using f by (rule fold_res_invariant) (auto simp: cg_new_def dest: put_item_metadata)
qed

end
