(* ===== verification/Loader_Properties.thy ===== *)
theory Loader_Properties
  imports Loader_Spec Demo_Corpus
begin

text \<open>
  The properties of loading, with one corpus laid out twice as the concrete input: two requirements
  in one listed file, and in two files of a walked directory.
\<close>

section \<open>One corpus, two layouts\<close>

definition demo_requirement_record :: "string \<Rightarrow> string \<Rightarrow> string list \<Rightarrow> requirement_record" where
  "demo_requirement_record u i targets = \<lparr>qr_uid = u, qr_id = i, qr_layer = Hlr, qr_title = ''Start'',
     qr_derives_from = targets, qr_description = None, qr_rationale = None, qr_scope = None,
     qr_category = None, qr_source = None, qr_verification_methods = [''test'', ''review''],
     qr_safety_impact = None\<rparr>"

definition demo_rec_1 :: requirement_record where
  "demo_rec_1 = demo_requirement_record ''req_1'' ''R-1'' []"

definition demo_rec_2 :: requirement_record where
  "demo_rec_2 = demo_requirement_record ''req_2'' ''R-2'' [''req_1'']"

definition demo_corpus_index :: "string list \<Rightarrow> index_file" where
  "demo_corpus_index requirements = \<lparr>xf_schema_version = 1, xf_sources = [], xf_source_graphs = [],
     xf_source_patches = [], xf_requirements = requirements, xf_ambiguities = [], xf_decisions = [],
     xf_profiles = [], xf_reviews = [], xf_tests = []\<rparr>"

definition demo_corpus_host :: corpus_host where
  "demo_corpus_host = \<lparr>ch_read = (\<lambda>p.
      if p = ''c/index.toml'' then Ok ''listed'' else if p = ''c/all.toml'' then Ok ''both''
      else if p = ''d/index.toml'' then Ok ''walked'' else if p = ''d/r/x.toml'' then Ok ''second''
      else if p = ''d/r/y.toml'' then Ok ''first'' else Err ''not found''),
    ch_is_dir = (\<lambda>p. p = ''d/r''), ch_is_file = (\<lambda>p. p = ''c/all.toml''),
    ch_walk = (\<lambda>_. [Ok (''d/r'', False), Ok (''d/r/y.toml'', True), Ok (''d/r/note.md'', True),
      Ok (''d/r/x.toml'', True)]),
    ch_index = (\<lambda>s. if s = ''listed'' then Ok (demo_corpus_index [''all.toml''])
      else if s = ''walked'' then Ok (demo_corpus_index [''r/**/*.toml'']) else Err ''not an index''),
    ch_sources = (\<lambda>_. Err ''not sources''), ch_source_nodes = (\<lambda>_. Err ''not nodes''),
    ch_source_patch = (\<lambda>_. Err ''not a patch''),
    ch_requirements = (\<lambda>s. Ok \<lparr>rf_schema_version = 1, rf_records =
      (if s = ''both'' then [demo_rec_1, demo_rec_2] else if s = ''first'' then [demo_rec_1]
       else [demo_rec_2])\<rparr>),
    ch_reviews = (\<lambda>_. Err ''not reviews'')\<rparr>"

lemma demo_indexes:
  "index_load demo_corpus_host ''c/index.toml'' = Inr \<lparr>ci_source_files = [], ci_source_graph_files = [],
     ci_source_patch_files = [], ci_requirement_files = [''c/all.toml''], ci_review_files = []\<rparr>"
  "index_load demo_corpus_host ''d/index.toml'' = Inr \<lparr>ci_source_files = [], ci_source_graph_files = [],
     ci_source_patch_files = [], ci_requirement_files = [''d/r/x.toml'', ''d/r/y.toml''], ci_review_files = []\<rparr>"
  by code_simp+

lemma demo_requirement_files:
  "requirement_file_holds demo_platform demo_corpus_host ''c/all.toml''
     [requirement_item demo_rec_1, requirement_item demo_rec_2]"
  "requirement_file_holds demo_platform demo_corpus_host ''d/r/x.toml'' [requirement_item demo_rec_2]"
  "requirement_file_holds demo_platform demo_corpus_host ''d/r/y.toml'' [requirement_item demo_rec_1]"
proof -
  have "validate_requirement_uid demo_platform (qr_uid demo_rec_1) = Inr ()"
    "validate_requirement_uid demo_platform (qr_uid demo_rec_2) = Inr ()" by code_simp+
  then show "requirement_file_holds demo_platform demo_corpus_host ''c/all.toml''
     [requirement_item demo_rec_1, requirement_item demo_rec_2]"
    "requirement_file_holds demo_platform demo_corpus_host ''d/r/x.toml'' [requirement_item demo_rec_2]"
    "requirement_file_holds demo_platform demo_corpus_host ''d/r/y.toml'' [requirement_item demo_rec_1]"
    by (simp_all add: requirement_file_holds_def holds_def demo_corpus_host_def supported_records_schema_def)
qed

lemma demo_holds:
  "corpus_holds demo_platform demo_corpus_host ''c/index.toml''
     [requirement_item demo_rec_1, requirement_item demo_rec_2]"
  "corpus_holds demo_platform demo_corpus_host ''d/index.toml''
     [requirement_item demo_rec_2, requirement_item demo_rec_1]"
  using demo_requirement_files
  by (auto simp: corpus_holds_def demo_indexes index_holds_def list_all2_Cons1
      intro: exI [of _ "[[requirement_item demo_rec_1, requirement_item demo_rec_2]]"]
        exI [of _ "[[requirement_item demo_rec_2], [requirement_item demo_rec_1]]"])

definition demo_items :: "corpus_item list" where
  "demo_items = [requirement_item demo_rec_1, requirement_item demo_rec_2]"

definition demo_loaded :: corpus_graph where
  "demo_loaded = (case fold_res put_item cg_new demo_items of Inr G \<Rightarrow> G | Inl _ \<Rightarrow> cg_new)"

lemma demo_load: "load_graph demo_platform demo_corpus_host ''c/index.toml'' = Inr demo_loaded"
proof -
  have "\<not> isl (fold_res put_item cg_new demo_items)" by code_simp
  then have "fold_res put_item cg_new demo_items = Inr demo_loaded"
    by (cases "fold_res put_item cg_new demo_items") (simp_all add: demo_loaded_def)
  moreover have "cg_validate demo_platform demo_loaded = Inr ()" by code_simp
  ultimately show ?thesis using demo_holds(1) by (auto simp: load_graph_iff demo_items_def)
qed

section \<open>The properties\<close>

text \<open>C26: the layout of a corpus does not matter. Whenever the files two indexes name hold the same
  valid records, however they are spread over files and in whatever order, the one loads exactly
  when the other does, and to the same graph.\<close>

theorem load_is_layout_independent:
  assumes "corpus_holds X H p is" "corpus_holds X K q js" "mset is = mset js"
  shows "load_graph X H p = Inr G \<longleftrightarrow> load_graph X K q = Inr G"
  using load_permuted [OF assms] load_permuted [OF assms(2,1) assms(3) [symmetric]] by blast

theorem load_is_layout_independent_witness:
  "load_graph demo_platform demo_corpus_host ''d/index.toml'' = Inr demo_loaded"
  using load_is_layout_independent [OF demo_holds, of demo_loaded] demo_load by simp

text \<open>C27: a corpus that loads is the records of its files and nothing else: every node, source node
  and patch of the graph is a record of a file with its edges in order, each of them of the accepted
  form, with no test among them and no legacy metadata; and the graph satisfies the invariant of
  the insertions and everything validation checks.\<close>

theorem loaded_corpus_is_typed:
  assumes "load_graph X H path = Inr G"
  shows "(\<exists>is. corpus_holds X H path is \<and> graph_items G = filed_item ` set is) \<and>
    (\<forall>i \<in> graph_items G. native_item X i) \<and> cg_trace_metadata G = [] \<and> cg_ok G \<and> corpus_ok X G"
  using load_graph_contents [OF assms] by blast

theorem loaded_corpus_is_typed_witness:
  "cg_ok demo_loaded \<and> corpus_ok demo_platform demo_loaded \<and>
    graph_items demo_loaded \<subseteq> Collect (native_item demo_platform)"
  using loaded_corpus_is_typed [OF demo_load] by blast

end
