(* ===== verification/Proposals.thy ===== *)
theory Proposals
  imports Lifecycle_Spec Corpus_Loader Bundle_Store
begin

text \<open>
  The append-only proposal store (\<^verbatim>\<open>corpus/proposal.rs\<close>) and its records
  (\<^verbatim>\<open>corpus/proposal/record.rs\<close>). The store is the contents of its root directory; the fresh
  uuids, the clock, the TOML writer and reader, and the outcome of a write are parameters.
\<close>

section \<open>Records\<close>

definition supported_proposal_schema :: u32 where
  "supported_proposal_schema = 1"

definition proposal_uid_prefix :: string where
  "proposal_uid_prefix = ''prop_''"

record proposed_requirement_content =
  pc_title :: string
  pc_layer :: requirement_layer
  pc_description :: "string option"
  pc_rationale :: "string option"
  pc_scope :: "string option"
  pc_category :: "string option"
  pc_source :: "string option"
  pc_verification_methods :: "string list"
  pc_derives_from :: "string list"
  pc_safety_impact :: "string option"

datatype proposal_action =
    CreateCandidate uid proposed_requirement_content
  | ReviseCandidate uid review_content_digest proposed_requirement_content

fun action_content :: "proposal_action \<Rightarrow> proposed_requirement_content" where
  "action_content (CreateCandidate _ content) = content"
| "action_content (ReviseCandidate _ _ content) = content"

record proposal_record =
  pp_uid :: uid
  pp_submitter :: string
  pp_submitted_at :: string
  pp_action :: proposal_action

record proposal_file =
  pz_schema_version :: u32
  pz_proposal :: proposal_record

datatype proposal_file_digest = ProposalFileDigest (pfd_str: string)

definition proposal_digest_from_hex :: "string \<Rightarrow> proposal_error + proposal_file_digest" where
  "proposal_digest_from_hex hex =
    (if \<not> is_valid_digest_hex hex then Err (PE_InvalidFileDigest hex) else Ok (ProposalFileDigest hex))"

definition proposal_uid_ok :: "platform \<Rightarrow> uid \<Rightarrow> string \<Rightarrow> proposal_error + unit" where
  "proposal_uid_ok X u prefix = validate_native_uid X u prefix PE_NativeUidPrefix PE_NativeUidUuidV4"

text \<open>The loop over \<^verbatim>\<open>derives_from\<close>: \<open>seen\<close> holds the targets so far.\<close>

fun check_targets :: "platform \<Rightarrow> string \<Rightarrow> uid \<Rightarrow> uid list \<Rightarrow> uid list \<Rightarrow> proposal_error + unit" where
  "check_targets X path u seen [] = Ok ()"
| "check_targets X path u seen (target # rest) =
    rbind (proposal_uid_ok X target requirement_uid_prefix) (\<lambda>_.
    if target \<in> set seen then Err (PE_ProposalContentDerivesFrom path u target)
    else check_targets X path u (target # seen) rest)"

definition check_method_pair :: "string \<Rightarrow> uid \<Rightarrow> string \<times> string \<Rightarrow> proposal_error + unit" where
  "check_method_pair path u = (\<lambda>(first, second).
    if first = second then Err (PE_ProposalContentVerificationMethodsDuplicate path u first)
    else if second < first then Err (PE_ProposalContentVerificationMethodsOrder path u first second)
    else Ok ())"

definition validate_proposal_content ::
  "platform \<Rightarrow> string \<Rightarrow> uid \<Rightarrow> proposed_requirement_content \<Rightarrow> proposal_error + unit" where
  "validate_proposal_content X path u content =
    rbind (fail_if (is_blank (pc_title content)) (PE_ProposalContentTitle path u)) (\<lambda>_.
    rbind (check_targets X path u [] (pc_derives_from content)) (\<lambda>_.
    for_each (check_method_pair path u)
      (zip (pc_verification_methods content) (tl (pc_verification_methods content)))))"

definition validate_proposal_record ::
  "platform \<Rightarrow> string \<Rightarrow> proposal_record \<Rightarrow> proposal_error + unit" where
  "validate_proposal_record X path record =
    rbind (proposal_uid_ok X (pp_uid record) proposal_uid_prefix) (\<lambda>_.
    rbind (fail_if (is_blank (pp_submitter record)) (PE_ProposalSubmitter path (pp_uid record))) (\<lambda>_.
    rbind (fail_if (\<not> is_rfc3339 X (pp_submitted_at record))
      (PE_ProposalTimestamp path (pp_uid record) (pp_submitted_at record))) (\<lambda>_.
    rbind (case pp_action record of
        CreateCandidate candidate_uid _ \<Rightarrow> proposal_uid_ok X candidate_uid requirement_uid_prefix
      | ReviseCandidate base_uid _ _ \<Rightarrow> proposal_uid_ok X base_uid requirement_uid_prefix) (\<lambda>_.
    validate_proposal_content X path (pp_uid record) (action_content (pp_action record))))))"

section \<open>The store\<close>

datatype root_entry = RootAbsent | RootSymlink | RootFile | RootDirectory

record proposal_store =
  ps_root :: string

text \<open>\<open>resolve\<close> gives the path the root resolves to, when it does.\<close>

definition open_store ::
  "(string \<Rightarrow> root_entry) \<Rightarrow> (string \<Rightarrow> string option) \<Rightarrow> string \<Rightarrow> proposal_error + proposal_store" where
  "open_store entry resolve root = (case entry root of
     RootAbsent \<Rightarrow> Err (PE_ProposalRootMissing root)
   | RootSymlink \<Rightarrow> Err (PE_ProposalRootSymlink root)
   | RootFile \<Rightarrow> Err (PE_ProposalRootNotADirectory root)
   | RootDirectory \<Rightarrow> (case resolve root of
       None \<Rightarrow> Err (PE_ProposalRootMissing root)
     | Some canonical \<Rightarrow> Ok \<lparr>ps_root = canonical\<rparr>))"

type_synonym proposal_dir = "(string, bytes) bmap"

text \<open>What the host does with a write of a new file: it succeeds, the file cannot be created, or
  writing fails and the file is removed or, when that fails too, stays with what was written.\<close>

datatype write_outcome = Written | CreateFailed string | WriteFailed string "bytes option"

record append_env =
  ae_proposal_uuid :: string
  ae_now :: string
  ae_to_toml :: "proposal_file \<Rightarrow> string + string"
  ae_write :: write_outcome

record append_outcome =
  ao_path :: string
  ao_proposal_uid :: uid
  ao_candidate_uid :: "uid option"
  ao_content_digest :: proposal_file_digest

definition mint_uid :: "string \<Rightarrow> string \<Rightarrow> uid" where
  "mint_uid prefix uuid = prefix @ uuid"

definition write_exclusive ::
  "write_outcome \<Rightarrow> string \<Rightarrow> bytes \<Rightarrow> proposal_dir \<Rightarrow> (proposal_error + unit) \<times> proposal_dir" where
  "write_exclusive outcome path contents dir =
    (if bget dir path \<noteq> None then (Err (PE_ProposalExists path), dir)
     else case outcome of
       Written \<Rightarrow> (Ok (), bins path contents dir)
     | CreateFailed source \<Rightarrow> (Err (PE_ProposalWrite path source), dir)
     | WriteFailed source leftover \<Rightarrow> (Err (PE_ProposalWrite path source),
         case leftover of None \<Rightarrow> dir | Some partial \<Rightarrow> bins path partial dir))"

definition prepare_append ::
  "platform \<Rightarrow> append_env \<Rightarrow> string \<Rightarrow> string \<Rightarrow> proposal_action \<Rightarrow> proposal_error + string" where
  "prepare_append X E path submitter action =
    (let proposal_uid = mint_uid proposal_uid_prefix (ae_proposal_uuid E) in
     rbind (fail_if (is_blank submitter) (PE_ProposalSubmitter path proposal_uid)) (\<lambda>_.
     rbind (validate_proposal_content X path proposal_uid (action_content action)) (\<lambda>_.
     map_err (PE_ProposalSerialize path) (ae_to_toml E
       \<lparr>pz_schema_version = supported_proposal_schema, pz_proposal =
         \<lparr>pp_uid = proposal_uid, pp_submitter = submitter, pp_submitted_at = ae_now E,
          pp_action = action\<rparr>\<rparr>))))"

definition append_proposal ::
  "platform \<Rightarrow> append_env \<Rightarrow> proposal_store \<Rightarrow> string \<Rightarrow> proposal_action \<Rightarrow> proposal_dir
    \<Rightarrow> (proposal_error + append_outcome) \<times> proposal_dir" where
  "append_proposal X E store submitter action dir =
    (let proposal_uid = mint_uid proposal_uid_prefix (ae_proposal_uuid E);
         path = path_join (ps_root store) (proposal_uid @ ''.toml'') in
     case prepare_append X E path submitter action of
       Inl e \<Rightarrow> (Err e, dir)
     | Inr serialized \<Rightarrow>
        (case write_exclusive (ae_write E) path serialized dir of
           (Inl e, dir') \<Rightarrow> (Err e, dir')
         | (Inr _, dir') \<Rightarrow>
            (Ok \<lparr>ao_path = path, ao_proposal_uid = proposal_uid,
               ao_candidate_uid = (case action of CreateCandidate candidate_uid _ \<Rightarrow> Some candidate_uid
                 | ReviseCandidate _ _ _ \<Rightarrow> None),
               ao_content_digest = ProposalFileDigest (sha256 X serialized)\<rparr>, dir')))"

definition append_create_candidate ::
  "platform \<Rightarrow> append_env \<Rightarrow> string \<Rightarrow> proposal_store \<Rightarrow> string \<Rightarrow> proposed_requirement_content
    \<Rightarrow> proposal_dir \<Rightarrow> (proposal_error + append_outcome) \<times> proposal_dir" where
  "append_create_candidate X E candidate_uuid store submitter content dir =
    append_proposal X E store submitter
      (CreateCandidate (mint_uid requirement_uid_prefix candidate_uuid) content) dir"

definition check_revision ::
  "platform \<Rightarrow> corpus_graph \<Rightarrow> uid \<Rightarrow> review_content_digest \<Rightarrow> proposal_error + unit" where
  "check_revision X G base_uid expected =
    rbind (proposal_uid_ok X base_uid requirement_uid_prefix) (\<lambda>_.
    rbind (fail_if (review_content G base_uid = None) (PE_ProposalTargetMissing base_uid)) (\<lambda>_.
    rbind (map_err PE_ProposalLifecycleEvaluation (evaluate_lifecycle X G base_uid)) (\<lambda>evaluation.
    rbind (fail_if (le_state evaluation \<noteq> Candidate)
      (PE_ProposalLifecycle base_uid (le_state evaluation))) (\<lambda>_.
    fail_if (le_current_digest evaluation \<noteq> expected)
      (PE_ProposalDigestMismatch base_uid expected (le_current_digest evaluation))))))"

definition append_revise_candidate ::
  "platform \<Rightarrow> append_env \<Rightarrow> corpus_graph \<Rightarrow> uid \<Rightarrow> review_content_digest \<Rightarrow> proposal_store \<Rightarrow> string
    \<Rightarrow> proposed_requirement_content \<Rightarrow> proposal_dir \<Rightarrow> (proposal_error + append_outcome) \<times> proposal_dir" where
  "append_revise_candidate X E G base_uid expected store submitter content dir =
    (case check_revision X G base_uid expected of
       Inl e \<Rightarrow> (Err e, dir)
     | Inr _ \<Rightarrow> append_proposal X E store submitter (ReviseCandidate base_uid expected content) dir)"

text \<open>Reading back; a file that is absent or no text is a read error.\<close>

definition read_proposal ::
  "platform \<Rightarrow> (string \<Rightarrow> string + proposal_file) \<Rightarrow> proposal_dir \<Rightarrow> string
    \<Rightarrow> proposal_error + proposal_file" where
  "read_proposal X from_toml dir path =
    rbind (case bget dir path of
        None \<Rightarrow> Err (PE_ProposalRead path ''No such file or directory'')
      | Some contents \<Rightarrow> if is_utf8 contents then Ok contents
          else Err (PE_ProposalRead path ''stream did not contain valid UTF-8'')) (\<lambda>raw.
    rbind (map_err (PE_ProposalParse path) (from_toml raw)) (\<lambda>file.
    rbind (fail_if (supported_proposal_schema < pz_schema_version file)
      (PE_ProposalSchema path (pz_schema_version file) supported_proposal_schema)) (\<lambda>_.
    rbind (validate_proposal_record X path (pz_proposal file)) (\<lambda>_. Ok file))))"

section \<open>The store as a state machine\<close>

inductive store_step :: "platform \<Rightarrow> proposal_store \<Rightarrow> proposal_dir \<Rightarrow> proposal_dir \<Rightarrow> bool"
  for X :: platform and store :: proposal_store where
  step_create: "append_create_candidate X E candidate_uuid store submitter content dir = (r, dir')
    \<Longrightarrow> store_step X store dir dir'"
| step_revise: "append_revise_candidate X E G base_uid expected store submitter content dir = (r, dir')
    \<Longrightarrow> store_step X store dir dir'"

inductive_cases store_stepE: "store_step X store dir dir'"

end
