(* ===== verification/Proposal_Spec.thy ===== *)
theory Proposal_Spec
  imports Proposals Loader_Spec
begin

text \<open>
  What the proposal store keeps: files are only added, what an append reports reads back, and a
  revision is accepted only for a candidate whose content is the expected one.
\<close>

section \<open>Accepted content\<close>

lemma check_targets_Ok_iff:
  "check_targets X path u seen ts = Inr () \<longleftrightarrow>
    distinct ts \<and> set ts \<inter> set seen = {} \<and> (\<forall>t \<in> set ts. native_uid X requirement_uid_prefix t)"
  by (induction ts arbitrary: seen)
    (auto simp: rbind_Ok_iff proposal_uid_ok_def validate_native_uid_iff)

lemma check_pairs_Ok_iff:
  "for_each (check_method_pair path u) (zip ms (tl ms)) = Inr () \<longleftrightarrow> sorted_wrt (<) ms"
proof (induction ms)
  case (Cons m ms)
  have pair: "check_method_pair path u (m, k) = Inr () \<longleftrightarrow> m < k" for m k
    by (auto simp: check_method_pair_def)
  show ?case
  proof (cases ms)
    case (Cons k ks)
    have "for_each (check_method_pair path u) (zip (m # ms) (tl (m # ms))) = Inr () \<longleftrightarrow>
        check_method_pair path u (m, k) = Inr () \<and>
        for_each (check_method_pair path u) (zip ms (tl ms)) = Inr ()"
      by (auto simp: Cons split: sum.splits)
    also have "\<dots> \<longleftrightarrow> m < k \<and> sorted_wrt (<) ms" by (simp add: pair Cons.IH)
    also have "\<dots> \<longleftrightarrow> sorted_wrt (<) (m # ms)" by (auto simp: Cons)
    finally show ?thesis .
  qed simp
qed simp

definition content_ok :: "platform \<Rightarrow> proposed_requirement_content \<Rightarrow> bool" where
  "content_ok X content \<longleftrightarrow> \<not> is_blank (pc_title content) \<and> distinct (pc_derives_from content) \<and>
    (\<forall>t \<in> set (pc_derives_from content). native_uid X requirement_uid_prefix t) \<and>
    sorted_wrt (<) (pc_verification_methods content)"

lemma validate_content_Ok_iff: "validate_proposal_content X path u content = Inr () \<longleftrightarrow> content_ok X content"
  by (simp add: validate_proposal_content_def rbind_Ok_iff fail_if_Ok_iff check_targets_Ok_iff
      check_pairs_Ok_iff content_ok_def)

section \<open>Appending\<close>

definition proposal_of ::
  "append_env \<Rightarrow> string \<Rightarrow> proposal_action \<Rightarrow> proposal_file" where
  "proposal_of E submitter action = \<lparr>pz_schema_version = supported_proposal_schema, pz_proposal =
     \<lparr>pp_uid = mint_uid proposal_uid_prefix (ae_proposal_uuid E), pp_submitter = submitter,
      pp_submitted_at = ae_now E, pp_action = action\<rparr>\<rparr>"

definition proposal_path :: "append_env \<Rightarrow> proposal_store \<Rightarrow> string" where
  "proposal_path E store =
    path_join (ps_root store) (mint_uid proposal_uid_prefix (ae_proposal_uuid E) @ ''.toml'')"

lemma prepare_append_Ok_iff:
  "prepare_append X E path submitter action = Inr s \<longleftrightarrow>
    \<not> is_blank submitter \<and> content_ok X (action_content action) \<and>
    ae_to_toml E (proposal_of E submitter action) = Inr s"
  by (simp add: prepare_append_def Let_def rbind_Ok_iff fail_if_Ok_iff map_err_Ok_iff
      validate_content_Ok_iff proposal_of_def)

lemma write_exclusive_Ok_iff:
  "write_exclusive outcome path contents dir = (Inr u, dir') \<longleftrightarrow>
    bget dir path = None \<and> outcome = Written \<and> dir' = bins path contents dir"
  by (auto simp: write_exclusive_def split: write_outcome.splits option.splits if_splits)

lemma write_exclusive_keeps:
  "write_exclusive outcome path contents dir = (r, dir') \<Longrightarrow> bget dir p = Some b \<Longrightarrow> bget dir' p = Some b"
  by (auto simp: write_exclusive_def split: write_outcome.splits option.splits if_splits)

lemma append_proposal_Ok_iff:
  "append_proposal X E store submitter action dir = (Inr out, dir') \<longleftrightarrow> (\<exists>s.
    prepare_append X E (proposal_path E store) submitter action = Inr s \<and>
    bget dir (proposal_path E store) = None \<and> ae_write E = Written \<and>
    dir' = bins (proposal_path E store) s dir \<and>
    out = \<lparr>ao_path = proposal_path E store,
      ao_proposal_uid = mint_uid proposal_uid_prefix (ae_proposal_uuid E),
      ao_candidate_uid = (case action of CreateCandidate u _ \<Rightarrow> Some u | ReviseCandidate _ _ _ \<Rightarrow> None),
      ao_content_digest = ProposalFileDigest (sha256 X s)\<rparr>)"
proof -
  have "append_proposal X E store submitter action dir = (Inr out, dir') \<longleftrightarrow> (\<exists>s.
    prepare_append X E (proposal_path E store) submitter action = Inr s \<and>
    write_exclusive (ae_write E) (proposal_path E store) s dir = (Inr (), dir') \<and>
    out = \<lparr>ao_path = proposal_path E store,
      ao_proposal_uid = mint_uid proposal_uid_prefix (ae_proposal_uuid E),
      ao_candidate_uid = (case action of CreateCandidate u _ \<Rightarrow> Some u | ReviseCandidate _ _ _ \<Rightarrow> None),
      ao_content_digest = ProposalFileDigest (sha256 X s)\<rparr>)"
    by (auto simp: append_proposal_def Let_def proposal_path_def split: sum.splits prod.splits)
  then show ?thesis by (simp add: write_exclusive_Ok_iff)
qed

lemma append_proposal_keeps:
  assumes "append_proposal X E store submitter action dir = (r, dir')" "bget dir p = Some b"
  shows "bget dir' p = Some b"
  using assms by (auto simp: append_proposal_def Let_def dest: write_exclusive_keeps split: sum.splits prod.splits)

lemma store_step_keeps: "store_step X store dir dir' \<Longrightarrow> bget dir p = Some b \<Longrightarrow> bget dir' p = Some b"
  by (erule store_stepE)
    (auto simp: append_create_candidate_def append_revise_candidate_def dest: append_proposal_keeps
      split: sum.splits)

lemma store_steps_keep: "(store_step X store)\<^sup>*\<^sup>* dir dir' \<Longrightarrow> bget dir p = Some b \<Longrightarrow> bget dir' p = Some b"
  by (induction rule: rtranclp_induct) (auto dest: store_step_keeps)

section \<open>Revisions\<close>

lemma check_revision_Ok_iff:
  assumes G: "cg_inv G"
  shows "check_revision X G u expected = Inr () \<longleftrightarrow> native_uid X requirement_uid_prefix u \<and> corpus_ok X G \<and>
    (\<exists>q. cg_get G u = Some (Requirement q) \<and> requirement_state X G q = Candidate \<and>
      review_content_digest_v1 X (from_node q) = expected)"
proof -
  have "review_content G u \<noteq> None \<longleftrightarrow> (\<exists>q. cg_get G u = Some (Requirement q))"
    by (auto simp: review_content_def split: option.splits node.splits)
  then show ?thesis
    by (auto simp: check_revision_def rbind_Ok_iff fail_if_Ok_iff map_err_Ok_iff proposal_uid_ok_def
        validate_native_uid_iff evaluate_lifecycle_iff [OF G] requirement_evaluation_def)
qed

lemma append_revise_Ok_iff:
  assumes "cg_inv G"
  shows "append_revise_candidate X E G u expected store submitter content dir = (Inr out, dir') \<longleftrightarrow>
    native_uid X requirement_uid_prefix u \<and> corpus_ok X G \<and>
    (\<exists>q. cg_get G u = Some (Requirement q) \<and> requirement_state X G q = Candidate \<and>
      review_content_digest_v1 X (from_node q) = expected) \<and>
    append_proposal X E store submitter (ReviseCandidate u expected content) dir = (Inr out, dir')"
  using check_revision_Ok_iff [OF assms, of X u expected]
  by (cases "check_revision X G u expected") (auto simp: append_revise_candidate_def)

section \<open>Reading back\<close>

lemma appended_reads_back:
  assumes u: "is_uuid_v4 X (ae_proposal_uuid E)" "is_rfc3339 X (ae_now E)"
    and codec: "\<And>file s. ae_to_toml E file = Inr s \<Longrightarrow> is_utf8 s \<and> from_toml s = Inr file"
    and target: "case action of CreateCandidate c _ \<Rightarrow> native_uid X requirement_uid_prefix c
      | ReviseCandidate b _ _ \<Rightarrow> native_uid X requirement_uid_prefix b"
    and a: "append_proposal X E store submitter action dir = (Inr out, dir')"
  shows "read_proposal X from_toml dir' (ao_path out) = Inr (proposal_of E submitter action)"
    "bget dir (ao_path out) = None" "ao_proposal_uid out = pp_uid (pz_proposal (proposal_of E submitter action))"
    "\<exists>b. dir' = bins (ao_path out) b dir \<and> ao_content_digest out = ProposalFileDigest (sha256 X b)"
proof -
  from a obtain s where s: "\<not> is_blank submitter" "content_ok X (action_content action)"
    "ae_to_toml E (proposal_of E submitter action) = Inr s" "bget dir (ao_path out) = None"
    "dir' = bins (ao_path out) s dir" "ao_content_digest out = ProposalFileDigest (sha256 X s)"
    "ao_proposal_uid out = mint_uid proposal_uid_prefix (ae_proposal_uuid E)"
    by (auto simp: append_proposal_Ok_iff prepare_append_Ok_iff)
  show "bget dir (ao_path out) = None" by (rule s(4))
  show "ao_proposal_uid out = pp_uid (pz_proposal (proposal_of E submitter action))"
    by (simp add: s(7) proposal_of_def)
  show "\<exists>b. dir' = bins (ao_path out) b dir \<and> ao_content_digest out = ProposalFileDigest (sha256 X b)"
    using s by blast
  have uid: "native_uid X proposal_uid_prefix (mint_uid proposal_uid_prefix (ae_proposal_uuid E))"
    using u(1) by (auto simp: native_uid_def mint_uid_def)
  have "validate_proposal_record X (ao_path out) (pz_proposal (proposal_of E submitter action)) = Inr ()"
    using s(1,2) u(2) target uid
    by (cases action) (simp_all add: validate_proposal_record_def rbind_Ok_iff fail_if_Ok_iff
        proposal_uid_ok_def validate_native_uid_iff validate_content_Ok_iff proposal_of_def)
  moreover have "pz_schema_version (proposal_of E submitter action) = supported_proposal_schema"
    by (simp add: proposal_of_def)
  ultimately show "read_proposal X from_toml dir' (ao_path out) = Inr (proposal_of E submitter action)"
    using codec [OF s(3)] by (simp add: read_proposal_def s(5))
qed

end
