(* ===== verification/Proposal_Properties.thy ===== *)
theory Proposal_Properties
  imports Proposal_Spec Lock_Properties
begin

text \<open>
  The properties of the proposal store, with a revision proposal for an unreviewed requirement as
  the concrete input.
\<close>

section \<open>A requirement to revise\<close>

definition demo_unreviewed :: corpus_graph where
  "demo_unreviewed = demo_baseline [Requirement demo_req]"

lemma demo_unreviewed_inv: "cg_inv demo_unreviewed"
  by (simp add: cg_inv_def demo_unreviewed_def demo_baseline_def bwf_def demo_req_def)

lemma demo_unreviewed_ok: "corpus_ok demo_platform demo_unreviewed"
proof -
  have "cg_validate demo_platform demo_unreviewed = Inr ()" by code_simp
  then show ?thesis by (simp add: cg_validate_Ok_iff [OF demo_unreviewed_inv])
qed

lemma demo_unreviewed_state: "requirement_state demo_platform demo_unreviewed demo_req = Candidate"
proof -
  have "cg_reviews demo_unreviewed = []"
    by (simp add: demo_unreviewed_def demo_baseline_def cg_reviews_def cg_node_list_def bvals_def
        List.map_filter_simps)
  then show ?thesis by (simp add: requirement_state_def live_reviews_def lifecycle_spec_def decided_def)
qed

lemma demo_unreviewed_get: "cg_get demo_unreviewed ''req_1'' = Some (Requirement demo_req)"
  by (simp add: cg_get_def demo_unreviewed_def demo_baseline_def demo_req_def)

definition demo_proposed :: proposed_requirement_content where
  "demo_proposed = \<lparr>pc_title = ''Start up'', pc_layer = Hlr, pc_description = None, pc_rationale = None,
     pc_scope = None, pc_category = None, pc_source = None,
     pc_verification_methods = [''review'', ''test''], pc_derives_from = [], pc_safety_impact = None\<rparr>"

definition demo_action :: proposal_action where
  "demo_action = ReviseCandidate ''req_1'' demo_req_digest demo_proposed"

definition demo_proposal :: proposal_file where
  "demo_proposal = \<lparr>pz_schema_version = 1, pz_proposal = \<lparr>pp_uid = ''prop_1'', pp_submitter = ''s'',
     pp_submitted_at = ''t'', pp_action = demo_action\<rparr>\<rparr>"

definition demo_append_env :: append_env where
  "demo_append_env = \<lparr>ae_proposal_uuid = ''1'', ae_now = ''t'',
     ae_to_toml = (\<lambda>file. if file = demo_proposal then Ok ''text'' else Err ''unsupported''),
     ae_write = Written\<rparr>"

definition demo_store :: proposal_store where
  "demo_store = \<lparr>ps_root = ''/props''\<rparr>"

lemma demo_proposal_of: "proposal_of demo_append_env ''s'' demo_action = demo_proposal"
  by (simp add: proposal_of_def demo_proposal_def demo_append_env_def mint_uid_def
      proposal_uid_prefix_def supported_proposal_schema_def)

lemma demo_proposed_ok: "content_ok demo_platform demo_proposed"
  by (simp add: content_ok_def demo_proposed_def is_blank_def) code_simp

lemma demo_blank: "\<not> is_blank ''s''"
  by (simp add: is_blank_def skip_ws.simps byte_def)

lemma demo_written: "ae_to_toml demo_append_env (proposal_of demo_append_env ''s''
    (ReviseCandidate ''req_1'' demo_req_digest demo_proposed)) = Inr ''text''"
  using demo_proposal_of by (simp add: demo_action_def) (simp add: demo_append_env_def)

lemma demo_req_native: "native_uid demo_platform requirement_uid_prefix ''req_1''"
  by (simp add: native_uid_def requirement_uid_prefix_def demo_platform_def)

lemma demo_revision_appended: "\<exists>out dir'. append_revise_candidate demo_platform demo_append_env
    demo_unreviewed ''req_1'' demo_req_digest demo_store ''s'' demo_proposed [] = (Inr out, dir')"
proof -
  have "ae_write demo_append_env = Written" by (simp add: demo_append_env_def)
  moreover have "\<exists>q. cg_get demo_unreviewed ''req_1'' = Some (Requirement q) \<and>
      requirement_state demo_platform demo_unreviewed q = Candidate \<and>
      review_content_digest_v1 demo_platform (from_node q) = demo_req_digest"
    using demo_unreviewed_get demo_unreviewed_state by (simp add: demo_req_digest_def)
  ultimately show ?thesis
    unfolding append_revise_Ok_iff [OF demo_unreviewed_inv] append_proposal_Ok_iff prepare_append_Ok_iff
    using demo_req_native demo_unreviewed_ok demo_written demo_proposed_ok demo_blank by auto
qed

section \<open>The properties\<close>

text \<open>C28: a proposal that is appended reads back, as the record that was submitted, at once and after
  any further appends, successful or failed: its path was free, its reported digest is that of the
  bytes on disk, and no later operation changes them. This asks of the host that its uuids and its
  clock have their formats and that the TOML writer's text is read back by the reader.\<close>

theorem appended_proposal_stays_readable:
  assumes "is_uuid_v4 X (ae_proposal_uuid E)" "is_rfc3339 X (ae_now E)"
    and "\<forall>file s. ae_to_toml E file = Inr s \<longrightarrow> is_utf8 s \<and> from_toml s = Inr file"
    and "append_create_candidate X E c store submitter content dir = (Inr out, dir') \<and> is_uuid_v4 X c \<and>
        action = CreateCandidate (mint_uid requirement_uid_prefix c) content \<or>
      append_revise_candidate X E G u expected store submitter content dir = (Inr out, dir') \<and>
        action = ReviseCandidate u expected content"
    and "(store_step X store)\<^sup>*\<^sup>* dir' later"
  shows "read_proposal X from_toml later (ao_path out) = Inr (proposal_of E submitter action) \<and>
    ao_proposal_uid out = pp_uid (pz_proposal (proposal_of E submitter action)) \<and>
    bget dir (ao_path out) = None \<and>
    (\<exists>b. bget later (ao_path out) = Some b \<and> ao_content_digest out = ProposalFileDigest (sha256 X b))"
proof -
  from assms(4) have a: "append_proposal X E store submitter action dir = (Inr out, dir')"
    and target: "case action of CreateCandidate c _ \<Rightarrow> native_uid X requirement_uid_prefix c
      | ReviseCandidate b _ _ \<Rightarrow> native_uid X requirement_uid_prefix b"
    by (auto simp: append_create_candidate_def append_revise_candidate_def check_revision_def
        rbind_Ok_iff proposal_uid_ok_def validate_native_uid_iff split: sum.splits)
      (auto simp: native_uid_def mint_uid_def)
  note readback = appended_reads_back [OF assms(1,2) _ target a, of from_toml]
  from assms(3) readback obtain b where b: "dir' = bins (ao_path out) b dir"
    "ao_content_digest out = ProposalFileDigest (sha256 X b)" by blast
  then have "bget dir' (ao_path out) = Some b" by simp
  with store_steps_keep [OF assms(5)] have l: "bget later (ao_path out) = Some b" by blast
  with \<open>bget dir' (ao_path out) = Some b\<close> have "read_proposal X from_toml later (ao_path out)
      = read_proposal X from_toml dir' (ao_path out)" by (simp add: read_proposal_def)
  with readback assms(3) b(2) l show ?thesis by auto
qed

text \<open>C29: a revision proposal is recorded exactly when it names a requirement of an accepted corpus
  that no effective review approves, rejects or once approved, with the digest of its current
  content as the expected one, and the proposal itself is well formed and can be written. No
  proposal can demote approved content.\<close>

theorem revision_needs_candidate:
  assumes "cg_inv G"
  shows "(\<exists>out dir'. append_revise_candidate X E G u expected store submitter content dir = (Inr out, dir')) \<longleftrightarrow>
    native_uid X requirement_uid_prefix u \<and> corpus_ok X G \<and>
    (\<exists>q. cg_get G u = Some (Requirement q) \<and> requirement_state X G q = Candidate \<and>
      review_content_digest_v1 X (from_node q) = expected) \<and>
    \<not> is_blank submitter \<and> content_ok X content \<and>
    (\<exists>s. ae_to_toml E (proposal_of E submitter (ReviseCandidate u expected content)) = Inr s) \<and>
    bget dir (proposal_path E store) = None \<and> ae_write E = Written"
  unfolding append_revise_Ok_iff [OF assms] append_proposal_Ok_iff prepare_append_Ok_iff by auto

theorem revision_needs_candidate_witness:
  "\<exists>out dir'. append_revise_candidate demo_platform demo_append_env demo_unreviewed ''req_1''
    demo_req_digest demo_store ''s'' demo_proposed [] = (Inr out, dir')"
proof -
  have "ae_write demo_append_env = Written" by (simp add: demo_append_env_def)
  moreover have "\<exists>q. cg_get demo_unreviewed ''req_1'' = Some (Requirement q) \<and>
      requirement_state demo_platform demo_unreviewed q = Candidate \<and>
      review_content_digest_v1 demo_platform (from_node q) = demo_req_digest"
    using demo_unreviewed_get demo_unreviewed_state by (simp add: demo_req_digest_def)
  moreover have "bget ([] :: proposal_dir) (proposal_path demo_append_env demo_store) = None" by simp
  ultimately show ?thesis
    unfolding revision_needs_candidate [OF demo_unreviewed_inv]
    using demo_req_native demo_unreviewed_ok demo_written demo_proposed_ok demo_blank by blast
qed

theorem appended_proposal_stays_readable_witness:
  "\<exists>(out :: append_outcome) later. read_proposal demo_platform (\<lambda>_. Inr demo_proposal) later (ao_path out) = Inr demo_proposal \<and>
    bget later (ao_path out) \<noteq> None"
proof -
  from demo_revision_appended obtain out dir' where a: "append_revise_candidate demo_platform
      demo_append_env demo_unreviewed ''req_1'' demo_req_digest demo_store ''s'' demo_proposed [] = (Inr out, dir')"
    by blast
  have c: "\<forall>file s. ae_to_toml demo_append_env file = Inr s \<longrightarrow>
      is_utf8 s \<and> (\<lambda>_. Inr demo_proposal :: string + proposal_file) s = Inr file"
    by (auto simp: demo_append_env_def byte_def split: if_splits)
  have "is_uuid_v4 demo_platform (ae_proposal_uuid demo_append_env)"
    "is_rfc3339 demo_platform (ae_now demo_append_env)"
    by (simp_all add: demo_append_env_def demo_platform_def)
  from appended_proposal_stays_readable [OF this c, of "[]" demo_store "''s''" demo_proposed "[]" out dir'
      demo_action demo_unreviewed "''req_1''" demo_req_digest dir'] a
  have "read_proposal demo_platform (\<lambda>_. Inr demo_proposal) dir' (ao_path out) = Inr demo_proposal \<and>
      bget dir' (ao_path out) \<noteq> None"
    unfolding demo_proposal_of by (auto simp: demo_action_def)
  then show ?thesis by blast
qed

end
