(* ===== verification/Float_Round.thy ===== *)
theory Float_Round
  imports Evidence_Prelude Complex_Main "HOL-Library.Log_Nat"
begin

text \<open>
  Binary floating point as the coverage percentages use it: a finite non-negative \<^verbatim>\<open>f64\<close> is
  its rational value, and an operation is the exact one followed by rounding to 53 significant
  bits, ties to even. No operand of the model leaves the normal range.
\<close>

section \<open>Rounding\<close>

text \<open>The nearest integer, ties to the even one.\<close>

definition round_even :: "rat \<Rightarrow> int" where
  "round_even y = (let n = \<lfloor>y\<rfloor>; r = y - of_int n in
     if r < 1 / 2 then n else if r > 1 / 2 then n + 1 else if even n then n else n + 1)"

text \<open>The exponent of a positive rational: the largest power of two that is not above it.\<close>

definition binade :: "rat \<Rightarrow> int" where
  "binade x = (let (n, d) = quotient_of x; e = bitlen n - bitlen d in
     if 2 powi e \<le> x then e else e - 1)"

definition ulp :: "rat \<Rightarrow> rat" where
  "ulp x = 2 powi (binade x - 52)"

definition round_f64 :: "rat \<Rightarrow> rat" where
  "round_f64 x = (if x \<le> 0 then 0 else of_int (round_even (x / ulp x)) * ulp x)"

lemma round_even_bounds: "y - 1 / 2 \<le> of_int (round_even y)" "of_int (round_even y) \<le> y + 1 / 2"
proof -
  have f: "of_int \<lfloor>y\<rfloor> \<le> y" "y < of_int \<lfloor>y\<rfloor> + 1" by linarith+
  have "(of_int (round_even y) :: rat) = of_int \<lfloor>y\<rfloor> \<and> y - of_int \<lfloor>y\<rfloor> \<le> 1 / 2 \<or>
      (of_int (round_even y) :: rat) = of_int \<lfloor>y\<rfloor> + 1 \<and> 1 / 2 \<le> y - of_int \<lfloor>y\<rfloor>"
    by (auto simp: round_even_def Let_def)
  with f show "y - 1 / 2 \<le> of_int (round_even y)" "of_int (round_even y) \<le> y + 1 / 2" by linarith+
qed

lemma round_even_floor: "\<lfloor>y\<rfloor> \<le> round_even y" "round_even y \<le> \<lfloor>y\<rfloor> + 1"
  by (auto simp: round_even_def Let_def)

lemma round_even_of_int [simp]: "round_even (of_int n) = n"
  by (simp add: round_even_def)

lemma round_even_mono: "x \<le> y \<Longrightarrow> round_even x \<le> round_even y"
proof -
  assume le: "x \<le> y"
  show "round_even x \<le> round_even y"
  proof (cases "\<lfloor>x\<rfloor> = \<lfloor>y\<rfloor>")
    case True
    with le show ?thesis by (auto simp: round_even_def Let_def)
  next
    case False
    with le have "\<lfloor>x\<rfloor> + 1 \<le> \<lfloor>y\<rfloor>" using floor_mono [OF le] by simp
    with round_even_floor(2) [of x] round_even_floor(1) [of y] show ?thesis by linarith
  qed
qed

lemma power_int_pos: "0 < (2::rat) powi e"
  by simp

lemma binade_bounds:
  assumes "0 < x"
  shows "2 powi binade x \<le> x" "x < 2 powi (binade x + 1)"
proof -
  obtain n d where q: "quotient_of x = (n, d)" by (cases "quotient_of x")
  have d: "0 < d" and x: "x = of_int n / of_int d"
    using quotient_of_denom_pos [OF q] quotient_of_div [OF q] by simp_all
  with assms have n: "0 < n" by (simp add: zero_less_divide_iff)
  have len: "1 \<le> bitlen n" "1 \<le> bitlen d" using n d by (simp_all add: bitlen_alt_def)
  from bitlen_bounds [OF n] bitlen_bounds [OF d] have
    i: "2 ^ nat (bitlen n - 1) \<le> n" "n < 2 ^ nat (bitlen n)" "2 ^ nat (bitlen d - 1) \<le> d" "d < 2 ^ nat (bitlen d)"
    by auto
  have pow: "of_int (2 ^ nat k) = (2::rat) powi k" if "0 \<le> k" for k :: int
    using that by (simp add: power_int_def)
  have "(of_int (2 ^ nat (bitlen n - 1)) :: rat) \<le> of_int n" "(of_int n :: rat) < of_int (2 ^ nat (bitlen n))"
    "(of_int (2 ^ nat (bitlen d - 1)) :: rat) \<le> of_int d" "(of_int d :: rat) < of_int (2 ^ nat (bitlen d))"
    using i by (simp_all only: of_int_le_iff of_int_less_iff)
  then have r: "2 powi (bitlen n - 1) \<le> (of_int n :: rat)" "of_int n < (2::rat) powi bitlen n"
    "2 powi (bitlen d - 1) \<le> (of_int d :: rat)" "of_int d < (2::rat) powi bitlen d"
    using len by (simp_all only: pow diff_ge_0_iff_ge order_trans [OF zero_le_one])
  have lower: "2 powi (bitlen n - bitlen d - 1) \<le> x"
  proof -
    have "2 powi (bitlen n - bitlen d - 1) * of_int d \<le> 2 powi (bitlen n - bitlen d - 1) * (2::rat) powi bitlen d"
      using r(4) by (intro mult_left_mono) simp_all
    also have "\<dots> = 2 powi (bitlen n - 1)" by (simp flip: power_int_add)
    also have "\<dots> \<le> of_int n" by (rule r(1))
    finally show ?thesis using d by (simp add: x pos_le_divide_eq)
  qed
  have upper: "x < 2 powi (bitlen n - bitlen d + 1)"
  proof -
    have "of_int n < (2::rat) powi bitlen n" by (rule r(2))
    also have "\<dots> = 2 powi (bitlen n - bitlen d + 1) * 2 powi (bitlen d - 1)" by (simp flip: power_int_add)
    also have "\<dots> \<le> 2 powi (bitlen n - bitlen d + 1) * of_int d"
      using r(3) by (intro mult_left_mono) simp_all
    finally show ?thesis using d by (simp add: x pos_divide_less_eq)
  qed
  show "2 powi binade x \<le> x" "x < 2 powi (binade x + 1)"
    using lower upper by (auto simp: binade_def q Let_def not_le)
qed

lemma binade_mono: "0 < x \<Longrightarrow> x \<le> y \<Longrightarrow> binade x \<le> binade y"
proof (rule ccontr)
  assume a: "0 < x" "x \<le> y" "\<not> binade x \<le> binade y"
  then have "(2::rat) powi (binade y + 1) \<le> 2 powi binade x" by (intro power_int_increasing) simp_all
  with a binade_bounds [of x] binade_bounds [of y] show False by linarith
qed

lemma binade_less: "0 < x \<Longrightarrow> x < 2 powi e \<Longrightarrow> binade x < e"
proof (rule ccontr)
  assume a: "0 < x" "x < 2 powi e" "\<not> binade x < e"
  then have "(2::rat) powi e \<le> 2 powi binade x" by (intro power_int_increasing) simp_all
  with a binade_bounds [of x] show False by linarith
qed

lemma ulp_pos [simp]: "0 < ulp x"
  by (simp add: ulp_def)

lemma ulp_le: "0 < x \<Longrightarrow> ulp x \<le> x * 2 powi (- 52)"
proof -
  assume "0 < x"
  then have "2 powi binade x * 2 powi (- 52) \<le> x * (2::rat) powi (- 52)"
    using binade_bounds by (intro mult_right_mono) simp_all
  moreover have "2 powi binade x * 2 powi (- 52) = ulp x"
    unfolding ulp_def by (subst power_int_add [symmetric]) simp_all
  ultimately show ?thesis by (simp only:)
qed

section \<open>What rounding keeps\<close>

lemma round_f64_upper: "0 < x \<Longrightarrow> round_f64 x \<le> x + ulp x / 2"
proof -
  assume x: "0 < x"
  have "of_int (round_even (x / ulp x)) * ulp x \<le> (x / ulp x + 1 / 2) * ulp x"
    using round_even_bounds(2) by (intro mult_right_mono) (simp_all add: less_imp_le)
  also have "\<dots> = x + ulp x / 2" by (simp add: algebra_simps) (metis ulp_pos less_irrefl nonzero_eq_divide_eq)
  finally show ?thesis using x by (simp add: round_f64_def)
qed

lemma round_f64_relative: "0 < x \<Longrightarrow> round_f64 x \<le> x * (1 + 2 powi (- 53))"
proof -
  assume x: "0 < x"
  have half: "(2::rat) powi (- 52) / 2 = 2 powi (- 53)" by code_simp
  have "ulp x / 2 \<le> x * 2 powi (- 52) / 2" using ulp_le [OF x] by (rule divide_right_mono) simp
  also have "\<dots> = x * (2 powi (- 52) / 2)" by (simp only: times_divide_eq_right)
  finally have "ulp x / 2 \<le> x * 2 powi (- 53)" by (simp only: half)
  with round_f64_upper [OF x] show ?thesis unfolding distrib_left mult_1_right by linarith
qed

lemma round_f64_binade:
  assumes "0 < x"
  shows "2 powi binade x \<le> round_f64 x" "round_f64 x \<le> 2 powi (binade x + 1)"
proof -
  have u: "(2::rat) powi binade x = of_int (2 ^ 52) * ulp x" "(2::rat) powi (binade x + 1) = of_int (2 ^ 53) * ulp x"
    by (simp_all add: ulp_def power_int_diff power_int_add)
  have "of_int (2 ^ 52) \<le> x / ulp x" "x / ulp x \<le> of_int (2 ^ 53)"
    using binade_bounds [OF assms] unfolding u by (simp_all add: pos_le_divide_eq pos_divide_le_eq less_imp_le)
  then have "2 ^ 52 \<le> round_even (x / ulp x)" "round_even (x / ulp x) \<le> 2 ^ 53"
    using round_even_mono round_even_of_int by metis+
  then have "of_int (2 ^ 52) * ulp x \<le> of_int (round_even (x / ulp x)) * ulp x"
    "of_int (round_even (x / ulp x)) * ulp x \<le> of_int (2 ^ 53) * ulp x"
    by (intro mult_right_mono of_int_le_iff [THEN iffD2]; simp add: less_imp_le)+
  with assms show "2 powi binade x \<le> round_f64 x" "round_f64 x \<le> 2 powi (binade x + 1)"
    unfolding u by (simp_all add: round_f64_def)
qed

lemma round_f64_nonneg: "0 \<le> round_f64 x"
proof (cases "0 < x")
  case True
  have "(0::rat) < 2 powi binade x" by simp
  with round_f64_binade(1) [OF True] show ?thesis by linarith
qed (simp add: round_f64_def)

lemma round_f64_mono: "x \<le> y \<Longrightarrow> round_f64 x \<le> round_f64 y"
proof -
  assume le: "x \<le> y"
  show ?thesis
  proof (cases "0 < x")
    case False
    then show ?thesis using round_f64_nonneg [of y] by (simp add: round_f64_def)
  next
    case x: True
    then have y: "0 < y" using le by simp
    show ?thesis
    proof (cases "binade x = binade y")
      case True
      then have u: "ulp x = ulp y" by (simp add: ulp_def)
      have "x / ulp y \<le> y / ulp y" using le by (intro divide_right_mono) (simp_all add: less_imp_le)
      from round_even_mono [OF this]
      have "of_int (round_even (x / ulp y)) * ulp y \<le> of_int (round_even (y / ulp y)) * ulp y"
        by (intro mult_right_mono of_int_le_iff [THEN iffD2]) (simp_all add: less_imp_le)
      with x y u show ?thesis by (simp add: round_f64_def)
    next
      case False
      with binade_mono [OF x le] have "(2::rat) powi (binade x + 1) \<le> 2 powi binade y"
        by (intro power_int_increasing) simp_all
      with round_f64_binade(2) [OF x] round_f64_binade(1) [OF y] show ?thesis by linarith
    qed
  qed
qed

text \<open>Integers below \<open>2 ^ 53\<close> are exact.\<close>

lemma round_f64_of_nat:
  assumes "n < 2 ^ 53"
  shows "round_f64 (of_nat n) = of_nat n"
proof (cases "n = 0")
  case False
  then have n: "(0::rat) < of_nat n" by simp
  have "of_nat n < (2::rat) ^ 53" using assms of_nat_less_iff [of n "2 ^ 53", where 'a = rat] by simp
  then have "(of_nat n :: rat) < 2 powi 53" by (simp add: power_int_def)
  from binade_less [OF n this] have b: "binade (of_nat n) \<le> 52" by simp
  define k where "k = nat (52 - binade (of_nat n))"
  have "binade (of_nat n) - 52 = - int k" using b by (simp add: k_def)
  then have u: "ulp (of_nat n) = inverse (2 ^ k)" by (simp only: ulp_def power_int_minus power_int_of_nat)
  have "of_nat n / ulp (of_nat n) = (of_int (int n * 2 ^ k) :: rat)"
    by (simp add: u divide_inverse)
  then have "round_even (of_nat n / ulp (of_nat n)) = int n * 2 ^ k" by (simp only: round_even_of_int)
  with n u show ?thesis by (simp add: round_f64_def)
qed (simp add: round_f64_def)

section \<open>Percentages\<close>

definition f64_of_nat :: "nat \<Rightarrow> rat" where
  "f64_of_nat n = round_f64 (of_nat n)"

definition f64_div :: "rat \<Rightarrow> rat \<Rightarrow> rat" where
  "f64_div a b = round_f64 (a / b)"

definition f64_mul :: "rat \<Rightarrow> rat \<Rightarrow> rat" where
  "f64_mul a b = round_f64 (a * b)"

text \<open>The three gates are percentages that survive the round trip.\<close>

lemma gates_exact:
  "f64_mul (round_f64 (85 / 100)) 100 = 85" "f64_mul (round_f64 (90 / 100)) 100 = 90"
  "f64_mul (round_f64 (95 / 100)) 100 = 95"
  by code_simp+

lemma percent_exact:
  assumes t: "0 < t" "t < 2 ^ 45" and c: "c < 2 ^ 45" and m: "m \<in> {85, 90, 95}"
  shows "f64_mul (f64_div (f64_of_nat c) (f64_of_nat t)) 100 < of_nat m \<longleftrightarrow> 100 * c < m * t"
proof -
  have conv: "f64_of_nat c = of_nat c" "f64_of_nat t = of_nat t"
    using t c by (simp_all add: f64_of_nat_def round_f64_of_nat)
  let ?q = "round_f64 (of_nat c / of_nat t)"
  have goal: "f64_mul (f64_div (f64_of_nat c) (f64_of_nat t)) 100 = round_f64 (?q * 100)"
    by (simp add: conv f64_mul_def f64_div_def)
  show ?thesis
  proof (cases "100 * c < m * t")
    case False
    then have "(of_nat (m * t) :: rat) \<le> of_nat (100 * c)" using of_nat_le_iff by (metis not_less)
    then have "of_nat m * of_nat t \<le> (100 * of_nat c :: rat)" by simp
    then have "of_nat m / 100 \<le> (of_nat c / of_nat t :: rat)"
      using t(1) by (simp add: divide_le_eq le_divide_eq mult.commute)
    from round_f64_mono [OF this] have "round_f64 (of_nat m / 100) * 100 \<le> ?q * 100" by simp
    then have "round_f64 (round_f64 (of_nat m / 100) * 100) \<le> round_f64 (?q * 100)" by (rule round_f64_mono)
    moreover have "round_f64 (round_f64 (of_nat m / 100) * 100) = of_nat m"
      using m gates_exact by (auto simp: f64_mul_def)
    ultimately show ?thesis using False unfolding goal by simp
  next
    case True
    show ?thesis
    proof (cases "c = 0")
      case True
      with m t(1) show ?thesis unfolding goal by (auto simp: round_f64_def)
    next
      case False
      then have y: "(0::rat) < of_nat c / of_nat t" using t(1) by simp
      have m95: "(of_nat m :: rat) \<le> 95" using m by auto
      from True have "100 * c + 1 \<le> m * t" by simp
      then have "(of_nat (100 * c + 1) :: rat) \<le> of_nat (m * t)" by (simp only: of_nat_le_iff)
      then have "100 * of_nat c + 1 \<le> (of_nat m * of_nat t :: rat)" by simp
      then have less: "100 * (of_nat c / of_nat t) \<le> of_nat m - 1 / (of_nat t :: rat)"
        using t(1) by (simp add: field_simps)
      have t45: "1 / (of_nat t :: rat) \<ge> 1 / 2 ^ 45"
      proof -
        have "(of_nat t :: rat) \<le> 2 ^ 45" using t(2) of_nat_le_iff [of t "2 ^ 45", where 'a = rat] by simp
        then show ?thesis using t(1) by (intro divide_left_mono) simp_all
      qed
      define p :: rat where "p = 2 powi (- 53)"
      have pv: "p = 1 / 2 ^ 53" unfolding p_def by code_simp
      have q: "?q * 100 \<le> (of_nat m - 1 / of_nat t) * (1 + p)"
      proof -
        have "?q * 100 \<le> (of_nat c / of_nat t) * (1 + p) * 100"
          using round_f64_relative [OF y] by (simp add: p_def)
        also have "\<dots> = 100 * (of_nat c / of_nat t) * (1 + p)" by simp
        also have "\<dots> \<le> (of_nat m - 1 / of_nat t) * (1 + p)"
          using less pv by (intro mult_right_mono) simp_all
        finally show ?thesis .
      qed
      have bound: "(of_nat m - 1 / of_nat t) * (1 + p) \<le> of_nat m - 1 / of_nat t + 95 * p"
      proof -
        have "(of_nat m - 1 / of_nat t) * p \<le> 95 * p"
          using m95 pv by (intro mult_right_mono) (simp_all add: order_trans [OF _ m95])
        then show ?thesis unfolding distrib_left mult_1_right by (rule add_left_mono)
      qed
      have small: "?q * 100 \<le> of_nat m - 1 / 2 ^ 45 + 95 / 2 ^ 53"
        using q bound t45 by (simp add: pv)
      show ?thesis
      proof (cases "0 < ?q * 100")
        case pos: True
        have "?q * 100 < 2 powi 7" using small m95 by (simp add: power_int_def)
        from binade_less [OF pos this] have "(2::rat) powi (binade (?q * 100) - 52) \<le> 2 powi (- 46)"
          by (intro power_int_increasing) simp_all
        moreover have "(2::rat) powi (- 46) = 1 / 2 ^ 46" by code_simp
        ultimately have "ulp (?q * 100) \<le> 1 / 2 ^ 46" by (simp only: ulp_def)
        with round_f64_upper [OF pos] small have "round_f64 (?q * 100) < of_nat m" by simp
        with \<open>100 * c < m * t\<close> show ?thesis unfolding goal by simp
      next
        case False
        then have "round_f64 (?q * 100) = 0" by (simp add: round_f64_def)
        with \<open>100 * c < m * t\<close> m show ?thesis unfolding goal by auto
      qed
    qed
  qed
qed

end
