(* ===== verification/Diagnostics.thy ===== *)
theory Diagnostics
  imports Evidence_Prelude
begin

text \<open>
  The diagnostic every command prints (\<^verbatim>\<open>diagnostic.rs\<close>): its severity, location and
  repair hint, and the dash its messages use, as the UTF-8 bytes of the source.
\<close>

datatype severity = SevError | SevWarning | SevInfo

record location =
  lo_file :: "string option"
  lo_line :: "u32 option"
  lo_col :: "u32 option"
  lo_toml_path :: "string option"
  lo_entry_uid :: "string option"

definition location_default :: location where
  "location_default = \<lparr>lo_file = None, lo_line = None, lo_col = None, lo_toml_path = None, lo_entry_uid = None\<rparr>"

datatype fix_hint =
    AssignUuid string string
  | AddTomlKey string string string string
  | OtherHint

record diagnostic =
  di_code :: string
  di_severity :: severity
  di_message :: string
  di_location :: "location option"
  di_fix_hint :: "fix_hint option"
  di_subcommand :: "string option"
  di_root_cause_uid :: "string option"

definition em_dash :: string where
  "em_dash = '' '' @ [CHR 0xE2, CHR 0x80, CHR 0x94] @ '' ''"

text \<open>The codes that end the stream of a command.\<close>

definition terminal_codes :: "string list" where
  "terminal_codes = [''VERIFY_OK'', ''VERIFY_FAIL'', ''VERIFY_ERROR'', ''CLI_SUBCOMMAND_ERROR'',
     ''DOCTOR_OK'', ''DOCTOR_FAIL'', ''TESTS_OK'', ''INIT_OK'', ''INIT_FAIL'', ''KEYGEN_OK'',
     ''KEYGEN_FAIL'', ''FLOORS_OK'', ''FLOORS_FAIL'', ''GENERATE_OK'', ''GENERATE_FAIL'',
     ''CONTEXT_OK'', ''CONTEXT_FAIL'', ''CONTEXT_ERROR'']"

end
