(* ===== verification/Compliance.thy ===== *)
theory Compliance
  imports Float_Round Trace_Entries Diagnostics
begin

text \<open>
  The compliance report of a crate (\<^verbatim>\<open>compliance/\<close>): the objective table, the verdict
  on each objective from the evidence of a bundle, and the report with its counts. A coverage
  percentage is the rational value of its \<^verbatim>\<open>f64\<close>.
\<close>

section \<open>Objectives\<close>

datatype applicability = NotApplicable | Required | RequiredWithIndependence

record objective =
  ob_id :: string
  ob_table :: string
  ob_title :: string
  ob_applicability :: "applicability list"

fun dal_column :: "dal \<Rightarrow> nat" where
  "dal_column DalA = 0"
| "dal_column DalB = 1"
| "dal_column DalC = 2"
| "dal_column DalD = 3"

text \<open>The array has four entries, one per level.\<close>

definition applicability_for :: "objective \<Rightarrow> dal \<Rightarrow> applicability" where
  "applicability_for obj level = ob_applicability obj ! dal_column level"

definition mk_objective :: "string \<Rightarrow> string \<Rightarrow> string \<Rightarrow> applicability list \<Rightarrow> objective" where
  "mk_objective i table title app =
    \<lparr>ob_id = i, ob_table = table, ob_title = title, ob_applicability = app\<rparr>"

definition objectives :: "objective list" where
  "objectives = [
    mk_objective ''A3-1'' ''Table A-3'' ''HLR comply with system requirements''
      [RequiredWithIndependence, RequiredWithIndependence, Required, Required],
    mk_objective ''A3-2'' ''Table A-3'' ''HLR are accurate and consistent''
      [RequiredWithIndependence, RequiredWithIndependence, Required, Required],
    mk_objective ''A3-3'' ''Table A-3'' ''HLR are compatible with target computer''
      [RequiredWithIndependence, RequiredWithIndependence, Required, Required],
    mk_objective ''A3-4'' ''Table A-3'' ''HLR are verifiable''
      [RequiredWithIndependence, RequiredWithIndependence, Required, Required],
    mk_objective ''A3-5'' ''Table A-3'' ''HLR conform to standards''
      [RequiredWithIndependence, RequiredWithIndependence, Required, Required],
    mk_objective ''A3-6'' ''Table A-3'' ''HLR are traceable to system requirements''
      [RequiredWithIndependence, RequiredWithIndependence, Required, Required],
    mk_objective ''A3-7'' ''Table A-3'' ''Algorithms are accurate''
      [RequiredWithIndependence, RequiredWithIndependence, Required, NotApplicable],
    mk_objective ''A4-1'' ''Table A-4'' ''LLR comply with HLR''
      [RequiredWithIndependence, RequiredWithIndependence, Required, Required],
    mk_objective ''A4-2'' ''Table A-4'' ''LLR are accurate and consistent''
      [RequiredWithIndependence, RequiredWithIndependence, Required, Required],
    mk_objective ''A4-3'' ''Table A-4'' ''LLR are compatible with target computer''
      [RequiredWithIndependence, RequiredWithIndependence, Required, Required],
    mk_objective ''A4-4'' ''Table A-4'' ''LLR are verifiable''
      [RequiredWithIndependence, RequiredWithIndependence, Required, Required],
    mk_objective ''A4-5'' ''Table A-4'' ''LLR conform to standards''
      [RequiredWithIndependence, RequiredWithIndependence, Required, Required],
    mk_objective ''A4-6'' ''Table A-4'' ''LLR are traceable to HLR''
      [RequiredWithIndependence, RequiredWithIndependence, Required, Required],
    mk_objective ''A4-7'' ''Table A-4'' ''LLR algorithms are accurate''
      [RequiredWithIndependence, RequiredWithIndependence, Required, NotApplicable],
    mk_objective ''A4-8'' ''Table A-4'' ''LLR are compatible with target''
      [RequiredWithIndependence, RequiredWithIndependence, Required, NotApplicable],
    mk_objective ''A5-1'' ''Table A-5'' ''Architecture is compatible with HLR''
      [RequiredWithIndependence, RequiredWithIndependence, Required, NotApplicable],
    mk_objective ''A5-2'' ''Table A-5'' ''Architecture is consistent''
      [RequiredWithIndependence, RequiredWithIndependence, Required, NotApplicable],
    mk_objective ''A5-3'' ''Table A-5'' ''Architecture is compatible with target''
      [RequiredWithIndependence, RequiredWithIndependence, Required, NotApplicable],
    mk_objective ''A5-4'' ''Table A-5'' ''Architecture is verifiable''
      [RequiredWithIndependence, RequiredWithIndependence, Required, NotApplicable],
    mk_objective ''A5-5'' ''Table A-5'' ''Architecture conforms to standards''
      [RequiredWithIndependence, RequiredWithIndependence, Required, NotApplicable],
    mk_objective ''A6-1'' ''Table A-6'' ''Source code complies with LLR''
      [RequiredWithIndependence, RequiredWithIndependence, Required, Required],
    mk_objective ''A6-2'' ''Table A-6'' ''Source code complies with architecture''
      [RequiredWithIndependence, RequiredWithIndependence, Required, Required],
    mk_objective ''A6-3'' ''Table A-6'' ''Source code is verifiable''
      [RequiredWithIndependence, RequiredWithIndependence, Required, NotApplicable],
    mk_objective ''A6-4'' ''Table A-6'' ''Source code conforms to standards''
      [RequiredWithIndependence, RequiredWithIndependence, Required, Required],
    mk_objective ''A6-5'' ''Table A-6'' ''Source code is traceable to LLR''
      [RequiredWithIndependence, RequiredWithIndependence, Required, Required],
    mk_objective ''A7-1'' ''Table A-7'' ''Executable object code complies with HLR''
      [RequiredWithIndependence, RequiredWithIndependence, Required, Required],
    mk_objective ''A7-2'' ''Table A-7'' ''Executable object code is robust with HLR''
      [RequiredWithIndependence, RequiredWithIndependence, Required, Required],
    mk_objective ''A7-3'' ''Table A-7'' ''Executable object code complies with LLR''
      [RequiredWithIndependence, RequiredWithIndependence, Required, NotApplicable],
    mk_objective ''A7-4'' ''Table A-7'' ''Executable object code is robust with LLR''
      [RequiredWithIndependence, RequiredWithIndependence, NotApplicable, NotApplicable],
    mk_objective ''A7-5'' ''Table A-7'' ''Executable object code is compatible with target''
      [RequiredWithIndependence, RequiredWithIndependence, Required, Required],
    mk_objective ''A7-6'' ''Table A-7'' ''Test coverage of HLR is achieved''
      [RequiredWithIndependence, RequiredWithIndependence, Required, Required],
    mk_objective ''A7-7'' ''Table A-7'' ''Test coverage of LLR is achieved''
      [RequiredWithIndependence, RequiredWithIndependence, Required, NotApplicable],
    mk_objective ''A7-8'' ''Table A-7'' ''Test coverage of software structure (statement) is achieved''
      [RequiredWithIndependence, RequiredWithIndependence, Required, NotApplicable],
    mk_objective ''A7-9'' ''Table A-7'' ''Test coverage of software structure (decision) is achieved''
      [RequiredWithIndependence, RequiredWithIndependence, NotApplicable, NotApplicable],
    mk_objective ''A7-10'' ''Table A-7'' ''Test coverage of software structure (MC/DC) is achieved''
      [RequiredWithIndependence, NotApplicable, NotApplicable, NotApplicable]]"

section \<open>Evidence\<close>

record crate_evidence =
  ev_has_trace_data :: bool
  ev_trace_validation_passed :: bool
  ev_has_test_results :: bool
  ev_tests_passed :: "bool option"
  ev_has_coverage_data :: bool
  ev_has_per_test_outcomes :: bool
  ev_coverage_statement_percent :: "rat option"
  ev_coverage_branch_percent :: "rat option"
  ev_coverage_disposition :: "string option"

datatype objective_status_kind = Met | NotMet | Partial | StatusNotApplicable | ManualReviewRequired

type_synonym objective_verdict = "objective_status_kind \<times> string list \<times> string option"

section \<open>Verdicts\<close>

datatype coverage_dimension = StatementCoverage | BranchDimension

fun dimension_as_str :: "coverage_dimension \<Rightarrow> string" where
  "dimension_as_str StatementCoverage = ''statement''"
| "dimension_as_str BranchDimension = ''branch''"

text \<open>\<^verbatim>\<open>{obs:.2}\<close> of a non-negative number: the exact value to two decimals, ties to even.\<close>

definition show_fixed2 :: "rat \<Rightarrow> string" where
  "show_fixed2 x = (let n = nat (round_even (x * 100)) in
     show_nat (n div 100) @ ''.'' @ show_nat (n mod 100 div 10) @ show_nat (n mod 10))"

definition at_least :: string where
  "at_least = '' '' @ [CHR 0xE2, CHR 0x89, CHR 0xA5] @ '' ''"

definition coverage_files :: "string list" where
  "coverage_files = [''coverage/coverage_summary.json'', ''coverage/lcov.info'']"

definition coverage_verdict ::
  "rat option \<Rightarrow> nat option \<Rightarrow> coverage_dimension \<Rightarrow> string option \<Rightarrow> objective_verdict" where
  "coverage_verdict observed_percent threshold_percent dimension disposition =
    (let dim = dimension_as_str dimension in
     case observed_percent of
       None \<Rightarrow> (NotMet, [], Some (''no '' @ dim @ ''-coverage data in bundle''))
     | Some obs \<Rightarrow> (case threshold_percent of
         Some minimum \<Rightarrow>
           if obs < of_nat minimum then (Partial, coverage_files, Some (dim @ '' coverage '' @ show_fixed2 obs
             @ ''% below '' @ show_nat minimum @ ''% engineering gate; uncovered structure requires documented''
             @ '' analysis/disposition before the objective can close''))
           else (case dimension of
             StatementCoverage \<Rightarrow> (case disposition of
               Some _ \<Rightarrow> (Met, coverage_files, Some (dim @ '' coverage '' @ show_fixed2 obs @ ''%'' @ at_least
                 @ show_nat minimum @ ''% engineering gate; uncovered-structure analysis/disposition recorded''))
             | None \<Rightarrow> (ManualReviewRequired, coverage_files, Some (dim @ '' coverage '' @ show_fixed2 obs
                 @ ''%'' @ at_least @ show_nat minimum @ ''% engineering gate; the percentage is an engineering''
                 @ '' metric'' @ em_dash @ ''the objective closes only with documented analysis/disposition of''
                 @ '' uncovered structure and tool qualification evidence'')))
           | BranchDimension \<Rightarrow> (ManualReviewRequired, coverage_files, Some (''LLVM branch coverage ''
               @ show_fixed2 obs @ ''%'' @ at_least @ show_nat minimum @ ''% engineering gate approximates''
               @ '' decision coverage; approximate evidence cannot close the objective''
               @ (if disposition \<noteq> None then '' (disposition recorded)'' else [])
               @ em_dash @ ''independent review of the approximation plus tool qualification evidence required'')))
       | None \<Rightarrow> (ManualReviewRequired, coverage_files, Some (dim @ '' coverage '' @ show_fixed2 obs
           @ ''% (no engineering gate applies at this level); a percentage alone cannot close the objective''
           @ em_dash @ ''analysis/disposition of uncovered structure and tool qualification review required''))))"

definition manual_review :: "string \<Rightarrow> objective_verdict" where
  "manual_review note = (ManualReviewRequired, [], Some note)"

definition cargo_stdout :: string where
  "cargo_stdout = ''tests/cargo_test_stdout.txt''"

definition failed_tests :: objective_verdict where
  "failed_tests = (NotMet, [cargo_stdout], Some ''tests ran but at least one failed'')"

definition a7_1_2_hlr_testing :: "crate_evidence \<Rightarrow> objective_verdict" where
  "a7_1_2_hlr_testing E =
    (if ev_tests_passed E = Some True \<and> ev_has_test_results E then (Partial, [cargo_stdout],
       Some ''aggregate test results available; per-requirement mapping requires test_selector'')
     else if ev_tests_passed E = Some False then failed_tests
     else (NotMet, [], Some ''no test results in bundle''))"

definition a7_3_4_llr_testing :: "crate_evidence \<Rightarrow> objective_verdict" where
  "a7_3_4_llr_testing E =
    (if ev_tests_passed E = Some True \<and> ev_has_per_test_outcomes E \<and> ev_has_test_results E then
       (Met, [''tests/test_outcomes.jsonl'', cargo_stdout],
        Some ''per-test outcome atoms captured in test_outcomes.jsonl'')
     else if ev_tests_passed E = Some True \<and> \<not> ev_has_per_test_outcomes E \<and> ev_has_test_results E then
       (Partial, [cargo_stdout],
        Some ''aggregate test results available; per-LLR mapping requires test_selector'')
     else if ev_tests_passed E = Some False then failed_tests
     else (NotMet, [], Some ''no test results in bundle''))"

definition a7_5_target_compatibility :: "crate_evidence \<Rightarrow> objective_verdict" where
  "a7_5_target_compatibility E =
    (if ev_tests_passed E = Some True \<and> ev_has_test_results E then (Met, [cargo_stdout, ''env.json''], None)
     else if ev_tests_passed E = Some False then failed_tests
     else (NotMet, [], Some ''no passing test results''))"

definition a7_6_hlr_test_coverage :: "crate_evidence \<Rightarrow> objective_verdict" where
  "a7_6_hlr_test_coverage E =
    (if ev_has_trace_data E \<and> ev_has_test_results E \<and> ev_trace_validation_passed E then
       (Partial, [''trace/matrix.md'', cargo_stdout],
        Some ''traceability matrix shows HLR-to-test links; completeness requires manual review'')
     else (NotMet, [], None))"

definition a7_7_llr_test_coverage :: "crate_evidence \<Rightarrow> objective_verdict" where
  "a7_7_llr_test_coverage E =
    (if ev_has_trace_data E \<and> ev_has_test_results E \<and> ev_trace_validation_passed E then
       (Partial, [''trace/matrix.md''],
        Some ''traceability matrix shows LLR-to-test links; completeness requires manual review'')
     else (NotMet, [], None))"

definition a7_8_statement_coverage :: "dal \<Rightarrow> crate_evidence \<Rightarrow> objective_verdict" where
  "a7_8_statement_coverage level E = coverage_verdict (ev_coverage_statement_percent E)
     (ct_statement_percent (coverage_thresholds level)) StatementCoverage (ev_coverage_disposition E)"

definition a7_9_decision_coverage :: "dal \<Rightarrow> crate_evidence \<Rightarrow> objective_verdict" where
  "a7_9_decision_coverage level E = coverage_verdict (ev_coverage_branch_percent E)
     (ct_branch_percent (coverage_thresholds level)) BranchDimension (ev_coverage_disposition E)"

definition a7_10_mcdc_coverage :: objective_verdict where
  "a7_10_mcdc_coverage = (NotMet, [], Some ''MC/DC analysis not yet supported'')"

definition determine_a7_status :: "objective \<Rightarrow> dal \<Rightarrow> crate_evidence \<Rightarrow> objective_verdict" where
  "determine_a7_status obj level E = (let i = ob_id obj in
     if i = ''A7-1'' \<or> i = ''A7-2'' then a7_1_2_hlr_testing E
     else if i = ''A7-3'' \<or> i = ''A7-4'' then a7_3_4_llr_testing E
     else if i = ''A7-5'' then a7_5_target_compatibility E
     else if i = ''A7-6'' then a7_6_hlr_test_coverage E
     else if i = ''A7-7'' then a7_7_llr_test_coverage E
     else if i = ''A7-8'' then a7_8_statement_coverage level E
     else if i = ''A7-9'' then a7_9_decision_coverage level E
     else if i = ''A7-10'' then a7_10_mcdc_coverage
     else (NotMet, [], None))"

text \<open>The three outcomes of the two traceability objectives, with the file of their level.\<close>

definition traceability_verdict :: "string \<Rightarrow> crate_evidence \<Rightarrow> objective_verdict" where
  "traceability_verdict file E =
    (if ev_has_trace_data E \<and> ev_trace_validation_passed E then (Met, [file, ''trace/matrix.md''], None)
     else if ev_has_trace_data E then (Partial, [file], Some ''trace validation did not pass'')
     else (NotMet, [], Some ''no trace data available''))"

definition determine_objective_status :: "objective \<Rightarrow> dal \<Rightarrow> crate_evidence \<Rightarrow> objective_verdict" where
  "determine_objective_status obj level E = (let table = ob_table obj in
     if table = ''Table A-3'' then
       (if ob_id obj = ''A3-6'' then traceability_verdict ''trace/hlr.toml'' E
        else manual_review ''reviewer must confirm HLR correctness / completeness'')
     else if table = ''Table A-4'' then
       (if ob_id obj = ''A4-6'' then traceability_verdict ''trace/llr.toml'' E
        else manual_review ''reviewer must confirm LLR correctness / completeness'')
     else if table = ''Table A-5'' then manual_review ''reviewer must confirm architecture consistency''
     else if table = ''Table A-6'' then
       (if ob_id obj = ''A6-5'' then
          (if ev_has_trace_data E \<and> ev_trace_validation_passed E then (Partial, [''trace/llr.toml''],
             Some ''trace links exist but source-level mapping requires test_selector'')
           else (NotMet, [], Some ''no trace data available''))
        else manual_review ''reviewer or static-analysis tool must judge source compliance'')
     else if table = ''Table A-7'' then determine_a7_status obj level E
     else (NotMet, [], None))"

section \<open>The report\<close>

record objective_status =
  os_objective_id :: string
  os_table :: string
  os_title :: string
  os_applicable :: bool
  os_applicability_detail :: string
  os_status :: objective_status_kind
  os_evidence_refs :: "string list"
  os_note :: "string option"

record compliance_summary =
  cs_total_objectives :: u32
  cs_applicable :: u32
  cs_met :: u32
  cs_not_met :: u32
  cs_partial :: u32
  cs_manual_review_required :: u32

record standards_pack =
  sk_id :: string
  sk_version :: string
  sk_review_record :: string

record compliance_report =
  cr_crate_name :: string
  cr_dal :: string
  cr_standard :: string
  cr_standard_edition :: string
  cr_assurance_level :: string
  cr_standards_pack :: standards_pack
  cr_schema_version :: string
  cr_objectives :: "objective_status list"
  cr_summary :: compliance_summary

definition do_178c_pack :: standards_pack where
  "do_178c_pack = \<lparr>sk_id = ''do-178c-ac20-115d'', sk_version = ''1.0.0'',
     sk_review_record = ''cert/QUALIFICATION.md'' @ em_dash
       @ ''DO-178C applicability, tailoring, and tool-qualification review record''\<rparr>"

fun applicability_detail :: "applicability \<Rightarrow> string" where
  "applicability_detail NotApplicable = ''not_applicable''"
| "applicability_detail Required = ''required''"
| "applicability_detail RequiredWithIndependence = ''required_with_independence''"

text \<open>The counters of the loop and one step of it.\<close>

fun count_status :: "objective_status_kind \<Rightarrow> compliance_summary \<Rightarrow> compliance_summary" where
  "count_status Met c = c\<lparr>cs_met := cs_met c + 1\<rparr>"
| "count_status NotMet c = c\<lparr>cs_not_met := cs_not_met c + 1\<rparr>"
| "count_status Partial c = c\<lparr>cs_partial := cs_partial c + 1\<rparr>"
| "count_status ManualReviewRequired c = c\<lparr>cs_manual_review_required := cs_manual_review_required c + 1\<rparr>"
| "count_status StatusNotApplicable c = c"

definition report_objective ::
  "dal \<Rightarrow> crate_evidence \<Rightarrow> objective \<Rightarrow> objective_status" where
  "report_objective level E obj =
    (let app = applicability_for obj level; is_applicable = (app \<noteq> NotApplicable);
         (status, refs, note) = (if is_applicable then determine_objective_status obj level E
           else (StatusNotApplicable, [], None))
     in \<lparr>os_objective_id = ob_id obj, os_table = ob_table obj, os_title = ob_title obj,
         os_applicable = is_applicable, os_applicability_detail = applicability_detail app,
         os_status = status, os_evidence_refs = refs, os_note = note\<rparr>)"

definition count_objective :: "objective_status \<Rightarrow> compliance_summary \<Rightarrow> compliance_summary" where
  "count_objective entry c = count_status (os_status entry)
     (if os_applicable entry then c\<lparr>cs_applicable := cs_applicable c + 1\<rparr> else c)"

definition generate_compliance_report ::
  "string \<Rightarrow> assurance_level \<Rightarrow> crate_evidence \<Rightarrow> compliance_report" where
  "generate_compliance_report crate_name level E =
    (let entries = map (report_objective (effective_policy_dal level) E) objectives
     in \<lparr>cr_crate_name = crate_name, cr_dal = level_display level, cr_standard = ''DO-178C'',
         cr_standard_edition = ''C'', cr_assurance_level = level_as_str level,
         cr_standards_pack = do_178c_pack, cr_schema_version = ''0.0.1'', cr_objectives = entries,
         cr_summary = fold count_objective entries
           \<lparr>cs_total_objectives = of_nat (length objectives), cs_applicable = 0, cs_met = 0,
            cs_not_met = 0, cs_partial = 0, cs_manual_review_required = 0\<rparr>\<rparr>)"

section \<open>The row of the standard's last table\<close>

definition a7_applicability :: "assurance_level \<Rightarrow> (string \<times> applicability) list" where
  "a7_applicability level =
    map (\<lambda>obj. (ob_id obj, applicability_for obj (effective_policy_dal level)))
      (filter (\<lambda>obj. ob_table obj = ''Table A-7'') objectives)"

end
