(* ===== verification/Coverage_Gate.thy ===== *)
theory Coverage_Gate
  imports Float_Round Trace_Entries Corpus_Loader
begin

text \<open>
  Structural coverage: the report (\<^verbatim>\<open>coverage/report.rs\<close>), its construction from the
  \<^verbatim>\<open>llvm-cov\<close> export (\<^verbatim>\<open>coverage/llvm_cov_json.rs\<close>), the percentages and the level's
  gate on them (\<^verbatim>\<open>coverage/thresholds.rs\<close>, \<^verbatim>\<open>bundle/builder_coverage.rs\<close>). The JSON
  decoder is a parameter. Sums of counts wrap, as they do without overflow checks.
\<close>

section \<open>The report\<close>

datatype coverage_level = StatementLevel | BranchLevel | PatternDecisionLevel | McdcLevel

record line_coverage =
  lc_covered :: u64
  lc_total :: u64

record branch_coverage =
  bc_covered :: u64
  bc_total :: u64

record decision_coverage =
  dc_id :: string
  dc_covered :: bool
  dc_kind :: string

record condition_coverage =
  cc_id :: string
  cc_decision_id :: string
  cc_covered :: bool

record file_measurement =
  fm_path :: string
  fm_lines :: line_coverage
  fm_branches :: "branch_coverage option"
  fm_decisions :: "decision_coverage list"
  fm_conditions :: "condition_coverage list"

record measurement =
  ms_level :: coverage_level
  ms_engine :: string
  ms_engine_version :: string
  ms_per_file :: "file_measurement list"

record coverage_report =
  cv_schema_version :: string
  cv_measurements :: "measurement list"

section \<open>The export\<close>

record count_covered =
  nc_count :: u64
  nc_covered :: u64

record export_file =
  xp_filename :: string
  xp_lines :: count_covered
  xp_branches :: count_covered

text \<open>The export: its type field, the files of each datum, and the version the tool reports, when
  the two nested fields are there.\<close>

record export_top =
  et_type :: "string option"
  et_data :: "export_file list list"
  et_version :: "string option option"

datatype llvm_cov_parse_error = InvalidJson string | UnexpectedShape string

text \<open>\<^verbatim>\<open>components\<close>: the root, a leading current directory, and the names.\<close>

definition path_comps :: "string \<Rightarrow> string list" where
  "path_comps p = (if p \<noteq> [] \<and> hd p = CHR ''/'' then [''/'']
     else if hd (split_on (CHR ''/'') p) = ''.'' then [''.''] else []) @ path_parts p"

definition relative_to_workspace :: "string \<Rightarrow> string \<Rightarrow> string option" where
  "relative_to_workspace abs_path workspace_root =
    (let abs = path_comps abs_path; root = path_comps workspace_root in
     if take (length root) abs = root then Some (join_with ''/'' (drop (length root) abs)) else None)"

definition lines_measurement :: "string \<Rightarrow> export_file \<Rightarrow> file_measurement" where
  "lines_measurement rel f = \<lparr>fm_path = rel,
     fm_lines = \<lparr>lc_covered = nc_covered (xp_lines f), lc_total = nc_count (xp_lines f)\<rparr>,
     fm_branches = None, fm_decisions = [], fm_conditions = []\<rparr>"

definition branches_measurement :: "string \<Rightarrow> export_file \<Rightarrow> file_measurement" where
  "branches_measurement rel f = (lines_measurement rel f)\<lparr>fm_branches :=
     Some \<lparr>bc_covered = nc_covered (xp_branches f), bc_total = nc_count (xp_branches f)\<rparr>\<rparr>"

definition measured_files ::
  "(string \<Rightarrow> export_file \<Rightarrow> file_measurement) \<Rightarrow> string \<Rightarrow> export_top \<Rightarrow> file_measurement list" where
  "measured_files measured workspace_root xp = sort_key fm_path
    (List.map_filter (\<lambda>f. map_option (\<lambda>rel. measured rel f)
      (relative_to_workspace (xp_filename f) workspace_root)) (concat (et_data xp)))"

definition parse_llvm_cov_export ::
  "(string \<Rightarrow> string + export_top) \<Rightarrow> string \<Rightarrow> coverage_level list \<Rightarrow> string
    \<Rightarrow> llvm_cov_parse_error + coverage_report" where
  "parse_llvm_cov_export decode txt levels workspace_root =
    rbind (map_err InvalidJson (decode txt)) (\<lambda>xp.
    rbind (case et_type xp of
        Some t \<Rightarrow> fail_if (t \<noteq> ''llvm.coverage.json.export'') (UnexpectedShape
          (''expected type='' @ [CHR 0x27] @ ''llvm.coverage.json.export'' @ [CHR 0x27] @ '', got '' @ [CHR 0x27] @ t @ [CHR 0x27]))
      | None \<Rightarrow> Ok ()) (\<lambda>_.
    let engine_version = (case et_version xp of Some (Some v) \<Rightarrow> v | _ \<Rightarrow> ''unknown'') in
    Ok \<lparr>cv_schema_version = ''0.0.1'', cv_measurements = map (\<lambda>level.
      \<lparr>ms_level = level, ms_engine = ''llvm-cov'', ms_engine_version = engine_version,
       ms_per_file = (case level of
         StatementLevel \<Rightarrow> measured_files lines_measurement workspace_root xp
       | BranchLevel \<Rightarrow> measured_files branches_measurement workspace_root xp
       | _ \<Rightarrow> [])\<rparr>) levels\<rparr>))"

section \<open>Percentages and the gate\<close>

definition measurement_for :: "coverage_report \<Rightarrow> coverage_level \<Rightarrow> measurement option" where
  "measurement_for report level = find (\<lambda>m. ms_level m = level) (cv_measurements report)"

definition percent_of :: "u64 \<Rightarrow> u64 \<Rightarrow> rat" where
  "percent_of covered total_count = (if total_count = 0 then 0
     else f64_mul (f64_div (f64_of_nat (unat covered)) (f64_of_nat (unat total_count))) 100)"

definition aggregate_lines_percent :: "measurement \<Rightarrow> rat" where
  "aggregate_lines_percent m = percent_of (sum_list (map (\<lambda>f. lc_covered (fm_lines f)) (ms_per_file m)))
     (sum_list (map (\<lambda>f. lc_total (fm_lines f)) (ms_per_file m)))"

definition aggregate_branches_percent :: "measurement \<Rightarrow> rat" where
  "aggregate_branches_percent m =
    percent_of (sum_list (map (\<lambda>f. case fm_branches f of None \<Rightarrow> 0 | Some b \<Rightarrow> bc_covered b) (ms_per_file m)))
     (sum_list (map (\<lambda>f. case fm_branches f of None \<Rightarrow> 0 | Some b \<Rightarrow> bc_total b) (ms_per_file m)))"

record coverage_threshold_violation =
  tv_dimension :: string
  tv_current_percent :: rat
  tv_threshold_percent :: nat

definition gate_violation ::
  "string \<Rightarrow> nat option \<Rightarrow> (measurement \<Rightarrow> rat) \<Rightarrow> measurement option \<Rightarrow> coverage_threshold_violation list" where
  "gate_violation dimension threshold percent m = (case (threshold, m) of
     (Some minimum, Some m) \<Rightarrow> if percent m < of_nat minimum then
         [\<lparr>tv_dimension = dimension, tv_current_percent = percent m, tv_threshold_percent = minimum\<rparr>] else []
   | _ \<Rightarrow> [])"

definition evaluate_thresholds ::
  "coverage_report \<Rightarrow> dal_coverage_thresholds \<Rightarrow> coverage_threshold_violation list" where
  "evaluate_thresholds report thresholds =
    gate_violation ''statement'' (ct_statement_percent thresholds) aggregate_lines_percent
      (measurement_for report StatementLevel)
    @ gate_violation ''branch'' (ct_branch_percent thresholds) aggregate_branches_percent
      (measurement_for report BranchLevel)"

text \<open>What the builder reports of the coverage it was given.\<close>

definition coverage_statement_percent :: "coverage_report option \<Rightarrow> rat option" where
  "coverage_statement_percent report = map_option aggregate_lines_percent
     (Option.bind report (\<lambda>r. measurement_for r StatementLevel))"

definition coverage_branch_percent :: "coverage_report option \<Rightarrow> rat option" where
  "coverage_branch_percent report = map_option aggregate_branches_percent
     (Option.bind report (\<lambda>r. measurement_for r BranchLevel))"

section \<open>The gate is exact\<close>

lemma sum_list_unat:
  fixes ws :: "64 word list"
  assumes "sum_list (map unat ws) < 2 ^ 64"
  shows "unat (sum_list ws) = sum_list (map unat ws)"
  using assms
proof (induction ws)
  case (Cons w ws)
  then have "unat (sum_list ws) = sum_list (map unat ws)" by simp
  with Cons.prems show ?case by (simp add: unat_word_ariths)
qed simp

lemma percent_of_exact:
  assumes "unat t < 2 ^ 45" "unat c < 2 ^ 45" "m \<in> {85, 90, 95}"
  shows "percent_of c t < of_nat m \<longleftrightarrow> t = 0 \<or> 100 * unat c < m * unat t"
proof (cases "t = 0")
  case True
  with assms(3) show ?thesis by (auto simp: percent_of_def)
next
  case False
  then have "0 < unat t" by (simp add: unat_gt_0)
  from percent_exact [OF this assms(1,2,3)] False show ?thesis by (simp add: percent_of_def)
qed

text \<open>The counts of a measurement as natural numbers.\<close>

definition lines_covered :: "measurement \<Rightarrow> nat" where
  "lines_covered m = sum_list (map (\<lambda>f. unat (lc_covered (fm_lines f))) (ms_per_file m))"

definition lines_total :: "measurement \<Rightarrow> nat" where
  "lines_total m = sum_list (map (\<lambda>f. unat (lc_total (fm_lines f))) (ms_per_file m))"

definition branches_covered :: "measurement \<Rightarrow> nat" where
  "branches_covered m =
    sum_list (map (\<lambda>f. case fm_branches f of None \<Rightarrow> 0 | Some b \<Rightarrow> unat (bc_covered b)) (ms_per_file m))"

definition branches_total :: "measurement \<Rightarrow> nat" where
  "branches_total m =
    sum_list (map (\<lambda>f. case fm_branches f of None \<Rightarrow> 0 | Some b \<Rightarrow> unat (bc_total b)) (ms_per_file m))"

text \<open>Below the gate, in exact arithmetic; nothing measured counts as below.\<close>

definition below_gate :: "nat option \<Rightarrow> nat \<Rightarrow> nat \<Rightarrow> bool" where
  "below_gate threshold covered total_count \<longleftrightarrow> (case threshold of None \<Rightarrow> False
     | Some minimum \<Rightarrow> total_count = 0 \<or> 100 * covered < minimum * total_count)"

lemma sums_as_nat:
  assumes "sum_list (map (\<lambda>f. unat (g f)) fs) < 2 ^ 45"
  shows "unat (sum_list (map g fs) :: 64 word) = sum_list (map (\<lambda>f. unat (g f)) fs)"
proof -
  have "sum_list (map unat (map g fs)) < 2 ^ 64" using assms by (simp add: comp_def)
  from sum_list_unat [OF this] show ?thesis by (simp add: comp_def)
qed

lemma statement_gate_exact:
  assumes "lines_covered m < 2 ^ 45" "lines_total m < 2 ^ 45" "g \<in> {85, 90, 95}"
  shows "aggregate_lines_percent m < of_nat g \<longleftrightarrow> lines_total m = 0 \<or> 100 * lines_covered m < g * lines_total m"
proof -
  have c: "unat (sum_list (map (\<lambda>f. lc_covered (fm_lines f)) (ms_per_file m))) = lines_covered m"
    and t: "unat (sum_list (map (\<lambda>f. lc_total (fm_lines f)) (ms_per_file m))) = lines_total m"
    using assms(1,2) by (simp_all add: lines_covered_def lines_total_def sums_as_nat)
  from assms c t show ?thesis
    unfolding aggregate_lines_percent_def by (subst percent_of_exact) (simp_all add: c t flip: unat_eq_0)
qed

lemma branch_gate_exact:
  assumes "branches_covered m < 2 ^ 45" "branches_total m < 2 ^ 45" "g \<in> {85, 90, 95}"
  shows "aggregate_branches_percent m < of_nat g \<longleftrightarrow>
    branches_total m = 0 \<or> 100 * branches_covered m < g * branches_total m"
proof -
  have pull: "(case x of None \<Rightarrow> 0 | Some b \<Rightarrow> unat (h b)) = unat (case x of None \<Rightarrow> 0 | Some b \<Rightarrow> h b)"
    for x and h :: "branch_coverage \<Rightarrow> u64" by (cases x) simp_all
  have c: "unat (sum_list (map (\<lambda>f. case fm_branches f of None \<Rightarrow> 0 | Some b \<Rightarrow> bc_covered b) (ms_per_file m)))
      = branches_covered m"
    and t: "unat (sum_list (map (\<lambda>f. case fm_branches f of None \<Rightarrow> 0 | Some b \<Rightarrow> bc_total b) (ms_per_file m)))
      = branches_total m"
    using assms(1,2) by (simp_all add: branches_covered_def branches_total_def pull sums_as_nat)
  from assms c t show ?thesis
    unfolding aggregate_branches_percent_def by (subst percent_of_exact) (simp_all add: c t flip: unat_eq_0)
qed

lemma thresholds_are_gates:
  "ct_statement_percent (coverage_thresholds d) = Some g \<Longrightarrow> g \<in> {85, 90, 95}"
  "ct_branch_percent (coverage_thresholds d) = Some g \<Longrightarrow> g \<in> {85, 90, 95}"
  by (cases d; simp)+

definition counts_small :: "coverage_report \<Rightarrow> bool" where
  "counts_small report \<longleftrightarrow> (\<forall>m \<in> set (cv_measurements report).
     lines_covered m < 2 ^ 45 \<and> lines_total m < 2 ^ 45 \<and> branches_covered m < 2 ^ 45 \<and> branches_total m < 2 ^ 45)"

lemma measurement_for_in: "measurement_for r l = Some m \<Longrightarrow> m \<in> set (cv_measurements r)"
  by (auto simp: measurement_for_def find_Some_iff)

end
