(* ===== verification/Compliance_Spec.thy ===== *)
theory Compliance_Spec
  imports Compliance Coverage_Gate
begin

text \<open>
  What the verdicts promise: an order on statuses and on evidence along which every verdict is
  monotone, the exact set of objectives the evidence closes, and counts that agree with the
  entries they summarise.
\<close>

section \<open>More evidence\<close>

fun status_rank :: "objective_status_kind \<Rightarrow> nat" where
  "status_rank StatusNotApplicable = 0"
| "status_rank NotMet = 1"
| "status_rank Partial = 2"
| "status_rank ManualReviewRequired = 3"
| "status_rank Met = 4"

fun opt_le :: "('a \<Rightarrow> 'a \<Rightarrow> bool) \<Rightarrow> 'a option \<Rightarrow> 'a option \<Rightarrow> bool" where
  "opt_le le None y = True"
| "opt_le le (Some x) None = False"
| "opt_le le (Some x) (Some y) = le x y"

definition evidence_le :: "crate_evidence \<Rightarrow> crate_evidence \<Rightarrow> bool" where
  "evidence_le E F \<longleftrightarrow>
     (ev_has_trace_data E \<longrightarrow> ev_has_trace_data F)
     \<and> (ev_trace_validation_passed E \<longrightarrow> ev_trace_validation_passed F)
     \<and> (ev_has_test_results E \<longrightarrow> ev_has_test_results F)
     \<and> (ev_tests_passed E = Some True \<longrightarrow> ev_tests_passed F = Some True)
     \<and> (ev_has_per_test_outcomes E \<longrightarrow> ev_has_per_test_outcomes F)
     \<and> opt_le (\<le>) (ev_coverage_statement_percent E) (ev_coverage_statement_percent F)
     \<and> opt_le (\<le>) (ev_coverage_branch_percent E) (ev_coverage_branch_percent F)
     \<and> opt_le (\<lambda>_ _. True) (ev_coverage_disposition E) (ev_coverage_disposition F)"

lemma coverage_verdict_mono:
  assumes "opt_le (\<le>) p q" "opt_le (\<lambda>_ _. True) a b"
  shows "status_rank (fst (coverage_verdict p g cd a)) \<le> status_rank (fst (coverage_verdict q g cd b))"
  using assms by (cases p; cases q; cases a; cases b; cases cd; cases g)
    (auto simp: coverage_verdict_def Let_def)

lemmas test_verdicts = a7_1_2_hlr_testing_def a7_3_4_llr_testing_def a7_5_target_compatibility_def
  a7_6_hlr_test_coverage_def a7_7_llr_test_coverage_def failed_tests_def

lemma test_verdicts_mono:
  assumes "evidence_le E F"
  shows "status_rank (fst (a7_1_2_hlr_testing E)) \<le> status_rank (fst (a7_1_2_hlr_testing F))"
    "status_rank (fst (a7_3_4_llr_testing E)) \<le> status_rank (fst (a7_3_4_llr_testing F))"
    "status_rank (fst (a7_5_target_compatibility E)) \<le> status_rank (fst (a7_5_target_compatibility F))"
    "status_rank (fst (a7_6_hlr_test_coverage E)) \<le> status_rank (fst (a7_6_hlr_test_coverage F))"
    "status_rank (fst (a7_7_llr_test_coverage E)) \<le> status_rank (fst (a7_7_llr_test_coverage F))"
  using assms unfolding evidence_le_def test_verdicts by auto

lemma coverage_objectives_mono:
  assumes "evidence_le E F"
  shows "status_rank (fst (a7_8_statement_coverage d E)) \<le> status_rank (fst (a7_8_statement_coverage d F))"
    "status_rank (fst (a7_9_decision_coverage d E)) \<le> status_rank (fst (a7_9_decision_coverage d F))"
  using assms unfolding evidence_le_def a7_8_statement_coverage_def a7_9_decision_coverage_def
  by (simp_all add: coverage_verdict_mono)

lemma a7_status_mono:
  assumes "evidence_le E F"
  shows "status_rank (fst (determine_a7_status obj d E)) \<le> status_rank (fst (determine_a7_status obj d F))"
  unfolding determine_a7_status_def Let_def
  by (simp add: test_verdicts_mono [OF assms] coverage_objectives_mono [OF assms])

lemma traceability_verdict_mono:
  assumes "evidence_le E F"
  shows "status_rank (fst (traceability_verdict file E)) \<le> status_rank (fst (traceability_verdict file F))"
  using assms by (auto simp: evidence_le_def traceability_verdict_def)

lemma objective_status_mono:
  assumes "evidence_le E F"
  shows "status_rank (fst (determine_objective_status obj d E))
    \<le> status_rank (fst (determine_objective_status obj d F))"
  using assms a7_status_mono [OF assms] traceability_verdict_mono [OF assms]
  unfolding determine_objective_status_def Let_def by (auto simp: evidence_le_def)

section \<open>Counts\<close>

definition entries_with :: "objective_status_kind \<Rightarrow> objective_status list \<Rightarrow> nat" where
  "entries_with s es = length (filter (\<lambda>e. os_status e = s) es)"

lemma fold_count:
  "fold count_objective es c = c\<lparr>
     cs_applicable := cs_applicable c + of_nat (length (filter os_applicable es)),
     cs_met := cs_met c + of_nat (entries_with Met es),
     cs_not_met := cs_not_met c + of_nat (entries_with NotMet es),
     cs_partial := cs_partial c + of_nat (entries_with Partial es),
     cs_manual_review_required := cs_manual_review_required c + of_nat (entries_with ManualReviewRequired es)\<rparr>"
proof (induction es arbitrary: c)
  case Nil
  show ?case by (simp add: entries_with_def)
next
  case (Cons e es)
  have step: "fold count_objective (e # es) c = fold count_objective es (count_objective e c)" by simp
  show ?case unfolding step Cons.IH
    by (cases "os_status e"; cases "os_applicable e")
      (simp_all add: count_objective_def entries_with_def algebra_simps)
qed

lemma unat_small_count: "n \<le> 35 \<Longrightarrow> unat (of_nat n :: 32 word) = n"
  by (simp add: unat_of_nat)

lemma length_objectives: "length objectives = 35"
  by (simp add: objectives_def)

lemma entries_with_le: "entries_with s es \<le> length es"
  by (simp add: entries_with_def)

lemma status_only_when_applicable:
  "fst (determine_objective_status obj d E) \<noteq> StatusNotApplicable"
  by (auto simp: determine_objective_status_def determine_a7_status_def Let_def manual_review_def
    traceability_verdict_def test_verdicts a7_8_statement_coverage_def a7_9_decision_coverage_def
    a7_10_mcdc_coverage_def coverage_verdict_def split: option.splits coverage_dimension.splits)

lemma report_objective_status:
  "os_status (report_objective d E obj) = (if applicability_for obj d \<noteq> applicability.NotApplicable
     then fst (determine_objective_status obj d E) else StatusNotApplicable)"
  "os_applicable (report_objective d E obj) \<longleftrightarrow> applicability_for obj d \<noteq> applicability.NotApplicable"
  "os_objective_id (report_objective d E obj) = ob_id obj"
  by (simp_all add: report_objective_def Let_def split_beta)

lemma applicable_entries_counted:
  assumes "\<And>e. e \<in> set es \<Longrightarrow> os_applicable e \<longleftrightarrow> os_status e \<noteq> StatusNotApplicable"
  shows "length (filter os_applicable es) =
    entries_with Met es + entries_with NotMet es + entries_with Partial es + entries_with ManualReviewRequired es"
  using assms
proof (induction es)
  case (Cons e es)
  then show ?case by (cases "os_status e") (simp_all add: entries_with_def)
qed (simp add: entries_with_def)

section \<open>What can close\<close>

definition trace_closed :: "crate_evidence \<Rightarrow> bool" where
  "trace_closed E \<longleftrightarrow> ev_has_trace_data E \<and> ev_trace_validation_passed E"

definition tests_closed :: "crate_evidence \<Rightarrow> bool" where
  "tests_closed E \<longleftrightarrow> ev_has_test_results E \<and> ev_tests_passed E = Some True"

definition statement_closed :: "dal \<Rightarrow> crate_evidence \<Rightarrow> bool" where
  "statement_closed d E \<longleftrightarrow> ev_coverage_disposition E \<noteq> None
     \<and> (case (ev_coverage_statement_percent E, ct_statement_percent (coverage_thresholds d)) of
          (Some p, Some g) \<Rightarrow> of_nat g \<le> p | _ \<Rightarrow> False)"

lemma coverage_verdict_met_iff:
  "fst (coverage_verdict p g cd a) = Met \<longleftrightarrow> cd = StatementCoverage \<and> a \<noteq> None
     \<and> (case (p, g) of (Some x, Some m) \<Rightarrow> of_nat m \<le> x | _ \<Rightarrow> False)"
  by (cases p; cases g; cases cd; cases a) (auto simp: coverage_verdict_def Let_def not_less)

lemma a7_met_iff:
  "fst (determine_a7_status obj d E) = Met \<longleftrightarrow>
     (ob_id obj = ''A7-3'' \<or> ob_id obj = ''A7-4'') \<and> tests_closed E \<and> ev_has_per_test_outcomes E
     \<or> ob_id obj = ''A7-5'' \<and> tests_closed E
     \<or> ob_id obj = ''A7-8'' \<and> statement_closed d E"
  by (auto simp: determine_a7_status_def Let_def test_verdicts a7_8_statement_coverage_def
    a7_9_decision_coverage_def a7_10_mcdc_coverage_def coverage_verdict_met_iff tests_closed_def statement_closed_def)

lemma objective_met_iff:
  "fst (determine_objective_status obj d E) = Met \<longleftrightarrow>
     ob_table obj = ''Table A-3'' \<and> ob_id obj = ''A3-6'' \<and> trace_closed E
     \<or> ob_table obj = ''Table A-4'' \<and> ob_id obj = ''A4-6'' \<and> trace_closed E
     \<or> ob_table obj = ''Table A-7'' \<and> fst (determine_a7_status obj d E) = Met"
  by (simp add: determine_objective_status_def Let_def manual_review_def traceability_verdict_def trace_closed_def)

definition closing_objectives :: "objective list" where
  "closing_objectives = filter (\<lambda>obj. ob_id obj \<in> {''A3-6'', ''A4-6'', ''A7-3'', ''A7-4'', ''A7-5'', ''A7-8''}) objectives"

lemma closing_objectives_simp:
  "closing_objectives = [
    mk_objective ''A3-6'' ''Table A-3'' ''HLR are traceable to system requirements''
      [RequiredWithIndependence, RequiredWithIndependence, Required, Required],
    mk_objective ''A4-6'' ''Table A-4'' ''LLR are traceable to HLR''
      [RequiredWithIndependence, RequiredWithIndependence, Required, Required],
    mk_objective ''A7-3'' ''Table A-7'' ''Executable object code complies with LLR''
      [RequiredWithIndependence, RequiredWithIndependence, Required, applicability.NotApplicable],
    mk_objective ''A7-4'' ''Table A-7'' ''Executable object code is robust with LLR''
      [RequiredWithIndependence, RequiredWithIndependence, applicability.NotApplicable, applicability.NotApplicable],
    mk_objective ''A7-5'' ''Table A-7'' ''Executable object code is compatible with target''
      [RequiredWithIndependence, RequiredWithIndependence, Required, Required],
    mk_objective ''A7-8'' ''Table A-7'' ''Test coverage of software structure (statement) is achieved''
      [RequiredWithIndependence, RequiredWithIndependence, Required, applicability.NotApplicable]]"
  by code_simp

lemma only_closing_objectives:
  assumes "\<And>obj. P obj \<Longrightarrow> ob_id obj \<in> {''A3-6'', ''A4-6'', ''A7-3'', ''A7-4'', ''A7-5'', ''A7-8''}"
  shows "filter P objectives = filter P closing_objectives"
  unfolding closing_objectives_def filter_filter using assms by (intro filter_cong) auto

lemma closing_ids:
  "map ob_id (filter (\<lambda>obj. applicability_for obj d \<noteq> applicability.NotApplicable
      \<and> fst (determine_objective_status obj d E) = Met) objectives)
   = (if trace_closed E then [''A3-6'', ''A4-6''] else [])
     @ (if tests_closed E \<and> ev_has_per_test_outcomes E \<and> d \<noteq> DalD then [''A7-3''] else [])
     @ (if tests_closed E \<and> ev_has_per_test_outcomes E \<and> d \<in> {DalA, DalB} then [''A7-4''] else [])
     @ (if tests_closed E then [''A7-5''] else [])
     @ (if statement_closed d E \<and> d \<noteq> DalD then [''A7-8''] else [])"
proof -
  have "filter (\<lambda>obj. applicability_for obj d \<noteq> applicability.NotApplicable
      \<and> fst (determine_objective_status obj d E) = Met) objectives
    = filter (\<lambda>obj. applicability_for obj d \<noteq> applicability.NotApplicable
      \<and> fst (determine_objective_status obj d E) = Met) closing_objectives"
    by (rule only_closing_objectives) (auto simp: objective_met_iff a7_met_iff)
  then show ?thesis
    by (cases d) (simp_all add: objective_met_iff a7_met_iff closing_objectives_simp mk_objective_def applicability_for_def)
qed

end
