(* ===== verification/Compliance_Properties.thy ===== *)
theory Compliance_Properties
  imports Compliance_Spec
begin

text \<open>
  The properties of the coverage gate and of the compliance report, with the concrete reports
  and evidence that witness them.
\<close>

section \<open>Witness data\<close>

definition demo_measurement :: "coverage_level \<Rightarrow> u64 \<Rightarrow> u64 \<Rightarrow> measurement" where
  "demo_measurement level covered total_count = \<lparr>ms_level = level, ms_engine = ''llvm-cov'',
     ms_engine_version = ''19.1'', ms_per_file = [\<lparr>fm_path = ''src/lib.rs'',
       fm_lines = \<lparr>lc_covered = covered, lc_total = total_count\<rparr>,
       fm_branches = Some \<lparr>bc_covered = covered, bc_total = total_count\<rparr>,
       fm_decisions = [], fm_conditions = []\<rparr>]\<rparr>"

definition demo_coverage :: coverage_report where
  "demo_coverage = \<lparr>cv_schema_version = ''0.0.1'', cv_measurements =
     [demo_measurement StatementLevel 949 1000, demo_measurement BranchLevel 9 10]\<rparr>"

definition demo_evidence :: "bool \<Rightarrow> rat \<Rightarrow> crate_evidence" where
  "demo_evidence traced percent = \<lparr>ev_has_trace_data = True, ev_trace_validation_passed = traced,
     ev_has_test_results = True, ev_tests_passed = Some True, ev_has_coverage_data = True,
     ev_has_per_test_outcomes = True, ev_coverage_statement_percent = Some percent,
     ev_coverage_branch_percent = None, ev_coverage_disposition = Some ''cert/dispositions.md''\<rparr>"

section \<open>The coverage gate\<close>

definition gate_dimensions :: "coverage_report \<Rightarrow> dal \<Rightarrow> string list" where
  "gate_dimensions report d =
    (case measurement_for report StatementLevel of None \<Rightarrow> []
     | Some m \<Rightarrow> if below_gate (ct_statement_percent (coverage_thresholds d)) (lines_covered m) (lines_total m)
         then [''statement''] else [])
    @ (case measurement_for report BranchLevel of None \<Rightarrow> []
     | Some m \<Rightarrow> if below_gate (ct_branch_percent (coverage_thresholds d)) (branches_covered m) (branches_total m)
         then [''branch''] else [])"

lemma gate_violation_dimension:
  assumes "\<And>g. threshold = Some g \<Longrightarrow> (percent m < of_nat g \<longleftrightarrow> below_gate (Some g) c t)"
  shows "map tv_dimension (gate_violation dimension threshold percent (Some m))
    = (if below_gate threshold c t then [dimension] else [])"
  using assms by (cases threshold) (auto simp: gate_violation_def below_gate_def)

text \<open>C30: the floating-point percentages decide the gate exactly: for counts below 2^45 the level's
  thresholds are violated in precisely the dimensions where a hundred times the covered count is
  below the threshold times the total (or nothing was measured), so no rounding error ever lets
  a crate through or turns one away.\<close>

theorem coverage_gate_is_exact:
  assumes "counts_small report"
  shows "map tv_dimension (evaluate_thresholds report (coverage_thresholds d)) = gate_dimensions report d"
proof -
  have "map tv_dimension (gate_violation ''statement'' (ct_statement_percent (coverage_thresholds d))
      aggregate_lines_percent (measurement_for report StatementLevel)) =
    (case measurement_for report StatementLevel of None \<Rightarrow> []
     | Some m \<Rightarrow> if below_gate (ct_statement_percent (coverage_thresholds d)) (lines_covered m) (lines_total m)
         then [''statement''] else [])"
  proof (cases "measurement_for report StatementLevel")
    case (Some m)
    with assms have small: "lines_covered m < 2 ^ 45" "lines_total m < 2 ^ 45"
      by (simp_all add: counts_small_def measurement_for_in)
    show ?thesis unfolding Some option.case
      by (intro gate_violation_dimension)
        (simp add: below_gate_def statement_gate_exact [OF small thresholds_are_gates(1)])
  qed (simp add: gate_violation_def split: option.split)
  moreover have "map tv_dimension (gate_violation ''branch'' (ct_branch_percent (coverage_thresholds d))
      aggregate_branches_percent (measurement_for report BranchLevel)) =
    (case measurement_for report BranchLevel of None \<Rightarrow> []
     | Some m \<Rightarrow> if below_gate (ct_branch_percent (coverage_thresholds d)) (branches_covered m) (branches_total m)
         then [''branch''] else [])"
  proof (cases "measurement_for report BranchLevel")
    case (Some m)
    with assms have small: "branches_covered m < 2 ^ 45" "branches_total m < 2 ^ 45"
      by (simp_all add: counts_small_def measurement_for_in)
    show ?thesis unfolding Some option.case
      by (intro gate_violation_dimension)
        (simp add: below_gate_def branch_gate_exact [OF small thresholds_are_gates(2)])
  qed (simp add: gate_violation_def split: option.split)
  ultimately show ?thesis by (simp add: evaluate_thresholds_def gate_dimensions_def)
qed

lemma demo_counts_small: "counts_small demo_coverage"
  by (simp add: counts_small_def demo_coverage_def demo_measurement_def lines_covered_def
    lines_total_def branches_covered_def branches_total_def)

theorem coverage_gate_is_exact_witness:
  "map tv_dimension (evaluate_thresholds demo_coverage (coverage_thresholds DalA)) = [''statement'']"
proof -
  have "gate_dimensions demo_coverage DalA = [''statement'']"
    by (simp add: gate_dimensions_def demo_coverage_def demo_measurement_def measurement_for_def
      below_gate_def lines_covered_def lines_total_def branches_covered_def branches_total_def)
  with coverage_gate_is_exact [OF demo_counts_small, of DalA] show ?thesis by simp
qed

text \<open>With the builder's percentage as evidence, the statement objective closes only on the
  exact comparison.\<close>

theorem statement_closes_exactly:
  assumes "counts_small report"
    and "ev_coverage_statement_percent E = coverage_statement_percent (Some report)"
  shows "statement_closed d E \<longleftrightarrow> ev_coverage_disposition E \<noteq> None
    \<and> (\<exists>m g. measurement_for report StatementLevel = Some m
         \<and> ct_statement_percent (coverage_thresholds d) = Some g
         \<and> lines_total m \<noteq> 0 \<and> g * lines_total m \<le> 100 * lines_covered m)"
proof (cases "measurement_for report StatementLevel")
  case None
  with assms(2) show ?thesis by (simp add: statement_closed_def coverage_statement_percent_def)
next
  case (Some m)
  with assms(1) have small: "lines_covered m < 2 ^ 45" "lines_total m < 2 ^ 45"
    by (simp_all add: counts_small_def measurement_for_in)
  show ?thesis
  proof (cases "ct_statement_percent (coverage_thresholds d)")
    case None
    then show ?thesis by (simp add: statement_closed_def split: option.splits)
  next
    case g: (Some g)
    have "of_nat g \<le> aggregate_lines_percent m \<longleftrightarrow> \<not> aggregate_lines_percent m < of_nat g" by auto
    also have "\<dots> \<longleftrightarrow> lines_total m \<noteq> 0 \<and> g * lines_total m \<le> 100 * lines_covered m"
      using statement_gate_exact [OF small thresholds_are_gates(1) [OF g]] by auto
    finally show ?thesis
      using assms(2) Some g by (simp add: statement_closed_def coverage_statement_percent_def)
  qed
qed

section \<open>The compliance report\<close>

text \<open>C31: the objectives a report marks as met, in order, are exactly these: the two traceability
  objectives when trace data exist and their validation passed, the low-level testing objectives
  when the tests passed and per-test outcomes were captured (at the levels that require them), target
  compatibility when the tests passed, and statement coverage when the percentage reaches the
  gate of a level that has one and a disposition is recorded. No other objective, and in particular
  neither decision coverage nor MC/DC, is ever closed by evidence alone.\<close>

theorem met_objectives:
  "map os_objective_id (filter (\<lambda>e. os_status e = Met) (cr_objectives (generate_compliance_report name level E)))
   = (let d = effective_policy_dal level in
      (if trace_closed E then [''A3-6'', ''A4-6''] else [])
      @ (if tests_closed E \<and> ev_has_per_test_outcomes E \<and> d \<noteq> DalD then [''A7-3''] else [])
      @ (if tests_closed E \<and> ev_has_per_test_outcomes E \<and> d \<in> {DalA, DalB} then [''A7-4''] else [])
      @ (if tests_closed E then [''A7-5''] else [])
      @ (if statement_closed d E \<and> d \<noteq> DalD then [''A7-8''] else []))"
proof -
  let ?d = "effective_policy_dal level"
  have "filter (\<lambda>e. os_status e = Met) (map (report_objective ?d E) objectives)
    = map (report_objective ?d E) (filter (\<lambda>obj. applicability_for obj ?d \<noteq> applicability.NotApplicable
        \<and> fst (determine_objective_status obj ?d E) = Met) objectives)"
    unfolding filter_map comp_def report_objective_status
    by (intro arg_cong [where f = "map (report_objective (effective_policy_dal level) E)"] filter_cong) auto
  then have "map os_objective_id (filter (\<lambda>e. os_status e = Met)
      (cr_objectives (generate_compliance_report name level E)))
    = map ob_id (filter (\<lambda>obj. applicability_for obj ?d \<noteq> applicability.NotApplicable
        \<and> fst (determine_objective_status obj ?d E) = Met) objectives)"
    by (simp add: generate_compliance_report_def Let_def report_objective_status comp_def)
  then show ?thesis unfolding closing_ids Let_def .
qed

text \<open>C32: more evidence never lowers a verdict: along the order that adds trace data, test results,
  outcomes, higher percentages or a disposition, every objective of the report keeps its place
  and moves only upward from not met over partial and manual review to met.\<close>

theorem more_evidence_never_lowers:
  assumes "evidence_le E F"
  shows "list_all2 (\<lambda>e f. os_objective_id e = os_objective_id f \<and> status_rank (os_status e) \<le> status_rank (os_status f))
    (cr_objectives (generate_compliance_report name level E))
    (cr_objectives (generate_compliance_report name level F))"
  by (simp add: generate_compliance_report_def Let_def list_all2_map1 list_all2_map2 report_objective_status
    objective_status_mono [OF assms] list.rel_refl)

theorem more_evidence_never_lowers_witness:
  "list_all2 (\<lambda>e f. os_objective_id e = os_objective_id f \<and> status_rank (os_status e) \<le> status_rank (os_status f))
    (cr_objectives (generate_compliance_report ''demo'' LevelB (demo_evidence False 90)))
    (cr_objectives (generate_compliance_report ''demo'' LevelB (demo_evidence True 96)))"
  by (rule more_evidence_never_lowers) (simp add: evidence_le_def demo_evidence_def)

text \<open>The summary of a report agrees with its entries: each of the 32-bit counters is the
  number of entries with that status, and the four of them partition the applicable ones.\<close>

theorem summary_counts_entries:
  "let r = generate_compliance_report name level E; s = cr_summary r; es = cr_objectives r in
     unat (cs_total_objectives s) = length es \<and> unat (cs_met s) = entries_with Met es
     \<and> unat (cs_not_met s) = entries_with NotMet es \<and> unat (cs_partial s) = entries_with Partial es
     \<and> unat (cs_manual_review_required s) = entries_with ManualReviewRequired es
     \<and> unat (cs_applicable s) =
         entries_with Met es + entries_with NotMet es + entries_with Partial es + entries_with ManualReviewRequired es"
proof -
  let ?es = "map (report_objective (effective_policy_dal level) E) objectives"
  have small: "entries_with s ?es \<le> 35" "length (filter os_applicable ?es) \<le> 35" for s
    using entries_with_le [of s ?es] length_filter_le [of os_applicable ?es] by (simp_all add: length_objectives)
  have parts: "length (filter os_applicable ?es) =
    entries_with Met ?es + entries_with NotMet ?es + entries_with Partial ?es + entries_with ManualReviewRequired ?es"
    by (rule applicable_entries_counted) (auto simp: report_objective_status status_only_when_applicable)
  have counts: "cr_objectives (generate_compliance_report name level E) = ?es"
    "cr_summary (generate_compliance_report name level E) = fold count_objective ?es
      \<lparr>cs_total_objectives = of_nat (length objectives), cs_applicable = 0, cs_met = 0,
       cs_not_met = 0, cs_partial = 0, cs_manual_review_required = 0\<rparr>"
    by (simp_all add: generate_compliance_report_def Let_def)
  show ?thesis
    unfolding Let_def counts fold_count parts [symmetric]
    using small by (simp add: unat_small_count length_objectives del: filter_map)
qed

end
