(* ===== verification/Requirement_Report.thy ===== *)
theory Requirement_Report
  imports Trace_Validation Test_Output Diagnostics "HOL-Library.Product_Lexorder" "HOL-Library.List_Lexorder"
begin

text \<open>
  The requirement report (\<^verbatim>\<open>trace/requirement_report.rs\<close> and its \<^verbatim>\<open>view\<close>, \<^verbatim>\<open>builders\<close>,
  \<^verbatim>\<open>cascade\<close> and \<^verbatim>\<open>multi_selector\<close> modules): the projection of the corpus graph on the trace
  layers, the verdict on a test from the captured outcomes, and the cascade of verdicts from
  tests up to system requirements. The selector resolution of \<^verbatim>\<open>trace/selector_check.rs\<close>
  reads the collected source files, which are an argument (a file whose reading fails is
  \<^verbatim>\<open>None\<close>); the text of a graph error is an argument too.
\<close>

section \<open>Resolving selectors\<close>

record unresolved_selector =
  us_id :: string
  us_selector :: string

text \<open>\<^verbatim>\<open>Path::file_stem\<close>: the last component without what follows its last dot, unless that dot
  starts it.\<close>

definition file_stem :: "string \<Rightarrow> string" where
  "file_stem path = (let name = last (split_on slash path) in
     case before_last CHR ''.'' name of None \<Rightarrow> name | Some [] \<Rightarrow> name | Some stem \<Rightarrow> stem)"

definition path_matches_candidate :: "string \<Rightarrow> string \<Rightarrow> bool" where
  "path_matches_candidate path candidate \<longleftrightarrow> file_stem path = candidate
     \<or> contains_str ([slash] @ candidate @ [slash]) (replace_char CHR 0x5C slash path)"

definition path_matches_prefix :: "string \<Rightarrow> string \<Rightarrow> bool" where
  "path_matches_prefix path prefix =
    (let hyphen_form = replace_char CHR ''_'' CHR ''-'' prefix in
     path_matches_candidate path prefix
     \<or> hyphen_form \<noteq> prefix \<and> path_matches_candidate path hyphen_form)"

definition is_test_attribute :: "string \<Rightarrow> bool" where
  "is_test_attribute line \<longleftrightarrow> has_prefix ''#[test]'' line
     \<or> has_prefix ''#[cfg_attr'' line \<and> contains_str ''test'' line \<and> contains_str '','' line"

text \<open>The scan over the lines above a function, nearest first; \<open>n\<close> non-blank lines remain.\<close>

fun attribute_above :: "nat \<Rightarrow> string list \<Rightarrow> bool" where
  "attribute_above n [] = False"
| "attribute_above 0 (l # ls) = False"
| "attribute_above (Suc n) (l # ls) = (let line = trim l in
     if line = [] then attribute_above (Suc n) ls
     else if is_test_attribute line then True
     else if has_prefix ''fn '' line \<or> has_prefix ''pub fn '' line then False
     else attribute_above n ls)"

definition declares_fn :: "string \<Rightarrow> string \<Rightarrow> bool" where
  "declares_fn fn_name line \<longleftrightarrow> (let t = skip_ws line in
     contains_str (''fn '' @ fn_name @ ''('') t \<or> contains_str (''fn '' @ fn_name @ '' ('') t)"

definition file_has_test_fn :: "string \<Rightarrow> string \<Rightarrow> bool" where
  "file_has_test_fn contents fn_name = (let all_lines = str_lines contents in
     list_ex (\<lambda>i. declares_fn fn_name (all_lines ! i) \<and> attribute_above 5 (rev (take i all_lines)))
       [0..<length all_lines])"

type_synonym rs_files = "(string \<times> string option) list"

definition any_file_matches :: "rs_files \<Rightarrow> string \<Rightarrow> string option \<Rightarrow> bool" where
  "any_file_matches files fn_name prefix = list_ex (\<lambda>(path, contents).
     (case prefix of None \<Rightarrow> True | Some p \<Rightarrow> path_matches_prefix path p)
     \<and> (case contents of None \<Rightarrow> False | Some c \<Rightarrow> file_has_test_fn c fn_name)) files"

definition double_colon :: string where
  "double_colon = [CHR 0x3A, CHR 0x3A]"

definition last_segment :: "string \<Rightarrow> string" where
  "last_segment s = (case rsplit_once double_colon s of None \<Rightarrow> s | Some (_, name) \<Rightarrow> name)"

definition selector_resolves :: "rs_files \<Rightarrow> string \<Rightarrow> bool" where
  "selector_resolves files selector =
     any_file_matches files (last_segment selector) (map_option fst (split_once double_colon selector))"

definition resolve_selector_inputs ::
  "(string \<times> string list) list \<Rightarrow> rs_files \<Rightarrow> unresolved_selector list" where
  "resolve_selector_inputs tests files = concat (map (\<lambda>(i, selectors).
     map (\<lambda>selector. \<lparr>us_id = i, us_selector = selector\<rparr>)
       (filter (\<lambda>selector. \<not> selector_resolves files selector)
         (filter (\<lambda>value. trim value \<noteq> []) selectors))) tests)"

definition resolve_test_selectors :: "test_entry list \<Rightarrow> rs_files \<Rightarrow> unresolved_selector list" where
  "resolve_test_selectors tests files =
     resolve_selector_inputs (map (\<lambda>t. (t_id t, all_selectors t)) tests) files"

section \<open>The view\<close>

datatype report_error = UnsupportedEdge uid edge_kind

record report_requirement =
  rr_uid :: uid
  rr_id :: string
  rr_traces_to :: "string list"
  rr_verification_methods :: "string list"
  rr_link_gap :: "string option"
  rr_sort_key :: "int option"

record report_test =
  rt_uid :: uid
  rt_id :: string
  rt_selectors :: "string list"
  rt_traces_to :: "string list"
  rt_link_gap :: "string option"
  rt_sort_key :: "int option"

record report_view =
  vw_sys :: "report_requirement list"
  vw_hlrs :: "report_requirement list"
  vw_llrs :: "report_requirement list"
  vw_tests :: "report_test list"
  vw_children :: "(uid, uid list) bmap"

fun layer_label :: "requirement_layer \<Rightarrow> string" where
  "layer_label Source = ''SOURCE''"
| "layer_label Sys = ''SYS''"
| "layer_label Hlr = ''HLR''"
| "layer_label Llr = ''LLR''"
| "layer_label Derived = ''DERIVED''"

text \<open>The gap one parent edge of a requirement causes, by the layer its parent should have.\<close>

definition parent_gap ::
  "corpus_graph \<Rightarrow> requirement_node \<Rightarrow> requirement_layer option \<Rightarrow> uid \<Rightarrow> string option" where
  "parent_gap G r expected target = (let label = layer_label (rq_layer r); i = rq_id r in
     case expected of
       None \<Rightarrow> Some (''SYS '' @ i @ '' has an inapplicable parent edge to '' @ target)
     | Some layer \<Rightarrow> (case cg_get G target of
         None \<Rightarrow> Some (label @ '' '' @ i @ '' links to missing requirement '' @ target)
       | Some (Requirement p) \<Rightarrow> if rq_layer p \<noteq> layer then Some (label @ '' '' @ i @ '' links to ''
             @ layer_label (rq_layer p) @ '' layer; expected '' @ layer_label layer) else None
       | Some (Test _) \<Rightarrow> Some (label @ '' '' @ i @ '' parent edge targets a TEST node'')
       | Some (Review _) \<Rightarrow> Some (label @ '' '' @ i @ '' parent edge targets a REVIEW node'')
       | Some (SourceRevision _) \<Rightarrow> Some (label @ '' '' @ i @ '' parent edge targets a SOURCE REVISION node'')))"

definition test_parent_gap :: "corpus_graph \<Rightarrow> test_node \<Rightarrow> uid \<Rightarrow> string option" where
  "test_parent_gap G t target = (case cg_get G target of
       None \<Rightarrow> Some (''TEST '' @ ts_id t @ '' links to missing requirement '' @ target)
     | Some (Requirement p) \<Rightarrow> if rq_layer p \<noteq> Llr then Some (''TEST '' @ ts_id t @ '' verifies ''
           @ layer_label (rq_layer p) @ '' layer; expected LLR'') else None
     | Some (Test _) \<Rightarrow> Some (''TEST '' @ ts_id t @ '' verifies a TEST node'')
     | Some (Review _) \<Rightarrow> Some (''TEST '' @ ts_id t @ '' verifies a REVIEW node'')
     | Some (SourceRevision _) \<Rightarrow> Some (''TEST '' @ ts_id t @ '' verifies a SOURCE REVISION node''))"

text \<open>The loop over the edges of a node: the first edge of another kind is an error, every target
  is collected, and the first gap is kept.\<close>

definition edge_link_step ::
  "uid \<Rightarrow> edge_kind \<Rightarrow> (uid \<Rightarrow> string option) \<Rightarrow> uid list \<times> string option \<Rightarrow> edge_kind \<times> uid
    \<Rightarrow> report_error + uid list \<times> string option" where
  "edge_link_step from expected_kind gap_of st edge =
    (if fst edge \<noteq> expected_kind then Err (UnsupportedEdge from (fst edge))
     else Ok (fst st @ [snd edge], case snd st of Some g \<Rightarrow> Some g | None \<Rightarrow> gap_of (snd edge)))"

definition requirement_links ::
  "corpus_graph \<Rightarrow> requirement_node \<Rightarrow> report_error + uid list \<times> string option" where
  "requirement_links G r = (case rq_layer r of
       Sys \<Rightarrow> fold_res (edge_link_step (rq_uid r) DerivesFrom (parent_gap G r None)) ([], None) (rq_edges r)
     | Hlr \<Rightarrow> fold_res (edge_link_step (rq_uid r) DerivesFrom (parent_gap G r (Some Sys))) ([], None) (rq_edges r)
     | Llr \<Rightarrow> fold_res (edge_link_step (rq_uid r) DerivesFrom (parent_gap G r (Some Hlr))) ([], None) (rq_edges r)
     | _ \<Rightarrow> Ok ([], None))"

definition test_links :: "corpus_graph \<Rightarrow> test_node \<Rightarrow> report_error + uid list \<times> string option" where
  "test_links G t = fold_res (edge_link_step (ts_uid t) Verifies (test_parent_gap G t)) ([], None) (ts_edges t)"

definition requirement_meta :: "corpus_graph \<Rightarrow> uid \<Rightarrow> requirement_metadata option" where
  "requirement_meta G u = (case trace_metadata_of G u of Some (RequirementMeta m) \<Rightarrow> Some m | _ \<Rightarrow> None)"

definition test_meta :: "corpus_graph \<Rightarrow> uid \<Rightarrow> test_metadata option" where
  "test_meta G u = (case trace_metadata_of G u of Some (TestMeta m) \<Rightarrow> Some m | _ \<Rightarrow> None)"

definition project_requirement ::
  "corpus_graph \<Rightarrow> requirement_node \<Rightarrow> uid list \<times> string option \<Rightarrow> report_requirement" where
  "project_requirement G r links = (let metadata = requirement_meta G (rq_uid r) in
     \<lparr>rr_uid = rq_uid r, rr_id = rq_id r, rr_traces_to = fst links,
      rr_verification_methods = (case metadata of None \<Rightarrow> [] | Some m \<Rightarrow> rm_verification_methods m),
      rr_link_gap = snd links, rr_sort_key = Option.bind metadata rm_sort_key\<rparr>)"

definition project_test ::
  "corpus_graph \<Rightarrow> test_node \<Rightarrow> uid list \<times> string option \<Rightarrow> report_test" where
  "project_test G t links = \<lparr>rt_uid = ts_uid t, rt_id = ts_id t, rt_selectors = ts_selectors t,
     rt_traces_to = fst links, rt_link_gap = snd links,
     rt_sort_key = Option.bind (test_meta G (ts_uid t)) tm_sort_key\<rparr>"

definition view_step :: "corpus_graph \<Rightarrow> report_view \<Rightarrow> node \<Rightarrow> report_error + report_view" where
  "view_step G view n = (case n of
       Requirement r \<Rightarrow> if rq_layer r \<in> {Source, Derived} then Ok view
         else rbind (requirement_links G r) (\<lambda>links.
           let projected = project_requirement G r links in
           Ok (case rq_layer r of
               Sys \<Rightarrow> view\<lparr>vw_sys := vw_sys view @ [projected]\<rparr>
             | Hlr \<Rightarrow> view\<lparr>vw_hlrs := vw_hlrs view @ [projected]\<rparr>
             | Llr \<Rightarrow> view\<lparr>vw_llrs := vw_llrs view @ [projected]\<rparr>
             | _ \<Rightarrow> view))
     | Test t \<Rightarrow> rbind (test_links G t) (\<lambda>links.
           Ok (view\<lparr>vw_tests := vw_tests view @ [project_test G t links]\<rparr>))
     | _ \<Rightarrow> Ok view)"

definition requirement_order :: "report_requirement \<Rightarrow> int \<times> string \<times> string" where
  "requirement_order r = (case rr_sort_key r of None \<Rightarrow> 0 | Some k \<Rightarrow> k, rr_id r, rr_uid r)"

definition test_order :: "report_test \<Rightarrow> int \<times> string \<times> string" where
  "test_order t = (case rt_sort_key t of None \<Rightarrow> 0 | Some k \<Rightarrow> k, rt_id t, rt_uid t)"

definition push_children ::
  "string option \<Rightarrow> uid \<Rightarrow> uid list \<Rightarrow> (uid, uid list) bmap \<Rightarrow> (uid, uid list) bmap" where
  "push_children gap u parents children =
    (if gap = None then fold (\<lambda>parent. bpush parent u) parents children else children)"

definition index_children :: "report_view \<Rightarrow> (uid, uid list) bmap" where
  "index_children view =
    (let from_requirements = fold (\<lambda>r. push_children (rr_link_gap r) (rr_uid r) (rr_traces_to r))
           (vw_hlrs view @ vw_llrs view @ vw_sys view) [];
         from_all = fold (\<lambda>t. push_children (rt_link_gap t) (rt_uid t) (rt_traces_to t))
           (vw_tests view) from_requirements
     in map (\<lambda>(parent, children). (parent, sort children)) from_all)"

definition view_from_graph :: "corpus_graph \<Rightarrow> report_error + report_view" where
  "view_from_graph G =
    rbind (fold_res (view_step G) \<lparr>vw_sys = [], vw_hlrs = [], vw_llrs = [], vw_tests = [], vw_children = []\<rparr>
      (cg_node_list G)) (\<lambda>view.
    let sorted_view = view\<lparr>vw_sys := sort_key requirement_order (vw_sys view),
          vw_hlrs := sort_key requirement_order (vw_hlrs view),
          vw_llrs := sort_key requirement_order (vw_llrs view),
          vw_tests := sort_key test_order (vw_tests view)\<rparr>
    in Ok (sorted_view\<lparr>vw_children := index_children sorted_view\<rparr>))"

definition children_of :: "report_view \<Rightarrow> uid \<Rightarrow> uid list" where
  "children_of view u = (case bget (vw_children view) u of None \<Rightarrow> [] | Some us \<Rightarrow> us)"

definition selector_inputs :: "report_view \<Rightarrow> (string \<times> string list) list" where
  "selector_inputs view = map (\<lambda>t. (rt_id t, rt_selectors t)) (vw_tests view)"

end
