(* ===== verification/Requirement_Builders.thy ===== *)
theory Requirement_Builders
  imports Requirement_Report
begin

text \<open>
  The verdicts of the requirement report: on a test with one or with several selectors, on a
  requirement from its own structure and its children, and the report itself.
\<close>

section \<open>Statuses and diagnostics\<close>

datatype requirement_status = Pass | Gap | Skip

fun status_display :: "requirement_status \<Rightarrow> string" where
  "status_display Pass = ''requirement satisfied''"
| "status_display Gap = ''requirement not satisfied''"
| "status_display Skip = ''requirement skipped''"

fun status_code :: "requirement_status \<Rightarrow> string" where
  "status_code Pass = ''REQ_PASS''"
| "status_code Gap = ''REQ_GAP''"
| "status_code Skip = ''REQ_SKIP''"

fun status_severity :: "requirement_status \<Rightarrow> severity" where
  "status_severity Pass = SevInfo"
| "status_severity Gap = SevError"
| "status_severity Skip = SevWarning"

record test_status =
  st_status :: requirement_status
  st_root_cause_uid :: "uid option"

datatype requirement_kind = SysKind | HlrKind | LlrKind

type_synonym test_outcomes = "(string, test_outcome) bmap"

definition make_diag ::
  "requirement_status \<Rightarrow> string \<Rightarrow> location option \<Rightarrow> fix_hint option \<Rightarrow> uid option \<Rightarrow> diagnostic" where
  "make_diag status message loc hint root =
    \<lparr>di_code = status_code status, di_severity = status_severity status, di_message = message,
     di_location = loc, di_fix_hint = hint, di_subcommand = None, di_root_cause_uid = root\<rparr>"

definition tests_toml :: string where
  "tests_toml = ''tests.toml''"

definition tests_entry :: "report_test \<Rightarrow> string" where
  "tests_entry t = ''tests[id='' @ rt_id t @ '']''"

definition test_location :: "report_test \<Rightarrow> uid \<Rightarrow> location" where
  "test_location t u = location_default\<lparr>lo_file := Some tests_toml, lo_toml_path := Some (tests_entry t),
     lo_entry_uid := Some u\<rparr>"

definition entry_location :: "uid \<Rightarrow> location" where
  "entry_location u = location_default\<lparr>lo_entry_uid := Some u\<rparr>"

definition file_location :: "uid \<Rightarrow> location" where
  "file_location u = location_default\<lparr>lo_file := Some tests_toml, lo_entry_uid := Some u\<rparr>"

type_synonym verdict_of_entry = "test_status \<times> diagnostic"

definition test_gap :: "report_test \<Rightarrow> uid \<Rightarrow> string \<Rightarrow> fix_hint option \<Rightarrow> verdict_of_entry" where
  "test_gap t u message hint = (\<lparr>st_status = Gap, st_root_cause_uid = Some u\<rparr>,
     make_diag Gap message (Some (test_location t u)) hint None)"

section \<open>One test\<close>

definition ends_with_fn :: "string \<Rightarrow> string \<Rightarrow> bool" where
  "ends_with_fn key selector \<longleftrightarrow>
    (if contains_str double_colon selector
     then key = selector \<or> strip_prefix (rev (double_colon @ selector)) (rev key) \<noteq> None
     else last_segment key = selector)"

text \<open>The matching keys with their outcomes, in key order.\<close>

definition selector_matches :: "test_outcomes \<Rightarrow> string \<Rightarrow> (string \<times> test_outcome) list" where
  "selector_matches outcomes selector = filter (\<lambda>(k, _). k = selector \<or> ends_with_fn k selector) outcomes"

definition quoted :: "string \<Rightarrow> string" where
  "quoted s = [CHR 0x27] @ s @ [CHR 0x27]"

definition selector_did_not_run :: "report_test \<Rightarrow> uid \<Rightarrow> string \<Rightarrow> verdict_of_entry" where
  "selector_did_not_run t u selector = test_gap t u (''TEST '' @ rt_id t @ '': selector '' @ quoted selector
     @ '' did not run in this session (not in cargo test output)'') None"

definition matched_selector :: "report_test \<Rightarrow> uid \<Rightarrow> string \<Rightarrow> test_outcome \<Rightarrow> verdict_of_entry" where
  "matched_selector t u matched outcome =
    (let (status, root, message) = (case outcome of
           TestPassed \<Rightarrow> (Pass, None, ''TEST '' @ rt_id t @ '' passed ('' @ matched @ '')'')
         | TestFailed \<Rightarrow> (Gap, Some u, ''TEST '' @ rt_id t @ '' failed in this run ('' @ matched @ '')'')
         | TestIgnored \<Rightarrow> (Skip, None, ''TEST '' @ rt_id t @ '' was #[ignore]'' @ [CHR 0x27] @ ''d in this run''))
     in (\<lparr>st_status = status, st_root_cause_uid = root\<rparr>,
         make_diag status message (Some (entry_location u)) None None))"

definition ambiguous_selector :: "report_test \<Rightarrow> uid \<Rightarrow> string \<Rightarrow> string list \<Rightarrow> verdict_of_entry" where
  "ambiguous_selector t u selector matches =
    (let matched = join_with '', '' matches in
     test_gap t u (''TEST '' @ rt_id t @ '': selector '' @ quoted selector @ '' is ambiguous'' @ em_dash
         @ ''matches '' @ show_nat (length matches) @ '' outcome keys: ['' @ matched @ '']'')
       (Some (AddTomlKey tests_toml (tests_entry t) ''test_selector'' (''<one of: '' @ matched @ ''>''))))"

definition single_selector_status ::
  "report_test \<Rightarrow> uid \<Rightarrow> string \<Rightarrow> test_outcomes \<Rightarrow> verdict_of_entry" where
  "single_selector_status t u selector outcomes = (case selector_matches outcomes selector of
       [] \<Rightarrow> selector_did_not_run t u selector
     | [(k, outcome)] \<Rightarrow> matched_selector t u k outcome
     | many \<Rightarrow> ambiguous_selector t u selector (map fst many))"

record selector_summary =
  ss_unmatched :: "string list"
  ss_failed :: "string list"
  ss_ignored :: "string list"
  ss_ambiguous :: "string list"

definition summary_step :: "test_outcomes \<Rightarrow> string \<Rightarrow> selector_summary \<Rightarrow> selector_summary" where
  "summary_step outcomes sel s = (case selector_matches outcomes sel of
       [] \<Rightarrow> s\<lparr>ss_unmatched := ss_unmatched s @ [sel]\<rparr>
     | [(_, outcome)] \<Rightarrow> (case outcome of
         TestPassed \<Rightarrow> s
       | TestFailed \<Rightarrow> s\<lparr>ss_failed := ss_failed s @ [sel]\<rparr>
       | TestIgnored \<Rightarrow> s\<lparr>ss_ignored := ss_ignored s @ [sel]\<rparr>)
     | many \<Rightarrow> s\<lparr>ss_ambiguous := ss_ambiguous s
         @ [sel @ '' matches ['' @ join_with '', '' (map fst many) @ '']'']\<rparr>)"

definition collect_summary :: "string list \<Rightarrow> test_outcomes \<Rightarrow> selector_summary" where
  "collect_summary selectors outcomes = fold (summary_step outcomes) selectors
     \<lparr>ss_unmatched = [], ss_failed = [], ss_ignored = [], ss_ambiguous = []\<rparr>"

definition gap_status :: "uid \<Rightarrow> test_status" where
  "gap_status u = \<lparr>st_status = Gap, st_root_cause_uid = Some u\<rparr>"

definition failed_status :: "report_test \<Rightarrow> uid \<Rightarrow> string list \<Rightarrow> verdict_of_entry" where
  "failed_status t u failed = (gap_status u, make_diag Gap (''TEST '' @ rt_id t
     @ '' failed in this run (selectors failed: ['' @ join_with '', '' failed @ ''])'')
     (Some (entry_location u)) None None)"

definition ambiguous_status :: "report_test \<Rightarrow> uid \<Rightarrow> string list \<Rightarrow> verdict_of_entry" where
  "ambiguous_status t u ambiguous = (gap_status u, make_diag Gap (''TEST '' @ rt_id t
     @ '' has ambiguous selector(s): '' @ join_with ''; '' ambiguous) (Some (file_location u))
     (Some (AddTomlKey tests_toml (tests_entry t) ''test_selectors'' ''<fully-qualified selectors>'')) None)"

definition unmatched_status :: "report_test \<Rightarrow> uid \<Rightarrow> string list \<Rightarrow> verdict_of_entry" where
  "unmatched_status t u unmatched = (gap_status u, make_diag Gap (''TEST '' @ rt_id t
     @ '': selector(s) did not run in this session (not in cargo test output): [''
     @ join_with '', '' unmatched @ '']'') (Some (file_location u)) None None)"

definition ignored_status :: "report_test \<Rightarrow> uid \<Rightarrow> string list \<Rightarrow> verdict_of_entry" where
  "ignored_status t u ignored = (\<lparr>st_status = Skip, st_root_cause_uid = None\<rparr>,
     make_diag Skip (''TEST '' @ rt_id t @ '' skipped'' @ em_dash @ ''some selectors are #[ignore]''
     @ [CHR 0x27] @ ''d: ['' @ join_with '', '' ignored @ '']'') (Some (entry_location u)) None None)"

definition passed_status :: "report_test \<Rightarrow> uid \<Rightarrow> nat \<Rightarrow> verdict_of_entry" where
  "passed_status t u count = (\<lparr>st_status = Pass, st_root_cause_uid = None\<rparr>,
     make_diag Pass (''TEST '' @ rt_id t @ '' passed ('' @ show_nat count @ '' selectors resolved and passed)'')
     (Some (entry_location u)) None None)"

definition multi_selector_status ::
  "report_test \<Rightarrow> uid \<Rightarrow> string list \<Rightarrow> test_outcomes \<Rightarrow> verdict_of_entry" where
  "multi_selector_status t u selectors outcomes = (let summary = collect_summary selectors outcomes in
     if ss_failed summary \<noteq> [] then failed_status t u (ss_failed summary)
     else if ss_ambiguous summary \<noteq> [] then ambiguous_status t u (ss_ambiguous summary)
     else if ss_unmatched summary \<noteq> [] then unmatched_status t u (ss_unmatched summary)
     else if ss_ignored summary \<noteq> [] then ignored_status t u (ss_ignored summary)
     else passed_status t u (length selectors))"

definition build_test_diag ::
  "report_test \<Rightarrow> test_outcomes \<Rightarrow> string list \<Rightarrow> verdict_of_entry" where
  "build_test_diag t outcomes unresolved_ids = (let u = rt_uid t in
     case rt_link_gap t of Some message \<Rightarrow> test_gap t u message None
     | None \<Rightarrow>
       if rt_id t \<in> set unresolved_ids then test_gap t u (''TEST '' @ rt_id t @ '' selector(s) [''
           @ join_with '', '' (rt_selectors t) @ ''] did not resolve to a real #[test] fn'')
         (Some (AddTomlKey tests_toml (tests_entry t) ''test_selector''
           (''<fully-qualified selector; ['' @ join_with '', '' (rt_selectors t) @ ''] did not resolve>'')))
       else if rt_selectors t = [] then test_gap t u
         (''TEST '' @ rt_id t @ '' has no `test_selector` or `test_selectors`'')
         (Some (AddTomlKey tests_toml (tests_entry t) ''test_selector''
           (''<crate>'' @ double_colon @ ''<module>'' @ double_colon @ ''<fn_name>'')))
       else if rt_traces_to t = [] then test_gap t u
         (''TEST '' @ rt_id t @ '' is orphaned with no LLR verification edge'')
         (Some (AddTomlKey tests_toml (tests_entry t) ''traces_to''
           (''['' @ [CHR 0x22] @ ''<LLR-uuid>'' @ [CHR 0x22] @ '']'')))
       else if length (rt_selectors t) > 1 then multi_selector_status t u (rt_selectors t) outcomes
       else single_selector_status t u (rt_selectors t ! 0) outcomes)"

section \<open>One requirement\<close>

fun kind_label :: "requirement_kind \<Rightarrow> string" where
  "kind_label SysKind = ''SYS''"
| "kind_label HlrKind = ''HLR''"
| "kind_label LlrKind = ''LLR''"

fun child_label :: "requirement_kind \<Rightarrow> string" where
  "child_label SysKind = ''HLR''"
| "child_label HlrKind = ''LLR''"
| "child_label LlrKind = ''TEST''"

fun verification_required :: "requirement_kind \<Rightarrow> trace_policy \<Rightarrow> bool" where
  "verification_required HlrKind policy = tp_require_hlr_verification_methods policy"
| "verification_required LlrKind policy = tp_require_llr_verification_methods policy"
| "verification_required SysKind policy = False"

record cascade_entry =
  ce_kind :: requirement_kind
  ce_id :: string
  ce_uid :: uid
  ce_traces_to :: "string list"
  ce_verification_methods :: "string list"
  ce_link_gap :: "string option"
  ce_toml_path :: string
  ce_file :: string

definition cascade_location :: "cascade_entry \<Rightarrow> location" where
  "cascade_location e = location_default\<lparr>lo_file := Some (ce_file e), lo_toml_path := Some (ce_toml_path e),
     lo_entry_uid := Some (ce_uid e)\<rparr>"

definition add_key_fix :: "cascade_entry \<Rightarrow> string \<Rightarrow> string \<Rightarrow> fix_hint" where
  "add_key_fix e key stub = AddTomlKey (ce_file e) (ce_toml_path e) key stub"

definition bracketed :: "string \<Rightarrow> string" where
  "bracketed s = ''['' @ [CHR 0x22] @ s @ [CHR 0x22] @ '']''"

definition structural_gap :: "cascade_entry \<Rightarrow> trace_policy \<Rightarrow> (string \<times> fix_hint option) option" where
  "structural_gap e policy = (case ce_link_gap e of Some message \<Rightarrow> Some (message, None)
     | None \<Rightarrow>
       if ce_kind e = HlrKind \<and> tp_require_hlr_sys_trace policy \<and> ce_traces_to e = [] then
         Some (''HLR '' @ ce_id e @ '' has empty `traces_to` under `require_hlr_sys_trace` policy'',
           Some (add_key_fix e ''traces_to'' (bracketed ''<SYS-uuid>'')))
       else if ce_kind e = LlrKind \<and> ce_traces_to e = [] then
         Some (''LLR '' @ ce_id e @ '' has no parent HLR edge'',
           Some (add_key_fix e ''traces_to'' (bracketed ''<HLR-uuid>'')))
       else if verification_required (ce_kind e) policy \<and> ce_verification_methods e = [] then
         Some (kind_label (ce_kind e) @ '' '' @ ce_id e @ '' is missing verification methods'',
           Some (add_key_fix e ''verification_methods'' (bracketed ''test'')))
       else None)"

definition direct_gap :: "cascade_entry \<Rightarrow> string \<Rightarrow> fix_hint option \<Rightarrow> verdict_of_entry" where
  "direct_gap e message hint = (gap_status (ce_uid e),
     make_diag Gap message (Some (cascade_location e)) hint None)"

text \<open>The loop over the children: the first gap with its root, whether one passed, whether one was
  skipped; a child without a status contributes nothing.\<close>

type_synonym statuses = "(uid, test_status) bmap"

definition aggregate_step ::
  "statuses \<Rightarrow> uid option \<times> bool \<times> bool \<Rightarrow> uid \<Rightarrow> uid option \<times> bool \<times> bool" where
  "aggregate_step child_status acc u = (case acc of (first_gap, any_pass, any_skip) \<Rightarrow>
     (case bget child_status u of None \<Rightarrow> acc
      | Some s \<Rightarrow> (case st_status s of
          Gap \<Rightarrow> (if first_gap = None then (case st_root_cause_uid s of Some r \<Rightarrow> Some r | None \<Rightarrow> Some u)
             else first_gap, any_pass, any_skip)
        | Pass \<Rightarrow> (first_gap, True, any_skip)
        | Skip \<Rightarrow> (first_gap, any_pass, True))))"

definition aggregate_child_status :: "uid list \<Rightarrow> statuses \<Rightarrow> test_status" where
  "aggregate_child_status child_uids child_status =
    (if child_uids = [] then \<lparr>st_status = Pass, st_root_cause_uid = None\<rparr>
     else case foldl (aggregate_step child_status) (None, False, False) child_uids of
       (Some root, _, _) \<Rightarrow> \<lparr>st_status = Gap, st_root_cause_uid = Some root\<rparr>
     | (None, any_pass, any_skip) \<Rightarrow>
         if any_pass then \<lparr>st_status = Pass, st_root_cause_uid = None\<rparr>
         else if any_skip then \<lparr>st_status = Skip, st_root_cause_uid = None\<rparr>
         else \<lparr>st_status = Pass, st_root_cause_uid = None\<rparr>)"

definition build_cascade_diag ::
  "cascade_entry \<Rightarrow> uid list \<Rightarrow> statuses \<Rightarrow> trace_policy \<Rightarrow> verdict_of_entry" where
  "build_cascade_diag e child_uids child_status policy =
    (case structural_gap e policy of Some (message, hint) \<Rightarrow> direct_gap e message hint
     | None \<Rightarrow> let name = kind_label (ce_kind e) @ '' '' @ ce_id e in
       if child_uids = [] then direct_gap e (name @ '' has no '' @ child_label (ce_kind e) @ '' coverage'') None
       else let aggregated = aggregate_child_status child_uids child_status;
                msg = (case st_status aggregated of
                   Pass \<Rightarrow> name @ '' satisfied''
                 | Gap \<Rightarrow> name @ '': one or more downstream requirements failed''
                 | Skip \<Rightarrow> name @ '': all downstream requirements were skipped'')
            in (aggregated, make_diag (st_status aggregated) msg (Some (cascade_location e)) None
                  (st_root_cause_uid aggregated)))"

section \<open>The report\<close>

definition layer_entry :: "requirement_kind \<Rightarrow> string \<Rightarrow> nat \<Rightarrow> report_requirement \<Rightarrow> cascade_entry" where
  "layer_entry kind file index r = \<lparr>ce_kind = kind, ce_id = rr_id r, ce_uid = rr_uid r,
     ce_traces_to = rr_traces_to r, ce_verification_methods = rr_verification_methods r,
     ce_link_gap = rr_link_gap r, ce_toml_path = ''requirements['' @ show_nat index @ '']'', ce_file = file\<rparr>"

definition build_layer ::
  "report_requirement list \<Rightarrow> requirement_kind \<Rightarrow> string \<Rightarrow> report_view \<Rightarrow> statuses \<Rightarrow> trace_policy
    \<Rightarrow> statuses \<times> diagnostic list" where
  "build_layer entries kind file view child_status policy =
    (let verdicts = map (\<lambda>(index, r). (rr_uid r, build_cascade_diag (layer_entry kind file index r)
           (children_of view (rr_uid r)) child_status policy)) (enumerate 0 entries)
     in (fold (\<lambda>(u, v). bins u (fst v)) verdicts [], map (\<lambda>(u, v). snd v) verdicts))"

definition build_corpus_requirement_report ::
  "corpus_graph \<Rightarrow> test_outcomes \<Rightarrow> rs_files \<Rightarrow> trace_policy \<Rightarrow> report_error + diagnostic list" where
  "build_corpus_requirement_report G outcomes files policy =
    rbind (view_from_graph G) (\<lambda>view.
    let unresolved = map us_id (resolve_selector_inputs (selector_inputs view) files);
        tests = map (\<lambda>t. (rt_uid t, build_test_diag t outcomes unresolved)) (vw_tests view);
        test_status = fold (\<lambda>(u, v). bins u (fst v)) tests [];
        (llr_status, llr_diags) = build_layer (vw_llrs view) LlrKind ''llr.toml'' view test_status policy;
        (hlr_status, hlr_diags) = build_layer (vw_hlrs view) HlrKind ''hlr.toml'' view llr_status policy;
        (sys_status, sys_diags) = build_layer (vw_sys view) SysKind ''sys.toml'' view hlr_status policy
    in Ok (map (\<lambda>(u, v). snd v) tests @ llr_diags @ hlr_diags @ sys_diags))"

definition graph_failure :: "string \<Rightarrow> diagnostic" where
  "graph_failure message = make_diag Gap
     (''cannot derive requirement report from corpus graph: '' @ message) None None None"

text \<open>The text of the derived \<^verbatim>\<open>Debug\<close> and the message of the error.\<close>

fun edge_kind_debug :: "edge_kind \<Rightarrow> string" where
  "edge_kind_debug DerivesFrom = ''DerivesFrom''"
| "edge_kind_debug Verifies = ''Verifies''"
| "edge_kind_debug Reviews = ''Reviews''"
| "edge_kind_debug Supersedes = ''Supersedes''"

fun report_error_text :: "report_error \<Rightarrow> string" where
  "report_error_text (UnsupportedEdge from kind) = ''node '' @ from @ '' carries unsupported ''
     @ edge_kind_debug kind @ '' edge in requirement report''"

definition build_requirement_report ::
  "(corpus_error \<Rightarrow> string) \<Rightarrow> trace_parts \<Rightarrow> test_outcomes \<Rightarrow> rs_files \<Rightarrow> trace_policy \<Rightarrow> diagnostic list" where
  "build_requirement_report error_text t outcomes files policy =
    (case graph_from_trace_parts t of
       Inl e \<Rightarrow> [graph_failure (error_text e)]
     | Inr G \<Rightarrow> (case build_corpus_requirement_report G outcomes files policy of
         Inl e \<Rightarrow> [graph_failure (report_error_text e)]
       | Inr diagnostics \<Rightarrow> diagnostics))"

end
