(* ===== verification/Requirement_Spec.thy ===== *)
theory Requirement_Spec
  imports Requirement_Builders
begin

text \<open>
  What the requirement report says of the graph: the verdict on a node is defined from the
  graph alone, layer by layer, and the view and the builders compute it.
\<close>

section \<open>Links\<close>

definition first_some :: "('a \<Rightarrow> 'b option) \<Rightarrow> 'a list \<Rightarrow> 'b option" where
  "first_some f xs = (case List.map_filter f xs of [] \<Rightarrow> None | y # _ \<Rightarrow> Some y)"

lemma first_some_simps [simp]:
  "first_some f [] = None"
  "first_some f (x # xs) = (case f x of None \<Rightarrow> first_some f xs | Some y \<Rightarrow> Some y)"
  by (auto simp: first_some_def List.map_filter_simps split: option.split)

lemma first_some_None_iff: "first_some f xs = None \<longleftrightarrow> (\<forall>x \<in> set xs. f x = None)"
  by (induction xs) (auto split: option.splits)

lemma fold_edge_link_step:
  "fold_res (edge_link_step from k f) st es = Inr l \<Longrightarrow>
    l = (fst st @ map snd es, case snd st of Some g \<Rightarrow> Some g | None \<Rightarrow> first_some f (map snd es))"
proof (induction es arbitrary: st)
  case Nil
  then show ?case by (cases st) (auto split: option.split)
next
  case (Cons e es)
  have step: "edge_link_step from k f st e = (if fst e \<noteq> k then Inl (UnsupportedEdge from (fst e))
      else Inr (fst st @ [snd e], case snd st of Some g \<Rightarrow> Some g | None \<Rightarrow> f (snd e)))"
    by (simp add: edge_link_step_def)
  from Cons.prems have rest: "fold_res (edge_link_step from k f)
      (fst st @ [snd e], case snd st of Some g \<Rightarrow> Some g | None \<Rightarrow> f (snd e)) es = Inr l"
    by (cases "fst e = k") (simp_all add: step)
  from Cons.IH [OF rest] show ?case by (auto split: option.splits)
qed

fun parent_layer :: "requirement_layer \<Rightarrow> requirement_layer option" where
  "parent_layer Hlr = Some Sys"
| "parent_layer Llr = Some Hlr"
| "parent_layer _ = None"

definition parents :: "node \<Rightarrow> uid list" where
  "parents n = map snd (node_edges n)"

definition is_layer :: "corpus_graph \<Rightarrow> requirement_layer \<Rightarrow> uid \<Rightarrow> bool" where
  "is_layer G layer u \<longleftrightarrow> (\<exists>p. cg_get G u = Some (Requirement p) \<and> rq_layer p = layer)"

definition linked :: "corpus_graph \<Rightarrow> node \<Rightarrow> bool" where
  "linked G n \<longleftrightarrow> (case n of
     Requirement r \<Rightarrow> (case parent_layer (rq_layer r) of
         None \<Rightarrow> parents n = [] | Some layer \<Rightarrow> \<forall>u \<in> set (parents n). is_layer G layer u)
   | Test t \<Rightarrow> \<forall>u \<in> set (parents n). is_layer G Llr u
   | _ \<Rightarrow> False)"

definition report_requirement_of :: "corpus_graph \<Rightarrow> requirement_node \<Rightarrow> report_requirement" where
  "report_requirement_of G r = project_requirement G r (parents (Requirement r),
     first_some (parent_gap G r (parent_layer (rq_layer r))) (parents (Requirement r)))"

definition report_test_of :: "corpus_graph \<Rightarrow> test_node \<Rightarrow> report_test" where
  "report_test_of G t = project_test G t (parents (Test t), first_some (test_parent_gap G t) (parents (Test t)))"

lemma requirement_links_result:
  "requirement_links G r = Inr l \<Longrightarrow> rq_layer r \<notin> {Source, Derived} \<Longrightarrow>
    project_requirement G r l = report_requirement_of G r"
  by (cases "rq_layer r") (auto simp: requirement_links_def report_requirement_of_def parents_def dest: fold_edge_link_step)

lemma test_links_result: "test_links G t = Inr l \<Longrightarrow> project_test G t l = report_test_of G t"
  by (auto simp: test_links_def report_test_of_def parents_def dest: fold_edge_link_step)

lemma parent_gap_None_iff:
  "parent_gap G r expected u = None \<longleftrightarrow> (case expected of None \<Rightarrow> False | Some layer \<Rightarrow> is_layer G layer u)"
  by (auto simp: parent_gap_def is_layer_def Let_def split: option.splits node.splits)

lemma test_parent_gap_None_iff: "test_parent_gap G t u = None \<longleftrightarrow> is_layer G Llr u"
  by (auto simp: test_parent_gap_def is_layer_def split: option.splits node.splits)

lemma report_requirement_fields [simp]:
  "rr_uid (report_requirement_of G r) = rq_uid r" "rr_id (report_requirement_of G r) = rq_id r"
  "rr_traces_to (report_requirement_of G r) = map snd (rq_edges r)"
  by (simp_all add: report_requirement_of_def project_requirement_def Let_def parents_def)

lemma report_test_fields [simp]:
  "rt_uid (report_test_of G t) = ts_uid t" "rt_id (report_test_of G t) = ts_id t"
  "rt_selectors (report_test_of G t) = ts_selectors t" "rt_traces_to (report_test_of G t) = map snd (ts_edges t)"
  by (simp_all add: report_test_of_def project_test_def parents_def)

lemma report_requirement_gap:
  "rr_link_gap (report_requirement_of G r) = None \<longleftrightarrow> linked G (Requirement r)"
  by (auto simp: report_requirement_of_def project_requirement_def Let_def first_some_None_iff
    parent_gap_None_iff linked_def split: option.splits)

lemma report_test_gap: "rt_link_gap (report_test_of G t) = None \<longleftrightarrow> linked G (Test t)"
  by (auto simp: report_test_of_def project_test_def first_some_None_iff test_parent_gap_None_iff linked_def)

section \<open>The view\<close>

fun as_layer :: "requirement_layer \<Rightarrow> node \<Rightarrow> requirement_node option" where
  "as_layer layer (Requirement r) = (if rq_layer r = layer then Some r else None)"
| "as_layer layer _ = None"

fun as_test :: "node \<Rightarrow> test_node option" where
  "as_test (Test t) = Some t"
| "as_test _ = None"

lemma view_step_result:
  assumes "view_step G v n = Inr w"
  shows "vw_sys w = vw_sys v @ map (report_requirement_of G) (List.map_filter (as_layer Sys) [n])
    \<and> vw_hlrs w = vw_hlrs v @ map (report_requirement_of G) (List.map_filter (as_layer Hlr) [n])
    \<and> vw_llrs w = vw_llrs v @ map (report_requirement_of G) (List.map_filter (as_layer Llr) [n])
    \<and> vw_tests w = vw_tests v @ map (report_test_of G) (List.map_filter as_test [n])"
proof (cases n)
  case (Requirement r)
  show ?thesis
  proof (cases "rq_layer r \<in> {Source, Derived}")
    case True
    with assms Requirement show ?thesis by (auto simp: view_step_def List.map_filter_simps)
  next
    case False
    with assms Requirement obtain l where l: "requirement_links G r = Inr l"
      by (cases "requirement_links G r") (auto simp: view_step_def)
    from requirement_links_result [OF this False] assms l Requirement False show ?thesis
      by (cases "rq_layer r") (auto simp: view_step_def List.map_filter_simps Let_def)
  qed
next
  case (Test t)
  with assms obtain l where l: "test_links G t = Inr l"
    by (cases "test_links G t") (auto simp: view_step_def)
  from test_links_result [OF l] assms l Test show ?thesis
    by (auto simp: view_step_def List.map_filter_simps)
qed (use assms in \<open>auto simp: view_step_def List.map_filter_simps\<close>)

lemma map_filter_Cons: "List.map_filter f (x # xs) = List.map_filter f [x] @ List.map_filter f xs"
  by (auto simp: List.map_filter_simps split: option.split)

lemma fold_view_step:
  "fold_res (view_step G) v ns = Inr w \<Longrightarrow>
    vw_sys w = vw_sys v @ map (report_requirement_of G) (List.map_filter (as_layer Sys) ns)
    \<and> vw_hlrs w = vw_hlrs v @ map (report_requirement_of G) (List.map_filter (as_layer Hlr) ns)
    \<and> vw_llrs w = vw_llrs v @ map (report_requirement_of G) (List.map_filter (as_layer Llr) ns)
    \<and> vw_tests w = vw_tests v @ map (report_test_of G) (List.map_filter as_test ns)"
proof (induction ns arbitrary: v)
  case (Cons n ns)
  from Cons.prems obtain x where x: "view_step G v n = Inr x" "fold_res (view_step G) x ns = Inr w"
    by (auto split: sum.splits)
  from Cons.IH [OF x(2)] view_step_result [OF x(1)] show ?case
    unfolding map_filter_Cons [of _ n ns] by simp
qed (simp add: List.map_filter_simps)

definition layer_nodes :: "corpus_graph \<Rightarrow> requirement_layer \<Rightarrow> requirement_node list" where
  "layer_nodes G layer = List.map_filter (as_layer layer) (cg_node_list G)"

definition test_nodes :: "corpus_graph \<Rightarrow> test_node list" where
  "test_nodes G = List.map_filter as_test (cg_node_list G)"

lemma view_from_graph_result:
  assumes "view_from_graph G = Inr view"
  shows "vw_sys view = sort_key requirement_order (map (report_requirement_of G) (layer_nodes G Sys))"
    "vw_hlrs view = sort_key requirement_order (map (report_requirement_of G) (layer_nodes G Hlr))"
    "vw_llrs view = sort_key requirement_order (map (report_requirement_of G) (layer_nodes G Llr))"
    "vw_tests view = sort_key test_order (map (report_test_of G) (test_nodes G))"
    "vw_children view = index_children view"
proof -
  from assms obtain w where w: "fold_res (view_step G)
      \<lparr>vw_sys = [], vw_hlrs = [], vw_llrs = [], vw_tests = [], vw_children = []\<rparr> (cg_node_list G) = Inr w"
    and view: "view = (let v = w\<lparr>vw_sys := sort_key requirement_order (vw_sys w),
          vw_hlrs := sort_key requirement_order (vw_hlrs w), vw_llrs := sort_key requirement_order (vw_llrs w),
          vw_tests := sort_key test_order (vw_tests w)\<rparr> in v\<lparr>vw_children := index_children v\<rparr>)"
    by (auto simp: view_from_graph_def rbind_Ok_iff Let_def)
  from fold_view_step [OF w] view show
    "vw_sys view = sort_key requirement_order (map (report_requirement_of G) (layer_nodes G Sys))"
    "vw_hlrs view = sort_key requirement_order (map (report_requirement_of G) (layer_nodes G Hlr))"
    "vw_llrs view = sort_key requirement_order (map (report_requirement_of G) (layer_nodes G Llr))"
    "vw_tests view = sort_key test_order (map (report_test_of G) (test_nodes G))"
    by (simp_all add: Let_def layer_nodes_def test_nodes_def)
  from view show "vw_children view = index_children view" by (simp add: Let_def index_children_def)
qed

end
