(* ===== verification/Requirement_Verdicts.thy ===== *)
theory Requirement_Verdicts
  imports Requirement_Spec
begin

text \<open>
  The verdict on a node as a function of the graph, and the proof that the report computes it:
  first the tests, then the children index, then one layer after the other.
\<close>

section \<open>Tests\<close>

definition selector_outcome :: "test_outcomes \<Rightarrow> string \<Rightarrow> requirement_status" where
  "selector_outcome outcomes s = (case selector_matches outcomes s of
     [(_, TestPassed)] \<Rightarrow> Pass | [(_, TestIgnored)] \<Rightarrow> Skip | _ \<Rightarrow> Gap)"

definition combine :: "requirement_status set \<Rightarrow> requirement_status" where
  "combine S = (if Gap \<in> S then Gap else if Pass \<in> S then Pass else Skip)"

text \<open>Over selectors a skipped one outweighs a passed one.\<close>

definition combine_selectors :: "requirement_status set \<Rightarrow> requirement_status" where
  "combine_selectors S = (if Gap \<in> S then Gap else if Skip \<in> S then Skip else Pass)"

definition unresolved_id :: "corpus_graph \<Rightarrow> rs_files \<Rightarrow> string \<Rightarrow> bool" where
  "unresolved_id G files i \<longleftrightarrow> (\<exists>t \<in> set (test_nodes G). ts_id t = i
     \<and> (\<exists>s \<in> set (ts_selectors t). trim s \<noteq> [] \<and> \<not> selector_resolves files s))"

definition test_verdict :: "corpus_graph \<Rightarrow> test_outcomes \<Rightarrow> rs_files \<Rightarrow> test_node \<Rightarrow> requirement_status" where
  "test_verdict G outcomes files t =
    (if \<not> linked G (Test t) \<or> unresolved_id G files (ts_id t) \<or> ts_selectors t = [] \<or> ts_edges t = []
     then Gap else combine_selectors (selector_outcome outcomes ` set (ts_selectors t)))"

lemma summary_step_fields:
  "ss_failed (summary_step outcomes s x) = [] \<longleftrightarrow>
     ss_failed x = [] \<and> \<not> (\<exists>k. selector_matches outcomes s = [(k, TestFailed)])"
  "ss_unmatched (summary_step outcomes s x) = [] \<longleftrightarrow> ss_unmatched x = [] \<and> selector_matches outcomes s \<noteq> []"
  "ss_ambiguous (summary_step outcomes s x) = [] \<longleftrightarrow>
     ss_ambiguous x = [] \<and> length (selector_matches outcomes s) \<le> 1"
  "ss_ignored (summary_step outcomes s x) = [] \<longleftrightarrow>
     ss_ignored x = [] \<and> \<not> (\<exists>k. selector_matches outcomes s = [(k, TestIgnored)])"
  by (auto simp: summary_step_def split: list.splits test_outcome.splits)

lemma fold_summary_step:
  "ss_failed (fold (summary_step outcomes) ss x) = [] \<longleftrightarrow>
     ss_failed x = [] \<and> (\<forall>s \<in> set ss. \<not> (\<exists>k. selector_matches outcomes s = [(k, TestFailed)]))"
  "ss_unmatched (fold (summary_step outcomes) ss x) = [] \<longleftrightarrow>
     ss_unmatched x = [] \<and> (\<forall>s \<in> set ss. selector_matches outcomes s \<noteq> [])"
  "ss_ambiguous (fold (summary_step outcomes) ss x) = [] \<longleftrightarrow>
     ss_ambiguous x = [] \<and> (\<forall>s \<in> set ss. length (selector_matches outcomes s) \<le> 1)"
  "ss_ignored (fold (summary_step outcomes) ss x) = [] \<longleftrightarrow>
     ss_ignored x = [] \<and> (\<forall>s \<in> set ss. \<not> (\<exists>k. selector_matches outcomes s = [(k, TestIgnored)]))"
  by (induction ss arbitrary: x) (auto simp: summary_step_fields)

lemma selector_outcome_gap_iff:
  "selector_outcome outcomes s = Gap \<longleftrightarrow> selector_matches outcomes s = []
     \<or> (\<exists>k. selector_matches outcomes s = [(k, TestFailed)]) \<or> \<not> length (selector_matches outcomes s) \<le> 1"
  by (auto simp: selector_outcome_def split: list.splits test_outcome.splits)

lemma selector_outcome_skip_iff:
  "selector_outcome outcomes s = Skip \<longleftrightarrow> (\<exists>k. selector_matches outcomes s = [(k, TestIgnored)])"
  by (auto simp: selector_outcome_def split: list.splits test_outcome.splits)

lemma selector_outcome_pass_iff:
  "selector_outcome outcomes s = Pass \<longleftrightarrow> (\<exists>k. selector_matches outcomes s = [(k, TestPassed)])"
  by (auto simp: selector_outcome_def split: list.splits test_outcome.splits)

lemma multi_selector_verdict:
  "st_status (fst (multi_selector_status t u ss outcomes)) = combine_selectors (selector_outcome outcomes ` set ss)"
proof -
  let ?S = "selector_outcome outcomes ` set ss"
  have gap: "Gap \<in> ?S \<longleftrightarrow> ss_failed (collect_summary ss outcomes) \<noteq> []
      \<or> ss_ambiguous (collect_summary ss outcomes) \<noteq> [] \<or> ss_unmatched (collect_summary ss outcomes) \<noteq> []"
    unfolding image_iff collect_summary_def fold_summary_step
    by (simp add: eq_commute [of Gap] selector_outcome_gap_iff) blast
  have skip: "Skip \<in> ?S \<longleftrightarrow> ss_ignored (collect_summary ss outcomes) \<noteq> []"
    unfolding image_iff collect_summary_def fold_summary_step
    by (simp add: eq_commute [of Skip] selector_outcome_skip_iff)
  show ?thesis
    unfolding combine_selectors_def gap skip
    by (simp add: multi_selector_status_def Let_def failed_status_def ambiguous_status_def
      unmatched_status_def ignored_status_def passed_status_def gap_status_def)
qed

lemma single_selector_verdict:
  "st_status (fst (single_selector_status t u s outcomes)) = selector_outcome outcomes s"
  by (auto simp: single_selector_status_def selector_outcome_def selector_did_not_run_def
    matched_selector_def ambiguous_selector_def test_gap_def Let_def split: list.splits test_outcome.splits)

lemma combine_selectors_single [simp]: "combine_selectors {s} = s"
  by (cases s) (auto simp: combine_selectors_def)

lemma build_test_verdict:
  "st_status (fst (build_test_diag t outcomes unresolved)) =
    (if rt_link_gap t \<noteq> None \<or> rt_id t \<in> set unresolved \<or> rt_selectors t = [] \<or> rt_traces_to t = []
     then Gap else combine_selectors (selector_outcome outcomes ` set (rt_selectors t)))"
proof (cases "rt_link_gap t \<noteq> None \<or> rt_id t \<in> set unresolved \<or> rt_selectors t = [] \<or> rt_traces_to t = []")
  case True
  then show ?thesis by (cases "rt_link_gap t") (auto simp: build_test_diag_def Let_def test_gap_def)
next
  case False
  show ?thesis
  proof (cases "length (rt_selectors t) > 1")
    case True
    with False show ?thesis by (simp add: build_test_diag_def Let_def multi_selector_verdict)
  next
    case one: False
    with False obtain s where "rt_selectors t = [s]" by (cases "rt_selectors t") auto
    with False show ?thesis by (simp add: build_test_diag_def Let_def single_selector_verdict)
  qed
qed

lemma unresolved_ids:
  "i \<in> set (map us_id (resolve_selector_inputs inputs files)) \<longleftrightarrow>
    (\<exists>ss. (i, ss) \<in> set inputs \<and> (\<exists>s \<in> set ss. trim s \<noteq> [] \<and> \<not> selector_resolves files s))"
proof -
  have "map us_id (resolve_selector_inputs inputs files) =
    concat (map (\<lambda>e. map (\<lambda>_. fst e) (filter (\<lambda>s. \<not> selector_resolves files s)
      (filter (\<lambda>s. trim s \<noteq> []) (snd e)))) inputs)"
    by (simp add: resolve_selector_inputs_def map_concat comp_def split_beta)
  then have "i \<in> set (map us_id (resolve_selector_inputs inputs files)) \<longleftrightarrow>
    (\<exists>e \<in> set inputs. i \<in> set (map (\<lambda>_. fst e) (filter (\<lambda>s. \<not> selector_resolves files s)
      (filter (\<lambda>s. trim s \<noteq> []) (snd e)))))" by simp
  also have "\<dots> \<longleftrightarrow> (\<exists>e \<in> set inputs. i = fst e \<and> (\<exists>s \<in> set (snd e). trim s \<noteq> [] \<and> \<not> selector_resolves files s))"
    by (intro bex_cong refl) auto
  finally show ?thesis by force
qed

section \<open>Children\<close>

definition members :: "(uid, uid list) bmap \<Rightarrow> uid \<Rightarrow> uid set" where
  "members m k = set (case bget m k of None \<Rightarrow> [] | Some us \<Rightarrow> us)"

lemma members_bpush: "members (bpush p u m) k = members m k \<union> (if k = p then {u} else {})"
  by (auto simp: members_def split: option.splits)

lemma members_fold_bpush: "c \<in> members (fold (\<lambda>p. bpush p u) ps m) k \<longleftrightarrow> c \<in> members m k \<or> (c = u \<and> k \<in> set ps)"
  by (induction ps arbitrary: m) (auto simp: members_bpush)

lemma members_push_children:
  "c \<in> members (push_children gap u ps m) k \<longleftrightarrow> c \<in> members m k \<or> (gap = None \<and> c = u \<and> k \<in> set ps)"
  by (auto simp: push_children_def members_fold_bpush)

lemma fold_push_children:
  "c \<in> members (fold (\<lambda>x. push_children (g x) (f x) (h x)) xs m) k \<longleftrightarrow>
    c \<in> members m k \<or> (\<exists>x \<in> set xs. g x = None \<and> c = f x \<and> k \<in> set (h x))"
  by (induction xs arbitrary: m) (auto simp: members_push_children)

lemma bget_map_values: "bget (map (\<lambda>(k, v). (k, f v)) m) k = map_option f (bget m k)"
  by (induction m) (auto split: prod.split)

lemma index_children_member:
  "c \<in> members (index_children v) u \<longleftrightarrow>
    (\<exists>r \<in> set (vw_hlrs v @ vw_llrs v @ vw_sys v). rr_link_gap r = None \<and> c = rr_uid r \<and> u \<in> set (rr_traces_to r))
    \<or> (\<exists>t \<in> set (vw_tests v). rt_link_gap t = None \<and> c = rt_uid t \<and> u \<in> set (rt_traces_to t))"
proof -
  have sorted: "members (map (\<lambda>(parent, children). (parent, sort children)) m) u = members m u" for m
    unfolding members_def bget_map_values by (cases "bget m u") auto
  show ?thesis
    unfolding index_children_def Let_def sorted fold_push_children by (simp add: members_def)
qed

definition children :: "corpus_graph \<Rightarrow> uid \<Rightarrow> node set" where
  "children G u = {n \<in> set (cg_node_list G). linked G n \<and> u \<in> set (parents n)}"

lemma map_filter_member: "y \<in> set (List.map_filter f xs) \<longleftrightarrow> (\<exists>x \<in> set xs. f x = Some y)"
  by (force simp: List.map_filter_def)

lemma set_layer_nodes: "r \<in> set (layer_nodes G layer) \<longleftrightarrow> Requirement r \<in> set (cg_node_list G) \<and> rq_layer r = layer"
proof -
  have "as_layer layer n = Some r \<longleftrightarrow> n = Requirement r \<and> rq_layer r = layer" for n by (cases n) auto
  then show ?thesis by (auto simp: layer_nodes_def map_filter_member)
qed

lemma set_test_nodes: "t \<in> set (test_nodes G) \<longleftrightarrow> Test t \<in> set (cg_node_list G)"
proof -
  have "as_test n = Some t \<longleftrightarrow> n = Test t" for n by (cases n) auto
  then show ?thesis by (auto simp: test_nodes_def map_filter_member)
qed

end
