(* ===== verification/Requirement_Cascade.thy ===== *)
theory Requirement_Cascade
  imports Requirement_Verdicts
begin

text \<open>
  The cascade over the layers computes the verdict of every node, and the root cause a gap
  carries names an entry that is itself a gap for its own sake.
\<close>

section \<open>The verdict of a node\<close>

fun layer_kind :: "requirement_layer \<Rightarrow> requirement_kind" where
  "layer_kind Sys = SysKind"
| "layer_kind Hlr = HlrKind"
| "layer_kind _ = LlrKind"

definition methods_of :: "corpus_graph \<Rightarrow> requirement_node \<Rightarrow> string list" where
  "methods_of G r = (case requirement_meta G (rq_uid r) of None \<Rightarrow> [] | Some m \<Rightarrow> rm_verification_methods m)"

definition requirement_gap :: "corpus_graph \<Rightarrow> trace_policy \<Rightarrow> requirement_node \<Rightarrow> bool" where
  "requirement_gap G policy r \<longleftrightarrow> \<not> linked G (Requirement r)
     \<or> rq_layer r = Hlr \<and> tp_require_hlr_sys_trace policy \<and> rq_edges r = []
     \<or> rq_layer r = Llr \<and> rq_edges r = []
     \<or> verification_required (layer_kind (rq_layer r)) policy \<and> methods_of G r = []"

definition cascade_verdict ::
  "corpus_graph \<Rightarrow> trace_policy \<Rightarrow> (node \<Rightarrow> requirement_status) \<Rightarrow> node \<Rightarrow> requirement_status" where
  "cascade_verdict G policy below n = (case n of
     Requirement r \<Rightarrow> if requirement_gap G policy r \<or> children G (rq_uid r) = {} then Gap
       else combine (below ` children G (rq_uid r))
   | _ \<Rightarrow> Gap)"

definition test_node_verdict :: "corpus_graph \<Rightarrow> test_outcomes \<Rightarrow> rs_files \<Rightarrow> node \<Rightarrow> requirement_status" where
  "test_node_verdict G outcomes files n = (case n of Test t \<Rightarrow> test_verdict G outcomes files t | _ \<Rightarrow> Gap)"

definition node_verdict ::
  "corpus_graph \<Rightarrow> test_outcomes \<Rightarrow> rs_files \<Rightarrow> trace_policy \<Rightarrow> node \<Rightarrow> requirement_status" where
  "node_verdict G outcomes files policy n =
    (let test = test_node_verdict G outcomes files; up = cascade_verdict G policy in case n of
       Test _ \<Rightarrow> test n
     | Requirement r \<Rightarrow> (case rq_layer r of
         Llr \<Rightarrow> up test n | Hlr \<Rightarrow> up (up test) n | Sys \<Rightarrow> up (up (up test)) n | _ \<Rightarrow> Gap)
     | _ \<Rightarrow> Gap)"

section \<open>One entry\<close>

definition reported_uid :: "diagnostic \<Rightarrow> uid option" where
  "reported_uid d = Option.bind (di_location d) lo_entry_uid"

definition direct_gap_in :: "diagnostic list \<Rightarrow> uid \<Rightarrow> bool" where
  "direct_gap_in ds v \<longleftrightarrow> (\<exists>d \<in> set ds. reported_uid d = Some v \<and> di_code d = ''REQ_GAP'' \<and> di_root_cause_uid d = None)"

definition tells :: "verdict_of_entry \<Rightarrow> uid \<Rightarrow> bool" where
  "tells v u \<longleftrightarrow> reported_uid (snd v) = Some u \<and> di_code (snd v) = status_code (st_status (fst v))"

lemmas test_builders = test_gap_def make_diag_def test_location_def entry_location_def file_location_def
  location_default_def gap_status_def failed_status_def ambiguous_status_def unmatched_status_def
  ignored_status_def passed_status_def selector_did_not_run_def matched_selector_def
  ambiguous_selector_def reported_uid_def tells_def

definition own_cause :: "verdict_of_entry \<Rightarrow> uid \<Rightarrow> bool" where
  "own_cause v u \<longleftrightarrow> di_root_cause_uid (snd v) = None
     \<and> st_root_cause_uid (fst v) = (if st_status (fst v) = Gap then Some u else None)"

lemma selector_statuses_tell:
  "tells (multi_selector_status t u ss outcomes) u \<and> own_cause (multi_selector_status t u ss outcomes) u"
  "tells (single_selector_status t u s outcomes) u \<and> own_cause (single_selector_status t u s outcomes) u"
  by (auto simp: multi_selector_status_def single_selector_status_def Let_def test_builders own_cause_def
    split: list.splits test_outcome.splits)

lemma test_gap_tells: "tells (test_gap t u msg hint) u \<and> own_cause (test_gap t u msg hint) u"
  by (simp add: test_builders own_cause_def)

lemma build_test_diag_tells:
  "tells (build_test_diag t outcomes unresolved) (rt_uid t) \<and> own_cause (build_test_diag t outcomes unresolved) (rt_uid t)"
  using selector_statuses_tell test_gap_tells
  by (cases "rt_link_gap t") (auto simp: build_test_diag_def Let_def)

section \<open>Aggregation\<close>

definition child_root :: "statuses \<Rightarrow> uid \<Rightarrow> uid option" where
  "child_root st u = (case bget st u of None \<Rightarrow> None
     | Some s \<Rightarrow> if st_status s = Gap then Some (case st_root_cause_uid s of Some r \<Rightarrow> r | None \<Rightarrow> u) else None)"

definition has_status :: "statuses \<Rightarrow> requirement_status \<Rightarrow> uid \<Rightarrow> bool" where
  "has_status st x u \<longleftrightarrow> (\<exists>s. bget st u = Some s \<and> st_status s = x)"

lemma aggregate_step_eq:
  "aggregate_step st (g, p, k) u = (case g of Some r \<Rightarrow> Some r | None \<Rightarrow> child_root st u,
     p \<or> has_status st Pass u, k \<or> has_status st Skip u)"
  by (cases "bget st u"; cases g)
    (auto simp: aggregate_step_def child_root_def has_status_def split: requirement_status.splits option.splits)

lemma foldl_aggregate:
  "foldl (aggregate_step st) (g, p, k) us =
    (case g of Some r \<Rightarrow> Some r | None \<Rightarrow> first_some (child_root st) us,
     p \<or> list_ex (has_status st Pass) us, k \<or> list_ex (has_status st Skip) us)"
proof (induction us arbitrary: g p k)
  case Nil
  then show ?case by (cases g) simp_all
next
  case (Cons u us)
  show ?case
    unfolding foldl_Cons aggregate_step_eq Cons.IH by (cases g) (auto split: option.split)
qed

lemma first_some_in: "first_some f xs = Some y \<Longrightarrow> \<exists>x \<in> set xs. f x = Some y"
  by (induction xs) (auto split: option.splits)

definition represents :: "diagnostic list \<Rightarrow> statuses \<Rightarrow> (node \<Rightarrow> requirement_status) \<Rightarrow> node set \<Rightarrow> bool" where
  "represents ds st verdict N \<longleftrightarrow> (\<forall>n \<in> N. \<exists>s. bget st (node_uid n) = Some s \<and> st_status s = verdict n
     \<and> (case st_root_cause_uid s of None \<Rightarrow> verdict n \<noteq> Gap | Some v \<Rightarrow> verdict n = Gap \<and> direct_gap_in ds v))"

lemma representsD:
  assumes "represents ds st verdict N" "n \<in> N"
  shows "has_status st x (node_uid n) \<longleftrightarrow> verdict n = x"
    "child_root st (node_uid n) = None \<longleftrightarrow> verdict n \<noteq> Gap"
    "child_root st (node_uid n) = Some v \<Longrightarrow> direct_gap_in ds v"
proof -
  from assms obtain s where s: "bget st (node_uid n) = Some s" "st_status s = verdict n"
    "case st_root_cause_uid s of None \<Rightarrow> verdict n \<noteq> Gap | Some v \<Rightarrow> verdict n = Gap \<and> direct_gap_in ds v"
    unfolding represents_def by blast
  show "has_status st x (node_uid n) \<longleftrightarrow> verdict n = x" using s(1,2) by (auto simp: has_status_def)
  show "child_root st (node_uid n) = None \<longleftrightarrow> verdict n \<noteq> Gap" using s(1,2) by (simp add: child_root_def)
  show "direct_gap_in ds v" if "child_root st (node_uid n) = Some v"
    using that s by (cases "st_root_cause_uid s") (auto simp: child_root_def split: if_splits)
qed

lemma aggregate_combines:
  assumes rep: "represents ds st verdict N" and us: "set us = node_uid ` N" and ne: "us \<noteq> []"
  shows "st_status (aggregate_child_status us st) = combine (verdict ` N)"
    "case st_root_cause_uid (aggregate_child_status us st) of
       None \<Rightarrow> combine (verdict ` N) \<noteq> Gap | Some v \<Rightarrow> combine (verdict ` N) = Gap \<and> direct_gap_in ds v"
proof -
  have ex: "list_ex (has_status st x) us \<longleftrightarrow> x \<in> verdict ` N" for x
    using us representsD(1) [OF rep] by (auto simp: list_ex_iff)
  let ?g = "first_some (child_root st) us"
  have none: "?g = None \<longleftrightarrow> Gap \<notin> verdict ` N"
  proof -
    have "?g = None \<longleftrightarrow> (\<forall>n \<in> N. child_root st (node_uid n) = None)" by (simp add: first_some_None_iff us)
    also have "\<dots> \<longleftrightarrow> (\<forall>n \<in> N. verdict n \<noteq> Gap)" using representsD(2) [OF rep] by simp
    also have "\<dots> \<longleftrightarrow> Gap \<notin> verdict ` N" by (metis image_iff)
    finally show ?thesis .
  qed
  have some: "direct_gap_in ds v" if "?g = Some v" for v
    using first_some_in [OF that] us representsD(3) [OF rep] by auto
  have agg: "aggregate_child_status us st = (case ?g of Some root \<Rightarrow> \<lparr>st_status = Gap, st_root_cause_uid = Some root\<rparr>
     | None \<Rightarrow> if Pass \<in> verdict ` N then \<lparr>st_status = Pass, st_root_cause_uid = None\<rparr>
       else if Skip \<in> verdict ` N then \<lparr>st_status = Skip, st_root_cause_uid = None\<rparr>
       else \<lparr>st_status = Pass, st_root_cause_uid = None\<rparr>)"
    unfolding aggregate_child_status_def foldl_aggregate ex using ne by (simp split: option.split)
  obtain n where n: "n \<in> N" using ne us by (cases us) auto
  then have mem: "verdict n \<in> verdict ` N" by simp
  have skip: "Skip \<in> verdict ` N" if "Gap \<notin> verdict ` N" "Pass \<notin> verdict ` N"
    using mem that by (cases "verdict n") simp_all
  show "st_status (aggregate_child_status us st) = combine (verdict ` N)"
    using none skip unfolding agg combine_def by (cases ?g) auto
  show "case st_root_cause_uid (aggregate_child_status us st) of
       None \<Rightarrow> combine (verdict ` N) \<noteq> Gap | Some v \<Rightarrow> combine (verdict ` N) = Gap \<and> direct_gap_in ds v"
    using none some unfolding agg combine_def by (cases ?g) simp_all
qed

end
