(* ===== verification/Requirement_Layers.thy ===== *)
theory Requirement_Layers
  imports Requirement_Cascade
begin

text \<open>
  One layer of the report: its diagnostics are the verdicts of its nodes in order, and the
  statuses it hands to the layer above represent them.
\<close>

section \<open>Children of a node\<close>

lemma view_lists:
  assumes "view_from_graph G = Inr view"
  shows "set (vw_sys view) = report_requirement_of G ` set (layer_nodes G Sys)"
    "set (vw_hlrs view) = report_requirement_of G ` set (layer_nodes G Hlr)"
    "set (vw_llrs view) = report_requirement_of G ` set (layer_nodes G Llr)"
    "set (vw_tests view) = report_test_of G ` set (test_nodes G)"
  by (simp_all add: view_from_graph_result [OF assms])

lemma parents_requirement: "parents (Requirement r) = map snd (rq_edges r)"
  and parents_test: "parents (Test t) = map snd (ts_edges t)"
  by (simp_all add: parents_def)

lemma children_cases:
  "n \<in> children G u \<longleftrightarrow>
    (\<exists>r. n = Requirement r \<and> (r \<in> set (layer_nodes G Hlr) \<or> r \<in> set (layer_nodes G Llr) \<or> r \<in> set (layer_nodes G Sys))
      \<and> linked G n \<and> u \<in> snd ` set (rq_edges r))
    \<or> (\<exists>t. n = Test t \<and> t \<in> set (test_nodes G) \<and> linked G n \<and> u \<in> snd ` set (ts_edges t))"
proof (cases n)
  case (Requirement r)
  then show ?thesis
    by (cases "rq_layer r") (auto simp: children_def set_layer_nodes parents_requirement linked_def)
qed (auto simp: children_def set_test_nodes parents_test linked_def)

lemma children_uids:
  assumes view: "view_from_graph G = Inr view"
  shows "set (children_of view u) = node_uid ` children G u"
proof -
  let ?R = "\<lambda>c r. (r \<in> set (layer_nodes G Hlr) \<or> r \<in> set (layer_nodes G Llr) \<or> r \<in> set (layer_nodes G Sys))
    \<and> linked G (Requirement r) \<and> c = rq_uid r \<and> u \<in> snd ` set (rq_edges r)"
  let ?T = "\<lambda>c t. t \<in> set (test_nodes G) \<and> linked G (Test t) \<and> c = ts_uid t \<and> u \<in> snd ` set (ts_edges t)"
  have a: "c \<in> set (children_of view u) \<longleftrightarrow> c \<in> members (index_children view) u" for c
    by (simp add: children_of_def members_def view_from_graph_result(5) [OF view])
  have b: "c \<in> members (index_children view) u \<longleftrightarrow> Ex (?R c) \<or> Ex (?T c)" for c
    unfolding index_children_member set_append view_lists [OF view] bex_Un bex_simps
      report_requirement_gap report_test_gap report_requirement_fields report_test_fields set_map
    by blast
  have r: "c \<in> node_uid ` children G u" if "Ex (?R c)" for c
  proof -
    from that obtain r where "?R c r" ..
    then have "Requirement r \<in> children G u" "c = node_uid (Requirement r)" unfolding children_cases by auto
    then show ?thesis by blast
  qed
  have t: "c \<in> node_uid ` children G u" if "Ex (?T c)" for c
  proof -
    from that obtain t where "?T c t" ..
    then have "Test t \<in> children G u" "c = node_uid (Test t)" unfolding children_cases by auto
    then show ?thesis by blast
  qed
  have n: "Ex (?R c) \<or> Ex (?T c)" if "c \<in> node_uid ` children G u" for c
  proof -
    from that obtain n where n: "n \<in> children G u" "c = node_uid n" by blast
    from n(1) show ?thesis unfolding children_cases n(2)
      by auto
  qed
  show ?thesis
  proof (rule set_eqI)
    fix c
    from r [of c] t [of c] n [of c] have "Ex (?R c) \<or> Ex (?T c) \<longleftrightarrow> c \<in> node_uid ` children G u" by satx
    then show "c \<in> set (children_of view u) \<longleftrightarrow> c \<in> node_uid ` children G u" unfolding a b .
  qed
qed

lemma is_layer_iff:
  assumes "cg_inv G" "Requirement r \<in> set (cg_node_list G)"
  shows "is_layer G layer (rq_uid r) \<longleftrightarrow> rq_layer r = layer"
  using cg_nodes_iff_get [OF assms(1), of "Requirement r"] assms(2) by (auto simp: is_layer_def)

lemma children_layer:
  assumes G: "cg_inv G" and r: "Requirement r \<in> set (cg_node_list G)" and n: "n \<in> children G (rq_uid r)"
  shows "rq_layer r = Llr \<Longrightarrow> \<exists>t. n = Test t \<and> t \<in> set (test_nodes G)"
    "rq_layer r = Hlr \<Longrightarrow> \<exists>q. n = Requirement q \<and> q \<in> set (layer_nodes G Llr)"
    "rq_layer r = Sys \<Longrightarrow> \<exists>q. n = Requirement q \<and> q \<in> set (layer_nodes G Hlr)"
proof -
  note layer = is_layer_iff [OF G r]
  have links: "(\<exists>t. n = Test t \<and> t \<in> set (test_nodes G) \<and> rq_layer r = Llr)
    \<or> (\<exists>q. n = Requirement q \<and> q \<in> set (layer_nodes G Llr) \<and> rq_layer r = Hlr)
    \<or> (\<exists>q. n = Requirement q \<and> q \<in> set (layer_nodes G Hlr) \<and> rq_layer r = Sys)"
  proof (cases n)
    case (Requirement q)
    with n show ?thesis using layer
      by (cases "rq_layer q") (auto simp: children_def linked_def set_layer_nodes)
  next
    case (Test t)
    with n show ?thesis using layer by (auto simp: children_def linked_def set_test_nodes)
  qed (use n in \<open>auto simp: children_def linked_def\<close>)
  then show "rq_layer r = Llr \<Longrightarrow> \<exists>t. n = Test t \<and> t \<in> set (test_nodes G)"
    "rq_layer r = Hlr \<Longrightarrow> \<exists>q. n = Requirement q \<and> q \<in> set (layer_nodes G Llr)"
    "rq_layer r = Sys \<Longrightarrow> \<exists>q. n = Requirement q \<and> q \<in> set (layer_nodes G Hlr)" by auto
qed

section \<open>One requirement\<close>

lemma structural_gap_iff:
  assumes "kind = layer_kind (rq_layer r)" "rq_layer r \<in> {Sys, Hlr, Llr}"
  shows "structural_gap (layer_entry kind file i (report_requirement_of G r)) policy = None
    \<longleftrightarrow> \<not> requirement_gap G policy r"
proof -
  have m: "rr_verification_methods (report_requirement_of G r) = methods_of G r"
    by (simp add: report_requirement_of_def project_requirement_def Let_def methods_of_def)
  show ?thesis
  proof (cases "linked G (Requirement r)")
    case True
    with report_requirement_gap [of G r] have "rr_link_gap (report_requirement_of G r) = None" by simp
    with assms True show ?thesis
      by (auto simp: structural_gap_def layer_entry_def requirement_gap_def m)
  next
    case False
    with report_requirement_gap [of G r] obtain g where "rr_link_gap (report_requirement_of G r) = Some g" by auto
    with False show ?thesis by (simp add: structural_gap_def layer_entry_def requirement_gap_def)
  qed
qed

text \<open>What one verdict of a layer says: the entry and code, the status, and its cause.\<close>

definition sound_verdict :: "diagnostic list \<Rightarrow> uid \<Rightarrow> requirement_status \<Rightarrow> verdict_of_entry \<Rightarrow> bool" where
  "sound_verdict ds u x v \<longleftrightarrow> tells v u \<and> st_status (fst v) = x
     \<and> (own_cause v u \<or> di_root_cause_uid (snd v) = st_root_cause_uid (fst v)
          \<and> (case st_root_cause_uid (fst v) of None \<Rightarrow> x \<noteq> Gap | Some w \<Rightarrow> x = Gap \<and> direct_gap_in ds w))"

lemma direct_gap_sound:
  "sound_verdict ds (ce_uid e) Gap (direct_gap e msg hint)"
  by (simp add: sound_verdict_def direct_gap_def tells_def reported_uid_def make_diag_def cascade_location_def
    location_default_def gap_status_def own_cause_def)

lemma build_cascade_sound:
  assumes rep: "represents ds st below (children G (rq_uid r))"
    and us: "set us = node_uid ` children G (rq_uid r)"
    and kind: "kind = layer_kind (rq_layer r)" "rq_layer r \<in> {Sys, Hlr, Llr}"
  shows "sound_verdict ds (rq_uid r) (cascade_verdict G policy below (Requirement r))
    (build_cascade_diag (layer_entry kind file i (report_requirement_of G r)) us st policy)"
proof -
  let ?e = "layer_entry kind file i (report_requirement_of G r)"
  have u: "ce_uid ?e = rq_uid r" by (simp add: layer_entry_def)
  have gap: "structural_gap ?e policy = None \<longleftrightarrow> \<not> requirement_gap G policy r"
    by (rule structural_gap_iff [OF kind])
  have empty: "us = [] \<longleftrightarrow> children G (rq_uid r) = {}" using us by (metis image_is_empty set_empty)
  show ?thesis
  proof (cases "requirement_gap G policy r \<or> children G (rq_uid r) = {}")
    case True
    have "\<exists>msg hint. build_cascade_diag ?e us st policy = direct_gap ?e msg hint"
    proof (cases "structural_gap ?e policy")
      case None
      with True gap empty have "us = []" by blast
      with None show ?thesis by (auto simp: build_cascade_diag_def Let_def)
    next
      case (Some g)
      then show ?thesis by (cases g) (auto simp: build_cascade_diag_def)
    qed
    with True direct_gap_sound [of ds ?e] show ?thesis unfolding u cascade_verdict_def by auto
  next
    case False
    with empty have ne: "us \<noteq> []" by simp
    from False gap have none: "structural_gap ?e policy = None" by blast
    let ?agg = "aggregate_child_status us st"
    note agg = aggregate_combines [OF rep us ne]
    have v: "fst (build_cascade_diag ?e us st policy) = ?agg"
      "tells (build_cascade_diag ?e us st policy) (rq_uid r)"
      "di_root_cause_uid (snd (build_cascade_diag ?e us st policy)) = st_root_cause_uid ?agg"
      using ne u by (simp_all add: build_cascade_diag_def none Let_def tells_def reported_uid_def make_diag_def
        cascade_location_def location_default_def)
    have cv: "cascade_verdict G policy below (Requirement r) = combine (below ` children G (rq_uid r))"
      using False by (simp add: cascade_verdict_def)
    show ?thesis unfolding sound_verdict_def v(1) v(3) cv using v(2) agg by simp
  qed
qed

section \<open>One layer\<close>

definition keyed :: "diagnostic \<Rightarrow> uid option \<times> string" where
  "keyed d = (reported_uid d, di_code d)"

text \<open>Every cause the diagnostics of a list name is a direct gap of that list.\<close>

definition causes_direct :: "diagnostic list \<Rightarrow> diagnostic list \<Rightarrow> bool" where
  "causes_direct ds es \<longleftrightarrow> (\<forall>d \<in> set es. \<forall>v. di_root_cause_uid d = Some v \<longrightarrow> direct_gap_in ds v)"

lemma direct_gap_in_append [simp]: "direct_gap_in (ds @ es) v \<longleftrightarrow> direct_gap_in ds v \<or> direct_gap_in es v"
  by (auto simp: direct_gap_in_def)

lemma bget_fold_statuses:
  "distinct (map fst vs) \<Longrightarrow> (u, x) \<in> set vs \<Longrightarrow> bget (fold (\<lambda>(u, v). bins u (f v)) vs m) u = Some (f x)"
proof (induction vs arbitrary: m)
  case (Cons e vs)
  have keep: "u \<notin> fst ` set ws \<Longrightarrow> bget (fold (\<lambda>(u, v). bins u (f v)) ws k) u = bget k u" for ws k
    by (induction ws arbitrary: k) auto
  show ?case
  proof (cases "(u, x) \<in> set vs")
    case True
    with Cons show ?thesis by (cases e) simp
  next
    case False
    with Cons.prems(2) have e: "e = (u, x)" by simp
    with Cons.prems(1) have "u \<notin> fst ` set vs" by simp
    with e show ?thesis by (simp add: keep)
  qed
qed simp

text \<open>A list of verdicts, each sound for its node, represents the verdicts of the nodes.\<close>

lemma sound_list:
  assumes "\<And>n. n \<in> set ns \<Longrightarrow> sound_verdict ds (node_uid n) (x n) (v n)"
    and "distinct (map node_uid ns)"
    and "st = fold (\<lambda>(u, v). bins u (fst v)) (map (\<lambda>n. (node_uid n, v n)) ns) m"
  shows "map keyed (map (snd \<circ> v) ns) = map (\<lambda>n. (Some (node_uid n), status_code (x n))) ns"
    "represents (ds @ map (snd \<circ> v) ns) st x (set ns)"
    "causes_direct (ds @ map (snd \<circ> v) ns) (map (snd \<circ> v) ns)"
proof -
  let ?es = "map (snd \<circ> v) ns"
  have own: "direct_gap_in ?es (node_uid n)" if "n \<in> set ns" "own_cause (v n) (node_uid n)" "x n = Gap" for n
    using assms(1) [OF that(1)] that by (auto simp: sound_verdict_def tells_def own_cause_def direct_gap_in_def)
  show "map keyed ?es = map (\<lambda>n. (Some (node_uid n), status_code (x n))) ns"
    using assms(1) by (auto simp: keyed_def sound_verdict_def tells_def)
  have st: "bget st (node_uid n) = Some (fst (v n))" if "n \<in> set ns" for n
    unfolding assms(3) using assms(2) that by (intro bget_fold_statuses) (auto simp: comp_def)
  show "represents (ds @ ?es) st x (set ns)"
    unfolding represents_def
  proof
    fix n assume n: "n \<in> set ns"
    from assms(1) [OF n] have "st_status (fst (v n)) = x n
      \<and> (case st_root_cause_uid (fst (v n)) of None \<Rightarrow> x n \<noteq> Gap | Some w \<Rightarrow> x n = Gap \<and> direct_gap_in (ds @ ?es) w)"
      using own [OF n] by (auto simp: sound_verdict_def own_cause_def split: option.splits if_splits)
    with st [OF n] show "\<exists>s. bget st (node_uid n) = Some s \<and> st_status s = x n
      \<and> (case st_root_cause_uid s of None \<Rightarrow> x n \<noteq> Gap | Some w \<Rightarrow> x n = Gap \<and> direct_gap_in (ds @ ?es) w)" by blast
  qed
  show "causes_direct (ds @ ?es) ?es"
    unfolding causes_direct_def
  proof (intro ballI allI impI)
    fix d w assume "d \<in> set ?es" "di_root_cause_uid d = Some w"
    then obtain n where n: "n \<in> set ns" "di_root_cause_uid (snd (v n)) = Some w" by auto
    with assms(1) [OF n(1)] show "direct_gap_in (ds @ ?es) w"
      by (auto simp: sound_verdict_def own_cause_def split: option.splits)
  qed
qed

lemma represents_mono:
  assumes "represents ds st x N" "M \<subseteq> N" "\<And>v. direct_gap_in ds v \<Longrightarrow> direct_gap_in es v"
  shows "represents es st x M"
  unfolding represents_def
proof
  fix n assume "n \<in> M"
  with assms(1,2) obtain s where s: "bget st (node_uid n) = Some s" "st_status s = x n"
    "case st_root_cause_uid s of None \<Rightarrow> x n \<noteq> Gap | Some v \<Rightarrow> x n = Gap \<and> direct_gap_in ds v"
    unfolding represents_def by blast
  from s(3) have "case st_root_cause_uid s of None \<Rightarrow> x n \<noteq> Gap | Some v \<Rightarrow> x n = Gap \<and> direct_gap_in es v"
    using assms(3) by (auto split: option.splits)
  with s(1,2) show "\<exists>s. bget st (node_uid n) = Some s \<and> st_status s = x n
    \<and> (case st_root_cause_uid s of None \<Rightarrow> x n \<noteq> Gap | Some v \<Rightarrow> x n = Gap \<and> direct_gap_in es v)" by blast
qed

lemma map_enumerate_shape:
  assumes "\<And>i x. f (i, g x) = h x i"
  shows "map f (enumerate k (map g xs)) = map (\<lambda>(i, x). h x i) (enumerate k xs)"
  using assms by (induction xs arbitrary: k) auto

lemma build_layer_result:
  assumes view: "view_from_graph G = Inr view" and G: "cg_inv G"
    and rs: "set rs \<subseteq> set (layer_nodes G layer)" "distinct (map rq_uid rs)"
    and kind: "kind = layer_kind layer" "layer \<in> {Sys, Hlr, Llr}"
    and rep: "represents ds st below N" "\<And>r. r \<in> set rs \<Longrightarrow> children G (rq_uid r) \<subseteq> N"
    and build: "build_layer (map (report_requirement_of G) rs) kind file view st policy = (st', es)"
  shows "map keyed es = map (\<lambda>n. (Some (node_uid n), status_code (cascade_verdict G policy below n))) (map Requirement rs)"
    "represents (ds @ es) st' (cascade_verdict G policy below) (Requirement ` set rs)"
    "causes_direct (ds @ es) es"
proof -
  let ?w = "\<lambda>(i, r). build_cascade_diag (layer_entry kind file i (report_requirement_of G r))
      (children_of view (rq_uid r)) st policy"
  define ws where "ws = map (\<lambda>p. (Requirement (snd p), ?w p)) (enumerate 0 rs)"
  define v where "v = (\<lambda>n. the (map_of ws n))"
  have fst_ws: "map fst ws = map Requirement rs" 
  proof -
    have "map fst ws = map Requirement (map snd (enumerate 0 rs))"
      unfolding ws_def map_map by (simp only: comp_def fst_conv)
    then show ?thesis by simp
  qed
  have dist: "distinct (map fst ws)"
    unfolding fst_ws using rs(2) by (simp add: distinct_map inj_on_def)
  have vw: "map (\<lambda>n. (n, v n)) (map Requirement rs) = ws"
  proof -
    have "map (\<lambda>n. (n, v n)) (map fst ws) = ws"
      unfolding map_map
    proof (rule map_idI)
      fix p assume "p \<in> set ws"
      then have "map_of ws (fst p) = Some (snd p)" by (intro map_of_is_SomeI [OF dist]) simp
      then show "((\<lambda>n. (n, v n)) \<circ> fst) p = p" by (simp add: v_def)
    qed
    then show ?thesis unfolding fst_ws .
  qed
  have lists: "st' = fold (\<lambda>(u, v). bins u (fst v)) (map (\<lambda>n. (node_uid n, v n)) (map Requirement rs)) []"
    "es = map (snd \<circ> v) (map Requirement rs)"
  proof -
    have "map (\<lambda>(i, r). (rr_uid r, build_cascade_diag (layer_entry kind file i r) (children_of view (rr_uid r)) st policy))
        (enumerate 0 (map (report_requirement_of G) rs)) = map (\<lambda>(n, x). (node_uid n, x)) ws"
      unfolding ws_def map_map by (subst map_enumerate_shape [where h = "\<lambda>r i. (rq_uid r, ?w (i, r))"]) auto
    also have "\<dots> = map (\<lambda>n. (node_uid n, v n)) (map Requirement rs)"
      unfolding vw [symmetric] map_map by simp
    finally have verdicts: "map (\<lambda>(i, r). (rr_uid r, build_cascade_diag (layer_entry kind file i r) (children_of view (rr_uid r)) st policy))
        (enumerate 0 (map (report_requirement_of G) rs)) = map (\<lambda>n. (node_uid n, v n)) (map Requirement rs)" .
    from build show "st' = fold (\<lambda>(u, v). bins u (fst v)) (map (\<lambda>n. (node_uid n, v n)) (map Requirement rs)) []"
      "es = map (snd \<circ> v) (map Requirement rs)"
      unfolding build_layer_def Let_def verdicts by (simp_all add: comp_def)
  qed
  have sound: "sound_verdict ds (node_uid n) (cascade_verdict G policy below n) (v n)" if n: "n \<in> set (map Requirement rs)" for n
  proof -
    from n have "(n, v n) \<in> set ws" unfolding vw [symmetric] by auto
    then obtain i r where r: "n = Requirement r" "v n = ?w (i, r)" "r \<in> set rs"
      unfolding ws_def by (auto dest: in_set_enumerate_eq [THEN iffD1] simp: in_set_enumerate_eq)
    from r(3) rs(1) have layer: "rq_layer r = layer" by (auto simp: set_layer_nodes)
    have "represents ds st below (children G (rq_uid r))"
      using represents_mono [OF rep(1) rep(2) [OF r(3)]] by blast
    from build_cascade_sound [OF this children_uids [OF view]] kind layer show ?thesis
      unfolding r(2) unfolding r(1) by simp
  qed
  have d: "distinct (map node_uid (map Requirement rs))" using rs(2) by (simp add: comp_def)
  note res = sound_list [OF sound d lists(1)]
  show "map keyed es = map (\<lambda>n. (Some (node_uid n), status_code (cascade_verdict G policy below n))) (map Requirement rs)"
    unfolding lists(2) by (rule res(1))
  show "represents (ds @ es) st' (cascade_verdict G policy below) (Requirement ` set rs)"
    using res(2) unfolding lists(2) by simp
  show "causes_direct (ds @ es) es" unfolding lists(2) by (rule res(3))
qed

end
