(* ===== verification/Requirement_Properties.thy ===== *)
theory Requirement_Properties
  imports Requirement_Layers Trace_Properties
begin

text \<open>
  The properties of the requirement report: it lists the verdict of every trace node in order,
  a passing requirement is backed by tests that passed, and every gap leads to a direct one.
\<close>

section \<open>The order of the report\<close>

definition report_order :: "corpus_graph \<Rightarrow> node list" where
  "report_order G = map Test (sort_key (test_order \<circ> report_test_of G) (test_nodes G))
     @ map Requirement (sort_key (requirement_order \<circ> report_requirement_of G) (layer_nodes G Llr))
     @ map Requirement (sort_key (requirement_order \<circ> report_requirement_of G) (layer_nodes G Hlr))
     @ map Requirement (sort_key (requirement_order \<circ> report_requirement_of G) (layer_nodes G Sys))"

lemma sort_key_map: "sort_key f (map g xs) = map g (sort_key (f \<circ> g) xs)"
proof (induction xs)
  case (Cons x xs)
  have "insort_key f (g x) (map g ys) = map g (insort_key (f \<circ> g) x ys)" for ys
    by (induction ys) simp_all
  with Cons.IH show ?case by (simp add: comp_def)
qed simp

lemma layer_uids_distinct:
  assumes G: "cg_inv G"
  shows "distinct (map rq_uid (layer_nodes G layer))" "distinct (map ts_uid (test_nodes G))"
proof -
  have uid: "(u, n) \<in> set (cg_nodes G) \<Longrightarrow> node_uid n = u" for u n
    using G by (auto simp: cg_inv_def)
  have "distinct (map fst (cg_nodes G))" using G by (auto simp: cg_inv_def intro: bwf_distinct)
  moreover have "map fst (cg_nodes G) = map node_uid (cg_node_list G)"
    using uid by (auto simp: cg_node_list_def bvals_def)
  ultimately have d: "distinct (map node_uid (cg_node_list G))" by simp
  have sub: "distinct (map h (List.map_filter f ns))"
    if "distinct (map node_uid ns)" "\<And>n y. f n = Some y \<Longrightarrow> h y = node_uid n"
    for h :: "'y \<Rightarrow> uid" and f and ns
    using that(1)
  proof (induction ns)
    case (Cons n ns)
    then show ?case using that(2)
      by (cases "f n") (force simp: List.map_filter_simps map_filter_member)+
  qed (simp add: List.map_filter_simps)
  show "distinct (map rq_uid (layer_nodes G layer))" unfolding layer_nodes_def
  proof (rule sub [OF d])
    show "as_layer layer n = Some y \<Longrightarrow> rq_uid y = node_uid n" for n y
      by (cases n) (auto split: if_splits)
  qed
  show "distinct (map ts_uid (test_nodes G))" unfolding test_nodes_def
  proof (rule sub [OF d])
    show "as_test n = Some y \<Longrightarrow> ts_uid y = node_uid n" for n y by (cases n) auto
  qed
qed

section \<open>The tests\<close>

lemma tests_result:
  assumes view: "view_from_graph G = Inr view" and G: "cg_inv G"
    and ts: "set ts \<subseteq> set (test_nodes G)" "distinct (map ts_uid ts)"
    and unresolved: "unresolved = map us_id (resolve_selector_inputs (selector_inputs view) files)"
    and verdicts: "vs = map (\<lambda>t. (rt_uid t, build_test_diag t outcomes unresolved)) (map (report_test_of G) ts)"
  shows "map keyed (map (\<lambda>(u, v). snd v) vs) =
      map (\<lambda>n. (Some (node_uid n), status_code (test_node_verdict G outcomes files n))) (map Test ts)"
    "represents (map (\<lambda>(u, v). snd v) vs) (fold (\<lambda>(u, v). bins u (fst v)) vs [])
      (test_node_verdict G outcomes files) (Test ` set ts)"
    "causes_direct (map (\<lambda>(u, v). snd v) vs) (map (\<lambda>(u, v). snd v) vs)"
proof -
  define v where "v = (\<lambda>n. case n of Test t \<Rightarrow> build_test_diag (report_test_of G t) outcomes unresolved)"
  have vs: "vs = map (\<lambda>n. (node_uid n, v n)) (map Test ts)"
    unfolding verdicts v_def by simp
  have inputs: "(i, ss) \<in> set (selector_inputs view) \<longleftrightarrow> (\<exists>t \<in> set (test_nodes G). i = ts_id t \<and> ss = ts_selectors t)" for i ss
    unfolding selector_inputs_def set_map view_lists(4) [OF view] image_image by auto
  have ids: "i \<in> set unresolved \<longleftrightarrow> unresolved_id G files i" for i
    unfolding unresolved unresolved_ids inputs unresolved_id_def by blast
  have sound: "sound_verdict [] (node_uid n) (test_node_verdict G outcomes files n) (v n)"
    if n: "n \<in> set (map Test ts)" for n
  proof -
    from n obtain t where t: "n = Test t" by auto
    have "st_status (fst (build_test_diag (report_test_of G t) outcomes unresolved)) = test_verdict G outcomes files t"
      unfolding build_test_verdict test_verdict_def ids report_test_fields using report_test_gap [of G t] by auto
    with build_test_diag_tells [of "report_test_of G t" outcomes unresolved] show ?thesis
      by (simp add: t v_def sound_verdict_def test_node_verdict_def)
  qed
  have d: "distinct (map node_uid (map Test ts))" using ts(2) by (simp add: comp_def)
  have es: "map (\<lambda>(u, v). snd v) vs = map (snd \<circ> v) (map Test ts)" unfolding vs by simp
  have st: "fold (\<lambda>(u, v). bins u (fst v)) vs [] = fold (\<lambda>(u, v). bins u (fst v)) (map (\<lambda>n. (node_uid n, v n)) (map Test ts)) []"
    unfolding vs ..
  note res = sound_list [OF sound d st]
  show "map keyed (map (\<lambda>(u, v). snd v) vs) =
      map (\<lambda>n. (Some (node_uid n), status_code (test_node_verdict G outcomes files n))) (map Test ts)"
    unfolding es by (rule res(1))
  show "represents (map (\<lambda>(u, v). snd v) vs) (fold (\<lambda>(u, v). bins u (fst v)) vs [])
      (test_node_verdict G outcomes files) (Test ` set ts)"
    using res(2) unfolding es by simp
  show "causes_direct (map (\<lambda>(u, v). snd v) vs) (map (\<lambda>(u, v). snd v) vs)"
    using res(3) unfolding es by simp
qed

section \<open>The report\<close>

lemma report_result:
  assumes report: "build_corpus_requirement_report G outcomes files policy = Inr ds" and G: "cg_inv G"
  shows "map keyed ds = map (\<lambda>n. (Some (node_uid n), status_code (node_verdict G outcomes files policy n))) (report_order G)"
    "causes_direct ds ds"
proof -
  from report obtain view where view: "view_from_graph G = Inr view"
    by (cases "view_from_graph G") (auto simp: build_corpus_requirement_report_def)
  define unresolved where "unresolved = map us_id (resolve_selector_inputs (selector_inputs view) files)"
  define rs where "rs layer = sort_key (requirement_order \<circ> report_requirement_of G) (layer_nodes G layer)" for layer
  define ts where "ts = sort_key (test_order \<circ> report_test_of G) (test_nodes G)"
  have lists: "vw_sys view = map (report_requirement_of G) (rs Sys)" "vw_hlrs view = map (report_requirement_of G) (rs Hlr)"
    "vw_llrs view = map (report_requirement_of G) (rs Llr)" "vw_tests view = map (report_test_of G) ts"
    unfolding rs_def ts_def by (simp_all add: view_from_graph_result [OF view] sort_key_map)
  have sets: "set (rs layer) = set (layer_nodes G layer)" "set ts = set (test_nodes G)" for layer
    by (simp_all add: rs_def ts_def)
  have dist: "distinct (map rq_uid (rs layer))" "distinct (map ts_uid ts)" for layer
    using layer_uids_distinct [OF G] by (simp_all add: rs_def ts_def distinct_map)
  define vs where "vs = map (\<lambda>t. (rt_uid t, build_test_diag t outcomes unresolved)) (map (report_test_of G) ts)"
  define st where "st = fold (\<lambda>(u, v). bins u (fst v)) vs []"
  define t where "t = map (\<lambda>(u, v). snd v) vs"
  obtain s1 l where l: "build_layer (map (report_requirement_of G) (rs Llr)) LlrKind ''llr.toml'' view st policy = (s1, l)" by fastforce
  obtain s2 h where h: "build_layer (map (report_requirement_of G) (rs Hlr)) HlrKind ''hlr.toml'' view s1 policy = (s2, h)" by fastforce
  obtain s3 s where s: "build_layer (map (report_requirement_of G) (rs Sys)) SysKind ''sys.toml'' view s2 policy = (s3, s)" by fastforce
  have ds: "ds = t @ l @ h @ s"
    using report view l h s
    by (simp add: build_corpus_requirement_report_def Let_def lists vs_def st_def t_def comp_def flip: unresolved_def)
  have "set ts \<subseteq> set (test_nodes G)" by (simp add: sets)
  note T = tests_result [OF view G this dist(2) unresolved_def vs_def, folded t_def st_def]
  have node: "r \<in> set (rs layer) \<Longrightarrow> Requirement r \<in> set (cg_node_list G) \<and> rq_layer r = layer" for r layer
    by (simp add: sets set_layer_nodes)
  have c1: "children G (rq_uid r) \<subseteq> Test ` set ts" if "r \<in> set (rs Llr)" for r
    using children_layer(1) [OF G] node [OF that] sets(2) by blast
  have c2: "children G (rq_uid r) \<subseteq> Requirement ` set (rs Llr)" if "r \<in> set (rs Hlr)" for r
    using children_layer(2) [OF G] node [OF that] sets(1) by blast
  have c3: "children G (rq_uid r) \<subseteq> Requirement ` set (rs Hlr)" if "r \<in> set (rs Sys)" for r
    using children_layer(3) [OF G] node [OF that] sets(1) by blast
  have sub: "set (rs layer) \<subseteq> set (layer_nodes G layer)" for layer by (simp add: sets)
  note L = build_layer_result [OF view G sub dist(1) _ _ T(2) c1 l, simplified]
  note H = build_layer_result [OF view G sub dist(1) _ _ L(2) c2 h, simplified]
  note S = build_layer_result [OF view G sub dist(1) _ _ H(2) c3 s, simplified]
  have verdicts:
    "r \<in> set (rs Llr) \<Longrightarrow> node_verdict G outcomes files policy (Requirement r) =
      cascade_verdict G policy (test_node_verdict G outcomes files) (Requirement r)"
    "r \<in> set (rs Hlr) \<Longrightarrow> node_verdict G outcomes files policy (Requirement r) =
      cascade_verdict G policy (cascade_verdict G policy (test_node_verdict G outcomes files)) (Requirement r)"
    "r \<in> set (rs Sys) \<Longrightarrow> node_verdict G outcomes files policy (Requirement r) = cascade_verdict G policy
      (cascade_verdict G policy (cascade_verdict G policy (test_node_verdict G outcomes files))) (Requirement r)" for r
    using node by (simp_all add: node_verdict_def Let_def)
  show "map keyed ds = map (\<lambda>n. (Some (node_uid n), status_code (node_verdict G outcomes files policy n))) (report_order G)"
    unfolding ds map_append T(1) L(1) H(1) S(1) report_order_def
    using verdicts by (simp add: rs_def [symmetric] ts_def [symmetric] node_verdict_def Let_def)
  show "causes_direct ds ds"
    unfolding ds using T(3) L(3) H(3) S(3) by (auto simp: causes_direct_def)
qed

section \<open>Traces give reports\<close>

text \<open>The edges of an adapted trace have the kinds the report reads.\<close>

lemma adapted_kinds:
  assumes t: "graph_from_trace_parts t = Inr G"
  shows "cg_inv G" "Requirement r \<in> set (cg_node_list G) \<Longrightarrow> e \<in> set (rq_edges r) \<Longrightarrow> fst e = DerivesFrom"
    "Test q \<in> set (cg_node_list G) \<Longrightarrow> e \<in> set (ts_edges q) \<Longrightarrow> fst e = Verifies"
proof -
  note holds = graph_from_trace_holds [OF t, unfolded graph_holds_def]
  show "cg_inv G" using holds by blast
  show "fst e = DerivesFrom" if "Requirement r \<in> set (cg_node_list G)" "e \<in> set (rq_edges r)"
  proof -
    from holds that(1) obtain n m where n: "map_node_edges sort n = Requirement r"
      "(\<exists>h layer. requirement_from_hlr_entry h layer = Inr (n, m)) \<or> (\<exists>l. requirement_from_llr_entry l = Inr (n, m))
       \<or> (\<exists>d. requirement_from_derived_entry d = Inr (n, m)) \<or> (\<exists>x. test_from_entry x = Inr (n, m))"
      by (auto simp: adapted_nodes_def image_iff) blast+
    then obtain q where q: "n = Requirement q" "r = q\<lparr>rq_edges := sort (rq_edges q)\<rparr>" by (cases n) auto
    with n(2) have "\<forall>e \<in> set (rq_edges q). fst e = DerivesFrom"
      by (auto simp: requirement_from_hlr_entry_def requirement_from_llr_entry_def requirement_from_derived_entry_def
        test_from_entry_def rbind_Ok_iff derives_from_edges_def)
    with that(2) q(2) show ?thesis by simp
  qed
  show "fst e = Verifies" if "Test q \<in> set (cg_node_list G)" "e \<in> set (ts_edges q)"
  proof -
    from holds that(1) obtain n m where n: "map_node_edges sort n = Test q"
      "(\<exists>h layer. requirement_from_hlr_entry h layer = Inr (n, m)) \<or> (\<exists>l. requirement_from_llr_entry l = Inr (n, m))
       \<or> (\<exists>d. requirement_from_derived_entry d = Inr (n, m)) \<or> (\<exists>x. test_from_entry x = Inr (n, m))"
      by (auto simp: adapted_nodes_def image_iff) blast+
    then obtain x where x: "n = Test x" "q = x\<lparr>ts_edges := sort (ts_edges x)\<rparr>" by (cases n) auto
    with n(2) have "\<forall>e \<in> set (ts_edges x). fst e = Verifies"
      by (auto simp: requirement_from_hlr_entry_def requirement_from_llr_entry_def requirement_from_derived_entry_def
        test_from_entry_def rbind_Ok_iff)
    with that(2) x(2) show ?thesis by simp
  qed
qed

lemma fold_edge_link_step_total:
  "(\<forall>e \<in> set es. fst e = k) \<Longrightarrow> \<exists>l. fold_res (edge_link_step from k f) st es = Inr l"
proof (induction es arbitrary: st)
  case (Cons e es)
  then obtain st' where "edge_link_step from k f st e = Inr st'" by (simp add: edge_link_step_def)
  with Cons show ?case by simp
qed simp

lemma trace_report_total:
  assumes t: "graph_from_trace_parts t = Inr G"
  shows "\<exists>ds. build_corpus_requirement_report G outcomes files policy = Inr ds"
proof -
  note kinds = adapted_kinds [OF t]
  have step: "\<exists>w. view_step G v n = Inr w" if n: "n \<in> set (cg_node_list G)" for v n
  proof (cases n)
    case (Requirement r)
    with n have "\<forall>e \<in> set (rq_edges r). fst e = DerivesFrom" using kinds(2) by blast
    from fold_edge_link_step_total [OF this] have "\<exists>l. requirement_links G r = Inr l"
      unfolding requirement_links_def by (cases "rq_layer r") auto
    then show ?thesis unfolding Requirement view_step_def by (auto simp: rbind_Ok_iff Let_def)
  next
    case (Test q)
    with n have "\<forall>e \<in> set (ts_edges q). fst e = Verifies" using kinds(3) by blast
    from fold_edge_link_step_total [OF this] have "\<exists>l. test_links G q = Inr l" unfolding test_links_def by auto
    then show ?thesis unfolding Test view_step_def by (auto simp: rbind_Ok_iff)
  qed (auto simp: view_step_def)
  have "\<exists>w. fold_res (view_step G) v ns = Inr w" if "set ns \<subseteq> set (cg_node_list G)" for v ns
    using that
  proof (induction ns arbitrary: v)
    case (Cons n ns)
    then have "n \<in> set (cg_node_list G)" by simp
    from step [OF this, of v] obtain x where "view_step G v n = Inr x" by blast
    with Cons show ?case by simp
  qed simp
  from this [of "cg_node_list G"] obtain view where "view_from_graph G = Inr view"
    unfolding view_from_graph_def rbind_Ok_iff Let_def by blast
  then show ?thesis by (simp add: build_corpus_requirement_report_def Let_def split_beta)
qed

text \<open>A trace with one requirement per layer and one test, its source file and a run in which the
  test passed.\<close>

definition demo_run_trace :: trace_parts where
  "demo_run_trace = demo_trace\<lparr>tr_tests :=
     [(demo_test_entry ''u4'' ''TEST-1'' [''u3''])\<lparr>t_test_selector := Some ''nav_test''\<rparr>]\<rparr>"

definition demo_run_outcomes :: test_outcomes where
  "demo_run_outcomes = [(''nav'' @ double_colon @ ''nav_test'', TestPassed)]"

definition demo_run_files :: rs_files where
  "demo_run_files = [(''nav/src/lib.rs'', Some (''#[test]'' @ [newline] @ ''fn nav_test() {''))]"

definition demo_run_report :: "diagnostic list" where
  "demo_run_report = build_requirement_report (\<lambda>_. []) demo_run_trace demo_run_outcomes demo_run_files
     (ep_trace (for_dal DalA))"

lemma demo_run_keyed:
  "map keyed demo_run_report = [(Some ''u4'', ''REQ_PASS''), (Some ''u3'', ''REQ_PASS''),
     (Some ''u2'', ''REQ_PASS''), (Some ''u1'', ''REQ_PASS'')]"
  by code_simp

lemma demo_run_graph: "graph_from_trace_parts demo_run_trace = Inr (projr (graph_from_trace_parts demo_run_trace))"
proof -
  have "\<not> isl (graph_from_trace_parts demo_run_trace)" by code_simp
  then show ?thesis by (cases "graph_from_trace_parts demo_run_trace") simp_all
qed

text \<open>C33: the requirement report of a trace that adapts to a graph lists, in order, exactly one
  diagnostic for every test, low-level, high-level and system requirement, with the code of its verdict:
  a test by its links and the outcome every selector matches, a requirement as a gap when its own
  structure is incomplete, when it has no child or a child is a gap, and otherwise as passed when a
  child passed and skipped when all are skipped. A requirement with passed and skipped children is
  thus reported as passed, where the documentation of the module asks that all of them passed.\<close>

theorem report_lists_verdicts:
  assumes "graph_from_trace_parts t = Inr G"
  shows "map keyed (build_requirement_report error_text t outcomes files policy) =
    map (\<lambda>n. (Some (node_uid n), status_code (node_verdict G outcomes files policy n))) (report_order G)"
proof -
  from trace_report_total [OF assms] obtain ds where
    ds: "build_corpus_requirement_report G outcomes files policy = Inr ds" by blast
  with report_result(1) [OF ds adapted_kinds(1) [OF assms]] show ?thesis
    by (simp add: build_requirement_report_def assms)
qed

theorem report_lists_verdicts_witness:
  "map (\<lambda>n. (Some (node_uid n), status_code (node_verdict (projr (graph_from_trace_parts demo_run_trace))
      demo_run_outcomes demo_run_files (ep_trace (for_dal DalA)) n)))
      (report_order (projr (graph_from_trace_parts demo_run_trace)))
    = [(Some ''u4'', ''REQ_PASS''), (Some ''u3'', ''REQ_PASS''), (Some ''u2'', ''REQ_PASS''), (Some ''u1'', ''REQ_PASS'')]"
  using report_lists_verdicts [OF demo_run_graph, of "\<lambda>_. []" demo_run_outcomes demo_run_files "ep_trace (for_dal DalA)"]
    demo_run_keyed by (simp add: demo_run_report_def)

section \<open>What a pass means\<close>

text \<open>A node is backed when it is a test all of whose selectors ran once and passed, or a linked
  requirement with a backed child.\<close>

inductive backed :: "corpus_graph \<Rightarrow> test_outcomes \<Rightarrow> uid \<Rightarrow> bool" for G outcomes where
  backed_test: "cg_get G u = Some (Test t) \<Longrightarrow> linked G (Test t) \<Longrightarrow> ts_edges t \<noteq> [] \<Longrightarrow> ts_selectors t \<noteq> []
    \<Longrightarrow> list_all (\<lambda>s. \<exists>k. selector_matches outcomes s = [(k, TestPassed)]) (ts_selectors t)
    \<Longrightarrow> backed G outcomes u"
| backed_requirement: "cg_get G u = Some (Requirement r) \<Longrightarrow> linked G (Requirement r)
    \<Longrightarrow> n \<in> children G u \<Longrightarrow> backed G outcomes (node_uid n) \<Longrightarrow> backed G outcomes u"

lemma test_pass_backed:
  assumes "cg_inv G" "t \<in> set (test_nodes G)" "test_verdict G outcomes files t = Pass"
  shows "backed G outcomes (ts_uid t)"
proof (rule backed_test)
  show "cg_get G (ts_uid t) = Some (Test t)"
    using cg_nodes_iff_get [OF assms(1), of "Test t"] assms(2) by (simp add: set_test_nodes)
  let ?S = "selector_outcome outcomes ` set (ts_selectors t)"
  have v: "linked G (Test t) \<and> ts_edges t \<noteq> [] \<and> ts_selectors t \<noteq> [] \<and> combine_selectors ?S = Pass"
    using assms(3) by (auto simp: test_verdict_def split: if_splits)
  then show "linked G (Test t)" "ts_edges t \<noteq> []" "ts_selectors t \<noteq> []" by auto
  from v have no: "Gap \<notin> ?S" "Skip \<notin> ?S" by (auto simp: combine_selectors_def split: if_splits)
  show "list_all (\<lambda>s. \<exists>k. selector_matches outcomes s = [(k, TestPassed)]) (ts_selectors t)"
    unfolding list_all_iff
  proof
    fix s assume "s \<in> set (ts_selectors t)"
    with no have "selector_outcome outcomes s \<noteq> Gap" "selector_outcome outcomes s \<noteq> Skip" by (auto simp: image_iff)
    then have "selector_outcome outcomes s = Pass" by (cases "selector_outcome outcomes s") auto
    then show "\<exists>k. selector_matches outcomes s = [(k, TestPassed)]" by (simp add: selector_outcome_pass_iff)
  qed
qed

lemma cascade_pass_backed:
  assumes G: "cg_inv G" and r: "Requirement r \<in> set (cg_node_list G)"
    and pass: "cascade_verdict G policy below (Requirement r) = Pass"
    and below: "\<And>n. n \<in> children G (rq_uid r) \<Longrightarrow> below n = Pass \<Longrightarrow> backed G outcomes (node_uid n)"
  shows "backed G outcomes (rq_uid r)"
proof -
  from pass have "\<not> requirement_gap G policy r" "combine (below ` children G (rq_uid r)) = Pass"
    by (auto simp: cascade_verdict_def split: if_splits)
  then obtain n where "linked G (Requirement r)" "n \<in> children G (rq_uid r)" "below n = Pass"
    by (auto simp: requirement_gap_def combine_def split: if_splits)
  moreover have "cg_get G (rq_uid r) = Some (Requirement r)"
    using cg_nodes_iff_get [OF G, of "Requirement r"] r by simp
  ultimately show ?thesis using below backed_requirement by blast
qed

lemma verdict_pass_backed:
  assumes G: "cg_inv G" and n: "n \<in> set (cg_node_list G)" and pass: "node_verdict G outcomes files policy n = Pass"
  shows "backed G outcomes (node_uid n)"
proof -
  let ?t = "test_node_verdict G outcomes files"
  have test: "backed G outcomes (node_uid m)" if "m \<in> children G (rq_uid r)" "?t m = Pass"
    "Requirement r \<in> set (cg_node_list G)" "rq_layer r = Llr" for m r
    using children_layer(1) [OF G that(3,1,4)] that(2) test_pass_backed [OF G] by (auto simp: test_node_verdict_def)
  have llr: "backed G outcomes (rq_uid r)" if "cascade_verdict G policy ?t (Requirement r) = Pass"
    "Requirement r \<in> set (cg_node_list G)" "rq_layer r = Llr" for r
    using cascade_pass_backed [OF G that(2,1)] test that by blast
  have hlr: "backed G outcomes (rq_uid r)" if "cascade_verdict G policy (cascade_verdict G policy ?t) (Requirement r) = Pass"
    "Requirement r \<in> set (cg_node_list G)" "rq_layer r = Hlr" for r
  proof (rule cascade_pass_backed [OF G that(2,1)])
    fix m assume m: "m \<in> children G (rq_uid r)" "cascade_verdict G policy ?t m = Pass"
    from children_layer(2) [OF G that(2) m(1) that(3)] m(2) llr show "backed G outcomes (node_uid m)"
      by (auto simp: set_layer_nodes)
  qed
  have sys: "backed G outcomes (rq_uid r)"
    if "cascade_verdict G policy (cascade_verdict G policy (cascade_verdict G policy ?t)) (Requirement r) = Pass"
    "Requirement r \<in> set (cg_node_list G)" "rq_layer r = Sys" for r
  proof (rule cascade_pass_backed [OF G that(2,1)])
    fix m assume m: "m \<in> children G (rq_uid r)" "cascade_verdict G policy (cascade_verdict G policy ?t) m = Pass"
    from children_layer(3) [OF G that(2) m(1) that(3)] m(2) hlr show "backed G outcomes (node_uid m)"
      by (auto simp: set_layer_nodes)
  qed
  show ?thesis
  proof (cases n)
    case (Requirement r)
    with pass n llr hlr sys show ?thesis by (cases "rq_layer r") (auto simp: node_verdict_def Let_def)
  next
    case (Test t)
    with pass n test_pass_backed [OF G, of t] show ?thesis
      by (simp add: node_verdict_def test_node_verdict_def set_test_nodes)
  qed (use pass in \<open>auto simp: node_verdict_def\<close>)
qed

lemma report_order_nodes: "n \<in> set (report_order G) \<Longrightarrow> n \<in> set (cg_node_list G)"
  by (auto simp: report_order_def set_test_nodes set_layer_nodes)

text \<open>C34: a requirement is reported as passed only when it is backed: there is a chain of linked
  children from it down to a test that is linked, has selectors, and each of whose selectors
  matches exactly one outcome of the run, which passed.\<close>

theorem passing_requirement_is_backed:
  assumes "graph_from_trace_parts t = Inr G"
    and "d \<in> set (build_requirement_report error_text t outcomes files policy)" "di_code d = ''REQ_PASS''"
  shows "\<exists>u. reported_uid d = Some u \<and> backed G outcomes u"
proof -
  note G = adapted_kinds(1) [OF assms(1)]
  from trace_report_total [OF assms(1)] obtain ds where
    ds: "build_corpus_requirement_report G outcomes files policy = Inr ds" by blast
  have "build_requirement_report error_text t outcomes files policy = ds"
    by (simp add: build_requirement_report_def assms(1) ds)
  with assms(2) have "keyed d \<in> set (map keyed ds)" by simp
  then obtain n where n: "n \<in> set (report_order G)" "keyed d = (Some (node_uid n),
      status_code (node_verdict G outcomes files policy n))"
    unfolding report_result(1) [OF ds G] by auto
  then have "node_verdict G outcomes files policy n = Pass"
    using assms(3) by (cases "node_verdict G outcomes files policy n") (auto simp: keyed_def)
  from verdict_pass_backed [OF G report_order_nodes [OF n(1)] this] n(2) show ?thesis
    by (auto simp: keyed_def)
qed

theorem passing_requirement_is_backed_witness:
  "backed (projr (graph_from_trace_parts demo_run_trace)) demo_run_outcomes ''u1''"
proof -
  have "(Some ''u1'', ''REQ_PASS'') \<in> set (map keyed demo_run_report)" unfolding demo_run_keyed by simp
  then obtain d where d: "d \<in> set demo_run_report" "reported_uid d = Some ''u1''" "di_code d = ''REQ_PASS''"
    by (auto simp: keyed_def)
  from passing_requirement_is_backed [OF demo_run_graph d(1) [unfolded demo_run_report_def] d(3)] d(2)
  show ?thesis by simp
qed

text \<open>C35: the root cause a diagnostic of the report names is itself reported as a gap, and as
  one that names no further cause.\<close>

theorem root_causes_are_direct_gaps:
  "causes_direct (build_requirement_report error_text t outcomes files policy)
    (build_requirement_report error_text t outcomes files policy)"
proof (cases "graph_from_trace_parts t")
  case (Inl e)
  then show ?thesis by (simp add: build_requirement_report_def graph_failure_def make_diag_def causes_direct_def)
next
  case (Inr G)
  from trace_report_total [OF Inr] obtain ds where
    ds: "build_corpus_requirement_report G outcomes files policy = Inr ds" by blast
  with report_result(2) [OF ds adapted_kinds(1) [OF Inr]] show ?thesis
    by (simp add: build_requirement_report_def Inr)
qed

end
