(* ===== verification/Source_Verify.thy ===== *)
theory Source_Verify
  imports Lock_Properties
begin

text \<open>
  Offline verification of the material of every effective source head
  (\<^verbatim>\<open>corpus/source/verify.rs\<close>, \<^verbatim>\<open>verify/vendored.rs\<close>, \<^verbatim>\<open>verify/error.rs\<close>). The file system is
  a map from absolute paths to entries, read through the operations the code calls:
  \<^verbatim>\<open>symlink_metadata\<close>, \<^verbatim>\<open>canonicalize\<close> and reading a file. A path is the list of its
  components below the root; a link stores the absolute path its target denotes.
\<close>

section \<open>The file system\<close>

datatype fs_node =
    FsFile bytes
  | FsDir
  | FsLink "string list"
  | FsOther
  | FsBroken string

datatype io_kind = IoNotFound | IoNotADirectory | IoOther string

type_synonym file_system = "string list \<Rightarrow> fs_node option"

definition is_dir_at :: "file_system \<Rightarrow> string list \<Rightarrow> bool" where
  "is_dir_at fs d \<longleftrightarrow> d = [] \<or> fs d = Some FsDir"

text \<open>Resolution of a path with at most \<open>n\<close> symbolic links; the links left are returned.\<close>

function resolve_path ::
  "file_system \<Rightarrow> nat \<Rightarrow> string list \<Rightarrow> string list \<Rightarrow> io_kind + string list \<times> nat" where
  "resolve_path fs n d [] = Ok (d, n)"
| "resolve_path fs n d (c # cs) =
    (if \<not> is_dir_at fs d then Err IoNotADirectory
     else case fs (d @ [c]) of
       None \<Rightarrow> Err IoNotFound
     | Some (FsBroken e) \<Rightarrow> Err (IoOther e)
     | Some (FsLink target) \<Rightarrow>
         (case n of 0 \<Rightarrow> Err (IoOther ''too many levels of symbolic links'')
          | Suc m \<Rightarrow> resolve_path fs m [] (target @ cs))
     | Some _ \<Rightarrow> resolve_path fs n (d @ [c]) cs)"
  by pat_completeness auto

termination by (relation "measures [\<lambda>(fs, n, d, cs). n, \<lambda>(fs, n, d, cs). length cs]") auto

definition max_links :: nat where
  "max_links = 40"

definition canonicalize_path :: "file_system \<Rightarrow> string list \<Rightarrow> io_kind + string list" where
  "canonicalize_path fs p = rbind (resolve_path fs max_links [] p) (\<lambda>(q, _). Ok q)"

text \<open>The last component is not followed.\<close>

definition symlink_metadata :: "file_system \<Rightarrow> string list \<Rightarrow> io_kind + fs_node" where
  "symlink_metadata fs p =
    (if p = [] then Ok FsDir
     else rbind (resolve_path fs max_links [] (butlast p)) (\<lambda>(d, _).
       if \<not> is_dir_at fs d then Err IoNotADirectory
       else case fs (d @ [last p]) of
         None \<Rightarrow> Err IoNotFound | Some (FsBroken e) \<Rightarrow> Err (IoOther e) | Some n \<Rightarrow> Ok n))"

definition read_file_at :: "file_system \<Rightarrow> string list \<Rightarrow> io_kind + bytes" where
  "read_file_at fs p = rbind (canonicalize_path fs p) (\<lambda>q. case fs q of
       Some (FsFile b) \<Rightarrow> Ok b | _ \<Rightarrow> Err (IoOther ''is a directory''))"

section \<open>Errors and states\<close>

type_synonym fs_path = "string list"

record digest_mismatch_detail =
  dm_source_uid :: uid
  dm_document_key :: string
  dm_path :: fs_path
  dm_expected :: source_content_digest
  dm_actual :: source_content_digest

datatype source_payload_error =
    PY_MissingPayload uid string fs_path
  | PY_NotAFile uid string fs_path
  | PY_SymlinkRoot fs_path
  | PY_SymlinkComponent uid string fs_path
  | PY_PathEscape uid string string
  | PY_CanonicalEscape uid string fs_path
  | PY_DigestMismatch digest_mismatch_detail
  | PY_LockDisagreement uid string string
  | PY_Io uid string fs_path io_kind

datatype source_verification_state =
    VerifiedBytes
  | DigestDeclared
  | ExternallyControlled
  | UnavailableSource string

fun verification_state_str :: "source_verification_state \<Rightarrow> string" where
  "verification_state_str VerifiedBytes = ''verified_bytes''"
| "verification_state_str DigestDeclared = ''digest_declared''"
| "verification_state_str ExternallyControlled = ''externally_controlled''"
| "verification_state_str (UnavailableSource _) = ''unavailable''"

record source_verification =
  vr_document_key :: string
  vr_source_uid :: uid
  vr_outcome :: "source_payload_error + source_verification_state"

section \<open>A vendored head\<close>

definition payload_root_dir :: string where
  "payload_root_dir = ''sources''"

text \<open>The wire check, the containment in the payload root, and the payload root itself. A path that
  fails the wire check is reported as it is written.\<close>

definition check_wire_and_root ::
  "file_system \<Rightarrow> fs_path \<Rightarrow> string \<Rightarrow> uid \<Rightarrow> string
    \<Rightarrow> source_payload_error + fs_path \<times> fs_path \<times> string list" where
  "check_wire_and_root fs corpus_root document_key source_uid wire_path =
    (case validate_vendored_wire_path wire_path of
       Inl _ \<Rightarrow> Err (PY_PathEscape source_uid document_key wire_path)
     | Inr _ \<Rightarrow>
       let payload_root = corpus_root @ [payload_root_dir];
           wire = split_on CHR ''/'' wire_path;
           candidate = corpus_root @ wire
       in if hd wire \<noteq> payload_root_dir then Err (PY_PathEscape source_uid document_key wire_path)
          else if tl wire = [] then Err (PY_NotAFile source_uid document_key candidate)
          else case symlink_metadata fs payload_root of
            Inl IoNotFound \<Rightarrow> Err (PY_MissingPayload source_uid document_key candidate)
          | Inl e \<Rightarrow> Err (PY_Io source_uid document_key payload_root e)
          | Inr (FsLink _) \<Rightarrow> Err (PY_SymlinkRoot payload_root)
          | Inr FsDir \<Rightarrow> Ok (payload_root, candidate, tl wire)
          | Inr _ \<Rightarrow> Err (PY_MissingPayload source_uid document_key candidate))"

fun walk_components ::
  "file_system \<Rightarrow> string \<Rightarrow> uid \<Rightarrow> fs_path \<Rightarrow> fs_path \<Rightarrow> string list \<Rightarrow> source_payload_error + unit" where
  "walk_components fs document_key source_uid candidate current [] = Ok ()"
| "walk_components fs document_key source_uid candidate current (c # cs) =
    (let here = current @ [c] in case symlink_metadata fs here of
       Inl (IoOther e) \<Rightarrow> Err (PY_Io source_uid document_key here (IoOther e))
     | Inl _ \<Rightarrow> Err (PY_MissingPayload source_uid document_key candidate)
     | Inr (FsLink _) \<Rightarrow> Err (PY_SymlinkComponent source_uid document_key here)
     | Inr node \<Rightarrow>
         if cs = [] \<and> \<not> (case node of FsFile _ \<Rightarrow> True | _ \<Rightarrow> False)
         then Err (PY_NotAFile source_uid document_key candidate)
         else walk_components fs document_key source_uid candidate here cs)"

definition check_canonical_containment ::
  "file_system \<Rightarrow> string \<Rightarrow> uid \<Rightarrow> fs_path \<Rightarrow> fs_path \<Rightarrow> source_payload_error + unit" where
  "check_canonical_containment fs document_key source_uid candidate payload_root =
    rbind (map_err (PY_Io source_uid document_key payload_root) (canonicalize_path fs payload_root)) (\<lambda>root.
    rbind (map_err (PY_Io source_uid document_key candidate) (canonicalize_path fs candidate)) (\<lambda>target.
    fail_if (take (length root) target \<noteq> root) (PY_CanonicalEscape source_uid document_key candidate)))"

definition resolve_vendored_path ::
  "file_system \<Rightarrow> fs_path \<Rightarrow> string \<Rightarrow> uid \<Rightarrow> string \<Rightarrow> source_payload_error + fs_path" where
  "resolve_vendored_path fs corpus_root document_key source_uid wire_path =
    rbind (check_wire_and_root fs corpus_root document_key source_uid wire_path) (\<lambda>(payload_root, candidate, relative).
    rbind (walk_components fs document_key source_uid candidate payload_root relative) (\<lambda>_.
    rbind (check_canonical_containment fs document_key source_uid candidate payload_root) (\<lambda>_.
    Ok candidate)))"

definition verify_vendored_head ::
  "platform \<Rightarrow> file_system \<Rightarrow> fs_path \<Rightarrow> string \<Rightarrow> source_revision_node \<Rightarrow> string
    \<Rightarrow> source_content_digest \<Rightarrow> source_lock_entry \<Rightarrow> source_payload_error + source_verification_state" where
  "verify_vendored_head X fs corpus_root document_key revision wire_path record_digest lock_entry =
    (let u = sr_uid revision; disagreement = (\<lambda>field. Err (PY_LockDisagreement u document_key field)) in
     case le_material lock_entry of
       LockUnavailable \<Rightarrow> disagreement ''availability''
     | LockAvailable lock_digest capture \<Rightarrow>
       if capture \<noteq> LockVendored then disagreement ''capture_mode''
       else if lock_digest \<noteq> record_digest then disagreement ''digest''
       else rbind (resolve_vendored_path fs corpus_root document_key u wire_path) (\<lambda>candidate.
         rbind (map_err (PY_Io u document_key candidate) (read_file_at fs candidate)) (\<lambda>b.
         let actual = SourceContentDigest (sha256 X b) in
         rbind (fail_if (actual \<noteq> record_digest) (PY_DigestMismatch \<lparr>dm_source_uid = u,
           dm_document_key = document_key, dm_path = candidate, dm_expected = record_digest, dm_actual = actual\<rparr>)) (\<lambda>_.
         Ok VerifiedBytes))))"

section \<open>The batch\<close>

definition verify_head ::
  "platform \<Rightarrow> file_system \<Rightarrow> fs_path \<Rightarrow> string \<Rightarrow> source_revision_node
    \<Rightarrow> (string, source_lock_entry) bmap \<Rightarrow> source_payload_error + source_verification_state" where
  "verify_head X fs corpus_root document_key revision entries_by_key =
    (case sr_material revision of
       Unavailable reason \<Rightarrow> Ok (UnavailableSource reason)
     | Available retrieved_at digest capture \<Rightarrow> (case capture of
         HashOnly \<Rightarrow> Ok DigestDeclared
       | ExternalControlled _ _ \<Rightarrow> Ok ExternallyControlled
       | Vendored path \<Rightarrow> (case bget entries_by_key document_key of
           None \<Rightarrow> Err (PY_LockDisagreement (sr_uid revision) document_key ''uid'')
         | Some lock_entry \<Rightarrow> verify_vendored_head X fs corpus_root document_key revision path digest lock_entry)))"

definition verify_effective_sources ::
  "platform \<Rightarrow> (string \<Rightarrow> string + lock_file_wire) \<Rightarrow> file_system \<Rightarrow> fs_path \<Rightarrow> corpus_graph \<Rightarrow> bytes
    \<Rightarrow> corpus_error source_error + source_verification list" where
  "verify_effective_sources X decode fs corpus_root G lock_bytes =
    rbind (validate_committed_lock X decode lock_bytes G) (\<lambda>_.
    rbind (parse_lock decode lock_bytes) (\<lambda>lock.
    let entries_by_key = fold (\<lambda>entry. bins (le_document_key entry) entry) (lk_entries lock) [] in
    Ok (List.map_filter (\<lambda>(document_key, source_uid). case cg_get G source_uid of
         Some (SourceRevision revision) \<Rightarrow> Some \<lparr>vr_document_key = document_key, vr_source_uid = source_uid,
           vr_outcome = verify_head X fs corpus_root document_key revision entries_by_key\<rparr>
       | _ \<Rightarrow> None) (effective_source_heads G))))"

end
