(* ===== verification/Source_Verify_Properties.thy ===== *)
theory Source_Verify_Properties
  imports Source_Verify
begin

text \<open>
  When a vendored head is reported as byte-verified, and what the batch says of every head.
\<close>

section \<open>Resolution\<close>

lemma resolve_append:
  "resolve_path fs n d (xs @ ys) = rbind (resolve_path fs n d xs) (\<lambda>(q, m). resolve_path fs m q ys)"
  by (induction fs n d xs rule: resolve_path.induct) (auto split: option.split fs_node.split nat.split)

text \<open>Every component is a directory, not a link to one.\<close>

fun plain_dirs :: "file_system \<Rightarrow> string list \<Rightarrow> string list \<Rightarrow> bool" where
  "plain_dirs fs d [] = is_dir_at fs d"
| "plain_dirs fs d (c # cs) = (is_dir_at fs d \<and> plain_dirs fs (d @ [c]) cs)"

lemma plain_dirs_start: "plain_dirs fs d cs \<Longrightarrow> is_dir_at fs d"
  by (cases cs) auto

lemma is_dir_snoc: "is_dir_at fs (d @ [c]) \<longleftrightarrow> fs (d @ [c]) = Some FsDir"
  by (simp add: is_dir_at_def)

lemma metadata_at:
  assumes "resolve_path fs max_links [] cur = Inr (Q, m)"
  shows "symlink_metadata fs (cur @ [c]) = (if \<not> is_dir_at fs Q then Err IoNotADirectory
    else case fs (Q @ [c]) of None \<Rightarrow> Err IoNotFound | Some (FsBroken e) \<Rightarrow> Err (IoOther e) | Some n \<Rightarrow> Ok n)"
  using assms by (simp add: symlink_metadata_def)

lemma resolve_snoc:
  assumes "resolve_path fs max_links [] cur = Inr (Q, m)" "is_dir_at fs Q" "fs (Q @ [c]) = Some x"
    "x = FsDir \<or> x = FsOther \<or> (\<exists>b. x = FsFile b)"
  shows "resolve_path fs max_links [] (cur @ [c]) = Inr (Q @ [c], m)"
  using assms by (auto simp: resolve_append)

lemma walk_components_Ok_iff:
  assumes "resolve_path fs max_links [] cur = Inr (Q, m)" "cs \<noteq> []"
  shows "walk_components fs k u cand cur cs = Inr () \<longleftrightarrow>
    plain_dirs fs Q (butlast cs) \<and> (\<exists>b. fs (Q @ cs) = Some (FsFile b))"
  using assms
proof (induction cs arbitrary: cur Q)
  case (Cons c cs)
  note meta = metadata_at [OF Cons.prems(1)]
  show ?case
  proof (cases "cs = []")
    case True
    then show ?thesis by (auto simp: meta Let_def split: option.splits fs_node.splits if_splits)
  next
    case more: False
    have IH: "walk_components fs k u cand (cur @ [c]) cs = Inr () \<longleftrightarrow>
        plain_dirs fs (Q @ [c]) (butlast cs) \<and> (\<exists>b. fs (Q @ c # cs) = Some (FsFile b))"
      if "is_dir_at fs Q" "fs (Q @ [c]) = Some x" "x = FsDir \<or> x = FsOther \<or> (\<exists>b. x = FsFile b)" for x
      using Cons.IH [OF resolve_snoc [OF Cons.prems(1) that] more] by simp
    show ?thesis
    proof (cases "is_dir_at fs Q \<and> (\<exists>x. fs (Q @ [c]) = Some x \<and> (x = FsDir \<or> x = FsOther \<or> (\<exists>b. x = FsFile b)))")
      case True
      then obtain x where x: "is_dir_at fs Q" "fs (Q @ [c]) = Some x" "x = FsDir \<or> x = FsOther \<or> (\<exists>b. x = FsFile b)"
        by blast
      have "walk_components fs k u cand cur (c # cs) = walk_components fs k u cand (cur @ [c]) cs"
        using x more by (auto simp: meta Let_def)
      with IH [OF x] x(1) more show ?thesis by simp
    next
      case False
      have "walk_components fs k u cand cur (c # cs) \<noteq> Inr ()"
        using False by (auto simp: meta Let_def split: option.splits fs_node.splits if_splits)
      moreover have "\<not> plain_dirs fs Q (butlast (c # cs))"
        using False more by (auto dest!: plain_dirs_start simp: is_dir_snoc)
      ultimately show ?thesis by blast
    qed
  qed
qed simp

lemma resolve_plain:
  "plain_dirs fs d cs \<Longrightarrow> resolve_path fs n d cs = Inr (d @ cs, n)"
proof (induction cs arbitrary: d)
  case (Cons c cs)
  then have h: "is_dir_at fs d" "plain_dirs fs (d @ [c]) cs" by auto
  from plain_dirs_start [OF h(2)] have "fs (d @ [c]) = Some FsDir" by (simp add: is_dir_snoc)
  with h(1) Cons.IH [OF h(2)] show ?case by simp
qed simp

lemma plain_dirs_end: "plain_dirs fs d cs \<Longrightarrow> is_dir_at fs (d @ cs)"
proof (induction cs arbitrary: d)
  case (Cons c cs)
  from Cons.IH [of "d @ [c]"] Cons.prems show ?case by simp
qed simp

lemma resolve_file:
  assumes "plain_dirs fs d (butlast cs)" "cs \<noteq> []" "fs (d @ cs) = Some (FsFile b)"
  shows "resolve_path fs n d cs = Inr (d @ cs, n)"
proof -
  obtain bs c where cs: "cs = bs @ [c]" using assms(2) by (cases cs rule: rev_cases) auto
  have last: "is_dir_at fs (d @ bs)"
    using plain_dirs_end [of fs d bs] assms(1) unfolding cs butlast_snoc by blast
  have "resolve_path fs n d (bs @ [c]) = resolve_path fs n (d @ bs) [c]"
    using resolve_plain [of fs d bs n] assms(1) unfolding cs resolve_append by simp
  with last assms(3) show ?thesis by (simp add: cs)
qed

section \<open>A vendored head\<close>

text \<open>The payload: the root of the corpus resolves, its payload directory is a real directory, the path
  runs through real directories below it, and it ends in a regular file with this content.\<close>

definition payload_at :: "file_system \<Rightarrow> fs_path \<Rightarrow> string list \<Rightarrow> bytes \<Rightarrow> bool" where
  "payload_at fs corpus_root cs b \<longleftrightarrow> cs \<noteq> [] \<and> (\<exists>R m. resolve_path fs max_links [] corpus_root = Inr (R, m)
     \<and> plain_dirs fs R (payload_root_dir # butlast cs)
     \<and> fs (R @ payload_root_dir # cs) = Some (FsFile b))"

lemma check_wire_and_root_Ok_iff:
  "check_wire_and_root fs root k u wire = Inr (pr, cand, rel) \<longleftrightarrow>
    (\<exists>v. validate_vendored_wire_path wire = Inr v) \<and> split_on CHR ''/'' wire = payload_root_dir # rel \<and> rel \<noteq> []
    \<and> pr = root @ [payload_root_dir] \<and> cand = root @ payload_root_dir # rel
    \<and> symlink_metadata fs pr = Inr FsDir"
proof -
  obtain w ws where "split_on CHR ''/'' wire = w # ws" by (cases "split_on CHR ''/'' wire") auto
  then show ?thesis
    by (cases "validate_vendored_wire_path wire")
      (auto simp: check_wire_and_root_def Let_def split: sum.splits fs_node.splits io_kind.splits if_splits)
qed

lemma root_metadata_dir_iff:
  "symlink_metadata fs (root @ [payload_root_dir]) = Inr FsDir \<longleftrightarrow>
    (\<exists>R m. resolve_path fs max_links [] root = Inr (R, m) \<and> is_dir_at fs R \<and> fs (R @ [payload_root_dir]) = Some FsDir)"
  by (cases "resolve_path fs max_links [] root")
    (auto simp: symlink_metadata_def split: option.splits fs_node.splits if_splits)

lemma payload_facts:
  assumes R: "resolve_path fs max_links [] root = Inr (R, m)" "is_dir_at fs R" "fs (R @ [payload_root_dir]) = Some FsDir"
    and cs: "cs \<noteq> []"
  shows "walk_components fs k u cand (root @ [payload_root_dir]) cs = Inr () \<longleftrightarrow> (\<exists>b. payload_at fs root cs b)"
    "payload_at fs root cs b \<Longrightarrow> check_canonical_containment fs k u (root @ payload_root_dir # cs) (root @ [payload_root_dir]) = Inr ()"
    "payload_at fs root cs b \<Longrightarrow> read_file_at fs (root @ payload_root_dir # cs) = Inr b"
proof -
  have pr: "resolve_path fs max_links [] (root @ [payload_root_dir]) = Inr (R @ [payload_root_dir], m)"
    using resolve_snoc [OF R] by simp
  show "walk_components fs k u cand (root @ [payload_root_dir]) cs = Inr () \<longleftrightarrow> (\<exists>b. payload_at fs root cs b)"
    using walk_components_Ok_iff [OF pr cs] R cs by (auto simp: payload_at_def)
  assume p: "payload_at fs root cs b"
  then have f: "plain_dirs fs (R @ [payload_root_dir]) (butlast cs)" "fs ((R @ [payload_root_dir]) @ cs) = Some (FsFile b)"
    using R(1) by (auto simp: payload_at_def)
  have "resolve_path fs max_links [] ((root @ [payload_root_dir]) @ cs) = Inr ((R @ [payload_root_dir]) @ cs, m)"
    using pr resolve_file [OF f(1) cs f(2)] unfolding resolve_append [of _ _ _ "root @ [payload_root_dir]"] by simp
  then have cand: "canonicalize_path fs (root @ payload_root_dir # cs) = Inr (R @ payload_root_dir # cs)"
    by (simp add: canonicalize_path_def)
  have root: "canonicalize_path fs (root @ [payload_root_dir]) = Inr (R @ [payload_root_dir])"
    by (simp add: canonicalize_path_def pr)
  show "check_canonical_containment fs k u (root @ payload_root_dir # cs) (root @ [payload_root_dir]) = Inr ()"
    by (simp add: check_canonical_containment_def cand root)
  show "read_file_at fs (root @ payload_root_dir # cs) = Inr b"
    using f(2) by (simp add: read_file_at_def cand)
qed

lemma resolve_vendored_Ok_iff:
  "resolve_vendored_path fs root k u wire = Inr cand \<longleftrightarrow>
    (\<exists>v. validate_vendored_wire_path wire = Inr v) \<and> (\<exists>cs b. split_on CHR ''/'' wire = payload_root_dir # cs
      \<and> cand = root @ payload_root_dir # cs \<and> payload_at fs root cs b)"
proof
  assume "resolve_vendored_path fs root k u wire = Inr cand"
  then obtain pr rel where c: "check_wire_and_root fs root k u wire = Inr (pr, cand, rel)"
    and w: "walk_components fs k u cand pr rel = Inr ()"
    by (auto simp: resolve_vendored_path_def rbind_Ok_iff)
  note facts = c [unfolded check_wire_and_root_Ok_iff]
  from facts root_metadata_dir_iff obtain R m where R: "resolve_path fs max_links [] root = Inr (R, m)"
    "is_dir_at fs R" "fs (R @ [payload_root_dir]) = Some FsDir" by blast
  from facts w payload_facts(1) [OF R] have "\<exists>b. payload_at fs root rel b" by blast
  with facts show "(\<exists>v. validate_vendored_wire_path wire = Inr v) \<and> (\<exists>cs b. split_on CHR ''/'' wire = payload_root_dir # cs
      \<and> cand = root @ payload_root_dir # cs \<and> payload_at fs root cs b)" by blast
next
  assume "(\<exists>v. validate_vendored_wire_path wire = Inr v) \<and> (\<exists>cs b. split_on CHR ''/'' wire = payload_root_dir # cs
      \<and> cand = root @ payload_root_dir # cs \<and> payload_at fs root cs b)"
  then obtain v cs b where h: "validate_vendored_wire_path wire = Inr v" "split_on CHR ''/'' wire = payload_root_dir # cs"
    "cand = root @ payload_root_dir # cs" "payload_at fs root cs b" by blast
  from h(4) obtain R m where R: "resolve_path fs max_links [] root = Inr (R, m)" "is_dir_at fs R"
    "fs (R @ [payload_root_dir]) = Some FsDir" and cs: "cs \<noteq> []"
    by (auto simp: payload_at_def dest!: plain_dirs_start simp: is_dir_snoc)
  have "check_wire_and_root fs root k u wire = Inr (root @ [payload_root_dir], cand, cs)"
    unfolding check_wire_and_root_Ok_iff root_metadata_dir_iff using h R cs by blast
  moreover have "walk_components fs k u cand (root @ [payload_root_dir]) cs = Inr ()"
    using payload_facts(1) [OF R cs] h(4) by blast
  ultimately show "resolve_vendored_path fs root k u wire = Inr cand"
    using payload_facts(2) [OF R cs h(4)] h(3) by (simp add: resolve_vendored_path_def)
qed

text \<open>C36: a vendored head is reported as byte-verified exactly when the lock entry declares vendored
  material with the digest of the record, the recorded path is a legal one below the payload
  directory, every component under the resolved corpus root is a real directory and never a link,
  and the path ends in a regular file whose bytes digest to the declared value.\<close>

theorem vendored_verified_iff:
  "verify_vendored_head X fs root k revision wire digest entry = Inr VerifiedBytes \<longleftrightarrow>
    le_material entry = LockAvailable digest LockVendored
    \<and> validate_vendored_wire_path wire = Inr ()
    \<and> (\<exists>cs b. split_on CHR ''/'' wire = payload_root_dir # cs \<and> payload_at fs root cs b
         \<and> digest = SourceContentDigest (sha256 X b))"
proof (cases "le_material entry = LockAvailable digest LockVendored")
  case False
  then show ?thesis by (auto simp: verify_vendored_head_def Let_def split: lock_material.splits if_splits)
next
  case True
  have read: "read_file_at fs (root @ payload_root_dir # cs) = Inr b" if "payload_at fs root cs b" for cs b
  proof -
    from that obtain R m where R: "resolve_path fs max_links [] root = Inr (R, m)" "is_dir_at fs R"
      "fs (R @ [payload_root_dir]) = Some FsDir" and cs: "cs \<noteq> []"
      by (auto simp: payload_at_def dest!: plain_dirs_start simp: is_dir_snoc)
    show ?thesis by (rule payload_facts(3) [OF R cs that])
  qed
  have "verify_vendored_head X fs root k revision wire digest entry = Inr VerifiedBytes \<longleftrightarrow>
    (\<exists>cand. resolve_vendored_path fs root k (sr_uid revision) wire = Inr cand
      \<and> (\<exists>b. read_file_at fs cand = Inr b \<and> digest = SourceContentDigest (sha256 X b)))"
    unfolding verify_vendored_head_def by (auto simp: True Let_def rbind_Ok_iff map_err_Ok_iff fail_if_Ok_iff)
  also have "\<dots> \<longleftrightarrow> validate_vendored_wire_path wire = Inr ()
    \<and> (\<exists>cs b. split_on CHR ''/'' wire = payload_root_dir # cs \<and> payload_at fs root cs b
         \<and> digest = SourceContentDigest (sha256 X b))"
    unfolding resolve_vendored_Ok_iff using read by (auto)
  finally show ?thesis using True by simp
qed

section \<open>The batch\<close>

text \<open>The batch has one entry per effective head, in document order.\<close>

theorem batch_covers_heads:
  assumes G: "cg_inv G" and ok: "verify_effective_sources X decode fs root G b = Inr rs"
  shows "map (\<lambda>r. (vr_document_key r, vr_source_uid r)) rs = effective_source_heads G"
proof -
  have head: "\<exists>r. cg_get G u = Some (SourceRevision r)" if "(k, u) \<in> set (effective_source_heads G)" for k u
  proof -
    have "(k, u) \<in> set m \<or> (\<exists>r \<in> set rv. u = sr_uid r)"
      if "(k, u) \<in> set (fold (\<lambda>revision heads. if sr_uid revision \<notin> all_superseded G
        then bins (sr_document_key revision) (sr_uid revision) heads else heads) rv m)" for m rv
      using that
    proof (induction rv arbitrary: m)
      case (Cons r rv)
      have "(k, u) \<in> set (bins a v m) \<Longrightarrow> (k, u) \<in> set m \<or> u = v" for a v and m :: "(string, uid) bmap"
        by (induction a v m rule: bins.induct) (auto split: if_splits)
      with Cons show ?case by (fastforce split: if_splits)
    qed simp
    with that obtain r where r: "r \<in> set (cg_revisions G)" "u = sr_uid r"
      unfolding effective_source_heads_def by fastforce
    then have "SourceRevision r \<in> set (cg_node_list G)"
      by (auto simp: cg_revisions_def List.map_filter_def elim!: as_revision.elims)
    with cg_nodes_iff_get [OF G, of "SourceRevision r"] r(2) show ?thesis by auto
  qed
  have "map (\<lambda>r. (vr_document_key r, vr_source_uid r)) (List.map_filter (\<lambda>(k, u). case cg_get G u of
       Some (SourceRevision revision) \<Rightarrow> Some \<lparr>vr_document_key = k, vr_source_uid = u, vr_outcome = f k revision\<rparr>
     | _ \<Rightarrow> None) hs) = hs"
    if "\<And>k u. (k, u) \<in> set hs \<Longrightarrow> \<exists>r. cg_get G u = Some (SourceRevision r)" for hs f
    using that
  proof (induction hs)
    case (Cons h hs)
    obtain k u where h: "h = (k, u)" by (cases h)
    with Cons.prems obtain r where "cg_get G u = Some (SourceRevision r)" by fastforce
    moreover note Cons.IH [OF Cons.prems, OF list.set_intros(2)]
    ultimately show ?case by (simp add: h List.map_filter_simps)
  qed (simp add: List.map_filter_simps)
  with ok head show ?thesis
    by (auto simp: verify_effective_sources_def rbind_Ok_iff Let_def)
qed

end
