(* ===== verification/Reproduction.thy ===== *)
theory Reproduction
  imports Verify_Bundle
begin

text \<open>
  Comparison of a candidate bundle with a baseline: inputs, recipe and outputs
  (\<^verbatim>\<open>verify/reproduction.rs\<close>). A bundle is a path and the tree behind it, \<open>None\<close> when the path
  is not a directory; a path in an I/O error is relative to the bundle. The readers of the JSON
  files are those of the codec.
\<close>

section \<open>JSON values\<close>

text \<open>Equality of \<^verbatim>\<open>serde_json::Value\<close>: a float is compared as a number, so the two zeros are
  equal. A document holds no NaN, and an object lists its members by key.\<close>

fun json_norm :: "json \<Rightarrow> json" where
  "json_norm (JFloat w) = JFloat (if w = push_bit 63 1 then 0 else w)"
| "json_norm (JArray vs) = JArray (map json_norm vs)"
| "json_norm (JObject ms) = JObject (map (\<lambda>m. (fst m, json_norm (snd m))) ms)"
| "json_norm v = v"

definition json_eq :: "json \<Rightarrow> json \<Rightarrow> bool" where
  "json_eq v w \<longleftrightarrow> json_norm v = json_norm w"

lemma json_eq_refl [simp]: "json_eq v v"
  by (simp add: json_eq_def)

lemma json_eq_sym: "json_eq v w = json_eq w v"
  by (auto simp: json_eq_def)

text \<open>\<^verbatim>\<open>get(key).cloned().unwrap_or(Null)\<close>.\<close>

definition json_field :: "string \<Rightarrow> json \<Rightarrow> json" where
  "json_field k v = (case json_get k v of Some w \<Rightarrow> w | None \<Rightarrow> JNull)"

section \<open>Findings\<close>

datatype reproduction_finding =
    InputChanged string
  | InputMissing string
  | InputUnverifiable string
  | RecipeFieldChanged string
  | RecipeUnavailable
  | OutputChanged string
  | OutputMissing string
  | OutputExtra string
  | OutputUnverifiable string

text \<open>The derived order: the declaration order of the variants, then the name.\<close>

fun finding_rank :: "reproduction_finding \<Rightarrow> nat \<times> string" where
  "finding_rank (InputChanged p) = (0, p)"
| "finding_rank (InputMissing p) = (1, p)"
| "finding_rank (InputUnverifiable p) = (2, p)"
| "finding_rank (RecipeFieldChanged f) = (3, f)"
| "finding_rank RecipeUnavailable = (4, [])"
| "finding_rank (OutputChanged a) = (5, a)"
| "finding_rank (OutputMissing a) = (6, a)"
| "finding_rank (OutputExtra a) = (7, a)"
| "finding_rank (OutputUnverifiable a) = (8, a)"

lemma finding_rank_inj: "finding_rank f = finding_rank g \<Longrightarrow> f = g"
  by (cases f; cases g) simp_all

instantiation reproduction_finding :: linorder
begin

definition less_eq_reproduction_finding :: "reproduction_finding \<Rightarrow> reproduction_finding \<Rightarrow> bool" where
  "f \<le> g \<longleftrightarrow> finding_rank f \<le> finding_rank g"

definition less_reproduction_finding :: "reproduction_finding \<Rightarrow> reproduction_finding \<Rightarrow> bool" where
  "f < g \<longleftrightarrow> finding_rank f < finding_rank g"

instance
  by standard (auto simp: less_eq_reproduction_finding_def less_reproduction_finding_def
    intro: finding_rank_inj)

end

datatype reproduction_error =
    ReproductionBundleNotFound string
  | ReproductionIo string io_error

section \<open>The planes\<close>

datatype hash_plane = LoadedPlane "(string, string) bmap" | UnavailablePlane

definition read_digest_map :: "codec \<Rightarrow> bundle_tree \<Rightarrow> string \<Rightarrow> reproduction_error + hash_plane" where
  "read_digest_map C bundle name =
    (if \<not> path_exists bundle name then Ok UnavailablePlane
     else rbind (map_err (ReproductionIo name) (read_bytes bundle name)) (\<lambda>b.
       Ok (case decode_string_map C b of Inr m \<Rightarrow> LoadedPlane m | Inl _ \<Rightarrow> UnavailablePlane)))"

definition read_recipe :: "codec \<Rightarrow> bundle_tree \<Rightarrow> reproduction_error + json option" where
  "read_recipe C bundle =
    (if \<not> path_exists bundle ''deterministic-manifest.json'' then Ok None
     else rbind (map_err (ReproductionIo ''deterministic-manifest.json'')
         (read_bytes bundle ''deterministic-manifest.json'')) (\<lambda>b.
       Ok (decode_value C b)))"

definition is_sha256_hex :: "string \<Rightarrow> bool" where
  "is_sha256_hex digest \<longleftrightarrow> length digest = 64 \<and> (\<forall>c \<in> set digest. is_hexdigit c \<and> \<not> is_ascii_upper c)"

record digest_plane_diff =
  pd_changed :: "string list"
  pd_base_only :: "string list"
  pd_cand_only :: "string list"
  pd_unverifiable :: "string list"

definition base_digest_step ::
  "(string, string) bmap \<Rightarrow> string \<times> string \<Rightarrow> digest_plane_diff \<Rightarrow> digest_plane_diff" where
  "base_digest_step cand entry diff =
    (case entry of (key, base_digest) \<Rightarrow>
     if \<not> is_sha256_hex base_digest then diff\<lparr>pd_unverifiable := pd_unverifiable diff @ [key]\<rparr>
     else case bget cand key of
       None \<Rightarrow> diff\<lparr>pd_base_only := pd_base_only diff @ [key]\<rparr>
     | Some cand_digest \<Rightarrow>
       if cand_digest \<noteq> base_digest then
         if is_sha256_hex cand_digest then diff\<lparr>pd_changed := pd_changed diff @ [key]\<rparr>
         else diff\<lparr>pd_unverifiable := pd_unverifiable diff @ [key]\<rparr>
       else diff)"

definition diff_digest_planes :: "(string, string) bmap \<Rightarrow> (string, string) bmap \<Rightarrow> digest_plane_diff" where
  "diff_digest_planes base cand =
    (let diff = fold (base_digest_step cand) base
       \<lparr>pd_changed = [], pd_base_only = [], pd_cand_only = [], pd_unverifiable = []\<rparr>
     in fold (\<lambda>key diff. if bget base key = None then diff\<lparr>pd_cand_only := pd_cand_only diff @ [key]\<rparr> else diff)
       (bkeys cand) diff)"

definition compare_inputs ::
  "codec \<Rightarrow> bundle_tree \<Rightarrow> bundle_tree \<Rightarrow> reproduction_error + reproduction_finding list" where
  "compare_inputs C baseline candidate =
    rbind (read_digest_map C baseline ''inputs_hashes.json'') (\<lambda>base.
    rbind (read_digest_map C candidate ''inputs_hashes.json'') (\<lambda>cand.
    Ok (case (base, cand) of
      (LoadedPlane base, LoadedPlane cand) \<Rightarrow>
        (let diff = diff_digest_planes base cand in
          map InputChanged (pd_changed diff) @ map InputMissing (pd_base_only diff @ pd_cand_only diff)
          @ map InputUnverifiable (pd_unverifiable diff))
    | _ \<Rightarrow> [InputUnverifiable ''inputs_hashes.json''])))"

definition recipe_fields :: "(string \<times> string) list" where
  "recipe_fields =
    [(''profile'', ''profile''), (''rustc'', ''rustc''), (''cargo'', ''cargo''),
     (''llvm_version'', ''llvm_version''), (''cargo_lock_hash'', ''dependency_lock''),
     (''rust_toolchain_toml'', ''rust_toolchain_toml''), (''rustflags'', ''rustflags''),
     (''target_triple'', ''target_triple''), (''features'', ''features''),
     (''locked_graph_hash'', ''locked_graph_hash''), (''command_recipe_hash'', ''command_recipe_hash''),
     (''inputs_hash'', ''inputs_hash''), (''resolution_policy'', ''resolution_policy'')]"

definition compare_recipe_fields :: "json \<Rightarrow> json \<Rightarrow> string list" where
  "compare_recipe_fields base cand = map snd (filter (\<lambda>(key, reported).
     \<not> json_eq (json_field key base) (json_field key cand)) recipe_fields)"

definition compare_recipe ::
  "codec \<Rightarrow> bundle_tree \<Rightarrow> bundle_tree \<Rightarrow> reproduction_error + reproduction_finding list" where
  "compare_recipe C baseline candidate =
    rbind (read_recipe C baseline) (\<lambda>base.
    rbind (read_recipe C candidate) (\<lambda>cand.
    Ok (case (base, cand) of
      (Some base, Some cand) \<Rightarrow> map RecipeFieldChanged (compare_recipe_fields base cand)
    | _ \<Rightarrow> [RecipeUnavailable])))"

definition compare_outputs ::
  "codec \<Rightarrow> bundle_tree \<Rightarrow> bundle_tree \<Rightarrow> reproduction_error + reproduction_finding list" where
  "compare_outputs C baseline candidate =
    rbind (read_digest_map C baseline ''outputs_hashes.json'') (\<lambda>base.
    rbind (read_digest_map C candidate ''outputs_hashes.json'') (\<lambda>cand.
    Ok (case (base, cand) of
      (LoadedPlane base, LoadedPlane cand) \<Rightarrow>
        (let diff = diff_digest_planes base cand in
          map OutputChanged (pd_changed diff) @ map OutputMissing (pd_base_only diff)
          @ map OutputUnverifiable (pd_unverifiable diff) @ map OutputExtra (pd_cand_only diff))
    | _ \<Rightarrow> [OutputUnverifiable ''outputs_hashes.json''])))"

type_synonym bundle_dir = "string \<times> bundle_tree option"

definition compare_reproduction ::
  "codec \<Rightarrow> bundle_dir \<Rightarrow> bundle_dir \<Rightarrow> reproduction_error + reproduction_finding list" where
  "compare_reproduction C baseline candidate =
    (case snd baseline of None \<Rightarrow> Err (ReproductionBundleNotFound (fst baseline))
     | Some base \<Rightarrow> (case snd candidate of None \<Rightarrow> Err (ReproductionBundleNotFound (fst candidate))
       | Some cand \<Rightarrow>
         rbind (compare_inputs C base cand) (\<lambda>inputs.
         rbind (compare_recipe C base cand) (\<lambda>recipe.
         rbind (compare_outputs C base cand) (\<lambda>outputs.
         Ok (sort (inputs @ recipe @ outputs)))))))"

end
