(* ===== verification/Bundle_Diff.thy ===== *)
theory Bundle_Diff
  imports Reproduction Coverage_Gate
begin

text \<open>
  Comparison of two bundles category by category (\<^verbatim>\<open>diff.rs\<close>): the report, the loading of the
  two sides, and the content categories (\<^verbatim>\<open>diff/categories_content.rs\<close>). A category collects notes:
  a note that sets the \<^verbatim>\<open>changed\<close> flag, one that sets \<^verbatim>\<open>unexaminable\<close>, each with its detail line.
  The readers of the files are those of the codec and four more.
\<close>

section \<open>The report\<close>

datatype diff_status = DiffEqual | DiffAdded | DiffRemoved | DiffChanged | DiffUnverifiable

record category_diff =
  cf_category :: string
  cf_status :: diff_status
  cf_details :: "string list"

definition category_order :: "string list" where
  "category_order = [''scope'', ''trace_graph'', ''tests'', ''coverage'', ''commands'', ''recipe'', ''inputs'',
     ''outputs'', ''objective_mappings'', ''reviews_approvals'', ''anomalies'', ''tool_identity'', ''integrity'',
     ''completeness_states'', ''content_hash'']"

datatype diff_error = DiffBundleNotFound string | DiffIo string io_error

definition finish :: "category_diff \<Rightarrow> category_diff" where
  "finish d = d\<lparr>cf_details := dedup (sort (cf_details d))\<rparr>"

definition unverifiable :: "string \<Rightarrow> string \<Rightarrow> category_diff" where
  "unverifiable category reason =
    \<lparr>cf_category = category, cf_status = DiffUnverifiable, cf_details = [''! '' @ reason]\<rparr>"

section \<open>Loading\<close>

datatype 'a load = LoadOk 'a | LoadMissing | LoadUnparseable

fun state_label :: "'a load \<Rightarrow> string" where
  "state_label (LoadOk _) = ''present''"
| "state_label LoadMissing = ''missing''"
| "state_label LoadUnparseable = ''unparseable''"

record side =
  sd_root :: bundle_tree
  sd_index :: "evidence_index load"

text \<open>The readers the comparison needs beside the codec: a row of the outcome file, the coverage
  report, a TOML document as the JSON tree \<^verbatim>\<open>serde\<close> makes of it, and the text of a JSON value.\<close>

record diff_readers =
  dr_codec :: codec
  dr_outcome :: "string \<Rightarrow> test_outcome_record option"
  dr_coverage :: "bytes \<Rightarrow> string + coverage_report"
  dr_toml :: "string \<Rightarrow> json option"
  dr_show :: "json \<Rightarrow> string"

definition read_json_file :: "(bytes \<Rightarrow> 'e + 'a) \<Rightarrow> bundle_tree \<Rightarrow> string \<Rightarrow> diff_error + 'a load" where
  "read_json_file decode dir rel =
    (if \<not> path_exists dir rel then Ok LoadMissing
     else rbind (map_err (DiffIo rel) (read_bytes dir rel)) (\<lambda>b.
       Ok (case decode b of Inr v \<Rightarrow> LoadOk v | Inl _ \<Rightarrow> LoadUnparseable)))"

definition load_side :: "codec \<Rightarrow> bundle_tree \<Rightarrow> diff_error + side" where
  "load_side C dir = rbind (read_json_file (decode_index C) dir ''index.json'') (\<lambda>index.
     Ok \<lparr>sd_root = dir, sd_index = index\<rparr>)"

definition value_reader :: "codec \<Rightarrow> bytes \<Rightarrow> unit + json" where
  "value_reader C b = (case decode_value C b of Some v \<Rightarrow> Inr v | None \<Rightarrow> Inl ())"

definition file_exists :: "side \<Rightarrow> string \<Rightarrow> bool" where
  "file_exists s rel = path_is_file (sd_root s) rel"

definition require_indexes :: "side \<Rightarrow> side \<Rightarrow> string \<Rightarrow> category_diff + evidence_index \<times> evidence_index" where
  "require_indexes a b category =
    (case (sd_index a, sd_index b) of
       (LoadOk ia, LoadOk ib) \<Rightarrow> Ok (ia, ib)
     | (LoadOk _, bad) \<Rightarrow> Err (unverifiable category (''index.json '' @ state_label bad @ '' in bundle B''))
     | (bad, LoadOk _) \<Rightarrow> Err (unverifiable category (''index.json '' @ state_label bad @ '' in bundle A''))
     | (bad_a, bad_b) \<Rightarrow> Err (unverifiable category (''index.json '' @ state_label bad_a
         @ '' in bundle A and '' @ state_label bad_b @ '' in bundle B'')))"

section \<open>Notes\<close>

datatype diff_note = ChangeNote string | GapNote string

fun note_text :: "diff_note \<Rightarrow> string" where
  "note_text (ChangeNote s) = s"
| "note_text (GapNote s) = s"

definition notes_changed :: "diff_note list \<Rightarrow> bool" where
  "notes_changed ns \<longleftrightarrow> (\<exists>n \<in> set ns. case n of ChangeNote _ \<Rightarrow> True | GapNote _ \<Rightarrow> False)"

definition notes_unexaminable :: "diff_note list \<Rightarrow> bool" where
  "notes_unexaminable ns \<longleftrightarrow> (\<exists>n \<in> set ns. case n of GapNote _ \<Rightarrow> True | ChangeNote _ \<Rightarrow> False)"

definition status_of :: "bool \<Rightarrow> bool \<Rightarrow> diff_status" where
  "status_of changed unexaminable =
    (if changed then DiffChanged else if unexaminable then DiffUnverifiable else DiffEqual)"

definition category_of_notes :: "string \<Rightarrow> diff_note list \<Rightarrow> category_diff" where
  "category_of_notes category ns = \<lparr>cf_category = category,
     cf_status = status_of (notes_changed ns) (notes_unexaminable ns), cf_details = map note_text ns\<rparr>"

text \<open>Categories whose status follows from whether there are details.\<close>

definition category_of_details :: "string \<Rightarrow> string list \<Rightarrow> category_diff" where
  "category_of_details category details = \<lparr>cf_category = category,
     cf_status = (if details = [] then DiffEqual else DiffChanged), cf_details = details\<rparr>"

definition presence_label :: "bool \<Rightarrow> string" where
  "presence_label present = (if present then ''present'' else ''absent'')"

definition arrow :: "string \<Rightarrow> string \<Rightarrow> string" where
  "arrow a b = a @ '' -> '' @ b"

definition value_label :: "diff_readers \<Rightarrow> json \<Rightarrow> string" where
  "value_label D v = (case json_str v of Some s \<Rightarrow> s | None \<Rightarrow> dr_show D v)"

text \<open>A labelled member of two objects.\<close>

definition field_note :: "diff_readers \<Rightarrow> string \<Rightarrow> json \<Rightarrow> json \<Rightarrow> diff_note list" where
  "field_note D label fa fb =
    push_if (\<not> json_eq fa fb) (ChangeNote (''~ '' @ label @ '': '' @ arrow (value_label D fa) (value_label D fb)))"

definition key_union :: "('k::linorder, 'v) bmap \<Rightarrow> ('k, 'w) bmap \<Rightarrow> 'k list" where
  "key_union a b = dedup (sort (bkeys a @ bkeys b))"

text \<open>Two maps compared key by key: what only the first has, what both have with values that do not
  agree, and what only the second has.\<close>

definition keyed_notes ::
  "('v \<Rightarrow> 'v \<Rightarrow> bool) \<Rightarrow> ('k \<Rightarrow> 'v \<Rightarrow> string) \<Rightarrow> ('k \<Rightarrow> 'v \<Rightarrow> 'v \<Rightarrow> string) \<Rightarrow> ('k \<Rightarrow> 'v \<Rightarrow> string)
    \<Rightarrow> ('k, 'v) bmap \<Rightarrow> ('k, 'v) bmap \<Rightarrow> diff_note list" where
  "keyed_notes agree removed altered added ma mb =
    concat (map (\<lambda>(k, v). case bget mb k of
        None \<Rightarrow> [ChangeNote (removed k v)]
      | Some w \<Rightarrow> push_if (\<not> agree v w) (ChangeNote (altered k v w))) ma)
    @ concat (map (\<lambda>(k, w). push_if (bget ma k = None) (ChangeNote (added k w))) mb)"

section \<open>The index as a JSON value\<close>

definition int_value :: "int \<Rightarrow> json" where
  "int_value n = (if 0 \<le> n then JPosInt (of_int n) else JNegInt n)"

fun completeness_str :: "completeness_state \<Rightarrow> string" where
  "completeness_str Complete = ''complete''"
| "completeness_str Incomplete = ''incomplete''"
| "completeness_str completeness_state.NotApplicable = ''not_applicable''"
| "completeness_str completeness_state.Unverifiable = ''unverifiable''"

definition completeness_value :: "completeness_states \<Rightarrow> json" where
  "completeness_value q = (let f = (\<lambda>s. JString (completeness_str s)) in JObject
    [(''capture'', f (cq_capture q)), (''graph_validity'', f (cq_graph_validity q)),
     (''verification'', f (cq_verification q)), (''objective_mapping'', f (cq_objective_mapping q)),
     (''review_approval'', f (cq_review_approval q)), (''integrity'', f (cq_integrity q)),
     (''reproducibility'', f (cq_reproducibility q)), (''tool_qualification'', f (cq_tool_qualification q))])"

definition policy_value :: "boundary_policy \<Rightarrow> json" where
  "policy_value p = JObject [(''no_out_of_scope_deps'', JBool (bp_no_out_of_scope_deps p)),
     (''forbid_build_rs'', JBool (bp_forbid_build_rs p)), (''forbid_proc_macros'', JBool (bp_forbid_proc_macros p))]"

definition summary_value :: "test_summary \<Rightarrow> json" where
  "summary_value s = JObject [(''total'', JPosInt (ucast (sm_total s))), (''passed'', JPosInt (ucast (sm_passed s))),
     (''failed'', JPosInt (ucast (sm_failed s))), (''ignored'', JPosInt (ucast (sm_ignored s))),
     (''filtered_out'', JPosInt (ucast (sm_filtered_out s)))]"

definition failure_value :: "tool_command_failure \<Rightarrow> json" where
  "failure_value f = JObject [(''command_name'', JString (tf_command_name f)), (''exit_code'', int_value (tf_exit_code f)),
     (''stderr_tail'', JString (tf_stderr_tail f))]"

text \<open>The absent summary, an empty failure list, an empty assurance map and a boundary policy with
  no rule are skipped.\<close>

definition index_value :: "evidence_index \<Rightarrow> json" where
  "index_value i = JObject
    ([(''schema_version'', JString (ix_schema_version i)),
      (''boundary_schema_version'', JString (ix_boundary_schema_version i)),
      (''trace_schema_version'', JString (ix_trace_schema_version i)),
      (''profile'', JString (profile_display (ix_profile i))),
      (''timestamp_rfc3339'', JString (ix_timestamp_rfc3339 i)),
      (''git_sha'', JString (ix_git_sha i)), (''git_branch'', JString (ix_git_branch i)),
      (''git_dirty'', JBool (ix_git_dirty i)),
      (''engine_crate_version'', JString (ix_engine_crate_version i)),
      (''engine_git_sha'', JString (ix_engine_git_sha i)),
      (''engine_build_source'', JString (ix_engine_build_source i)),
      (''inputs_hashes_file'', JString (ix_inputs_hashes_file i)),
      (''outputs_hashes_file'', JString (ix_outputs_hashes_file i)),
      (''commands_file'', JString (ix_commands_file i)),
      (''env_fingerprint_file'', JString (ix_env_fingerprint_file i)),
      (''trace_roots'', JArray (map JString (ix_trace_roots i))),
      (''trace_outputs'', JArray (map JString (ix_trace_outputs i))),
      (''bundle_complete'', JBool (ix_bundle_complete i)),
      (''content_hash'', JString (ix_content_hash i)), (''recipe_hash'', JString (ix_recipe_hash i))]
     @ (case ix_test_summary i of None \<Rightarrow> [] | Some s \<Rightarrow> [(''test_summary'', summary_value s)])
     @ (if ix_tool_command_failures i = [] then []
        else [(''tool_command_failures'', JArray (map failure_value (ix_tool_command_failures i)))])
     @ (if ix_dal_map i = [] then []
        else [(''dal_map'', JObject (map (\<lambda>e. (fst e, JString (snd e))) (ix_dal_map i)))])
     @ (if is_default_boundary_policy (ix_boundary_policy i) then []
        else [(''boundary_policy'', policy_value (ix_boundary_policy i))])
     @ [(''resolution_policy'', JString (resolution_as_str (ix_resolution_policy i))),
        (''completeness'', completeness_value (ix_completeness i))])"

section \<open>Scope\<close>

definition json_object :: "json \<Rightarrow> (string \<times> json) list option" where
  "json_object v = (case v of JObject ms \<Rightarrow> Some ms | _ \<Rightarrow> None)"

definition dal_members :: "json \<Rightarrow> (string, json) bmap" where
  "dal_members v = (case Option.bind (json_get ''dal_map'' v) json_object of Some ms \<Rightarrow> ms | None \<Rightarrow> [])"

definition dal_notes :: "diff_readers \<Rightarrow> (string, json) bmap \<Rightarrow> (string, json) bmap \<Rightarrow> string \<Rightarrow> diff_note list" where
  "dal_notes D dal_a dal_b krate =
    (let label = ''dal_map['' @ krate @ '']'' in
     case (bget dal_a krate, bget dal_b krate) of
       (Some la, Some lb) \<Rightarrow> push_if (value_label D la \<noteq> value_label D lb)
         (ChangeNote (''~ '' @ label @ '': '' @ arrow (value_label D la) (value_label D lb)))
     | (Some la, None) \<Rightarrow> [ChangeNote (''- '' @ label @ '': '' @ value_label D la)]
     | (None, Some lb) \<Rightarrow> [ChangeNote (''+ '' @ label @ '': '' @ value_label D lb)]
     | (None, None) \<Rightarrow> [])"

definition scope_fields :: "string list" where
  "scope_fields = [''profile'', ''schema_version'', ''boundary_schema_version'', ''trace_schema_version'',
     ''git_sha'', ''git_branch'', ''git_dirty'', ''resolution_policy'']"

definition boundary_flags :: "string list" where
  "boundary_flags = [''no_out_of_scope_deps'', ''forbid_build_rs'', ''forbid_proc_macros'']"

definition flag_value :: "string \<Rightarrow> json \<Rightarrow> json" where
  "flag_value flag v = (case Option.bind (json_get ''boundary_policy'' v) (json_get flag) of
     Some w \<Rightarrow> w | None \<Rightarrow> JNull)"

definition scope_notes :: "diff_readers \<Rightarrow> json \<Rightarrow> json \<Rightarrow> diff_note list" where
  "scope_notes D va vb =
    concat (map (\<lambda>f. field_note D f (json_field f va) (json_field f vb)) scope_fields)
    @ concat (map (dal_notes D (dal_members va) (dal_members vb)) (key_union (dal_members va) (dal_members vb)))
    @ concat (map (\<lambda>flag. field_note D (''boundary_policy.'' @ flag) (flag_value flag va) (flag_value flag vb))
        boundary_flags)"

definition scope :: "diff_readers \<Rightarrow> side \<Rightarrow> side \<Rightarrow> category_diff" where
  "scope D a b = (case require_indexes a b ''scope'' of
     Inl diff \<Rightarrow> diff
   | Inr (ia, ib) \<Rightarrow> category_of_notes ''scope'' (scope_notes D (index_value ia) (index_value ib)))"

section \<open>The trace graph\<close>

type_synonym compared_entries = "(string, string \<times> json) bmap"

definition entry_item :: "json \<Rightarrow> compared_entries \<Rightarrow> compared_entries" where
  "entry_item entry entries =
    (let i = (case str_member ''id'' entry of Some s \<Rightarrow> s | None \<Rightarrow> ''(no id)'');
         u = (case str_member ''uid'' entry of Some s \<Rightarrow> s | None \<Rightarrow> ''id:'' @ i)
     in bins u (i, entry) entries)"

definition collect_entries :: "json \<Rightarrow> compared_entries" where
  "collect_entries v = fold (\<lambda>key entries. case Option.bind (json_get key v) json_array of
     Some items \<Rightarrow> fold entry_item items entries | None \<Rightarrow> entries) [''requirements'', ''tests''] []"

definition read_trace_entries :: "diff_readers \<Rightarrow> side \<Rightarrow> string \<Rightarrow> diff_error + compared_entries load" where
  "read_trace_entries D s name =
    (let path = ''trace/'' @ name in
     if \<not> path_exists (sd_root s) path then Ok LoadMissing
     else rbind (map_err (DiffIo path) (read_to_string (sd_root s) path)) (\<lambda>content.
       Ok (case dr_toml D content of None \<Rightarrow> LoadUnparseable | Some v \<Rightarrow> LoadOk (collect_entries v))))"

definition entry_notes :: "string \<Rightarrow> compared_entries \<Rightarrow> compared_entries \<Rightarrow> diff_note list" where
  "entry_notes name = keyed_notes (\<lambda>(_, ja) (_, jb). json_eq jb ja) (\<lambda>_ (i, _). ''- '' @ name @ '': '' @ i)
     (\<lambda>_ (i, _) _. ''~ '' @ name @ '': '' @ i) (\<lambda>_ (i, _). ''+ '' @ name @ '': '' @ i)"

definition trace_file_notes :: "string \<Rightarrow> compared_entries load \<Rightarrow> compared_entries load \<Rightarrow> diff_note list" where
  "trace_file_notes name ea eb = (case (ea, eb) of
     (LoadUnparseable, _) \<Rightarrow> [GapNote (''! trace/'' @ name @ '' unparseable in bundle A'')]
   | (_, LoadUnparseable) \<Rightarrow> [GapNote (''! trace/'' @ name @ '' unparseable in bundle B'')]
   | (LoadMissing, LoadMissing) \<Rightarrow> []
   | (LoadMissing, LoadOk m) \<Rightarrow> ChangeNote (''! trace/'' @ name @ '' absent in bundle A'')
       # map (\<lambda>e. ChangeNote (''+ '' @ name @ '': '' @ fst e)) (bvals m)
   | (LoadOk m, LoadMissing) \<Rightarrow> ChangeNote (''! trace/'' @ name @ '' absent in bundle B'')
       # map (\<lambda>e. ChangeNote (''- '' @ name @ '': '' @ fst e)) (bvals m)
   | (LoadOk ma, LoadOk mb) \<Rightarrow> entry_notes name ma mb)"

definition compared_trace_files :: "string list" where
  "compared_trace_files = [''hlr.toml'', ''llr.toml'', ''tests.toml'', ''derived.toml'']"

definition presence_note :: "string \<Rightarrow> bool \<Rightarrow> bool \<Rightarrow> diff_note list" where
  "presence_note label pa pb = push_if (pa \<noteq> pb)
     (ChangeNote (''~ '' @ label @ '': '' @ arrow (presence_label pa) (presence_label pb)))"

definition trace_graph :: "diff_readers \<Rightarrow> side \<Rightarrow> side \<Rightarrow> diff_error + category_diff" where
  "trace_graph D a b = (case (path_is_dir (sd_root a) ''trace'', path_is_dir (sd_root b) ''trace'') of
     (False, False) \<Rightarrow> Ok (unverifiable ''trace_graph'' ''trace/ absent in both bundles'')
   | (False, True) \<Rightarrow> Ok (unverifiable ''trace_graph'' ''trace/ absent in bundle A'')
   | (True, False) \<Rightarrow> Ok (unverifiable ''trace_graph'' ''trace/ absent in bundle B'')
   | (True, True) \<Rightarrow>
       rbind (fold_res (\<lambda>notes name.
           rbind (read_trace_entries D a name) (\<lambda>ea. rbind (read_trace_entries D b name) (\<lambda>eb.
           Ok (notes @ trace_file_notes name ea eb)))) [] compared_trace_files) (\<lambda>notes.
       Ok (category_of_notes ''trace_graph'' (notes @ presence_note ''trace/matrix.md''
         (file_exists a ''trace/matrix.md'') (file_exists b ''trace/matrix.md'')))))"

section \<open>Recipe and digest planes\<close>

definition which_side :: "bool \<Rightarrow> bool \<Rightarrow> string" where
  "which_side a b = (case (a, b) of (True, True) \<Rightarrow> ''both bundles'' | (True, False) \<Rightarrow> ''bundle A''
     | (False, True) \<Rightarrow> ''bundle B'' | (False, False) \<Rightarrow> ''neither bundle'')"

fun map_reproduction_error :: "reproduction_error \<Rightarrow> diff_error" where
  "map_reproduction_error (ReproductionIo path e) = DiffIo path e"
| "map_reproduction_error (ReproductionBundleNotFound path) = DiffBundleNotFound path"

definition diff_recipe :: "diff_readers \<Rightarrow> side \<Rightarrow> side \<Rightarrow> diff_error + category_diff" where
  "diff_recipe D a b =
    rbind (map_err map_reproduction_error (read_recipe (dr_codec D) (sd_root a))) (\<lambda>ra.
    rbind (map_err map_reproduction_error (read_recipe (dr_codec D) (sd_root b))) (\<lambda>rb.
    Ok (case (ra, rb) of
      (Some ra, Some rb) \<Rightarrow> category_of_details ''recipe'' (map (\<lambda>f. ''~ '' @ f) (compare_recipe_fields ra rb))
    | _ \<Rightarrow> unverifiable ''recipe'' (''deterministic-manifest.json missing or unparseable in ''
        @ which_side (ra = None) (rb = None)))))"

definition digest_plane :: "diff_readers \<Rightarrow> side \<Rightarrow> side \<Rightarrow> string \<Rightarrow> diff_error + category_diff" where
  "digest_plane D a b category =
    (let path = category @ ''_hashes.json'' in
     rbind (map_err map_reproduction_error (read_digest_map (dr_codec D) (sd_root a) path)) (\<lambda>pa.
     rbind (map_err map_reproduction_error (read_digest_map (dr_codec D) (sd_root b) path)) (\<lambda>pb.
     Ok (case (pa, pb) of
       (LoadedPlane ma, LoadedPlane mb) \<Rightarrow>
         (let diff = diff_digest_planes ma mb in category_of_details category
           (map (\<lambda>p. ''! '' @ p @ '' (malformed digest)'') (pd_unverifiable diff)
            @ map (\<lambda>p. ''+ '' @ p) (pd_cand_only diff) @ map (\<lambda>p. ''- '' @ p) (pd_base_only diff)
            @ map (\<lambda>p. ''~ '' @ p) (pd_changed diff)))
     | _ \<Rightarrow> unverifiable category (path @ '' missing or unparseable in ''
         @ which_side (pa = UnavailablePlane) (pb = UnavailablePlane))))))"

end
