(* ===== verification/Diff_Capture.thy ===== *)
theory Diff_Capture
  imports Bundle_Diff
begin

text \<open>
  The capture categories of the comparison (\<^verbatim>\<open>diff/categories_capture.rs\<close>): tests, coverage
  and commands. Sums of counts wrap.
\<close>

section \<open>Tests\<close>

record test_side =
  td_summary :: "test_summary option"
  td_outcomes :: "test_outcome_record list load"
  td_stdout_log :: bool
  td_stderr_log :: bool

definition outcome_line ::
  "diff_readers \<Rightarrow> test_outcome_record list option \<Rightarrow> string \<Rightarrow> test_outcome_record list option" where
  "outcome_line D rows line = (case rows of None \<Rightarrow> None
     | Some rs \<Rightarrow> if trim line = [] then Some rs
         else (case dr_outcome D line of Some r \<Rightarrow> Some (rs @ [r]) | None \<Rightarrow> None))"

definition read_outcomes_jsonl ::
  "diff_readers \<Rightarrow> bundle_tree \<Rightarrow> diff_error + test_outcome_record list load" where
  "read_outcomes_jsonl D dir =
    (if \<not> path_exists dir ''tests/test_outcomes.jsonl'' then Ok LoadMissing
     else rbind (map_err (DiffIo ''tests/test_outcomes.jsonl'') (read_to_string dir ''tests/test_outcomes.jsonl''))
       (\<lambda>content. Ok (case fold (\<lambda>line rows. outcome_line D rows line) (str_lines content) (Some []) of
          Some rows \<Rightarrow> LoadOk rows | None \<Rightarrow> LoadUnparseable)))"

definition load_test_side :: "diff_readers \<Rightarrow> side \<Rightarrow> diff_error + test_side" where
  "load_test_side D s = rbind (read_outcomes_jsonl D (sd_root s)) (\<lambda>outcomes.
     Ok \<lparr>td_summary = (case sd_index s of LoadOk index \<Rightarrow> ix_test_summary index | _ \<Rightarrow> None),
         td_outcomes = outcomes,
         td_stdout_log = file_exists s ''tests/cargo_test_stdout.txt'',
         td_stderr_log = file_exists s ''tests/cargo_test_stderr.txt''\<rparr>)"

definition has_data :: "test_side \<Rightarrow> bool" where
  "has_data t \<longleftrightarrow> td_summary t \<noteq> None
    \<or> (case td_outcomes t of LoadOk rows \<Rightarrow> rows \<noteq> [] | _ \<Rightarrow> False)
    \<or> td_stdout_log t \<or> td_stderr_log t"

definition describe_side :: "test_side \<Rightarrow> string" where
  "describe_side t =
    (let parts = (case td_summary t of
           Some s \<Rightarrow> [''summary total='' @ show_u32 (sm_total s) @ '' passed='' @ show_u32 (sm_passed s)
             @ '' failed='' @ show_u32 (sm_failed s)] | None \<Rightarrow> [])
         @ (case td_outcomes t of LoadOk rows \<Rightarrow> [show_nat (length rows) @ '' outcome row(s)''] | _ \<Rightarrow> []);
         logs = push_if (td_stdout_log t) ''stdout'' @ push_if (td_stderr_log t) ''stderr'';
         parts = parts @ push_if (logs \<noteq> []) (''captured logs: '' @ join_with ''+'' logs)
     in if parts = [] then ''no recorded detail'' else join_with ''; '' parts)"

definition outcome_key :: "test_outcome_record \<Rightarrow> string" where
  "outcome_key row = tro_module_path row @ ''::'' @ tro_name row"

definition outcome_label :: "test_outcome_record \<Rightarrow> string" where
  "outcome_label row = (if tro_ignored row then ''ignored'' else if tro_passed row then ''passed'' else ''failed'')"

definition count_note :: "string \<Rightarrow> u32 \<Rightarrow> u32 \<Rightarrow> diff_note list" where
  "count_note label va vb = push_if (va \<noteq> vb)
     (ChangeNote (''~ test_summary.'' @ label @ '': '' @ arrow (show_u32 va) (show_u32 vb)))"

definition summary_notes :: "test_summary option \<Rightarrow> test_summary option \<Rightarrow> diff_note list" where
  "summary_notes a b = (case (a, b) of
     (Some sa, Some sb) \<Rightarrow> count_note ''total'' (sm_total sa) (sm_total sb)
       @ count_note ''passed'' (sm_passed sa) (sm_passed sb) @ count_note ''failed'' (sm_failed sa) (sm_failed sb)
       @ count_note ''ignored'' (sm_ignored sa) (sm_ignored sb)
       @ count_note ''filtered_out'' (sm_filtered_out sa) (sm_filtered_out sb)
   | _ \<Rightarrow> push_if ((a = None) \<noteq> (b = None)) (ChangeNote (''~ test_summary: ''
       @ arrow (presence_label (a \<noteq> None)) (presence_label (b \<noteq> None)))))"

definition outcome_map :: "test_outcome_record list \<Rightarrow> (string, test_outcome_record) bmap" where
  "outcome_map rows = fold (\<lambda>r. bins (outcome_key r) r) rows []"

definition row_notes ::
  "(string, test_outcome_record) bmap \<Rightarrow> (string, test_outcome_record) bmap \<Rightarrow> diff_note list" where
  "row_notes = keyed_notes
     (\<lambda>row_a row_b. (tro_passed row_a, tro_ignored row_a) = (tro_passed row_b, tro_ignored row_b))
     (\<lambda>key row_a. ''- '' @ key @ '' ('' @ outcome_label row_a @ '')'')
     (\<lambda>key row_a row_b. ''~ '' @ key @ '': '' @ arrow (outcome_label row_a) (outcome_label row_b))
     (\<lambda>key row_b. ''+ '' @ key @ '' ('' @ outcome_label row_b @ '')'')"

definition outcome_notes ::
  "test_outcome_record list load \<Rightarrow> test_outcome_record list load \<Rightarrow> diff_note list" where
  "outcome_notes a b = (case (a, b) of
     (LoadUnparseable, _) \<Rightarrow> [GapNote ''! tests/test_outcomes.jsonl unparseable in bundle A'']
   | (_, LoadUnparseable) \<Rightarrow> [GapNote ''! tests/test_outcomes.jsonl unparseable in bundle B'']
   | (LoadMissing, LoadMissing) \<Rightarrow> []
   | (LoadMissing, LoadOk rows) \<Rightarrow> ChangeNote ''! tests/test_outcomes.jsonl absent in bundle A''
       # map (\<lambda>row. ChangeNote (''+ '' @ outcome_key row @ '' ('' @ outcome_label row @ '')'')) rows
   | (LoadOk rows, LoadMissing) \<Rightarrow> ChangeNote ''! tests/test_outcomes.jsonl absent in bundle B''
       # map (\<lambda>row. ChangeNote (''- '' @ outcome_key row @ '' ('' @ outcome_label row @ '')'')) rows
   | (LoadOk ra, LoadOk rb) \<Rightarrow> row_notes (outcome_map ra) (outcome_map rb))"

definition one_sided_tests :: "diff_status \<Rightarrow> string \<Rightarrow> test_side \<Rightarrow> category_diff" where
  "one_sided_tests status label present = \<lparr>cf_category = ''tests'', cf_status = status,
     cf_details = [''test evidence present only in bundle '' @ label @ '': '' @ describe_side present]\<rparr>"

definition diff_tests :: "diff_readers \<Rightarrow> side \<Rightarrow> side \<Rightarrow> diff_error + category_diff" where
  "diff_tests D a b =
    rbind (load_test_side D a) (\<lambda>ta. rbind (load_test_side D b) (\<lambda>tb.
    Ok (if \<not> has_data ta \<and> \<not> has_data tb
        then \<lparr>cf_category = ''tests'', cf_status = DiffEqual, cf_details = [''no test artifacts on either side'']\<rparr>
        else if has_data ta \<noteq> has_data tb
        then (if has_data tb then one_sided_tests DiffAdded ''B'' tb else one_sided_tests DiffRemoved ''A'' ta)
        else category_of_notes ''tests'' (summary_notes (td_summary ta) (td_summary tb)
          @ outcome_notes (td_outcomes ta) (td_outcomes tb)
          @ presence_note ''tests/cargo_test_stdout.txt'' (td_stdout_log ta) (td_stdout_log tb)
          @ presence_note ''tests/cargo_test_stderr.txt'' (td_stderr_log ta) (td_stderr_log tb)))))"

section \<open>Coverage\<close>

definition level_order :: "coverage_level list" where
  "level_order = [StatementLevel, BranchLevel, PatternDecisionLevel, McdcLevel]"

fun level_label :: "coverage_level \<Rightarrow> string" where
  "level_label StatementLevel = ''statement''"
| "level_label BranchLevel = ''branch''"
| "level_label PatternDecisionLevel = ''pattern_decision''"
| "level_label McdcLevel = ''mcdc''"

definition aggregate_lines :: "measurement \<Rightarrow> u64 \<times> u64" where
  "aggregate_lines m = (sum_list (map (\<lambda>f. lc_covered (fm_lines f)) (ms_per_file m)),
     sum_list (map (\<lambda>f. lc_total (fm_lines f)) (ms_per_file m)))"

definition aggregate_branches :: "measurement \<Rightarrow> (u64 \<times> u64) option" where
  "aggregate_branches m =
    (let bs = List.map_filter fm_branches (ms_per_file m) in
     if bs = [] then None else Some (sum_list (map bc_covered bs), sum_list (map bc_total bs)))"

definition show_pair :: "u64 \<times> u64 \<Rightarrow> string" where
  "show_pair p = show_nat (unat (fst p)) @ ''/'' @ show_nat (unat (snd p))"

definition branch_notes :: "string \<Rightarrow> (u64 \<times> u64) option \<Rightarrow> (u64 \<times> u64) option \<Rightarrow> diff_note list" where
  "branch_notes label ba bb = (case (ba, bb) of
     (Some x, Some y) \<Rightarrow> push_if (x \<noteq> y) (ChangeNote (''~ '' @ label @ '' branch coverage: ''
       @ arrow (show_pair x) (show_pair y)))
   | _ \<Rightarrow> push_if ((ba = None) \<noteq> (bb = None)) (ChangeNote (''~ '' @ label @ '' branch data: ''
       @ arrow (presence_label (ba \<noteq> None)) (presence_label (bb \<noteq> None)))))"

definition measurement_notes :: "string \<Rightarrow> measurement \<Rightarrow> measurement \<Rightarrow> diff_note list" where
  "measurement_notes label ma mb =
    push_if (aggregate_lines ma \<noteq> aggregate_lines mb) (ChangeNote (''~ '' @ label @ '' line coverage: ''
      @ arrow (show_pair (aggregate_lines ma)) (show_pair (aggregate_lines mb))))
    @ branch_notes label (aggregate_branches ma) (aggregate_branches mb)
    @ push_if (ms_engine_version ma \<noteq> ms_engine_version mb) (ChangeNote (''~ '' @ label @ '' engine_version: ''
      @ arrow (ms_engine_version ma) (ms_engine_version mb)))"

definition level_notes :: "coverage_report \<Rightarrow> coverage_report \<Rightarrow> coverage_level \<Rightarrow> diff_note list" where
  "level_notes ca cb level =
    (let found = (\<lambda>c. find (\<lambda>m. ms_level m = level) (cv_measurements c)) in
     case (found ca, found cb) of
       (None, None) \<Rightarrow> []
     | (Some _, None) \<Rightarrow> [ChangeNote (''- '' @ level_label level @ '' measurement'')]
     | (None, Some _) \<Rightarrow> [ChangeNote (''+ '' @ level_label level @ '' measurement'')]
     | (Some ma, Some mb) \<Rightarrow> measurement_notes (level_label level) ma mb)"

definition report_notes :: "coverage_report load \<Rightarrow> coverage_report load \<Rightarrow> diff_note list" where
  "report_notes ra rb =
    (let gap = (\<lambda>s. [GapNote (''! coverage/coverage_summary.json '' @ s)]) in case (ra, rb) of
      (LoadUnparseable, _) \<Rightarrow> gap ''unparseable in bundle A''
    | (_, LoadUnparseable) \<Rightarrow> gap ''unparseable in bundle B''
    | (LoadMissing, LoadMissing) \<Rightarrow> []
    | (LoadMissing, _) \<Rightarrow> gap ''absent in bundle A''
    | (_, LoadMissing) \<Rightarrow> gap ''absent in bundle B''
    | (LoadOk ca, LoadOk cb) \<Rightarrow> concat (map (level_notes ca cb) level_order))"

text \<open>Here an unexaminable part dominates a difference.\<close>

definition coverage_category :: "diff_note list \<Rightarrow> category_diff" where
  "coverage_category notes = (let
     status = (if notes_unexaminable notes then DiffUnverifiable else status_of (notes_changed notes) False);
     details = map note_text notes
   in \<lparr>cf_category = ''coverage'', cf_status = status,
        cf_details = (if status = DiffEqual \<and> details = [] then [''no coverage data on either side''] else details)\<rparr>)"

definition diff_coverage :: "diff_readers \<Rightarrow> side \<Rightarrow> side \<Rightarrow> diff_error + category_diff" where
  "diff_coverage D a b =
    rbind (read_json_file (dr_coverage D) (sd_root a) ''coverage/coverage_summary.json'') (\<lambda>ra.
    rbind (read_json_file (dr_coverage D) (sd_root b) ''coverage/coverage_summary.json'') (\<lambda>rb.
    Ok (coverage_category (report_notes ra rb @ presence_note ''coverage/lcov.info''
          (file_exists a ''coverage/lcov.info'') (file_exists b ''coverage/lcov.info'')))))"

section \<open>Commands\<close>

definition show_int :: "int \<Rightarrow> string" where
  "show_int n = (if n < 0 then ''-'' @ show_nat (nat (- n)) else show_nat (nat n))"

definition captured_present :: "side \<Rightarrow> string option \<Rightarrow> bool" where
  "captured_present s p = (case p of Some rel \<Rightarrow> file_exists s rel | None \<Rightarrow> False)"

definition captured_detail :: "side \<Rightarrow> side \<Rightarrow> nat \<Rightarrow> string \<Rightarrow> string option \<Rightarrow> string option \<Rightarrow> string list" where
  "captured_detail a b i label pa pb =
    push_if (captured_present a pa \<noteq> captured_present b pb) (''~ row '' @ show_nat i @ '' captured '' @ label @ '': ''
      @ arrow (presence_label (captured_present a pa)) (presence_label (captured_present b pb)))"

definition command_row_details ::
  "side \<Rightarrow> side \<Rightarrow> nat \<times> command_record \<times> command_record \<Rightarrow> string list" where
  "command_row_details a b row = (case row of (i, row_a, row_b) \<Rightarrow>
     push_if (cr_argv row_a \<noteq> cr_argv row_b) (''~ row '' @ show_nat i @ '' argv: ''
       @ arrow (join_with '' '' (cr_argv row_a)) (join_with '' '' (cr_argv row_b)))
     @ push_if (cr_exit_code row_a \<noteq> cr_exit_code row_b) (''~ row '' @ show_nat i @ '' exit_code: ''
       @ arrow (show_int (cr_exit_code row_a)) (show_int (cr_exit_code row_b)))
     @ captured_detail a b i ''stdout'' (cr_stdout_path row_a) (cr_stdout_path row_b)
     @ captured_detail a b i ''stderr'' (cr_stderr_path row_a) (cr_stderr_path row_b))"

definition extra_rows :: "string \<Rightarrow> nat \<Rightarrow> command_record list \<Rightarrow> string list" where
  "extra_rows mark common rows =
    map (\<lambda>(i, row). mark @ ''row '' @ show_nat i @ '': '' @ join_with '' '' (cr_argv row))
      (drop common (zip [0..<length rows] rows))"

definition commands_reason :: "command_record list load \<Rightarrow> command_record list load \<Rightarrow> string" where
  "commands_reason ca cb = (case (ca, cb) of
     (LoadMissing, LoadMissing) \<Rightarrow> ''commands.json missing in both bundles''
   | (LoadMissing, _) \<Rightarrow> ''commands.json missing in bundle A''
   | (_, LoadMissing) \<Rightarrow> ''commands.json missing in bundle B''
   | (LoadUnparseable, _) \<Rightarrow> ''commands.json unparseable in bundle A''
   | (_, LoadUnparseable) \<Rightarrow> ''commands.json unparseable in bundle B''
   | _ \<Rightarrow> ''commands.json unavailable'')"

definition command_details :: "side \<Rightarrow> side \<Rightarrow> command_record list \<Rightarrow> command_record list \<Rightarrow> string list" where
  "command_details a b ra rb =
    (let common = min (length ra) (length rb) in
     concat (map (command_row_details a b) (take common (zip [0..<length ra] (zip ra rb))))
     @ extra_rows ''- '' common ra @ extra_rows ''+ '' common rb)"

definition diff_commands :: "diff_readers \<Rightarrow> side \<Rightarrow> side \<Rightarrow> diff_error + category_diff" where
  "diff_commands D a b =
    rbind (read_json_file (decode_commands (dr_codec D)) (sd_root a) ''commands.json'') (\<lambda>ca.
    rbind (read_json_file (decode_commands (dr_codec D)) (sd_root b) ''commands.json'') (\<lambda>cb.
    Ok (case (ca, cb) of
      (LoadOk ra, LoadOk rb) \<Rightarrow> category_of_details ''commands'' (command_details a b ra rb)
    | _ \<Rightarrow> unverifiable ''commands'' (commands_reason ca cb))))"

end
