(* ===== verification/Diff_Assurance.thy ===== *)
theory Diff_Assurance
  imports Diff_Capture
begin

text \<open>
  The assurance categories of the comparison (\<^verbatim>\<open>diff/categories_assurance.rs\<close>) and the whole
  comparison (\<^verbatim>\<open>compare_bundles\<close> of \<^verbatim>\<open>diff.rs\<close>). A directory is read in the order of its names.
\<close>

section \<open>Objective mappings\<close>

definition ends_with :: "string \<Rightarrow> string \<Rightarrow> bool" where
  "ends_with suffix s \<longleftrightarrow> strip_suffix suffix s \<noteq> None"

definition load_compliance_reports :: "diff_readers \<Rightarrow> side \<Rightarrow> diff_error + (string, json load) bmap" where
  "load_compliance_reports D s =
    (if \<not> path_is_dir (sd_root s) ''compliance'' then Ok []
     else fold_res (\<lambda>reports name.
       if \<not> ends_with ''.json'' name then Ok reports
       else rbind (read_json_file (value_reader (dr_codec D)) (sd_root s) (''compliance/'' @ name)) (\<lambda>r.
         Ok (bins name r reports))) [] (dir_entries (sd_root s) [''compliance'']))"

text \<open>\<^verbatim>\<open>trim_end_matches\<close> removes the suffix as often as it occurs.\<close>

function trim_end_matches :: "string \<Rightarrow> string \<Rightarrow> string" where
  "trim_end_matches suffix s = (case strip_suffix suffix s of
     Some r \<Rightarrow> if length r < length s then trim_end_matches suffix r else s
   | None \<Rightarrow> s)"
  by pat_completeness auto

termination by (relation "measure (\<lambda>(_, s). length s)") auto

definition objective_statuses :: "diff_readers \<Rightarrow> json \<Rightarrow> (string, string) bmap" where
  "objective_statuses D v = (case Option.bind (json_get ''objectives'' v) json_array of
     None \<Rightarrow> []
   | Some items \<Rightarrow> fold (\<lambda>o' m. case str_member ''objective_id'' o' of
         None \<Rightarrow> m
       | Some i \<Rightarrow> bins i (case json_get ''status'' o' of Some st \<Rightarrow> value_label D st | None \<Rightarrow> ''(none)'') m) items [])"

definition objective_notes ::
  "string \<Rightarrow> (string, string) bmap \<Rightarrow> (string, string) bmap \<Rightarrow> string \<Rightarrow> diff_note list" where
  "objective_notes krate oa ob i = (case (bget oa i, bget ob i) of
     (Some sa, Some sb) \<Rightarrow> push_if (sa \<noteq> sb) (ChangeNote (''~ '' @ krate @ '' '' @ i @ '': '' @ arrow sa sb))
   | (Some sa, None) \<Rightarrow> [ChangeNote (''- '' @ krate @ '' '' @ i @ '': '' @ sa)]
   | (None, Some sb) \<Rightarrow> [ChangeNote (''+ '' @ krate @ '' '' @ i @ '': '' @ sb)]
   | (None, None) \<Rightarrow> [])"

definition compare_report :: "diff_readers \<Rightarrow> string \<Rightarrow> json \<Rightarrow> json \<Rightarrow> diff_note list" where
  "compare_report D name va vb =
    (let krate = trim_end_matches ''.json'' name;
         oa = objective_statuses D va; ob = objective_statuses D vb in
     concat (map (\<lambda>f. field_note D (krate @ '' '' @ f) (json_field f va) (json_field f vb)) [''dal'', ''assurance_level''])
     @ push_if (\<not> json_eq (json_field ''standards_pack'' va) (json_field ''standards_pack'' vb))
         (ChangeNote (''~ '' @ krate @ '' standards_pack identity changed''))
     @ concat (map (objective_notes krate oa ob) (key_union oa ob)))"

definition report_pair_notes ::
  "diff_readers \<Rightarrow> string \<Rightarrow> json load option \<Rightarrow> json load option \<Rightarrow> diff_note list" where
  "report_pair_notes D name ra rb = (case (ra, rb) of
     (Some (LoadOk _), None) \<Rightarrow> [ChangeNote (''- compliance/'' @ name)]
   | (None, Some (LoadOk _)) \<Rightarrow> [ChangeNote (''+ compliance/'' @ name)]
   | (Some LoadUnparseable, _) \<Rightarrow> [GapNote (''! compliance/'' @ name @ '' unparseable in bundle A'')]
   | (_, Some LoadUnparseable) \<Rightarrow> [GapNote (''! compliance/'' @ name @ '' unparseable in bundle B'')]
   | (Some (LoadOk va), Some (LoadOk vb)) \<Rightarrow> compare_report D name va vb
   | _ \<Rightarrow> [])"

definition dal_empty :: "side \<Rightarrow> bool" where
  "dal_empty s = (case sd_index s of LoadOk index \<Rightarrow> ix_dal_map index = [] | _ \<Rightarrow> False)"

definition objective_mappings :: "diff_readers \<Rightarrow> side \<Rightarrow> side \<Rightarrow> diff_error + category_diff" where
  "objective_mappings D a b =
    rbind (load_compliance_reports D a) (\<lambda>ra. rbind (load_compliance_reports D b) (\<lambda>rb.
    Ok (if ra = [] \<or> rb = [] then
          if ra = [] \<and> rb = [] \<and> dal_empty a \<and> dal_empty b
          then \<lparr>cf_category = ''objective_mappings'', cf_status = DiffEqual,
                cf_details = [''no compliance reports on either side'']\<rparr>
          else unverifiable ''objective_mappings'' (''compliance/ absent or empty in '' @ which_side (ra = []) (rb = []))
        else category_of_notes ''objective_mappings''
          (concat (map (\<lambda>name. report_pair_notes D name (bget ra name) (bget rb name)) (bkeys ra @ bkeys rb))))))"

section \<open>Reviews, anomalies, tools\<close>

definition reviews_approvals :: category_diff where
  "reviews_approvals = unverifiable ''reviews_approvals''
    ''reviews/approvals are workspace corpus state, not bundle artifacts (M6 binding); the category cannot be compared from bundle content alone''"

definition failure_rows :: "evidence_index \<Rightarrow> (string \<times> int, string list) bmap" where
  "failure_rows index = map (\<lambda>e. (fst e, sort (snd e)))
     (fold (\<lambda>f. bpush (tf_command_name f, tf_exit_code f) (tf_stderr_tail f)) (ix_tool_command_failures index) [])"

definition anomaly_details ::
  "(string \<times> int, string list) bmap \<Rightarrow> (string \<times> int, string list) bmap \<Rightarrow> string \<times> int \<Rightarrow> string list" where
  "anomaly_details ra rb key =
    (let label = fst key @ '' exit '' @ show_int (snd key) in case (bget ra key, bget rb key) of
       (Some ta, Some tb) \<Rightarrow> push_if (ta \<noteq> tb) (''~ '' @ label @ '' stderr_tail changed'')
     | (Some _, None) \<Rightarrow> [''- '' @ label]
     | (None, Some _) \<Rightarrow> [''+ '' @ label]
     | (None, None) \<Rightarrow> [])"

definition anomalies :: "side \<Rightarrow> side \<Rightarrow> category_diff" where
  "anomalies a b = (case require_indexes a b ''anomalies'' of
     Inl diff \<Rightarrow> diff
   | Inr (ia, ib) \<Rightarrow> category_of_details ''anomalies'' (concat (map
       (anomaly_details (failure_rows ia) (failure_rows ib)) (key_union (failure_rows ia) (failure_rows ib)))))"

definition env_notes :: "diff_readers \<Rightarrow> json load \<Rightarrow> json load \<Rightarrow> diff_note list" where
  "env_notes D env_a env_b = (case (env_a, env_b) of
     (LoadOk ea, LoadOk eb) \<Rightarrow> concat (map (\<lambda>f. field_note D f (json_field f ea) (json_field f eb))
       [''rustc'', ''cargo'', ''llvm_version'', ''target_triple'', ''tool_prerelease''])
   | _ \<Rightarrow> concat (map (\<lambda>(s, state). case state of LoadOk _ \<Rightarrow> []
       | _ \<Rightarrow> [GapNote (''! env.json '' @ state_label state @ '' in bundle '' @ s)]) [(''A'', env_a), (''B'', env_b)]))"

definition pack_set :: "diff_readers \<Rightarrow> (string, json load) bmap \<Rightarrow> string list" where
  "pack_set D reports = dedup (sort (map (dr_show D) (List.map_filter
     (\<lambda>r. case r of LoadOk v \<Rightarrow> json_get ''standards_pack'' v | _ \<Rightarrow> None) (bvals reports))))"

definition tool_identity :: "diff_readers \<Rightarrow> side \<Rightarrow> side \<Rightarrow> diff_error + category_diff" where
  "tool_identity D a b = (case require_indexes a b ''tool_identity'' of
     Inl diff \<Rightarrow> Ok diff
   | Inr (ia, ib) \<Rightarrow>
     rbind (read_json_file (value_reader (dr_codec D)) (sd_root a) ''env.json'') (\<lambda>env_a.
     rbind (read_json_file (value_reader (dr_codec D)) (sd_root b) ''env.json'') (\<lambda>env_b.
     rbind (load_compliance_reports D a) (\<lambda>ra. rbind (load_compliance_reports D b) (\<lambda>rb.
     Ok (category_of_notes ''tool_identity''
       (concat (map (\<lambda>f. field_note D f (json_field f (index_value ia)) (json_field f (index_value ib)))
          [''engine_crate_version'', ''engine_git_sha'', ''engine_build_source''])
        @ env_notes D env_a env_b
        @ push_if (pack_set D ra \<noteq> pack_set D rb) (ChangeNote ''~ standards_pack identity set changed'')))))))) "

section \<open>Integrity, completeness, content\<close>

definition presence_detail :: "string \<Rightarrow> bool \<Rightarrow> bool \<Rightarrow> string list" where
  "presence_detail label pa pb = push_if (pa \<noteq> pb)
     (''~ '' @ label @ '': '' @ arrow (presence_label pa) (presence_label pb))"

definition integrity :: "side \<Rightarrow> side \<Rightarrow> category_diff" where
  "integrity a b = category_of_details ''integrity'' (concat (map
     (\<lambda>(label, rel). presence_detail label (file_exists a rel) (file_exists b rel))
     [(''signature (BUNDLE.sig)'', ''BUNDLE.sig''), (''SHA256SUMS'', ''SHA256SUMS'')]))"

definition completeness_areas :: "string list" where
  "completeness_areas = [''capture'', ''graph_validity'', ''verification'', ''objective_mapping'',
     ''review_approval'', ''integrity'', ''reproducibility'', ''tool_qualification'']"

definition completeness_diff :: "diff_readers \<Rightarrow> side \<Rightarrow> side \<Rightarrow> category_diff" where
  "completeness_diff D a b = (case require_indexes a b ''completeness_states'' of
     Inl diff \<Rightarrow> diff
   | Inr (ia, ib) \<Rightarrow>
     (let va = completeness_value (ix_completeness ia); vb = completeness_value (ix_completeness ib) in
      category_of_details ''completeness_states'' (concat (map (\<lambda>area.
        let fa = json_field area va; fb = json_field area vb in
        push_if (\<not> json_eq fa fb) (''~ '' @ area @ '': '' @ arrow (value_label D fa) (value_label D fb)))
        completeness_areas))))"

definition content_hash_diff :: "side \<Rightarrow> side \<Rightarrow> category_diff" where
  "content_hash_diff a b = (case require_indexes a b ''content_hash'' of
     Inl diff \<Rightarrow> diff
   | Inr (ia, ib) \<Rightarrow> category_of_details ''content_hash'' (push_if (ix_content_hash ia \<noteq> ix_content_hash ib)
       (''~ content_hash: '' @ arrow (ix_content_hash ia) (ix_content_hash ib))))"

section \<open>The comparison\<close>

definition compare_sides :: "diff_readers \<Rightarrow> side \<Rightarrow> side \<Rightarrow> diff_error + category_diff list" where
  "compare_sides D a b =
    rbind (trace_graph D a b) (\<lambda>trace.
    rbind (diff_tests D a b) (\<lambda>tests.
    rbind (diff_coverage D a b) (\<lambda>coverage.
    rbind (diff_commands D a b) (\<lambda>commands.
    rbind (diff_recipe D a b) (\<lambda>recipe.
    rbind (digest_plane D a b ''inputs'') (\<lambda>inputs.
    rbind (digest_plane D a b ''outputs'') (\<lambda>outputs.
    rbind (objective_mappings D a b) (\<lambda>objectives.
    rbind (tool_identity D a b) (\<lambda>tools.
    Ok (map finish [scope D a b, trace, tests, coverage, commands, recipe, inputs, outputs, objectives,
      reviews_approvals, anomalies a b, tools, integrity a b, completeness_diff D a b, content_hash_diff a b]))))))))))"

definition compare_bundles :: "diff_readers \<Rightarrow> bundle_dir \<Rightarrow> bundle_dir \<Rightarrow> diff_error + category_diff list" where
  "compare_bundles D a b =
    (case snd a of None \<Rightarrow> Err (DiffBundleNotFound (fst a))
     | Some root_a \<Rightarrow> (case snd b of None \<Rightarrow> Err (DiffBundleNotFound (fst b))
       | Some root_b \<Rightarrow>
         rbind (load_side (dr_codec D) root_a) (\<lambda>side_a. rbind (load_side (dr_codec D) root_b) (\<lambda>side_b.
         compare_sides D side_a side_b))))"

end
