(* ===== verification/Diff_Spec.thy ===== *)
theory Diff_Spec
  imports Diff_Assurance
begin

text \<open>
  The algebra of the comparison: when a category has notes, what exchanging the sides does to its
  status, and what a bundle compared with itself shows.
\<close>

section \<open>Flags of notes\<close>

lemma changed_simps [simp]:
  "notes_changed [] = False"
  "notes_changed (ChangeNote s # ns) = True"
  "notes_changed (GapNote s # ns) = notes_changed ns"
  "notes_changed (ns @ ms) = (notes_changed ns \<or> notes_changed ms)"
  "notes_changed (push_if b (ChangeNote s)) = b"
  "notes_changed (concat (map f xs)) = (\<exists>x \<in> set xs. notes_changed (f x))"
  by (auto simp: notes_changed_def push_if_def)

lemma unexaminable_simps [simp]:
  "notes_unexaminable [] = False"
  "notes_unexaminable (ChangeNote s # ns) = notes_unexaminable ns"
  "notes_unexaminable (GapNote s # ns) = True"
  "notes_unexaminable (ns @ ms) = (notes_unexaminable ns \<or> notes_unexaminable ms)"
  "notes_unexaminable (push_if b (ChangeNote s)) = False"
  "notes_unexaminable (concat (map f xs)) = (\<exists>x \<in> set xs. notes_unexaminable (f x))"
  by (auto simp: notes_unexaminable_def push_if_def)

lemma notes_changed_map [simp]: "notes_changed (map (\<lambda>x. ChangeNote (f x)) xs) \<longleftrightarrow> xs \<noteq> []"
  "notes_unexaminable (map (\<lambda>x. ChangeNote (f x)) xs) = False"
  by (cases xs; simp) (induction xs; simp)

lemma push_if_eq_Nil [simp]: "push_if b x = [] \<longleftrightarrow> \<not> b"
  by (simp add: push_if_def)

lemma push_if_False [simp]: "push_if False x = []"
  by (simp add: push_if_def)

definition same_flags :: "diff_note list \<Rightarrow> diff_note list \<Rightarrow> bool" where
  "same_flags ns ms \<longleftrightarrow> notes_changed ns = notes_changed ms \<and> notes_unexaminable ns = notes_unexaminable ms"

lemma same_flags_append: "same_flags ns ms \<Longrightarrow> same_flags ns' ms' \<Longrightarrow> same_flags (ns @ ns') (ms @ ms')"
  by (simp add: same_flags_def)

lemma same_flags_concat:
  "set xs = set ys \<Longrightarrow> (\<And>x. x \<in> set xs \<Longrightarrow> same_flags (f x) (g x))
    \<Longrightarrow> same_flags (concat (map f xs)) (concat (map g ys))"
  by (simp add: same_flags_def)

lemma set_key_union [simp]: "set (key_union a b) = fst ` set a \<union> fst ` set b"
  by (simp add: key_union_def bkeys_def)

fun mirror :: "diff_status \<Rightarrow> diff_status" where
  "mirror DiffAdded = DiffRemoved"
| "mirror DiffRemoved = DiffAdded"
| "mirror s = s"

definition mirrored :: "category_diff \<Rightarrow> category_diff \<Rightarrow> bool" where
  "mirrored d e \<longleftrightarrow> cf_category e = cf_category d \<and> cf_status e = mirror (cf_status d)"

lemma mirror_status_of [simp]: "mirror (status_of c u) = status_of c u"
  by (simp add: status_of_def)

lemma mirrored_notes: "same_flags ns ms \<Longrightarrow> mirrored (category_of_notes k ns) (category_of_notes k ms)"
  by (simp add: mirrored_def category_of_notes_def same_flags_def)

lemma mirrored_details: "(ds = []) = (es = []) \<Longrightarrow> mirrored (category_of_details k ds) (category_of_details k es)"
  by (simp add: mirrored_def category_of_details_def)

lemma mirrored_unverifiable [simp]: "mirrored (unverifiable k r) (unverifiable k r')"
  by (simp add: mirrored_def unverifiable_def)

lemma mirrored_finish [simp]: "mirrored (finish d) (finish e) = mirrored d e"
  by (simp add: mirrored_def finish_def)

lemma require_indexes_flip:
  "require_indexes a b k = Inr (ia, ib) \<Longrightarrow> require_indexes b a k = Inr (ib, ia)"
  "require_indexes a b k = Inl d \<Longrightarrow> \<exists>r r'. d = unverifiable k r \<and> require_indexes b a k = Inl (unverifiable k r')"
  by (cases "sd_index a"; cases "sd_index b"; auto simp: require_indexes_def)+

lemma require_indexes_Ok_iff:
  "require_indexes a b k = Inr (ia, ib) \<longleftrightarrow> sd_index a = LoadOk ia \<and> sd_index b = LoadOk ib"
  by (cases "sd_index a"; cases "sd_index b"; auto simp: require_indexes_def)

section \<open>Exchanging the sides\<close>

lemma field_note_flip: "same_flags (field_note D l fa fb) (field_note D l' fb fa)"
  by (simp add: same_flags_def field_note_def json_eq_sym)

lemma presence_note_flip: "same_flags (presence_note l p q) (presence_note l q p)"
  by (auto simp: same_flags_def presence_note_def)

lemma dal_notes_flip: "same_flags (dal_notes D m n k) (dal_notes D n m k)"
  by (auto simp: same_flags_def dal_notes_def Let_def split: option.split)

lemma scope_notes_flip: "same_flags (scope_notes D va vb) (scope_notes D vb va)"
  unfolding scope_notes_def
  by (intro same_flags_append same_flags_concat field_note_flip dal_notes_flip) auto

lemma index_category_flip:
  assumes "\<And>ia ib. mirrored (f ia ib) (f ib ia)"
  shows "mirrored (case require_indexes a b k of Inl diff \<Rightarrow> diff | Inr (ia, ib) \<Rightarrow> f ia ib)
    (case require_indexes b a k of Inl diff \<Rightarrow> diff | Inr (ia, ib) \<Rightarrow> f ia ib)"
proof (cases "require_indexes a b k")
  case (Inl d)
  with require_indexes_flip(2) [OF Inl] show ?thesis by auto
next
  case (Inr p)
  then obtain ia ib where p: "require_indexes a b k = Inr (ia, ib)" by (cases p) auto
  with require_indexes_flip(1) [OF p] assms show ?thesis by simp
qed

lemma scope_flip: "mirrored (scope D a b) (scope D b a)"
  unfolding scope_def by (rule index_category_flip) (rule mirrored_notes, rule scope_notes_flip)

lemma keyed_notes_unexaminable [simp]: "\<not> notes_unexaminable (keyed_notes R f g h ma mb)"
proof -
  have "\<not> notes_unexaminable (case bget mb k of None \<Rightarrow> [ChangeNote (f k v)]
      | Some w \<Rightarrow> push_if (\<not> R v w) (ChangeNote (g k v w)))" for k v
    by (cases "bget mb k") simp_all
  then show ?thesis by (auto simp: keyed_notes_def)
qed

lemma keyed_notes_changed:
  assumes "bwf ma" "bwf mb"
  shows "notes_changed (keyed_notes R f g h ma mb) \<longleftrightarrow> (\<exists>k. \<not> rel_option R (bget ma k) (bget mb k))"
proof -
  have one: "notes_changed (case bget mb k of None \<Rightarrow> [ChangeNote (f k v)]
      | Some w \<Rightarrow> push_if (\<not> R v w) (ChangeNote (g k v w))) \<longleftrightarrow> \<not> rel_option R (Some v) (bget mb k)" for k v
    by (cases "bget mb k") simp_all
  have "notes_changed (keyed_notes R f g h ma mb) \<longleftrightarrow>
      (\<exists>k v. (k, v) \<in> set ma \<and> \<not> rel_option R (Some v) (bget mb k))
      \<or> (\<exists>k w. (k, w) \<in> set mb \<and> bget ma k = None)"
    unfolding keyed_notes_def by (simp add: one Bex_def split_beta)
  also have "\<dots> \<longleftrightarrow> (\<exists>k v. bget ma k = Some v \<and> \<not> rel_option R (Some v) (bget mb k))
      \<or> (\<exists>k w. bget mb k = Some w \<and> bget ma k = None)"
    by (simp add: bget_iff_in [OF assms(1)] bget_iff_in [OF assms(2)])
  also have "\<dots> \<longleftrightarrow> (\<exists>k. \<not> rel_option R (bget ma k) (bget mb k))"
    (is "?l \<longleftrightarrow> (\<exists>k. \<not> ?r k)")
  proof -
    have "(\<not> ?r k) \<longleftrightarrow> (\<exists>v. bget ma k = Some v \<and> \<not> rel_option R (Some v) (bget mb k))
        \<or> (\<exists>w. bget mb k = Some w \<and> bget ma k = None)" for k
      by (cases "bget ma k"; cases "bget mb k") simp_all
    then show ?thesis by blast
  qed
  finally show ?thesis .
qed

lemma keyed_notes_flip:
  assumes "bwf ma" "bwf mb" and "\<And>v w. R v w = R' w v"
  shows "same_flags (keyed_notes R f g h ma mb) (keyed_notes R' f' g' h' mb ma)"
proof -
  have "rel_option R x y = rel_option R' y x" for x y
    by (cases x; cases y) (simp_all add: assms(3))
  then show ?thesis by (simp add: same_flags_def keyed_notes_changed assms(1,2))
qed

lemma keyed_notes_self:
  assumes "bwf m" and "\<And>v. R v v"
  shows "keyed_notes R f g h m m = []"
proof -
  have "(case bget m k of None \<Rightarrow> [ChangeNote (f k v)]
      | Some w \<Rightarrow> push_if (\<not> R v w) (ChangeNote (g k v w))) = []" if "(k, v) \<in> set m" for k v
    using that assms(2) by (simp add: bget_iff_in [OF assms(1), symmetric])
  moreover have "bget m k \<noteq> None" if "(k, v) \<in> set m" for k v
    using that by (simp add: bget_iff_in [OF assms(1), symmetric])
  ultimately show ?thesis by (auto simp: keyed_notes_def)
qed

text \<open>The trace files.\<close>

lemma bwf_fold_items: "bwf m \<Longrightarrow> bwf (fold entry_item es m)"
  by (induction es arbitrary: m) (simp_all add: entry_item_def Let_def)

definition load_wf :: "('k::linorder, 'v) bmap load \<Rightarrow> bool" where
  "load_wf l \<longleftrightarrow> (\<forall>m. l = LoadOk m \<longrightarrow> bwf m)"

lemma bwf_collect_entries [simp]: "bwf (collect_entries v)"
  by (simp add: collect_entries_def bwf_fold_items split: option.split)

lemma read_trace_entries_wf:
  assumes "read_trace_entries D s name = Inr l"
  shows "load_wf l"
proof -
  have "(\<exists>v. l = LoadOk (collect_entries v)) \<or> l = LoadMissing \<or> l = LoadUnparseable"
    using assms unfolding read_trace_entries_def Let_def
    by (auto simp: rbind_Ok_iff split: if_splits option.splits)
  then show ?thesis by (auto simp: load_wf_def)
qed

lemma trace_file_notes_flip:
  assumes "load_wf ea" "load_wf eb"
  shows "same_flags (trace_file_notes name ea eb) (trace_file_notes name eb ea)"
proof -
  have "same_flags (entry_notes name ma mb) (entry_notes name mb ma)" if "bwf ma" "bwf mb" for ma mb
    unfolding entry_notes_def using that by (intro keyed_notes_flip) (auto simp: json_eq_sym)
  with assms show ?thesis
    by (cases ea; cases eb) (auto simp: trace_file_notes_def load_wf_def same_flags_def split_beta)
qed

text \<open>A loop that reads both sides and appends the notes.\<close>

lemma fold_pair_notes:
  "fold_res (\<lambda>ns x. rbind (r a x) (\<lambda>ea. rbind (r b x) (\<lambda>eb. Ok (ns @ f x ea eb)))) acc xs = Inr ns \<longleftrightarrow>
    (\<forall>x \<in> set xs. (\<exists>e. r a x = Inr e) \<and> (\<exists>e. r b x = Inr e))
    \<and> ns = acc @ concat (map (\<lambda>x. f x (projr (r a x)) (projr (r b x))) xs)"
proof (induction xs arbitrary: acc)
  case (Cons x xs)
  then show ?case by (cases "r a x"; cases "r b x") auto
qed auto

lemma trace_graph_flip:
  assumes "trace_graph D a b = Inr d"
  obtains e where "trace_graph D b a = Inr e" "mirrored d e"
proof (cases "path_is_dir (sd_root a) ''trace'' \<and> path_is_dir (sd_root b) ''trace''")
  case False
  then have "\<exists>e. trace_graph D b a = Inr e \<and> mirrored d e"
    using assms by (auto simp: trace_graph_def split: bool.splits)
  with that show ?thesis by blast
next
  case True
  let ?t = "\<lambda>a b n. trace_file_notes n (projr (read_trace_entries D a n)) (projr (read_trace_entries D b n))"
  let ?p = "\<lambda>a b. presence_note ''trace/matrix.md'' (file_exists a ''trace/matrix.md'') (file_exists b ''trace/matrix.md'')"
  from assms True have ok: "\<forall>n \<in> set compared_trace_files.
      (\<exists>e. read_trace_entries D a n = Inr e) \<and> (\<exists>e. read_trace_entries D b n = Inr e)"
    and d: "d = category_of_notes ''trace_graph'' (concat (map (?t a b) compared_trace_files) @ ?p a b)"
    by (auto simp: trace_graph_def rbind_Ok_iff fold_pair_notes)
  have e: "trace_graph D b a = Inr (category_of_notes ''trace_graph'' (concat (map (?t b a) compared_trace_files) @ ?p b a))"
    using ok True by (auto simp: trace_graph_def rbind_Ok_iff fold_pair_notes)
  have "same_flags (?t a b n) (?t b a n)" if "n \<in> set compared_trace_files" for n
  proof -
    from ok that obtain x y where "read_trace_entries D a n = Inr x" "read_trace_entries D b n = Inr y" by blast
    then show ?thesis by (simp add: trace_file_notes_flip read_trace_entries_wf)
  qed
  then have "same_flags (concat (map (?t a b) compared_trace_files) @ ?p a b)
      (concat (map (?t b a) compared_trace_files) @ ?p b a)"
    by (intro same_flags_append same_flags_concat presence_note_flip) auto
  with that e d show ?thesis by (simp add: mirrored_notes)
qed

text \<open>Two reads, then a comparison.\<close>

lemma pair_read_flip:
  assumes "rbind ra (\<lambda>x. rbind rb (\<lambda>y. Ok (f x y))) = Inr d"
    and "\<And>x y. ra = Inr x \<Longrightarrow> rb = Inr y \<Longrightarrow> mirrored (f x y) (g y x)"
  shows "\<exists>e. rbind rb (\<lambda>y. rbind ra (\<lambda>x. Ok (g y x))) = Inr e \<and> mirrored d e"
  using assms by (cases ra; cases rb) auto

lemma bwf_outcome_map [simp]: "bwf (outcome_map rows)"
proof -
  have "bwf m \<Longrightarrow> bwf (fold (\<lambda>r. bins (outcome_key r) r) rows m)" for m
    by (induction rows arbitrary: m) simp_all
  then show ?thesis by (simp add: outcome_map_def)
qed

lemma outcome_notes_flip: "same_flags (outcome_notes x y) (outcome_notes y x)"
proof -
  have "same_flags (row_notes (outcome_map p) (outcome_map q)) (row_notes (outcome_map q) (outcome_map p))" for p q
    unfolding row_notes_def by (intro keyed_notes_flip) auto
  then show ?thesis by (cases x; cases y) (auto simp: outcome_notes_def same_flags_def)
qed

lemma summary_notes_flip: "same_flags (summary_notes x y) (summary_notes y x)"
  by (cases x; cases y) (auto simp: summary_notes_def same_flags_def count_note_def)

lemma diff_tests_flip: "diff_tests D a b = Inr d \<Longrightarrow> \<exists>e. diff_tests D b a = Inr e \<and> mirrored d e"
  unfolding diff_tests_def
proof (erule pair_read_flip)
  fix x y :: test_side
  have "mirrored (category_of_notes ''tests'' (summary_notes (td_summary x) (td_summary y)
        @ outcome_notes (td_outcomes x) (td_outcomes y)
        @ presence_note ''tests/cargo_test_stdout.txt'' (td_stdout_log x) (td_stdout_log y)
        @ presence_note ''tests/cargo_test_stderr.txt'' (td_stderr_log x) (td_stderr_log y)))
      (category_of_notes ''tests'' (summary_notes (td_summary y) (td_summary x)
        @ outcome_notes (td_outcomes y) (td_outcomes x)
        @ presence_note ''tests/cargo_test_stdout.txt'' (td_stdout_log y) (td_stdout_log x)
        @ presence_note ''tests/cargo_test_stderr.txt'' (td_stderr_log y) (td_stderr_log x)))"
    by (intro mirrored_notes same_flags_append summary_notes_flip outcome_notes_flip presence_note_flip)
  then show "mirrored
      (if \<not> has_data x \<and> \<not> has_data y
        then \<lparr>cf_category = ''tests'', cf_status = DiffEqual, cf_details = [''no test artifacts on either side'']\<rparr>
        else if has_data x \<noteq> has_data y
        then (if has_data y then one_sided_tests DiffAdded ''B'' y else one_sided_tests DiffRemoved ''A'' x)
        else category_of_notes ''tests'' (summary_notes (td_summary x) (td_summary y)
          @ outcome_notes (td_outcomes x) (td_outcomes y)
          @ presence_note ''tests/cargo_test_stdout.txt'' (td_stdout_log x) (td_stdout_log y)
          @ presence_note ''tests/cargo_test_stderr.txt'' (td_stderr_log x) (td_stderr_log y)))
      (if \<not> has_data y \<and> \<not> has_data x
        then \<lparr>cf_category = ''tests'', cf_status = DiffEqual, cf_details = [''no test artifacts on either side'']\<rparr>
        else if has_data y \<noteq> has_data x
        then (if has_data x then one_sided_tests DiffAdded ''B'' x else one_sided_tests DiffRemoved ''A'' y)
        else category_of_notes ''tests'' (summary_notes (td_summary y) (td_summary x)
          @ outcome_notes (td_outcomes y) (td_outcomes x)
          @ presence_note ''tests/cargo_test_stdout.txt'' (td_stdout_log y) (td_stdout_log x)
          @ presence_note ''tests/cargo_test_stderr.txt'' (td_stderr_log y) (td_stderr_log x)))"
    by (auto simp: mirrored_def one_sided_tests_def)
qed

lemma report_notes_flip: "same_flags (report_notes x y) (report_notes y x)"
proof -
  have branch: "same_flags (branch_notes l p q) (branch_notes l q p)" for l p q
    by (cases p; cases q) (auto simp: same_flags_def branch_notes_def)
  have "same_flags (measurement_notes l m n) (measurement_notes l n m)" for l m n
    unfolding measurement_notes_def by (intro same_flags_append branch) (auto simp: same_flags_def)
  then have "same_flags (level_notes p q l) (level_notes q p l)" for p q l
    by (auto simp: level_notes_def Let_def same_flags_def split: option.split)
  then have "same_flags (concat (map (level_notes p q) level_order)) (concat (map (level_notes q p) level_order))" for p q
    by (intro same_flags_concat) auto
  then show ?thesis by (cases x; cases y) (auto simp: report_notes_def same_flags_def Let_def)
qed

lemma coverage_category_flip: "same_flags ns ms \<Longrightarrow> mirrored (coverage_category ns) (coverage_category ms)"
  by (simp add: coverage_category_def Let_def mirrored_def same_flags_def)

lemma diff_coverage_flip: "diff_coverage D a b = Inr d \<Longrightarrow> \<exists>e. diff_coverage D b a = Inr e \<and> mirrored d e"
  unfolding diff_coverage_def
  by (erule pair_read_flip, intro coverage_category_flip same_flags_append report_notes_flip presence_note_flip)

lemma captured_detail_flip: "(captured_detail a b i l p q = []) = (captured_detail b a i l q p = [])"
  by (auto simp: captured_detail_def)

lemma extra_rows_Nil [simp]: "extra_rows mark n rows = [] \<longleftrightarrow> length rows \<le> n"
  by (simp add: extra_rows_def)

lemma command_details_Nil_iff:
  "command_details a b ra rb = [] \<longleftrightarrow> length ra = length rb
    \<and> (\<forall>i < length ra. command_row_details a b (i, ra ! i, rb ! i) = [])"
proof (cases "length ra = length rb")
  case True
  have "set (zip [0..<length ra] (zip ra rb)) = {(i, ra ! i, rb ! i) | i. i < length ra}"
    using True by (force simp: set_zip)
  then show ?thesis using True by (auto simp: command_details_def Let_def)
next
  case False
  then have "length ra > length rb \<or> length rb > length ra" by linarith
  then show ?thesis using False by (auto simp: command_details_def Let_def min_def)
qed

lemma command_row_flip: "(command_row_details a b (i, r, q) = []) = (command_row_details b a (i, q, r) = [])"
  using captured_detail_flip [of a b i] by (auto simp: command_row_details_def)

lemma diff_commands_flip: "diff_commands D a b = Inr d \<Longrightarrow> \<exists>e. diff_commands D b a = Inr e \<and> mirrored d e"
  unfolding diff_commands_def
proof (erule pair_read_flip)
  fix x y :: "command_record list load"
  have "(command_details a b ra rb = []) = (command_details b a rb ra = [])" for ra rb
    unfolding command_details_Nil_iff using command_row_flip by auto
  then show "mirrored
      (case (x, y) of (LoadOk ra, LoadOk rb) \<Rightarrow> category_of_details ''commands'' (command_details a b ra rb)
        | _ \<Rightarrow> unverifiable ''commands'' (commands_reason x y))
      (case (y, x) of (LoadOk ra, LoadOk rb) \<Rightarrow> category_of_details ''commands'' (command_details b a ra rb)
        | _ \<Rightarrow> unverifiable ''commands'' (commands_reason y x))"
    by (cases x; cases y) (auto intro: mirrored_details)
qed

lemma recipe_fields_Nil_iff:
  "compare_recipe_fields ra rb = [] \<longleftrightarrow>
    (\<forall>(key, _) \<in> set recipe_fields. json_eq (json_field key ra) (json_field key rb))"
  by (auto simp: compare_recipe_fields_def filter_empty_conv)

lemma diff_recipe_flip: "diff_recipe D a b = Inr d \<Longrightarrow> \<exists>e. diff_recipe D b a = Inr e \<and> mirrored d e"
  unfolding diff_recipe_def
proof (erule pair_read_flip)
  fix x y :: "json option"
  show "mirrored
      (case (x, y) of (Some ra, Some rb) \<Rightarrow> category_of_details ''recipe'' (map (\<lambda>f. ''~ '' @ f) (compare_recipe_fields ra rb))
        | _ \<Rightarrow> unverifiable ''recipe'' (''deterministic-manifest.json missing or unparseable in '' @ which_side (x = None) (y = None)))
      (case (y, x) of (Some ra, Some rb) \<Rightarrow> category_of_details ''recipe'' (map (\<lambda>f. ''~ '' @ f) (compare_recipe_fields ra rb))
        | _ \<Rightarrow> unverifiable ''recipe'' (''deterministic-manifest.json missing or unparseable in '' @ which_side (y = None) (x = None)))"
    by (cases x; cases y) (auto intro!: mirrored_details simp: recipe_fields_Nil_iff json_eq_sym)
qed

section \<open>Digest planes\<close>

lemma base_digest_step_eq:
  "base_digest_step cand e d = d\<lparr>
     pd_changed := pd_changed d @ map fst (filter (\<lambda>(k, v). is_sha256_hex v
       \<and> (\<exists>w. bget cand k = Some w \<and> w \<noteq> v \<and> is_sha256_hex w)) [e]),
     pd_base_only := pd_base_only d @ map fst (filter (\<lambda>(k, v). is_sha256_hex v \<and> bget cand k = None) [e]),
     pd_unverifiable := pd_unverifiable d @ map fst (filter (\<lambda>(k, v). \<not> is_sha256_hex v
       \<or> (\<exists>w. bget cand k = Some w \<and> w \<noteq> v \<and> \<not> is_sha256_hex w)) [e])\<rparr>"
proof -
  obtain k v where e: "e = (k, v)" by (cases e)
  show ?thesis by (cases "bget cand k") (auto simp: e base_digest_step_def)
qed

lemma base_digest_fold:
  fixes base :: "(string, string) bmap"
  shows "fold (base_digest_step cand) base d = d\<lparr>
     pd_changed := pd_changed d @ map fst (filter (\<lambda>(k, v). is_sha256_hex v
       \<and> (\<exists>w. bget cand k = Some w \<and> w \<noteq> v \<and> is_sha256_hex w)) base),
     pd_base_only := pd_base_only d @ map fst (filter (\<lambda>(k, v). is_sha256_hex v \<and> bget cand k = None) base),
     pd_unverifiable := pd_unverifiable d @ map fst (filter (\<lambda>(k, v). \<not> is_sha256_hex v
       \<or> (\<exists>w. bget cand k = Some w \<and> w \<noteq> v \<and> \<not> is_sha256_hex w)) base)\<rparr>"
proof (induction base arbitrary: d)
  case (Cons e base)
  show ?case unfolding fold.simps o_apply Cons.IH by (simp add: base_digest_step_eq [of cand e d])
qed simp

lemma cand_only_fold:
  "fold (\<lambda>key diff. if P key then diff\<lparr>pd_cand_only := pd_cand_only diff @ [key]\<rparr> else diff) ks d =
    d\<lparr>pd_cand_only := pd_cand_only d @ filter P ks\<rparr>"
  by (induction ks arbitrary: d) simp_all

lemma diff_digest_planes_eq:
  "diff_digest_planes base cand = \<lparr>
     pd_changed = map fst (filter (\<lambda>(k, v). is_sha256_hex v
       \<and> (\<exists>w. bget cand k = Some w \<and> w \<noteq> v \<and> is_sha256_hex w)) base),
     pd_base_only = map fst (filter (\<lambda>(k, v). is_sha256_hex v \<and> bget cand k = None) base),
     pd_cand_only = filter (\<lambda>k. bget base k = None) (bkeys cand),
     pd_unverifiable = map fst (filter (\<lambda>(k, v). \<not> is_sha256_hex v
       \<or> (\<exists>w. bget cand k = Some w \<and> w \<noteq> v \<and> \<not> is_sha256_hex w)) base)\<rparr>"
  by (simp add: diff_digest_planes_def base_digest_fold cand_only_fold)

text \<open>The same paths with the same digests, all of them well formed.\<close>

definition same_digests :: "(string, string) bmap \<Rightarrow> (string, string) bmap \<Rightarrow> bool" where
  "same_digests ma mb \<longleftrightarrow> (\<forall>k. bget ma k = bget mb k) \<and> (\<forall>(k, v) \<in> set ma. is_sha256_hex v)"

definition plane_clean :: "digest_plane_diff \<Rightarrow> bool" where
  "plane_clean d \<longleftrightarrow> pd_changed d = [] \<and> pd_base_only d = [] \<and> pd_cand_only d = [] \<and> pd_unverifiable d = []"

lemma plane_clean_iff:
  assumes "bwf ma" "bwf mb"
  shows "plane_clean (diff_digest_planes ma mb) \<longleftrightarrow> same_digests ma mb"
proof
  assume c: "plane_clean (diff_digest_planes ma mb)"
  have hex: "is_sha256_hex v" if "(k, v) \<in> set ma" for k v
    using c that by (auto simp: plane_clean_def diff_digest_planes_eq filter_empty_conv)
  have eq: "bget mb k = Some v" if "(k, v) \<in> set ma" for k v
  proof (cases "bget mb k")
    case None
    with c that hex [OF that] show ?thesis
      by (auto simp: plane_clean_def diff_digest_planes_eq filter_empty_conv)
  next
    case (Some w)
    with c that hex [OF that] show ?thesis
      by (cases "is_sha256_hex w") (auto simp: plane_clean_def diff_digest_planes_eq filter_empty_conv)
  qed
  have cand_in: "bget ma k \<noteq> None" if "bget mb k = Some w" for k w
    using c bget_Some_in [OF that] by (auto simp: plane_clean_def diff_digest_planes_eq filter_empty_conv bkeys_def)
  have "bget ma k = bget mb k" for k
  proof (cases "bget ma k")
    case None
    with cand_in [of k] show ?thesis by (cases "bget mb k") auto
  next
    case (Some v)
    with eq [OF bget_Some_in [OF Some]] show ?thesis by simp
  qed
  with hex show "same_digests ma mb" by (auto simp: same_digests_def)
next
  assume s: "same_digests ma mb"
  have fwd: "bget mb k = Some v" if "(k, v) \<in> set ma" for k v
    using s that bget_iff_in [OF assms(1)] by (metis same_digests_def)
  have bwd: "bget ma k = Some w" if "(k, w) \<in> set mb" for k w
    using s that bget_iff_in [OF assms(2)] by (metis same_digests_def)
  show "plane_clean (diff_digest_planes ma mb)"
    using s fwd bwd by (fastforce simp: plane_clean_def diff_digest_planes_eq filter_empty_conv same_digests_def bkeys_def)
qed

text \<open>A decoded map lists its keys in order.\<close>

definition decodes_maps :: "codec \<Rightarrow> bool" where
  "decodes_maps C \<longleftrightarrow> (\<forall>b m. decode_string_map C b = Inr m \<longrightarrow> bwf m)"

lemma read_digest_map_wf:
  "decodes_maps C \<Longrightarrow> read_digest_map C t name = Inr (LoadedPlane m) \<Longrightarrow> bwf m"
  unfolding read_digest_map_def decodes_maps_def
  by (cases "map_err (ReproductionIo name) (read_bytes t name)") (auto split: if_splits sum.splits)

lemma same_digests_sym: "bwf ma \<Longrightarrow> bwf mb \<Longrightarrow> same_digests ma mb = same_digests mb ma"
proof -
  have "same_digests mb ma" if "bwf ma" "bwf mb" "same_digests ma mb" for ma mb
    using that by (auto simp: same_digests_def bget_iff_in [of ma, symmetric] bget_iff_in [of mb, symmetric])
  then show "bwf ma \<Longrightarrow> bwf mb \<Longrightarrow> ?thesis" by blast
qed

definition plane_details :: "digest_plane_diff \<Rightarrow> string list" where
  "plane_details diff = map (\<lambda>p. ''! '' @ p @ '' (malformed digest)'') (pd_unverifiable diff)
     @ map (\<lambda>p. ''+ '' @ p) (pd_cand_only diff) @ map (\<lambda>p. ''- '' @ p) (pd_base_only diff)
     @ map (\<lambda>p. ''~ '' @ p) (pd_changed diff)"

lemma plane_details_Nil_iff: "plane_details d = [] \<longleftrightarrow> plane_clean d"
  by (auto simp: plane_details_def plane_clean_def)

definition plane_category :: "string \<Rightarrow> hash_plane \<Rightarrow> hash_plane \<Rightarrow> category_diff" where
  "plane_category category pa pb = (case (pa, pb) of
     (LoadedPlane ma, LoadedPlane mb) \<Rightarrow> category_of_details category (plane_details (diff_digest_planes ma mb))
   | _ \<Rightarrow> unverifiable category (category @ ''_hashes.json'' @ '' missing or unparseable in ''
       @ which_side (pa = UnavailablePlane) (pb = UnavailablePlane)))"

lemma digest_plane_eq:
  "digest_plane D a b category =
     rbind (map_err map_reproduction_error (read_digest_map (dr_codec D) (sd_root a) (category @ ''_hashes.json''))) (\<lambda>pa.
     rbind (map_err map_reproduction_error (read_digest_map (dr_codec D) (sd_root b) (category @ ''_hashes.json''))) (\<lambda>pb.
     Ok (plane_category category pa pb)))"
  unfolding digest_plane_def plane_category_def plane_details_def Let_def append_assoc by (rule refl)

lemma digest_plane_flip:
  assumes "decodes_maps (dr_codec D)" and d: "digest_plane D a b k = Inr d"
  shows "\<exists>e. digest_plane D b a k = Inr e \<and> mirrored d e"
  using d unfolding digest_plane_eq
proof (rule pair_read_flip)
  fix x y
  assume "map_err map_reproduction_error (read_digest_map (dr_codec D) (sd_root a) (k @ ''_hashes.json'')) = Inr x"
    and "map_err map_reproduction_error (read_digest_map (dr_codec D) (sd_root b) (k @ ''_hashes.json'')) = Inr y"
  then have wf: "\<And>m. x = LoadedPlane m \<Longrightarrow> bwf m" "\<And>m. y = LoadedPlane m \<Longrightarrow> bwf m"
    using read_digest_map_wf [OF assms(1)] by (auto simp: map_err_Ok_iff)
  show "mirrored (plane_category k x y) (plane_category k y x)"
  proof (cases "\<exists>ma mb. x = LoadedPlane ma \<and> y = LoadedPlane mb")
    case True
    then obtain ma mb where m: "x = LoadedPlane ma" "y = LoadedPlane mb" by blast
    with wf have "bwf ma" "bwf mb" by auto
    then have "(plane_details (diff_digest_planes ma mb) = []) = (plane_details (diff_digest_planes mb ma) = [])"
      by (simp add: plane_details_Nil_iff plane_clean_iff same_digests_sym)
    then show ?thesis by (simp add: plane_category_def m mirrored_details)
  next
    case False
    then show ?thesis by (cases x; cases y) (auto simp: plane_category_def)
  qed
qed

section \<open>Assurance categories\<close>

lemma objective_notes_flip: "same_flags (objective_notes c oa ob i) (objective_notes c ob oa i)"
  by (auto simp: objective_notes_def same_flags_def split: option.split)

lemma compare_report_flip: "same_flags (compare_report D n va vb) (compare_report D n vb va)"
  unfolding compare_report_def Let_def
  by (intro same_flags_append same_flags_concat field_note_flip objective_notes_flip)
    (auto simp: same_flags_def json_eq_sym)

lemma report_pair_notes_flip: "same_flags (report_pair_notes D n x y) (report_pair_notes D n y x)"
proof (cases "\<exists>va vb. x = Some (LoadOk va) \<and> y = Some (LoadOk vb)")
  case True
  then show ?thesis using compare_report_flip by (auto simp: report_pair_notes_def)
next
  case False
  then show ?thesis
    by (auto simp: report_pair_notes_def same_flags_def split: option.splits load.splits)
qed

definition mapping_category ::
  "diff_readers \<Rightarrow> bool \<Rightarrow> (string, json load) bmap \<Rightarrow> (string, json load) bmap \<Rightarrow> category_diff" where
  "mapping_category D undeveloped ra rb = (if ra = [] \<or> rb = [] then
          if ra = [] \<and> rb = [] \<and> undeveloped
          then \<lparr>cf_category = ''objective_mappings'', cf_status = DiffEqual,
                cf_details = [''no compliance reports on either side'']\<rparr>
          else unverifiable ''objective_mappings'' (''compliance/ absent or empty in '' @ which_side (ra = []) (rb = []))
        else category_of_notes ''objective_mappings''
          (concat (map (\<lambda>name. report_pair_notes D name (bget ra name) (bget rb name)) (bkeys ra @ bkeys rb))))"

lemma objective_mappings_eq:
  "objective_mappings D a b = rbind (load_compliance_reports D a) (\<lambda>ra. rbind (load_compliance_reports D b) (\<lambda>rb.
     Ok (mapping_category D (dal_empty a \<and> dal_empty b) ra rb)))"
  unfolding objective_mappings_def mapping_category_def by (rule refl)

lemma mapping_category_flip: "mirrored (mapping_category D u ra rb) (mapping_category D u rb ra)"
proof -
  let ?c = "\<lambda>ra rb. category_of_notes ''objective_mappings''
          (concat (map (\<lambda>name. report_pair_notes D name (bget ra name) (bget rb name)) (bkeys ra @ bkeys rb)))"
  have "mirrored (?c ra rb) (?c rb ra)"
    by (intro mirrored_notes same_flags_concat report_pair_notes_flip) auto
  then show ?thesis
    by (cases "ra = [] \<or> rb = []") (auto simp: mapping_category_def mirrored_def unverifiable_def)
qed

lemma objective_mappings_flip:
  "objective_mappings D a b = Inr d \<Longrightarrow> \<exists>e. objective_mappings D b a = Inr e \<and> mirrored d e"
  unfolding objective_mappings_eq conj_commute [of "dal_empty b"]
  by (erule pair_read_flip, rule mapping_category_flip)

lemma anomaly_details_flip: "(anomaly_details ra rb k = []) = (anomaly_details rb ra k = [])"
  by (auto simp: anomaly_details_def Let_def split: option.split)

lemma anomalies_flip: "mirrored (anomalies a b) (anomalies b a)"
  unfolding anomalies_def
proof (rule index_category_flip)
  fix ia ib
  have "concat (map (anomaly_details r q) (key_union r q)) = [] \<longleftrightarrow>
      concat (map (anomaly_details q r) (key_union q r)) = []" for r q
    using anomaly_details_flip [of r q] by auto
  then show "mirrored
      (category_of_details ''anomalies'' (concat (map
         (anomaly_details (failure_rows ia) (failure_rows ib)) (key_union (failure_rows ia) (failure_rows ib)))))
      (category_of_details ''anomalies'' (concat (map
         (anomaly_details (failure_rows ib) (failure_rows ia)) (key_union (failure_rows ib) (failure_rows ia)))))"
    by (rule mirrored_details)
qed

lemma env_notes_flip: "same_flags (env_notes D x y) (env_notes D y x)"
proof (cases "\<exists>va vb. x = LoadOk va \<and> y = LoadOk vb")
  case True
  have "same_flags (concat (map (\<lambda>f. field_note D f (json_field f p) (json_field f q)) fs))
      (concat (map (\<lambda>f. field_note D f (json_field f q) (json_field f p)) fs))" for p q fs
    by (intro same_flags_concat field_note_flip) auto
  with True show ?thesis unfolding env_notes_def by (elim exE conjE) (simp only: prod.case load.case)
next
  case False
  then show ?thesis by (cases x; cases y) (auto simp: env_notes_def same_flags_def)
qed

lemma tool_identity_flip:
  assumes "tool_identity D a b = Inr d"
  shows "\<exists>e. tool_identity D b a = Inr e \<and> mirrored d e"
proof (cases "require_indexes a b ''tool_identity''")
  case (Inl d')
  with require_indexes_flip(2) [OF Inl] assms show ?thesis by (auto simp: tool_identity_def)
next
  case (Inr p)
  then obtain ia ib where p: "require_indexes a b ''tool_identity'' = Inr (ia, ib)" by (cases p) auto
  let ?fs = "[''engine_crate_version'', ''engine_git_sha'', ''engine_build_source'']"
  let ?n = "\<lambda>ia ib. concat (map (\<lambda>f. field_note D f (json_field f (index_value ia)) (json_field f (index_value ib))) ?fs)"
  let ?s = "\<lambda>ra rb. push_if (pack_set D ra \<noteq> pack_set D rb) (ChangeNote ''~ standards_pack identity set changed'')"
  from assms obtain ea eb ra rb where r:
    "read_json_file (value_reader (dr_codec D)) (sd_root a) ''env.json'' = Inr ea"
    "read_json_file (value_reader (dr_codec D)) (sd_root b) ''env.json'' = Inr eb"
    "load_compliance_reports D a = Inr ra" "load_compliance_reports D b = Inr rb"
    and d: "d = category_of_notes ''tool_identity'' (?n ia ib @ env_notes D ea eb @ ?s ra rb)"
    unfolding tool_identity_def by (auto simp: p rbind_Ok_iff)
  have e: "tool_identity D b a = Inr (category_of_notes ''tool_identity'' (?n ib ia @ env_notes D eb ea @ ?s rb ra))"
    unfolding tool_identity_def require_indexes_flip(1) [OF p] by (simp add: r)
  have "same_flags (?s ra rb) (?s rb ra)" by (auto simp: same_flags_def)
  then have "same_flags (?n ia ib @ env_notes D ea eb @ ?s ra rb) (?n ib ia @ env_notes D eb ea @ ?s rb ra)"
    by (intro same_flags_append same_flags_concat field_note_flip env_notes_flip) auto
  with e d show ?thesis by (auto intro: mirrored_notes)
qed

lemma integrity_flip: "mirrored (integrity a b) (integrity b a)"
  unfolding integrity_def by (rule mirrored_details) (auto simp: presence_detail_def)

lemma completeness_flip: "mirrored (completeness_diff D a b) (completeness_diff D b a)"
  unfolding completeness_diff_def Let_def
  by (rule index_category_flip, rule mirrored_details) (auto simp: json_eq_sym)

lemma content_hash_flip: "mirrored (content_hash_diff a b) (content_hash_diff b a)"
  unfolding content_hash_diff_def
  by (rule index_category_flip, rule mirrored_details) auto

end
