(* ===== verification/Diff_Properties.thy ===== *)
theory Diff_Properties
  imports Diff_Spec Demo_Bundle
begin

text \<open>
  What the comparison of two bundles guarantees: when a reproduction is clean, how the report
  changes when the sides are exchanged, what a bundle compared with itself shows, and what the
  status \<open>DiffEqual\<close> stands for. The witnesses compare the demonstration bundle with itself.
\<close>

section \<open>A bundle compared with itself\<close>

definition quiet :: "category_diff \<Rightarrow> bool" where
  "quiet d \<longleftrightarrow> cf_status d = DiffEqual \<or> cf_status d = DiffUnverifiable"

lemma quiet_notes: "\<not> notes_changed ns \<Longrightarrow> quiet (category_of_notes k ns)"
  by (simp add: quiet_def category_of_notes_def status_of_def)

lemma quiet_details [simp]: "quiet (category_of_details k [])"
  by (simp add: quiet_def category_of_details_def)

lemma quiet_unverifiable [simp]: "quiet (unverifiable k r)"
  by (simp add: quiet_def unverifiable_def)

lemma quiet_finish [simp]: "quiet (finish d) = quiet d"
  by (simp add: quiet_def finish_def)

lemma field_note_self [simp]: "field_note D l v v = []"
  by (simp add: field_note_def)

lemma presence_note_self [simp]: "presence_note l p p = []"
  by (simp add: presence_note_def)

lemma concat_map_all_Nil [simp]: "(\<And>x. x \<in> set xs \<Longrightarrow> f x = []) \<Longrightarrow> concat (map f xs) = []"
  by simp

lemma dal_notes_self: "dal_notes D m m k = []"
  by (simp add: dal_notes_def Let_def split: option.split)

text \<open>Two reads of the same side give the same.\<close>

lemma pair_read_self:
  "rbind r (\<lambda>x. rbind r (\<lambda>y. Ok (f x y))) = Inr d \<Longrightarrow> (\<And>x. P (f x x)) \<Longrightarrow> P d"
  by (cases r) auto

lemma scope_self: "quiet (scope D a a)"
  by (cases "sd_index a")
    (auto simp: scope_def require_indexes_def scope_notes_def dal_notes_self intro!: quiet_notes)

lemma trace_file_notes_self:
  assumes "load_wf e"
  shows "\<not> notes_changed (trace_file_notes name e e)"
proof (cases e)
  case (LoadOk m)
  then have "entry_notes name m m = []"
    unfolding entry_notes_def using assms by (intro keyed_notes_self) (auto simp: load_wf_def)
  then show ?thesis by (simp add: trace_file_notes_def LoadOk)
qed (simp_all add: trace_file_notes_def)

lemma trace_graph_self:
  assumes "trace_graph D a a = Inr d"
  shows "quiet d"
proof (cases "path_is_dir (sd_root a) ''trace''")
  case False
  with assms show ?thesis by (auto simp: trace_graph_def)
next
  case True
  let ?t = "\<lambda>n. trace_file_notes n (projr (read_trace_entries D a n)) (projr (read_trace_entries D a n))"
  from assms True have ok: "\<forall>n \<in> set compared_trace_files. \<exists>e. read_trace_entries D a n = Inr e"
    and d: "d = category_of_notes ''trace_graph'' (concat (map ?t compared_trace_files))"
    by (auto simp: trace_graph_def rbind_Ok_iff fold_pair_notes)
  have "\<not> notes_changed (?t n)" if "n \<in> set compared_trace_files" for n
  proof -
    from ok that obtain e where "read_trace_entries D a n = Inr e" by blast
    then show ?thesis by (simp add: trace_file_notes_self read_trace_entries_wf)
  qed
  then show ?thesis unfolding d by (intro quiet_notes) simp
qed

lemma outcome_notes_self: "\<not> notes_changed (outcome_notes x x)"
proof -
  have "row_notes (outcome_map r) (outcome_map r) = []" for r
    unfolding row_notes_def by (intro keyed_notes_self) auto
  then show ?thesis by (cases x) (simp_all add: outcome_notes_def)
qed

lemma diff_tests_self: "diff_tests D a a = Inr d \<Longrightarrow> quiet d"
proof -
  have "\<not> notes_changed (summary_notes s s)" for s
    by (cases s) (simp_all add: summary_notes_def count_note_def)
  then have "quiet (category_of_notes ''tests'' (summary_notes s s @ outcome_notes x x))" for s x
    using outcome_notes_self by (intro quiet_notes) simp
  then show "diff_tests D a a = Inr d \<Longrightarrow> quiet d"
    by (auto simp: diff_tests_def rbind_Ok_iff split: if_splits) (simp add: quiet_def)
qed

lemma diff_coverage_self: "diff_coverage D a a = Inr d \<Longrightarrow> quiet d"
proof -
  have b: "branch_notes l p p = []" for l p by (cases p) (simp_all add: branch_notes_def)
  have "level_notes p p l = []" for p l
    by (simp add: level_notes_def Let_def measurement_notes_def b split: option.split)
  then have "\<not> notes_changed (report_notes x x)" for x
    by (cases x) (simp_all add: report_notes_def Let_def)
  then have "quiet (coverage_category (report_notes x x))" for x
    by (simp add: quiet_def coverage_category_def Let_def status_of_def)
  then show "diff_coverage D a a = Inr d \<Longrightarrow> quiet d"
    by (auto simp: diff_coverage_def rbind_Ok_iff)
qed

lemma diff_commands_self: "diff_commands D a a = Inr d \<Longrightarrow> quiet d"
proof -
  have "command_row_details a a (i, r, r) = []" for i r
    by (simp add: command_row_details_def captured_detail_def)
  then have "command_details a a ra ra = []" for ra
    by (simp add: command_details_Nil_iff)
  then have "quiet (case (x, x) of (LoadOk ra, LoadOk rb) \<Rightarrow> category_of_details ''commands'' (command_details a a ra rb)
      | _ \<Rightarrow> unverifiable ''commands'' (commands_reason x x))" for x
    by (cases x) simp_all
  then show "diff_commands D a a = Inr d \<Longrightarrow> quiet d"
    unfolding diff_commands_def by (elim pair_read_self)
qed

lemma diff_recipe_self: "diff_recipe D a a = Inr d \<Longrightarrow> quiet d"
proof -
  have "compare_recipe_fields r r = []" for r by (simp add: recipe_fields_Nil_iff split_beta)
  then have "quiet (case (x, x) of
        (Some ra, Some rb) \<Rightarrow> category_of_details ''recipe'' (map (\<lambda>f. ''~ '' @ f) (compare_recipe_fields ra rb))
      | _ \<Rightarrow> unverifiable ''recipe'' (''deterministic-manifest.json missing or unparseable in ''
          @ which_side (x = None) (x = None)))" for x
    by (cases x) simp_all
  then show "diff_recipe D a a = Inr d \<Longrightarrow> quiet d"
    unfolding diff_recipe_def by (elim pair_read_self)
qed

text \<open>A digest plane of a bundle that lists a digest that is not one.\<close>

definition malformed_plane :: "diff_readers \<Rightarrow> bundle_tree \<Rightarrow> string \<Rightarrow> bool" where
  "malformed_plane D t category \<longleftrightarrow> (\<exists>m p v. read_digest_map (dr_codec D) t (category @ ''_hashes.json'')
     = Inr (LoadedPlane m) \<and> (p, v) \<in> set m \<and> \<not> is_sha256_hex v)"

lemma digest_plane_self:
  assumes "decodes_maps (dr_codec D)" and d: "digest_plane D a a k = Inr d"
  shows "(quiet d \<or> malformed_plane D (sd_root a) k) \<and> cf_category d = k"
proof -
  from d obtain p where p: "read_digest_map (dr_codec D) (sd_root a) (k @ ''_hashes.json'') = Inr p"
    and d: "d = plane_category k p p"
    unfolding digest_plane_eq by (auto simp: rbind_Ok_iff map_err_Ok_iff)
  show ?thesis
  proof (cases p)
    case (LoadedPlane m)
    have wf: "bwf m" using read_digest_map_wf [OF assms(1)] p LoadedPlane by simp
    show ?thesis
    proof (cases "\<forall>(q, v) \<in> set m. is_sha256_hex v")
      case True
      then have "plane_details (diff_digest_planes m m) = []"
        unfolding plane_details_Nil_iff plane_clean_iff [OF wf wf] same_digests_def by simp
      then show ?thesis
        by (simp add: d LoadedPlane plane_category_def) (simp add: category_of_details_def)
    next
      case False
      then have "malformed_plane D (sd_root a) k"
        using p LoadedPlane by (auto simp: malformed_plane_def)
      then show ?thesis by (simp add: d LoadedPlane plane_category_def category_of_details_def)
    qed
  next
    case UnavailablePlane
    then show ?thesis by (simp add: d plane_category_def) (simp add: unverifiable_def)
  qed
qed

lemma objective_mappings_self: "objective_mappings D a a = Inr d \<Longrightarrow> quiet d"
proof -
  have "objective_notes c oa oa i = []" for c oa i
    by (simp add: objective_notes_def split: option.split)
  then have "compare_report D n v v = []" for n v by (simp add: compare_report_def Let_def)
  then have n: "\<not> notes_changed (report_pair_notes D n x x)" for n x
    by (auto simp: report_pair_notes_def split: option.split load.split)
  have "quiet (mapping_category D u r r)" for u r
  proof (cases "r = []")
    case True
    then show ?thesis by (simp add: mapping_category_def) (simp add: quiet_def)
  next
    case False
    with n show ?thesis by (simp add: mapping_category_def quiet_notes)
  qed
  then show "objective_mappings D a a = Inr d \<Longrightarrow> quiet d"
    by (auto simp: objective_mappings_eq rbind_Ok_iff)
qed

lemma anomalies_self: "quiet (anomalies a a)"
proof -
  have "anomaly_details r r k = []" for r k
    by (simp add: anomaly_details_def Let_def split: option.split)
  then show ?thesis by (cases "sd_index a") (simp_all add: anomalies_def require_indexes_def)
qed

lemma tool_identity_self: "tool_identity D a a = Inr d \<Longrightarrow> quiet d"
proof -
  have "\<not> notes_changed (env_notes D e e)" for e by (cases e) (simp_all add: env_notes_def)
  then show "tool_identity D a a = Inr d \<Longrightarrow> quiet d"
    by (cases "sd_index a") (auto simp: tool_identity_def require_indexes_def rbind_Ok_iff intro!: quiet_notes)
qed

lemma index_diffs_self: "quiet (integrity a a)" "quiet (completeness_diff D a a)" "quiet (content_hash_diff a a)"
  by (cases "sd_index a"; simp add: integrity_def presence_detail_def completeness_diff_def
      content_hash_diff_def require_indexes_def Let_def)+

section \<open>The comparison, category by category\<close>

lemma compare_sides_Ok_iff:
  "compare_sides D a b = Inr ds \<longleftrightarrow> (\<exists>tg ts cv cm rc ip op om tl.
     trace_graph D a b = Inr tg \<and> diff_tests D a b = Inr ts \<and> diff_coverage D a b = Inr cv
     \<and> diff_commands D a b = Inr cm \<and> diff_recipe D a b = Inr rc
     \<and> digest_plane D a b ''inputs'' = Inr ip \<and> digest_plane D a b ''outputs'' = Inr op
     \<and> objective_mappings D a b = Inr om \<and> tool_identity D a b = Inr tl
     \<and> ds = map finish [scope D a b, tg, ts, cv, cm, rc, ip, op, om, reviews_approvals, anomalies a b, tl,
         integrity a b, completeness_diff D a b, content_hash_diff a b])"
  by (auto simp: compare_sides_def rbind_Ok_iff)

lemma compare_bundles_Ok_iff:
  "compare_bundles D (p, Some s) (q, Some t) = Inr ds \<longleftrightarrow> (\<exists>a b. load_side (dr_codec D) s = Inr a
     \<and> load_side (dr_codec D) t = Inr b \<and> compare_sides D a b = Inr ds)"
  by (auto simp: compare_bundles_def rbind_Ok_iff)

lemma load_side_root: "load_side C t = Inr s \<Longrightarrow> sd_root s = t"
  by (auto simp: load_side_def rbind_Ok_iff)

definition category_statuses :: "category_diff list \<Rightarrow> (string \<times> diff_status) list" where
  "category_statuses ds = map (\<lambda>d. (cf_category d, cf_status d)) ds"

lemma category_statuses_mirrored:
  "list_all2 mirrored ds es \<Longrightarrow> category_statuses es = map (\<lambda>(k, s). (k, mirror s)) (category_statuses ds)"
  by (induction ds es rule: list_all2_induct) (simp_all add: category_statuses_def mirrored_def)

lemma compare_sides_flip:
  assumes C: "decodes_maps (dr_codec D)" and ok: "compare_sides D a b = Inr ds"
  shows "\<exists>es. compare_sides D b a = Inr es \<and> list_all2 mirrored ds es"
proof -
  from ok obtain tg ts cv cm rc ip op om tl where parts:
    "trace_graph D a b = Inr tg" "diff_tests D a b = Inr ts" "diff_coverage D a b = Inr cv"
    "diff_commands D a b = Inr cm" "diff_recipe D a b = Inr rc"
    "digest_plane D a b ''inputs'' = Inr ip" "digest_plane D a b ''outputs'' = Inr op"
    "objective_mappings D a b = Inr om" "tool_identity D a b = Inr tl"
    and ds: "ds = map finish [scope D a b, tg, ts, cv, cm, rc, ip, op, om, reviews_approvals, anomalies a b, tl,
         integrity a b, completeness_diff D a b, content_hash_diff a b]"
    unfolding compare_sides_Ok_iff by blast
  obtain tg' where tg: "trace_graph D b a = Inr tg'" "mirrored tg tg'" by (rule trace_graph_flip [OF parts(1)])
  obtain ts' where ts: "diff_tests D b a = Inr ts'" "mirrored ts ts'" using diff_tests_flip [OF parts(2)] by blast
  obtain cv' where cv: "diff_coverage D b a = Inr cv'" "mirrored cv cv'" using diff_coverage_flip [OF parts(3)] by blast
  obtain cm' where cm: "diff_commands D b a = Inr cm'" "mirrored cm cm'" using diff_commands_flip [OF parts(4)] by blast
  obtain rc' where rc: "diff_recipe D b a = Inr rc'" "mirrored rc rc'" using diff_recipe_flip [OF parts(5)] by blast
  obtain ip' where ip: "digest_plane D b a ''inputs'' = Inr ip'" "mirrored ip ip'"
    using digest_plane_flip [OF C parts(6)] by blast
  obtain op' where op: "digest_plane D b a ''outputs'' = Inr op'" "mirrored op op'"
    using digest_plane_flip [OF C parts(7)] by blast
  obtain om' where om: "objective_mappings D b a = Inr om'" "mirrored om om'"
    using objective_mappings_flip [OF parts(8)] by blast
  obtain tl' where tl: "tool_identity D b a = Inr tl'" "mirrored tl tl'" using tool_identity_flip [OF parts(9)] by blast
  let ?es = "map finish [scope D b a, tg', ts', cv', cm', rc', ip', op', om', reviews_approvals, anomalies b a, tl',
         integrity b a, completeness_diff D b a, content_hash_diff b a]"
  have "compare_sides D b a = Inr ?es"
    unfolding compare_sides_Ok_iff using tg(1) ts(1) cv(1) cm(1) rc(1) ip(1) op(1) om(1) tl(1) by blast
  moreover have "mirrored reviews_approvals reviews_approvals" by (simp add: reviews_approvals_def)
  then have "list_all2 mirrored ds ?es"
    unfolding ds by (simp add: tg ts cv cm rc ip op om tl scope_flip anomalies_flip integrity_flip
      completeness_flip content_hash_flip)
  ultimately show ?thesis by blast
qed

section \<open>The witnesses' bundle\<close>

definition demo_readers :: diff_readers where
  "demo_readers = \<lparr>dr_codec = demo_codec\<lparr>decode_value := (\<lambda>_. Some (JObject []))\<rparr>, dr_outcome = (\<lambda>_. None),
     dr_coverage = (\<lambda>_. Inl ''unknown text''), dr_toml = (\<lambda>_. None), dr_show = (\<lambda>_. ''value'')\<rparr>"

lemma demo_decodes_maps: "decodes_maps (dr_codec demo_readers)"
  by (simp add: decodes_maps_def demo_readers_def demo_codec_def demo_only_def)

section \<open>Properties\<close>

text \<open>C37: when the digest maps decode as maps, a candidate reproduces a baseline without finding exactly
  when the input maps of both list the same well-formed digests, the output maps do, and both
  recipes parse and agree on every recipe field; a malformed digest is never accepted, not even
  next to itself.\<close>

theorem reproduction_clean_iff:
  assumes "decodes_maps C"
  shows "compare_reproduction C (p, Some s) (q, Some t) = Inr [] \<longleftrightarrow>
    (\<forall>name \<in> {''inputs_hashes.json'', ''outputs_hashes.json''}. \<exists>ma mb.
        read_digest_map C s name = Inr (LoadedPlane ma) \<and> read_digest_map C t name = Inr (LoadedPlane mb)
        \<and> same_digests ma mb)
    \<and> (\<exists>ra rb. read_recipe C s = Inr (Some ra) \<and> read_recipe C t = Inr (Some rb)
        \<and> (\<forall>(key, _) \<in> set recipe_fields. json_eq (json_field key ra) (json_field key rb)))"
proof -
  have empty: "sort xs = [] \<longleftrightarrow> xs = []" for xs :: "reproduction_finding list"
    by (metis length_0_conv length_sort)
  have pair: "(case pa of LoadedPlane ma \<Rightarrow> (case pb of LoadedPlane mb \<Rightarrow> f ma mb | UnavailablePlane \<Rightarrow> [x])
      | UnavailablePlane \<Rightarrow> [x]) = [] \<longleftrightarrow>
      (\<exists>ma mb. pa = LoadedPlane ma \<and> pb = LoadedPlane mb \<and> f ma mb = [])"
    for pa pb and f :: "(string, string) bmap \<Rightarrow> (string, string) bmap \<Rightarrow> reproduction_finding list" and x
    by (cases pa; cases pb) auto
  have clean: "plane_clean (diff_digest_planes ma mb) \<longleftrightarrow> same_digests ma mb"
    if "read_digest_map C s name = Inr (LoadedPlane ma)" "read_digest_map C t name = Inr (LoadedPlane mb)" for name ma mb
    using that read_digest_map_wf [OF assms] plane_clean_iff by blast
  have inputs: "compare_inputs C s t = Inr [] \<longleftrightarrow> (\<exists>ma mb. read_digest_map C s ''inputs_hashes.json'' = Inr (LoadedPlane ma)
      \<and> read_digest_map C t ''inputs_hashes.json'' = Inr (LoadedPlane mb) \<and> same_digests ma mb)"
  proof -
    have "compare_inputs C s t = Inr [] \<longleftrightarrow> (\<exists>ma mb. read_digest_map C s ''inputs_hashes.json'' = Inr (LoadedPlane ma)
      \<and> read_digest_map C t ''inputs_hashes.json'' = Inr (LoadedPlane mb) \<and> plane_clean (diff_digest_planes ma mb))"
      by (auto simp: compare_inputs_def rbind_Ok_iff pair Let_def plane_clean_def)
    then show ?thesis using clean by blast
  qed
  have outputs: "compare_outputs C s t = Inr [] \<longleftrightarrow> (\<exists>ma mb. read_digest_map C s ''outputs_hashes.json'' = Inr (LoadedPlane ma)
      \<and> read_digest_map C t ''outputs_hashes.json'' = Inr (LoadedPlane mb) \<and> same_digests ma mb)"
  proof -
    have "compare_outputs C s t = Inr [] \<longleftrightarrow> (\<exists>ma mb. read_digest_map C s ''outputs_hashes.json'' = Inr (LoadedPlane ma)
      \<and> read_digest_map C t ''outputs_hashes.json'' = Inr (LoadedPlane mb) \<and> plane_clean (diff_digest_planes ma mb))"
      by (auto simp: compare_outputs_def rbind_Ok_iff pair Let_def plane_clean_def)
    then show ?thesis using clean by blast
  qed
  have recipe: "compare_recipe C s t = Inr [] \<longleftrightarrow> (\<exists>ra rb. read_recipe C s = Inr (Some ra)
      \<and> read_recipe C t = Inr (Some rb) \<and> compare_recipe_fields ra rb = [])"
  proof -
    have "(case ra of None \<Rightarrow> [RecipeUnavailable] | Some a \<Rightarrow> (case rb of None \<Rightarrow> [RecipeUnavailable]
        | Some b \<Rightarrow> map RecipeFieldChanged (compare_recipe_fields a b))) = [] \<longleftrightarrow>
      (\<exists>a b. ra = Some a \<and> rb = Some b \<and> compare_recipe_fields a b = [])" for ra rb
      by (cases ra; cases rb) auto
    then show ?thesis by (auto simp: compare_recipe_def rbind_Ok_iff)
  qed
  have "compare_reproduction C (p, Some s) (q, Some t) = Inr [] \<longleftrightarrow>
      compare_inputs C s t = Inr [] \<and> compare_recipe C s t = Inr [] \<and> compare_outputs C s t = Inr []"
    by (auto simp: compare_reproduction_def rbind_Ok_iff empty)
  then show ?thesis unfolding inputs outputs recipe recipe_fields_Nil_iff by auto
qed

theorem reproduction_clean_iff_witness:
  "compare_reproduction (dr_codec demo_readers) (''a'', Some demo_manifest_tree) (''b'', Some demo_manifest_tree) = Inr []"
proof -
  have "read_digest_map (dr_codec demo_readers) demo_manifest_tree ''inputs_hashes.json'' = Inr (LoadedPlane [])"
    "read_digest_map (dr_codec demo_readers) demo_manifest_tree ''outputs_hashes.json'' = Inr (LoadedPlane [])"
    "read_recipe (dr_codec demo_readers) demo_manifest_tree = Inr (Some (JObject []))"
    by code_simp+
  then show ?thesis
    unfolding reproduction_clean_iff [OF demo_decodes_maps] by (simp add: same_digests_def split_beta)
qed

text \<open>C38: exchanging the two bundles reports the same categories in the same order, with Added and
  Removed exchanged and every other status unchanged; it succeeds whenever the comparison does.\<close>

theorem comparison_mirrors:
  assumes "decodes_maps (dr_codec D)" and "compare_bundles D (p, Some s) (q, Some t) = Inr ds"
  shows "\<exists>es. compare_bundles D (q, Some t) (p, Some s) = Inr es
    \<and> category_statuses es = map (\<lambda>(k, st). (k, mirror st)) (category_statuses ds)"
  using assms(2) compare_sides_flip [OF assms(1)] category_statuses_mirrored
  unfolding compare_bundles_Ok_iff by blast

definition demo_silent :: bundle_tree where
  "demo_silent = \<lparr>bt_files = [([''tests'', ''cargo_test_stdout.txt''], ''log'')], bt_dirs = [], bt_outside = (\<lambda>_. None)\<rparr>"

definition demo_blank :: bundle_tree where
  "demo_blank = \<lparr>bt_files = [], bt_dirs = [], bt_outside = (\<lambda>_. None)\<rparr>"

lemma demo_comparison:
  "\<exists>ds. compare_bundles demo_readers (''a'', Some demo_blank) (''b'', Some demo_silent) = Inr ds
    \<and> (''tests'', DiffAdded) \<in> set (category_statuses ds)"
proof -
  have "(case compare_bundles demo_readers (''a'', Some demo_blank) (''b'', Some demo_silent) of
      Inr ds \<Rightarrow> (''tests'', DiffAdded) \<in> set (category_statuses ds) | Inl _ \<Rightarrow> False)"
    by code_simp
  then show ?thesis by (auto split: sum.splits)
qed

theorem comparison_mirrors_witness:
  "\<exists>es. compare_bundles demo_readers (''b'', Some demo_silent) (''a'', Some demo_blank) = Inr es
    \<and> (''tests'', DiffRemoved) \<in> set (category_statuses es)"
proof -
  from demo_comparison obtain ds where ds:
    "compare_bundles demo_readers (''a'', Some demo_blank) (''b'', Some demo_silent) = Inr ds"
    "(''tests'', DiffAdded) \<in> set (category_statuses ds)" by blast
  from comparison_mirrors [OF demo_decodes_maps ds(1)] ds(2) show ?thesis by force
qed

text \<open>C39: a bundle compared with itself shows no category as added, removed or changed, except a digest
  plane in which a listed digest is malformed.\<close>

theorem self_comparison_is_quiet:
  assumes "decodes_maps (dr_codec D)" and "compare_bundles D (p, Some t) (q, Some t) = Inr ds" and "d \<in> set ds"
  shows "cf_status d = DiffEqual \<or> cf_status d = DiffUnverifiable
    \<or> cf_category d \<in> {''inputs'', ''outputs''} \<and> malformed_plane D t (cf_category d)"
proof -
  from assms(2) obtain a where a: "load_side (dr_codec D) t = Inr a" "compare_sides D a a = Inr ds"
    unfolding compare_bundles_Ok_iff by auto
  note root = load_side_root [OF a(1)]
  from a(2) obtain tg ts cv cm rc ip op om tl where parts:
    "trace_graph D a a = Inr tg" "diff_tests D a a = Inr ts" "diff_coverage D a a = Inr cv"
    "diff_commands D a a = Inr cm" "diff_recipe D a a = Inr rc"
    "digest_plane D a a ''inputs'' = Inr ip" "digest_plane D a a ''outputs'' = Inr op"
    "objective_mappings D a a = Inr om" "tool_identity D a a = Inr tl"
    and ds: "ds = map finish [scope D a a, tg, ts, cv, cm, rc, ip, op, om, reviews_approvals, anomalies a a, tl,
         integrity a a, completeness_diff D a a, content_hash_diff a a]"
    unfolding compare_sides_Ok_iff by blast
  have planes: "(quiet ip \<or> malformed_plane D t ''inputs'') \<and> cf_category ip = ''inputs''"
    "(quiet op \<or> malformed_plane D t ''outputs'') \<and> cf_category op = ''outputs''"
    using digest_plane_self [OF assms(1) parts(6)] digest_plane_self [OF assms(1) parts(7)] root by simp_all
  from assms(3) obtain c where c: "d = finish c" "c \<in> set [scope D a a, tg, ts, cv, cm, rc, ip, op, om,
      reviews_approvals, anomalies a a, tl, integrity a a, completeness_diff D a a, content_hash_diff a a]"
    unfolding ds by auto
  have "quiet c \<or> c = ip \<or> c = op"
    using c(2) scope_self trace_graph_self [OF parts(1)] diff_tests_self [OF parts(2)] diff_coverage_self [OF parts(3)]
      diff_commands_self [OF parts(4)] diff_recipe_self [OF parts(5)] objective_mappings_self [OF parts(8)]
      anomalies_self tool_identity_self [OF parts(9)] index_diffs_self
      quiet_unverifiable [of "''reviews_approvals''", folded reviews_approvals_def]
    by (auto simp: reviews_approvals_def)
  with planes show ?thesis by (auto simp: c(1) quiet_def finish_def)
qed

section \<open>What Equal stands for\<close>

lemma category_names [simp]:
  "cf_category (category_of_notes k ns) = k" "cf_category (category_of_details k ls) = k"
  "cf_category (unverifiable k r) = k" "cf_category (finish d) = cf_category d" "cf_status (finish d) = cf_status d"
  by (simp_all add: category_of_notes_def category_of_details_def unverifiable_def finish_def)

lemma unverifiable_status [simp]: "cf_status (unverifiable k r) = DiffUnverifiable"
  by (simp add: unverifiable_def)

lemma details_status_iff [simp]: "cf_status (category_of_details k ls) = DiffEqual \<longleftrightarrow> ls = []"
  by (simp add: category_of_details_def)

lemma require_indexes_name: "require_indexes a b k = Inl d \<Longrightarrow> cf_category d = k \<and> cf_status d = DiffUnverifiable"
  using require_indexes_flip(2) [of a b k d] by auto

lemma index_category_names:
  "cf_category (scope D a b) = ''scope''" "cf_category (anomalies a b) = ''anomalies''"
  "cf_category (completeness_diff D a b) = ''completeness_states''"
  "cf_category (content_hash_diff a b) = ''content_hash''" "cf_category (integrity a b) = ''integrity''"
  "tool_identity D a b = Inr d \<Longrightarrow> cf_category d = ''tool_identity''"
  by (auto simp: scope_def anomalies_def completeness_diff_def content_hash_diff_def integrity_def tool_identity_def
      Let_def rbind_Ok_iff dest: require_indexes_name split: sum.split sum.splits)

lemma capture_category_names:
  "trace_graph D a b = Inr d \<Longrightarrow> cf_category d = ''trace_graph''"
  "diff_tests D a b = Inr d \<Longrightarrow> cf_category d = ''tests''"
  "diff_coverage D a b = Inr d \<Longrightarrow> cf_category d = ''coverage''"
  "objective_mappings D a b = Inr d \<Longrightarrow> cf_category d = ''objective_mappings''"
     apply (auto simp: trace_graph_def rbind_Ok_iff split: bool.splits)[1]
    apply (auto simp: diff_tests_def one_sided_tests_def rbind_Ok_iff split: if_splits)[1]
   apply (auto simp: diff_coverage_def coverage_category_def rbind_Ok_iff Let_def)[1]
  apply (auto simp: objective_mappings_eq mapping_category_def rbind_Ok_iff)[1]
  done

lemma diff_commands_Equal:
  assumes "diff_commands D a b = Inr d"
  shows "cf_category d = ''commands''"
    "cf_status d = DiffEqual \<Longrightarrow> \<exists>ra rb. read_json_file (decode_commands (dr_codec D)) (sd_root a) ''commands.json'' = Inr (LoadOk ra)
      \<and> read_json_file (decode_commands (dr_codec D)) (sd_root b) ''commands.json'' = Inr (LoadOk rb)
      \<and> map cr_argv ra = map cr_argv rb \<and> map cr_exit_code ra = map cr_exit_code rb"
proof -
  from assms obtain x y where x: "read_json_file (decode_commands (dr_codec D)) (sd_root a) ''commands.json'' = Inr x"
    and y: "read_json_file (decode_commands (dr_codec D)) (sd_root b) ''commands.json'' = Inr y"
    and d: "d = (case (x, y) of (LoadOk ra, LoadOk rb) \<Rightarrow> category_of_details ''commands'' (command_details a b ra rb)
      | _ \<Rightarrow> unverifiable ''commands'' (commands_reason x y))"
    unfolding diff_commands_def rbind_Ok_iff by blast
  show "cf_category d = ''commands''" unfolding d by (cases x; cases y) simp_all
  assume "cf_status d = DiffEqual"
  then obtain ra rb where m: "x = LoadOk ra" "y = LoadOk rb" "command_details a b ra rb = []"
    unfolding d by (cases x; cases y) auto
  then have len: "length ra = length rb" and row: "\<And>i. i < length ra \<Longrightarrow> command_row_details a b (i, ra ! i, rb ! i) = []"
    unfolding command_details_Nil_iff by auto
  have "cr_argv (ra ! i) = cr_argv (rb ! i) \<and> cr_exit_code (ra ! i) = cr_exit_code (rb ! i)" if "i < length ra" for i
    using row [OF that] by (simp add: command_row_details_def)
  with len have "map cr_argv ra = map cr_argv rb" "map cr_exit_code ra = map cr_exit_code rb"
    by (auto intro: nth_equalityI)
  with x y m show "\<exists>ra rb. read_json_file (decode_commands (dr_codec D)) (sd_root a) ''commands.json'' = Inr (LoadOk ra)
      \<and> read_json_file (decode_commands (dr_codec D)) (sd_root b) ''commands.json'' = Inr (LoadOk rb)
      \<and> map cr_argv ra = map cr_argv rb \<and> map cr_exit_code ra = map cr_exit_code rb" by blast
qed

lemma diff_recipe_Equal:
  assumes "diff_recipe D a b = Inr d"
  shows "cf_category d = ''recipe''"
    "cf_status d = DiffEqual \<Longrightarrow> \<exists>ra rb. read_recipe (dr_codec D) (sd_root a) = Inr (Some ra)
      \<and> read_recipe (dr_codec D) (sd_root b) = Inr (Some rb)
      \<and> (\<forall>(key, _) \<in> set recipe_fields. json_eq (json_field key ra) (json_field key rb))"
proof -
  from assms obtain x y where x: "read_recipe (dr_codec D) (sd_root a) = Inr x"
    and y: "read_recipe (dr_codec D) (sd_root b) = Inr y"
    and d: "d = (case (x, y) of (Some ra, Some rb) \<Rightarrow> category_of_details ''recipe'' (map (\<lambda>f. ''~ '' @ f) (compare_recipe_fields ra rb))
      | _ \<Rightarrow> unverifiable ''recipe'' (''deterministic-manifest.json missing or unparseable in '' @ which_side (x = None) (y = None)))"
    unfolding diff_recipe_def rbind_Ok_iff map_err_Ok_iff by blast
  show "cf_category d = ''recipe''" unfolding d by (cases x; cases y) simp_all
  assume "cf_status d = DiffEqual"
  then obtain ra rb where m: "x = Some ra" "y = Some rb" "compare_recipe_fields ra rb = []"
    unfolding d by (cases x; cases y) auto
  with x y show "\<exists>ra rb. read_recipe (dr_codec D) (sd_root a) = Inr (Some ra)
      \<and> read_recipe (dr_codec D) (sd_root b) = Inr (Some rb)
      \<and> (\<forall>(key, _) \<in> set recipe_fields. json_eq (json_field key ra) (json_field key rb))"
    unfolding recipe_fields_Nil_iff by blast
qed

lemma digest_plane_Equal:
  assumes "decodes_maps (dr_codec D)" and "digest_plane D a b k = Inr d"
  shows "cf_category d = k"
    "cf_status d = DiffEqual \<Longrightarrow> \<exists>ma mb. read_digest_map (dr_codec D) (sd_root a) (k @ ''_hashes.json'') = Inr (LoadedPlane ma)
      \<and> read_digest_map (dr_codec D) (sd_root b) (k @ ''_hashes.json'') = Inr (LoadedPlane mb) \<and> same_digests ma mb"
proof -
  from assms(2) obtain x y where x: "read_digest_map (dr_codec D) (sd_root a) (k @ ''_hashes.json'') = Inr x"
    and y: "read_digest_map (dr_codec D) (sd_root b) (k @ ''_hashes.json'') = Inr y"
    and d: "d = plane_category k x y"
    unfolding digest_plane_eq rbind_Ok_iff map_err_Ok_iff by blast
  show "cf_category d = k" unfolding d plane_category_def by (cases x; cases y) simp_all
  assume "cf_status d = DiffEqual"
  then obtain ma mb where m: "x = LoadedPlane ma" "y = LoadedPlane mb" "plane_clean (diff_digest_planes ma mb)"
    unfolding d plane_category_def by (cases x; cases y) (auto simp: plane_details_Nil_iff)
  with x y read_digest_map_wf [OF assms(1)] plane_clean_iff
  show "\<exists>ma mb. read_digest_map (dr_codec D) (sd_root a) (k @ ''_hashes.json'') = Inr (LoadedPlane ma)
      \<and> read_digest_map (dr_codec D) (sd_root b) (k @ ''_hashes.json'') = Inr (LoadedPlane mb) \<and> same_digests ma mb"
    by blast
qed

lemma content_hash_Equal:
  "cf_status (content_hash_diff a b) = DiffEqual \<Longrightarrow>
    \<exists>ia ib. sd_index a = LoadOk ia \<and> sd_index b = LoadOk ib \<and> ix_content_hash ia = ix_content_hash ib"
  by (cases "sd_index a"; cases "sd_index b") (auto simp: content_hash_diff_def require_indexes_def)

lemma anomalies_Equal:
  "cf_status (anomalies a b) = DiffEqual \<Longrightarrow> \<exists>ia ib. sd_index a = LoadOk ia \<and> sd_index b = LoadOk ib
    \<and> (\<forall>k. bget (failure_rows ia) k = bget (failure_rows ib) k)"
proof -
  have row: "bget r k = bget q k" if "\<forall>k \<in> set (key_union r q). anomaly_details r q k = []" for r q k
  proof (cases "k \<in> set (key_union r q)")
    case True
    then have "anomaly_details r q k = []" using that by blast
    then show ?thesis by (cases "bget r k"; cases "bget q k") (simp_all add: anomaly_details_def Let_def)
  next
    case False
    then have "bget r k = None" "bget q k = None" by (simp_all add: bget_None_iff)
    then show ?thesis by simp
  qed
  show "cf_status (anomalies a b) = DiffEqual \<Longrightarrow> ?thesis"
    by (cases "sd_index a"; cases "sd_index b") (auto simp: anomalies_def require_indexes_def intro!: row)
qed

text \<open>Both indexes are readable.\<close>

definition index_at :: "codec \<Rightarrow> bundle_tree \<Rightarrow> evidence_index \<Rightarrow> bool" where
  "index_at C t i \<longleftrightarrow> read_json_file (decode_index C) t ''index.json'' = Inr (LoadOk i)"

text \<open>What a category reported as equal has established, for the categories the claim covers.\<close>

definition evidence_agrees :: "diff_readers \<Rightarrow> bundle_tree \<Rightarrow> bundle_tree \<Rightarrow> string \<Rightarrow> bool" where
  "evidence_agrees D s t k \<longleftrightarrow> k \<noteq> ''reviews_approvals''
    \<and> (k \<in> {''inputs'', ''outputs''} \<longrightarrow> (\<exists>ma mb. read_digest_map (dr_codec D) s (k @ ''_hashes.json'') = Inr (LoadedPlane ma)
        \<and> read_digest_map (dr_codec D) t (k @ ''_hashes.json'') = Inr (LoadedPlane mb) \<and> same_digests ma mb))
    \<and> (k = ''recipe'' \<longrightarrow> (\<exists>ra rb. read_recipe (dr_codec D) s = Inr (Some ra) \<and> read_recipe (dr_codec D) t = Inr (Some rb)
        \<and> (\<forall>(key, _) \<in> set recipe_fields. json_eq (json_field key ra) (json_field key rb))))
    \<and> (k = ''commands'' \<longrightarrow> (\<exists>ra rb. read_json_file (decode_commands (dr_codec D)) s ''commands.json'' = Inr (LoadOk ra)
        \<and> read_json_file (decode_commands (dr_codec D)) t ''commands.json'' = Inr (LoadOk rb)
        \<and> map cr_argv ra = map cr_argv rb \<and> map cr_exit_code ra = map cr_exit_code rb))
    \<and> (k = ''content_hash'' \<longrightarrow> (\<exists>ia ib. index_at (dr_codec D) s ia \<and> index_at (dr_codec D) t ib
        \<and> ix_content_hash ia = ix_content_hash ib))
    \<and> (k = ''anomalies'' \<longrightarrow> (\<exists>ia ib. index_at (dr_codec D) s ia \<and> index_at (dr_codec D) t ib
        \<and> (\<forall>row. bget (failure_rows ia) row = bget (failure_rows ib) row)))"

lemma load_side_index: "load_side C t = Inr s \<Longrightarrow> sd_index s = LoadOk i \<Longrightarrow> index_at C t i"
  by (auto simp: load_side_def rbind_Ok_iff index_at_def)

text \<open>The report always lists the fifteen categories in their fixed order.\<close>

lemma compare_sides_names:
  assumes "decodes_maps (dr_codec D)" "compare_sides D a b = Inr ds"
  shows "map cf_category ds = category_order"
  using assms(2) unfolding compare_sides_Ok_iff
  by (elim exE conjE) (simp add: category_order_def index_category_names capture_category_names diff_commands_Equal(1)
      diff_recipe_Equal(1) digest_plane_Equal(1) [OF assms(1)] reviews_approvals_def)

text \<open>C40: what an equal category of a comparison of two bundles establishes, with readers that decode
  JSON maps to maps with distinct keys, for the inputs, the
  outputs, the recipe, the commands, the anomalies, the content hash and the reviews: the first six
  count as equal only when both bundles hold a readable artifact of the category and the two agree on
  what the category compares, and the reviews are never reported as equal. Nothing is claimed of the
  other eight categories; among them the tests and the coverage are also reported as equal when
  neither bundle has any data, the tests even when both outcome files are unreadable
  (\<open>unreadable_outcomes_are_equal\<close>).\<close>

theorem equal_is_examined:
  assumes "decodes_maps (dr_codec D)" and "compare_bundles D (p, Some s) (q, Some t) = Inr ds"
    and "d \<in> set ds" and "cf_status d = DiffEqual"
  shows "evidence_agrees D s t (cf_category d)"
proof -
  from assms(2) obtain a b where ab: "load_side (dr_codec D) s = Inr a" "load_side (dr_codec D) t = Inr b"
    "compare_sides D a b = Inr ds" unfolding compare_bundles_Ok_iff by blast
  note root = load_side_root [OF ab(1)] load_side_root [OF ab(2)]
  note index = load_side_index [OF ab(1)] load_side_index [OF ab(2)]
  from ab(3) obtain tg ts cv cm rc ip op om tl where parts:
    "trace_graph D a b = Inr tg" "diff_tests D a b = Inr ts" "diff_coverage D a b = Inr cv"
    "diff_commands D a b = Inr cm" "diff_recipe D a b = Inr rc"
    "digest_plane D a b ''inputs'' = Inr ip" "digest_plane D a b ''outputs'' = Inr op"
    "objective_mappings D a b = Inr om" "tool_identity D a b = Inr tl"
    and ds: "ds = map finish [scope D a b, tg, ts, cv, cm, rc, ip, op, om, reviews_approvals, anomalies a b, tl,
         integrity a b, completeness_diff D a b, content_hash_diff a b]"
    unfolding compare_sides_Ok_iff by blast
  note names = index_category_names(1-5) index_category_names(6) [OF parts(9)] capture_category_names(1) [OF parts(1)]
    capture_category_names(2) [OF parts(2)] capture_category_names(3) [OF parts(3)] capture_category_names(4) [OF parts(8)]
  have cm: "cf_status cm = DiffEqual \<Longrightarrow> evidence_agrees D s t (cf_category cm)"
    using diff_commands_Equal [OF parts(4)] by (simp add: evidence_agrees_def root)
  have rc: "cf_status rc = DiffEqual \<Longrightarrow> evidence_agrees D s t (cf_category rc)"
    using diff_recipe_Equal [OF parts(5)] by (simp add: evidence_agrees_def root)
  have ip: "cf_status ip = DiffEqual \<Longrightarrow> evidence_agrees D s t (cf_category ip)"
    using digest_plane_Equal [OF assms(1) parts(6)] by (simp add: evidence_agrees_def root)
  have op: "cf_status op = DiffEqual \<Longrightarrow> evidence_agrees D s t (cf_category op)"
    using digest_plane_Equal [OF assms(1) parts(7)] by (simp add: evidence_agrees_def root)
  have ch: "cf_status (content_hash_diff a b) = DiffEqual \<Longrightarrow> evidence_agrees D s t ''content_hash''"
    using content_hash_Equal [of a b] index by (simp add: evidence_agrees_def) blast
  have an: "cf_status (anomalies a b) = DiffEqual \<Longrightarrow> evidence_agrees D s t ''anomalies''"
    using anomalies_Equal [of a b] index by (simp add: evidence_agrees_def) blast
  have other: "evidence_agrees D s t k" if "k \<in> {''scope'', ''trace_graph'', ''tests'', ''coverage'', ''objective_mappings'',
      ''tool_identity'', ''integrity'', ''completeness_states''}" for k
    using that by (auto simp: evidence_agrees_def)
  from assms(3) obtain c where c: "d = finish c" "c \<in> set [scope D a b, tg, ts, cv, cm, rc, ip, op, om,
      reviews_approvals, anomalies a b, tl, integrity a b, completeness_diff D a b, content_hash_diff a b]"
    unfolding ds by auto
  have "c \<noteq> reviews_approvals" using assms(4) unfolding c(1) by (auto simp: reviews_approvals_def)
  then consider "c = cm" | "c = rc" | "c = ip" | "c = op" | "c = content_hash_diff a b" | "c = anomalies a b"
    | "c \<in> {scope D a b, tg, ts, cv, om, tl, integrity a b, completeness_diff D a b}"
    using c(2) by auto
  then show ?thesis
  proof cases
    case 7
    then have "cf_category c \<in> {''scope'', ''trace_graph'', ''tests'', ''coverage'', ''objective_mappings'',
        ''tool_identity'', ''integrity'', ''completeness_states''}" using names by auto
    then show ?thesis unfolding c(1) category_names by (rule other)
  qed (use assms(4) c(1) cm rc ip op ch an names in auto)
qed

text \<open>The demonstration bundle compared with itself.\<close>

lemma demo_self_comparison:
  "\<exists>ds. compare_bundles demo_readers (''a'', Some demo_manifest_tree) (''b'', Some demo_manifest_tree) = Inr ds
    \<and> (''inputs'', DiffEqual) \<in> set (category_statuses ds)"
proof -
  have "(case compare_bundles demo_readers (''a'', Some demo_manifest_tree) (''b'', Some demo_manifest_tree) of
      Inr ds \<Rightarrow> (''inputs'', DiffEqual) \<in> set (category_statuses ds) | Inl _ \<Rightarrow> False)"
    by code_simp
  then show ?thesis by (auto split: sum.splits)
qed

theorem self_comparison_is_quiet_witness:
  "\<exists>ds. compare_bundles demo_readers (''a'', Some demo_manifest_tree) (''b'', Some demo_manifest_tree) = Inr ds
    \<and> list_all (\<lambda>d. cf_status d = DiffEqual \<or> cf_status d = DiffUnverifiable) ds"
proof -
  from demo_self_comparison obtain ds where
    ds: "compare_bundles demo_readers (''a'', Some demo_manifest_tree) (''b'', Some demo_manifest_tree) = Inr ds" by blast
  have "read_digest_map (dr_codec demo_readers) demo_manifest_tree ''inputs_hashes.json'' = Inr (LoadedPlane [])"
    "read_digest_map (dr_codec demo_readers) demo_manifest_tree ''outputs_hashes.json'' = Inr (LoadedPlane [])"
    by code_simp+
  then have "\<not> malformed_plane demo_readers demo_manifest_tree ''inputs''"
    "\<not> malformed_plane demo_readers demo_manifest_tree ''outputs''"
    by (simp_all add: malformed_plane_def)
  then have "cf_status d = DiffEqual \<or> cf_status d = DiffUnverifiable" if "d \<in> set ds" for d
    using self_comparison_is_quiet [OF demo_decodes_maps ds that] by force
  with ds show ?thesis by (auto simp: list_all_iff)
qed

theorem equal_is_examined_witness:
  "evidence_agrees demo_readers demo_manifest_tree demo_manifest_tree ''inputs''"
proof -
  from demo_self_comparison obtain ds where
    ds: "compare_bundles demo_readers (''a'', Some demo_manifest_tree) (''b'', Some demo_manifest_tree) = Inr ds"
      "(''inputs'', DiffEqual) \<in> set (category_statuses ds)" by blast
  then obtain d where "d \<in> set ds" "cf_category d = ''inputs''" "cf_status d = DiffEqual"
    by (auto simp: category_statuses_def)
  with equal_is_examined [OF demo_decodes_maps ds(1)] show ?thesis by metis
qed

section \<open>Details that mislead\<close>

text \<open>A boundary policy without rules is not written to the index, so against a policy with a rule every
  flag is listed, also one that neither policy sets.\<close>

theorem unset_flag_is_listed:
  assumes "sd_index a = LoadOk ia" "sd_index b = LoadOk ib"
    and "is_default_boundary_policy (ix_boundary_policy ia)" "bp_forbid_build_rs (ix_boundary_policy ib)"
    and "\<not> bp_forbid_proc_macros (ix_boundary_policy ib)"
  shows "ChangeNote (''~ boundary_policy.forbid_proc_macros: '' @ arrow (value_label D JNull) (value_label D (JBool False)))
    \<in> set (scope_notes D (index_value ia) (index_value ib))"
proof -
  have "json_get ''boundary_policy'' (index_value ia) = None"
    using assms(3) by (simp add: json_get_def index_value_def split: option.split)
  then have a: "flag_value ''forbid_proc_macros'' (index_value ia) = JNull" by (simp add: flag_value_def)
  have "json_get ''boundary_policy'' (index_value ib) = Some (policy_value (ix_boundary_policy ib))"
    using assms(4) by (simp add: json_get_def index_value_def is_default_boundary_policy_def split: option.split)
  then have b: "flag_value ''forbid_proc_macros'' (index_value ib) = JBool False"
    using assms(5) by (simp add: flag_value_def json_get_def policy_value_def)
  have "ChangeNote (''~ boundary_policy.forbid_proc_macros: '' @ arrow (value_label D JNull) (value_label D (JBool False)))
    \<in> set (field_note D (''boundary_policy.'' @ ''forbid_proc_macros'')
        (flag_value ''forbid_proc_macros'' (index_value ia)) (flag_value ''forbid_proc_macros'' (index_value ib)))"
    by (simp add: a b field_note_def json_eq_def push_if_def)
  then show ?thesis unfolding scope_notes_def boundary_flags_def by simp
qed

text \<open>Two bundles with the same coverage report are described as having no coverage data.\<close>

theorem equal_coverage_is_called_absent:
  assumes "read_json_file (dr_coverage D) (sd_root a) ''coverage/coverage_summary.json'' = Inr (LoadOk r)"
    and "read_json_file (dr_coverage D) (sd_root b) ''coverage/coverage_summary.json'' = Inr (LoadOk r)"
    and "file_exists a ''coverage/lcov.info'' = file_exists b ''coverage/lcov.info''"
  shows "diff_coverage D a b = Inr \<lparr>cf_category = ''coverage'', cf_status = DiffEqual,
    cf_details = [''no coverage data on either side'']\<rparr>"
proof -
  have "branch_notes l p p = []" for l p by (cases p) (simp_all add: branch_notes_def)
  then have "level_notes r r l = []" for l
    by (simp add: level_notes_def Let_def measurement_notes_def split: option.split)
  then have "report_notes (LoadOk r) (LoadOk r) = []" by (simp add: report_notes_def Let_def)
  with assms show ?thesis by (simp add: diff_coverage_def coverage_category_def Let_def status_of_def)
qed

text \<open>Two bundles whose outcome files cannot be read, without a summary and without captured logs, have
  equal tests.\<close>

theorem unreadable_outcomes_are_equal:
  assumes "load_test_side D a = Inr ta" "load_test_side D b = Inr tb"
    and "td_outcomes ta = LoadUnparseable" "td_outcomes tb = LoadUnparseable"
    and "td_summary ta = None" "td_summary tb = None"
    and "\<not> td_stdout_log ta" "\<not> td_stderr_log ta" "\<not> td_stdout_log tb" "\<not> td_stderr_log tb"
  shows "diff_tests D a b = Inr \<lparr>cf_category = ''tests'', cf_status = DiffEqual,
    cf_details = [''no test artifacts on either side'']\<rparr>"
  using assms by (simp add: diff_tests_def has_data_def)

end
