(* ===== verification/Spec2Isabelle.thy ===== *)
theory Spec2Isabelle
  imports Source_Properties Corpus_Properties Trace_Properties Drift_Properties Bundle_Properties Lock_Properties Loader_Properties Proposal_Properties Compliance_Properties Requirement_Properties Source_Verify_Properties Diff_Properties
begin

text \<open>
  A verification library for the Evidence tool: the library crate \<^verbatim>\<open>evidence-core\<close>, which keeps
  the certification evidence of a Rust workspace. Paths below are relative to
  \<^verbatim>\<open>src/crates/evidence-core/src/\<close> unless they start with \<^verbatim>\<open>src/\<close>. This theory only joins the
  others and documents them.

  \<^bold>\<open>The program.\<close> Two stores meet in the tool. The \<^emph>\<open>corpus\<close> is the committed model of the
  requirements: source documents and their revisions, the parsed structure of each revision (a
  forest of source nodes), curated patches over that structure, requirements and tests, and reviews
  that approve a requirement or a patch by the digest of its content. It is read from TOML records,
  validated as one graph, evaluated into lifecycles (candidate, approved, rejected, stale) and gated
  by the approval boundary. The \<^emph>\<open>bundle\<close> is the evidence of one run: captured outputs, test
  outcomes, coverage, trace files, hashes, an index, a listing of digests and a signature. A builder
  writes it, a verifier checks it, and two of them can be compared. Between the two stand the legacy
  trace (system, high-level, low-level requirements, tests and derived requirements in five TOML files), which adapts to a
  corpus graph, the per-requirement report, and the compliance report per crate.

  \<^bold>\<open>Shared layer.\<close> \<^verbatim>\<open>Evidence_Prelude\<close>: results with early return (\<^verbatim>\<open>?\<close> is \<open>rbind\<close>), loops that
  stop at the first error (\<open>for_each\<close>, \<open>fold_res\<close>), the Rust string functions in use; a Rust string
  is its UTF-8 bytes, \<^verbatim>\<open>u32\<close> and \<^verbatim>\<open>u64\<close> are words. \<^verbatim>\<open>Ordered_Map\<close>: \<^verbatim>\<open>BTreeMap\<close> as a sorted association
  list, with its laws as a locale. \<^verbatim>\<open>Corpus_Types\<close>: the closed vocabularies, the typed errors and the
  record \<open>platform\<close> of external functions. \<^verbatim>\<open>Canonical_Bytes\<close>: the length-framed encoding under every
  digest, proved prefix-free and injective. \<^verbatim>\<open>Float_Round\<close>: the rounding of \<^verbatim>\<open>f64\<close> over the rationals.

  \<^bold>\<open>Corpus.\<close> Theories and the files they model:
  \<^item> \<^verbatim>\<open>Source_Nodes\<close>, \<^verbatim>\<open>Source_Forest\<close>, \<^verbatim>\<open>Source_Render\<close>: \<^verbatim>\<open>corpus/source_graph.rs\<close> and
    \<^verbatim>\<open>corpus/source_graph/\<close> (locators, normalization, fingerprints, the validator, the rendering).
    \<^verbatim>\<open>Forest_Spec\<close> states the well-formed forest without reference to the validator and proves that
    the validator decides it.
  \<^item> \<^verbatim>\<open>Patch_Records\<close>, \<^verbatim>\<open>Patch_Apply\<close>, \<^verbatim>\<open>Patch_Edits\<close>, \<^verbatim>\<open>Patch_Spec\<close>: \<^verbatim>\<open>corpus/source_patch/\<close>. The
    exact success condition of a patch and its result, and that accepted patches keep the forest.
  \<^item> \<^verbatim>\<open>Corpus_Graph\<close>, \<^verbatim>\<open>Supersession\<close>, \<^verbatim>\<open>Corpus_Validation\<close>: \<^verbatim>\<open>corpus/graph/\<close> and
    \<^verbatim>\<open>corpus/source/lineage.rs\<close>. The locale \<open>chain_plane\<close> proves once that the fork, self and cycle checks
    decide chains; it is interpreted for reviews and for revisions. \<open>corpus_ok\<close> is the declarative
    contract of a whole corpus (resolving edges, coherent reviews, \<open>corrections_ok\<close>, \<open>lineage_ok\<close>,
    well-formed forests, bound patches): no part of it is a result of a validator, only the table of
    legal edge kinds and the digests are those of the code.
  \<^item> \<^verbatim>\<open>Lifecycle\<close>, \<^verbatim>\<open>Approval\<close>, \<^verbatim>\<open>Lifecycle_Spec\<close>, \<^verbatim>\<open>Effective_Spec\<close>: \<^verbatim>\<open>corpus/review_content.rs\<close>,
    \<^verbatim>\<open>lifecycle.rs\<close>, \<^verbatim>\<open>patch_lifecycle.rs\<close>, \<^verbatim>\<open>effective_graph.rs\<close>, \<^verbatim>\<open>approval_boundary.rs\<close>. The loops over
    reviews refine a state defined from the live heads; the boundary and the effective graph are
    characterised over those states.
  \<^item> \<^verbatim>\<open>Structural_Identity\<close>, \<^verbatim>\<open>Drift_Nodes\<close>, \<^verbatim>\<open>Drift_Compare\<close>, \<^verbatim>\<open>Drift_Spec\<close>, \<^verbatim>\<open>Drift_Sound\<close>: re-ingestion of
    a revision, \<^verbatim>\<open>corpus/source_graph/identity.rs\<close> and \<^verbatim>\<open>corpus/drift/\<close>.
  \<^item> \<^verbatim>\<open>Source_Lock\<close>, \<^verbatim>\<open>Source_Lock_Spec\<close>: \<^verbatim>\<open>corpus/source/lock.rs\<close> and the baseline transition
    (\<^verbatim>\<open>corpus/source/lineage/transition.rs\<close>). \<^verbatim>\<open>Source_Verify\<close>: \<^verbatim>\<open>corpus/source/verify.rs\<close> over a file
    system with symbolic links.
  \<^item> \<^verbatim>\<open>Corpus_Loader\<close>, \<^verbatim>\<open>Loader_Spec\<close>: the record loaders and \<^verbatim>\<open>corpus/index.rs\<close>; the locale
    \<open>commuting\<close> gives independence of the file layout. \<^verbatim>\<open>Proposals\<close>, \<^verbatim>\<open>Proposal_Spec\<close>:
    \<^verbatim>\<open>corpus/proposal.rs\<close>, the append-only store of proposals.

  \<^bold>\<open>Trace, reports, compliance.\<close>
  \<^item> \<^verbatim>\<open>Trace_Entries\<close>, \<^verbatim>\<open>Trace_Validation\<close>, \<^verbatim>\<open>Trace_Spec\<close>, \<^verbatim>\<open>Uuid_Backfill\<close>, \<^verbatim>\<open>Trace_Evidence\<close>: \<^verbatim>\<open>trace/\<close>,
    the adapter \<^verbatim>\<open>corpus/legacy.rs\<close> and the assurance levels of \<^verbatim>\<open>policy/\<close>.
  \<^item> \<^verbatim>\<open>Diagnostics\<close>, \<^verbatim>\<open>Requirement_Report\<close>, \<^verbatim>\<open>Requirement_Spec\<close>, \<^verbatim>\<open>Requirement_Builders\<close>,
    \<^verbatim>\<open>Requirement_Verdicts\<close>, \<^verbatim>\<open>Requirement_Layers\<close>, \<^verbatim>\<open>Requirement_Cascade\<close>: \<^verbatim>\<open>trace/requirement_report.rs\<close>
    with its modules and \<^verbatim>\<open>trace/selector_check.rs\<close>. The verdict of a node is defined on the graph; the
    indexes and the cascade over the layers are proved to compute it.
  \<^item> \<^verbatim>\<open>Coverage_Gate\<close>, \<^verbatim>\<open>Compliance\<close>, \<^verbatim>\<open>Compliance_Spec\<close>: \<^verbatim>\<open>coverage/\<close> and \<^verbatim>\<open>compliance/\<close>.

  \<^bold>\<open>Bundle.\<close>
  \<^item> \<^verbatim>\<open>Bundle_Store\<close>, \<^verbatim>\<open>Bundle_Index\<close>, \<^verbatim>\<open>Test_Output\<close>: a directory as a map from component paths to
    contents, hashing over it, the records of a bundle, captured test output.
  \<^item> \<^verbatim>\<open>Verify_Checks\<close>, \<^verbatim>\<open>Verify_Bundle\<close>: \<^verbatim>\<open>verify/\<close> with every finding. \<^verbatim>\<open>Bundle_Builder\<close>:
    \<^verbatim>\<open>bundle/builder.rs\<close>, its modules, and the closing sequence of
    \<^verbatim>\<open>src/crates/cargo-evidence/src/cli/generate/finalize.rs\<close>.
  \<^item> \<^verbatim>\<open>Bundle_Spec\<close>, \<^verbatim>\<open>Bundle_Frame\<close>, \<^verbatim>\<open>Bundle_Seal\<close>, \<^verbatim>\<open>Bundle_Closing\<close>, \<^verbatim>\<open>Bundle_Listing\<close>: what a sealed
    bundle verifies as, what a verification does not read, and what a listing fixes.
  \<^item> \<^verbatim>\<open>Reproduction\<close>, \<^verbatim>\<open>Bundle_Diff\<close>, \<^verbatim>\<open>Diff_Capture\<close>, \<^verbatim>\<open>Diff_Assurance\<close>, \<^verbatim>\<open>Diff_Spec\<close>:
    \<^verbatim>\<open>verify/reproduction.rs\<close>, \<^verbatim>\<open>diff.rs\<close> and the fifteen categories of \<^verbatim>\<open>diff/\<close>.

  The \<^verbatim>\<open>_Properties\<close> theories state the numbered properties, each with a witness where it
  has a hypothesis; \<^verbatim>\<open>Demo_Data\<close>, \<^verbatim>\<open>Demo_Corpus\<close> and \<^verbatim>\<open>Demo_Bundle\<close> hold the concrete inputs.

  \<^bold>\<open>What the properties show.\<close> \<^verbatim>\<open>Source_Properties\<close>: when a patch applies and what it leaves, what
  the validator of a committed graph decides. \<^verbatim>\<open>Corpus_Properties\<close>: what the validation of a corpus
  decides, the lifecycles, the approval boundary, the effective graph. \<^verbatim>\<open>Trace_Properties\<close>: the
  legacy trace, its backfill and the evidence claim. \<^verbatim>\<open>Drift_Properties\<close>: re-ingestion.
  \<^verbatim>\<open>Bundle_Properties\<close>: a sealed bundle and its envelope. \<^verbatim>\<open>Lock_Properties\<close>: the lock and baseline
  transitions. \<^verbatim>\<open>Loader_Properties\<close> and \<^verbatim>\<open>Proposal_Properties\<close>: loading and the proposal store.
  \<^verbatim>\<open>Compliance_Properties\<close>: the coverage gate and the objectives. \<^verbatim>\<open>Requirement_Properties\<close>: the
  requirement report. \<^verbatim>\<open>Source_Verify_Properties\<close>: vendored material. \<^verbatim>\<open>Diff_Properties\<close>: the comparison
  of bundles. Some of them record behaviour that differs from its documentation or looks unintended;
  the texts before them say so.

  \<^bold>\<open>Parameters.\<close> Code outside the repository is an argument. \<open>platform\<close>: SHA-256, the rendering of
  \<^verbatim>\<open>f64\<close>, the parsers of uuids and time stamps, Unicode normalization; no property assumes that the
  hash is injective, those that need it say \<open>unless two inputs collide\<close>. \<open>codec\<close> and
  \<open>diff_readers\<close>: the JSON and TOML readers and writers; the hypotheses on them (\<open>codec_ok\<close>,
  \<open>decodes_maps\<close>, the readers of the lock) state that a written value reads back or that maps have
  distinct keys. \<open>corpus_host\<close>, \<open>host\<close>, \<open>append_env\<close>: the file system, the clock, fresh uuids and git.
  Minted uids come from a supply indexed by a counter. Texts of errors are arguments where the code
  only prints them.

  \<^bold>\<open>Bounds and termination.\<close> Loops are structural recursions, or functions with a proved measure: the
  cycle walk (uids not yet on the path), the walk to a root, the trimming of strings. The resolution
  of paths counts symbolic links up to 40, the limit of Linux, after which it fails with an error as
  the system call does. The coverage gate is exact for counts below 2 to the 45: there the rounding of
  the quotient cannot cross a threshold. Lengths that are framed as \<^verbatim>\<open>u64\<close> are assumed below 2 to the
  64. Sums of counts in the comparison wrap, as in a release build.

  \<^bold>\<open>Not modelled.\<close> The command line and the MCP server apart from the closing sequence; the ingestion
  adapters, which translate the events of third-party parsers; probes of the host, cargo and git; the
  tables of rules and the JSON schemas; the trace matrix, the agent context, the floors, the scan of
  a live workspace for boundary violations and the discovery of input files; concurrency, since the
  library runs each operation on its own. File permissions and partial writes are outside the model
  of directories: a write succeeds whole or fails.
\<close>

end
